(* ===== verification/Prelude.thy ===== *)
theory Prelude
  imports Main "HOL-Library.Char_ord" "HOL-Library.List_Lexorder"
begin

text \<open>
  What the portal theories share: text and truthiness as Python and SQLite
  treat them, SQL statements over a table kept as the list of its rows, the
  errors the backend raises, and the interfaces (locales) the components rely on.

  Text is a \<^typ>\<open>string\<close>, read as the UTF-8 bytes of the Python \<open>str\<close>.
  Equality, concatenation and substring search agree on both readings.  Case
  mapping touches the ASCII letters only, which is what SQLite's \<open>UPPER\<close> does,
  and what Python's \<open>upper\<close>/\<open>lower\<close> do on text without other cased letters.
\<close>

subsection \<open>Collections of facts\<close>

named_theorems frame "what an operation leaves alone"
named_theorems inv_rules "operations keep the store invariant"

subsection \<open>Python text and truthiness\<close>

definition char_upper :: "char \<Rightarrow> char" where
  "char_upper c = (if 97 \<le> (of_char c :: nat) \<and> of_char c \<le> (122::nat)
                   then char_of ((of_char c :: nat) - 32) else c)"

definition char_lower :: "char \<Rightarrow> char" where
  "char_lower c = (if 65 \<le> (of_char c :: nat) \<and> of_char c \<le> (90::nat)
                   then char_of ((of_char c :: nat) + 32) else c)"

definition str_upper :: "string \<Rightarrow> string" where
  "str_upper s = map char_upper s"

definition str_lower :: "string \<Rightarrow> string" where
  "str_lower s = map char_lower s"

text \<open>The bytes Python strips: tab to carriage return, the separators 28 to 31, space.\<close>

definition is_space :: "char \<Rightarrow> bool" where
  "is_space c = (let n = (of_char c :: nat)
                 in (9 \<le> n \<and> n \<le> 13) \<or> (28 \<le> n \<and> n \<le> 32))"

definition str_strip :: "string \<Rightarrow> string" where
  "str_strip s = rev (dropWhile is_space (rev (dropWhile is_space s)))"

text \<open>\<open>a or b\<close> on text, and on a value that may also be \<open>None\<close>.\<close>

definition str_or :: "string \<Rightarrow> string \<Rightarrow> string" where
  "str_or a b = (if a = [] then b else a)"

fun opt_or :: "string option \<Rightarrow> string \<Rightarrow> string" where
  "opt_or None b = b"
| "opt_or (Some a) b = str_or a b"

text \<open>\<open>needle in text\<close>, \<open>startswith\<close> and \<open>replace\<close>.\<close>

fun starts_with :: "string \<Rightarrow> string \<Rightarrow> bool" where
  "starts_with [] s = True"
| "starts_with (p # ps) [] = False"
| "starts_with (p # ps) (c # cs) = (p = c \<and> starts_with ps cs)"

fun str_in :: "string \<Rightarrow> string \<Rightarrow> bool" where
  "str_in p [] = (p = [])"
| "str_in p (c # cs) = (starts_with p (c # cs) \<or> str_in p cs)"

text \<open>\<open>s.replace(p, r)\<close> for a nonempty \<open>p\<close>: leftmost, not overlapping.\<close>

function str_replace :: "string \<Rightarrow> string \<Rightarrow> string \<Rightarrow> string" where
  "str_replace p r s =
     (if p = [] \<or> s = [] then s
      else if starts_with p s then r @ str_replace p r (drop (length p) s)
      else hd s # str_replace p r (tl s))"
  by pat_completeness auto
termination
  by (relation "measure (\<lambda>(p, r, s). length s)") (auto simp: neq_Nil_conv)

declare str_replace.simps [simp del]

text \<open>SQLite \<open>LIKE\<close>: \<open>%\<close> is any run of characters, \<open>_\<close> any one; callers upper-case both sides.\<close>

fun sql_like :: "string \<Rightarrow> string \<Rightarrow> bool" where
  "sql_like [] s = (s = [])"
| "sql_like (p # ps) [] = (p = CHR ''%'' \<and> sql_like ps [])"
| "sql_like (p # ps) (c # cs) =
     (if p = CHR ''%'' then sql_like ps (c # cs) \<or> sql_like (p # ps) cs
      else (p = CHR ''_'' \<or> p = c) \<and> sql_like ps cs)"

text \<open>\<open>list(dict.fromkeys(xs))\<close>: the first occurrence of each element, in order.\<close>

definition dedup :: "'a list \<Rightarrow> 'a list" where
  "dedup xs = rev (remdups (rev xs))"

text \<open>\<open>sorted(set(xs))\<close>.\<close>

definition sorted_set :: "string list \<Rightarrow> string list" where
  "sorted_set xs = sort (remdups xs)"

text \<open>\<open>xs.remove(x)\<close> after \<open>x in xs\<close>: the first occurrence goes.\<close>

definition list_remove :: "'a \<Rightarrow> 'a list \<Rightarrow> 'a list" where
  "list_remove x xs = (if x \<in> set xs then remove1 x xs else xs)"

lemma set_sorted_set [simp]: "set (sorted_set xs) = set xs"
  by (simp add: sorted_set_def)

lemma set_dedup [simp]: "set (dedup xs) = set xs"
  by (simp add: dedup_def)

lemma distinct_dedup [simp]: "distinct (dedup xs)"
  by (simp add: dedup_def)

lemma str_or_Nil [simp]: "str_or [] b = b"
  by (simp add: str_or_def)

lemma str_or_nonempty [simp]: "a \<noteq> [] \<Longrightarrow> str_or a b = a"
  by (simp add: str_or_def)

lemma str_or_Nil2 [simp]: "str_or a [] = a"
  by (simp add: str_or_def)

lemma starts_with_append [simp]: "starts_with p (p @ s)"
  by (induction p) auto

lemma starts_with_iff: "starts_with p s \<longleftrightarrow> (\<exists>t. s = p @ t)"
  by (induction p s rule: starts_with.induct) auto

lemma str_in_iff: "str_in p s \<longleftrightarrow> (\<exists>u v. s = u @ p @ v)"
proof (induction p s rule: str_in.induct)
  case (1 p)
  then show ?case by auto
next
  case (2 p c cs)
  show ?case
  proof
    assume "str_in p (c # cs)"
    then consider "starts_with p (c # cs)" | "str_in p cs" by auto
    then show "\<exists>u v. c # cs = u @ p @ v"
    proof cases
      case 1
      then show ?thesis by (metis append_Nil starts_with_iff)
    next
      case 2
      with "2.IH" show ?thesis by (metis append_Cons)
    qed
  next
    assume "\<exists>u v. c # cs = u @ p @ v"
    then obtain u v where uv: "c # cs = u @ p @ v" by blast
    show "str_in p (c # cs)"
    proof (cases u)
      case Nil
      with uv have "starts_with p (c # cs)" by (simp add: starts_with_iff)
      then show ?thesis by simp
    next
      case (Cons a u')
      with uv have "cs = u' @ p @ v" by simp
      with "2.IH" show ?thesis by auto
    qed
  qed
qed

text \<open>Statements that may raise, one after another: the first error ends the sequence.\<close>

definition sum_bind :: "'e + 'a \<Rightarrow> ('a \<Rightarrow> 'e + 'b) \<Rightarrow> 'e + 'b" where
  "sum_bind m f = (case m of Inl e \<Rightarrow> Inl e | Inr x \<Rightarrow> f x)"

fun sum_fold :: "('x \<Rightarrow> 's \<Rightarrow> 'e + 's) \<Rightarrow> 'x list \<Rightarrow> 's \<Rightarrow> 'e + 's" where
  "sum_fold f [] s = Inr s"
| "sum_fold f (x # xs) s = sum_bind (f x s) (sum_fold f xs)"

lemma sum_bind_simps [simp]: "sum_bind (Inl e) f = Inl e" "sum_bind (Inr x) f = f x"
  by (simp_all add: sum_bind_def)

lemma sum_bind_InrE:
  assumes "sum_bind m f = Inr y"
  obtains x where "m = Inr x" and "f x = Inr y"
  using assms by (auto simp: sum_bind_def split: sum.splits)

lemma sum_fold_inv:
  assumes "\<And>x s s'. I s \<Longrightarrow> f x s = Inr s' \<Longrightarrow> I s'" and "I s" and "sum_fold f xs s = Inr s'"
  shows "I s'"
  using assms(2,3)
proof (induction xs arbitrary: s)
  case (Cons x xs)
  from Cons.prems(2) obtain s1 where "f x s = Inr s1" and "sum_fold f xs s1 = Inr s'"
    by (auto elim: sum_bind_InrE)
  with Cons assms(1) show ?case by blast
qed simp

lemma fold_inv:
  assumes "\<And>x s. I s \<Longrightarrow> I (f x s)" and "I s"
  shows "I (fold f xs s)"
  using assms by (induction xs arbitrary: s) auto

text \<open>
  Statements that may raise and change a state: the state reached so far stays when one
  raises, as every statement of the gateway commits on its own.
\<close>

definition and_then ::
  "'s \<times> ('e + 'a) \<Rightarrow> ('a \<Rightarrow> 's \<Rightarrow> 's \<times> ('e + 'b)) \<Rightarrow> 's \<times> ('e + 'b)" where
  "and_then m f = (case m of (s, Inl e) \<Rightarrow> (s, Inl e) | (s, Inr x) \<Rightarrow> f x s)"

lemma and_then_simps [simp]:
  "and_then (s, Inl e) f = (s, Inl e)" "and_then (s, Inr x) f = f x s"
  by (simp_all add: and_then_def)

lemma and_then_inv:
  assumes "I (fst m)" and "\<And>x s. I s \<Longrightarrow> I (fst (f x s))"
  shows "I (fst (and_then m f))"
  using assms by (cases m; cases "snd m") auto

lemma and_then_InrE:
  assumes "and_then m f = (s', Inr y)"
  obtains s x where "m = (s, Inr x)" and "f x s = (s', Inr y)"
  using assms by (cases m; cases "snd m") auto

lemma and_then_result: "snd m = Inl e \<Longrightarrow> and_then m f = (fst m, Inl e)"
  by (cases m) auto

subsection \<open>SQL statements over a table\<close>

text \<open>
  A table is the list of its rows in insertion order.  A query that reads one
  row (\<open>fetchone\<close>) returns the first row that satisfies its \<open>WHERE\<close> clause; the
  tables' \<open>UNIQUE\<close> constraints leave at most one such row wherever the code uses it
  as a lookup.
\<close>

definition fetchone :: "('r \<Rightarrow> bool) \<Rightarrow> 'r list \<Rightarrow> 'r option" where
  "fetchone P t = find P t"

definition update_where :: "('r \<Rightarrow> bool) \<Rightarrow> ('r \<Rightarrow> 'r) \<Rightarrow> 'r list \<Rightarrow> 'r list" where
  "update_where P f t = map (\<lambda>r. if P r then f r else r) t"

definition delete_where :: "('r \<Rightarrow> bool) \<Rightarrow> 'r list \<Rightarrow> 'r list" where
  "delete_where P t = filter (\<lambda>r. \<not> P r) t"

definition rowcount :: "('r \<Rightarrow> bool) \<Rightarrow> 'r list \<Rightarrow> nat" where
  "rowcount P t = length (filter P t)"

text \<open>\<open>INSERT ... ON CONFLICT DO NOTHING\<close> and \<open>... DO UPDATE\<close>; \<open>P\<close> recognises the conflicting row.\<close>

definition insert_or_ignore :: "('r \<Rightarrow> bool) \<Rightarrow> 'r \<Rightarrow> 'r list \<Rightarrow> 'r list" where
  "insert_or_ignore P r t = (if list_ex P t then t else t @ [r])"

definition upsert :: "('r \<Rightarrow> bool) \<Rightarrow> ('r \<Rightarrow> 'r) \<Rightarrow> 'r \<Rightarrow> 'r list \<Rightarrow> 'r list" where
  "upsert P f r t = (if list_ex P t then update_where P f t else t @ [r])"

text \<open>\<open>LIMIT n OFFSET k\<close>: a negative limit is no limit, a negative offset is none.\<close>

definition limit_offset :: "int \<Rightarrow> int \<Rightarrow> 'r list \<Rightarrow> 'r list" where
  "limit_offset n k t = (let u = drop (nat k) t in if n < 0 then u else take (nat n) u)"

text \<open>\<open>ORDER BY key DESC\<close>, and \<open>sort(reverse=True)\<close>: equal keys keep their order.\<close>

definition order_desc :: "('r \<Rightarrow> 'k::linorder) \<Rightarrow> 'r list \<Rightarrow> 'r list" where
  "order_desc key t = rev (sort_key key (rev t))"

lemma fetchone_SomeD: "fetchone P t = Some r \<Longrightarrow> r \<in> set t \<and> P r"
  by (metis fetchone_def find_Some_iff nth_mem)

lemma fetchone_None: "fetchone P t = None \<longleftrightarrow> (\<forall>r\<in>set t. \<not> P r)"
  by (auto simp: fetchone_def find_None_iff)

lemma fetchone_Nil [simp]: "fetchone P [] = None"
  by (simp add: fetchone_def)

lemma fetchone_Cons [simp]: "fetchone P (x # xs) = (if P x then Some x else fetchone P xs)"
  by (simp add: fetchone_def)

lemma fetchone_append: "fetchone P (xs @ ys) =
    (case fetchone P xs of None \<Rightarrow> fetchone P ys | Some r \<Rightarrow> Some r)"
  by (induction xs) auto

lemma fetchone_update_where:
  assumes "\<And>r. P (f r) = P r"
  shows "fetchone P (update_where Q f t) = map_option (\<lambda>r. if Q r then f r else r) (fetchone P t)"
  using assms by (induction t) (auto simp: update_where_def)

lemma fetchone_update_other:
  assumes "\<And>r. Q r \<Longrightarrow> \<not> P r" and "\<And>r. Q r \<Longrightarrow> \<not> P (f r)"
  shows "fetchone P (update_where Q f t) = fetchone P t"
  using assms by (induction t) (auto simp: update_where_def)

lemma fetchone_update_gone:
  assumes "\<And>r. P r \<Longrightarrow> Q r" and "\<And>r. Q r \<Longrightarrow> \<not> P (f r)"
  shows "fetchone P (update_where Q f t) = None"
  using assms by (induction t) (auto simp: update_where_def)

lemma fetchone_delete_other:
  assumes "\<And>r. P r \<Longrightarrow> \<not> Q r"
  shows "fetchone P (delete_where Q t) = fetchone P t"
  using assms by (induction t) (auto simp: delete_where_def)

lemma update_where_Nil [simp]: "update_where P f [] = []"
  by (simp add: update_where_def)

lemma update_where_Cons [simp]:
  "update_where P f (x # xs) = (if P x then f x else x) # update_where P f xs"
  by (simp add: update_where_def)

lemma delete_where_Nil [simp]: "delete_where P [] = []"
  by (simp add: delete_where_def)

lemma delete_where_Cons [simp]:
  "delete_where P (x # xs) = (if P x then delete_where P xs else x # delete_where P xs)"
  by (simp add: delete_where_def)

lemma set_delete_where [simp]: "set (delete_where P t) = {r \<in> set t. \<not> P r}"
  by (auto simp: delete_where_def)

lemma set_update_where: "set (update_where P f t) = (\<lambda>r. if P r then f r else r) ` set t"
  by (simp add: update_where_def)

lemma update_whereE:
  assumes "r \<in> set (update_where P f t)"
  obtains (hit) x where "x \<in> set t" and "P x" and "r = f x" | (other) "r \<in> set t" and "\<not> P r"
  using assms by (auto simp: set_update_where split: if_splits)

lemma update_where_id: "(\<And>r. r \<in> set t \<Longrightarrow> \<not> P r) \<Longrightarrow> update_where P f t = t"
  by (induction t) (auto simp: update_where_def)

lemma length_update_where [simp]: "length (update_where P f t) = length t"
  by (simp add: update_where_def)

text \<open>Unique keys survive an update that keeps the key, a deletion, and a guarded insertion.\<close>

lemma map_key_update_where:
  assumes "\<And>r. key (f r) = key r"
  shows "map key (update_where P f t) = map key t"
  using assms by (simp add: update_where_def comp_def)

lemma distinct_key_update [intro]:
  assumes "distinct (map key t)" and "\<And>r. key (f r) = key r"
  shows "distinct (map key (update_where P f t))"
  using assms by (simp add: map_key_update_where)

lemma distinct_key_delete [intro]:
  "distinct (map key t) \<Longrightarrow> distinct (map key (delete_where P t))"
  by (simp add: delete_where_def distinct_map_filter)

lemma distinct_key_upsert:
  assumes "distinct (map key t)" and "\<And>x. key (f x) = key x"
    and "\<And>x. x \<in> set t \<Longrightarrow> key x = key r \<Longrightarrow> P x"
  shows "distinct (map key (upsert P f r t))"
  using assms by (auto simp: upsert_def map_key_update_where list_ex_iff)

lemma distinct_key_insert_or_ignore:
  assumes "distinct (map key t)" and "\<And>x. x \<in> set t \<Longrightarrow> key x = key r \<Longrightarrow> P x"
  shows "distinct (map key (insert_or_ignore P r t))"
  using assms by (auto simp: insert_or_ignore_def list_ex_iff)

text \<open>With unique keys a lookup by key finds the row itself.\<close>

lemma fetchone_unique:
  assumes "distinct (map key t)" and "r \<in> set t" and "P r"
    and "\<And>x. x \<in> set t \<Longrightarrow> P x \<Longrightarrow> key x = key r"
  shows "fetchone P t = Some r"
proof (cases "fetchone P t")
  case None
  with assms(2,3) show ?thesis by (simp add: fetchone_None)
next
  case (Some x)
  then have "x \<in> set t" "P x" by (auto dest: fetchone_SomeD)
  with assms have "x = r" by (metis distinct_map inj_onD)
  with Some show ?thesis by simp
qed

lemma set_order_desc [simp]: "set (order_desc key t) = set t"
  by (simp add: order_desc_def)

lemma length_order_desc [simp]: "length (order_desc key t) = length t"
  by (simp add: order_desc_def)

lemma sorted_order_desc: "sorted (rev (map key (order_desc key t)))"
  by (simp add: order_desc_def rev_map flip: map_map)

lemma set_limit_offset: "set (limit_offset n k t) \<subseteq> set t"
  by (auto simp: limit_offset_def Let_def dest: in_set_takeD in_set_dropD)

lemma length_limit_offset: "0 \<le> n \<Longrightarrow> int (length (limit_offset n k t)) \<le> n"
  by (simp add: limit_offset_def Let_def)

subsection \<open>Interfaces\<close>

text \<open>
  A store read and written by key.  \<open>keyed_map\<close> is what a client relies on when it
  only writes; \<open>keyed_store\<close> adds removal.  \<open>ok\<close> is the provider's invariant.
\<close>

locale keyed_map =
  fixes ok :: "'s \<Rightarrow> bool"
    and get :: "'k \<Rightarrow> 's \<Rightarrow> 'v option"
    and put :: "'k \<Rightarrow> 'v \<Rightarrow> 's \<Rightarrow> 's"
  assumes get_put: "ok s \<Longrightarrow> get j (put k v s) = (if j = k then Some v else get j s)"
    and ok_put: "ok s \<Longrightarrow> ok (put k v s)"
begin

lemma ok_put_all: "ok s \<Longrightarrow> ok (fold (\<lambda>k. put k v) ks s)"
  by (rule fold_inv) (rule ok_put)

lemma get_put_all:
  "ok s \<Longrightarrow> get j (fold (\<lambda>k. put k v) ks s) = (if j \<in> set ks then Some v else get j s)"
  by (induction ks arbitrary: s) (auto simp: get_put ok_put)

lemma put_last_wins: "ok s \<Longrightarrow> get k (put k w (put k v s)) = Some w"
  by (simp add: get_put ok_put)

end

locale keyed_store = keyed_map +
  fixes remove :: "'b \<Rightarrow> 'a \<Rightarrow> 'a"
  assumes get_remove: "ok s \<Longrightarrow> get j (remove k s) = (if j = k then None else get j s)"
    and ok_remove: "ok s \<Longrightarrow> ok (remove k s)"
begin

lemma get_remove_all:
  "ok s \<Longrightarrow> get j (fold remove ks s) = (if j \<in> set ks then None else get j s)"
  by (induction ks arbitrary: s) (auto simp: get_remove ok_remove)

lemma ok_remove_all: "ok s \<Longrightarrow> ok (fold remove ks s)"
  by (rule fold_inv) (rule ok_remove)

lemma put_remove: "ok s \<Longrightarrow> get k (remove k (put k v s)) = None"
  by (simp add: get_remove ok_put)

end

text \<open>
  An operation with a guard: when the guard fails it raises and leaves the state
  alone.  A state change, or a result, then shows that the guard held.
\<close>

locale guarded_op =
  fixes guard :: "'s \<Rightarrow> bool"
    and run :: "'s \<Rightarrow> 's \<times> ('e + 'a)"
  assumes denied: "\<not> guard s \<Longrightarrow> \<exists>e. run s = (s, Inl e)"
begin

lemma effect_needs_guard: "fst (run s) \<noteq> s \<Longrightarrow> guard s"
  using denied [of s] by force

lemma result_needs_guard: "snd (run s) = Inr x \<Longrightarrow> guard s"
  using denied [of s] by force

lemma denied_unchanged: "\<not> guard s \<Longrightarrow> fst (run s) = s"
  using denied [of s] by force

end

text \<open>A transition system with an inductive invariant.\<close>

locale invariant_system =
  fixes init :: "'s \<Rightarrow> bool"
    and step :: "'s \<Rightarrow> 's \<Rightarrow> bool"
    and inv :: "'s \<Rightarrow> bool"
  assumes init_inv: "init s \<Longrightarrow> inv s"
    and step_inv: "inv s \<Longrightarrow> step s t \<Longrightarrow> inv t"
begin

lemma steps_inv: "step\<^sup>*\<^sup>* s t \<Longrightarrow> inv s \<Longrightarrow> inv t"
  by (induction rule: rtranclp_induct) (auto intro: step_inv)

lemma reachable_inv: "init s \<Longrightarrow> step\<^sup>*\<^sup>* s t \<Longrightarrow> inv t"
  using steps_inv init_inv by blast

end

text \<open>An encoder with its decoder.\<close>

locale codec =
  fixes encode :: "'a \<Rightarrow> 'c"
    and decode :: "'c \<Rightarrow> 'a option"
  assumes decode_encode: "decode (encode x) = Some x"
begin

lemma encode_inj: "encode x = encode y \<Longrightarrow> x = y"
  by (metis decode_encode option.inject)

lemma encode_inj_iff [simp]: "encode x = encode y \<longleftrightarrow> x = y"
  using encode_inj by blast

end

end
