(* ===== verification/PortalSchema.thy ===== *)
theory PortalSchema
  imports Prelude
begin

text \<open>
  The portal database of \<open>extensions/qms_agent_backend/portal_store.py\<close>: one record
  type per table of \<open>_init_db\<close>, the database as the record of its tables, the
  environment the store reads (clock, random identifiers, PBKDF2), the errors the
  backend raises, and the schema's \<open>UNIQUE\<close> constraints as the invariant \<open>db_ok\<close>.

  A column \<open>x_json\<close> holds the list that its text encodes: the store is the only
  writer of these columns and always writes \<open>json.dumps\<close> of a list of strings.
  \<open>is_active\<close> and the other 0/1 columns are \<^typ>\<open>bool\<close>; a nullable column is an
  \<^typ>\<open>'a option\<close>.
\<close>

subsection \<open>The environment\<close>

text \<open>
  Readings are numbered by the database's tick counter, so that two readings may
  differ: \<open>_utc_now\<close>, \<open>int(time.time())\<close>, \<open>uuid.uuid4().hex\<close>, \<open>os.urandom(16).hex()\<close>.
  \<open>pbkdf2\<close> is \<open>hashlib.pbkdf2_hmac("sha256", password, salt, 120_000).hex()\<close>, and
  \<open>hmac_sha256 secret body\<close> the 32 bytes of \<open>hmac.new(secret, body, sha256).digest()\<close>.
\<close>

record env =
  utc_now :: "nat \<Rightarrow> string"
  epoch_now :: "nat \<Rightarrow> int"
  uuid4_hex :: "nat \<Rightarrow> string"
  urandom_hex :: "nat \<Rightarrow> string"
  pbkdf2 :: "string \<Rightarrow> string \<Rightarrow> string"
  hmac_sha256 :: "string \<Rightarrow> string \<Rightarrow> string"

subsection \<open>Errors\<close>

text \<open>
  The exceptions of the backend.  The argument is the raise site's message; the
  portal's messages are English or Chinese sentences, named here by what they say.
\<close>

datatype message =
    UserExists string | DeptMissing string | Unauthorized | KbNotFound
  | OwnerDeptOnlyRequest | DeptAdminRequired | OwnerOnlyPrivate | BadScope
  | TargetLoginRequired | TargetLoginNotFound | TargetDeptsRequired
  | OwnerDeptOnlyInternal | BadPermission | ShareRightNeeded
  | UserNotFound string | ShareToSelf | RequestNotFound | RequestNotPending
  | ReviewerNotAdmin | KbPolicyNotFound | BeyondSharerRights | UnshareForbidden
  | OwnerOnlyDeptShare | BadMask | OwnerOnlyRevoke | DeptShareNotFound
  | BadShareId | UserShareNotFound | BadRevokeType | OnlyPrivateDeletable
  | OwnerOnlyDelete | DeleteForbidden | DeptNotAllowed | KbNameRequired
  | FilesRequired | AppendForbidden | ResourceForbidden | AgentNotFound
  | SessionNotFoundRagflow | SessionNotFound | SessionOwnerMismatch
  | QuestionRequired | DatasetNotFound | BadInteger

datatype py_error =
    ValueError message
  | PermissionError message
  | IntegrityError        \<comment> \<open>a \<open>UNIQUE\<close> or \<open>NOT NULL\<close> constraint of SQLite\<close>
  | KeyError string
  | OverflowError
  | RuntimeError string
  | RagError              \<comment> \<open>any exception of the RAGFlow client or of an HTTP call\<close>

type_synonym ('s, 'a) outcome = "'s \<times> (py_error + 'a)"

subsection \<open>The tables\<close>

record user_row =
  u_user_id :: string
  u_login_id :: string
  u_password_hash :: string
  u_display_name :: string
  u_email :: "string option"
  u_is_active :: bool
  u_ragflow_user_id :: "string option"
  u_ragflow_token :: "string option"
  u_created_at :: string
  u_updated_at :: string

record department_row =
  d_dept_id :: string
  d_dept_code :: string
  d_dept_name :: string
  d_parent_dept_id :: "string option"
  d_is_public :: bool
  d_is_active :: bool
  d_created_at :: string
  d_updated_at :: string

record user_department_row =
  ud_user_id :: string
  ud_dept_id :: string
  ud_role :: string
  ud_is_default :: bool
  ud_is_active :: bool
  ud_created_at :: string
  ud_updated_at :: string

text \<open>
  The columns of \<open>resource_policies\<close> that the access rules read come first: the
  gateway also builds such dictionaries by hand where a resource has no policy row.
\<close>

record policy_view =
  p_owner_dept_id :: string
  p_owner_user_id :: "string option"
  p_visibility :: string
  p_allow_roles :: "string list"
  p_allow_dept_ids :: "string list"
  p_deny_dept_ids :: "string list"
  p_category :: string

record policy_row = policy_view +
  p_policy_id :: string
  p_resource_type :: string
  p_resource_id :: string
  p_is_active :: bool
  p_created_by :: "string option"
  p_created_at :: string
  p_updated_at :: string

record audit_row =
  a_audit_id :: string
  a_request_id :: string
  a_event_time :: string
  a_user_id :: "string option"
  a_dept_id :: "string option"
  a_action :: string
  a_resource_type :: "string option"
  a_resource_id :: "string option"
  a_session_id :: "string option"
  a_status :: string
  a_error_code :: "string option"
  a_error_message :: "py_error option"
  a_payload_digest :: "string option"

record session_row =
  s_session_id :: string
  s_user_id :: string
  s_dept_id :: string
  s_agent_id :: string
  s_kb_ids :: "string list"
  s_is_private :: bool
  s_kb_overridden :: bool
  s_created_at :: string
  s_updated_at :: string
  s_is_active :: bool

record 'ref message_row =
  m_id :: nat
  m_session_id :: string
  m_role :: string
  m_content :: string
  m_references :: "'ref list"
  m_created_at :: string

record request_row =
  r_request_id :: string
  r_kb_id :: string
  r_owner_dept_id :: string
  r_requester_user_id :: string
  r_target_scope :: string
  r_target_dept_ids :: "string list"
  r_target_user_id :: "string option"
  r_reason :: "string option"
  r_status :: string
  r_reviewer_user_id :: "string option"
  r_review_comment :: "string option"
  r_created_at :: string
  r_updated_at :: string
  r_requested_permission :: int
  r_parent_share_id :: "nat option"

record share_row =
  k_id :: nat
  k_kb_id :: string
  k_target_user_id :: string
  k_permission_mask :: int
  k_shared_by :: string
  k_approved_by :: "string option"
  k_parent_share_id :: "nat option"
  k_status :: string
  k_created_at :: string
  k_updated_at :: string

text \<open>
  \<open>share_seq\<close> and \<open>message_seq\<close> are the largest \<open>AUTOINCREMENT\<close> ids issued so far;
  \<open>ticks\<close> counts the readings of the environment.
\<close>

record 'ref db =
  users :: "user_row list"
  departments :: "department_row list"
  user_departments :: "user_department_row list"
  resource_policies :: "policy_row list"
  audit_logs :: "audit_row list"
  portal_sessions :: "session_row list"
  portal_messages :: "'ref message_row list"
  kb_share_requests :: "request_row list"
  kb_shares :: "share_row list"
  share_seq :: nat
  message_seq :: nat
  ticks :: nat

definition empty_db :: "'ref db" where
  "empty_db = \<lparr>users = [], departments = [], user_departments = [], resource_policies = [],
     audit_logs = [], portal_sessions = [], portal_messages = [], kb_share_requests = [],
     kb_shares = [], share_seq = 0, message_seq = 0, ticks = 0\<rparr>"

definition tick :: "'ref db \<Rightarrow> 'ref db" where
  "tick s = s\<lparr>ticks := Suc (ticks s)\<rparr>"

text \<open>\<open>_utc_now()\<close> and \<open>_new_id(prefix)\<close> at the current reading.\<close>

definition now :: "env \<Rightarrow> 'ref db \<Rightarrow> string" where
  "now E s = utc_now E (ticks s)"

definition new_id :: "env \<Rightarrow> string \<Rightarrow> 'ref db \<Rightarrow> string" where
  "new_id E prefix s = prefix @ uuid4_hex E (ticks s)"

lemma tick_simps [simp]:
  "users (tick s) = users s" "departments (tick s) = departments s"
  "user_departments (tick s) = user_departments s"
  "resource_policies (tick s) = resource_policies s"
  "audit_logs (tick s) = audit_logs s" "portal_sessions (tick s) = portal_sessions s"
  "portal_messages (tick s) = portal_messages s"
  "kb_share_requests (tick s) = kb_share_requests s" "kb_shares (tick s) = kb_shares s"
  "share_seq (tick s) = share_seq s" "message_seq (tick s) = message_seq s"
  "ticks (tick s) = Suc (ticks s)"
  by (simp_all add: tick_def)

subsection \<open>The schema's constraints\<close>

abbreviation policy_key :: "policy_row \<Rightarrow> string \<times> string" where
  "policy_key p \<equiv> (p_resource_type p, p_resource_id p)"

abbreviation share_key :: "share_row \<Rightarrow> string \<times> string" where
  "share_key k \<equiv> (k_kb_id k, k_target_user_id k)"

abbreviation membership_key :: "user_department_row \<Rightarrow> string \<times> string" where
  "membership_key m \<equiv> (ud_user_id m, ud_dept_id m)"

definition shares_ok :: "'ref db \<Rightarrow> bool" where
  "shares_ok s \<longleftrightarrow> distinct (map share_key (kb_shares s)) \<and> distinct (map k_id (kb_shares s)) \<and>
     (\<forall>k\<in>set (kb_shares s). 0 < k_id k \<and> k_id k \<le> share_seq s)"

definition policies_ok :: "'ref db \<Rightarrow> bool" where
  "policies_ok s \<longleftrightarrow> distinct (map policy_key (resource_policies s)) \<and>
     distinct (map p_policy_id (resource_policies s))"

definition requests_ok :: "'ref db \<Rightarrow> bool" where
  "requests_ok s \<longleftrightarrow> distinct (map r_request_id (kb_share_requests s))"

definition sessions_ok :: "'ref db \<Rightarrow> bool" where
  "sessions_ok s \<longleftrightarrow> distinct (map s_session_id (portal_sessions s))"

definition messages_ok :: "'ref db \<Rightarrow> bool" where
  "messages_ok s \<longleftrightarrow> sorted_wrt (<) (map m_id (portal_messages s)) \<and>
     (\<forall>m\<in>set (portal_messages s). m_id m \<le> message_seq s)"

definition users_ok :: "'ref db \<Rightarrow> bool" where
  "users_ok s \<longleftrightarrow> distinct (map u_user_id (users s)) \<and> distinct (map u_login_id (users s)) \<and>
     distinct (map membership_key (user_departments s)) \<and>
     distinct (map d_dept_id (departments s))"

definition db_ok :: "'ref db \<Rightarrow> bool" where
  "db_ok s \<longleftrightarrow> users_ok s \<and> policies_ok s \<and> requests_ok s \<and> sessions_ok s \<and>
     messages_ok s \<and> shares_ok s"

lemma db_ok_parts:
  "db_ok s \<Longrightarrow> users_ok s" "db_ok s \<Longrightarrow> policies_ok s" "db_ok s \<Longrightarrow> requests_ok s"
  "db_ok s \<Longrightarrow> sessions_ok s" "db_ok s \<Longrightarrow> messages_ok s" "db_ok s \<Longrightarrow> shares_ok s"
  by (simp_all add: db_ok_def)

lemma db_ok_empty: "db_ok empty_db"
  by (simp add: db_ok_def users_ok_def policies_ok_def requests_ok_def sessions_ok_def
      messages_ok_def shares_ok_def empty_db_def)

lemma db_ok_tick [simp]: "db_ok (tick s) = db_ok s"
  by (simp add: db_ok_def users_ok_def policies_ok_def requests_ok_def sessions_ok_def
      messages_ok_def shares_ok_def)

text \<open>An operation that rewrites one table has only that table's constraint to show.\<close>

lemma db_ok_updates [simp]:
  "db_ok (s\<lparr>kb_shares := t, share_seq := n\<rparr>) \<longleftrightarrow> shares_ok (s\<lparr>kb_shares := t, share_seq := n\<rparr>) \<and>
     users_ok s \<and> policies_ok s \<and> requests_ok s \<and> sessions_ok s \<and> messages_ok s"
  "db_ok (s\<lparr>kb_shares := t\<rparr>) \<longleftrightarrow> shares_ok (s\<lparr>kb_shares := t\<rparr>) \<and>
     users_ok s \<and> policies_ok s \<and> requests_ok s \<and> sessions_ok s \<and> messages_ok s"
  "db_ok (s\<lparr>resource_policies := p\<rparr>) \<longleftrightarrow> policies_ok (s\<lparr>resource_policies := p\<rparr>) \<and>
     users_ok s \<and> requests_ok s \<and> sessions_ok s \<and> messages_ok s \<and> shares_ok s"
  "db_ok (s\<lparr>kb_share_requests := q\<rparr>) \<longleftrightarrow> requests_ok (s\<lparr>kb_share_requests := q\<rparr>) \<and>
     users_ok s \<and> policies_ok s \<and> sessions_ok s \<and> messages_ok s \<and> shares_ok s"
  "db_ok (s\<lparr>portal_sessions := v\<rparr>) \<longleftrightarrow> sessions_ok (s\<lparr>portal_sessions := v\<rparr>) \<and>
     users_ok s \<and> policies_ok s \<and> requests_ok s \<and> messages_ok s \<and> shares_ok s"
  "db_ok (s\<lparr>audit_logs := a\<rparr>) \<longleftrightarrow> db_ok s"
  by (auto simp: db_ok_def users_ok_def policies_ok_def requests_ok_def sessions_ok_def
      messages_ok_def shares_ok_def)

end
