(* ===== verification/PortalPerm.thy ===== *)
theory PortalPerm
  imports PortalSchema "HOL-Library.Word"
begin

unbundle bit_operations_syntax

text \<open>
  The permission bitmask of \<open>portal_store.py\<close> (READ 4, WRITE 2, SHARE 1) and the
  department identifiers.  Masks are Python integers (\<^typ>\<open>int\<close>); the lemmas read
  them bit by bit, and \<open>mask_le\<close> is the order in which grants are compared.
\<close>

subsection \<open>Permission masks\<close>

definition PERM_READ :: int where "PERM_READ = 4"
definition PERM_WRITE :: int where "PERM_WRITE = 2"
definition PERM_SHARE :: int where "PERM_SHARE = 1"
definition PERM_FULL :: int where "PERM_FULL = 7"

definition has_read :: "int \<Rightarrow> bool" where
  "has_read m \<longleftrightarrow> m AND PERM_READ \<noteq> 0"

definition has_write :: "int \<Rightarrow> bool" where
  "has_write m \<longleftrightarrow> m AND PERM_WRITE \<noteq> 0"

definition has_share :: "int \<Rightarrow> bool" where
  "has_share m \<longleftrightarrow> m AND PERM_SHARE \<noteq> 0"

text \<open>\<open>sep.join(parts)\<close>.\<close>

fun str_join :: "string \<Rightarrow> string list \<Rightarrow> string" where
  "str_join sep [] = []"
| "str_join sep [x] = x"
| "str_join sep (x # y # xs) = x @ sep @ str_join sep (y # xs)"

text \<open>The labels are Chinese words, given by their UTF-8 bytes.\<close>

definition label_read :: string where
  "label_read = [CHR 0xE5, CHR 0x8F, CHR 0xAF, CHR 0xE8, CHR 0xAF, CHR 0xBB]"
definition label_write :: string where
  "label_write = [CHR 0xE5, CHR 0x8F, CHR 0xAF, CHR 0xE6, CHR 0x94, CHR 0xB9, CHR 0xE5, CHR 0x86, CHR 0x99]"
definition label_share :: string where
  "label_share = [CHR 0xE5, CHR 0x8F, CHR 0xAF, CHR 0xE5, CHR 0x88, CHR 0x86, CHR 0xE4, CHR 0xBA, CHR 0xAB]"
definition label_sep :: string where
  "label_sep = [CHR 0xE3, CHR 0x80, CHR 0x81]"
definition label_none :: string where
  "label_none = [CHR 0xE6, CHR 0x97, CHR 0xA0, CHR 0xE6, CHR 0x9D, CHR 0x83, CHR 0xE9, CHR 0x99, CHR 0x90]"

definition perm_label :: "int \<Rightarrow> string" where
  "perm_label m =
     (let parts = (if has_read m then [label_read] else []) @
                  (if has_write m then [label_write] else []) @
                  (if has_share m then [label_share] else [])
      in if parts = [] then label_none else str_join label_sep parts)"

lemma has_read_bit: "has_read m \<longleftrightarrow> bit m 2"
  using and_exp_eq_0_iff_not_bit [of m 2] by (simp add: has_read_def PERM_READ_def)

lemma has_write_bit: "has_write m \<longleftrightarrow> bit m 1"
  using and_exp_eq_0_iff_not_bit [of m 1] by (simp add: has_write_def PERM_WRITE_def)

lemma has_share_bit: "has_share m \<longleftrightarrow> bit m 0"
  using and_exp_eq_0_iff_not_bit [of m 0] by (simp add: has_share_def PERM_SHARE_def)

lemmas perm_bits = has_read_bit has_write_bit has_share_bit

lemma has_or [simp]:
  "has_read (a OR b) \<longleftrightarrow> has_read a \<or> has_read b"
  "has_write (a OR b) \<longleftrightarrow> has_write a \<or> has_write b"
  "has_share (a OR b) \<longleftrightarrow> has_share a \<or> has_share b"
  by (simp_all add: perm_bits bit_or_iff)

lemma has_consts [simp]:
  "has_read PERM_READ" "\<not> has_write PERM_READ" "\<not> has_share PERM_READ"
  "has_read PERM_FULL" "has_write PERM_FULL" "has_share PERM_FULL"
  "\<not> has_read 0" "\<not> has_write 0" "\<not> has_share 0"
  by (simp_all add: has_read_def has_write_def has_share_def PERM_READ_def PERM_WRITE_def
      PERM_SHARE_def PERM_FULL_def)

text \<open>Every bit of \<open>a\<close> is a bit of \<open>b\<close>: the comparison \<open>(a | b) == b\<close> of the gateway.\<close>

definition mask_le :: "int \<Rightarrow> int \<Rightarrow> bool" where
  "mask_le a b \<longleftrightarrow> a OR b = b"

lemma mask_le_bits: "mask_le a b \<longleftrightarrow> (\<forall>n. bit a n \<longrightarrow> bit b n)"
  by (auto simp: mask_le_def bit_eq_iff bit_or_iff)

lemma mask_le_refl [simp]: "mask_le a a"
  by (simp add: mask_le_bits)

lemma mask_le_trans: "mask_le a b \<Longrightarrow> mask_le b c \<Longrightarrow> mask_le a c"
  by (simp add: mask_le_bits)

lemma mask_le_or [simp]: "mask_le a (a OR b)" "mask_le b (a OR b)"
  by (simp_all add: mask_le_bits bit_or_iff)

lemma mask_le_has:
  "mask_le a b \<Longrightarrow> has_read a \<Longrightarrow> has_read b"
  "mask_le a b \<Longrightarrow> has_write a \<Longrightarrow> has_write b"
  "mask_le a b \<Longrightarrow> has_share a \<Longrightarrow> has_share b"
  by (simp_all add: mask_le_bits perm_bits)

subsection \<open>Department identifiers\<close>

definition dept_aliases :: "(string \<times> string) list" where
  "dept_aliases =
     [(''dept_q'', ''dept_mp_q''), (''dept_plm'', ''dept_mp_plm''), (''dept_ap'', ''dept_mp_ap''),
      (''dept_mc'', ''dept_mp_mc''), (''dept_ai'', ''dept_mp_ap''), (''dept_md'', ''dept_mp_mc''),
      (''dept_at'', ''dept_mp_at''), (''dept_usdx'', ''dept_mp_usdx'')]"

definition normalize_dept_id :: "string \<Rightarrow> string" where
  "normalize_dept_id dept_id =
     (let raw = str_strip (str_or dept_id [])
      in case map_of dept_aliases raw of Some d \<Rightarrow> d | None \<Rightarrow> raw)"

definition dept_codes :: "(string \<times> string) list" where
  "dept_codes =
     [(''dept_mp'', ''MP''), (''dept_mp_q'', ''MP-Q''), (''dept_mp_plm'', ''MP-PLM''),
      (''dept_mp_ap'', ''MP-AP''), (''dept_mp_mc'', ''MP-MC''), (''dept_mp_usdx'', ''MP-US&DX''),
      (''dept_mp_at'', ''MP-AT'')]"

definition dept_code :: "string \<Rightarrow> string" where
  "dept_code dept_id =
     (let n = normalize_dept_id dept_id
      in case map_of dept_codes n of Some c \<Rightarrow> c
         | None \<Rightarrow> str_upper (str_replace ''dept_'' [] n))"

text \<open>Normalising twice is normalising once.\<close>

lemma dropWhile_idem_strip: "dropWhile P (dropWhile P xs) = dropWhile P xs"
  by (induction xs) auto

lemma strip_tail_head:
  "dropWhile P xs = xs \<Longrightarrow> dropWhile P (rev (dropWhile P (rev xs))) = rev (dropWhile P (rev xs))"
proof (cases xs)
  case (Cons x xs')
  assume "dropWhile P xs = xs"
  with Cons have "\<not> P x"
    by (metis dropWhile.simps(2) dropWhile_eq_Cons_conv not_Cons_self2 list.inject)
  with Cons have "dropWhile P (rev xs) = dropWhile P (rev xs') @ [x] \<or>
      (\<exists>ys. dropWhile P (rev xs) = ys @ [x])"
    by (simp add: dropWhile_append)
  then obtain ys where "dropWhile P (rev xs) = ys @ [x]" by blast
  with \<open>\<not> P x\<close> show ?thesis by simp
qed simp

lemma str_strip_idem [simp]: "str_strip (str_strip s) = str_strip s"
  unfolding str_strip_def
  by (simp add: strip_tail_head dropWhile_idem_strip)

lemma normalize_targets:
  assumes "(raw, d) \<in> set dept_aliases"
  shows "str_strip d = d \<and> map_of dept_aliases d = None"
proof -
  have "list_all (\<lambda>p. str_strip (snd p) = snd p \<and> map_of dept_aliases (snd p) = None) dept_aliases"
    by code_simp
  with assms show ?thesis by (auto simp: list_all_iff)
qed

lemma normalize_dept_id_idem [simp]:
  "normalize_dept_id (normalize_dept_id d) = normalize_dept_id d"
proof (cases "map_of dept_aliases (str_strip (str_or d []))")
  case None
  then show ?thesis by (simp add: normalize_dept_id_def)
next
  case (Some x)
  then have "str_strip x = x \<and> map_of dept_aliases x = None"
    by (metis map_of_SomeD normalize_targets)
  with Some show ?thesis by (simp add: normalize_dept_id_def)
qed

lemma normalize_dept_mp [simp]: "normalize_dept_id ''dept_mp'' = ''dept_mp''"
  by code_simp

end
