(* ===== verification/PortalUsers.thy ===== *)
theory PortalUsers
  imports PortalPerm
begin

text \<open>
  Accounts, departments and memberships of \<open>portal_store.py\<close>: password hashes, the
  seeding of a new database, login, registration, deletion, and the queries over
  users and departments.  A \<open>with self._connect()\<close> block commits when it ends and rolls
  back when it raises, so a raising operation returns the database it started from
  (with the clock read).
\<close>

subsection \<open>Password hashes\<close>

text \<open>One step of \<open>s.split("$", 2)\<close>: the text before and after the first \<open>$\<close>.\<close>

fun split_dollar :: "string \<Rightarrow> (string \<times> string) option" where
  "split_dollar [] = None"
| "split_dollar (c # cs) =
     (if c = CHR ''$'' then Some ([], cs)
      else map_option (\<lambda>(a, b). (c # a, b)) (split_dollar cs))"

definition make_password_hash :: "env \<Rightarrow> nat \<Rightarrow> string \<Rightarrow> string option \<Rightarrow> string" where
  "make_password_hash E n password salt =
     (let real_salt = opt_or salt (urandom_hex E n);
          digest = pbkdf2 E password real_salt
      in ''pbkdf2_sha256$'' @ real_salt @ ''$'' @ digest)"

definition verify_password :: "env \<Rightarrow> string \<Rightarrow> string \<Rightarrow> bool" where
  "verify_password E password password_hash =
     (case split_dollar password_hash of None \<Rightarrow> False
      | Some (algo, rest) \<Rightarrow>
         (case split_dollar rest of None \<Rightarrow> False
          | Some (salt, digest) \<Rightarrow>
              if algo \<noteq> ''pbkdf2_sha256'' then False
              else pbkdf2 E password salt = digest))"

lemma split_dollar_append:
  "CHR ''$'' \<notin> set a \<Longrightarrow> split_dollar (a @ CHR ''$'' # b) = Some (a, b)"
  by (induction a) auto

subsection \<open>Seeding\<close>

definition insert_department :: "department_row \<Rightarrow> 'ref db \<Rightarrow> py_error + 'ref db" where
  "insert_department d s =
     (if list_ex (\<lambda>x. d_dept_id x = d_dept_id d) (departments s) then Inr s
      else if list_ex (\<lambda>x. d_dept_code x = d_dept_code d \<or> d_dept_name x = d_dept_name d)
                (departments s) then Inl IntegrityError
      else Inr (s\<lparr>departments := departments s @ [d]\<rparr>))"

definition insert_user :: "user_row \<Rightarrow> 'ref db \<Rightarrow> py_error + 'ref db" where
  "insert_user u s =
     (if list_ex (\<lambda>x. u_user_id x = u_user_id u \<or> u_login_id x = u_login_id u) (users s)
      then Inl IntegrityError
      else Inr (s\<lparr>users := users s @ [u]\<rparr>))"

definition add_membership ::
  "string \<Rightarrow> string \<Rightarrow> string \<Rightarrow> string \<Rightarrow> bool \<Rightarrow> 'ref db \<Rightarrow> 'ref db" where
  "add_membership t uid dept role is_default s =
     s\<lparr>user_departments := insert_or_ignore (\<lambda>m. membership_key m = (uid, dept))
        \<lparr>ud_user_id = uid, ud_dept_id = dept, ud_role = role, ud_is_default = is_default,
         ud_is_active = True, ud_created_at = t, ud_updated_at = t\<rparr> (user_departments s)\<rparr>"

definition seed_depts :: "(string \<times> string \<times> string \<times> string option \<times> bool) list" where
  "seed_depts =
     [(''dept_mp'', ''MP'',
        ''MP'' @ [CHR 0xE6, CHR 0x80, CHR 0xBB, CHR 0xE9, CHR 0x83, CHR 0xA8],
        None, True),
      (''dept_mp_q'', ''MP-Q'',
        ''MP'' @ [CHR 0xE8, CHR 0xB4, CHR 0xA8, CHR 0xE9, CHR 0x87, CHR 0x8F, CHR 0xE9, CHR 0x83, CHR 0xA8, CHR 0xE9, CHR 0x97, CHR 0xA8],
        Some ''dept_mp'', False),
      (''dept_mp_plm'', ''MP-PLM'',
        ''MP'' @ [CHR 0xE4, CHR 0xBA, CHR 0xA7, CHR 0xE5, CHR 0x93, CHR 0x81, CHR 0xE7, CHR 0x94, CHR 0x9F, CHR 0xE5, CHR 0x91, CHR 0xBD, CHR 0xE5, CHR 0x91, CHR 0xA8, CHR 0xE6, CHR 0x9C, CHR 0x9F, CHR 0xE9, CHR 0x83, CHR 0xA8, CHR 0xE9, CHR 0x97, CHR 0xA8],
        Some ''dept_mp'', False),
      (''dept_mp_ap'', ''MP-AP'',
        ''MP AP'' @ [CHR 0xE9, CHR 0x83, CHR 0xA8, CHR 0xE9, CHR 0x97, CHR 0xA8],
        Some ''dept_mp'', False),
      (''dept_mp_mc'', ''MP-MC'',
        ''MP MC'' @ [CHR 0xE9, CHR 0x83, CHR 0xA8, CHR 0xE9, CHR 0x97, CHR 0xA8],
        Some ''dept_mp'', False),
      (''dept_mp_usdx'', ''MP-US&DX'',
        ''MP US&DX'' @ [CHR 0xE9, CHR 0x83, CHR 0xA8, CHR 0xE9, CHR 0x97, CHR 0xA8],
        Some ''dept_mp'', False)]"

definition dept_demo_users :: "(string \<times> string \<times> string \<times> string) list" where
  "dept_demo_users =
     [(''u_mp_q_staff'', ''mp-q-staff@example.com'', ''MP-Q-staff01'', ''dept_mp_q''),
      (''u_mp_plm_staff'', ''mp-plm-staff@example.com'', ''MP-PLM-staff01'', ''dept_mp_plm''),
      (''u_mp_ap_staff'', ''mp-ap-staff@example.com'', ''MP-AP-staff01'', ''dept_mp_ap''),
      (''u_mp_mc_staff'', ''mp-mc-staff@example.com'', ''MP-MC-staff01'', ''dept_mp_mc''),
      (''u_mp_usdx_staff'', ''mp-usdx-staff@example.com'', ''MP-USDX-staff01'', ''dept_mp_usdx'')]"

definition dept_admin_users :: "(string \<times> string \<times> string \<times> string) list" where
  "dept_admin_users =
     [(''u_mp_q_admin'', ''mp-q-admin@example.com'', ''MP-Q-admin'', ''dept_mp_q''),
      (''u_mp_plm_admin'', ''mp-plm-admin@example.com'', ''MP-PLM-admin'', ''dept_mp_plm''),
      (''u_mp_ap_admin'', ''mp-ap-admin@example.com'', ''MP-AP-admin'', ''dept_mp_ap''),
      (''u_mp_mc_admin'', ''mp-mc-admin@example.com'', ''MP-MC-admin'', ''dept_mp_mc''),
      (''u_mp_usdx_admin'', ''mp-usdx-admin@example.com'', ''MP-USDX-admin'', ''dept_mp_usdx'')]"

definition mp_display_name :: string where
  "mp_display_name = ''MP'' @ [CHR 0xE7, CHR 0xAE, CHR 0xA1, CHR 0xE7, CHR 0x90, CHR 0x86, CHR 0xE5, CHR 0x91, CHR 0x98]"

definition seed_dept ::
  "string \<Rightarrow> string \<times> string \<times> string \<times> string option \<times> bool \<Rightarrow> 'ref db \<Rightarrow> py_error + 'ref db" where
  "seed_dept t = (\<lambda>(dept_id, code, name, parent, is_public) s.
     insert_department
       \<lparr>d_dept_id = dept_id, d_dept_code = code, d_dept_name = name, d_parent_dept_id = parent,
        d_is_public = is_public, d_is_active = True, d_created_at = t, d_updated_at = t\<rparr> s)"

definition new_user ::
  "string \<Rightarrow> string \<Rightarrow> string \<Rightarrow> string \<Rightarrow> string \<Rightarrow> string \<Rightarrow> user_row" where
  "new_user t uid login hash display email =
     \<lparr>u_user_id = uid, u_login_id = login, u_password_hash = hash, u_display_name = display,
      u_email = Some email, u_is_active = True, u_ragflow_user_id = None, u_ragflow_token = None,
      u_created_at = t, u_updated_at = t\<rparr>"

definition seed_mp_user :: "env \<Rightarrow> string \<Rightarrow> 'ref db \<Rightarrow> py_error + 'ref db" where
  "seed_mp_user E t s =
     (case fetchone (\<lambda>u. u_login_id u = ''mp@example.com'') (users s) of
        Some _ \<Rightarrow> Inr s
      | None \<Rightarrow>
          sum_bind (insert_user (new_user t ''u_mp_default'' ''mp@example.com''
              (make_password_hash E (ticks s) ''12345678'' None) mp_display_name
              ''mp@example.com'') (tick s))
            (\<lambda>s1. Inr (add_membership t ''u_mp_default'' ''dept_mp'' ''admin'' True s1)))"

definition seed_email :: "string \<Rightarrow> string" where
  "seed_email login_id =
     (let base = str_replace ''&'' [] (str_lower login_id)
      in if str_in ''@'' login_id then base else base @ ''@example.com'')"

definition seed_account ::
  "env \<Rightarrow> string \<Rightarrow> string \<Rightarrow> string \<times> string \<times> string \<times> string \<Rightarrow> 'ref db \<Rightarrow> py_error + 'ref db" where
  "seed_account E t role = (\<lambda>(uid, login_id, display_name, dept_id) s.
     sum_bind
       (case fetchone (\<lambda>u. u_login_id u = login_id) (users s) of
          None \<Rightarrow> insert_user (new_user t uid login_id
                    (make_password_hash E (ticks s) ''12345678'' None) display_name
                    (seed_email login_id)) (tick s)
        | Some _ \<Rightarrow> Inr (s\<lparr>users := update_where (\<lambda>u. u_login_id u = login_id)
                    (\<lambda>u. u\<lparr>u_display_name := display_name, u_updated_at := t\<rparr>) (users s)\<rparr>))
       (\<lambda>s1. Inr (add_membership t uid dept_id role True s1)))"

definition seed_defaults :: "env \<Rightarrow> 'ref db \<Rightarrow> py_error + 'ref db" where
  "seed_defaults E s =
     (let t = now E s in
      sum_bind (sum_fold (seed_dept t) seed_depts (tick s)) (\<lambda>s1.
      sum_bind (seed_mp_user E t s1) (\<lambda>s2.
        let mp_user_id = (case fetchone (\<lambda>u. u_login_id u = ''mp@example.com'') (users s2) of
                            Some u \<Rightarrow> u_user_id u | None \<Rightarrow> ''u_mp_default'');
            s3 = fold (\<lambda>d. add_membership t mp_user_id d ''admin'' False)
                   [''dept_mp_q'', ''dept_mp_plm'', ''dept_mp_ap'', ''dept_mp_mc'', ''dept_mp_usdx''] s2
        in sum_bind (sum_fold (seed_account E t ''member'') dept_demo_users s3)
             (sum_fold (seed_account E t ''admin'') dept_admin_users))))"

subsection \<open>Login and registration\<close>

record portal_user =
  pu_user_id :: string
  pu_login_id :: string
  pu_display_name :: string
  pu_is_active :: bool

definition same_ci :: "string \<Rightarrow> string \<Rightarrow> bool" where
  "same_ci a b \<longleftrightarrow> str_upper a = str_upper b"

definition email_matches :: "user_row \<Rightarrow> string \<Rightarrow> bool" where
  "email_matches u login_id = (case u_email u of None \<Rightarrow> False | Some e \<Rightarrow> same_ci e login_id)"

definition authenticate_user :: "env \<Rightarrow> string \<Rightarrow> string \<Rightarrow> 'ref db \<Rightarrow> portal_user option" where
  "authenticate_user E login_id password s =
     (let row = (case fetchone (\<lambda>u. same_ci (u_login_id u) login_id) (users s) of
                   Some u \<Rightarrow> Some u
                 | None \<Rightarrow> fetchone (\<lambda>u. email_matches u login_id) (users s))
      in case row of None \<Rightarrow> None
         | Some u \<Rightarrow>
             if \<not> u_is_active u then None
             else if \<not> verify_password E password (u_password_hash u) then None
             else Some \<lparr>pu_user_id = u_user_id u, pu_login_id = u_login_id u,
                        pu_display_name = u_display_name u, pu_is_active = True\<rparr>)"

record registration =
  reg_user_id :: string
  reg_login_id :: string
  reg_display_name :: string
  reg_dept_id :: string
  reg_role :: string
  reg_ragflow_user_id :: string

text \<open>Registration is one transaction: the user row of a failed registration is rolled back.\<close>

definition register_user ::
  "env \<Rightarrow> string \<Rightarrow> string \<Rightarrow> string \<Rightarrow> string \<Rightarrow> string \<Rightarrow> string \<Rightarrow> string
     \<Rightarrow> 'ref db \<Rightarrow> ('ref db, registration) outcome" where
  "register_user E login_id password display_name dept_id role ragflow_user_id ragflow_token s =
     (let t = now E s; uid = new_id E ''u_'' s; s0 = tick s in
      if list_ex (\<lambda>u. same_ci (u_login_id u) login_id) (users s)
      then (s0, Inl (ValueError (UserExists login_id)))
      else case insert_user
             \<lparr>u_user_id = uid, u_login_id = login_id,
              u_password_hash = make_password_hash E (ticks s) password None,
              u_display_name = display_name,
              u_email = Some (str_lower login_id @ ''@portal.local''), u_is_active = True,
              u_ragflow_user_id = Some ragflow_user_id, u_ragflow_token = Some ragflow_token,
              u_created_at = t, u_updated_at = t\<rparr> s0 of
          Inl e \<Rightarrow> (s0, Inl e)
        | Inr s1 \<Rightarrow>
            if \<not> list_ex (\<lambda>d. d_dept_id d = dept_id) (departments s)
            then (s0, Inl (ValueError (DeptMissing dept_id)))
            else (add_membership t uid dept_id role True s1,
                  Inr \<lparr>reg_user_id = uid, reg_login_id = login_id,
                       reg_display_name = display_name, reg_dept_id = dept_id,
                       reg_role = role, reg_ragflow_user_id = ragflow_user_id\<rparr>))"

definition get_user_ragflow_token :: "string \<Rightarrow> 'ref db \<Rightarrow> string" where
  "get_user_ragflow_token user_id s =
     (case fetchone (\<lambda>u. u_user_id u = user_id) (users s) of
        None \<Rightarrow> [] | Some u \<Rightarrow> opt_or (u_ragflow_token u) [])"

definition get_user_ragflow_user_id :: "string \<Rightarrow> 'ref db \<Rightarrow> string" where
  "get_user_ragflow_user_id user_id s =
     (case fetchone (\<lambda>u. u_user_id u = user_id) (users s) of
        None \<Rightarrow> [] | Some u \<Rightarrow> opt_or (u_ragflow_user_id u) [])"

text \<open>Accounts with a token; administrators (by login) come first, then by creation time.\<close>

definition default_dept_of :: "string \<Rightarrow> 'ref db \<Rightarrow> string" where
  "default_dept_of user_id s =
     (case fetchone (\<lambda>m. ud_user_id m = user_id \<and> ud_is_default m) (user_departments s) of
        None \<Rightarrow> ''dept_mp'' | Some m \<Rightarrow> ud_dept_id m)"

definition admin_rank :: "user_row \<Rightarrow> nat" where
  "admin_rank u = (if sql_like ''%ADMIN%'' (str_upper (u_login_id u)) \<or>
                      str_upper (u_login_id u) = ''MP'' then 0 else 1)"

definition get_all_users_with_ragflow_token :: "'ref db \<Rightarrow> (string \<times> string \<times> string) list" where
  "get_all_users_with_ragflow_token s =
     map (\<lambda>u. (u_user_id u, opt_or (u_ragflow_token u) [], default_dept_of (u_user_id u) s))
       (sort_key admin_rank (sort_key u_created_at
          (filter (\<lambda>u. opt_or (u_ragflow_token u) [] \<noteq> [] \<and> u_is_active u) (users s))))"

definition get_all_users_without_ragflow :: "'ref db \<Rightarrow> (string \<times> string) list" where
  "get_all_users_without_ragflow s =
     map (\<lambda>u. (u_user_id u, u_login_id u))
       (filter (\<lambda>u. u_is_active u \<and> opt_or (u_ragflow_user_id u) [] = []) (users s))"

definition update_user_ragflow :: "env \<Rightarrow> string \<Rightarrow> string \<Rightarrow> string \<Rightarrow> 'ref db \<Rightarrow> 'ref db" where
  "update_user_ragflow E user_id ragflow_user_id ragflow_token s =
     (let t = now E s; s0 = tick s
      in s0\<lparr>users := update_where (\<lambda>u. u_user_id u = user_id)
             (\<lambda>u. u\<lparr>u_ragflow_user_id := Some ragflow_user_id,
                    u_ragflow_token := Some ragflow_token, u_updated_at := t\<rparr>) (users s)\<rparr>)"

definition delete_user :: "string \<Rightarrow> 'ref db \<Rightarrow> 'ref db \<times> bool" where
  "delete_user user_id s =
     (case fetchone (\<lambda>u. u_user_id u = user_id) (users s) of
        None \<Rightarrow> (s, False)
      | Some _ \<Rightarrow>
          (s\<lparr>user_departments := delete_where (\<lambda>m. ud_user_id m = user_id) (user_departments s),
             resource_policies := delete_where (\<lambda>p. p_owner_user_id p = Some user_id)
                                    (resource_policies s),
             portal_sessions := delete_where (\<lambda>v. s_user_id v = user_id) (portal_sessions s),
             users := delete_where (\<lambda>u. u_user_id u = user_id) (users s)\<rparr>, True))"

definition get_user_by_login :: "string \<Rightarrow> 'ref db \<Rightarrow> user_row option" where
  "get_user_by_login login_id s =
     (if login_id = [] then None
      else fetchone (\<lambda>u. same_ci (u_login_id u) login_id) (users s))"

record user_hit =
  h_user_id :: string
  h_login_id :: string
  h_display_name :: string
  h_dept_code :: string

definition default_dept_code :: "string \<Rightarrow> 'ref db \<Rightarrow> string" where
  "default_dept_code user_id s =
     (case [d. m \<leftarrow> user_departments s, d \<leftarrow> departments s,
               ud_dept_id m = d_dept_id d \<and> ud_user_id m = user_id \<and> ud_is_default m] of
        [] \<Rightarrow> [] | d # _ \<Rightarrow> d_dept_code d)"

definition search_users :: "string \<Rightarrow> int \<Rightarrow> 'ref db \<Rightarrow> user_hit list" where
  "search_users q limit s =
     (let pat = str_upper (''%'' @ q @ ''%'')
      in map (\<lambda>u. \<lparr>h_user_id = u_user_id u, h_login_id = u_login_id u,
                   h_display_name = u_display_name u,
                   h_dept_code = default_dept_code (u_user_id u) s\<rparr>)
           (limit_offset limit 0 (sort_key u_login_id
             (filter (\<lambda>u. u_is_active u \<and>
                          (sql_like pat (str_upper (u_login_id u)) \<or>
                           sql_like pat (str_upper (u_display_name u)))) (users s)))))"

subsection \<open>Departments and roles\<close>

definition get_users_in_dept :: "string \<Rightarrow> 'ref db \<Rightarrow> user_row list" where
  "get_users_in_dept dept_id s =
     (let d = normalize_dept_id dept_id
      in sort_key u_login_id
           [u. u \<leftarrow> users s, m \<leftarrow> user_departments s,
               u_user_id u = ud_user_id m \<and> ud_dept_id m = d \<and> ud_is_active m \<and> u_is_active u])"

record dept_view =
  dv_dept_id :: string
  dv_dept_code :: string
  dv_dept_name :: string
  dv_role :: string
  dv_is_default :: bool
  dv_is_public :: bool

definition get_user_departments :: "string \<Rightarrow> 'ref db \<Rightarrow> dept_view list" where
  "get_user_departments user_id s =
     sort_key (\<lambda>v. if dv_is_default v then 0 else (1::nat)) (sort_key dv_dept_code
       [\<lparr>dv_dept_id = d_dept_id d, dv_dept_code = d_dept_code d, dv_dept_name = d_dept_name d,
         dv_role = ud_role m, dv_is_default = ud_is_default m, dv_is_public = d_is_public d\<rparr>.
        m \<leftarrow> user_departments s, d \<leftarrow> departments s,
        d_dept_id d = ud_dept_id m \<and> ud_user_id m = user_id \<and> ud_is_active m \<and> d_is_active d])"

definition get_all_departments :: "'ref db \<Rightarrow> department_row list" where
  "get_all_departments s = sort_key d_dept_code (filter d_is_active (departments s))"

definition is_admin :: "string \<Rightarrow> 'ref db \<Rightarrow> bool" where
  "is_admin user_id s \<longleftrightarrow>
     list_ex (\<lambda>m. ud_user_id m = user_id \<and> ud_is_active m \<and>
                  ud_role m \<in> {''admin'', ''owner''}) (user_departments s)"

definition is_dept_admin :: "string \<Rightarrow> string \<Rightarrow> 'ref db \<Rightarrow> bool" where
  "is_dept_admin user_id dept_id s \<longleftrightarrow>
     (let d = normalize_dept_id dept_id
      in list_ex (\<lambda>m. ud_user_id m = user_id \<and> ud_dept_id m = d \<and> ud_is_active m \<and>
                      ud_role m \<in> {''admin'', ''dept_admin'', ''owner''}) (user_departments s))"

subsection \<open>Invariant\<close>

lemma users_okD:
  assumes "users_ok s"
  shows "distinct (map u_user_id (users s))" "distinct (map u_login_id (users s))"
    "distinct (map membership_key (user_departments s))" "distinct (map d_dept_id (departments s))"
  using assms by (simp_all add: users_ok_def)

lemma add_membership_tables [frame, simp]:
  fixes t uid d ro df s
  defines "s' \<equiv> add_membership t uid d ro df s"
  shows "users s' = users s" "departments s' = departments s" "resource_policies s' = resource_policies s"
    "audit_logs s' = audit_logs s" "portal_sessions s' = portal_sessions s"
    "portal_messages s' = portal_messages s" "kb_share_requests s' = kb_share_requests s"
    "kb_shares s' = kb_shares s" "share_seq s' = share_seq s" "message_seq s' = message_seq s"
    "ticks s' = ticks s"
  by (simp_all add: s'_def add_membership_def)

lemma db_ok_membership [inv_rules]: "db_ok s \<Longrightarrow> db_ok (add_membership t uid d ro df s)"
proof -
  assume "db_ok s"
  moreover from this have "distinct (map membership_key (insert_or_ignore (\<lambda>m. membership_key m = (uid, d))
      \<lparr>ud_user_id = uid, ud_dept_id = d, ud_role = ro, ud_is_default = df, ud_is_active = True,
       ud_created_at = t, ud_updated_at = t\<rparr> (user_departments s)))"
    by (intro distinct_key_insert_or_ignore) (auto simp: db_ok_def users_ok_def)
  ultimately show ?thesis
    by (simp add: db_ok_def users_ok_def policies_ok_def requests_ok_def sessions_ok_def
        messages_ok_def shares_ok_def add_membership_def)
qed

lemma db_ok_insert_user:
  assumes "db_ok s" "insert_user u s = Inr s'"
  shows "db_ok s'"
proof -
  have "s' = s\<lparr>users := users s @ [u]\<rparr>"
    "\<forall>x\<in>set (users s). u_user_id x \<noteq> u_user_id u \<and> u_login_id x \<noteq> u_login_id u"
    using assms(2) by (auto simp: insert_user_def list_ex_iff split: if_splits)
  with assms(1) show ?thesis
    by (auto simp: db_ok_def users_ok_def policies_ok_def requests_ok_def sessions_ok_def
        messages_ok_def shares_ok_def)
qed

lemma db_ok_insert_department:
  assumes "db_ok s" "insert_department d s = Inr s'"
  shows "db_ok s'"
proof -
  have "s' = s \<or> s' = s\<lparr>departments := departments s @ [d]\<rparr> \<and>
    (\<forall>x\<in>set (departments s). d_dept_id x \<noteq> d_dept_id d)"
    using assms(2) by (auto simp: insert_department_def list_ex_iff split: if_splits)
  then show ?thesis
  proof
    assume "s' = s\<lparr>departments := departments s @ [d]\<rparr> \<and> (\<forall>x\<in>set (departments s). d_dept_id x \<noteq> d_dept_id d)"
    with assms(1) show ?thesis
      by (simp add: db_ok_def users_ok_def policies_ok_def requests_ok_def sessions_ok_def
          messages_ok_def shares_ok_def) force
  qed (use assms(1) in simp)
qed

lemma db_ok_update_users:
  assumes "db_ok s" "\<And>u. u_user_id (f u) = u_user_id u" "\<And>u. u_login_id (f u) = u_login_id u"
  shows "db_ok (s\<lparr>users := update_where P f (users s)\<rparr>)"
  using assms
  by (simp add: db_ok_def users_ok_def policies_ok_def requests_ok_def sessions_ok_def
        messages_ok_def shares_ok_def map_key_update_where)

lemma db_ok_seed_account:
  assumes "db_ok s" "seed_account E t role a s = Inr s'"
  shows "db_ok s'"
proof -
  obtain uid login name dept where a: "a = (uid, login, name, dept)" by (metis prod_cases4)
  from assms(2) [unfolded a seed_account_def prod.case] obtain s1 where
    s1: "(case fetchone (\<lambda>u. u_login_id u = login) (users s) of
          None \<Rightarrow> insert_user (new_user t uid login
                    (make_password_hash E (ticks s) ''12345678'' None) name (seed_email login)) (tick s)
        | Some _ \<Rightarrow> Inr (s\<lparr>users := update_where (\<lambda>u. u_login_id u = login)
                    (\<lambda>u. u\<lparr>u_display_name := name, u_updated_at := t\<rparr>) (users s)\<rparr>)) = Inr s1"
    and "Inr (add_membership t uid dept role True s1) = (Inr s' :: py_error + 'a db)"
    by (rule sum_bind_InrE)
  then have s': "s' = add_membership t uid dept role True s1" by simp
  have "db_ok s1"
  proof (cases "fetchone (\<lambda>u. u_login_id u = login) (users s)")
    case None
    with s1 have "insert_user (new_user t uid login (make_password_hash E (ticks s) ''12345678'' None)
        name (seed_email login)) (tick s) = Inr s1" by simp
    then show ?thesis by (rule db_ok_insert_user [rotated]) (use assms(1) in simp)
  next
    case (Some u)
    with s1 assms(1) db_ok_update_users [of s "\<lambda>u. u\<lparr>u_display_name := name, u_updated_at := t\<rparr>"]
    show ?thesis by auto
  qed
  with s' show ?thesis by (simp add: inv_rules)
qed

lemma db_ok_seed_mp:
  assumes "db_ok s" "seed_mp_user E t s = Inr s'"
  shows "db_ok s'"
proof (cases "fetchone (\<lambda>u. u_login_id u = ''mp@example.com'') (users s)")
  case None
  with assms(2) have "sum_bind (insert_user (new_user t ''u_mp_default'' ''mp@example.com''
        (make_password_hash E (ticks s) ''12345678'' None) mp_display_name ''mp@example.com'') (tick s))
      (\<lambda>s1. Inr (add_membership t ''u_mp_default'' ''dept_mp'' ''admin'' True s1)) = Inr s'"
    unfolding seed_mp_user_def by (simp only: option.case)
  then obtain s1 where s1:
    "insert_user (new_user t ''u_mp_default'' ''mp@example.com''
        (make_password_hash E (ticks s) ''12345678'' None) mp_display_name ''mp@example.com'') (tick s) = Inr s1"
    "Inr (add_membership t ''u_mp_default'' ''dept_mp'' ''admin'' True s1) = (Inr s' :: py_error + 'a db)"
    by (rule sum_bind_InrE)
  have "db_ok s1" by (rule db_ok_insert_user [OF _ s1(1)]) (use assms(1) in simp)
  with s1(2) show ?thesis by (auto simp: inv_rules)
qed (use assms in \<open>simp add: seed_mp_user_def\<close>)

lemma db_ok_seed_dept: "db_ok s \<Longrightarrow> seed_dept t a s = Inr s' \<Longrightarrow> db_ok s'"
  by (cases a) (simp add: seed_dept_def db_ok_insert_department)

lemma db_ok_seed_accounts:
  "db_ok s \<Longrightarrow> sum_fold (seed_account E t role) accounts s = Inr s' \<Longrightarrow> db_ok s'"
  by (rule sum_fold_inv [where I = db_ok and f = "seed_account E t role"]) (rule db_ok_seed_account)

lemma db_ok_seed:
  assumes "db_ok s" "seed_defaults E s = Inr s'"
  shows "db_ok s'"
proof -
  let ?t = "now E s"
  let ?mp = "\<lambda>s2 :: 'a db. case fetchone (\<lambda>u. u_login_id u = ''mp@example.com'') (users s2) of
     Some u \<Rightarrow> u_user_id u | None \<Rightarrow> ''u_mp_default''"
  let ?s3 = "\<lambda>s2. fold (\<lambda>d. add_membership ?t (?mp s2) d ''admin'' False)
     [''dept_mp_q'', ''dept_mp_plm'', ''dept_mp_ap'', ''dept_mp_mc'', ''dept_mp_usdx''] s2"
  from assms(2) obtain s1 where s1: "sum_fold (seed_dept ?t) seed_depts (tick s) = Inr s1"
    and r1: "sum_bind (seed_mp_user E ?t s1) (\<lambda>s2.
        sum_bind (sum_fold (seed_account E ?t ''member'') dept_demo_users (?s3 s2))
             (sum_fold (seed_account E ?t ''admin'') dept_admin_users)) = Inr s'"
    unfolding seed_defaults_def Let_def by (rule sum_bind_InrE)
  from r1 obtain s2 where s2: "seed_mp_user E ?t s1 = Inr s2"
    and r2: "sum_bind (sum_fold (seed_account E ?t ''member'') dept_demo_users (?s3 s2))
             (sum_fold (seed_account E ?t ''admin'') dept_admin_users) = Inr s'"
    by (rule sum_bind_InrE)
  from r2 obtain s3 where s3: "sum_fold (seed_account E ?t ''member'') dept_demo_users (?s3 s2) = Inr s3"
    and s4: "sum_fold (seed_account E ?t ''admin'') dept_admin_users s3 = Inr s'"
    by (rule sum_bind_InrE)
  have "db_ok s1"
    by (rule sum_fold_inv [OF db_ok_seed_dept _ s1]) (use assms(1) in auto)
  then have "db_ok s2" using s2 by (rule db_ok_seed_mp)
  then have m: "db_ok (?s3 s2)"
    by (rule fold_inv [rotated]) (rule db_ok_membership)
  from db_ok_seed_accounts [OF db_ok_seed_accounts [OF m s3] s4] show ?thesis .
qed

text \<open>What a successful registration was: a fresh row, then the membership.\<close>

lemma register_user_InrE:
  assumes "snd (register_user E l p d dept ro ru rt s) = Inr r"
  obtains s1 where "insert_user \<lparr>u_user_id = new_id E ''u_'' s, u_login_id = l,
          u_password_hash = make_password_hash E (ticks s) p None, u_display_name = d,
          u_email = Some (str_lower l @ ''@portal.local''), u_is_active = True,
          u_ragflow_user_id = Some ru, u_ragflow_token = Some rt,
          u_created_at = now E s, u_updated_at = now E s\<rparr> (tick s) = Inr s1"
    and "fst (register_user E l p d dept ro ru rt s) =
         add_membership (now E s) (new_id E ''u_'' s) dept ro True s1"
proof -
  let ?u = "\<lparr>u_user_id = new_id E ''u_'' s, u_login_id = l,
          u_password_hash = make_password_hash E (ticks s) p None, u_display_name = d,
          u_email = Some (str_lower l @ ''@portal.local''), u_is_active = True,
          u_ragflow_user_id = Some ru, u_ragflow_token = Some rt,
          u_created_at = now E s, u_updated_at = now E s\<rparr>"
  have fresh: "\<not> list_ex (\<lambda>u. same_ci (u_login_id u) l) (users s)"
    using assms by (auto simp: register_user_def Let_def)
  obtain s1 where s1: "insert_user ?u (tick s) = Inr s1"
    using assms fresh by (cases "insert_user ?u (tick s)") (auto simp: register_user_def Let_def)
  moreover from assms fresh s1 have "list_ex (\<lambda>d. d_dept_id d = dept) (departments s)"
    by (auto simp: register_user_def Let_def split: if_splits)
  ultimately show thesis
    using fresh by (intro that [of s1]) (simp_all add: register_user_def Let_def)
qed

lemma db_ok_register [inv_rules]:
  "db_ok s \<Longrightarrow> db_ok (fst (register_user E l p d dept ro ru rt s))"
proof -
  assume ok: "db_ok s"
  show ?thesis
  proof (cases "snd (register_user E l p d dept ro ru rt s)")
    case (Inl e)
    then have "fst (register_user E l p d dept ro ru rt s) = tick s"
      by (auto simp: register_user_def Let_def split: sum.splits if_splits)
    with ok show ?thesis by simp
  next
    case (Inr r)
    then obtain s1 where s1: "insert_user \<lparr>u_user_id = new_id E ''u_'' s, u_login_id = l,
          u_password_hash = make_password_hash E (ticks s) p None, u_display_name = d,
          u_email = Some (str_lower l @ ''@portal.local''), u_is_active = True,
          u_ragflow_user_id = Some ru, u_ragflow_token = Some rt,
          u_created_at = now E s, u_updated_at = now E s\<rparr> (tick s) = Inr s1"
      and eq: "fst (register_user E l p d dept ro ru rt s) =
         add_membership (now E s) (new_id E ''u_'' s) dept ro True s1"
      by (rule register_user_InrE)
    from s1 have "db_ok s1" by (rule db_ok_insert_user [rotated]) (use ok in simp)
    with eq show ?thesis by (simp add: inv_rules)
  qed
qed

lemma db_ok_update_ragflow [inv_rules]: "db_ok s \<Longrightarrow> db_ok (update_user_ragflow E u ru rt s)"
  using db_ok_update_users [of "tick s"] by (simp add: update_user_ragflow_def Let_def)

lemma db_ok_delete_user [inv_rules]: "db_ok s \<Longrightarrow> db_ok (fst (delete_user u s))"
  by (auto simp: delete_user_def db_ok_def users_ok_def policies_ok_def requests_ok_def
      sessions_ok_def messages_ok_def shares_ok_def split: option.split)

subsection \<open>Passwords and login\<close>

lemma verify_make_password:
  assumes "CHR ''$'' \<notin> set (opt_or salt (urandom_hex E n))"
  shows "verify_password E q (make_password_hash E n p salt) \<longleftrightarrow>
     pbkdf2 E q (opt_or salt (urandom_hex E n)) = pbkdf2 E p (opt_or salt (urandom_hex E n))"
proof -
  let ?salt = "opt_or salt (urandom_hex E n)"
  have "split_dollar (''pbkdf2_sha256'' @ CHR ''$'' # ?salt @ CHR ''$'' # d) =
      Some (''pbkdf2_sha256'', ?salt @ CHR ''$'' # d)" for d
    by (rule split_dollar_append) simp
  then show ?thesis
    by (auto simp: verify_password_def make_password_hash_def Let_def split_dollar_append [OF assms])
qed

lemma same_ci_refl [simp]: "same_ci a a"
  by (simp add: same_ci_def)

lemma same_ci_trans: "same_ci a b \<Longrightarrow> same_ci b c \<Longrightarrow> same_ci a c"
  by (simp add: same_ci_def)

lemma same_ci_sym: "same_ci a b \<Longrightarrow> same_ci b a"
  by (simp add: same_ci_def)

definition account_of :: "string \<Rightarrow> 'ref db \<Rightarrow> user_row option" where
  "account_of login_id s =
     (case fetchone (\<lambda>u. same_ci (u_login_id u) login_id) (users s) of
        Some u \<Rightarrow> Some u | None \<Rightarrow> fetchone (\<lambda>u. email_matches u login_id) (users s))"

lemma authenticate_iff:
  "authenticate_user E login_id password s = Some x \<longleftrightarrow>
     (\<exists>u. account_of login_id s = Some u \<and> u_is_active u \<and>
          verify_password E password (u_password_hash u) \<and>
          x = \<lparr>pu_user_id = u_user_id u, pu_login_id = u_login_id u,
               pu_display_name = u_display_name u, pu_is_active = True\<rparr>)"
  by (auto simp: authenticate_user_def account_of_def split: option.splits)

definition logins_unique :: "'ref db \<Rightarrow> bool" where
  "logins_unique s \<longleftrightarrow> distinct (map (\<lambda>u. str_upper (u_login_id u)) (users s))"

text \<open>The tables after a successful registration.\<close>

definition registered_row ::
  "env \<Rightarrow> string \<Rightarrow> string \<Rightarrow> string \<Rightarrow> string \<Rightarrow> string \<Rightarrow> 'ref db \<Rightarrow> user_row" where
  "registered_row E l p d ru rt s =
     \<lparr>u_user_id = new_id E ''u_'' s, u_login_id = l,
      u_password_hash = make_password_hash E (ticks s) p None, u_display_name = d,
      u_email = Some (str_lower l @ ''@portal.local''), u_is_active = True,
      u_ragflow_user_id = Some ru, u_ragflow_token = Some rt,
      u_created_at = now E s, u_updated_at = now E s\<rparr>"

lemma register_users:
  assumes "snd (register_user E l p d dept ro ru rt s) = Inr r"
  shows "users (fst (register_user E l p d dept ro ru rt s)) = users s @ [registered_row E l p d ru rt s]"
    and "u_user_id (registered_row E l p d ru rt s) = reg_user_id r"
    and "\<not> list_ex (\<lambda>u. same_ci (u_login_id u) l) (users s)"
proof -
  from assms show free: "\<not> list_ex (\<lambda>u. same_ci (u_login_id u) l) (users s)"
    by (auto simp: register_user_def Let_def)
  obtain s1 where s1: "insert_user (registered_row E l p d ru rt s) (tick s) = Inr s1"
    and eq: "fst (register_user E l p d dept ro ru rt s) =
         add_membership (now E s) (new_id E ''u_'' s) dept ro True s1"
    using register_user_InrE [OF assms] unfolding registered_row_def by blast
  from s1 have "users s1 = users s @ [registered_row E l p d ru rt s]"
    by (auto simp: insert_user_def split: if_splits)
  with eq show "users (fst (register_user E l p d dept ro ru rt s)) = users s @ [registered_row E l p d ru rt s]"
    by simp
  show "u_user_id (registered_row E l p d ru rt s) = reg_user_id r"
    using assms s1 free
    by (auto simp: register_user_def Let_def registered_row_def split: sum.splits if_splits)
qed

lemma register_rejected:
  "snd (register_user E l p d dept ro ru rt s) = Inl e \<Longrightarrow> fst (register_user E l p d dept ro ru rt s) = tick s"
  by (auto simp: register_user_def Let_def split: sum.splits if_splits)

lemma logins_unique_register:
  assumes "logins_unique s"
  shows "logins_unique (fst (register_user E l p d dept ro ru rt s))"
proof (cases "snd (register_user E l p d dept ro ru rt s)")
  case (Inl e)
  with assms show ?thesis by (simp add: register_rejected logins_unique_def)
next
  case (Inr r)
  from register_users [OF Inr] assms show ?thesis
    by (auto simp: logins_unique_def registered_row_def same_ci_def list_ex_iff)
qed

lemma logins_unique_delete: "logins_unique s \<Longrightarrow> logins_unique (fst (delete_user u s))"
  by (auto simp: logins_unique_def delete_user_def delete_where_def distinct_map_filter split: option.split)

lemma account_of_registered:
  assumes "snd (register_user E l p d dept ro ru rt s) = Inr r" and "same_ci l login"
  shows "account_of login (fst (register_user E l p d dept ro ru rt s)) = Some (registered_row E l p d ru rt s)"
proof -
  have "\<And>u. u \<in> set (users s) \<Longrightarrow> \<not> same_ci (u_login_id u) login"
    using register_users(3) [OF assms(1)] assms(2) by (auto simp: list_ex_iff same_ci_def)
  then have none: "fetchone (\<lambda>u. same_ci (u_login_id u) login) (users s) = None"
    by (simp add: fetchone_None)
  have "same_ci (u_login_id (registered_row E l p d ru rt s)) login"
    using assms(2) by (simp add: registered_row_def)
  with none show ?thesis
    by (simp add: account_of_def register_users(1) [OF assms(1)] fetchone_append)
qed

lemma account_of_by_login_kept:
  assumes "snd (register_user E l p d dept ro ru rt s) = Inr r"
    and "u \<in> set (users s)" "same_ci (u_login_id u) login"
  shows "account_of login (fst (register_user E l p d dept ro ru rt s)) = account_of login s"
proof -
  have "fetchone (\<lambda>u. same_ci (u_login_id u) login) (users s) \<noteq> None"
    using assms(2,3) by (auto simp: fetchone_None)
  then show ?thesis
    by (auto simp: account_of_def register_users(1) [OF assms(1)] fetchone_append)
qed

end
