(* ===== verification/PortalShares.thy ===== *)
theory PortalShares
  imports PortalUsers
begin

unbundle bit_operations_syntax

text \<open>
  User-level shares of knowledge bases (\<open>kb_shares\<close>): granting, revoking, the
  permission a user holds, the chain of shares behind it.  A share is kept after its
  revocation with status \<open>revoked\<close>; only \<open>approved\<close> rows grant anything.
\<close>

subsection \<open>Granting and revoking\<close>

text \<open>SQLite draws the \<open>AUTOINCREMENT\<close> id before it sees the conflict: every call uses one up.\<close>

definition add_kb_share ::
  "env \<Rightarrow> string \<Rightarrow> string \<Rightarrow> int \<Rightarrow> string \<Rightarrow> nat option \<Rightarrow> string \<Rightarrow> string
     \<Rightarrow> 'ref db \<Rightarrow> 'ref db" where
  "add_kb_share E kb_id target_user_id permission_mask shared_by parent_share_id approved_by status s =
     (let t = now E s; s0 = tick s;
          clash = (\<lambda>k. share_key k = (kb_id, target_user_id))
      in s0\<lparr>kb_shares := upsert clash
              (\<lambda>k. k\<lparr>k_permission_mask := permission_mask, k_shared_by := shared_by,
                     k_approved_by := Some approved_by, k_parent_share_id := parent_share_id,
                     k_status := status, k_updated_at := t\<rparr>)
              \<lparr>k_id = Suc (share_seq s), k_kb_id = kb_id, k_target_user_id = target_user_id,
               k_permission_mask = permission_mask, k_shared_by = shared_by,
               k_approved_by = Some approved_by, k_parent_share_id = parent_share_id,
               k_status = status, k_created_at = t, k_updated_at = t\<rparr>
              (kb_shares s),
            share_seq := Suc (share_seq s)\<rparr>)"

definition remove_kb_share :: "env \<Rightarrow> string \<Rightarrow> string \<Rightarrow> 'ref db \<Rightarrow> 'ref db \<times> bool" where
  "remove_kb_share E kb_id target_user_id s =
     (let t = now E s; s0 = tick s;
          hit = (\<lambda>k. k_kb_id k = kb_id \<and> k_target_user_id k = target_user_id)
      in (s0\<lparr>kb_shares := update_where hit
               (\<lambda>k. k\<lparr>k_status := ''revoked'', k_updated_at := t\<rparr>) (kb_shares s)\<rparr>,
          0 < rowcount hit (kb_shares s)))"

definition revoke_user_share :: "env \<Rightarrow> nat \<Rightarrow> 'ref db \<Rightarrow> 'ref db \<times> bool" where
  "revoke_user_share E share_id s =
     (let t = now E s; s0 = tick s;
          hit = (\<lambda>k. k_id k = share_id \<and> k_status k = ''approved'')
      in (s0\<lparr>kb_shares := update_where hit
               (\<lambda>k. k\<lparr>k_status := ''revoked'', k_updated_at := t\<rparr>) (kb_shares s)\<rparr>,
          0 < rowcount hit (kb_shares s)))"

subsection \<open>Reading shares\<close>

definition approved_share :: "string \<Rightarrow> string \<Rightarrow> 'ref db \<Rightarrow> share_row option" where
  "approved_share kb_id user_id s =
     fetchone (\<lambda>k. k_kb_id k = kb_id \<and> k_target_user_id k = user_id \<and> k_status k = ''approved'')
       (kb_shares s)"

definition get_kb_permission :: "string \<Rightarrow> string \<Rightarrow> 'ref db \<Rightarrow> int" where
  "get_kb_permission kb_id user_id s =
     (case approved_share kb_id user_id s of Some k \<Rightarrow> k_permission_mask k | None \<Rightarrow> 0)"

text \<open>Ownership is read from the policy row whether or not that row is active.\<close>

definition has_kb_access :: "string \<Rightarrow> string \<Rightarrow> 'ref db \<Rightarrow> int" where
  "has_kb_access kb_id user_id s =
     (case fetchone (\<lambda>p. p_resource_id p = kb_id \<and> p_resource_type p = ''kb'')
             (resource_policies s) of
        Some p \<Rightarrow> if p_owner_user_id p = Some user_id then PERM_FULL
                  else get_kb_permission kb_id user_id s
      | None \<Rightarrow> get_kb_permission kb_id user_id s)"

record share_view =
  sv_id :: nat
  sv_target_user_id :: string
  sv_permission_mask :: int
  sv_shared_by :: string
  sv_approved_by :: "string option"
  sv_parent_share_id :: "nat option"
  sv_status :: string
  sv_created_at :: string
  sv_target_login :: string
  sv_target_name :: string
  sv_sharer_login :: "string option"

text \<open>Inner join with the target's account, left join with the sharer's.\<close>

definition list_kb_shares :: "string \<Rightarrow> 'ref db \<Rightarrow> share_view list" where
  "list_kb_shares kb_id s =
     sort_key sv_created_at
       [\<lparr>sv_id = k_id k, sv_target_user_id = k_target_user_id k,
         sv_permission_mask = k_permission_mask k, sv_shared_by = k_shared_by k,
         sv_approved_by = k_approved_by k, sv_parent_share_id = k_parent_share_id k,
         sv_status = k_status k, sv_created_at = k_created_at k,
         sv_target_login = u_login_id u, sv_target_name = u_display_name u,
         sv_sharer_login = map_option u_login_id
            (fetchone (\<lambda>x. u_user_id x = k_shared_by k) (users s))\<rparr>.
        k \<leftarrow> kb_shares s, u \<leftarrow> users s,
        k_target_user_id k = u_user_id u \<and> k_kb_id k = kb_id \<and> k_status k = ''approved'']"

text \<open>
  The \<open>while parent_id\<close> loop of \<open>get_share_chain\<close>.  Nothing in the table bounds it, so
  its result is an option: \<^term>\<open>None\<close> is a call that does not return.
\<close>

partial_function (option) chain_loop ::
  "share_row list \<Rightarrow> nat option \<Rightarrow> share_row list \<Rightarrow> share_row list option" where
  "chain_loop t parent_id chain =
     (case parent_id of None \<Rightarrow> Some chain
      | Some i \<Rightarrow>
          if i = 0 then Some chain
          else case fetchone (\<lambda>k. k_id k = i) t of
                 None \<Rightarrow> Some chain
               | Some parent \<Rightarrow> chain_loop t (k_parent_share_id parent) (chain @ [parent]))"

definition get_share_chain :: "string \<Rightarrow> string \<Rightarrow> 'ref db \<Rightarrow> share_row list option" where
  "get_share_chain kb_id target_user_id s =
     (case approved_share kb_id target_user_id s of
        None \<Rightarrow> Some []
      | Some share \<Rightarrow> chain_loop (kb_shares s) (k_parent_share_id share) [share])"

subsection \<open>Invariant and frame\<close>

lemma add_kb_share_tables [frame, simp]:
  fixes E s kb u m by' par ab st
  defines "s' \<equiv> add_kb_share E kb u m by' par ab st s"
  shows "users s' = users s" "departments s' = departments s"
    "user_departments s' = user_departments s" "resource_policies s' = resource_policies s"
    "audit_logs s' = audit_logs s" "portal_sessions s' = portal_sessions s"
    "portal_messages s' = portal_messages s" "kb_share_requests s' = kb_share_requests s"
  by (simp_all add: s'_def add_kb_share_def Let_def)

lemma remove_kb_share_tables [frame, simp]:
  fixes E s kb u
  defines "s' \<equiv> fst (remove_kb_share E kb u s)"
  shows "users s' = users s" "departments s' = departments s"
    "user_departments s' = user_departments s" "resource_policies s' = resource_policies s"
    "audit_logs s' = audit_logs s" "portal_sessions s' = portal_sessions s"
    "portal_messages s' = portal_messages s" "kb_share_requests s' = kb_share_requests s"
  by (simp_all add: s'_def remove_kb_share_def Let_def)

lemma revoke_user_share_tables [frame, simp]:
  fixes E s i
  defines "s' \<equiv> fst (revoke_user_share E i s)"
  shows "users s' = users s" "departments s' = departments s"
    "user_departments s' = user_departments s" "resource_policies s' = resource_policies s"
    "audit_logs s' = audit_logs s" "portal_sessions s' = portal_sessions s"
    "portal_messages s' = portal_messages s" "kb_share_requests s' = kb_share_requests s"
  by (simp_all add: s'_def revoke_user_share_def Let_def)

lemma add_kb_share_shares_ok:
  assumes "shares_ok s"
  shows "shares_ok (add_kb_share E kb u m by' par ab st s)"
proof -
  have "distinct (map k_id (kb_shares s))" "distinct (map share_key (kb_shares s))"
    "\<forall>k\<in>set (kb_shares s). 0 < k_id k \<and> k_id k \<le> share_seq s"
    using assms by (auto simp: shares_ok_def)
  moreover from this have "\<forall>k\<in>set (kb_shares s). k_id k \<noteq> Suc (share_seq s)" by fastforce
  ultimately show ?thesis
    by (auto simp: shares_ok_def add_kb_share_def Let_def upsert_def map_key_update_where
        set_update_where list_ex_iff)
qed

lemma remove_kb_share_shares_ok:
  "shares_ok s \<Longrightarrow> shares_ok (fst (remove_kb_share E kb u s))"
  by (auto simp: shares_ok_def remove_kb_share_def Let_def map_key_update_where set_update_where)

lemma revoke_user_share_shares_ok:
  "shares_ok s \<Longrightarrow> shares_ok (fst (revoke_user_share E i s))"
  by (auto simp: shares_ok_def revoke_user_share_def Let_def map_key_update_where set_update_where)

lemma db_ok_share_ops [inv_rules]:
  "db_ok s \<Longrightarrow> db_ok (add_kb_share E kb u m by' par ab st s)"
  "db_ok s \<Longrightarrow> db_ok (fst (remove_kb_share E kb u s))"
  "db_ok s \<Longrightarrow> db_ok (fst (revoke_user_share E i s))"
  using add_kb_share_shares_ok [of s E kb u m by' par ab st]
    remove_kb_share_shares_ok [of s E kb u] revoke_user_share_shares_ok [of s E i]
  by (auto simp: db_ok_def users_ok_def policies_ok_def requests_ok_def sessions_ok_def
      messages_ok_def add_kb_share_def remove_kb_share_def revoke_user_share_def Let_def)


subsection \<open>Grants as a keyed store\<close>

definition approved_mask :: "string \<times> string \<Rightarrow> 'ref db \<Rightarrow> int option" where
  "approved_mask key s =
     map_option k_permission_mask (approved_share (fst key) (snd key) s)"

lemma get_kb_permission_mask:
  "get_kb_permission kb u s = (case approved_mask (kb, u) s of None \<Rightarrow> 0 | Some m \<Rightarrow> m)"
  by (simp add: get_kb_permission_def approved_mask_def split: option.splits)

lemma approved_mask_frame [frame]:
  "kb_shares s' = kb_shares s \<Longrightarrow> approved_mask key s' = approved_mask key s"
  by (simp add: approved_mask_def approved_share_def)

lemma fetchone_upsert_hit:
  assumes "\<And>k. clash k \<Longrightarrow> P (f k)" and "\<And>k. P k \<Longrightarrow> clash k" and "P r"
  shows "\<exists>k. fetchone P (upsert clash f r t) = Some k \<and>
           ((\<exists>x\<in>set t. clash x \<and> k = f x) \<or> k = r)"
proof (cases "list_ex clash t")
  case True
  then have "fetchone P (update_where clash f t) \<noteq> None"
    using assms(1) by (auto simp: list_ex_iff set_update_where fetchone_None)
  then obtain k where k: "fetchone P (update_where clash f t) = Some k" by blast
  then have "k \<in> set (update_where clash f t)" "P k" by (auto dest: fetchone_SomeD)
  then obtain x where "x \<in> set t" "k = (if clash x then f x else x)"
    by (auto simp: set_update_where)
  with \<open>P k\<close> assms(2) have "clash x \<and> k = f x" by (auto split: if_splits)
  with \<open>x \<in> set t\<close> k True show ?thesis by (auto simp: upsert_def)
next
  case False
  then have "fetchone P t = None" using assms(2) by (auto simp: list_ex_iff fetchone_None)
  with False assms(3) show ?thesis by (simp add: upsert_def fetchone_append)
qed

lemma fetchone_upsert_other:
  assumes "\<And>k. clash k \<Longrightarrow> \<not> P k" and "\<And>k. clash k \<Longrightarrow> \<not> P (f k)" and "\<not> P r"
  shows "fetchone P (upsert clash f r t) = fetchone P t"
  using assms
  by (auto simp: upsert_def fetchone_append fetchone_update_other split: option.splits)

text \<open>The share a user holds after a grant: the grant itself, for anybody else no change.\<close>

lemma approved_share_add_same:
  "\<exists>k. approved_share kb u (add_kb_share E kb u m by' par ab ''approved'' s) = Some k \<and>
     k_permission_mask k = m \<and> k_parent_share_id k = par \<and> k_shared_by k = by'"
proof -
  let ?clash = "\<lambda>k. share_key k = (kb, u)"
  let ?P = "\<lambda>k. k_kb_id k = kb \<and> k_target_user_id k = u \<and> k_status k = ''approved''"
  let ?f = "\<lambda>k. k\<lparr>k_permission_mask := m, k_shared_by := by', k_approved_by := Some ab,
     k_parent_share_id := par, k_status := ''approved'', k_updated_at := now E s\<rparr>"
  let ?r = "\<lparr>k_id = Suc (share_seq s), k_kb_id = kb, k_target_user_id = u,
     k_permission_mask = m, k_shared_by = by', k_approved_by = Some ab, k_parent_share_id = par,
     k_status = ''approved'', k_created_at = now E s, k_updated_at = now E s\<rparr>"
  have "\<exists>k. fetchone ?P (upsert ?clash ?f ?r (kb_shares s)) = Some k \<and>
      ((\<exists>x\<in>set (kb_shares s). ?clash x \<and> k = ?f x) \<or> k = ?r)"
    by (rule fetchone_upsert_hit) auto
  then show ?thesis
    by (auto simp: approved_share_def add_kb_share_def Let_def)
qed

lemma approved_share_add_other:
  "(kb, u) \<noteq> (kb', u') \<Longrightarrow>
   approved_share kb' u' (add_kb_share E kb u m by' par ab st s) = approved_share kb' u' s"
  by (auto simp: approved_share_def add_kb_share_def Let_def intro!: fetchone_upsert_other)

lemma approved_mask_add:
  "approved_mask j (add_kb_share E (fst k) (snd k) m by' par ab ''approved'' s) =
     (if j = k then Some m else approved_mask j s)"
proof (cases "j = k")
  case True
  obtain x where "approved_share (fst k) (snd k)
      (add_kb_share E (fst k) (snd k) m by' par ab ''approved'' s) = Some x"
    and "k_permission_mask x = m"
    using approved_share_add_same [of "fst k" "snd k" E m by' par ab s] by blast
  with True show ?thesis by (simp add: approved_mask_def)
next
  case False
  then have "(fst k, snd k) \<noteq> (fst j, snd j)" by simp
  with False show ?thesis by (simp add: approved_mask_def approved_share_add_other)
qed

lemma approved_share_remove:
  "approved_share kb' u' (fst (remove_kb_share E kb u s)) =
     (if (kb', u') = (kb, u) then None else approved_share kb' u' s)"
proof (cases "(kb', u') = (kb, u)")
  case True
  have "approved_share kb u (fst (remove_kb_share E kb u s)) = None"
    unfolding approved_share_def remove_kb_share_def Let_def fst_conv
    by (simp, rule fetchone_update_gone) simp_all
  with True show ?thesis by simp
next
  case False
  have "approved_share kb' u' (fst (remove_kb_share E kb u s)) = approved_share kb' u' s"
    unfolding approved_share_def remove_kb_share_def Let_def fst_conv
    by (simp, rule fetchone_update_other) (use False in auto)
  with False show ?thesis by auto
qed

lemma approved_mask_remove:
  "approved_mask j (fst (remove_kb_share E (fst k) (snd k) s)) =
     (if j = k then None else approved_mask j s)"
  by (simp add: approved_mask_def approved_share_remove)

interpretation grants: keyed_store
  db_ok approved_mask
  "\<lambda>k m. add_kb_share E (fst k) (snd k) m by' par ab ''approved''"
  "\<lambda>k s. fst (remove_kb_share E (fst k) (snd k) s)"
  by unfold_locales (simp_all add: approved_mask_add approved_mask_remove inv_rules)

subsection \<open>Chains\<close>

text \<open>Where every parent is older than its child the walk to the root ends.\<close>

definition parents_older :: "'ref db \<Rightarrow> bool" where
  "parents_older s \<longleftrightarrow>
     (\<forall>k\<in>set (kb_shares s). case k_parent_share_id k of None \<Rightarrow> True | Some p \<Rightarrow> p < k_id k)"

lemma chain_loop_returns:
  assumes "\<And>k p. k \<in> set t \<Longrightarrow> k_parent_share_id k = Some p \<Longrightarrow> p < k_id k"
  shows "\<exists>r. chain_loop t (Some i) chain = Some (chain @ r) \<and> length r \<le> i"
proof (induction i arbitrary: chain rule: less_induct)
  case (less i)
  show ?case
  proof (cases "fetchone (\<lambda>k. k_id k = i) t")
    case None
    then show ?thesis by (simp add: chain_loop.simps [of t "Some i"])
  next
    case (Some k)
    then have k: "k \<in> set t" "k_id k = i" by (auto dest: fetchone_SomeD)
    show ?thesis
    proof (cases "i = 0")
      case True
      then show ?thesis by (simp add: chain_loop.simps)
    next
      case False
      show ?thesis
      proof (cases "k_parent_share_id k")
        case None
        with Some False show ?thesis by (auto simp: chain_loop.simps [of t "Some i"] chain_loop.simps [of t None])
      next
        case (Some p)
        with assms k have "p < i" by blast
        from less [OF this, of "chain @ [k]"] obtain r where
          "chain_loop t (Some p) (chain @ [k]) = Some ((chain @ [k]) @ r)" "length r \<le> p"
          by blast
        with \<open>p < i\<close> \<open>fetchone _ t = Some k\<close> Some False show ?thesis
          by (intro exI [of _ "k # r"]) (simp add: chain_loop.simps [of t "Some i"])
      qed
    qed
  qed
qed

text \<open>A set of shares whose parents stay inside the set is a trap: the loop does not return.\<close>

lemma chain_loop_trapped:
  assumes trap: "\<And>i. i \<in> I \<Longrightarrow> i \<noteq> 0 \<and>
      (\<exists>k j. fetchone (\<lambda>k. k_id k = i) t = Some k \<and> k_parent_share_id k = Some j \<and> j \<in> I)"
    and "i \<in> I"
  shows "chain_loop t (Some i) chain = None"
proof (rule ccontr)
  assume "chain_loop t (Some i) chain \<noteq> None"
  then obtain r where r: "chain_loop t (Some i) chain = Some r" by blast
  have "t = t \<longrightarrow> (\<exists>i'\<in>I. Some i = Some i') \<longrightarrow> False"
  proof (rule chain_loop.raw_induct
      [where P = "\<lambda>u p c r. u = t \<longrightarrow> (\<exists>i'\<in>I. p = Some i') \<longrightarrow> False", OF _ r])
    fix f u p c r
    assume IH: "\<And>u p c r. f u p c = Some r \<Longrightarrow> u = t \<longrightarrow> (\<exists>i'\<in>I. p = Some i') \<longrightarrow> False"
      and eq: "(case p of None \<Rightarrow> Some c
         | Some i \<Rightarrow> if i = 0 then Some c
             else case fetchone (\<lambda>k. k_id k = i) u of None \<Rightarrow> Some c
                  | Some parent \<Rightarrow> f u (k_parent_share_id parent) (c @ [parent])) = Some r"
    show "u = t \<longrightarrow> (\<exists>i'\<in>I. p = Some i') \<longrightarrow> False"
    proof (intro impI)
      assume "u = t" and "\<exists>i'\<in>I. p = Some i'"
      then obtain i' where i': "i' \<in> I" "p = Some i'" by blast
      with trap obtain k j where "i' \<noteq> 0" "fetchone (\<lambda>k. k_id k = i') t = Some k"
        "k_parent_share_id k = Some j" "j \<in> I" by blast
      with eq i' \<open>u = t\<close> have "f t (Some j) (c @ [k]) = Some r" by simp
      with IH \<open>j \<in> I\<close> show False by blast
    qed
  qed
  with assms(2) show False by blast
qed

end
