(* ===== verification/PortalPolicies.thy ===== *)
theory PortalPolicies
  imports PortalShares
begin

unbundle bit_operations_syntax

text \<open>
  Resource policies (\<open>resource_policies\<close>): who owns an agent or a knowledge base,
  its visibility, the departments allowed or denied; the access decision for a
  department, the effective permission of a user on a knowledge base, and the clean-up
  of what refers to a deleted knowledge base.
\<close>

subsection \<open>Writing policies\<close>

text \<open>The arguments \<open>allow_dept_ids or []\<close> and so on: a missing list is the empty list.\<close>

definition list_or_empty :: "'a list option \<Rightarrow> 'a list" where
  "list_or_empty xs = (case xs of None \<Rightarrow> [] | Some ys \<Rightarrow> ys)"

definition find_policy_row :: "string \<Rightarrow> string \<Rightarrow> 'ref db \<Rightarrow> policy_row option" where
  "find_policy_row resource_type resource_id s =
     fetchone (\<lambda>p. p_resource_type p = resource_type \<and> p_resource_id p = resource_id)
       (resource_policies s)"

definition upsert_policy ::
  "env \<Rightarrow> string \<Rightarrow> string \<Rightarrow> string \<Rightarrow> string \<Rightarrow> string \<Rightarrow> string option
     \<Rightarrow> string list option \<Rightarrow> string list option \<Rightarrow> string list option \<Rightarrow> string
     \<Rightarrow> 'ref db \<Rightarrow> ('ref db, unit) outcome" where
  "upsert_policy E resource_type resource_id owner_dept_id visibility created_by owner_user_id
       allow_dept_ids deny_dept_ids allow_roles category s =
     (let t = now E s; s0 = tick s;
          allow = list_or_empty allow_dept_ids;
          deny = list_or_empty deny_dept_ids;
          roles = list_or_empty allow_roles
      in case find_policy_row resource_type resource_id s of
           Some row \<Rightarrow>
             (s0\<lparr>resource_policies := update_where (\<lambda>p. p_policy_id p = p_policy_id row)
                  (\<lambda>p. p\<lparr>p_owner_dept_id := owner_dept_id, p_owner_user_id := owner_user_id,
                         p_visibility := visibility, p_allow_roles := roles,
                         p_allow_dept_ids := allow, p_deny_dept_ids := deny,
                         p_category := category, p_updated_at := t, p_is_active := True\<rparr>)
                  (resource_policies s)\<rparr>, Inr ())
         | None \<Rightarrow>
             (let pid = new_id E ''pol_'' s
              in if list_ex (\<lambda>p. p_policy_id p = pid) (resource_policies s)
                 then (s0, Inl IntegrityError)
                 else (s0\<lparr>resource_policies := resource_policies s @
                       [\<lparr>p_owner_dept_id = owner_dept_id, p_owner_user_id = owner_user_id,
                         p_visibility = visibility, p_allow_roles = roles,
                         p_allow_dept_ids = allow, p_deny_dept_ids = deny,
                         p_category = category, p_policy_id = pid,
                         p_resource_type = resource_type, p_resource_id = resource_id,
                         p_is_active = True, p_created_by = Some created_by,
                         p_created_at = t, p_updated_at = t\<rparr>]\<rparr>, Inr ())))"

definition deactivate_policy :: "env \<Rightarrow> string \<Rightarrow> string \<Rightarrow> 'ref db \<Rightarrow> 'ref db" where
  "deactivate_policy E resource_type resource_id s =
     (let t = now E s; s0 = tick s
      in s0\<lparr>resource_policies := update_where
              (\<lambda>p. p_resource_type p = resource_type \<and> p_resource_id p = resource_id)
              (\<lambda>p. p\<lparr>p_is_active := False, p_updated_at := t\<rparr>) (resource_policies s)\<rparr>)"

definition cleanup_stale_kb_policies :: "env \<Rightarrow> string set \<Rightarrow> 'ref db \<Rightarrow> 'ref db \<times> nat" where
  "cleanup_stale_kb_policies E valid_ids s =
     (let t = now E s; s0 = tick s;
          kb_rows = filter (\<lambda>p. p_resource_type p = ''kb'' \<and> p_is_active p) (resource_policies s);
          stale = filter (\<lambda>i. i \<notin> valid_ids) (map p_resource_id kb_rows)
      in if stale = [] then (s0, 0)
         else (s0\<lparr>resource_policies :=
                   fold (\<lambda>sid. update_where (\<lambda>p. p_resource_type p = ''kb'' \<and> p_resource_id p = sid)
                           (\<lambda>p. p\<lparr>p_is_active := False, p_updated_at := t\<rparr>))
                     stale (resource_policies s),
                 kb_shares := fold (\<lambda>sid. delete_where (\<lambda>k. k_kb_id k = sid)) stale (kb_shares s)\<rparr>,
               length stale))"

subsection \<open>Reading policies\<close>

definition get_policy :: "string \<Rightarrow> string \<Rightarrow> 'ref db \<Rightarrow> policy_row option" where
  "get_policy resource_type resource_id s =
     fetchone (\<lambda>p. p_resource_type p = resource_type \<and> p_resource_id p = resource_id \<and> p_is_active p)
       (resource_policies s)"

text \<open>An optional filter applies when it is given and not empty.\<close>

definition filter_if :: "string option \<Rightarrow> ('r \<Rightarrow> string) \<Rightarrow> 'r \<Rightarrow> bool" where
  "filter_if v col r \<longleftrightarrow> opt_or v [] = [] \<or> v = Some (col r)"

text \<open>\<open>max(0, (page - 1) * page_size)\<close>.\<close>

definition page_offset :: "int \<Rightarrow> int \<Rightarrow> int" where
  "page_offset page page_size = max 0 ((page - 1) * page_size)"

definition list_policies ::
  "string option \<Rightarrow> string option \<Rightarrow> string option \<Rightarrow> string option \<Rightarrow> int \<Rightarrow> int
     \<Rightarrow> 'ref db \<Rightarrow> policy_row list" where
  "list_policies resource_type owner_dept_id visibility category page page_size s =
     limit_offset page_size (page_offset page page_size)
       (order_desc p_updated_at
         (filter (\<lambda>p. p_is_active p \<and> filter_if resource_type p_resource_type p \<and>
                      filter_if owner_dept_id p_owner_dept_id p \<and>
                      filter_if visibility p_visibility p \<and> filter_if category p_category p)
            (resource_policies s)))"

text \<open>Department-level access; \<open>user_dept_ids\<close> is a set, \<open>user_id\<close> may be missing.\<close>

definition can_access_resource ::
  "string set \<Rightarrow> string \<Rightarrow> 'a policy_view_scheme option \<Rightarrow> string option \<Rightarrow> bool" where
  "can_access_resource user_dept_ids selected_dept_id policy user_id =
     (case policy of None \<Rightarrow> False
      | Some p \<Rightarrow>
          (let normalized_user_depts = normalize_dept_id ` user_dept_ids;
               selected = normalize_dept_id selected_dept_id
           in if selected \<notin> normalized_user_depts then False
              else
                let visibility = str_lower (str_or (p_visibility p) ''dept'');
                    owner_dept = normalize_dept_id (p_owner_dept_id p);
                    allow_depts = normalize_dept_id ` set (p_allow_dept_ids p);
                    deny_depts = normalize_dept_id ` set (p_deny_dept_ids p)
                in if visibility = ''private''
                   then opt_or user_id [] \<noteq> [] \<and> p_owner_user_id p = user_id
                   else if selected \<in> deny_depts then False
                   else if selected \<in> allow_depts then True
                   else if visibility = ''public'' then True
                   else owner_dept = selected))"

definition effective_kb_permission ::
  "string set \<Rightarrow> string \<Rightarrow> string \<Rightarrow> string \<Rightarrow> policy_view option \<Rightarrow> 'ref db \<Rightarrow> int" where
  "effective_kb_permission user_dept_ids selected_dept_id kb_id0 user_id0 policy s =
     (let kb_id = str_strip kb_id0; user_id = str_strip user_id0
      in if kb_id = [] \<or> user_id = [] then 0
         else
           let p = (case policy of Some v \<Rightarrow> Some v
                    | None \<Rightarrow> map_option policy_view.truncate (get_policy ''kb'' kb_id s));
               owner_user_id = (case p of None \<Rightarrow> [] | Some v \<Rightarrow> opt_or (p_owner_user_id v) [])
           in if owner_user_id \<noteq> [] \<and> owner_user_id = user_id then PERM_FULL
              else
                let m0 = (if can_access_resource user_dept_ids selected_dept_id p (Some user_id)
                          then PERM_READ else 0);
                    m1 = m0 OR get_kb_permission kb_id user_id s
                in if m1 \<noteq> 0 \<and> m1 AND PERM_READ = 0 then m1 OR PERM_READ else m1)"

definition can_read_kb :: "string set \<Rightarrow> string \<Rightarrow> string \<Rightarrow> string \<Rightarrow> 'ref db \<Rightarrow> bool" where
  "can_read_kb depts dept kb_id user_id s =
     has_read (effective_kb_permission depts dept kb_id user_id None s)"

definition can_write_kb :: "string set \<Rightarrow> string \<Rightarrow> string \<Rightarrow> string \<Rightarrow> 'ref db \<Rightarrow> bool" where
  "can_write_kb depts dept kb_id user_id s =
     has_write (effective_kb_permission depts dept kb_id user_id None s)"

definition can_share_kb :: "string set \<Rightarrow> string \<Rightarrow> string \<Rightarrow> string \<Rightarrow> 'ref db \<Rightarrow> bool" where
  "can_share_kb depts dept kb_id user_id s =
     has_share (effective_kb_permission depts dept kb_id user_id None s)"

subsection \<open>Deleting a knowledge base\<close>

record cleanup_report =
  cl_kb_id :: string
  cl_deleted_kb_shares :: nat
  cl_deleted_share_requests :: nat
  cl_deactivated_sessions :: nat
  cl_deleted_messages :: nat
  cl_session_ids :: "string list"

text \<open>The loop over the affected sessions: drop the messages, count them, deactivate.\<close>

fun cleanup_sessions ::
  "string \<Rightarrow> string list \<Rightarrow> 'ref db \<Rightarrow> nat \<Rightarrow> 'ref db \<times> nat" where
  "cleanup_sessions t [] s n = (s, n)"
| "cleanup_sessions t (sid # sids) s n =
     cleanup_sessions t sids
       (s\<lparr>portal_messages := delete_where (\<lambda>m. m_session_id m = sid) (portal_messages s),
          portal_sessions := update_where (\<lambda>v. s_session_id v = sid)
            (\<lambda>v. v\<lparr>s_is_active := False, s_updated_at := t\<rparr>) (portal_sessions s)\<rparr>)
       (n + rowcount (\<lambda>m. m_session_id m = sid) (portal_messages s))"

definition cascade_cleanup_kb :: "env \<Rightarrow> string \<Rightarrow> 'ref db \<Rightarrow> 'ref db \<times> cleanup_report" where
  "cascade_cleanup_kb E kb_id0 s =
     (let kb_id = str_strip kb_id0
      in if kb_id = [] then
           (s, \<lparr>cl_kb_id = kb_id, cl_deleted_kb_shares = 0, cl_deleted_share_requests = 0,
                cl_deactivated_sessions = 0, cl_deleted_messages = 0, cl_session_ids = []\<rparr>)
         else
           let t = now E s; s0 = tick s;
               affected = map s_session_id
                 (filter (\<lambda>v. s_is_active v \<and> s_kb_ids v \<noteq> [] \<and> kb_id \<in> set (s_kb_ids v))
                    (portal_sessions s));
               s1 = s0\<lparr>kb_shares := delete_where (\<lambda>k. k_kb_id k = kb_id) (kb_shares s),
                        kb_share_requests := delete_where (\<lambda>r. r_kb_id r = kb_id)
                          (kb_share_requests s)\<rparr>;
               (s2, n) = cleanup_sessions t affected s1 0
           in (s2, \<lparr>cl_kb_id = kb_id,
                    cl_deleted_kb_shares = rowcount (\<lambda>k. k_kb_id k = kb_id) (kb_shares s),
                    cl_deleted_share_requests = rowcount (\<lambda>r. r_kb_id r = kb_id) (kb_share_requests s),
                    cl_deactivated_sessions = length affected, cl_deleted_messages = n,
                    cl_session_ids = affected\<rparr>))"

subsection \<open>Policies: frame, invariant, lookup\<close>

lemma upsert_policy_tables [frame, simp]:
  fixes E rt rid od vis cb ou al de ro cat s
  defines "s' \<equiv> fst (upsert_policy E rt rid od vis cb ou al de ro cat s)"
  shows "users s' = users s" "departments s' = departments s"
    "user_departments s' = user_departments s" "audit_logs s' = audit_logs s"
    "portal_sessions s' = portal_sessions s" "portal_messages s' = portal_messages s"
    "kb_share_requests s' = kb_share_requests s" "kb_shares s' = kb_shares s"
    "share_seq s' = share_seq s" "message_seq s' = message_seq s" "ticks s' = Suc (ticks s)"
  by (simp_all add: s'_def upsert_policy_def Let_def split: option.split)

lemma deactivate_policy_tables [frame, simp]:
  fixes E rt rid s
  defines "s' \<equiv> deactivate_policy E rt rid s"
  shows "users s' = users s" "departments s' = departments s"
    "user_departments s' = user_departments s" "audit_logs s' = audit_logs s"
    "portal_sessions s' = portal_sessions s" "portal_messages s' = portal_messages s"
    "kb_share_requests s' = kb_share_requests s" "kb_shares s' = kb_shares s"
    "share_seq s' = share_seq s" "message_seq s' = message_seq s"
  by (simp_all add: s'_def deactivate_policy_def Let_def)

lemma find_policy_row_None:
  "find_policy_row rt rid s = None \<Longrightarrow> p \<in> set (resource_policies s) \<Longrightarrow> policy_key p \<noteq> (rt, rid)"
  by (auto simp: find_policy_row_def fetchone_None)

lemma upsert_policy_policies_ok:
  assumes "policies_ok s"
  shows "policies_ok (fst (upsert_policy E rt rid od vis cb ou al de ro cat s))"
  using assms find_policy_row_None [of rt rid s]
  by (auto simp: policies_ok_def upsert_policy_def Let_def map_key_update_where list_ex_iff
      split: option.split)

lemma deactivate_policy_policies_ok: "policies_ok s \<Longrightarrow> policies_ok (deactivate_policy E rt rid s)"
  by (simp add: policies_ok_def deactivate_policy_def Let_def map_key_update_where)

lemma fetchone_update_rows:
  assumes "\<And>r. r \<in> set t \<Longrightarrow> Q r \<Longrightarrow> \<not> P r \<and> \<not> P (f r)"
  shows "fetchone P (update_where Q f t) = fetchone P t"
  using assms by (induction t) (auto simp: update_where_def)

lemma db_ok_policy_ops [inv_rules]:
  assumes "db_ok s"
  shows "db_ok (fst (upsert_policy E rt rid od vis cb ou al de ro cat s))"
    and "db_ok (deactivate_policy E rt rid s)"
  using assms upsert_policy_policies_ok [of s E rt rid od vis cb ou al de ro cat]
    deactivate_policy_policies_ok [of s E rt rid]
  by (simp_all add: db_ok_def users_ok_def requests_ok_def sessions_ok_def messages_ok_def
      shares_ok_def)

text \<open>What the columns of an upserted row are.\<close>

definition policy_has ::
  "policy_row \<Rightarrow> string \<Rightarrow> string option \<Rightarrow> string \<Rightarrow> string list \<Rightarrow> string list \<Rightarrow> string list
     \<Rightarrow> string \<Rightarrow> bool" where
  "policy_has p od ou vis al de ro cat \<longleftrightarrow>
     p_owner_dept_id p = od \<and> p_owner_user_id p = ou \<and> p_visibility p = vis \<and>
     p_allow_dept_ids p = al \<and> p_deny_dept_ids p = de \<and> p_allow_roles p = ro \<and> p_category p = cat"

lemma get_policy_upsert_same:
  assumes "policies_ok s" and "snd (upsert_policy E rt rid od vis cb ou al de ro cat s) = Inr ()"
  shows "\<exists>p. get_policy rt rid (fst (upsert_policy E rt rid od vis cb ou al de ro cat s)) = Some p \<and>
           p_resource_type p = rt \<and> p_resource_id p = rid \<and>
           policy_has p od ou vis (list_or_empty al) (list_or_empty de) (list_or_empty ro) cat"
proof (cases "find_policy_row rt rid s")
  case None
  then have "\<forall>p\<in>set (resource_policies s). \<not> (p_resource_type p = rt \<and> p_resource_id p = rid)"
    by (simp add: find_policy_row_def fetchone_None)
  then have "fetchone (\<lambda>p. p_resource_type p = rt \<and> p_resource_id p = rid \<and> p_is_active p)
      (resource_policies s) = None" by (auto simp: fetchone_None)
  with None assms(2) show ?thesis
    by (simp add: upsert_policy_def Let_def get_policy_def fetchone_append policy_has_def
        split: if_splits)
next
  case (Some row)
  let ?f = "\<lambda>p. p\<lparr>p_owner_dept_id := od, p_owner_user_id := ou, p_visibility := vis,
     p_allow_roles := list_or_empty ro, p_allow_dept_ids := list_or_empty al,
     p_deny_dept_ids := list_or_empty de, p_category := cat, p_updated_at := now E s, p_is_active := True\<rparr>"
  let ?t = "update_where (\<lambda>p. p_policy_id p = p_policy_id row) ?f (resource_policies s)"
  have row: "row \<in> set (resource_policies s)" "p_resource_type row = rt" "p_resource_id row = rid"
    using Some by (auto simp: find_policy_row_def dest: fetchone_SomeD)
  have "fetchone (\<lambda>p. p_resource_type p = rt \<and> p_resource_id p = rid \<and> p_is_active p) ?t = Some (?f row)"
  proof (rule fetchone_unique [where key = policy_key])
    show "distinct (map policy_key ?t)"
      using assms(1) by (simp add: policies_ok_def map_key_update_where)
    show "?f row \<in> set ?t" using row(1) by (auto simp: set_update_where)
  qed (use row in auto)
  with Some row show ?thesis
    by (auto simp: upsert_policy_def Let_def get_policy_def policy_has_def)
qed

lemma upsert_policyD:
  assumes "db_ok s" and "upsert_policy E rt rid od vis cb ou al de ro cat s = (s1, Inr ())"
  shows "db_ok s1" "users s1 = users s" "user_departments s1 = user_departments s"
    "kb_shares s1 = kb_shares s" "kb_share_requests s1 = kb_share_requests s"
    "portal_sessions s1 = portal_sessions s"
    "\<exists>p. get_policy rt rid s1 = Some p \<and>
       policy_has p od ou vis (list_or_empty al) (list_or_empty de) (list_or_empty ro) cat"
proof -
  have s1: "s1 = fst (upsert_policy E rt rid od vis cb ou al de ro cat s)"
    and r: "snd (upsert_policy E rt rid od vis cb ou al de ro cat s) = Inr ()"
    using assms(2) by simp_all
  show "db_ok s1" using assms(1) by (simp add: s1 inv_rules)
  show "\<exists>p. get_policy rt rid s1 = Some p \<and>
       policy_has p od ou vis (list_or_empty al) (list_or_empty de) (list_or_empty ro) cat"
    using get_policy_upsert_same [OF db_ok_parts(2) [OF assms(1)] r] unfolding s1 by blast
qed (use assms(2) in \<open>simp_all add: upsert_policy_def Let_def split: option.splits if_splits\<close>, auto)

lemma get_policy_upsert_other:
  assumes "policies_ok s" and "(rt', rid') \<noteq> (rt, rid)"
  shows "get_policy rt' rid' (fst (upsert_policy E rt rid od vis cb ou al de ro cat s)) = get_policy rt' rid' s"
proof (cases "find_policy_row rt rid s")
  case None
  with assms(2) show ?thesis
    by (auto simp: upsert_policy_def Let_def get_policy_def fetchone_append split: option.split)
next
  case (Some row)
  then have row: "row \<in> set (resource_policies s)" "policy_key row = (rt, rid)"
    by (auto simp: find_policy_row_def dest: fetchone_SomeD)
  have "\<And>p. p \<in> set (resource_policies s) \<Longrightarrow> p_policy_id p = p_policy_id row \<Longrightarrow> p = row"
    using assms(1) row(1) by (auto simp: policies_ok_def distinct_map dest: inj_onD)
  then have "fetchone (\<lambda>p. p_resource_type p = rt' \<and> p_resource_id p = rid' \<and> p_is_active p)
      (update_where (\<lambda>p. p_policy_id p = p_policy_id row) f (resource_policies s)) =
     fetchone (\<lambda>p. p_resource_type p = rt' \<and> p_resource_id p = rid' \<and> p_is_active p) (resource_policies s)"
    if "\<And>p. p_resource_type (f p) = p_resource_type p" "\<And>p. p_resource_id (f p) = p_resource_id p" for f
    using that row(2) assms(2) by (intro fetchone_update_rows) auto
  with Some show ?thesis
    by (simp add: upsert_policy_def Let_def get_policy_def)
qed

subsection \<open>Effective permission\<close>

definition kb_policy_view :: "string \<Rightarrow> policy_view option \<Rightarrow> 'ref db \<Rightarrow> policy_view option" where
  "kb_policy_view kb_id policy s =
     (case policy of Some v \<Rightarrow> Some v | None \<Rightarrow> map_option policy_view.truncate (get_policy ''kb'' kb_id s))"

definition owns_kb :: "string \<Rightarrow> string \<Rightarrow> policy_view option \<Rightarrow> 'ref db \<Rightarrow> bool" where
  "owns_kb kb_id user_id policy s \<longleftrightarrow>
     (\<exists>v. kb_policy_view kb_id policy s = Some v \<and> p_owner_user_id v = Some user_id)"

lemma owner_test:
  "u \<noteq> [] \<Longrightarrow> (case v of None \<Rightarrow> [] | Some v \<Rightarrow> opt_or (p_owner_user_id v) []) = u \<longleftrightarrow>
     (\<exists>w. v = Some w \<and> p_owner_user_id w = Some u)"
proof -
  assume "u \<noteq> []"
  then have "opt_or x [] = u \<longleftrightarrow> x = Some u" for x by (cases x) auto
  with \<open>u \<noteq> []\<close> show ?thesis by (cases v) auto
qed

lemma effective_unfold:
  assumes "str_strip kb_id \<noteq> []" "str_strip user_id \<noteq> []"
  shows "effective_kb_permission depts dept kb_id user_id policy s =
    (if owns_kb (str_strip kb_id) (str_strip user_id) policy s then PERM_FULL
     else let m = (if can_access_resource depts dept (kb_policy_view (str_strip kb_id) policy s)
                         (Some (str_strip user_id)) then PERM_READ else 0)
                  OR get_kb_permission (str_strip kb_id) (str_strip user_id) s
          in if m \<noteq> 0 \<and> m AND PERM_READ = 0 then m OR PERM_READ else m)"
  using assms owner_test [OF assms(2), of "kb_policy_view (str_strip kb_id) policy s"]
  by (auto simp: effective_kb_permission_def Let_def owns_kb_def kb_policy_view_def)

lemma effective_blank:
  "str_strip kb_id = [] \<or> str_strip user_id = [] \<Longrightarrow>
   effective_kb_permission depts dept kb_id user_id policy s = 0"
  by (auto simp: effective_kb_permission_def Let_def)

lemma PERM_READ_nonzero [simp]: "PERM_READ \<noteq> 0"
  by (simp add: PERM_READ_def)

lemma or_zero_iff: "(a :: int) OR b = 0 \<longleftrightarrow> a = 0 \<and> b = 0"
  by (auto simp: bit_eq_iff bit_or_iff)

lemma effective_bits:
  fixes s :: "'ref db" and depts dept kb_id user_id policy
  defines "m \<equiv> effective_kb_permission depts dept kb_id user_id policy s"
    and "own \<equiv> owns_kb (str_strip kb_id) (str_strip user_id) policy s"
    and "g \<equiv> get_kb_permission (str_strip kb_id) (str_strip user_id) s"
  assumes "str_strip kb_id \<noteq> []" "str_strip user_id \<noteq> []"
  shows "has_read m \<longleftrightarrow> own \<or> can_access_resource depts dept (kb_policy_view (str_strip kb_id) policy s)
             (Some (str_strip user_id)) \<or> g \<noteq> 0"
    and "has_write m \<longleftrightarrow> own \<or> has_write g"
    and "has_share m \<longleftrightarrow> own \<or> has_share g"
  unfolding m_def own_def g_def effective_unfold [OF assms(4,5)]
  by (auto simp: Let_def or_zero_iff simp flip: has_read_def)

text \<open>Visibility alone never gives more than reading, and a private resource not even that.\<close>

lemma can_access_private:
  assumes "str_lower (str_or (p_visibility p) ''dept'') = ''private''"
    and "can_access_resource depts dept (Some p) user_id"
  shows "opt_or user_id [] \<noteq> [] \<and> p_owner_user_id p = user_id"
  using assms by (auto simp: can_access_resource_def Let_def split: if_splits)

lemma can_access_denied:
  assumes "normalize_dept_id dept \<in> normalize_dept_id ` set (p_deny_dept_ids p)"
    and "can_access_resource depts dept (Some p) user_id"
  shows "str_lower (str_or (p_visibility p) ''dept'') = ''private''"
  using assms by (auto simp: can_access_resource_def Let_def split: if_splits)

lemma can_access_member:
  "can_access_resource depts dept policy user_id \<Longrightarrow>
     normalize_dept_id dept \<in> normalize_dept_id ` depts"
  by (auto simp: can_access_resource_def Let_def split: option.splits if_splits)

subsection \<open>Deletion\<close>

lemma cleanup_sessions_eq:
  "cleanup_sessions t sids s n =
     (s\<lparr>portal_messages := filter (\<lambda>m. m_session_id m \<notin> set sids) (portal_messages s),
        portal_sessions := update_where (\<lambda>v. s_session_id v \<in> set sids)
          (\<lambda>v. v\<lparr>s_is_active := False, s_updated_at := t\<rparr>) (portal_sessions s)\<rparr>,
      n + rowcount (\<lambda>m. m_session_id m \<in> set sids) (portal_messages s))"
proof (induction sids arbitrary: s n)
  case Nil
  then show ?case by (simp add: rowcount_def update_where_def)
next
  case (Cons sid sids)
  have count: "length (filter (\<lambda>m. m_session_id m = sid \<or> m_session_id m \<in> set sids) ms) =
      length (filter (\<lambda>m. m_session_id m = sid) ms) +
      length (filter (\<lambda>m. m_session_id m \<in> set sids) (delete_where (\<lambda>m. m_session_id m = sid) ms))"
    for ms :: "'a message_row list"
    by (induction ms) auto
  have upd: "update_where (\<lambda>v. s_session_id v \<in> set sids) (\<lambda>v. v\<lparr>s_is_active := False, s_updated_at := t\<rparr>)
      (update_where (\<lambda>v. s_session_id v = sid) (\<lambda>v. v\<lparr>s_is_active := False, s_updated_at := t\<rparr>) vs) =
     update_where (\<lambda>v. s_session_id v = sid \<or> s_session_id v \<in> set sids)
      (\<lambda>v. v\<lparr>s_is_active := False, s_updated_at := t\<rparr>) vs" for vs
    by (simp add: update_where_def)
  show ?case
    by (simp add: Cons.IH rowcount_def count upd delete_where_def conj_commute)
qed

text \<open>The sessions a clean-up takes down.\<close>

definition kb_sessions :: "string \<Rightarrow> 'ref db \<Rightarrow> string set" where
  "kb_sessions kb_id s = s_session_id ` {v \<in> set (portal_sessions s). s_is_active v \<and> kb_id \<in> set (s_kb_ids v)}"

lemma cascade_cleanup_eq:
  assumes "str_strip kb_id0 = kb_id" "kb_id \<noteq> []"
  shows "fst (cascade_cleanup_kb E kb_id0 s) =
     (tick s)\<lparr>kb_shares := delete_where (\<lambda>k. k_kb_id k = kb_id) (kb_shares s),
        kb_share_requests := delete_where (\<lambda>r. r_kb_id r = kb_id) (kb_share_requests s),
        portal_messages := filter (\<lambda>m. m_session_id m \<notin> kb_sessions kb_id s) (portal_messages s),
        portal_sessions := update_where (\<lambda>v. s_session_id v \<in> kb_sessions kb_id s)
          (\<lambda>v. v\<lparr>s_is_active := False, s_updated_at := now E s\<rparr>) (portal_sessions s)\<rparr>"
    and "set (cl_session_ids (snd (cascade_cleanup_kb E kb_id0 s))) = kb_sessions kb_id s"
proof -
  have "set (map s_session_id (filter (\<lambda>v. s_is_active v \<and> s_kb_ids v \<noteq> [] \<and> kb_id \<in> set (s_kb_ids v))
      (portal_sessions s))) = kb_sessions kb_id s"
    by (auto simp: kb_sessions_def)
  with assms show "fst (cascade_cleanup_kb E kb_id0 s) =
     (tick s)\<lparr>kb_shares := delete_where (\<lambda>k. k_kb_id k = kb_id) (kb_shares s),
        kb_share_requests := delete_where (\<lambda>r. r_kb_id r = kb_id) (kb_share_requests s),
        portal_messages := filter (\<lambda>m. m_session_id m \<notin> kb_sessions kb_id s) (portal_messages s),
        portal_sessions := update_where (\<lambda>v. s_session_id v \<in> kb_sessions kb_id s)
          (\<lambda>v. v\<lparr>s_is_active := False, s_updated_at := now E s\<rparr>) (portal_sessions s)\<rparr>"
    "set (cl_session_ids (snd (cascade_cleanup_kb E kb_id0 s))) = kb_sessions kb_id s"
    by (simp_all add: cascade_cleanup_kb_def Let_def cleanup_sessions_eq)
qed

lemma cascade_cleanup_blank: "str_strip kb_id0 = [] \<Longrightarrow> fst (cascade_cleanup_kb E kb_id0 s) = s"
  by (simp add: cascade_cleanup_kb_def Let_def)

lemma cascade_cleanup_tables [frame, simp]:
  fixes E kb s
  defines "s' \<equiv> fst (cascade_cleanup_kb E kb s)"
  shows "users s' = users s" "departments s' = departments s"
    "user_departments s' = user_departments s" "resource_policies s' = resource_policies s"
    "audit_logs s' = audit_logs s" "share_seq s' = share_seq s" "message_seq s' = message_seq s"
  unfolding s'_def by (cases "str_strip kb = []"; simp add: cascade_cleanup_blank cascade_cleanup_eq)+

lemma sorted_wrt_map_filter: "sorted_wrt P (map f xs) \<Longrightarrow> sorted_wrt P (map f (filter Q xs))"
  by (induction xs) auto

lemma db_ok_cascade [inv_rules]: "db_ok s \<Longrightarrow> db_ok (fst (cascade_cleanup_kb E kb s))"
  by (cases "str_strip kb = []")
    (auto simp: cascade_cleanup_blank cascade_cleanup_eq db_ok_def users_ok_def policies_ok_def
      requests_ok_def sessions_ok_def messages_ok_def shares_ok_def map_key_update_where
      sorted_wrt_map_filter)

text \<open>Policies of knowledge bases that RAGFlow no longer lists.\<close>

lemma fold_update_policies:
  "fold (\<lambda>i. update_where (\<lambda>p. p_resource_type p = ''kb'' \<and> p_resource_id p = i)
           (\<lambda>p. p\<lparr>p_is_active := False, p_updated_at := t\<rparr>)) ids ps =
   update_where (\<lambda>p. p_resource_type p = ''kb'' \<and> p_resource_id p \<in> set ids)
     (\<lambda>p. p\<lparr>p_is_active := False, p_updated_at := t\<rparr>) ps"
  by (induction ids arbitrary: ps) (auto simp: update_where_def)

lemma fold_delete_shares:
  "fold (\<lambda>i. delete_where (\<lambda>k. f k = i)) ids ks = delete_where (\<lambda>k. f k \<in> set ids) ks"
  by (induction ids arbitrary: ks) (auto simp: delete_where_def conj_commute)

definition stale_kbs :: "string set \<Rightarrow> 'ref db \<Rightarrow> string set" where
  "stale_kbs valid s = p_resource_id ` {p \<in> set (resource_policies s).
     p_resource_type p = ''kb'' \<and> p_is_active p} - valid"

lemma cleanup_stale_eq:
  "fst (cleanup_stale_kb_policies E valid s) =
     (tick s)\<lparr>resource_policies := update_where
         (\<lambda>p. p_resource_type p = ''kb'' \<and> p_resource_id p \<in> stale_kbs valid s)
         (\<lambda>p. p\<lparr>p_is_active := False, p_updated_at := now E s\<rparr>) (resource_policies s),
       kb_shares := delete_where (\<lambda>k. k_kb_id k \<in> stale_kbs valid s) (kb_shares s)\<rparr>"
proof -
  have ids: "set (filter (\<lambda>i. i \<notin> valid) (map p_resource_id
      (filter (\<lambda>p. p_resource_type p = ''kb'' \<and> p_is_active p) (resource_policies s)))) = stale_kbs valid s"
    by (auto simp: stale_kbs_def)
  show ?thesis
  proof (cases "stale_kbs valid s = {}")
    case True
    with ids have "filter (\<lambda>i. i \<notin> valid) (map p_resource_id
      (filter (\<lambda>p. p_resource_type p = ''kb'' \<and> p_is_active p) (resource_policies s))) = []"
      by (metis set_empty)
    with True show ?thesis
      by (simp add: cleanup_stale_kb_policies_def Let_def update_where_def delete_where_def tick_def)
  next
    case False
    then have "filter (\<lambda>i. i \<notin> valid) (map p_resource_id
      (filter (\<lambda>p. p_resource_type p = ''kb'' \<and> p_is_active p) (resource_policies s))) \<noteq> []"
      unfolding ids [symmetric] by (metis empty_set)
    then show ?thesis
      unfolding ids [symmetric]
      by (simp add: cleanup_stale_kb_policies_def Let_def fold_update_policies fold_delete_shares)
  qed
qed

lemma cleanup_stale_tables [frame, simp]:
  fixes E valid s
  defines "s' \<equiv> fst (cleanup_stale_kb_policies E valid s)"
  shows "users s' = users s" "departments s' = departments s"
    "user_departments s' = user_departments s" "audit_logs s' = audit_logs s"
    "portal_sessions s' = portal_sessions s" "portal_messages s' = portal_messages s"
    "kb_share_requests s' = kb_share_requests s" "share_seq s' = share_seq s"
    "message_seq s' = message_seq s"
  by (simp_all add: s'_def cleanup_stale_eq)

lemma db_ok_cleanup_stale [inv_rules]: "db_ok s \<Longrightarrow> db_ok (fst (cleanup_stale_kb_policies E valid s))"
  by (auto simp: cleanup_stale_eq db_ok_def users_ok_def policies_ok_def requests_ok_def
      sessions_ok_def messages_ok_def shares_ok_def map_key_update_where)

end
