(* ===== verification/PortalSessions.thy ===== *)
theory PortalSessions
  imports PortalPolicies
begin

text \<open>
  Chat sessions, their messages, and the audit log of \<open>portal_store.py\<close>.
\<close>

subsection \<open>Audit log\<close>

text \<open>
  Audit ids are fresh \<open>uuid4\<close> values and the log is only ever appended to; a collision
  of two such ids is not modelled here.
\<close>

definition write_audit ::
  "env \<Rightarrow> string \<Rightarrow> string \<Rightarrow> string \<Rightarrow> string option \<Rightarrow> string option \<Rightarrow> string option
     \<Rightarrow> string option \<Rightarrow> string option \<Rightarrow> string option \<Rightarrow> py_error option \<Rightarrow> string option
     \<Rightarrow> 'ref db \<Rightarrow> 'ref db" where
  "write_audit E request_id action status user_id dept_id resource_type resource_id session_id
       error_code error_message payload_digest s =
     (tick s)\<lparr>audit_logs := audit_logs s @
        [\<lparr>a_audit_id = new_id E ''aud_'' s, a_request_id = request_id, a_event_time = now E s,
          a_user_id = user_id, a_dept_id = dept_id, a_action = action,
          a_resource_type = resource_type, a_resource_id = resource_id,
          a_session_id = session_id, a_status = status, a_error_code = error_code,
          a_error_message = error_message, a_payload_digest = payload_digest\<rparr>]\<rparr>"

definition opt_filter_if :: "string option \<Rightarrow> ('r \<Rightarrow> string option) \<Rightarrow> 'r \<Rightarrow> bool" where
  "opt_filter_if v col r \<longleftrightarrow> opt_or v [] = [] \<or> v = col r"

definition list_audit_logs ::
  "string option \<Rightarrow> string option \<Rightarrow> string option \<Rightarrow> string option \<Rightarrow> int \<Rightarrow> int
     \<Rightarrow> 'ref db \<Rightarrow> audit_row list" where
  "list_audit_logs dept_id user_id action status page page_size s =
     limit_offset page_size (page_offset page page_size)
       (order_desc a_event_time
         (filter (\<lambda>a. opt_filter_if dept_id a_dept_id a \<and> opt_filter_if user_id a_user_id a \<and>
                      filter_if action a_action a \<and> filter_if status a_status a)
            (audit_logs s)))"

subsection \<open>Sessions\<close>

definition create_portal_session ::
  "env \<Rightarrow> string \<Rightarrow> string \<Rightarrow> string \<Rightarrow> string \<Rightarrow> string list option \<Rightarrow> bool \<Rightarrow> bool
     \<Rightarrow> 'ref db \<Rightarrow> 'ref db" where
  "create_portal_session E session_id user_id dept_id agent_id kb_ids is_private kb_overridden s =
     (let t = now E s; kbs = list_or_empty kb_ids
      in (tick s)\<lparr>portal_sessions := upsert (\<lambda>v. s_session_id v = session_id)
            (\<lambda>v. v\<lparr>s_user_id := user_id, s_dept_id := dept_id, s_agent_id := agent_id,
                   s_kb_ids := kbs, s_is_private := is_private,
                   s_kb_overridden := kb_overridden, s_updated_at := t, s_is_active := True\<rparr>)
            \<lparr>s_session_id = session_id, s_user_id = user_id, s_dept_id = dept_id,
             s_agent_id = agent_id, s_kb_ids = kbs, s_is_private = is_private,
             s_kb_overridden = kb_overridden, s_created_at = t, s_updated_at = t,
             s_is_active = True\<rparr> (portal_sessions s)\<rparr>)"

definition get_portal_session :: "string \<Rightarrow> 'ref db \<Rightarrow> session_row option" where
  "get_portal_session session_id s =
     fetchone (\<lambda>v. s_session_id v = session_id \<and> s_is_active v) (portal_sessions s)"

definition append_portal_message ::
  "env \<Rightarrow> string \<Rightarrow> string \<Rightarrow> string \<Rightarrow> 'ref list option \<Rightarrow> 'ref db \<Rightarrow> 'ref db" where
  "append_portal_message E session_id role content references s =
     (let t = now E s
      in (tick s)\<lparr>portal_messages := portal_messages s @
              [\<lparr>m_id = Suc (message_seq s), m_session_id = session_id, m_role = role,
                m_content = content, m_references = list_or_empty references,
                m_created_at = t\<rparr>],
            message_seq := Suc (message_seq s),
            portal_sessions := update_where (\<lambda>v. s_session_id v = session_id)
              (\<lambda>v. v\<lparr>s_updated_at := t\<rparr>) (portal_sessions s)\<rparr>)"

definition list_portal_messages :: "string \<Rightarrow> int \<Rightarrow> 'ref db \<Rightarrow> 'ref message_row list" where
  "list_portal_messages session_id limit s =
     limit_offset limit 0
       (sort_key m_id (filter (\<lambda>m. m_session_id m = session_id) (portal_messages s)))"

definition list_user_sessions :: "string \<Rightarrow> string option \<Rightarrow> int \<Rightarrow> 'ref db \<Rightarrow> session_row list" where
  "list_user_sessions user_id dept_id limit s =
     limit_offset (max 1 limit) 0
       (order_desc s_updated_at
         (filter (\<lambda>v. s_user_id v = user_id \<and> s_is_active v \<and> filter_if dept_id s_dept_id v)
            (portal_sessions s)))"

definition list_dept_sessions ::
  "string \<Rightarrow> string option \<Rightarrow> bool \<Rightarrow> int \<Rightarrow> 'ref db \<Rightarrow> session_row list" where
  "list_dept_sessions dept_id exclude_user_id include_private limit s =
     limit_offset limit 0
       (order_desc s_updated_at
         (filter (\<lambda>v. s_dept_id v = normalize_dept_id dept_id \<and> s_is_active v \<and>
                      (opt_or exclude_user_id [] = [] \<or> exclude_user_id \<noteq> Some (s_user_id v)) \<and>
                      (include_private \<or> \<not> s_is_private v))
            (portal_sessions s)))"

text \<open>Both writers first look for an active session of that user, and answer whether it is there.\<close>

definition owns_active_session :: "string \<Rightarrow> string \<Rightarrow> 'ref db \<Rightarrow> bool" where
  "owns_active_session session_id user_id s \<longleftrightarrow>
     fetchone (\<lambda>v. s_session_id v = session_id \<and> s_user_id v = user_id \<and> s_is_active v)
       (portal_sessions s) \<noteq> None"

definition deactivate_portal_session ::
  "env \<Rightarrow> string \<Rightarrow> string \<Rightarrow> 'ref db \<Rightarrow> 'ref db \<times> bool" where
  "deactivate_portal_session E session_id user_id s =
     (let t = now E s; s0 = tick s
      in if \<not> owns_active_session session_id user_id s then (s0, False)
         else (s0\<lparr>portal_sessions := update_where (\<lambda>v. s_session_id v = session_id)
                 (\<lambda>v. v\<lparr>s_is_active := False, s_updated_at := t\<rparr>) (portal_sessions s)\<rparr>, True))"

definition update_portal_session_privacy ::
  "env \<Rightarrow> string \<Rightarrow> string \<Rightarrow> bool \<Rightarrow> 'ref db \<Rightarrow> 'ref db \<times> bool" where
  "update_portal_session_privacy E session_id user_id is_private s =
     (let t = now E s; s0 = tick s
      in if \<not> owns_active_session session_id user_id s then (s0, False)
         else (s0\<lparr>portal_sessions := update_where (\<lambda>v. s_session_id v = session_id)
                 (\<lambda>v. v\<lparr>s_is_private := is_private, s_updated_at := t\<rparr>) (portal_sessions s)\<rparr>, True))"

subsection \<open>Frame and invariant\<close>

lemma write_audit_tables [frame, simp]:
  fixes E q a st u d rt ri si ec em pd s
  defines "s' \<equiv> write_audit E q a st u d rt ri si ec em pd s"
  shows "users s' = users s" "departments s' = departments s"
    "user_departments s' = user_departments s" "resource_policies s' = resource_policies s"
    "portal_sessions s' = portal_sessions s" "portal_messages s' = portal_messages s"
    "kb_share_requests s' = kb_share_requests s" "kb_shares s' = kb_shares s"
    "share_seq s' = share_seq s" "message_seq s' = message_seq s"
    "length (audit_logs s') = Suc (length (audit_logs s))"
  by (simp_all add: s'_def write_audit_def)

lemma create_session_tables [frame, simp]:
  fixes E sid u d a kbs pr ov s
  defines "s' \<equiv> create_portal_session E sid u d a kbs pr ov s"
  shows "users s' = users s" "departments s' = departments s"
    "user_departments s' = user_departments s" "resource_policies s' = resource_policies s"
    "audit_logs s' = audit_logs s" "portal_messages s' = portal_messages s"
    "kb_share_requests s' = kb_share_requests s" "kb_shares s' = kb_shares s"
    "share_seq s' = share_seq s" "message_seq s' = message_seq s"
  by (simp_all add: s'_def create_portal_session_def Let_def)

lemma session_writer_tables [frame, simp]:
  "users (fst (deactivate_portal_session E sid u s)) = users s"
  "resource_policies (fst (deactivate_portal_session E sid u s)) = resource_policies s"
  "kb_shares (fst (deactivate_portal_session E sid u s)) = kb_shares s"
  "kb_share_requests (fst (deactivate_portal_session E sid u s)) = kb_share_requests s"
  "portal_messages (fst (deactivate_portal_session E sid u s)) = portal_messages s"
  "users (fst (update_portal_session_privacy E sid u b s)) = users s"
  "resource_policies (fst (update_portal_session_privacy E sid u b s)) = resource_policies s"
  "kb_shares (fst (update_portal_session_privacy E sid u b s)) = kb_shares s"
  "kb_share_requests (fst (update_portal_session_privacy E sid u b s)) = kb_share_requests s"
  "portal_messages (fst (update_portal_session_privacy E sid u b s)) = portal_messages s"
  by (simp_all add: deactivate_portal_session_def update_portal_session_privacy_def Let_def)

lemma append_message_tables [frame, simp]:
  fixes E sid ro c re s
  defines "s' \<equiv> append_portal_message E sid ro c re s"
  shows "users s' = users s" "departments s' = departments s"
    "user_departments s' = user_departments s" "resource_policies s' = resource_policies s"
    "audit_logs s' = audit_logs s" "kb_share_requests s' = kb_share_requests s"
    "kb_shares s' = kb_shares s" "share_seq s' = share_seq s"
    "message_seq s' = Suc (message_seq s)"
  by (simp_all add: s'_def append_portal_message_def Let_def)

lemma db_ok_session_ops [inv_rules]:
  assumes "db_ok s"
  shows "db_ok (write_audit E q a st u d rt ri si ec em pd s)"
    and "db_ok (create_portal_session E sid u2 d2 ag kbs pr ov s)"
    and "db_ok (append_portal_message E sid ro c re s)"
    and "db_ok (fst (deactivate_portal_session E sid u3 s))"
    and "db_ok (fst (update_portal_session_privacy E sid u4 b s))"
  using assms
  by (auto simp: db_ok_def users_ok_def policies_ok_def requests_ok_def sessions_ok_def
      messages_ok_def shares_ok_def write_audit_def create_portal_session_def
      append_portal_message_def deactivate_portal_session_def update_portal_session_privacy_def
      Let_def map_key_update_where upsert_def list_ex_iff sorted_wrt_append le_imp_less_Suc le_SucI)

subsection \<open>Sessions as a keyed map\<close>

record session_data =
  x_user_id :: string
  x_dept_id :: string
  x_agent_id :: string
  x_kb_ids :: "string list"
  x_is_private :: bool
  x_kb_overridden :: bool

definition session_data_of :: "session_row \<Rightarrow> session_data" where
  "session_data_of v = \<lparr>x_user_id = s_user_id v, x_dept_id = s_dept_id v, x_agent_id = s_agent_id v,
     x_kb_ids = s_kb_ids v, x_is_private = s_is_private v, x_kb_overridden = s_kb_overridden v\<rparr>"

definition session_lookup :: "string \<Rightarrow> 'ref db \<Rightarrow> session_data option" where
  "session_lookup sid s = map_option session_data_of (get_portal_session sid s)"

definition session_store :: "env \<Rightarrow> string \<Rightarrow> session_data \<Rightarrow> 'ref db \<Rightarrow> 'ref db" where
  "session_store E sid x =
     create_portal_session E sid (x_user_id x) (x_dept_id x) (x_agent_id x) (Some (x_kb_ids x))
       (x_is_private x) (x_kb_overridden x)"

lemma session_lookup_store:
  "session_lookup j (session_store E k x s) = (if j = k then Some x else session_lookup j s)"
proof (cases "j = k")
  case True
  let ?f = "\<lambda>v. v\<lparr>s_user_id := x_user_id x, s_dept_id := x_dept_id x, s_agent_id := x_agent_id x,
      s_kb_ids := x_kb_ids x, s_is_private := x_is_private x, s_kb_overridden := x_kb_overridden x,
      s_updated_at := now E s, s_is_active := True\<rparr>"
  let ?r = "\<lparr>s_session_id = k, s_user_id = x_user_id x, s_dept_id = x_dept_id x,
      s_agent_id = x_agent_id x, s_kb_ids = x_kb_ids x, s_is_private = x_is_private x,
      s_kb_overridden = x_kb_overridden x, s_created_at = now E s, s_updated_at = now E s,
      s_is_active = True\<rparr>"
  have "\<exists>v. fetchone (\<lambda>v. s_session_id v = k \<and> s_is_active v)
          (upsert (\<lambda>v. s_session_id v = k) ?f ?r (portal_sessions s)) = Some v \<and>
        ((\<exists>y\<in>set (portal_sessions s). s_session_id y = k \<and> v = ?f y) \<or> v = ?r)"
    by (rule fetchone_upsert_hit) auto
  with True show ?thesis
    by (auto simp: session_lookup_def get_portal_session_def session_store_def
        create_portal_session_def Let_def list_or_empty_def session_data_of_def)
next
  case False
  then show ?thesis
    by (auto simp: session_lookup_def get_portal_session_def session_store_def
        create_portal_session_def Let_def
        intro!: arg_cong [where f = "map_option session_data_of"] fetchone_upsert_other)
qed

interpretation sessions: keyed_map db_ok session_lookup "session_store E"
  by unfold_locales (simp add: session_lookup_store, simp add: session_store_def inv_rules)

subsection \<open>Only the owner closes a session or changes its privacy\<close>

lemma owner_gate:
  "\<not> owns_active_session sid u s \<Longrightarrow>
     deactivate_portal_session E sid u s = (tick s, False) \<and>
     update_portal_session_privacy E sid u b s = (tick s, False)"
  by (simp add: deactivate_portal_session_def update_portal_session_privacy_def Let_def)

lemma deactivate_closes:
  "owns_active_session sid u s \<Longrightarrow>
     get_portal_session sid (fst (deactivate_portal_session E sid u s)) = None \<and>
     snd (deactivate_portal_session E sid u s)"
  by (auto simp: deactivate_portal_session_def Let_def get_portal_session_def intro!: fetchone_update_gone)

lemma deactivate_other:
  "sid' \<noteq> sid \<Longrightarrow>
     get_portal_session sid' (fst (deactivate_portal_session E sid u s)) = get_portal_session sid' s"
  by (auto simp: deactivate_portal_session_def Let_def get_portal_session_def intro!: fetchone_update_other)

subsection \<open>Messages\<close>

text \<open>The conversation of a session in the order it was written.\<close>

definition session_messages :: "string \<Rightarrow> 'ref db \<Rightarrow> 'ref message_row list" where
  "session_messages sid s = filter (\<lambda>m. m_session_id m = sid) (portal_messages s)"

lemma list_messages_in_order:
  assumes "messages_ok s"
  shows "list_portal_messages sid n s = limit_offset n 0 (session_messages sid s)"
proof -
  have "sorted_wrt (<) (map m_id (session_messages sid s))"
    using assms by (simp add: messages_ok_def session_messages_def sorted_wrt_map_filter)
  then have "sorted (map m_id (session_messages sid s))"
    by (rule sorted_wrt_mono_rel [rotated]) auto
  then have "sort_key m_id (session_messages sid s) = session_messages sid s"
    by (rule sort_key_id_if_sorted)
  then show ?thesis by (simp add: list_portal_messages_def session_messages_def)
qed

lemma session_messages_append:
  "session_messages sid' (append_portal_message E sid ro c re s) =
     session_messages sid' s @
       (if sid' = sid then [\<lparr>m_id = Suc (message_seq s), m_session_id = sid, m_role = ro,
          m_content = c, m_references = list_or_empty re, m_created_at = now E s\<rparr>] else [])"
  by (simp add: session_messages_def append_portal_message_def Let_def)

end
