(* ===== verification/PortalRequests.thy ===== *)
theory PortalRequests
  imports PortalSessions
begin

unbundle bit_operations_syntax

text \<open>
  Requests to share a knowledge base (\<open>kb_share_requests\<close>): creation, review, removal;
  and the owner's recall dashboard (what is shared to departments and users, and the
  revocation of one department).
\<close>

subsection \<open>Requests\<close>

text \<open>A request read back: the department columns are normalised on the way out.\<close>

definition request_view :: "request_row \<Rightarrow> request_row" where
  "request_view r = r\<lparr>r_target_dept_ids := map normalize_dept_id (r_target_dept_ids r),
                      r_owner_dept_id := normalize_dept_id (r_owner_dept_id r)\<rparr>"

definition get_kb_share_request :: "string \<Rightarrow> 'ref db \<Rightarrow> request_row option" where
  "get_kb_share_request request_id s =
     map_option request_view (fetchone (\<lambda>r. r_request_id r = request_id) (kb_share_requests s))"

definition create_kb_share_request ::
  "env \<Rightarrow> string \<Rightarrow> string \<Rightarrow> string \<Rightarrow> string \<Rightarrow> string list option \<Rightarrow> string option
     \<Rightarrow> string \<Rightarrow> int option \<Rightarrow> nat option \<Rightarrow> 'ref db \<Rightarrow> ('ref db, request_row option) outcome" where
  "create_kb_share_request E kb_id owner_dept_id requester_user_id target_scope target_dept_ids
       target_user_id reason requested_permission parent_share_id s =
     (let t = now E s; req_id = new_id E ''shr_'' s; s0 = tick s;
          target_ids = map normalize_dept_id
            (filter (\<lambda>x. str_strip x \<noteq> []) (list_or_empty target_dept_ids));
          perm0 = (case requested_permission of Some p \<Rightarrow> p | None \<Rightarrow> PERM_READ);
          perm = (if perm0 AND PERM_READ = 0 then perm0 OR PERM_READ else perm0)
      in if list_ex (\<lambda>r. r_request_id r = req_id) (kb_share_requests s)
         then (s0, Inl IntegrityError)
         else
           let s1 = s0\<lparr>kb_share_requests := kb_share_requests s @
                 [\<lparr>r_request_id = req_id, r_kb_id = kb_id,
                   r_owner_dept_id = normalize_dept_id owner_dept_id,
                   r_requester_user_id = requester_user_id, r_target_scope = target_scope,
                   r_target_dept_ids = target_ids, r_target_user_id = target_user_id,
                   r_reason = Some reason, r_status = ''pending'', r_reviewer_user_id = None,
                   r_review_comment = None, r_created_at = t, r_updated_at = t,
                   r_requested_permission = perm, r_parent_share_id = parent_share_id\<rparr>]\<rparr>
           in (s1, Inr (get_kb_share_request req_id s1)))"

text \<open>A listed request carries the login of the target user, if that account exists.\<close>

definition list_kb_share_requests ::
  "string option \<Rightarrow> string option \<Rightarrow> string option \<Rightarrow> int \<Rightarrow> int \<Rightarrow> 'ref db
     \<Rightarrow> (request_row \<times> string option) list" where
  "list_kb_share_requests status owner_dept_id requester_user_id page page_size s =
     map (\<lambda>r. (request_view r,
               case r_target_user_id r of None \<Rightarrow> None
               | Some i \<Rightarrow> map_option u_login_id (fetchone (\<lambda>u. u_user_id u = i) (users s))))
       (limit_offset (max 1 page_size) (page_offset page page_size)
         (order_desc r_updated_at
           (filter (\<lambda>r. filter_if status r_status r \<and>
                        (opt_or owner_dept_id [] = [] \<or>
                         normalize_dept_id (opt_or owner_dept_id []) = r_owner_dept_id r) \<and>
                        filter_if requester_user_id r_requester_user_id r)
              (kb_share_requests s))))"

definition review_kb_share_request ::
  "env \<Rightarrow> string \<Rightarrow> string \<Rightarrow> bool \<Rightarrow> string \<Rightarrow> 'ref db \<Rightarrow> 'ref db \<times> request_row option" where
  "review_kb_share_request E request_id reviewer_user_id approved review_comment s =
     (let t = now E s; status = (if approved then ''approved'' else ''rejected'');
          s1 = (tick s)\<lparr>kb_share_requests := update_where
                 (\<lambda>r. r_request_id r = request_id \<and> r_status r = ''pending'')
                 (\<lambda>r. r\<lparr>r_status := status, r_reviewer_user_id := Some reviewer_user_id,
                        r_review_comment := Some review_comment, r_updated_at := t\<rparr>)
                 (kb_share_requests s)\<rparr>
      in (s1, get_kb_share_request request_id s1))"

definition delete_kb_share_request :: "string \<Rightarrow> 'ref db \<Rightarrow> 'ref db \<times> bool" where
  "delete_kb_share_request request_id s =
     (s\<lparr>kb_share_requests := delete_where (\<lambda>r. r_request_id r = request_id) (kb_share_requests s)\<rparr>,
      0 < rowcount (\<lambda>r. r_request_id r = request_id) (kb_share_requests s))"

subsection \<open>Recall dashboard\<close>

record dept_share =
  ds_kb_id :: string
  ds_dept_id :: string
  ds_dept_code :: string
  ds_dept_name :: string
  ds_permission_mask :: int

text \<open>
  One entry per department in \<open>allow_dept_ids\<close>; its mask is that of the first approved
  share of an active member of that department, READ if there is none.
\<close>

definition dept_share_entry :: "string \<Rightarrow> string \<Rightarrow> 'ref db \<Rightarrow> dept_share" where
  "dept_share_entry kb_id dept_id s =
     (let dept_row = fetchone (\<lambda>d. d_dept_id d = dept_id) (departments s);
          masks = [k_permission_mask k. k \<leftarrow> kb_shares s, m \<leftarrow> user_departments s,
                     k_target_user_id k = ud_user_id m \<and> ud_dept_id m = dept_id \<and>
                     ud_is_active m \<and> k_kb_id k = kb_id \<and> k_status k = ''approved'']
      in \<lparr>ds_kb_id = kb_id, ds_dept_id = dept_id,
          ds_dept_code = (case dept_row of Some d \<Rightarrow> d_dept_code d | None \<Rightarrow> dept_id),
          ds_dept_name = (case dept_row of Some d \<Rightarrow> d_dept_name d | None \<Rightarrow> dept_id),
          ds_permission_mask = (case masks of m # _ \<Rightarrow> m | [] \<Rightarrow> PERM_READ)\<rparr>)"

definition list_dept_shares_for_owner :: "string \<Rightarrow> 'ref db \<Rightarrow> dept_share list" where
  "list_dept_shares_for_owner owner_user_id s =
     concat (map (\<lambda>p. map (\<lambda>d. dept_share_entry (p_resource_id p) d s) (p_allow_dept_ids p))
       (filter (\<lambda>p. p_resource_type p = ''kb'' \<and> p_owner_user_id p = Some owner_user_id \<and>
                    p_is_active p) (resource_policies s)))"

record user_share =
  us_id :: nat
  us_kb_id :: string
  us_target_user_id :: string
  us_permission_mask :: int
  us_status :: string
  us_target_login :: string
  us_target_name :: string

definition list_user_shares_for_owner :: "string \<Rightarrow> 'ref db \<Rightarrow> user_share list" where
  "list_user_shares_for_owner owner_user_id s =
     map (\<lambda>(k, u). \<lparr>us_id = k_id k, us_kb_id = k_kb_id k, us_target_user_id = k_target_user_id k,
                    us_permission_mask = k_permission_mask k, us_status = k_status k,
                    us_target_login = u_login_id u, us_target_name = u_display_name u\<rparr>)
       (order_desc (\<lambda>(k, u). k_created_at k)
         [(k, u). k \<leftarrow> kb_shares s, u \<leftarrow> users s, p \<leftarrow> resource_policies s,
            k_target_user_id k = u_user_id u \<and> p_resource_id p = k_kb_id k \<and>
            p_resource_type p = ''kb'' \<and> p_is_active p \<and>
            p_owner_user_id p = Some owner_user_id \<and> k_status k = ''approved''])"

definition revoke_dept_share :: "env \<Rightarrow> string \<Rightarrow> string \<Rightarrow> 'ref db \<Rightarrow> 'ref db \<times> bool" where
  "revoke_dept_share E kb_id dept_id0 s =
     (let dept_id = normalize_dept_id dept_id0; t = now E s; s0 = tick s
      in case get_policy ''kb'' kb_id s of
           None \<Rightarrow> (s0, False)
         | Some row \<Rightarrow>
             let dept_users = map ud_user_id
                   (filter (\<lambda>m. ud_dept_id m = dept_id \<and> ud_is_active m) (user_departments s))
             in (s0\<lparr>resource_policies := update_where (\<lambda>p. p_policy_id p = p_policy_id row)
                      (\<lambda>p. p\<lparr>p_allow_dept_ids := list_remove dept_id (p_allow_dept_ids row),
                             p_updated_at := t\<rparr>) (resource_policies s),
                    kb_shares := fold (\<lambda>u. delete_where (\<lambda>k. k_kb_id k = kb_id \<and> k_target_user_id k = u))
                      dept_users (kb_shares s)\<rparr>, True))"

subsection \<open>Frame and invariant\<close>

lemma create_request_tables [frame, simp]:
  fixes E kb od ru sc td tu re rp ps s
  defines "s' \<equiv> fst (create_kb_share_request E kb od ru sc td tu re rp ps s)"
  shows "users s' = users s" "departments s' = departments s"
    "user_departments s' = user_departments s" "resource_policies s' = resource_policies s"
    "audit_logs s' = audit_logs s" "portal_sessions s' = portal_sessions s"
    "portal_messages s' = portal_messages s" "kb_shares s' = kb_shares s"
    "share_seq s' = share_seq s" "message_seq s' = message_seq s"
  by (simp_all add: s'_def create_kb_share_request_def Let_def)

lemma review_request_tables [frame, simp]:
  fixes E rid u ap c s
  defines "s' \<equiv> fst (review_kb_share_request E rid u ap c s)"
  shows "users s' = users s" "departments s' = departments s"
    "user_departments s' = user_departments s" "resource_policies s' = resource_policies s"
    "audit_logs s' = audit_logs s" "portal_sessions s' = portal_sessions s"
    "portal_messages s' = portal_messages s" "kb_shares s' = kb_shares s"
    "share_seq s' = share_seq s" "message_seq s' = message_seq s"
  by (simp_all add: s'_def review_kb_share_request_def Let_def)

lemma delete_request_tables [frame, simp]:
  fixes rid s
  defines "s' \<equiv> fst (delete_kb_share_request rid s)"
  shows "users s' = users s" "departments s' = departments s"
    "user_departments s' = user_departments s" "resource_policies s' = resource_policies s"
    "audit_logs s' = audit_logs s" "portal_sessions s' = portal_sessions s"
    "portal_messages s' = portal_messages s" "kb_shares s' = kb_shares s"
    "share_seq s' = share_seq s" "message_seq s' = message_seq s"
  by (simp_all add: s'_def delete_kb_share_request_def)

lemma db_ok_request_ops [inv_rules]:
  assumes "db_ok s"
  shows "db_ok (fst (create_kb_share_request E kb od ru sc td tu re rp ps s))"
    and "db_ok (fst (review_kb_share_request E rid u ap c s))"
    and "db_ok (fst (delete_kb_share_request rid s))"
  using assms
  by (auto simp: db_ok_def users_ok_def policies_ok_def requests_ok_def sessions_ok_def
      messages_ok_def shares_ok_def create_kb_share_request_def review_kb_share_request_def
      delete_kb_share_request_def Let_def map_key_update_where list_ex_iff)

text \<open>The active members of a department.\<close>

definition dept_member_ids :: "string \<Rightarrow> 'ref db \<Rightarrow> string set" where
  "dept_member_ids dept_id s =
     ud_user_id ` {m \<in> set (user_departments s). ud_dept_id m = dept_id \<and> ud_is_active m}"

lemma revoke_dept_share_eq:
  "fst (revoke_dept_share E kb_id dept_id s) =
     (case get_policy ''kb'' kb_id s of None \<Rightarrow> tick s
      | Some row \<Rightarrow> (tick s)\<lparr>
          resource_policies := update_where (\<lambda>p. p_policy_id p = p_policy_id row)
            (\<lambda>p. p\<lparr>p_allow_dept_ids := list_remove (normalize_dept_id dept_id) (p_allow_dept_ids row),
                   p_updated_at := now E s\<rparr>) (resource_policies s),
          kb_shares := delete_where (\<lambda>k. k_kb_id k = kb_id \<and>
            k_target_user_id k \<in> dept_member_ids (normalize_dept_id dept_id) s) (kb_shares s)\<rparr>)"
proof -
  have "fold (\<lambda>u. delete_where (\<lambda>k. k_kb_id k = kb_id \<and> k_target_user_id k = u)) us ks =
      delete_where (\<lambda>k. k_kb_id k = kb_id \<and> k_target_user_id k \<in> set us) ks" for us and ks :: "share_row list"
    by (induction us arbitrary: ks) (auto simp: delete_where_def intro!: filter_cong)
  then show ?thesis
    by (simp add: revoke_dept_share_def Let_def dept_member_ids_def split: option.split)
qed

lemma revoke_dept_share_tables [frame, simp]:
  fixes E kb d s
  defines "s' \<equiv> fst (revoke_dept_share E kb d s)"
  shows "users s' = users s" "departments s' = departments s"
    "user_departments s' = user_departments s" "audit_logs s' = audit_logs s"
    "portal_sessions s' = portal_sessions s" "portal_messages s' = portal_messages s"
    "kb_share_requests s' = kb_share_requests s" "share_seq s' = share_seq s"
    "message_seq s' = message_seq s"
  by (simp_all add: s'_def revoke_dept_share_eq split: option.split)

lemma db_ok_revoke_dept [inv_rules]: "db_ok s \<Longrightarrow> db_ok (fst (revoke_dept_share E kb d s))"
  by (auto simp: revoke_dept_share_eq db_ok_def users_ok_def policies_ok_def requests_ok_def
      sessions_ok_def messages_ok_def shares_ok_def map_key_update_where split: option.split)

subsection \<open>Every request asks at least for reading\<close>

definition requests_read :: "'ref db \<Rightarrow> bool" where
  "requests_read s \<longleftrightarrow> (\<forall>r\<in>set (kb_share_requests s). has_read (r_requested_permission r))"

lemma requests_read_create:
  "requests_read s \<Longrightarrow> requests_read (fst (create_kb_share_request E kb od ru sc td tu re rp ps s))"
  by (auto simp: requests_read_def create_kb_share_request_def Let_def simp flip: has_read_def)

lemma requests_read_review: "requests_read s \<Longrightarrow> requests_read (fst (review_kb_share_request E rid u ap c s))"
  by (auto simp: requests_read_def review_kb_share_request_def Let_def set_update_where)

text \<open>A stored request, read back.\<close>

lemma get_request_created:
  assumes "snd (create_kb_share_request E kb od ru sc td tu re rp ps s) = Inr (Some r)"
  shows "get_kb_share_request (r_request_id r) (fst (create_kb_share_request E kb od ru sc td tu re rp ps s)) = Some r"
proof -
  have "r_request_id r = new_id E ''shr_'' s"
    using assms by (auto simp: create_kb_share_request_def Let_def get_kb_share_request_def request_view_def
        split: if_splits dest!: fetchone_SomeD)
  with assms show ?thesis
    by (auto simp: create_kb_share_request_def Let_def split: if_splits)
qed

lemma create_request_result:
  assumes "\<not> list_ex (\<lambda>r. r_request_id r = new_id E ''shr_'' s) (kb_share_requests s)"
  shows "\<exists>r. snd (create_kb_share_request E kb od ru sc td tu re rp ps s) = Inr (Some r) \<and>
     r_request_id r = new_id E ''shr_'' s \<and> r_kb_id r = kb \<and> r_owner_dept_id r = normalize_dept_id od \<and>
     r_requester_user_id r = ru \<and> r_target_scope r = sc \<and> r_status r = ''pending'' \<and>
     r_target_user_id r = tu \<and> r_parent_share_id r = ps \<and> has_read (r_requested_permission r)"
proof -
  have "fetchone (\<lambda>r. r_request_id r = new_id E ''shr_'' s) (kb_share_requests s) = None"
    using assms by (auto simp: fetchone_None list_ex_iff)
  with assms show ?thesis
    by (simp add: create_kb_share_request_def Let_def get_kb_share_request_def request_view_def
        fetchone_append flip: has_read_def)
qed

text \<open>Only a pending request changes when it is reviewed, and it is pending no longer.\<close>

lemma review_not_pending:
  assumes "\<And>r. r \<in> set (kb_share_requests s) \<Longrightarrow> r_request_id r = rid \<Longrightarrow> r_status r \<noteq> ''pending''"
  shows "kb_share_requests (fst (review_kb_share_request E rid u ap c s)) = kb_share_requests s"
proof -
  have "update_where (\<lambda>r. r_request_id r = rid \<and> r_status r = ''pending'') f (kb_share_requests s) =
      kb_share_requests s" for f
    by (rule update_where_id) (use assms in blast)
  then show ?thesis by (simp add: review_kb_share_request_def Let_def)
qed

lemma review_requests_eq:
  "kb_share_requests (fst (review_kb_share_request E rid u ap c s)) =
     update_where (\<lambda>r. r_request_id r = rid \<and> r_status r = ''pending'')
       (\<lambda>r. r\<lparr>r_status := if ap then ''approved'' else ''rejected'', r_reviewer_user_id := Some u,
              r_review_comment := Some c, r_updated_at := now E s\<rparr>) (kb_share_requests s)"
  by (simp add: review_kb_share_request_def Let_def)

lemma review_decides:
  assumes "r \<in> set (kb_share_requests (fst (review_kb_share_request E rid u ap c s)))" "r_request_id r = rid"
  shows "r_status r \<noteq> ''pending''"
  using assms(1) unfolding review_requests_eq
proof (cases rule: update_whereE)
  case (hit x)
  then show ?thesis by simp
next
  case other
  with assms(2) show ?thesis by simp
qed

lemma review_other:
  "rid' \<noteq> rid \<Longrightarrow>
   get_kb_share_request rid' (fst (review_kb_share_request E rid u ap c s)) = get_kb_share_request rid' s"
  by (auto simp: review_kb_share_request_def get_kb_share_request_def Let_def
      intro!: arg_cong [where f = "map_option request_view"] fetchone_update_other)

end
