(* ===== verification/StoreInvariant.thy ===== *)
theory StoreInvariant
  imports PortalRequests
begin

unbundle bit_operations_syntax

text \<open>
  The interface between the store and the gateway: what the gateway relies on to keep an
  invariant of the database is that every store operation it calls keeps it.  The
  gateway's own preservation lemmas are proved once, inside the locale \<open>store_ops\<close>; here
  it is interpreted for the constraints of the schema (\<^term>\<open>db_ok\<close>) and for what the rows of
  shares and requests say (\<open>records_ok\<close>).
\<close>

text \<open>
  Masks that the gateway grants are at least READ; the permissions that requests ask for
  are the three that a permission name stands for.
\<close>

definition grantable :: "int \<Rightarrow> bool" where
  "grantable m \<longleftrightarrow> PERM_READ \<le> m"

definition requestable :: "int \<Rightarrow> bool" where
  "requestable m \<longleftrightarrow> m \<in> {PERM_READ, PERM_READ OR PERM_SHARE, PERM_FULL}"

locale store_ops =
  fixes I :: "'ref db \<Rightarrow> bool"
  assumes inv_tick: "I s \<Longrightarrow> I (tick s)"
    and inv_audit: "I s \<Longrightarrow> I (write_audit E q a st uo dopt rto rio si ec em pd s)"
    and inv_open: "I s \<Longrightarrow> I (create_portal_session E sid u d ag kbs pr ov s)"
    and inv_message: "I s \<Longrightarrow> I (append_portal_message E sid ro c refs s)"
    and inv_close: "I s \<Longrightarrow> I (fst (deactivate_portal_session E sid u s))"
    and inv_privacy: "I s \<Longrightarrow> I (fst (update_portal_session_privacy E sid u b s))"
    and inv_upsert: "I s \<Longrightarrow> I (fst (upsert_policy E rt rid od vis cb ou al de roles cat s))"
    and inv_deactivate: "I s \<Longrightarrow> I (deactivate_policy E rt rid s)"
    and inv_stale: "I s \<Longrightarrow> I (fst (cleanup_stale_kb_policies E valid s))"
    and inv_cascade: "I s \<Longrightarrow> I (fst (cascade_cleanup_kb E kb s))"
    and inv_grant: "I s \<Longrightarrow> grantable m \<Longrightarrow> I (add_kb_share E kb u m by' par ab ''approved'' s)"
    and inv_remove: "I s \<Longrightarrow> I (fst (remove_kb_share E kb u s))"
    and inv_revoke: "I s \<Longrightarrow> I (fst (revoke_user_share E i s))"
    and inv_revoke_dept: "I s \<Longrightarrow> I (fst (revoke_dept_share E kb dep s))"
    and inv_request: "I s \<Longrightarrow> requestable rp \<Longrightarrow>
          I (fst (create_kb_share_request E kb od ru sc td tu re (Some rp) ps s))"
    and inv_review: "I s \<Longrightarrow> I (fst (review_kb_share_request E rid u ap c s))"
    and inv_dismiss: "I s \<Longrightarrow> I (fst (delete_kb_share_request rid s))"
    and inv_register: "I s \<Longrightarrow> I (fst (register_user E l p dn dep role ruid key s))"
    and inv_delete_user: "I s \<Longrightarrow> I (fst (delete_user u s))"
    and inv_link: "I s \<Longrightarrow> I (update_user_ragflow E u ruid key s)"
    and request_masks: "I s \<Longrightarrow> r \<in> set (kb_share_requests s) \<Longrightarrow> grantable (r_requested_permission r)"
begin

lemmas inv_ops = inv_tick inv_audit inv_open inv_message inv_close inv_privacy inv_upsert
  inv_deactivate inv_stale inv_cascade inv_grant inv_remove inv_revoke inv_revoke_dept inv_request
  inv_review inv_dismiss inv_register inv_delete_user inv_link

text \<open>What is read back from the requests is grantable.\<close>

lemma read_request_grantable:
  "I s \<Longrightarrow> get_kb_share_request rid s = Some r \<Longrightarrow> grantable (r_requested_permission r)"
  by (auto simp: get_kb_share_request_def request_view_def dest!: fetchone_SomeD dest: request_masks)

end

subsection \<open>What the rows say\<close>

definition share_row_ok :: "share_row \<Rightarrow> bool" where
  "share_row_ok k \<longleftrightarrow> grantable (k_permission_mask k) \<and> k_status k \<in> {''approved'', ''revoked''}"

definition request_row_ok :: "request_row \<Rightarrow> bool" where
  "request_row_ok r \<longleftrightarrow> requestable (r_requested_permission r) \<and>
     r_status r \<in> {''pending'', ''approved'', ''rejected''} \<and>
     (r_status r = ''pending'' \<longleftrightarrow> r_reviewer_user_id r = None)"

definition records_ok :: "'ref db \<Rightarrow> bool" where
  "records_ok s \<longleftrightarrow> (\<forall>k\<in>set (kb_shares s). share_row_ok k) \<and>
     (\<forall>r\<in>set (kb_share_requests s). request_row_ok r)"

lemma requestable_grantable: "requestable m \<Longrightarrow> grantable m"
  by (auto simp: requestable_def grantable_def PERM_READ_def PERM_SHARE_def PERM_FULL_def)

lemma requestable_has_read: "requestable m \<Longrightarrow> has_read m"
  by (auto simp: requestable_def)

lemma records_ok_frame:
  "kb_shares s' = kb_shares s \<Longrightarrow> kb_share_requests s' = kb_share_requests s \<Longrightarrow>
   records_ok s' = records_ok s"
  by (simp add: records_ok_def)

lemma records_ok_shrink:
  "set (kb_shares s') \<subseteq> set (kb_shares s) \<Longrightarrow> set (kb_share_requests s') \<subseteq> set (kb_share_requests s) \<Longrightarrow>
   records_ok s \<Longrightarrow> records_ok s'"
  by (auto simp: records_ok_def)

lemma records_ok_grant:
  "records_ok s \<Longrightarrow> grantable m \<Longrightarrow> records_ok (add_kb_share E kb u m by' par ab ''approved'' s)"
  by (auto simp: records_ok_def add_kb_share_def Let_def upsert_def share_row_ok_def elim!: update_whereE)

lemma records_ok_remove: "records_ok s \<Longrightarrow> records_ok (fst (remove_kb_share E kb u s))"
  by (auto simp: records_ok_def remove_kb_share_def Let_def share_row_ok_def elim!: update_whereE)

lemma records_ok_revoke: "records_ok s \<Longrightarrow> records_ok (fst (revoke_user_share E i s))"
  by (auto simp: records_ok_def revoke_user_share_def Let_def share_row_ok_def elim!: update_whereE)

lemma records_ok_request:
  assumes "records_ok s" "requestable rp"
  shows "records_ok (fst (create_kb_share_request E kb od ru sc td tu re (Some rp) ps s))"
proof -
  have "rp AND PERM_READ \<noteq> 0"
    using requestable_has_read [OF assms(2)] by (simp add: has_read_def)
  with assms show ?thesis
    by (auto simp: records_ok_def create_kb_share_request_def Let_def request_row_ok_def)
qed

lemma records_ok_review: "records_ok s \<Longrightarrow> records_ok (fst (review_kb_share_request E rid u ap c s))"
  unfolding records_ok_def review_requests_eq
  by (auto simp: request_row_ok_def elim!: update_whereE)

lemma records_ok_revoke_dept: "records_ok s \<Longrightarrow> records_ok (fst (revoke_dept_share E kb dep s))"
  by (rule records_ok_shrink) (auto simp: revoke_dept_share_eq split: option.splits)

lemma records_ok_cascade: "records_ok s \<Longrightarrow> records_ok (fst (cascade_cleanup_kb E kb s))"
  by (cases "str_strip kb = []")
    (auto simp: cascade_cleanup_blank cascade_cleanup_eq records_ok_def)

lemma records_ok_stale: "records_ok s \<Longrightarrow> records_ok (fst (cleanup_stale_kb_policies E valid s))"
  by (auto simp: cleanup_stale_eq records_ok_def)

lemma records_ok_users:
  assumes "records_ok s"
  shows "records_ok (fst (register_user E l p dn dep role ru rt s))"
    and "records_ok (fst (delete_user u s))" and "records_ok (update_user_ragflow E u ru rt s)"
proof -
  show "records_ok (fst (register_user E l p dn dep role ru rt s))"
  proof (cases "snd (register_user E l p dn dep role ru rt s)")
    case (Inl e)
    with assms show ?thesis by (simp add: register_rejected records_ok_def)
  next
    case (Inr r)
    then obtain s1 where s1: "insert_user (registered_row E l p dn ru rt s) (tick s) = Inr s1"
      and eq: "fst (register_user E l p dn dep role ru rt s) =
         add_membership (now E s) (new_id E ''u_'' s) dep role True s1"
      unfolding registered_row_def by (rule register_user_InrE)
    from s1 have "kb_shares s1 = kb_shares s" "kb_share_requests s1 = kb_share_requests s"
      by (auto simp: insert_user_def split: if_splits)
    with eq assms show ?thesis by (simp add: records_ok_def)
  qed
qed (use assms in \<open>auto simp: records_ok_def delete_user_def update_user_ragflow_def Let_def split: option.split\<close>)

interpretation records: store_ops records_ok
proof unfold_locales
  fix s :: "'ref db" and r
  assume "records_ok s" "r \<in> set (kb_share_requests s)"
  then show "grantable (r_requested_permission r)"
    by (auto simp: records_ok_def request_row_ok_def requestable_grantable)
qed (simp_all add: records_ok_grant records_ok_remove records_ok_revoke records_ok_revoke_dept
    records_ok_request records_ok_review records_ok_cascade records_ok_stale records_ok_users,
    auto simp: records_ok_def delete_kb_share_request_def)

text \<open>Both together; the schema's constraints alone do not bound the requests' masks.\<close>

definition store_ok :: "'ref db \<Rightarrow> bool" where
  "store_ok s \<longleftrightarrow> db_ok s \<and> records_ok s"

interpretation stored: store_ops store_ok
  by unfold_locales (auto simp: store_ok_def inv_rules intro: records.inv_ops records.request_masks)

end
