(* ===== verification/PortalJson.thy ===== *)
theory PortalJson
  imports PortalPerm
begin

text \<open>
  JSON as the portal writes and reads it: values, the compact printer behind
  \<open>json.dumps(payload, ensure_ascii=False, separators=(",", ":"), sort_keys=True)\<close>, the
  parser behind \<open>json.loads\<close>, and the helpers of \<open>portal_server.py\<close> that walk an agent's
  DSL.  Text is UTF-8 bytes.  Numbers are integers: the payloads hold no others and the
  helpers do not look at numbers.
\<close>

datatype json =
    JNull
  | JBool bool
  | JInt int
  | JStr string
  | JArr "json list"
  | JObj "(string \<times> json) list"

text \<open>\<open>d.get(key)\<close>: of a repeated key the last value counts, as in a Python \<open>dict\<close>.\<close>

definition obj_get :: "(string \<times> json) list \<Rightarrow> string \<Rightarrow> json option" where
  "obj_get kvs key = map_of (rev kvs) key"

subsection \<open>Printing\<close>

definition hex_digit :: "nat \<Rightarrow> char" where
  "hex_digit n = (if n < 10 then char_of (48 + n) else char_of (87 + n))"

definition esc_char :: "char \<Rightarrow> string" where
  "esc_char c =
     (let n = (of_char c :: nat) in
      if n = 34 then [CHR 0x5C, CHR 0x22]
      else if n = 92 then [CHR 0x5C, CHR 0x5C]
      else if n = 10 then [CHR 0x5C, CHR ''n'']
      else if n = 13 then [CHR 0x5C, CHR ''r'']
      else if n = 9 then [CHR 0x5C, CHR ''t'']
      else if n = 12 then [CHR 0x5C, CHR ''f'']
      else if n = 8 then [CHR 0x5C, CHR ''b'']
      else if n < 32 then [CHR 0x5C, CHR ''u'', CHR ''0'', CHR ''0'', hex_digit (n div 16),
                           hex_digit (n mod 16)]
      else [c])"

definition print_str :: "string \<Rightarrow> string" where
  "print_str s = CHR 0x22 # concat (map esc_char s) @ [CHR 0x22]"

fun print_nat :: "nat \<Rightarrow> string" where
  "print_nat n = (if n < 10 then [char_of (48 + n)]
                  else print_nat (n div 10) @ [char_of (48 + n mod 10)])"

declare print_nat.simps [simp del]

definition print_int :: "int \<Rightarrow> string" where
  "print_int i = (if i < 0 then CHR ''-'' # print_nat (nat (- i)) else print_nat (nat i))"

fun print_json :: "json \<Rightarrow> string" where
  "print_json JNull = ''null''"
| "print_json (JBool b) = (if b then ''true'' else ''false'')"
| "print_json (JInt i) = print_int i"
| "print_json (JStr s) = print_str s"
| "print_json (JArr xs) = ''['' @ str_join '','' (map print_json xs) @ '']''"
| "print_json (JObj kvs) =
     ''{'' @ str_join '','' (map (\<lambda>(k, v). print_str k @ '':'' @ print_json v) kvs) @ ''}''"

text \<open>\<open>sort_keys=True\<close>.\<close>

primrec sort_keys :: "json \<Rightarrow> json" where
  "sort_keys JNull = JNull"
| "sort_keys (JBool b) = JBool b"
| "sort_keys (JInt i) = JInt i"
| "sort_keys (JStr s) = JStr s"
| "sort_keys (JArr xs) = JArr (map sort_keys xs)"
| "sort_keys (JObj kvs) = JObj (sort_key fst (map (map_prod id sort_keys) kvs))"

definition dumps :: "json \<Rightarrow> string" where
  "dumps j = print_json (sort_keys j)"

subsection \<open>Parsing\<close>

fun skip_ws :: "string \<Rightarrow> string" where
  "skip_ws [] = []"
| "skip_ws (c # cs) =
     (if (of_char c :: nat) \<in> {9, 10, 13, 32} then skip_ws cs else c # cs)"

definition hex_value :: "char \<Rightarrow> nat option" where
  "hex_value c = (let n = (of_char c :: nat) in
     if 48 \<le> n \<and> n \<le> 57 then Some (n - 48)
     else if 97 \<le> n \<and> n \<le> 102 then Some (n - 87)
     else if 65 \<le> n \<and> n \<le> 70 then Some (n - 55) else None)"

text \<open>A code point below 65536 in UTF-8; surrogates stand for no text here.\<close>

definition utf8_encode :: "nat \<Rightarrow> string option" where
  "utf8_encode n =
     (if n < 128 then Some [char_of n]
      else if n < 2048 then Some [char_of (192 + n div 64), char_of (128 + n mod 64)]
      else if 55296 \<le> n \<and> n < 57344 then None
      else Some [char_of (224 + n div 4096), char_of (128 + n div 64 mod 64),
                 char_of (128 + n mod 64)])"

definition hex4 :: "char \<Rightarrow> char \<Rightarrow> char \<Rightarrow> char \<Rightarrow> string option" where
  "hex4 a b c d =
     (case (hex_value a, hex_value b, hex_value c, hex_value d) of
        (Some w, Some x, Some y, Some z) \<Rightarrow> utf8_encode (((w * 16 + x) * 16 + y) * 16 + z)
      | _ \<Rightarrow> None)"

definition unescape :: "char \<Rightarrow> char option" where
  "unescape e =
     (if e = CHR 0x22 \<or> e = CHR 0x5C \<or> e = CHR ''/'' then Some e
      else if e = CHR ''n'' then Some (CHR 0x0A) else if e = CHR ''r'' then Some (CHR 0x0D)
      else if e = CHR ''t'' then Some (CHR 0x09) else if e = CHR ''f'' then Some (CHR 0x0C)
      else if e = CHR ''b'' then Some (CHR 0x08) else None)"

text \<open>The text after an opening quote, up to the closing one.\<close>

fun parse_str :: "string \<Rightarrow> (string \<times> string) option" where
  "parse_str [] = None"
| "parse_str (c # cs) =
     (if c = CHR 0x22 then Some ([], cs)
      else if c = CHR 0x5C then
        (case cs of
           [] \<Rightarrow> None
         | e # cs1 \<Rightarrow>
             if e = CHR ''u'' then
               (case cs1 of
                  w # x # y # z # cs2 \<Rightarrow>
                    (case hex4 w x y z of None \<Rightarrow> None
                     | Some u \<Rightarrow> map_option (\<lambda>(s, r). (u @ s, r)) (parse_str cs2))
                | _ \<Rightarrow> None)
             else
               (case unescape e of None \<Rightarrow> None
                | Some u \<Rightarrow> map_option (\<lambda>(s, r). (u # s, r)) (parse_str cs1)))
      else if (of_char c :: nat) < 32 then None
      else map_option (\<lambda>(s, r). (c # s, r)) (parse_str cs))"

definition is_digit :: "char \<Rightarrow> bool" where
  "is_digit c \<longleftrightarrow> 48 \<le> (of_char c :: nat) \<and> (of_char c :: nat) \<le> 57"

fun read_nat :: "nat \<Rightarrow> string \<Rightarrow> nat \<times> string" where
  "read_nat n [] = (n, [])"
| "read_nat n (c # cs) =
     (if is_digit c then read_nat (n * 10 + ((of_char c :: nat) - 48)) cs else (n, c # cs))"

text \<open>\<open>int(text)\<close>: surrounding space, a sign, and single underscores between digits are allowed.\<close>

fun int_digits :: "nat \<Rightarrow> bool \<Rightarrow> string \<Rightarrow> nat option" where
  "int_digits n digit_before [] = (if digit_before then Some n else None)"
| "int_digits n digit_before (c # cs) =
     (if is_digit c then int_digits (n * 10 + ((of_char c :: nat) - 48)) True cs
      else if c = CHR ''_'' \<and> digit_before then int_digits n False cs
      else None)"

definition py_int :: "string \<Rightarrow> int option" where
  "py_int text =
     (case str_strip text of
        [] \<Rightarrow> None
      | c # cs \<Rightarrow>
          if c = CHR ''-'' then map_option (\<lambda>n. - int n) (int_digits 0 False cs)
          else if c = CHR ''+'' then map_option int (int_digits 0 False cs)
          else map_option int (int_digits 0 False (c # cs)))"

text \<open>An integer literal; a fraction or an exponent after it is a number of another kind.\<close>

definition number_ends :: "string \<Rightarrow> bool" where
  "number_ends s \<longleftrightarrow> (case s of [] \<Rightarrow> True
     | c # _ \<Rightarrow> \<not> is_digit c \<and> c \<noteq> CHR ''.'' \<and> c \<noteq> CHR ''e'' \<and> c \<noteq> CHR ''E'')"

definition parse_nat :: "string \<Rightarrow> (nat \<times> string) option" where
  "parse_nat s =
     (case s of
        [] \<Rightarrow> None
      | c # cs \<Rightarrow>
          if \<not> is_digit c then None
          else let (n, r) = (if c = CHR ''0'' then (0, cs) else read_nat 0 s)
               in if number_ends r then Some (n, r) else None)"

definition parse_int :: "string \<Rightarrow> (int \<times> string) option" where
  "parse_int s =
     (case s of
        [] \<Rightarrow> None
      | c # cs \<Rightarrow>
          if c = CHR ''-'' then map_option (\<lambda>(n, r). (- int n, r)) (parse_nat cs)
          else map_option (\<lambda>(n, r). (int n, r)) (parse_nat s))"

definition parse_word :: "string \<Rightarrow> json \<Rightarrow> string \<Rightarrow> (json \<times> string) option" where
  "parse_word w j s = (if starts_with w s then Some (j, drop (length w) s) else None)"

text \<open>One unit of fuel per value, element or member; \<open>length s\<close> is always enough.\<close>

fun parse_value :: "nat \<Rightarrow> string \<Rightarrow> (json \<times> string) option"
  and parse_elems :: "nat \<Rightarrow> string \<Rightarrow> (json list \<times> string) option"
  and parse_members :: "nat \<Rightarrow> string \<Rightarrow> ((string \<times> json) list \<times> string) option" where
  "parse_value 0 s = None"
| "parse_value (Suc n) s =
     (case skip_ws s of
        [] \<Rightarrow> None
      | c # cs \<Rightarrow>
          if c = CHR 0x22 then map_option (\<lambda>(t, r). (JStr t, r)) (parse_str cs)
          else if c = CHR ''['' then
            (case skip_ws cs of
               [] \<Rightarrow> None
             | d # ds \<Rightarrow> if d = CHR '']'' then Some (JArr [], ds)
                         else map_option (\<lambda>(xs, r). (JArr xs, r)) (parse_elems n (d # ds)))
          else if c = CHR ''{'' then
            (case skip_ws cs of
               [] \<Rightarrow> None
             | d # ds \<Rightarrow> if d = CHR ''}'' then Some (JObj [], ds)
                         else map_option (\<lambda>(kvs, r). (JObj kvs, r)) (parse_members n (d # ds)))
          else if c = CHR ''n'' then parse_word ''null'' JNull (c # cs)
          else if c = CHR ''t'' then parse_word ''true'' (JBool True) (c # cs)
          else if c = CHR ''f'' then parse_word ''false'' (JBool False) (c # cs)
          else map_option (\<lambda>(i, r). (JInt i, r)) (parse_int (c # cs)))"
| "parse_elems 0 s = None"
| "parse_elems (Suc n) s =
     (case parse_value n s of
        None \<Rightarrow> None
      | Some (x, r) \<Rightarrow>
          (case skip_ws r of
             [] \<Rightarrow> None
           | c # cs \<Rightarrow> if c = CHR '']'' then Some ([x], cs)
                       else if c = CHR '','' then
                         map_option (\<lambda>(xs, r). (x # xs, r)) (parse_elems n cs)
                       else None))"
| "parse_members 0 s = None"
| "parse_members (Suc n) s =
     (case skip_ws s of
        [] \<Rightarrow> None
      | q # cs \<Rightarrow>
          if q \<noteq> CHR 0x22 then None
          else case parse_str cs of
            None \<Rightarrow> None
          | Some (k, r) \<Rightarrow>
              (case skip_ws r of
                 [] \<Rightarrow> None
               | c # cs1 \<Rightarrow>
                   if c \<noteq> CHR '':'' then None
                   else case parse_value n cs1 of
                     None \<Rightarrow> None
                   | Some (v, r1) \<Rightarrow>
                       (case skip_ws r1 of
                          [] \<Rightarrow> None
                        | e # es \<Rightarrow>
                            if e = CHR ''}'' then Some ([(k, v)], es)
                            else if e = CHR '','' then
                              map_option (\<lambda>(kvs, r2). ((k, v) # kvs, r2)) (parse_members n es)
                            else None)))"

definition loads :: "string \<Rightarrow> json option" where
  "loads s =
     (case parse_value (Suc (length s)) s of
        None \<Rightarrow> None
      | Some (j, r) \<Rightarrow> if skip_ws r = [] then Some j else None)"

subsection \<open>Reading back what was printed\<close>

lemma hex_value_digit: "n < 16 \<Longrightarrow> hex_value (hex_digit n) = Some n"
  by (auto simp: hex_value_def hex_digit_def Let_def)

lemma escaped_codes:
  "char_of (34 :: nat) = CHR 0x22" "char_of (92 :: nat) = CHR 0x5C"
  "char_of (10 :: nat) = CHR 0x0A" "char_of (13 :: nat) = CHR 0x0D"
  "char_of (9 :: nat) = CHR 0x09" "char_of (12 :: nat) = CHR 0x0C"
  "char_of (8 :: nat) = CHR 0x08"
  by code_simp+

lemma of_char_eq: "(of_char c :: nat) = n \<Longrightarrow> c = char_of n"
  by auto

lemma digit_char:
  "k < 10 \<Longrightarrow> is_digit (char_of (48 + k)) \<and> (of_char (char_of (48 + k) :: char) :: nat) = 48 + k"
  by (simp add: is_digit_def)

lemma parse_str_esc:
  "parse_str (esc_char c @ r) = map_option (\<lambda>(s, r). (c # s, r)) (parse_str r)"
proof -
  let ?n = "of_char c :: nat"
  consider "?n \<in> {34, 92, 10, 13, 9, 12, 8}" | "?n < 32" "?n \<notin> {34, 92, 10, 13, 9, 12, 8}"
    | "32 \<le> ?n" "?n \<notin> {34, 92}" by fastforce
  then show ?thesis
  proof cases
    case 1
    then have "c = CHR 0x22 \<or> c = CHR 0x5C \<or> c = CHR 0x0A \<or> c = CHR 0x0D \<or> c = CHR 0x09 \<or>
        c = CHR 0x0C \<or> c = CHR 0x08"
      by (auto dest!: of_char_eq simp only: escaped_codes insert_iff empty_iff)
    then show ?thesis by (auto simp: esc_char_def unescape_def)
  next
    case 2
    then have hx: "hex4 (CHR ''0'') (CHR ''0'') (hex_digit (?n div 16)) (hex_digit (?n mod 16)) = Some [c]"
      by (simp add: hex4_def hex_value_digit) (simp add: hex_value_def utf8_encode_def)
    from 2 have "esc_char c = [CHR 0x5C, CHR ''u'', CHR ''0'', CHR ''0'', hex_digit (?n div 16),
                           hex_digit (?n mod 16)]"
      by (simp add: esc_char_def Let_def)
    with hx show ?thesis by simp
  next
    case 3
    then have "esc_char c = [c]" "c \<noteq> CHR 0x22" "c \<noteq> CHR 0x5C"
      by (auto simp: esc_char_def)
    with 3 show ?thesis by simp
  qed
qed

lemma parse_str_print: "parse_str (concat (map esc_char s) @ CHR 0x22 # r) = Some (s, r)"
  by (induction s) (simp_all add: parse_str_esc del: parse_str.simps(2), simp)

lemma read_nat_digits:
  "read_nat m (print_nat n @ r) = read_nat (m * 10 ^ length (print_nat n) + n) r"
proof (induction n arbitrary: m r rule: print_nat.induct)
  case (1 n)
  show ?case
  proof (cases "n < 10")
    case True
    then show ?thesis by (simp add: print_nat.simps [of n] is_digit_def)
  next
    case False
    have "print_nat n = print_nat (n div 10) @ [char_of (48 + n mod 10)]"
      using False by (simp add: print_nat.simps [of n])
    moreover have "is_digit (char_of (48 + n mod 10))"
      "(of_char (char_of (48 + n mod 10) :: char) :: nat) = 48 + n mod 10"
      using digit_char [of "n mod 10"] by simp_all
    ultimately show ?thesis
      using 1 [OF False, of m "char_of (48 + n mod 10) # r"] by (simp add: algebra_simps)
  qed
qed

lemma print_nat_head:
  "\<exists>c cs. print_nat n = c # cs \<and> is_digit c \<and> (c = CHR ''0'' \<longrightarrow> n = 0 \<and> cs = [])"
proof (induction n rule: print_nat.induct)
  case (1 n)
  show ?case
  proof (cases "n < 10")
    case True
    have "(char_of (48 + n) :: char) = CHR ''0'' \<Longrightarrow> n = 0"
    proof -
      assume "(char_of (48 + n) :: char) = CHR ''0''"
      then have "(of_char (char_of (48 + n) :: char) :: nat) = of_char (CHR ''0'')" by simp
      with True show ?thesis by simp
    qed
    with True show ?thesis by (simp add: print_nat.simps [of n] is_digit_def)
  next
    case False
    with 1 obtain c cs where "print_nat (n div 10) = c # cs" "is_digit c"
      "c = CHR ''0'' \<longrightarrow> n div 10 = 0" by blast
    with False show ?thesis by (auto simp: print_nat.simps [of n])
  qed
qed

lemma read_nat_stop: "number_ends r \<Longrightarrow> read_nat n r = (n, r)"
  by (cases r) (auto simp: number_ends_def)

lemma parse_nat_print: "number_ends r \<Longrightarrow> parse_nat (print_nat n @ r) = Some (n, r)"
proof -
  assume r: "number_ends r"
  obtain c cs where c: "print_nat n = c # cs" "is_digit c" "c = CHR ''0'' \<longrightarrow> n = 0 \<and> cs = []"
    using print_nat_head by blast
  have "read_nat 0 (print_nat n @ r) = (n, r)"
    using r by (simp add: read_nat_digits read_nat_stop)
  with c r show ?thesis by (auto simp: parse_nat_def)
qed

lemma print_int_head:
  "\<exists>c cs. print_int i = c # cs \<and> (is_digit c \<or> c = CHR ''-'')"
  using print_nat_head by (auto simp: print_int_def) metis

lemma parse_int_print: "number_ends r \<Longrightarrow> parse_int (print_int i @ r) = Some (i, r)"
proof -
  assume r: "number_ends r"
  obtain c cs where c: "print_nat (nat i) = c # cs" "is_digit c"
    using print_nat_head by blast
  then have "c \<noteq> CHR ''-''" by (auto simp: is_digit_def)
  with c parse_nat_print [OF r, of "nat i"] parse_nat_print [OF r, of "nat (- i)"]
  show ?thesis by (auto simp: print_int_def parse_int_def)
qed

text \<open>Printed values start with a character that is neither space nor a closing bracket.\<close>

definition value_head :: "char \<Rightarrow> bool" where
  "value_head c \<longleftrightarrow> (of_char c :: nat) \<notin> {9, 10, 13, 32} \<and> c \<noteq> CHR '']'' \<and> c \<noteq> CHR ''}''"

lemma print_json_head: "\<exists>c cs. print_json j = c # cs \<and> value_head c"
proof (cases j)
  case (JInt i)
  obtain c cs where c: "print_int i = c # cs" "is_digit c \<or> c = CHR ''-''"
    using print_int_head by blast
  then have "value_head c"
    by (auto simp: value_head_def is_digit_def)
  with c JInt show ?thesis by simp
qed (auto simp: value_head_def print_str_def)

lemma skip_ws_value: "value_head c \<Longrightarrow> skip_ws (c # cs) = c # cs"
  by (simp add: value_head_def)

lemma skip_ws_print [simp]: "skip_ws (print_json j @ r) = print_json j @ r"
  using print_json_head [of j] by (auto simp: skip_ws_value simp del: skip_ws.simps)

lemma number_ends_simps [simp]:
  "number_ends []" "number_ends (CHR '','' # r)" "number_ends (CHR '']'' # r)"
  "number_ends (CHR ''}'' # r)"
  by (simp_all add: number_ends_def is_digit_def)

lemma parse_elems_print:
  assumes "\<And>x n r. x \<in> set xs \<Longrightarrow> length (print_json x) < n \<Longrightarrow> number_ends r \<Longrightarrow>
             parse_value n (print_json x @ r) = Some (x, r)"
    and "xs \<noteq> []" and "length (str_join '','' (map print_json xs)) + 1 < n"
  shows "parse_elems n (str_join '','' (map print_json xs) @ CHR '']'' # r) = Some (xs, r)"
  using assms
proof (induction xs arbitrary: n)
  case (Cons x xs)
  then obtain m where n: "n = Suc m" by (cases n) auto
  show ?case
  proof (cases xs)
    case Nil
    with Cons.prems(3) n have "length (print_json x) < m" by simp
    with Cons.prems(1) [of x m "CHR '']'' # r"] Nil n show ?thesis by simp
  next
    case (Cons y ys)
    with Cons.prems(3) n have len: "length (print_json x) < m"
      "length (str_join '','' (map print_json xs)) + 1 < m" by auto
    have "parse_elems m (str_join '','' (map print_json xs) @ CHR '']'' # r) = Some (xs, r)"
      using Cons.IH [OF Cons.prems(1) _ len(2)] Cons by simp
    with Cons.prems(1) [of x m "CHR '','' # str_join '','' (map print_json xs) @ CHR '']'' # r"]
      len(1) Cons n show ?thesis by simp
  qed
qed simp

abbreviation print_member :: "string \<times> json \<Rightarrow> string" where
  "print_member \<equiv> \<lambda>(k, v). print_str k @ '':'' @ print_json v"

lemma parse_member_step:
  assumes "\<And>n r. length (print_json v) < n \<Longrightarrow> number_ends r \<Longrightarrow>
             parse_value n (print_json v @ r) = Some (v, r)"
    and "length (print_json v) < m"
  shows "parse_members (Suc m) (print_member (k, v) @ CHR ''}'' # r) = Some ([(k, v)], r)"
    and "parse_members (Suc m) (print_member (k, v) @ CHR '','' # r) =
           map_option (\<lambda>(kvs, r2). ((k, v) # kvs, r2)) (parse_members m r)"
  using assms(1) [OF assms(2), of "CHR ''}'' # r"] assms(1) [OF assms(2), of "CHR '','' # r"]
  by (simp_all add: print_str_def parse_str_print)

lemma parse_members_print:
  assumes "\<And>k v n r. (k, v) \<in> set kvs \<Longrightarrow> length (print_json v) < n \<Longrightarrow> number_ends r \<Longrightarrow>
             parse_value n (print_json v @ r) = Some (v, r)"
    and "kvs \<noteq> []" and "length (str_join '','' (map print_member kvs)) + 1 < n"
  shows "parse_members n (str_join '','' (map print_member kvs) @ CHR ''}'' # r) = Some (kvs, r)"
  using assms
proof (induction kvs arbitrary: n)
  case (Cons kv kvs)
  obtain k v where kv: "kv = (k, v)" by force
  from Cons.prems obtain m where n: "n = Suc m" by (cases n) auto
  have step: "\<And>n r. length (print_json v) < n \<Longrightarrow> number_ends r \<Longrightarrow>
      parse_value n (print_json v @ r) = Some (v, r)"
    by (rule Cons.prems(1) [of k]) (simp_all add: kv)
  have rest: "\<And>k v n r. (k, v) \<in> set kvs \<Longrightarrow> length (print_json v) < n \<Longrightarrow> number_ends r \<Longrightarrow>
      parse_value n (print_json v @ r) = Some (v, r)"
    by (rule Cons.prems(1), rule list.set_intros(2))
  show ?case
  proof (cases kvs)
    case Nil
    with Cons.prems(3) n kv have "length (print_json v) < m" by simp
    from parse_member_step(1) [OF step this] Nil n kv show ?thesis by simp
  next
    case (Cons y ys)
    with Cons.prems(3) n kv have len: "length (print_json v) < m"
      "length (str_join '','' (map print_member kvs)) + 1 < m" by auto
    have "parse_members m (str_join '','' (map print_member kvs) @ CHR ''}'' # r) = Some (kvs, r)"
      by (rule Cons.IH [OF rest _ len(2)]) (simp_all add: Cons)
    with parse_member_step(2) [OF step len(1),
        of k "str_join '','' (map print_member kvs) @ CHR ''}'' # r"] Cons n kv
    show ?thesis by simp
  qed
qed simp

lemma parse_print:
  "length (print_json j) < n \<Longrightarrow> number_ends r \<Longrightarrow> parse_value n (print_json j @ r) = Some (j, r)"
proof (induction j arbitrary: n r)
  case (JInt i)
  then obtain m where n: "n = Suc m" by (cases n) auto
  obtain c cs where c: "print_int i = c # cs" "is_digit c \<or> c = CHR ''-''"
    using print_int_head by blast
  then have "skip_ws (c # cs @ r) = c # cs @ r" "c \<notin> {CHR 0x22, CHR ''['', CHR ''{'', CHR ''n'', CHR ''t'', CHR ''f''}"
    by (auto simp: is_digit_def)
  with c parse_int_print [OF JInt.prems(2), of i] n show ?case by simp
next
  case (JArr xs)
  then obtain m where n: "n = Suc m" by (cases n) auto
  show ?case
  proof (cases xs)
    case (Cons x ys)
    then obtain c cs where c: "str_join '','' (map print_json xs) @ CHR '']'' # r = c # cs" "value_head c"
      using print_json_head [of x] by (cases ys) auto
    have "parse_elems m (str_join '','' (map print_json xs) @ CHR '']'' # r) = Some (xs, r)"
      using JArr Cons n by (intro parse_elems_print) auto
    with c n show ?thesis by (auto simp: value_head_def)
  qed (use n in simp)
next
  case (JObj kvs)
  then obtain m where n: "n = Suc m" by (cases n) auto
  show ?case
  proof (cases kvs)
    case (Cons x ys)
    then obtain cs where c: "str_join '','' (map print_member kvs) @ CHR ''}'' # r = CHR 0x22 # cs"
      by (cases x; cases ys) (auto simp: print_str_def)
    have "parse_members m (str_join '','' (map print_member kvs) @ CHR ''}'' # r) = Some (kvs, r)"
      using JObj Cons n by (intro parse_members_print) auto
    with c n show ?thesis by auto
  qed (use n in simp)
next
  case JNull
  then obtain m where "n = Suc m" by (cases n) auto
  then show ?case by (simp add: parse_word_def)
next
  case (JBool b)
  then obtain m where "n = Suc m" by (cases n) auto
  then show ?case by (simp add: parse_word_def)
next
  case (JStr s)
  then obtain m where "n = Suc m" by (cases n) auto
  then show ?case by (simp add: print_str_def parse_str_print)
qed

lemma loads_print: "loads (print_json j) = Some j"
  using parse_print [of j "Suc (length (print_json j))" "[]"] by (simp add: loads_def)


lemma loads_dumps: "loads (dumps j) = Some (sort_keys j)"
  by (simp add: dumps_def loads_print)

text \<open>Sorting the keys of a dictionary does not change its lookups.\<close>

lemma distinct_keys_sort: "distinct (map fst kvs) \<Longrightarrow> distinct (map fst (sort_key fst kvs))"
  by (simp add: distinct_map)

lemma map_of_sort_key:
  assumes "distinct (map fst kvs)"
  shows "map_of (sort_key fst kvs) = map_of kvs"
  using assms by (intro map_of_inject_set [THEN iffD2] distinct_keys_sort) simp_all

lemma obj_get_distinct: "distinct (map fst kvs) \<Longrightarrow> obj_get kvs k = map_of kvs k"
  using map_of_inject_set [of "rev kvs" kvs] by (simp add: obj_get_def flip: rev_map)

end
