(* ===== verification/PortalToken.thy ===== *)
theory PortalToken
  imports PortalJson PortalUsers
begin

text \<open>
  Access tokens of \<open>portal_server.py\<close>: the URL-safe base64 without padding that
  \<open>_b64url_encode\<close>/\<open>_b64url_decode\<close> use, and \<open>create_token\<close>/\<open>parse_token\<close>, which sign
  the JSON payload with HMAC-SHA256 (a parameter, \<^term>\<open>hmac_sha256\<close>).
\<close>

subsection \<open>URL-safe base64\<close>

definition b64_char :: "nat \<Rightarrow> char" where
  "b64_char n = (if n < 26 then char_of (65 + n) else if n < 52 then char_of (71 + n)
                 else if n < 62 then char_of (n - 4) else if n = 62 then CHR ''-'' else CHR ''_'')"

fun b64url_encode :: "string \<Rightarrow> string" where
  "b64url_encode [] = []"
| "b64url_encode [a] =
     (let x = (of_char a :: nat) in [b64_char (x div 4), b64_char (x mod 4 * 16)])"
| "b64url_encode [a, b] =
     (let x = (of_char a :: nat); y = (of_char b :: nat)
      in [b64_char (x div 4), b64_char (x mod 4 * 16 + y div 16), b64_char (y mod 16 * 4)])"
| "b64url_encode (a # b # c # r) =
     (let x = (of_char a :: nat); y = (of_char b :: nat); z = (of_char c :: nat)
      in [b64_char (x div 4), b64_char (x mod 4 * 16 + y div 16),
          b64_char (y mod 16 * 4 + z div 64), b64_char (z mod 64)] @ b64url_encode r)"

text \<open>
  The decoder of the standard library is lenient: it maps \<open>-\<close> and \<open>_\<close> to \<open>+\<close> and \<open>/\<close>
  and skips every character outside the alphabet.  A quantum completed by padding ends
  the input; an incomplete one is an error.
\<close>

definition b64_value :: "char \<Rightarrow> nat option" where
  "b64_value c = (let n = (of_char c :: nat) in
     if 65 \<le> n \<and> n \<le> 90 then Some (n - 65)
     else if 97 \<le> n \<and> n \<le> 122 then Some (n - 71)
     else if 48 \<le> n \<and> n \<le> 57 then Some (n + 4)
     else if n = 45 \<or> n = 43 then Some 62
     else if n = 95 \<or> n = 47 then Some 63 else None)"

text \<open>State of the loop: position in the quantum, bits left over, padding seen.\<close>

fun b64_loop :: "nat \<Rightarrow> nat \<Rightarrow> nat \<Rightarrow> string \<Rightarrow> string option" where
  "b64_loop quad left pads [] = (if quad = 0 then Some [] else None)"
| "b64_loop quad left pads (c # cs) =
     (if c = CHR ''='' then
        (if 2 \<le> quad \<and> 4 \<le> quad + pads + 1 then Some []
         else b64_loop quad left (if 2 \<le> quad then pads + 1 else pads) cs)
      else case b64_value c of
        None \<Rightarrow> b64_loop quad left pads cs
      | Some v \<Rightarrow>
          if quad = 0 then b64_loop 1 v 0 cs
          else if quad = 1 then
            map_option ((#) (char_of (left * 4 + v div 16))) (b64_loop 2 (v mod 16) 0 cs)
          else if quad = 2 then
            map_option ((#) (char_of (left * 16 + v div 4))) (b64_loop 3 (v mod 4) 0 cs)
          else map_option ((#) (char_of (left * 64 + v))) (b64_loop 0 0 0 cs))"

definition pad_len :: "nat \<Rightarrow> nat" where
  "pad_len n = nat ((- int n) mod 4)"

text \<open>A \<open>str\<close> with a character that is not ASCII is refused (\<open>ValueError\<close>).\<close>

definition b64url_decode :: "string \<Rightarrow> string option" where
  "b64url_decode raw =
     (if list_ex (\<lambda>c. 128 \<le> (of_char c :: nat)) raw then None
      else b64_loop 0 0 0 (raw @ replicate (pad_len (length raw)) (CHR ''='')))"

subsection \<open>Tokens\<close>

text \<open>The payload dictionary of a token; a missing entry, or one of another type, is \<^term>\<open>None\<close>.\<close>

record token =
  t_sub :: "string option"
  t_login_id :: "string option"
  t_display_name :: "string option"
  t_dept_ids :: "string list"
  t_default_dept_id :: "string option"
  t_iat :: "int option"
  t_exp :: "int option"

definition token_json :: "token \<Rightarrow> json" where
  "token_json t = JObj
     ((case t_sub t of None \<Rightarrow> [] | Some s \<Rightarrow> [(''sub'', JStr s)]) @
      (case t_login_id t of None \<Rightarrow> [] | Some s \<Rightarrow> [(''login_id'', JStr s)]) @
      (case t_display_name t of None \<Rightarrow> [] | Some s \<Rightarrow> [(''display_name'', JStr s)]) @
      [(''dept_ids'', JArr (map JStr (t_dept_ids t)))] @
      (case t_default_dept_id t of None \<Rightarrow> [] | Some s \<Rightarrow> [(''default_dept_id'', JStr s)]) @
      (case t_iat t of None \<Rightarrow> [] | Some i \<Rightarrow> [(''iat'', JInt i)]) @
      (case t_exp t of None \<Rightarrow> [] | Some i \<Rightarrow> [(''exp'', JInt i)]))"

definition as_str :: "json option \<Rightarrow> string option" where
  "as_str j = (case j of Some (JStr s) \<Rightarrow> Some s | _ \<Rightarrow> None)"

definition as_int :: "json option \<Rightarrow> int option" where
  "as_int j = (case j of Some (JInt i) \<Rightarrow> Some i | _ \<Rightarrow> None)"

definition as_strs :: "json option \<Rightarrow> string list" where
  "as_strs j = (case j of Some (JArr xs) \<Rightarrow> concat (map (\<lambda>x. case x of JStr s \<Rightarrow> [s] | _ \<Rightarrow> []) xs)
                | _ \<Rightarrow> [])"

definition json_token :: "(string \<times> json) list \<Rightarrow> token" where
  "json_token kvs =
     \<lparr>t_sub = as_str (obj_get kvs ''sub''), t_login_id = as_str (obj_get kvs ''login_id''),
      t_display_name = as_str (obj_get kvs ''display_name''),
      t_dept_ids = as_strs (obj_get kvs ''dept_ids''),
      t_default_dept_id = as_str (obj_get kvs ''default_dept_id''),
      t_iat = as_int (obj_get kvs ''iat''), t_exp = as_int (obj_get kvs ''exp'')\<rparr>"

definition create_token :: "env \<Rightarrow> string \<Rightarrow> token \<Rightarrow> string" where
  "create_token E auth_secret payload =
     (let body = dumps (token_json payload);
          sig = hmac_sha256 E auth_secret body
      in b64url_encode body @ ''.'' @ b64url_encode sig)"

text \<open>\<open>token.split(".", 1)\<close>: two parts, or an error.\<close>

fun split_dot :: "string \<Rightarrow> (string \<times> string) option" where
  "split_dot [] = None"
| "split_dot (c # cs) =
     (if c = CHR ''.'' then Some ([], cs)
      else map_option (\<lambda>(a, b). (c # a, b)) (split_dot cs))"

text \<open>
  \<open>int(payload.get("exp", 0))\<close>: 0 when it is missing, an error when it is no number.  The
  clock is read at \<open>n\<close>.  Every exception inside \<open>parse_token\<close> ends in \<^term>\<open>None\<close>.
\<close>

definition exp_of :: "(string \<times> json) list \<Rightarrow> int option" where
  "exp_of kvs = (case obj_get kvs ''exp'' of None \<Rightarrow> Some 0 | Some (JInt i) \<Rightarrow> Some i
                 | Some (JBool b) \<Rightarrow> Some (if b then 1 else 0) | _ \<Rightarrow> None)"

definition parse_token :: "env \<Rightarrow> string \<Rightarrow> nat \<Rightarrow> string \<Rightarrow> token option" where
  "parse_token E auth_secret n tok =
     (case split_dot tok of None \<Rightarrow> None
      | Some (body_b64, sig_b64) \<Rightarrow>
          (case b64url_decode body_b64 of None \<Rightarrow> None
           | Some body \<Rightarrow>
               let expected_sig = hmac_sha256 E auth_secret body
               in case b64url_decode sig_b64 of None \<Rightarrow> None
                  | Some sig \<Rightarrow>
                      if expected_sig \<noteq> sig then None
                      else case loads body of
                        Some (JObj kvs) \<Rightarrow>
                          (case exp_of kvs of None \<Rightarrow> None
                           | Some e \<Rightarrow> if e < epoch_now E n then None else Some (json_token kvs))
                      | _ \<Rightarrow> None))"

subsection \<open>Round trips\<close>

lemma b64_value_char: "n < 64 \<Longrightarrow> b64_value (b64_char n) = Some n"
  by (auto simp: b64_value_def b64_char_def Let_def)

lemma b64_char_ascii: "n < 64 \<Longrightarrow> (of_char (b64_char n) :: nat) < 128"
  by (auto simp: b64_char_def)

lemma b64_char_plain: "n < 64 \<Longrightarrow> b64_char n \<noteq> CHR ''='' \<and> b64_char n \<noteq> CHR ''.''"
proof -
  assume "n < 64"
  moreover have "(of_char (CHR ''='') :: nat) = 61" "(of_char (CHR ''.'') :: nat) = 46" by simp_all
  ultimately show ?thesis by (auto simp: b64_char_def dest!: arg_cong [where f = "of_char :: char \<Rightarrow> nat"])
qed

lemma of_char_less: "(of_char c :: nat) < 256"
  using of_char_mod_256 [of c, where 'a = nat] by (metis mod_less_divisor zero_less_numeral)

lemma b64_loop_step:
  assumes "v < 64"
  shows "b64_loop quad left pads (b64_char v # cs) =
    (if quad = 0 then b64_loop 1 v 0 cs
     else if quad = 1 then map_option ((#) (char_of (left * 4 + v div 16))) (b64_loop 2 (v mod 16) 0 cs)
     else if quad = 2 then map_option ((#) (char_of (left * 16 + v div 4))) (b64_loop 3 (v mod 4) 0 cs)
     else map_option ((#) (char_of (left * 64 + v))) (b64_loop 0 0 0 cs))"
  using assms b64_char_plain [OF assms] b64_value_char [OF assms] by simp

lemma pad_len_simps [simp]:
  "pad_len 0 = 0" "pad_len (Suc (Suc (Suc (Suc n)))) = pad_len n"
  "pad_len 2 = 2" "pad_len 3 = 1" "pad_len (Suc (Suc 0)) = 2" "pad_len (Suc (Suc (Suc 0))) = 1"
proof -
  have "(- int n - 4) mod 4 = (- int n) mod 4"
    by (simp add: mod_diff_eq [symmetric, of _ 4])
  then show "pad_len (Suc (Suc (Suc (Suc n)))) = pad_len n" 
    by (simp add: pad_len_def algebra_simps)
qed (simp_all add: pad_len_def)

lemma quantum_parts:
  fixes x y z :: nat
  assumes "x < 256" "y < 256" "z < 256"
  shows "x div 4 < 64" "x mod 4 * 16 + y div 16 < 64" "y mod 16 * 4 + z div 64 < 64" "z mod 64 < 64"
    "x mod 4 * 16 < 64" "y mod 16 * 4 < 64"
    "x div 4 * 4 + (x mod 4 * 16 + y div 16) div 16 = x"
    "(x mod 4 * 16 + y div 16) mod 16 * 16 + (y mod 16 * 4 + z div 64) div 4 = y"
    "(y mod 16 * 4 + z div 64) mod 4 * 64 + z mod 64 = z"
    "x div 4 * 4 + x mod 4 * 16 div 16 = x"
    "(x mod 4 * 16 + y div 16) mod 16 * 16 + y mod 16 * 4 div 4 = y"
  using assms by auto

lemma nibbles: "y < 256 \<Longrightarrow> y div 16 div 16 = 0" "y < 256 \<Longrightarrow> y div 16 mod 16 = y div 16"
  "y < 256 \<Longrightarrow> y div 64 div 4 = 0" "y < 256 \<Longrightarrow> y div 64 mod 4 = y div 64" for y :: nat
  by auto

lemma b64_loop_pads:
  "b64_loop 2 l 0 [CHR ''='', CHR ''=''] = Some []" "b64_loop 3 l 0 [CHR ''=''] = Some []"
  "b64_loop 2 l 0 (replicate 2 (CHR ''='')) = Some []"
  by (simp_all add: numeral_2_eq_2)

lemma b64_loop_encode:
  "b64_loop 0 0 0 (b64url_encode xs @ replicate (pad_len (length (b64url_encode xs))) (CHR ''='')) = Some xs"
proof (induction xs rule: b64url_encode.induct)
  case (2 a)
  note q = quantum_parts [OF of_char_less [of a] of_char_less [of a] of_char_less [of a]]
  show ?case
    by (simp add: Let_def b64_loop_step b64_loop_pads q numeral_2_eq_2 [symmetric] del: b64_loop.simps(2))
next
  case (3 a b)
  note q = quantum_parts [OF of_char_less [of a] of_char_less [of b] of_char_less [of a]]
  show ?case
    by (simp add: Let_def b64_loop_step b64_loop_pads q nibbles of_char_less del: b64_loop.simps(2))
next
  case (4 a b c r)
  note q = quantum_parts [OF of_char_less [of a] of_char_less [of b] of_char_less [of c]]
  from 4 [OF refl refl refl] show ?case
    by (simp add: Let_def b64_loop_step q nibbles of_char_less del: b64_loop.simps(2))
qed simp

lemma b64url_encode_chars: "set (b64url_encode xs) \<subseteq> b64_char ` {..<64}"
proof (induction xs rule: b64url_encode.induct)
  case (2 a)
  note q = quantum_parts [OF of_char_less [of a] of_char_less [of a] of_char_less [of a]]
  show ?case using q(1,5) by (simp add: Let_def)
next
  case (3 a b)
  note q = quantum_parts [OF of_char_less [of a] of_char_less [of b] of_char_less [of a]]
  show ?case using q(1,2,6) by (simp add: Let_def)
next
  case (4 a b c r)
  note q = quantum_parts [OF of_char_less [of a] of_char_less [of b] of_char_less [of c]]
  from 4 show ?case using q(1-4) by (simp add: Let_def)
qed simp

lemma b64url_encode_ascii: "c \<in> set (b64url_encode xs) \<Longrightarrow> (of_char c :: nat) < 128 \<and> c \<noteq> CHR ''.''"
proof -
  assume "c \<in> set (b64url_encode xs)"
  then obtain n where "n < 64" "c = b64_char n" using b64url_encode_chars [of xs] by blast
  then show ?thesis by (simp add: b64_char_ascii b64_char_plain)
qed

lemma b64url_roundtrip: "b64url_decode (b64url_encode xs) = Some xs"
proof -
  have "\<not> list_ex (\<lambda>c. 128 \<le> (of_char c :: nat)) (b64url_encode xs)"
    using b64url_encode_ascii by (fastforce simp: list_ex_iff)
  then show ?thesis by (simp add: b64url_decode_def b64_loop_encode)
qed

interpretation b64: codec b64url_encode b64url_decode
  by unfold_locales (rule b64url_roundtrip)

lemma split_dot_append: "CHR ''.'' \<notin> set a \<Longrightarrow> split_dot (a @ CHR ''.'' # b) = Some (a, b)"
  by (induction a) auto

lemma as_strs_strs [simp]: "as_strs (Some (JArr (map JStr xs))) = xs"
  by (induction xs) (simp_all add: as_strs_def comp_def)

lemma obj_get_sorted:
  assumes "distinct (map fst kvs)"
  shows "obj_get (sort_key fst (map (map_prod id f) kvs)) k = map_option f (map_of kvs k)"
proof -
  have "map fst (map (map_prod id f) kvs) = map fst kvs" by simp
  with assms have d: "distinct (map fst (map (map_prod id f) kvs))" by (simp only:)
  then have "distinct (map fst (sort_key fst (map (map_prod id f) kvs)))"
    by (rule distinct_keys_sort)
  then have "obj_get (sort_key fst (map (map_prod id f) kvs)) k = map_of (sort_key fst (map (map_prod id f) kvs)) k"
    by (rule obj_get_distinct)
  also have "\<dots> = map_of (map (map_prod id f) kvs) k"
    using d by (simp add: map_of_sort_key)
  also have "\<dots> = map_option f (map_of kvs k)"
    by (induction kvs) auto
  finally show ?thesis .
qed

definition token_entries :: "token \<Rightarrow> (string \<times> json) list" where
  "token_entries t = (case token_json t of JObj kvs \<Rightarrow> kvs | _ \<Rightarrow> [])"

lemma token_json_entries: "token_json t = JObj (token_entries t)"
  by (simp add: token_entries_def token_json_def)

lemma token_entries_get:
  "distinct (map fst (token_entries t))"
  "map_of (token_entries t) ''sub'' = map_option JStr (t_sub t)"
  "map_of (token_entries t) ''login_id'' = map_option JStr (t_login_id t)"
  "map_of (token_entries t) ''display_name'' = map_option JStr (t_display_name t)"
  "map_of (token_entries t) ''dept_ids'' = Some (JArr (map JStr (t_dept_ids t)))"
  "map_of (token_entries t) ''default_dept_id'' = map_option JStr (t_default_dept_id t)"
  "map_of (token_entries t) ''iat'' = map_option JInt (t_iat t)"
  "map_of (token_entries t) ''exp'' = map_option JInt (t_exp t)"
  by (auto simp: token_entries_def token_json_def split: option.split)

lemma json_token_roundtrip:
  "json_token (sort_key fst (map (map_prod id sort_keys) (token_entries t))) = t"
  by (simp add: json_token_def obj_get_sorted token_entries_get as_str_def as_int_def comp_def option.map_comp
      split: option.split)

text \<open>
  A token that was just issued is accepted, with the payload it was issued for, until it
  expires; a payload without \<open>exp\<close> counts as expiring at 0.
\<close>

lemma parse_create_token:
  "parse_token E key n (create_token E key t) =
     (if (case t_exp t of None \<Rightarrow> 0 | Some e \<Rightarrow> e) < epoch_now E n then None else Some t)"
proof -
  let ?kvs = "sort_key fst (map (map_prod id sort_keys) (token_entries t))"
  have "loads (dumps (token_json t)) = Some (JObj ?kvs)"
    by (simp add: loads_dumps token_json_entries)
  moreover have "exp_of ?kvs = Some (case t_exp t of None \<Rightarrow> 0 | Some e \<Rightarrow> e)"
    by (simp add: exp_of_def obj_get_sorted token_entries_get split: option.split)
  moreover have "CHR ''.'' \<notin> set (b64url_encode (dumps (token_json t)))"
    using b64url_encode_ascii by blast
  ultimately show ?thesis
    by (simp add: parse_token_def create_token_def Let_def split_dot_append b64url_roundtrip
        json_token_roundtrip)
qed

text \<open>An accepted token carries a body that the holder of the secret signed, and is not expired.\<close>

lemma parse_token_signed:
  assumes "parse_token E key n tok = Some t"
  shows "\<exists>a b body kvs e. split_dot tok = Some (a, b) \<and> b64url_decode a = Some body \<and>
           b64url_decode b = Some (hmac_sha256 E key body) \<and> loads body = Some (JObj kvs) \<and>
           t = json_token kvs \<and> exp_of kvs = Some e \<and> epoch_now E n \<le> e"
  using assms
  by (auto simp: parse_token_def Let_def split: option.splits prod.splits json.splits if_splits)

end
