(* ===== verification/GatewayShare.thy ===== *)
theory GatewayShare
  imports StoreInvariant PortalToken
begin

unbundle bit_operations_syntax

text \<open>
  Sharing of knowledge bases, as \<open>PortalGateway\<close> offers it to the routes: share requests
  and their review, direct shares, shares to departments, their recall.  These handlers
  touch the database only.  Every store call commits on its own, so the state reached
  before an exception stays.
\<close>

subsection \<open>What the handlers share\<close>

definition token_user :: "token \<Rightarrow> string" where
  "token_user tok = opt_or (t_sub tok) []"

definition token_depts :: "token \<Rightarrow> string set" where
  "token_depts tok = normalize_dept_id ` set (t_dept_ids tok)"

definition permission_mask_of :: "string \<Rightarrow> int" where
  "permission_mask_of permission =
     (if permission = ''write'' then PERM_READ OR PERM_WRITE OR PERM_SHARE
      else if permission = ''share'' then PERM_READ OR PERM_SHARE
      else PERM_READ)"

text \<open>
  The handlers rewrite a policy with the same argument list: owner and roles as they
  are, denied departments normalised, category \<open>D\<close> where there is none.
\<close>

definition rewrite_policy ::
  "env \<Rightarrow> string \<Rightarrow> policy_row \<Rightarrow> string \<Rightarrow> string \<Rightarrow> string \<Rightarrow> string list
     \<Rightarrow> 'ref db \<Rightarrow> ('ref db, unit) outcome" where
  "rewrite_policy E kb_id policy owner_dept visibility created_by allow_dept_ids s =
     upsert_policy E ''kb'' kb_id owner_dept visibility created_by (p_owner_user_id policy)
       (Some allow_dept_ids) (Some (map normalize_dept_id (p_deny_dept_ids policy)))
       (Some (p_allow_roles policy)) (str_or (p_category policy) ''D'') s"

text \<open>One share for every active member of each department, the owner left out.\<close>

definition grant_depts ::
  "env \<Rightarrow> string \<Rightarrow> string list \<Rightarrow> string option \<Rightarrow> int \<Rightarrow> string \<Rightarrow> 'ref db \<Rightarrow> 'ref db" where
  "grant_depts E kb_id dept_ids owner_user_id mask' shared_by s =
     fold (\<lambda>d s1.
       fold (\<lambda>u s2.
           if Some (u_user_id u) = owner_user_id then s2
           else add_kb_share E kb_id (u_user_id u) mask' shared_by None [] ''approved'' s2)
         (get_users_in_dept d s1) s1)
       dept_ids s"

subsection \<open>Requests\<close>

definition request_kb_share ::
  "env \<Rightarrow> token \<Rightarrow> string \<Rightarrow> string \<Rightarrow> string list option \<Rightarrow> string option \<Rightarrow> string \<Rightarrow> string
     \<Rightarrow> 'ref db \<Rightarrow> ('ref db, request_row option) outcome" where
  "request_kb_share E tok kb_id target_scope target_dept_ids target_user_login reason permission s =
     (let user_id = token_user tok in
      if user_id = [] then (s, Inl (PermissionError Unauthorized))
      else case get_policy ''kb'' kb_id s of
        None \<Rightarrow> (s, Inl (ValueError KbNotFound))
      | Some policy \<Rightarrow>
          let owner_dept = normalize_dept_id (p_owner_dept_id policy) in
          if owner_dept \<notin> token_depts tok then (s, Inl (PermissionError OwnerDeptOnlyRequest))
          else if \<not> is_dept_admin user_id owner_dept s then (s, Inl (PermissionError DeptAdminRequired))
          else if str_lower (p_visibility policy) = ''private'' \<and>
                  p_owner_user_id policy \<noteq> Some user_id
          then (s, Inl (PermissionError OwnerOnlyPrivate))
          else
            let scope = str_lower (str_strip target_scope);
                create = (\<lambda>targets target_user perm.
                  create_kb_share_request E kb_id owner_dept user_id scope (Some targets)
                    target_user reason (Some perm) None s)
            in if scope = ''user'' then
                 (if opt_or target_user_login [] = [] then (s, Inl (ValueError TargetLoginRequired))
                  else case get_user_by_login (opt_or target_user_login []) s of
                         None \<Rightarrow> (s, Inl (ValueError TargetLoginNotFound))
                       | Some u \<Rightarrow>
                           if \<not> u_is_active u then (s, Inl (ValueError TargetLoginNotFound))
                           else create [] (Some (u_user_id u))
                             (permission_mask_of (str_lower (str_strip (str_or permission ''read'')))))
               else if scope = ''dept'' then
                 (let targets = map normalize_dept_id
                        (filter (\<lambda>x. str_strip x \<noteq> []) (list_or_empty target_dept_ids))
                  in if targets = [] then (s, Inl (ValueError TargetDeptsRequired))
                     else create targets None PERM_READ)
               else if scope = ''mp'' then create [] None PERM_READ
               else (s, Inl (ValueError BadScope)))"

definition list_share_requests ::
  "token \<Rightarrow> string option \<Rightarrow> string option \<Rightarrow> 'ref db \<Rightarrow> (request_row \<times> string option) list" where
  "list_share_requests tok status owner_dept_id s =
     (let user_id = token_user tok;
          st = (let v = str_strip (opt_or status []) in if v = [] then None else Some v) in
      if user_id = [] then []
      else
        let admin_depts = map normalize_dept_id
              (filter (\<lambda>x. is_dept_admin user_id x s) (t_dept_ids tok))
        in if admin_depts \<noteq> [] then
             let filter_dept = (if opt_or owner_dept_id [] \<noteq> []
                                then Some (normalize_dept_id (opt_or owner_dept_id []))
                                else if length admin_depts = 1 then Some (hd admin_depts) else None);
                 rows = list_kb_share_requests st filter_dept None 1 200 s
             in if length admin_depts = 1 then rows
                else filter (\<lambda>(r, l). normalize_dept_id (r_owner_dept_id r) \<in> set admin_depts) rows
           else list_kb_share_requests st None (Some user_id) 1 200 s)"

subsection \<open>Review\<close>

text \<open>
  The share a request asks for, checked against what the requester may do; a requester
  with nothing counts as a reader.
\<close>

definition grant_requested ::
  "env \<Rightarrow> string \<Rightarrow> string \<Rightarrow> request_row \<Rightarrow> string \<Rightarrow> 'ref db \<Rightarrow> ('ref db, unit) outcome" where
  "grant_requested E user_id sharer req target s =
     (let cap0 = has_kb_access (r_kb_id req) (r_requester_user_id req) s;
          sharer_cap = (if cap0 \<le> 0 then PERM_READ else cap0);
          perm0 = r_requested_permission req;
          perm_mask = (if perm0 AND PERM_READ = 0 then perm0 OR PERM_READ else perm0)
      in if perm_mask OR sharer_cap \<noteq> sharer_cap
         then (s, Inl (PermissionError BeyondSharerRights))
         else (add_kb_share E (r_kb_id req) target perm_mask sharer (r_parent_share_id req) user_id
                 ''approved'' s, Inr ()))"

text \<open>What approval does, after the request row has been marked \<open>approved\<close>.\<close>

definition apply_approval ::
  "env \<Rightarrow> string \<Rightarrow> request_row \<Rightarrow> 'ref db \<Rightarrow> ('ref db, request_row) outcome" where
  "apply_approval E user_id req s =
     (case get_policy ''kb'' (r_kb_id req) s of
        None \<Rightarrow> (s, Inl (ValueError KbPolicyNotFound))
      | Some policy \<Rightarrow>
          let kb_id = r_kb_id req;
              owner = normalize_dept_id (str_or (p_owner_dept_id policy) (r_owner_dept_id req));
              existing_allow = map normalize_dept_id (p_allow_dept_ids policy);
              target_scope = str_lower (r_target_scope req);
              sharer = opt_or (p_owner_user_id policy) user_id
          in if target_scope = ''mp'' then
               and_then (rewrite_policy E kb_id policy owner ''public'' user_id [] s)
                 (\<lambda>_ s1. (s1, Inr req))
             else if target_scope = ''dept'' then
               (let target_dept_ids = map normalize_dept_id (r_target_dept_ids req);
                    merged = sorted_set (existing_allow @ target_dept_ids)
                in and_then (rewrite_policy E kb_id policy owner ''dept'' user_id merged s)
                     (\<lambda>_ s1. (grant_depts E kb_id target_dept_ids (p_owner_user_id policy)
                                PERM_READ sharer s1, Inr req)))
             else if target_scope = ''user'' then
               and_then (if opt_or (r_target_user_id req) [] = [] then (s, Inr ())
                         else grant_requested E user_id sharer req (opt_or (r_target_user_id req) []) s)
                     (\<lambda>_ s1. and_then (rewrite_policy E kb_id policy owner (p_visibility policy) user_id
                                         existing_allow s1)
                               (\<lambda>_ s2. (s2, Inr req)))
             else
               and_then (rewrite_policy E kb_id policy owner ''dept'' user_id existing_allow s)
                 (\<lambda>_ s1. (s1, Inr req)))"

definition review_share_request ::
  "env \<Rightarrow> token \<Rightarrow> string \<Rightarrow> bool \<Rightarrow> string \<Rightarrow> 'ref db \<Rightarrow> ('ref db, request_row) outcome" where
  "review_share_request E tok request_id approved review_comment s =
     (let user_id = token_user tok in
      case get_kb_share_request request_id s of
        None \<Rightarrow> (s, Inl (ValueError RequestNotFound))
      | Some req \<Rightarrow>
          if r_status req \<noteq> ''pending'' then (s, Inl (ValueError RequestNotPending))
          else
            let owner_dept = normalize_dept_id (r_owner_dept_id req) in
            if \<not> is_dept_admin user_id ''dept_mp'' s \<and> \<not> is_dept_admin user_id owner_dept s
            then (s, Inl (PermissionError ReviewerNotAdmin))
            else case review_kb_share_request E request_id user_id approved review_comment s of
                   (s1, None) \<Rightarrow> (s1, Inl (ValueError RequestNotFound))
                 | (s1, Some req1) \<Rightarrow>
                     if approved then apply_approval E user_id req1 s1 else (s1, Inr req1))"

subsection \<open>Direct shares\<close>

definition share_kb_internal ::
  "env \<Rightarrow> token \<Rightarrow> string \<Rightarrow> 'ref db \<Rightarrow> ('ref db, policy_row option) outcome" where
  "share_kb_internal E tok kb_id s =
     (let user_id = token_user tok in
      if user_id = [] then (s, Inl (PermissionError Unauthorized))
      else case get_policy ''kb'' kb_id s of
        None \<Rightarrow> (s, Inl (ValueError KbNotFound))
      | Some policy \<Rightarrow>
          let owner_dept = normalize_dept_id (p_owner_dept_id policy) in
          if owner_dept \<notin> token_depts tok then (s, Inl (PermissionError OwnerDeptOnlyInternal))
          else if str_lower (p_visibility policy) = ''private'' \<and>
                  p_owner_user_id policy \<noteq> Some user_id
          then (s, Inl (PermissionError OwnerOnlyPrivate))
          else and_then (rewrite_policy E kb_id policy owner_dept ''dept'' user_id [] s)
                 (\<lambda>_ s1. (s1, Inr (get_policy ''kb'' kb_id s1))))"

datatype share_result =
    SharePending "string option"        \<comment> \<open>the id of the request that awaits approval\<close>
  | ShareGranted int string             \<comment> \<open>mask and user\<close>

definition parent_share_of :: "string \<Rightarrow> string \<Rightarrow> 'ref db \<Rightarrow> nat option" where
  "parent_share_of kb_id user_id s = map_option k_id (approved_share kb_id user_id s)"

text \<open>The reason recorded with such a request: \<open>share to <login> (<permission> rights), ...\<close>.\<close>

definition share_reason :: "string \<Rightarrow> string \<Rightarrow> string" where
  "share_reason target_user_login permission =
     [CHR 0xE5, CHR 0x88, CHR 0x86, CHR 0xE4, CHR 0xBA, CHR 0xAB, CHR 0xE7, CHR 0xBB, CHR 0x99] @ '' ''
     @ target_user_login @ [CHR 0xEF, CHR 0xBC, CHR 0x88]
     @ permission @ [CHR 0xE6, CHR 0x9D, CHR 0x83, CHR 0xE9, CHR 0x99, CHR 0x90, CHR 0xEF, CHR 0xBC, CHR 0x89, CHR 0xEF, CHR 0xBC, CHR 0x8C, CHR 0xE9, CHR 0x9C, CHR 0x80, CHR 0xE6, CHR 0x89, CHR 0x80, CHR 0xE6, CHR 0x9C, CHR 0x89, CHR 0xE8, CHR 0x80, CHR 0x85, CHR 0xE5, CHR 0xAE, CHR 0xA1, CHR 0xE6, CHR 0x89, CHR 0xB9]"

definition share_kb_to_user ::
  "env \<Rightarrow> token \<Rightarrow> string \<Rightarrow> string \<Rightarrow> string \<Rightarrow> 'ref db \<Rightarrow> ('ref db, share_result) outcome" where
  "share_kb_to_user E tok kb_id target_user_login permission s =
     (let user_id = token_user tok in
      if user_id = [] then (s, Inl (PermissionError Unauthorized))
      else if permission \<notin> {''read'', ''write'', ''share''} then (s, Inl (ValueError BadPermission))
      else case get_policy ''kb'' kb_id s of
        None \<Rightarrow> (s, Inl (ValueError KbNotFound))
      | Some policy \<Rightarrow>
          let owner_user_id = opt_or (p_owner_user_id policy) [];
              visibility = str_lower (str_or (p_visibility policy) ''dept'');
              is_owner = (owner_user_id = user_id);
              perm_mask = permission_mask_of permission
          in if visibility = ''private'' \<and> \<not> is_owner
             then (s, Inl (PermissionError OwnerOnlyPrivate))
             else if \<not> is_owner \<and> \<not> has_share (get_kb_permission kb_id user_id s)
             then (s, Inl (PermissionError ShareRightNeeded))
             else case get_user_by_login target_user_login s of
                    None \<Rightarrow> (s, Inl (ValueError (UserNotFound target_user_login)))
                  | Some target \<Rightarrow>
                      if u_user_id target = user_id then (s, Inl (ValueError ShareToSelf))
                      else if \<not> is_owner \<and> visibility \<noteq> ''private'' then
                        and_then (create_kb_share_request E kb_id
                            (normalize_dept_id (p_owner_dept_id policy)) user_id ''user'' None
                            (Some (u_user_id target)) (share_reason target_user_login permission)
                            (Some perm_mask) (parent_share_of kb_id user_id s) s)
                          (\<lambda>req s1. (s1, Inr (SharePending (map_option r_request_id req))))
                      else
                        let parent = (if owner_user_id \<noteq> user_id \<and> 0 < get_kb_permission kb_id user_id s
                                      then parent_share_of kb_id user_id s else None)
                        in (add_kb_share E kb_id (u_user_id target) perm_mask user_id parent []
                              ''approved'' s,
                            Inr (ShareGranted perm_mask (u_user_id target))))"

definition share_kb_to_depts ::
  "env \<Rightarrow> token \<Rightarrow> string \<Rightarrow> string list \<Rightarrow> int \<Rightarrow> 'ref db \<Rightarrow> ('ref db, policy_row option) outcome" where
  "share_kb_to_depts E tok kb_id dept_ids permission_mask s =
     (let user_id = token_user tok in
      if user_id = [] then (s, Inl (PermissionError Unauthorized))
      else case get_policy ''kb'' kb_id s of
        None \<Rightarrow> (s, Inl (ValueError KbNotFound))
      | Some policy \<Rightarrow>
          let owner_user_id = opt_or (p_owner_user_id policy) [] in
          if owner_user_id \<noteq> user_id then (s, Inl (PermissionError OwnerOnlyDeptShare))
          else if permission_mask < PERM_READ then (s, Inl (ValueError BadMask))
          else
            let owner_dept = normalize_dept_id (p_owner_dept_id policy);
                existing_allow = p_allow_dept_ids policy;
                normalized_new = filter (\<lambda>d. d \<noteq> [] \<and> d \<notin> set existing_allow)
                  (map (\<lambda>d. normalize_dept_id (str_strip d)) dept_ids);
                merged = sorted_set (existing_allow @ normalized_new);
                vis0 = str_or (p_visibility policy) ''dept'';
                new_visibility = (if vis0 = ''private'' \<and> owner_dept \<in> set merged then ''dept'' else vis0)
            in and_then (rewrite_policy E kb_id policy owner_dept new_visibility user_id merged s)
                 (\<lambda>_ s1.
                    let s2 = grant_depts E kb_id normalized_new (Some owner_user_id)
                               permission_mask owner_user_id s1
                    in (s2, Inr (get_policy ''kb'' kb_id s2))))"

subsection \<open>Recall\<close>

definition unshare_kb ::
  "env \<Rightarrow> token \<Rightarrow> string \<Rightarrow> 'ref db \<Rightarrow> ('ref db, policy_row option) outcome" where
  "unshare_kb E tok kb_id s =
     (case get_policy ''kb'' kb_id s of
        None \<Rightarrow> (s, Inl (ValueError KbNotFound))
      | Some policy \<Rightarrow>
          let user_id = token_user tok;
              owner_user_id = opt_or (p_owner_user_id policy) [];
              owner_dept = normalize_dept_id (p_owner_dept_id policy);
              is_owner = (owner_user_id = user_id)
          in if \<not> is_dept_admin user_id ''dept_mp'' s \<and> \<not> is_owner \<and>
                \<not> is_dept_admin user_id owner_dept s
             then (s, Inl (PermissionError UnshareForbidden))
             else and_then (upsert_policy E ''kb'' kb_id owner_dept
                      (if is_owner then ''private'' else ''dept'') user_id (Some owner_user_id)
                      (Some []) (Some []) (Some []) (str_or (p_category policy) ''D'') s)
                    (\<lambda>_ s1.
                       let s2 = fold (\<lambda>v st. fst (remove_kb_share E kb_id (sv_target_user_id v) st))
                                  (list_kb_shares kb_id s1) s1
                       in (s2, Inr (get_policy ''kb'' kb_id s2))))"

definition list_all_shares ::
  "token \<Rightarrow> 'ref db \<Rightarrow> ('ref db, dept_share list \<times> user_share list) outcome" where
  "list_all_shares tok s =
     (let user_id = token_user tok in
      if user_id = [] then (s, Inl (PermissionError Unauthorized))
      else (s, Inr (list_dept_shares_for_owner user_id s, list_user_shares_for_owner user_id s)))"

text \<open>
  Ids are positive, so a negative id finds no row; an integer that does not fit 64 bits
  cannot be bound to a statement.
\<close>

definition revoke_share_id :: "env \<Rightarrow> int \<Rightarrow> 'ref db \<Rightarrow> ('ref db, unit) outcome" where
  "revoke_share_id E i s =
     (if i < - (2 ^ 63) \<or> 2 ^ 63 \<le> i then (tick s, Inl OverflowError)
      else let (s1, ok) = (if i < 0 then (tick s, False) else revoke_user_share E (nat i) s)
           in if ok then (s1, Inr ()) else (s1, Inl (ValueError UserShareNotFound)))"

definition revoke_target ::
  "env \<Rightarrow> string \<Rightarrow> string \<Rightarrow> string \<Rightarrow> 'ref db \<Rightarrow> ('ref db, unit) outcome" where
  "revoke_target E kb_id revoke_type target_id s =
     (if revoke_type = ''dept'' then
        (let (s1, ok) = revoke_dept_share E kb_id target_id s
         in if ok then (s1, Inr ()) else (s1, Inl (ValueError DeptShareNotFound)))
      else if revoke_type = ''user'' then
        (case py_int target_id of
           None \<Rightarrow> (s, Inl (ValueError BadShareId))
         | Some i \<Rightarrow> revoke_share_id E i s)
      else (s, Inl (ValueError BadRevokeType)))"

text \<open>With no department and no user left, the knowledge base becomes private again.\<close>

definition revert_if_unshared ::
  "env \<Rightarrow> string \<Rightarrow> policy_row \<Rightarrow> string \<Rightarrow> 'ref db \<Rightarrow> ('ref db, unit) outcome" where
  "revert_if_unshared E kb_id policy user_id s =
     (let remaining_allow = (case get_policy ''kb'' kb_id s of None \<Rightarrow> []
                             | Some p \<Rightarrow> p_allow_dept_ids p)
      in if remaining_allow = [] \<and> list_kb_shares kb_id s = [] then
           upsert_policy E ''kb'' kb_id (normalize_dept_id (p_owner_dept_id policy))
             ''private'' user_id (Some (opt_or (p_owner_user_id policy) [])) (Some []) (Some [])
             (Some []) (str_or (p_category policy) ''D'') s
         else (s, Inr ()))"

definition selective_revoke ::
  "env \<Rightarrow> token \<Rightarrow> string \<Rightarrow> string \<Rightarrow> string \<Rightarrow> 'ref db \<Rightarrow> ('ref db, unit) outcome" where
  "selective_revoke E tok kb_id revoke_type target_id s =
     (let user_id = token_user tok in
      if user_id = [] then (s, Inl (PermissionError Unauthorized))
      else case get_policy ''kb'' kb_id s of
        None \<Rightarrow> (s, Inl (ValueError KbNotFound))
      | Some policy \<Rightarrow>
          let owner_user_id = opt_or (p_owner_user_id policy) [] in
          if owner_user_id \<noteq> user_id then (s, Inl (PermissionError OwnerOnlyRevoke))
          else and_then (revoke_target E kb_id revoke_type target_id s)
                 (\<lambda>_ s1. revert_if_unshared E kb_id policy user_id s1))"

subsection \<open>Shares to departments\<close>

text \<open>The keys of the shares that \<open>grant_depts\<close> writes.\<close>

definition dept_grant_keys ::
  "string \<Rightarrow> string list \<Rightarrow> string option \<Rightarrow> 'ref db \<Rightarrow> (string \<times> string) list" where
  "dept_grant_keys kb_id dept_ids owner s =
     concat (map (\<lambda>d. map (\<lambda>u. (kb_id, u_user_id u))
        (filter (\<lambda>u. Some (u_user_id u) \<noteq> owner) (get_users_in_dept d s))) dept_ids)"

abbreviation put_share ::
  "env \<Rightarrow> int \<Rightarrow> string \<Rightarrow> string \<times> string \<Rightarrow> 'ref db \<Rightarrow> 'ref db" where
  "put_share E m sharer k \<equiv> add_kb_share E (fst k) (snd k) m sharer None [] ''approved''"

lemma get_users_in_dept_frame:
  "users s' = users s \<Longrightarrow> user_departments s' = user_departments s \<Longrightarrow>
   get_users_in_dept d s' = get_users_in_dept d s"
  by (simp add: get_users_in_dept_def)

lemma put_shares_tables [frame, simp]:
  "users (fold (put_share E m sharer) ks s) = users s"
  "user_departments (fold (put_share E m sharer) ks s) = user_departments s"
  "resource_policies (fold (put_share E m sharer) ks s) = resource_policies s"
  "kb_share_requests (fold (put_share E m sharer) ks s) = kb_share_requests s"
  "portal_sessions (fold (put_share E m sharer) ks s) = portal_sessions s"
  "portal_messages (fold (put_share E m sharer) ks s) = portal_messages s"
  by (induction ks arbitrary: s) simp_all

lemma dept_grant_keys_frame:
  "users s' = users s \<Longrightarrow> user_departments s' = user_departments s \<Longrightarrow>
   dept_grant_keys kb ds owner s' = dept_grant_keys kb ds owner s"
  by (simp add: dept_grant_keys_def get_users_in_dept_frame [of s' s])

lemma grant_users_eq:
  "fold (\<lambda>u s2. if Some (u_user_id u) = owner then s2
           else add_kb_share E kb_id (u_user_id u) m sharer None [] ''approved'' s2) us s =
   fold (put_share E m sharer) (map (\<lambda>u. (kb_id, u_user_id u)) (filter (\<lambda>u. Some (u_user_id u) \<noteq> owner) us)) s"
  by (induction us arbitrary: s) auto

lemma grant_depts_eq:
  "grant_depts E kb_id ds owner m sharer s = fold (put_share E m sharer) (dept_grant_keys kb_id ds owner s) s"
proof (induction ds arbitrary: s)
  case (Cons d ds)
  then show ?case
    by (simp add: grant_depts_def grant_users_eq)
      (simp add: dept_grant_keys_def get_users_in_dept_def)
qed (simp add: grant_depts_def dept_grant_keys_def)

lemma grant_depts_tables [frame, simp]:
  "users (grant_depts E kb ds ow m sh s) = users s"
  "user_departments (grant_depts E kb ds ow m sh s) = user_departments s"
  "resource_policies (grant_depts E kb ds ow m sh s) = resource_policies s"
  "kb_share_requests (grant_depts E kb ds ow m sh s) = kb_share_requests s"
  "portal_sessions (grant_depts E kb ds ow m sh s) = portal_sessions s"
  by (simp_all add: grant_depts_eq)

lemma grant_depts_mask:
  "db_ok s \<Longrightarrow> approved_mask j (grant_depts E kb ds owner m sharer s) =
     (if j \<in> set (dept_grant_keys kb ds owner s) then Some m else approved_mask j s)"
  unfolding grant_depts_eq by (rule grants.get_put_all)

lemma get_policy_frame [frame]:
  "resource_policies s' = resource_policies s \<Longrightarrow> get_policy rt rid s' = get_policy rt rid s"
  by (simp add: get_policy_def)

subsection \<open>Invariants of the store are kept\<close>

lemma requestable_mask_of: "requestable (permission_mask_of p)" "requestable PERM_READ"
  by (auto simp: requestable_def permission_mask_of_def PERM_READ_def PERM_WRITE_def
      PERM_SHARE_def PERM_FULL_def)

lemma grantable_READ [simp]: "grantable PERM_READ"
  by (simp add: grantable_def)

lemma grantable_or: "grantable a \<Longrightarrow> grantable (a OR PERM_READ)"
  using or_greater_eq [of PERM_READ a] by (simp add: grantable_def PERM_READ_def)

context store_ops begin

lemma inv_grant_depts:
  assumes "I s" "grantable m"
  shows "I (grant_depts E kb ds owner m sharer s)"
  unfolding grant_depts_eq
  by (rule fold_inv) (use assms in \<open>simp_all add: inv_ops\<close>)

lemma inv_rewrite: "I s \<Longrightarrow> I (fst (rewrite_policy E kb p od vis cb al s))"
  by (simp add: rewrite_policy_def inv_ops)

lemma inv_request_kb_share: "I s \<Longrightarrow> I (fst (request_kb_share E tok kb sc td lo re pe s))"
  by (simp add: request_kb_share_def Let_def inv_ops requestable_mask_of split: option.split)

lemma inv_grant_requested:
  "I s \<Longrightarrow> grantable (r_requested_permission r) \<Longrightarrow> I (fst (grant_requested E u sh r t s))"
  by (simp add: grant_requested_def Let_def inv_ops grantable_or)

lemma inv_apply_approval:
  assumes "I s" "grantable (r_requested_permission r)"
  shows "I (fst (apply_approval E u r s))"
proof (cases "get_policy ''kb'' (r_kb_id r) s")
  case None
  with assms show ?thesis by (simp add: apply_approval_def)
next
  case (Some p)
  with assms show ?thesis
    unfolding apply_approval_def Let_def
    by (auto intro!: and_then_inv [where I = I]
        simp: inv_ops inv_rewrite inv_grant_depts inv_grant_requested)
qed

lemma inv_review_share_request:
  assumes "I s"
  shows "I (fst (review_share_request E tok rid ap c s))"
proof -
  obtain s1 q where rv: "review_kb_share_request E rid (token_user tok) ap c s = (s1, q)" by fastforce
  have "I s1"
    using inv_review [OF assms, of E rid "token_user tok" ap c] rv by simp
  moreover have "grantable (r_requested_permission r)" if "q = Some r" for r
    using rv that read_request_grantable [OF \<open>I s1\<close>, of rid r]
    by (auto simp: review_kb_share_request_def Let_def)
  ultimately show ?thesis
    using assms rv
    by (simp add: review_share_request_def Let_def inv_apply_approval split: option.split)
qed

lemma inv_share_internal: "I s \<Longrightarrow> I (fst (share_kb_internal E tok kb s))"
  by (auto simp: share_kb_internal_def Let_def inv_rewrite split: option.split
      intro!: and_then_inv [where I = I])

lemma inv_share_to_user: "I s \<Longrightarrow> I (fst (share_kb_to_user E tok kb lo pe s))"
  by (auto simp: share_kb_to_user_def Let_def inv_ops requestable_mask_of requestable_grantable
      split: option.split intro!: and_then_inv [where I = I])

lemma inv_share_to_depts: "I s \<Longrightarrow> I (fst (share_kb_to_depts E tok kb ds m s))"
  by (auto simp: share_kb_to_depts_def Let_def inv_rewrite inv_grant_depts grantable_def
      split: option.split intro!: and_then_inv [where I = I])

lemma inv_unshare: "I s \<Longrightarrow> I (fst (unshare_kb E tok kb s))"
  by (auto simp: unshare_kb_def Let_def inv_ops split: option.split
      intro!: and_then_inv [where I = I] fold_inv [where I = I])

lemma inv_revoke_id: "I s \<Longrightarrow> I (fst (revoke_share_id E i s))"
  using inv_revoke [of s E "nat i"]
  by (auto simp: revoke_share_id_def inv_tick split: prod.split)

lemma inv_revoke_target:
  assumes "I s"
  shows "I (fst (revoke_target E kb rt ti s))"
proof -
  obtain s1 ok where rv: "revoke_dept_share E kb ti s = (s1, ok)" by fastforce
  with inv_revoke_dept [OF assms, of E kb ti] have "I s1" by simp
  with assms rv show ?thesis
    by (simp add: revoke_target_def inv_revoke_id split: option.split)
qed

lemma inv_revert: "I s \<Longrightarrow> I (fst (revert_if_unshared E kb p u s))"
  by (simp add: revert_if_unshared_def Let_def inv_ops)

lemma inv_selective_revoke: "I s \<Longrightarrow> I (fst (selective_revoke E tok kb rt ti s))"
  by (auto simp: selective_revoke_def Let_def inv_revoke_target inv_revert split: option.split
        intro!: and_then_inv [where I = I])

lemmas inv_share = inv_request_kb_share inv_review_share_request inv_share_internal
  inv_share_to_user inv_share_to_depts inv_unshare inv_selective_revoke

end

subsection \<open>Who may do what\<close>

lemma opt_or_user: "u \<noteq> [] \<Longrightarrow> opt_or x [] = u \<longleftrightarrow> x = Some u"
  by (cases x) auto

definition owns_policy :: "token \<Rightarrow> string \<Rightarrow> 'ref db \<Rightarrow> bool" where
  "owns_policy tok kb_id s \<longleftrightarrow> token_user tok \<noteq> [] \<and>
     (\<exists>p. get_policy ''kb'' kb_id s = Some p \<and> p_owner_user_id p = Some (token_user tok))"

definition may_review :: "token \<Rightarrow> string \<Rightarrow> 'ref db \<Rightarrow> bool" where
  "may_review tok request_id s \<longleftrightarrow>
     (\<exists>r. get_kb_share_request request_id s = Some r \<and> r_status r = ''pending'' \<and>
        (is_dept_admin (token_user tok) ''dept_mp'' s \<or>
         is_dept_admin (token_user tok) (r_owner_dept_id r) s))"

definition may_unshare :: "token \<Rightarrow> string \<Rightarrow> 'ref db \<Rightarrow> bool" where
  "may_unshare tok kb_id s \<longleftrightarrow>
     (\<exists>p. get_policy ''kb'' kb_id s = Some p \<and>
        (is_dept_admin (token_user tok) ''dept_mp'' s \<or> opt_or (p_owner_user_id p) [] = token_user tok \<or>
         is_dept_admin (token_user tok) (p_owner_dept_id p) s))"

definition may_share_to_user :: "token \<Rightarrow> string \<Rightarrow> 'ref db \<Rightarrow> bool" where
  "may_share_to_user tok kb_id s \<longleftrightarrow> token_user tok \<noteq> [] \<and>
     (\<exists>p. get_policy ''kb'' kb_id s = Some p \<and>
        (p_owner_user_id p = Some (token_user tok) \<or>
         str_lower (str_or (p_visibility p) ''dept'') \<noteq> ''private'' \<and>
         has_share (get_kb_permission kb_id (token_user tok) s)))"

definition may_request_share :: "token \<Rightarrow> string \<Rightarrow> 'ref db \<Rightarrow> bool" where
  "may_request_share tok kb_id s \<longleftrightarrow> token_user tok \<noteq> [] \<and>
     (\<exists>p. get_policy ''kb'' kb_id s = Some p \<and>
        normalize_dept_id (p_owner_dept_id p) \<in> token_depts tok \<and>
        is_dept_admin (token_user tok) (p_owner_dept_id p) s \<and>
        (str_lower (p_visibility p) = ''private'' \<longrightarrow> p_owner_user_id p = Some (token_user tok)))"

lemma is_dept_admin_normalize [simp]:
  "is_dept_admin u (normalize_dept_id d) s = is_dept_admin u d s"
  by (simp add: is_dept_admin_def)

interpretation review: guarded_op "may_review tok rid" "review_share_request E tok rid ap c"
  by unfold_locales
    (auto simp: may_review_def review_share_request_def Let_def split: option.split)

interpretation unshare: guarded_op "may_unshare tok kb" "unshare_kb E tok kb"
  by unfold_locales
    (auto simp: may_unshare_def unshare_kb_def Let_def split: option.split)

interpretation dept_share: guarded_op "owns_policy tok kb" "share_kb_to_depts E tok kb ds m"
  by unfold_locales
    (auto simp: owns_policy_def share_kb_to_depts_def Let_def opt_or_user split: option.split)

interpretation recall: guarded_op "owns_policy tok kb" "selective_revoke E tok kb rt ti"
  by unfold_locales
    (auto simp: owns_policy_def selective_revoke_def Let_def opt_or_user split: option.split)

interpretation user_share: guarded_op "may_share_to_user tok kb" "share_kb_to_user E tok kb lo pe"
  by unfold_locales
    (auto simp: may_share_to_user_def share_kb_to_user_def Let_def opt_or_user split: option.split)

interpretation request: guarded_op "may_request_share tok kb" "request_kb_share E tok kb sc td lo re pe"
  by unfold_locales
    (auto simp: may_request_share_def request_kb_share_def Let_def split: option.split)

subsection \<open>Recall of every share\<close>

lemma approved_share_listed:
  assumes "approved_share kb (u_user_id u) s = Some k" and "u \<in> set (users s)"
  shows "u_user_id u \<in> sv_target_user_id ` set (list_kb_shares kb s)"
proof -
  from assms(1) have "k \<in> set (kb_shares s)" "k_kb_id k = kb" "k_target_user_id k = u_user_id u"
    "k_status k = ''approved''"
    by (auto simp: approved_share_def dest: fetchone_SomeD)
  with assms(2) show ?thesis
    by (auto simp: list_kb_shares_def image_iff intro!: bexI [of _ k] bexI [of _ u])
qed

lemma remove_listed_eq:
  "fold (\<lambda>v st. fst (remove_kb_share E kb (sv_target_user_id v) st)) vs s =
   fold (\<lambda>k st. fst (remove_kb_share E (fst k) (snd k) st)) (map (\<lambda>v. (kb, sv_target_user_id v)) vs) s"
  by (induction vs arbitrary: s) auto

lemma remove_all_tables [frame, simp]:
  "users (fold (\<lambda>v st. fst (remove_kb_share E kb (sv_target_user_id v) st)) vs s) = users s"
  "resource_policies (fold (\<lambda>v st. fst (remove_kb_share E kb (sv_target_user_id v) st)) vs s) = resource_policies s"
  by (induction vs arbitrary: s) simp_all

lemma unshare_mask:
  assumes "db_ok s"
  shows "approved_mask j (fold (\<lambda>v st. fst (remove_kb_share E kb (sv_target_user_id v) st)) vs s) =
     (if j \<in> set (map (\<lambda>v. (kb, sv_target_user_id v)) vs) then None else approved_mask j s)"
  unfolding remove_listed_eq by (rule grants.get_remove_all [OF assms])

text \<open>What a successful \<open>unshare_kb\<close> was.\<close>

lemma unshare_InrE:
  assumes "unshare_kb E tok kb s = (s', Inr r)"
  obtains p s1 where "get_policy ''kb'' kb s = Some p"
    and "upsert_policy E ''kb'' kb (normalize_dept_id (p_owner_dept_id p))
           (if opt_or (p_owner_user_id p) [] = token_user tok then ''private'' else ''dept'')
           (token_user tok) (Some (opt_or (p_owner_user_id p) [])) (Some []) (Some []) (Some [])
           (str_or (p_category p) ''D'') s = (s1, Inr ())"
    and "s' = fold (\<lambda>v st. fst (remove_kb_share E kb (sv_target_user_id v) st)) (list_kb_shares kb s1) s1"
    and "r = get_policy ''kb'' kb s'"
proof -
  obtain p where p: "get_policy ''kb'' kb s = Some p"
    using assms by (auto simp: unshare_kb_def split: option.splits)
  let ?up = "upsert_policy E ''kb'' kb (normalize_dept_id (p_owner_dept_id p))
           (if opt_or (p_owner_user_id p) [] = token_user tok then ''private'' else ''dept'')
           (token_user tok) (Some (opt_or (p_owner_user_id p) [])) (Some []) (Some []) (Some [])
           (str_or (p_category p) ''D'') s"
  obtain s1 q where up: "?up = (s1, q)" by fastforce
  from assms p up show thesis
    by (cases q) (auto simp: unshare_kb_def Let_def split: if_splits intro: that)
qed

lemma unshare_result:
  assumes "db_ok s" and "unshare_kb E tok kb s = (s', Inr r)" and "u \<in> set (users s)"
  shows "get_kb_permission kb (u_user_id u) s' = 0"
    and "\<exists>p. get_policy ''kb'' kb s' = Some p \<and> p_visibility p \<in> {''private'', ''dept''} \<and>
           p_allow_dept_ids p = [] \<and> p_deny_dept_ids p = []"
proof -
  from assms(2) obtain p s1 where p: "get_policy ''kb'' kb s = Some p"
    and up: "upsert_policy E ''kb'' kb (normalize_dept_id (p_owner_dept_id p))
           (if opt_or (p_owner_user_id p) [] = token_user tok then ''private'' else ''dept'')
           (token_user tok) (Some (opt_or (p_owner_user_id p) [])) (Some []) (Some []) (Some [])
           (str_or (p_category p) ''D'') s = (s1, Inr ())"
    and s': "s' = fold (\<lambda>v st. fst (remove_kb_share E kb (sv_target_user_id v) st)) (list_kb_shares kb s1) s1"
    by (rule unshare_InrE)
  note up' = upsert_policyD [OF assms(1) up]
  note s1 = up'(1,2)
  have "approved_mask (kb, u_user_id u) s' = None"
  proof (cases "approved_share kb (u_user_id u) s1")
    case None
    then have "approved_mask (kb, u_user_id u) s1 = None" by (simp add: approved_mask_def)
    with s1 show ?thesis by (simp add: s' unshare_mask)
  next
    case (Some k)
    with approved_share_listed [of kb u s1 k] assms(3) s1
    have "(kb, u_user_id u) \<in> set (map (\<lambda>v. (kb, sv_target_user_id v)) (list_kb_shares kb s1))" by auto
    with s1 show ?thesis by (simp add: s' unshare_mask)
  qed
  then show "get_kb_permission kb (u_user_id u) s' = 0" by (simp add: get_kb_permission_mask)
  from up'(7) have "\<exists>q. get_policy ''kb'' kb s1 = Some q \<and> p_visibility q \<in> {''private'', ''dept''} \<and>
           p_allow_dept_ids q = [] \<and> p_deny_dept_ids q = []"
    by (auto simp: policy_has_def list_or_empty_def)
  moreover have "get_policy ''kb'' kb s' = get_policy ''kb'' kb s1"
    by (simp add: s' get_policy_def)
  ultimately show "\<exists>p. get_policy ''kb'' kb s' = Some p \<and> p_visibility p \<in> {''private'', ''dept''} \<and>
           p_allow_dept_ids p = [] \<and> p_deny_dept_ids p = []" by simp
qed

subsection \<open>Approval\<close>

definition sharer_cap :: "string \<Rightarrow> string \<Rightarrow> 'ref db \<Rightarrow> int" where
  "sharer_cap kb u s = (let c = has_kb_access kb u s in if c \<le> 0 then PERM_READ else c)"

lemma has_kb_access_frame [frame]:
  "resource_policies s' = resource_policies s \<Longrightarrow> kb_shares s' = kb_shares s \<Longrightarrow>
   has_kb_access kb u s' = has_kb_access kb u s"
  by (simp add: has_kb_access_def get_kb_permission_def approved_share_def split: option.split)

lemma grant_requestedD:
  assumes "grant_requested E u sh r t s = (s1, Inr ())"
  shows "\<exists>m. approved_mask (r_kb_id r, t) s1 = Some m \<and> has_read m \<and>
     mask_le m (sharer_cap (r_kb_id r) (r_requester_user_id r) s) \<and>
     mask_le (r_requested_permission r) m"
proof -
  let ?p = "r_requested_permission r"
  let ?m = "if ?p AND PERM_READ = 0 then ?p OR PERM_READ else ?p"
  have s1: "s1 = add_kb_share E (r_kb_id r) t ?m sh (r_parent_share_id r) u ''approved'' s"
    and le: "mask_le ?m (sharer_cap (r_kb_id r) (r_requester_user_id r) s)"
    using assms by (auto simp: grant_requested_def sharer_cap_def Let_def mask_le_def split: if_splits)
  have "approved_mask (r_kb_id r, t) s1 = Some ?m"
    using approved_mask_add [of "(r_kb_id r, t)" E "(r_kb_id r, t)" ?m sh "r_parent_share_id r" u s]
    by (simp add: s1)
  moreover have "has_read ?m" "mask_le ?p ?m" by (auto simp flip: has_read_def)
  ultimately show ?thesis using le by blast
qed

lemma rewrite_policy_tables [frame, simp]:
  "kb_shares (fst (rewrite_policy E kb p od vis cb al s)) = kb_shares s"
  "users (fst (rewrite_policy E kb p od vis cb al s)) = users s"
  "user_departments (fst (rewrite_policy E kb p od vis cb al s)) = user_departments s"
  "kb_share_requests (fst (rewrite_policy E kb p od vis cb al s)) = kb_share_requests s"
  by (simp_all add: rewrite_policy_def)

text \<open>The steps of a review that approves.\<close>

lemma review_approvedE:
  assumes "review_share_request E tok rid True c s = (s', Inr r)"
  obtains q s1 where "get_kb_share_request rid s = Some q" and "r_status q = ''pending''"
    and "review_kb_share_request E rid (token_user tok) True c s = (s1, Some r)"
    and "apply_approval E (token_user tok) r s1 = (s', Inr r)"
proof -
  obtain q where q: "get_kb_share_request rid s = Some q" "r_status q = ''pending''"
    using assms by (auto simp: review_share_request_def Let_def split: option.splits if_splits)
  obtain s1 x where rv: "review_kb_share_request E rid (token_user tok) True c s = (s1, x)" by fastforce
  with assms q obtain r1 where r1: "x = Some r1" "apply_approval E (token_user tok) r1 s1 = (s', Inr r)"
    by (auto simp: review_share_request_def Let_def split: option.splits if_splits)
  have "r = r1"
    using r1(2) by (auto simp: apply_approval_def Let_def split: option.splits if_splits elim!: and_then_InrE)
  with q rv r1 show thesis by (intro that) auto
qed

lemma review_within_rights:
  assumes "db_ok s" and "review_share_request E tok rid True c s = (s', Inr r)"
    and "str_lower (r_target_scope r) = ''user''" and "r_target_user_id r = Some t" and "t \<noteq> []"
  shows "\<exists>m. approved_mask (r_kb_id r, t) s' = Some m \<and> has_read m \<and>
     mask_le m (sharer_cap (r_kb_id r) (r_requester_user_id r) s)"
proof -
  from assms(2) obtain q s1 where rv: "review_kb_share_request E rid (token_user tok) True c s = (s1, Some r)"
    and ap: "apply_approval E (token_user tok) r s1 = (s', Inr r)"
    by (rule review_approvedE)
  obtain p where p: "get_policy ''kb'' (r_kb_id r) s1 = Some p"
    using ap by (auto simp: apply_approval_def split: option.splits)
  let ?sh = "opt_or (p_owner_user_id p) (token_user tok)"
  from ap p assms(3-5) have "\<exists>s2 vis. grant_requested E (token_user tok) ?sh r t s1 = (s2, Inr ()) \<and>
      s' = fst (rewrite_policy E (r_kb_id r) p (normalize_dept_id (str_or (p_owner_dept_id p) (r_owner_dept_id r)))
       vis (token_user tok) (map normalize_dept_id (p_allow_dept_ids p)) s2)"
    by (auto simp: apply_approval_def Let_def elim!: and_then_InrE) (metis fst_conv)
  then obtain s2 vis where g: "grant_requested E (token_user tok) ?sh r t s1 = (s2, Inr ())"
    and s': "s' = fst (rewrite_policy E (r_kb_id r) p (normalize_dept_id (str_or (p_owner_dept_id p) (r_owner_dept_id r)))
       vis (token_user tok) (map normalize_dept_id (p_allow_dept_ids p)) s2)" by blast
  have "sharer_cap (r_kb_id r) (r_requester_user_id r) s1 = sharer_cap (r_kb_id r) (r_requester_user_id r) s"
    using rv review_request_tables(4,8) [of E rid "token_user tok" True c s]
    by (simp add: sharer_cap_def has_kb_access_frame [of s1 s])
  with grant_requestedD [OF g] obtain m where "approved_mask (r_kb_id r, t) s2 = Some m" "has_read m"
    "mask_le m (sharer_cap (r_kb_id r) (r_requester_user_id r) s)" by auto
  moreover have "approved_mask j s' = approved_mask j s2" for j
    by (rule approved_mask_frame) (simp add: s')
  ultimately show ?thesis by auto
qed

text \<open>
  The request is marked before the check: when the check fails, the request is decided
  as \<open>approved\<close> although nothing was granted.
\<close>

lemma grant_requested_refused:
  assumes "\<not> mask_le (r_requested_permission r) (sharer_cap (r_kb_id r) (r_requester_user_id r) s)"
  shows "grant_requested E u sh r t s = (s, Inl (PermissionError BeyondSharerRights))"
proof -
  let ?p = "r_requested_permission r"
  let ?m = "if ?p AND PERM_READ = 0 then ?p OR PERM_READ else ?p"
  have "mask_le ?p ?m" by simp
  with assms have "\<not> mask_le ?m (sharer_cap (r_kb_id r) (r_requester_user_id r) s)"
    using mask_le_trans by blast
  then show ?thesis
    by (auto simp: grant_requested_def Let_def sharer_cap_def mask_le_def)
qed

lemma review_commits_before_check:
  assumes "get_kb_share_request rid s = Some q" "r_status q = ''pending''"
    and "is_dept_admin (token_user tok) ''dept_mp'' s"
    and "get_policy ''kb'' (r_kb_id q) s = Some p"
    and "str_lower (r_target_scope q) = ''user''" "r_target_user_id q = Some t" "t \<noteq> []"
    and "\<not> mask_le (r_requested_permission q) (sharer_cap (r_kb_id q) (r_requester_user_id q) s)"
  shows "\<exists>s' q'. review_share_request E tok rid True c s = (s', Inl (PermissionError BeyondSharerRights)) \<and>
     kb_shares s' = kb_shares s \<and> get_kb_share_request rid s' = Some q' \<and> r_status q' = ''approved''"
proof -
  obtain x where x: "fetchone (\<lambda>r. r_request_id r = rid) (kb_share_requests s) = Some x" "q = request_view x"
    using assms(1) by (auto simp: get_kb_share_request_def)
  obtain s1 where s1: "s1 = fst (review_kb_share_request E rid (token_user tok) True c s)" by blast
  let ?x1 = "x\<lparr>r_status := ''approved'', r_reviewer_user_id := Some (token_user tok),
        r_review_comment := Some c, r_updated_at := now E s\<rparr>"
  have xp: "r_status x = ''pending''" "r_request_id x = rid"
    using x assms(2) by (auto simp: request_view_def dest: fetchone_SomeD)
  have "fetchone (\<lambda>r. r_request_id r = rid) (kb_share_requests s1) = Some ?x1"
    unfolding s1 review_requests_eq using x(1) xp by (subst fetchone_update_where) auto
  then have q1: "get_kb_share_request rid s1 = Some (request_view ?x1)"
    by (simp add: get_kb_share_request_def)
  then have rv: "review_kb_share_request E rid (token_user tok) True c s = (s1, Some (request_view ?x1))"
    unfolding s1 by (simp add: review_kb_share_request_def Let_def)
  have same: "r_kb_id (request_view ?x1) = r_kb_id q" "r_target_scope (request_view ?x1) = r_target_scope q"
    "r_target_user_id (request_view ?x1) = r_target_user_id q"
    "r_requested_permission (request_view ?x1) = r_requested_permission q"
    "r_requester_user_id (request_view ?x1) = r_requester_user_id q"
    by (simp_all add: x(2) request_view_def)
  have pol: "get_policy ''kb'' (r_kb_id q) s1 = Some p"
    using assms(4) by (simp add: s1 get_policy_def)
  have "sharer_cap (r_kb_id q) (r_requester_user_id q) s1 = sharer_cap (r_kb_id q) (r_requester_user_id q) s"
    using has_kb_access_frame [of s1 s] by (simp add: sharer_cap_def s1)
  then have "grant_requested E (token_user tok) sh (request_view ?x1) t s1 =
      (s1, Inl (PermissionError BeyondSharerRights))" for sh
    by (intro grant_requested_refused) (simp add: same assms(8))
  then have "apply_approval E (token_user tok) (request_view ?x1) s1 =
      (s1, Inl (PermissionError BeyondSharerRights))"
    using pol assms(5-7) by (simp add: apply_approval_def Let_def same)
  with rv assms(1-3) have "review_share_request E tok rid True c s =
      (s1, Inl (PermissionError BeyondSharerRights))"
    by (simp add: review_share_request_def Let_def)
  moreover have "kb_shares s1 = kb_shares s" by (simp add: s1)
  ultimately show ?thesis using q1 by (auto simp: request_view_def)
qed

end
