(* ===== verification/PortalDsl.thy ===== *)
theory PortalDsl
  imports PortalJson
begin

text \<open>
  The helpers of \<open>portal_server.py\<close> that walk the DSL of an agent or the answer of one:
  the knowledge bases a DSL names, the DSL with other knowledge bases put in, and the
  object of an answer that holds the retrieved chunks.
\<close>

definition is_obj :: "json \<Rightarrow> bool" where
  "is_obj j = (case j of JObj _ \<Rightarrow> True | _ \<Rightarrow> False)"

text \<open>Python truth of a value, and \<open>str(x)\<close>; how a nested value prints is a parameter.\<close>

definition truthy :: "json \<Rightarrow> bool" where
  "truthy j = (case j of JNull \<Rightarrow> False | JBool b \<Rightarrow> b | JInt i \<Rightarrow> i \<noteq> 0 | JStr s \<Rightarrow> s \<noteq> []
               | JArr xs \<Rightarrow> xs \<noteq> [] | JObj kvs \<Rightarrow> kvs \<noteq> [])"

definition py_str :: "(json \<Rightarrow> string) \<Rightarrow> json \<Rightarrow> string" where
  "py_str rep j = (case j of JNull \<Rightarrow> ''None'' | JBool b \<Rightarrow> (if b then ''True'' else ''False'')
     | JInt i \<Rightarrow> print_int i | JStr s \<Rightarrow> s | _ \<Rightarrow> rep j)"

subsection \<open>Knowledge bases named by a DSL\<close>

definition id_list :: "(json \<Rightarrow> string) \<Rightarrow> json option \<Rightarrow> string list" where
  "id_list rep v = (case v of Some (JArr xs) \<Rightarrow> map (py_str rep) (filter truthy xs) | _ \<Rightarrow> [])"

fun extract_kb_ids :: "(json \<Rightarrow> string) \<Rightarrow> nat \<Rightarrow> json \<Rightarrow> string list" where
  "extract_kb_ids rep 0 dsl = []"
| "extract_kb_ids rep (Suc n) (JObj kvs) =
     dedup (concat (map (\<lambda>key. id_list rep (obj_get kvs key)) [''kb_ids'', ''dataset_ids'']) @
            concat (map (\<lambda>v. case v of
                JObj _ \<Rightarrow> extract_kb_ids rep n v
              | JArr xs \<Rightarrow> concat (map (extract_kb_ids rep n) (filter is_obj xs))
              | _ \<Rightarrow> []) (map snd kvs)))"
| "extract_kb_ids rep (Suc n) dsl = []"

text \<open>\<open>d[key] = value\<close>: in place where the key exists, at the end otherwise.\<close>

fun obj_set :: "(string \<times> json) list \<Rightarrow> string \<Rightarrow> json \<Rightarrow> (string \<times> json) list" where
  "obj_set [] key v = [(key, v)]"
| "obj_set ((k, w) # kvs) key v = (if k = key then (k, v) # kvs else (k, w) # obj_set kvs key v)"

subsection \<open>Other knowledge bases put in\<close>

text \<open>
  \<open>_patch_dsl_kb_ids\<close> assigns into the nested dictionaries of a deep copy.  A default
  (\<open>get("params", {})\<close>) is a fresh dictionary: what is assigned into it is lost.  \<^term>\<open>None\<close>
  is an exception (\<open>get\<close> or item assignment on a value that is no dictionary).
\<close>

definition set_ids :: "string list \<Rightarrow> (string \<times> json) list \<Rightarrow> (string \<times> json) list" where
  "set_ids ids kvs =
     obj_set (obj_set kvs ''kb_ids'' (JArr (map JStr ids))) ''dataset_ids'' (JArr (map JStr ids))"

definition is_retrieval :: "(string \<times> json) list \<Rightarrow> bool" where
  "is_retrieval kvs \<longleftrightarrow> obj_get kvs ''component_name'' = Some (JStr ''Retrieval'')"

definition patch_tool :: "string list \<Rightarrow> json \<Rightarrow> json option" where
  "patch_tool ids tool =
     (case tool of
        JObj kvs \<Rightarrow>
          if \<not> is_retrieval kvs then Some tool
          else (case obj_get kvs ''params'' of
                  None \<Rightarrow> Some tool
                | Some (JObj ps) \<Rightarrow> Some (JObj (obj_set kvs ''params'' (JObj (set_ids ids ps))))
                | Some _ \<Rightarrow> None)
      | _ \<Rightarrow> Some tool)"

fun map_fail :: "('a \<Rightarrow> 'b option) \<Rightarrow> 'a list \<Rightarrow> 'b list option" where
  "map_fail f [] = Some []"
| "map_fail f (x # xs) =
     (case f x of None \<Rightarrow> None | Some y \<Rightarrow> map_option ((#) y) (map_fail f xs))"

definition patch_params :: "string list \<Rightarrow> bool \<Rightarrow> (string \<times> json) list \<Rightarrow> (string \<times> json) list option" where
  "patch_params ids retrieval params =
     (let params1 = (if retrieval then set_ids ids params else params)
      in case obj_get params1 ''tools'' of
           Some (JArr tools) \<Rightarrow>
             map_option (\<lambda>ts. obj_set params1 ''tools'' (JArr ts)) (map_fail (patch_tool ids) tools)
         | _ \<Rightarrow> Some params1)"

definition patch_component :: "string list \<Rightarrow> json \<Rightarrow> json option" where
  "patch_component ids component =
     (case component of
        JObj kvs \<Rightarrow>
          (case obj_get kvs ''obj'' of
             None \<Rightarrow> Some component
           | Some (JObj obj) \<Rightarrow>
               (case obj_get obj ''params'' of
                  None \<Rightarrow> Some component
                | Some (JObj params) \<Rightarrow>
                    map_option (\<lambda>ps. JObj (obj_set kvs ''obj'' (JObj (obj_set obj ''params'' (JObj ps)))))
                      (patch_params ids (is_retrieval obj) params)
                | Some _ \<Rightarrow> None)
           | Some _ \<Rightarrow> None)
      | _ \<Rightarrow> None)"

definition patch_dsl :: "(string \<times> json) list \<Rightarrow> string list \<Rightarrow> (string \<times> json) list option" where
  "patch_dsl dsl ids =
     (case obj_get dsl ''components'' of
        None \<Rightarrow> Some dsl
      | Some (JObj comps) \<Rightarrow>
          map_option (\<lambda>cs. obj_set dsl ''components'' (JObj cs))
            (map_fail (\<lambda>(k, c). map_option (Pair k) (patch_component ids c)) comps)
      | Some _ \<Rightarrow> None)"

subsection \<open>References of an answer\<close>

fun first_some :: "('a \<Rightarrow> 'b option) \<Rightarrow> 'a list \<Rightarrow> 'b option" where
  "first_some f [] = None"
| "first_some f (x # xs) = (case f x of Some y \<Rightarrow> Some y | None \<Rightarrow> first_some f xs)"

lemma first_some_cong [fundef_cong]:
  "xs = ys \<Longrightarrow> (\<And>x. x \<in> set ys \<Longrightarrow> f x = g x) \<Longrightarrow> first_some f xs = first_some g ys"
proof (induction ys arbitrary: xs)
  case (Cons y ys)
  then show ?case by (auto split: option.split)
qed simp

fun find_reference :: "nat \<Rightarrow> json \<Rightarrow> json option" where
  "find_reference 0 obj = None"
| "find_reference (Suc n) (JObj kvs) =
     (case obj_get kvs ''chunks'' of
        Some chunks \<Rightarrow> if chunks = JObj [] \<or> chunks = JArr [] then None else Some (JObj kvs)
      | None \<Rightarrow>
          if obj_get kvs ''content'' \<noteq> None \<and>
             (obj_get kvs ''document_name'' \<noteq> None \<or> obj_get kvs ''docnm_kwd'' \<noteq> None)
          then Some (JObj [(''chunks'', JObj kvs)])
          else first_some (\<lambda>v. case v of
                 JObj _ \<Rightarrow> find_reference n v
               | JArr xs \<Rightarrow> first_some (find_reference n) (filter is_obj xs)
               | _ \<Rightarrow> None) (map snd kvs))"
| "find_reference (Suc n) obj = None"

text \<open>\<open>_extract_chunks\<close>: a true value that is no dictionary has no \<open>get\<close>.\<close>

definition extract_chunks :: "json \<Rightarrow> json list option" where
  "extract_chunks reference =
     (if \<not> truthy reference then Some []
      else case reference of
        JObj kvs \<Rightarrow>
          (case (case obj_get kvs ''chunks'' of None \<Rightarrow> reference | Some c \<Rightarrow> c) of
             JObj cs \<Rightarrow> Some (map snd cs) | JArr xs \<Rightarrow> Some xs | _ \<Rightarrow> Some [])
      | _ \<Rightarrow> None)"

end
