(* ===== verification/GatewayTypes.thy ===== *)
theory GatewayTypes
  imports Complex_Main GatewayShare PortalDsl
begin

text \<open>
  State and surroundings of \<open>PortalGateway\<close>: the database, the in-memory session
  registry, and the record of the calls made to RAGFlow and to the chat service.

  RAGFlow is another service: its answers are the functions of the record \<open>rag\<close>, which
  take the number of calls made so far (the service may answer differently each time) and
  return \<^term>\<open>None\<close> where the client raises.  Which calls the portal makes, with which
  API key and arguments, is what the model keeps, in \<open>outbox\<close>.
\<close>

record agent =
  ag_id :: string
  ag_title :: string
  ag_description :: string
  ag_dsl :: json

record dataset =
  da_id :: string
  da_name :: string
  da_description :: string

record document =
  do_name :: string
  do_run :: string
  do_progress :: rat
  do_progress_msg :: string

record chunk =
  ch_content :: string
  ch_document_name :: string
  ch_similarity :: "rat option"
  ch_chunk_id :: string

text \<open>What a message keeps as its references: retrieved chunks, or what the agent returned.\<close>

datatype reference = RefChunk chunk | RefRaw json

record chat_message =
  cm_role :: string
  cm_content :: string

record agent_answer =
  an_content :: string
  an_reference :: json

text \<open>A runtime session object of the client: its owner's key, its agent, its id.\<close>

record rag_session =
  rs_token :: string
  rs_agent_id :: string
  rs_id :: string

datatype rag_call =
    ListAgents string nat nat "string option"          \<comment> \<open>key, page, page size, id filter\<close>
  | ListSessions string string nat string              \<comment> \<open>key, agent, page size, session id\<close>
  | CreateSession string string string                 \<comment> \<open>key, agent, name\<close>
  | ListDatasets string "string option"
  | CreateDataset string string string                 \<comment> \<open>key, name, description\<close>
  | UploadDocuments string string "(string \<times> string) list"
  | ParseDocuments string string "string list"
  | ListDocuments string string string
  | DeleteDatasets string "string list"
  | Retrieve string "string list" string nat
  | AskAgent rag_session string "string option"        \<comment> \<open>question, injected context\<close>
  | HttpPost string "chat_message list"                \<comment> \<open>chat completion: URL, messages\<close>
  | RegisterAccount string string string               \<comment> \<open>nickname, e-mail, encrypted password\<close>
  | LoginAccount string string
  | NewApiKey string
  | DeleteAccount string

text \<open>
  \<open>on_register\<close> answers (code, id, message), \<open>on_login\<close> (code, id, JWT or empty),
  \<open>on_new_key\<close> (code, token), \<open>on_post\<close> (status, content); \<open>error_text n\<close> is the text of the
  exception that the calls up to the \<open>n\<close>th end in.
\<close>

record rag =
  on_list_agents :: "nat \<Rightarrow> string \<Rightarrow> nat \<Rightarrow> nat \<Rightarrow> string option \<Rightarrow> agent list option"
  on_list_sessions :: "nat \<Rightarrow> string \<Rightarrow> string \<Rightarrow> nat \<Rightarrow> string \<Rightarrow> string list option"
  on_create_session :: "nat \<Rightarrow> string \<Rightarrow> string \<Rightarrow> string \<Rightarrow> string option"
  on_list_datasets :: "nat \<Rightarrow> string \<Rightarrow> string option \<Rightarrow> dataset list option"
  on_create_dataset :: "nat \<Rightarrow> string \<Rightarrow> string \<Rightarrow> string \<Rightarrow> dataset option"
  on_upload :: "nat \<Rightarrow> string \<Rightarrow> string \<Rightarrow> (string \<times> string) list \<Rightarrow> string list option"
  on_parse :: "nat \<Rightarrow> string \<Rightarrow> string \<Rightarrow> string list \<Rightarrow> unit option"
  on_list_documents :: "nat \<Rightarrow> string \<Rightarrow> string \<Rightarrow> string \<Rightarrow> document list option"
  on_delete :: "nat \<Rightarrow> string \<Rightarrow> string list \<Rightarrow> unit option"
  on_retrieve :: "nat \<Rightarrow> string \<Rightarrow> string list \<Rightarrow> string \<Rightarrow> nat \<Rightarrow> chunk list option"
  on_ask :: "nat \<Rightarrow> rag_session \<Rightarrow> string \<Rightarrow> string option \<Rightarrow> agent_answer list option"
  on_post :: "nat \<Rightarrow> string \<Rightarrow> chat_message list \<Rightarrow> (nat \<times> string) option"
  on_register :: "nat \<Rightarrow> string \<Rightarrow> string \<Rightarrow> string \<Rightarrow> (int \<times> string \<times> string) option"
  on_login :: "nat \<Rightarrow> string \<Rightarrow> string \<Rightarrow> (int \<times> string \<times> string) option"
  on_new_key :: "nat \<Rightarrow> string \<Rightarrow> (int \<times> string) option"
  on_delete_account :: "nat \<Rightarrow> string \<Rightarrow> unit option"
  error_text :: "nat \<Rightarrow> string"

text \<open>
  \<open>PortalConfig\<close>, extended by what the handlers read from elsewhere: the environment variable
  \<open>azure_version\<close>, the prompt file \<open>system_prompt\<close> (empty when it is missing), the password
  encryption \<open>encrypt_password\<close> (\<^term>\<open>None\<close>: the library is not installed), and how Python prints
  a nested value (\<open>debug_repr\<close>).
\<close>

record portal_config =
  api_key :: string
  base_url :: string
  db_path :: string
  auth_secret :: string
  direct_chat_url :: string
  direct_chat_api_key :: string
  direct_chat_model :: string
  token_ttl_seconds :: int

record config = portal_config +
  azure_version :: string
  system_prompt :: string
  encrypt_password :: "string \<Rightarrow> string option"
  debug_repr :: "json \<Rightarrow> string"

text \<open>
  An entry of \<open>_session_registry\<close>.  \<open>e_is_private\<close> and \<open>e_created_at\<close> are \<^term>\<open>None\<close> where
  the dictionary has no such key.
\<close>

record session_entry =
  e_session :: "rag_session option"
  e_user_id :: "string option"
  e_dept_id :: string
  e_agent_id :: string
  e_kb_ids :: "string list"
  e_agent_owner_id :: "string option"
  e_kb_overridden :: bool
  e_is_private :: "bool option"
  e_created_at :: "int option"

record gw =
  store :: "reference db"
  registry :: "string \<rightharpoonup> session_entry"
  outbox :: "rag_call list"

type_synonym 'a gw_op = "gw \<Rightarrow> (gw, 'a) outcome"

definition log_call :: "rag_call \<Rightarrow> gw \<Rightarrow> gw" where
  "log_call c g = g\<lparr>outbox := outbox g @ [c]\<rparr>"

definition calls_made :: "gw \<Rightarrow> nat" where
  "calls_made g = length (outbox g)"

text \<open>One call: it is recorded, and its answer is a result or an exception of the client.\<close>

definition rag_request :: "rag_call \<Rightarrow> (nat \<Rightarrow> 'a option) \<Rightarrow> gw \<Rightarrow> (gw, 'a) outcome" where
  "rag_request c answer g =
     (log_call c g, case answer (calls_made g) of None \<Rightarrow> Inl RagError | Some x \<Rightarrow> Inr x)"

definition list_agents :: "rag \<Rightarrow> string \<Rightarrow> nat \<Rightarrow> nat \<Rightarrow> string option \<Rightarrow> agent list gw_op" where
  "list_agents R key page page_size i =
     rag_request (ListAgents key page page_size i) (\<lambda>n. on_list_agents R n key page page_size i)"

definition list_datasets :: "rag \<Rightarrow> string \<Rightarrow> string option \<Rightarrow> dataset list gw_op" where
  "list_datasets R key i = rag_request (ListDatasets key i) (\<lambda>n. on_list_datasets R n key i)"

definition delete_datasets :: "rag \<Rightarrow> string \<Rightarrow> string list \<Rightarrow> unit gw_op" where
  "delete_datasets R key ids = rag_request (DeleteDatasets key ids) (\<lambda>n. on_delete R n key ids)"

text \<open>Operations of the store, run inside the gateway.\<close>

definition on_store :: "(reference db \<Rightarrow> (reference db, 'a) outcome) \<Rightarrow> 'a gw_op" where
  "on_store f g = (let (s, r) = f (store g) in (g\<lparr>store := s\<rparr>, r))"

definition upd_store :: "(reference db \<Rightarrow> reference db) \<Rightarrow> gw \<Rightarrow> gw" where
  "upd_store f g = g\<lparr>store := f (store g)\<rparr>"

lemma gw_frame [frame, simp]:
  "store (log_call c g) = store g" "registry (log_call c g) = registry g"
  "outbox (log_call c g) = outbox g @ [c]"
  "store (upd_store f g) = f (store g)" "registry (upd_store f g) = registry g"
  "outbox (upd_store f g) = outbox g"
  "registry (fst (on_store h g)) = registry g" "outbox (fst (on_store h g)) = outbox g"
  "store (fst (on_store h g)) = fst (h (store g))" "snd (on_store h g) = snd (h (store g))"
  "store (fst (rag_request c a g)) = store g" "registry (fst (rag_request c a g)) = registry g"
  "outbox (fst (rag_request c a g)) = outbox g @ [c]"
  by (simp_all add: log_call_def upd_store_def on_store_def rag_request_def split: prod.split)

text \<open>\<open>get_rag_client\<close>: the key of the user's own account, or the shared one.\<close>

definition get_rag_client :: "config \<Rightarrow> string \<Rightarrow> gw \<Rightarrow> string" where
  "get_rag_client C user_id g =
     (if user_id = [] then api_key C
      else str_or (get_user_ragflow_token user_id (store g)) (api_key C))"

end
