(* ===== verification/GatewaySession.thy ===== *)
theory GatewaySession
  imports GatewayTypes
begin

text \<open>
  Login and chat sessions of \<open>PortalGateway\<close>: opening one (direct or with an agent),
  listing, closing, privacy; the entries of \<open>_session_registry\<close> they keep.
\<close>

subsection \<open>Login\<close>

record login_result =
  lr_access_token :: string
  lr_expires_in :: int
  lr_user_id :: string
  lr_login_id :: string
  lr_display_name :: string
  lr_dept :: string
  lr_departments :: "dept_view list"
  lr_default_dept_id :: string

definition login :: "env \<Rightarrow> config \<Rightarrow> string \<Rightarrow> string \<Rightarrow> gw \<Rightarrow> gw \<times> login_result option" where
  "login E C login_id password g =
     (case authenticate_user E login_id password (store g) of
        None \<Rightarrow> (g, None)
      | Some user \<Rightarrow>
          let depts = map (\<lambda>d. d\<lparr>dv_dept_id := normalize_dept_id (dv_dept_id d)\<rparr>)
                        (get_user_departments (pu_user_id user) (store g))
          in if depts = [] then (g, None)
             else
               let default_dept = (case find dv_is_default depts of Some d \<Rightarrow> d | None \<Rightarrow> hd depts);
                   now = epoch_now E (ticks (store g));
                   payload = \<lparr>t_sub = Some (pu_user_id user), t_login_id = Some (pu_login_id user),
                              t_display_name = Some (pu_display_name user),
                              t_dept_ids = map dv_dept_id depts,
                              t_default_dept_id = Some (dv_dept_id default_dept), t_iat = Some now,
                              t_exp = Some (now + token_ttl_seconds C)\<rparr>
               in (upd_store tick g,
                   Some \<lparr>lr_access_token = create_token E (auth_secret C) payload,
                         lr_expires_in = token_ttl_seconds C, lr_user_id = pu_user_id user,
                         lr_login_id = pu_login_id user, lr_display_name = pu_display_name user,
                         lr_dept = dept_code (dv_dept_id default_dept), lr_departments = depts,
                         lr_default_dept_id = dv_dept_id default_dept\<rparr>))"

subsection \<open>Opening a session\<close>

text \<open>The knowledge bases of a list that the user may read.\<close>

definition readable_kbs ::
  "string set \<Rightarrow> string \<Rightarrow> string \<Rightarrow> string list \<Rightarrow> 'ref db \<Rightarrow> string list" where
  "readable_kbs depts dept_id user_id kb_ids s =
     filter (\<lambda>kb. has_read (effective_kb_permission depts dept_id kb user_id
        (map_option policy_view.truncate (get_policy ''kb'' kb s)) s)) kb_ids"

text \<open>The store refuses a session without user: \<open>user_id\<close> is \<open>NOT NULL\<close>.\<close>

definition open_session ::
  "env \<Rightarrow> string \<Rightarrow> string option \<Rightarrow> string \<Rightarrow> string \<Rightarrow> string list \<Rightarrow> bool \<Rightarrow> bool \<Rightarrow> unit gw_op" where
  "open_session E session_id user_id dept_id agent_id kb_ids is_private kb_overridden g =
     (case user_id of
        None \<Rightarrow> (upd_store tick g, Inl IntegrityError)
      | Some u \<Rightarrow> (upd_store (create_portal_session E session_id u dept_id agent_id (Some kb_ids)
                               is_private kb_overridden) g, Inr ()))"

definition register_entry :: "string \<Rightarrow> session_entry \<Rightarrow> gw \<Rightarrow> gw" where
  "register_entry session_id e g = g\<lparr>registry := (registry g)(session_id \<mapsto> e)\<rparr>"

record opened =
  op_session_id :: string
  op_agent_id :: string
  op_dept_id :: string
  op_kb_ids :: "string list"
  op_is_private :: bool

definition create_direct_session ::
  "env \<Rightarrow> token \<Rightarrow> string \<Rightarrow> string list \<Rightarrow> bool \<Rightarrow> opened gw_op" where
  "create_direct_session E tok dept_id kb_ids is_private g =
     (let session_id = new_id E ''direct-'' (store g);
          valid = readable_kbs (token_depts tok) dept_id (token_user tok) kb_ids (store g);
          g1 = register_entry session_id
            \<lparr>e_session = None, e_user_id = t_sub tok, e_dept_id = dept_id, e_agent_id = ''direct'',
             e_kb_ids = valid, e_agent_owner_id = Some [], e_kb_overridden = False,
             e_is_private = Some is_private, e_created_at = Some (epoch_now E (ticks (store g)))\<rparr> g
      in and_then (open_session E session_id (t_sub tok) dept_id ''direct'' valid is_private False g1)
           (\<lambda>_ g2. (g2, Inr \<lparr>op_session_id = session_id, op_agent_id = ''direct'', op_dept_id = dept_id,
                             op_kb_ids = valid, op_is_private = is_private\<rparr>)))"

text \<open>The knowledge bases of the agent's own DSL; an exception leaves none.\<close>

definition dsl_kb_ids :: "config \<Rightarrow> rag \<Rightarrow> string \<Rightarrow> string \<Rightarrow> gw \<Rightarrow> gw \<times> string list" where
  "dsl_kb_ids C R key agent_id g =
     (case list_agents R key 1 1 (Some agent_id) g of
        (g1, Inl _) \<Rightarrow> (g1, [])
      | (g1, Inr []) \<Rightarrow> (g1, [])
      | (g1, Inr (a # _)) \<Rightarrow> (g1, extract_kb_ids (debug_repr C) 10 (ag_dsl a)))"

definition create_agent_session ::
  "env \<Rightarrow> config \<Rightarrow> rag \<Rightarrow> token \<Rightarrow> string \<Rightarrow> string \<Rightarrow> string list \<Rightarrow> bool \<Rightarrow> opened gw_op" where
  "create_agent_session E C R tok dept_id agent_id kb_ids is_private g =
     (let policy = get_policy ''agent'' agent_id (store g) in
      if \<not> can_access_resource (token_depts tok) dept_id policy (t_sub tok)
      then (g, Inl (PermissionError ResourceForbidden))
      else
        let owner = (case policy of None \<Rightarrow> [] | Some p \<Rightarrow> opt_or (p_owner_user_id p) []);
            key = (if owner = [] then api_key C else get_rag_client C owner g)
        in and_then (list_agents R key 1 30 (Some agent_id) g) (\<lambda>agents g1.
             if agents = [] then (g1, Inl (ValueError AgentNotFound))
             else
               let agent = hd agents;
                   user_selected = (kb_ids \<noteq> []);
                   selected = readable_kbs (token_depts tok) dept_id (token_user tok) kb_ids (store g1);
                   (g2, clean) = (if user_selected then (g1, selected) else dsl_kb_ids C R key agent_id g1)
               in case t_sub tok of
                    None \<Rightarrow> (g2, Inl (KeyError ''sub''))
                  | Some sub \<Rightarrow>
                      let opened_at = epoch_now E (ticks (store g2));
                          sname = ''portal-'' @ sub @ ''-'' @ print_int opened_at
                      in and_then (rag_request (CreateSession key (ag_id agent) sname)
                             (\<lambda>n. on_create_session R n key (ag_id agent) sname) g2)
                           (\<lambda>sid g3.
                             let g4 = register_entry sid
                                   \<lparr>e_session = Some \<lparr>rs_token = key, rs_agent_id = ag_id agent, rs_id = sid\<rparr>,
                                    e_user_id = Some sub, e_dept_id = dept_id, e_agent_id = agent_id,
                                    e_kb_ids = clean, e_agent_owner_id = Some owner,
                                    e_kb_overridden = (user_selected \<and> clean \<noteq> []),
                                    e_is_private = None, e_created_at = Some opened_at\<rparr> g3
                             in and_then (open_session E sid (Some sub) dept_id agent_id clean is_private
                                            (user_selected \<and> clean \<noteq> []) g4)
                                  (\<lambda>_ g5. (g5, Inr \<lparr>op_session_id = sid, op_agent_id = agent_id,
                                              op_dept_id = dept_id, op_kb_ids = clean,
                                              op_is_private = is_private\<rparr>)))))"

definition create_session ::
  "env \<Rightarrow> config \<Rightarrow> rag \<Rightarrow> token \<Rightarrow> string \<Rightarrow> string \<Rightarrow> string list \<Rightarrow> bool \<Rightarrow> opened gw_op" where
  "create_session E C R tok dept_id0 agent_id kb_ids is_private g =
     (let dept_id = normalize_dept_id dept_id0 in
      if dept_id \<notin> token_depts tok then (g, Inl (PermissionError DeptNotAllowed))
      else if agent_id = [] \<or> agent_id = ''direct''
      then create_direct_session E tok dept_id kb_ids is_private g
      else create_agent_session E C R tok dept_id agent_id kb_ids is_private g)"

subsection \<open>Listing, closing, privacy\<close>

definition list_sessions :: "token \<Rightarrow> string option \<Rightarrow> 'ref db \<Rightarrow> ('ref db, session_row list) outcome" where
  "list_sessions tok dept_id s =
     (let user_id = token_user tok in
      if user_id = [] then (s, Inr [])
      else
        let selected = (if opt_or dept_id [] = [] then [] else normalize_dept_id (opt_or dept_id []))
        in if selected \<noteq> [] \<and> selected \<notin> token_depts tok
           then (s, Inl (PermissionError DeptNotAllowed))
           else
             let selected_dept = str_or selected (normalize_dept_id (opt_or (t_default_dept_id tok) []))
             in if selected_dept = [] then (s, Inr [])
                else
                  let own = list_user_sessions user_id (Some selected_dept) 300 s
                  in if is_dept_admin user_id selected_dept s
                     then (s, Inr (order_desc s_updated_at
                            (own @ list_dept_sessions selected_dept (Some user_id) False 300 s)))
                     else (s, Inr own))"

definition delete_session :: "env \<Rightarrow> token \<Rightarrow> string \<Rightarrow> gw \<Rightarrow> gw \<times> bool" where
  "delete_session E tok session_id g =
     (let user_id = token_user tok in
      if user_id = [] then (g, False)
      else let (s, ok) = deactivate_portal_session E session_id user_id (store g);
               g1 = g\<lparr>store := s\<rparr>
           in (if ok then g1\<lparr>registry := (registry g1)(session_id := None)\<rparr> else g1, ok))"

definition update_session_privacy :: "env \<Rightarrow> token \<Rightarrow> string \<Rightarrow> bool \<Rightarrow> gw \<Rightarrow> gw \<times> bool" where
  "update_session_privacy E tok session_id is_private g =
     (let user_id = token_user tok in
      if user_id = [] then (g, False)
      else let (s, ok) = update_portal_session_privacy E session_id user_id is_private (store g);
               g1 = g\<lparr>store := s\<rparr>
           in (if ok then g1\<lparr>registry := (registry g1)(session_id :=
                     map_option (\<lambda>e. e\<lparr>e_is_private := Some is_private\<rparr>) (registry g1 session_id))\<rparr>
               else g1, ok))"

end
