(* ===== verification/GatewayChat.thy ===== *)
theory GatewayChat
  imports GatewaySession
begin

text \<open>
  Questions: the chat service and its candidate addresses, retrieval from the accounts
  that own the knowledge bases, the prompts, the session that is loaded or recovered, and
  \<open>ask\<close> with its four ways to an answer.
\<close>

subsection \<open>Texts\<close>

text \<open>The Chinese sentences of the prompts, by their UTF-8 bytes.\<close>

definition text_nothing_found :: string where
  "text_nothing_found =
     [CHR 0xE5, CHR 0xBD, CHR 0x93, CHR 0xE5, CHR 0x89, CHR 0x8D, CHR 0xE7, CHR 0x9F, CHR
     0xA5, CHR 0xE8, CHR 0xAF, CHR 0x86, CHR 0xE5, CHR 0xBA, CHR 0x93, CHR 0xE4, CHR 0xB8,
     CHR 0xAD, CHR 0xE6, CHR 0x9C, CHR 0xAA, CHR 0xE6, CHR 0x89, CHR 0xBE, CHR 0xE5, CHR
     0x88, CHR 0xB0, CHR 0xE7, CHR 0x9B, CHR 0xB8, CHR 0xE5, CHR 0x85, CHR 0xB3, CHR 0xE4,
     CHR 0xBF, CHR 0xA1, CHR 0xE6, CHR 0x81, CHR 0xAF, CHR 0xE3, CHR 0x80, CHR 0x82]"

definition text_generation_failed :: string where
  "text_generation_failed =
     ''**'' @ [CHR 0xE5, CHR 0x9B, CHR 0x9E, CHR 0xE7, CHR 0xAD, CHR 0x94, CHR 0xE7, CHR
     0x94, CHR 0x9F, CHR 0xE6, CHR 0x88, CHR 0x90, CHR 0xE5, CHR 0xA4, CHR 0xB1, CHR 0xE8,
     CHR 0xB4, CHR 0xA5] @ ''**: ''"

definition text_answer_from :: string where
  "text_answer_from =
     [CHR 0xE6, CHR 0xA0, CHR 0xB9, CHR 0xE6, CHR 0x8D, CHR 0xAE, CHR 0xE4, CHR 0xBB, CHR
     0xA5, CHR 0xE4, CHR 0xB8, CHR 0x8B, CHR 0xE7, CHR 0x9F, CHR 0xA5, CHR 0xE8, CHR 0xAF,
     CHR 0x86, CHR 0xE5, CHR 0xBA, CHR 0x93, CHR 0xE6, CHR 0xA3, CHR 0x80, CHR 0xE7, CHR
     0xB4, CHR 0xA2, CHR 0xE7, CHR 0xBB, CHR 0x93, CHR 0xE6, CHR 0x9E, CHR 0x9C, CHR 0xE5,
     CHR 0x9B, CHR 0x9E, CHR 0xE7, CHR 0xAD, CHR 0x94, CHR 0xE9, CHR 0x97, CHR 0xAE, CHR
     0xE9, CHR 0xA2, CHR 0x98, CHR 0xE3, CHR 0x80, CHR 0x82, CHR 0xE5, CHR 0xA6, CHR 0x82,
     CHR 0xE6, CHR 0x9E, CHR 0x9C, CHR 0xE6, CHR 0xA3, CHR 0x80, CHR 0xE7, CHR 0xB4, CHR
     0xA2, CHR 0xE7, CHR 0xBB, CHR 0x93, CHR 0xE6, CHR 0x9E, CHR 0x9C, CHR 0xE4, CHR 0xB8,
     CHR 0xAD, CHR 0xE6, CHR 0xB2, CHR 0xA1, CHR 0xE6, CHR 0x9C, CHR 0x89, CHR 0xE7, CHR
     0x9B, CHR 0xB8, CHR 0xE5, CHR 0x85, CHR 0xB3, CHR 0xE4, CHR 0xBF, CHR 0xA1, CHR 0xE6,
     CHR 0x81, CHR 0xAF, CHR 0xEF, CHR 0xBC, CHR 0x8C, CHR 0xE6, CHR 0x98, CHR 0x8E, CHR
     0xE7, CHR 0xA1, CHR 0xAE, CHR 0xE5, CHR 0x91, CHR 0x8A, CHR 0xE7, CHR 0x9F, CHR 0xA5,
     CHR 0xE7, CHR 0x94, CHR 0xA8, CHR 0xE6, CHR 0x88, CHR 0xB7, CHR 0xE3, CHR 0x80, CHR
     0x82]"

definition text_results :: string where
  "text_results =
     [CHR 0xE6, CHR 0xA3, CHR 0x80, CHR 0xE7, CHR 0xB4, CHR 0xA2, CHR 0xE7, CHR 0xBB, CHR
     0x93, CHR 0xE6, CHR 0x9E, CHR 0x9C] @ '':''"

definition text_user_question :: string where
  "text_user_question =
     [CHR 0xE7, CHR 0x94, CHR 0xA8, CHR 0xE6, CHR 0x88, CHR 0xB7, CHR 0xE9, CHR 0x97, CHR
     0xAE, CHR 0xE9, CHR 0xA2, CHR 0x98] @ '': ''"

definition text_file :: string where
  "text_file =
     [CHR 0xE6, CHR 0x96, CHR 0x87, CHR 0xE4, CHR 0xBB, CHR 0xB6] @ '': ''"

definition text_based_on :: string where
  "text_based_on =
     [CHR 0xE8, CHR 0xAF, CHR 0xB7, CHR 0xE5, CHR 0x9F, CHR 0xBA, CHR 0xE4, CHR 0xBA, CHR
     0x8E, CHR 0xE4, CHR 0xBB, CHR 0xA5, CHR 0xE4, CHR 0xB8, CHR 0x8B, CHR 0xE3, CHR 0x80,
     CHR 0x90, CHR 0xE7, CHR 0x9F, CHR 0xA5, CHR 0xE8, CHR 0xAF, CHR 0x86, CHR 0xE5, CHR
     0xBA, CHR 0x93, CHR 0xE6, CHR 0xA3, CHR 0x80, CHR 0xE7, CHR 0xB4, CHR 0xA2, CHR 0xE7,
     CHR 0xBB, CHR 0x93, CHR 0xE6, CHR 0x9E, CHR 0x9C, CHR 0xE3, CHR 0x80, CHR 0x91, CHR
     0xE5, CHR 0x9B, CHR 0x9E, CHR 0xE7, CHR 0xAD, CHR 0x94, CHR 0xE7, CHR 0x94, CHR 0xA8,
     CHR 0xE6, CHR 0x88, CHR 0xB7, CHR 0xE9, CHR 0x97, CHR 0xAE, CHR 0xE9, CHR 0xA2, CHR
     0x98, CHR 0xE3, CHR 0x80, CHR 0x82, CHR 0xE8, CHR 0x8B, CHR 0xA5, CHR 0xE8, CHR 0xB5,
     CHR 0x84, CHR 0xE6, CHR 0x96, CHR 0x99, CHR 0xE4, CHR 0xB8, CHR 0x8D, CHR 0xE8, CHR
     0xB6, CHR 0xB3, CHR 0xE8, CHR 0xAF, CHR 0xB7, CHR 0xE8, CHR 0xAF, CHR 0xB4, CHR 0xE6,
     CHR 0x98, CHR 0x8E, CHR 0xE3, CHR 0x80, CHR 0x82]"

definition text_kb_results :: string where
  "text_kb_results =
     [CHR 0xE3, CHR 0x80, CHR 0x90, CHR 0xE7, CHR 0x9F, CHR 0xA5, CHR 0xE8, CHR 0xAF, CHR
     0x86, CHR 0xE5, CHR 0xBA, CHR 0x93, CHR 0xE6, CHR 0xA3, CHR 0x80, CHR 0xE7, CHR 0xB4,
     CHR 0xA2, CHR 0xE7, CHR 0xBB, CHR 0x93, CHR 0xE6, CHR 0x9E, CHR 0x9C, CHR 0xE3, CHR
     0x80, CHR 0x91]"

definition text_question_head :: string where
  "text_question_head =
     [CHR 0xE3, CHR 0x80, CHR 0x90, CHR 0xE7, CHR 0x94, CHR 0xA8, CHR 0xE6, CHR 0x88, CHR
     0xB7, CHR 0xE9, CHR 0x97, CHR 0xAE, CHR 0xE9, CHR 0xA2, CHR 0x98, CHR 0xE3, CHR 0x80,
     CHR 0x91]"

definition text_cut :: string where
  "text_cut =
     ''...('' @ [CHR 0xE5, CHR 0xB7, CHR 0xB2, CHR 0xE6, CHR 0x88, CHR 0xAA, CHR 0xE6, CHR
     0x96, CHR 0xAD] @ '')''"

definition nl :: string where
  "nl = [CHR 0x0A]"

subsection \<open>The chat service\<close>

definition ends_with :: "string \<Rightarrow> string \<Rightarrow> bool" where
  "ends_with suffix s \<longleftrightarrow> starts_with (rev suffix) (rev s)"

definition rstrip_slash :: "string \<Rightarrow> string" where
  "rstrip_slash s = rev (dropWhile (\<lambda>c. c = CHR ''/'') (rev s))"

definition chat_urls :: "config \<Rightarrow> string list" where
  "chat_urls C =
     (let base = rstrip_slash (direct_chat_url C); model = direct_chat_model C in
      if ends_with ''/v1/chat/completions'' base \<or> ends_with ''/chat/completions'' base then [base]
      else (base @ ''/openai/deployments/'' @ model @ ''/chat/completions?api-version='' @ azure_version C) #
           map (\<lambda>path. base @ path)
             [''/v1/chat/completions'', ''/chat/completions'', ''/api/v1/chat/completions'',
              ''/v1/ai/chat/completions'', ''/openai/v1/chat/completions'',
              ''/api/openai/v1/chat/completions''])"

text \<open>The first address that answers below 300 gives the answer; an exception ends the loop.\<close>

fun try_urls :: "rag \<Rightarrow> string list \<Rightarrow> chat_message list \<Rightarrow> string gw_op" where
  "try_urls R [] messages g = (g, Inl RagError)"
| "try_urls R (url # urls) messages g =
     and_then (rag_request (HttpPost url messages) (\<lambda>n. on_post R n url messages) g)
       (\<lambda>(status, content) g1.
          if 300 \<le> status then try_urls R urls messages g1 else (g1, Inr (str_strip content)))"

definition direct_chat :: "config \<Rightarrow> rag \<Rightarrow> chat_message list \<Rightarrow> string gw_op" where
  "direct_chat C R messages g = try_urls R (chat_urls C) messages g"

subsection \<open>Retrieval\<close>

text \<open>The key of the account that owns a knowledge base, with the fallbacks; none without policy.\<close>

definition kb_key :: "config \<Rightarrow> string \<Rightarrow> 'ref db \<Rightarrow> string \<Rightarrow> string option" where
  "kb_key C agent_owner s kb_id =
     (case get_policy ''kb'' kb_id s of
        None \<Rightarrow> None
      | Some p \<Rightarrow>
          let owner = str_or (opt_or (p_owner_user_id p) []) agent_owner;
              key = (if owner = [] then [] else get_user_ragflow_token owner s);
              key1 = (if key = [] \<and> agent_owner \<noteq> [] then get_user_ragflow_token agent_owner s else key)
          in Some (str_or key1 (api_key C)))"

text \<open>\<open>groups.setdefault(key, []).append(kb)\<close> in the order of the keys' first use.\<close>

fun group_add :: "string \<Rightarrow> string \<Rightarrow> (string \<times> string list) list \<Rightarrow> (string \<times> string list) list" where
  "group_add key kb [] = [(key, [kb])]"
| "group_add key kb ((k, kbs) # groups) =
     (if k = key then (k, kbs @ [kb]) # groups else (k, kbs) # group_add key kb groups)"

fun key_groups ::
  "(string \<Rightarrow> string option) \<Rightarrow> string list \<Rightarrow> (string \<times> string list) list
     \<Rightarrow> (string \<times> string list) list" where
  "key_groups key_of [] groups = groups"
| "key_groups key_of (kb # kbs) groups =
     key_groups key_of kbs (case key_of kb of None \<Rightarrow> groups | Some key \<Rightarrow> group_add key kb groups)"

text \<open>One retrieval per account; an account that fails contributes nothing.\<close>

fun retrieve_groups ::
  "rag \<Rightarrow> string \<Rightarrow> nat \<Rightarrow> (string \<times> string list) list \<Rightarrow> gw \<Rightarrow> gw \<times> chunk list" where
  "retrieve_groups R question top_k [] g = (g, [])"
| "retrieve_groups R question top_k ((key, ids) # groups) g =
     (let (g1, r) = rag_request (Retrieve key ids question top_k)
                      (\<lambda>n. on_retrieve R n key ids question top_k) g;
          found = (case r of Inl _ \<Rightarrow> [] | Inr cs \<Rightarrow> filter (\<lambda>c. ch_content c \<noteq> []) cs);
          (g2, rest) = retrieve_groups R question top_k groups g1
      in (g2, found @ rest))"

definition similarity_of :: "chunk \<Rightarrow> rat" where
  "similarity_of c = (case ch_similarity c of None \<Rightarrow> 0 | Some x \<Rightarrow> x)"

definition multi_tenant_retrieve ::
  "config \<Rightarrow> rag \<Rightarrow> string list \<Rightarrow> string \<Rightarrow> nat \<Rightarrow> string \<Rightarrow> gw \<Rightarrow> gw \<times> chunk list" where
  "multi_tenant_retrieve C R kb_ids question top_k agent_owner g =
     (if kb_ids = [] \<or> str_strip question = [] then (g, [])
      else
        let groups = key_groups (kb_key C agent_owner (store g)) kb_ids [];
            (g1, chunks) = retrieve_groups R question top_k groups g
        in (g1, take top_k (order_desc similarity_of chunks)))"

subsection \<open>Prompts\<close>

definition numbered_parts :: "chunk list \<Rightarrow> string list" where
  "numbered_parts chunks =
     map (\<lambda>(i, c). ''['' @ print_nat (Suc i) @ ''] '' @ text_file @ ch_document_name c @ nl @ ch_content c)
       (enumerate 0 chunks)"

definition retrieval_prompt :: "string \<Rightarrow> chunk list \<Rightarrow> string" where
  "retrieval_prompt question chunks =
     text_answer_from @ nl @ nl @ text_results @ nl @ str_join (nl @ nl) (numbered_parts chunks) @
     nl @ nl @ text_user_question @ question"

text \<open>\<open>history[-6:]\<close>.\<close>

definition last_six :: "'a list \<Rightarrow> 'a list" where
  "last_six xs = drop (length xs - 6) xs"

definition answer_or_failure :: "config \<Rightarrow> rag \<Rightarrow> chat_message list \<Rightarrow> gw \<Rightarrow> gw \<times> string" where
  "answer_or_failure C R messages g =
     (case direct_chat C R messages g of
        (g1, Inr answer) \<Rightarrow> (g1, answer)
      | (g1, Inl _) \<Rightarrow> (g1, text_generation_failed @ error_text R (calls_made g1)))"

definition user_message :: "string \<Rightarrow> chat_message" where
  "user_message content = \<lparr>cm_role = ''user'', cm_content = content\<rparr>"

definition generate_answer ::
  "config \<Rightarrow> rag \<Rightarrow> string \<Rightarrow> chunk list \<Rightarrow> chat_message list \<Rightarrow> gw \<Rightarrow> gw \<times> string" where
  "generate_answer C R question chunks history g =
     (if chunks = [] then (g, text_nothing_found)
      else answer_or_failure C R
             ((if system_prompt C = [] then []
               else [\<lparr>cm_role = ''system'', cm_content = system_prompt C\<rparr>]) @
              last_six history @ [user_message (retrieval_prompt question chunks)]) g)"

definition generate_answer_direct ::
  "config \<Rightarrow> rag \<Rightarrow> string \<Rightarrow> chunk list \<Rightarrow> chat_message list \<Rightarrow> gw \<Rightarrow> gw \<times> string" where
  "generate_answer_direct C R question chunks history g =
     (if chunks = [] then (g, text_nothing_found)
      else answer_or_failure C R
             (last_six history @ [user_message (retrieval_prompt question chunks)]) g)"

subsection \<open>Loading a session\<close>

text \<open>Any exception of the client ends in no session.\<close>

definition recover_agent_session ::
  "config \<Rightarrow> rag \<Rightarrow> string \<Rightarrow> string \<Rightarrow> string \<Rightarrow> gw \<Rightarrow> gw \<times> rag_session option" where
  "recover_agent_session C R agent_id session_id owner g =
     (let key = (if owner = [] then api_key C else get_rag_client C owner g) in
      case list_agents R key 1 1 (Some agent_id) g of
        (g1, Inr (a # _)) \<Rightarrow>
          (case rag_request (ListSessions key (ag_id a) 100 session_id)
                  (\<lambda>n. on_list_sessions R n key (ag_id a) 100 session_id) g1 of
             (g2, Inr ids) \<Rightarrow>
               (g2, if session_id \<in> set ids
                    then Some \<lparr>rs_token = key, rs_agent_id = ag_id a, rs_id = session_id\<rparr> else None)
           | (g2, Inl _) \<Rightarrow> (g2, None))
      | (g1, _) \<Rightarrow> (g1, None))"

text \<open>From memory, or from the database; what is read from there is put into memory.\<close>

definition load_session :: "string \<Rightarrow> gw \<Rightarrow> gw \<times> session_entry option" where
  "load_session session_id g =
     (case registry g session_id of
        Some e \<Rightarrow> (g, Some e)
      | None \<Rightarrow>
          (case get_portal_session session_id (store g) of
             None \<Rightarrow> (g, None)
           | Some v \<Rightarrow>
               let agent_id = s_agent_id v;
                   policy = (if agent_id \<noteq> [] \<and> agent_id \<noteq> ''direct''
                             then get_policy ''agent'' agent_id (store g) else None);
                   e = \<lparr>e_session = None, e_user_id = Some (s_user_id v), e_dept_id = s_dept_id v,
                        e_agent_id = agent_id, e_kb_ids = s_kb_ids v,
                        e_agent_owner_id = (case policy of None \<Rightarrow> Some [] | Some p \<Rightarrow> p_owner_user_id p),
                        e_kb_overridden = s_kb_overridden v, e_is_private = None, e_created_at = None\<rparr>
               in (register_entry session_id e g, Some e)))"

text \<open>The runtime session of an entry, recovered from RAGFlow if it is not there.\<close>

definition runtime_session ::
  "config \<Rightarrow> rag \<Rightarrow> string \<Rightarrow> session_entry \<Rightarrow> gw \<Rightarrow> gw \<times> rag_session option" where
  "runtime_session C R session_id e g =
     (case e_session e of
        Some rs \<Rightarrow> (g, Some rs)
      | None \<Rightarrow>
          (case recover_agent_session C R (e_agent_id e) session_id (opt_or (e_agent_owner_id e) []) g of
             (g1, None) \<Rightarrow> (g1, None)
           | (g1, Some rs) \<Rightarrow> (register_entry session_id (e\<lparr>e_session := Some rs\<rparr>) g1, Some rs)))"

subsection \<open>Asking\<close>

text \<open>The messages of a session that go into a prompt.\<close>

definition chat_history :: "string \<Rightarrow> int \<Rightarrow> reference db \<Rightarrow> chat_message list" where
  "chat_history session_id limit s =
     map (\<lambda>m. \<lparr>cm_role = m_role m, cm_content = m_content m\<rparr>)
       (filter (\<lambda>m. m_role m = ''user'' \<or> m_role m = ''assistant'')
          (list_portal_messages session_id limit s))"

text \<open>Length and prefix of a text in characters (UTF-8 code points).\<close>

definition is_continuation :: "char \<Rightarrow> bool" where
  "is_continuation c \<longleftrightarrow> 128 \<le> (of_char c :: nat) \<and> (of_char c :: nat) < 192"

definition text_length :: "string \<Rightarrow> nat" where
  "text_length s = length (filter (\<lambda>c. \<not> is_continuation c) s)"

fun text_take :: "nat \<Rightarrow> string \<Rightarrow> string" where
  "text_take n [] = []"
| "text_take n (c # cs) =
     (if is_continuation c then c # text_take n cs
      else if n = 0 then [] else c # text_take (n - 1) cs)"

definition context_lines :: "nat \<Rightarrow> chunk \<Rightarrow> string list" where
  "context_lines i c =
     (let docnm = str_strip (ch_document_name c); content = str_strip (ch_content c) in
      if content = [] then []
      else [''['' @ print_nat (Suc i) @ '']'' @ (if docnm = [] then [] else '' '' @ docnm), content])"

definition context_block :: "chunk list \<Rightarrow> string" where
  "context_block chunks =
     (let block = str_join nl (concat (map (\<lambda>(i, c). context_lines i c) (enumerate 0 (take 12 chunks))))
      in if 6000 < text_length block then text_take 6000 block @ nl @ text_cut else block)"

definition injected_question :: "string \<Rightarrow> string \<Rightarrow> string" where
  "injected_question block question =
     text_based_on @ nl @ nl @ text_kb_results @ nl @ block @ nl @ nl @ text_question_head @ nl @ question"

definition no_response :: string where
  "no_response = ''Agent returned no response.''"

text \<open>Direct mode, with and without knowledge bases.\<close>

definition ask_direct ::
  "config \<Rightarrow> rag \<Rightarrow> string \<Rightarrow> string \<Rightarrow> session_entry \<Rightarrow> (string \<times> reference list) gw_op" where
  "ask_direct C R session_id question e g =
     (if e_kb_ids e \<noteq> [] then
        (let (g1, chunks) = multi_tenant_retrieve C R (e_kb_ids e) question 8 [] g;
             (g2, answer) = generate_answer_direct C R question chunks
                              (chat_history session_id 6 (store g1)) g1
         in (g2, Inr (answer, map RefChunk chunks)))
      else
        and_then (direct_chat C R (chat_history session_id 12 (store g) @ [user_message question]) g)
          (\<lambda>answer g1. (g1, Inr (answer, []))))"

text \<open>Agent mode with the user's own knowledge bases: the portal retrieves, the agent answers.\<close>

definition ask_agent_kb ::
  "config \<Rightarrow> rag \<Rightarrow> string \<Rightarrow> string \<Rightarrow> session_entry \<Rightarrow> (string \<times> reference list) gw_op" where
  "ask_agent_kb C R session_id question e g =
     (let (g1, chunks) = multi_tenant_retrieve C R (e_kb_ids e) question 8
                           (opt_or (e_agent_owner_id e) []) g;
          block = context_block chunks;
          prompt = injected_question block question;
          (g2, rs) = runtime_session C R session_id e g1;
          fallback = (\<lambda>h. and_then (direct_chat C R [user_message prompt] h)
                             (\<lambda>answer h1. (h1, Inr (answer, map RefChunk chunks))))
      in case rs of
           None \<Rightarrow> fallback g2
         | Some session \<Rightarrow>
             (case rag_request (AskAgent session prompt (Some block))
                     (\<lambda>n. on_ask R n session prompt (Some block)) g2 of
                (g3, Inl _) \<Rightarrow> fallback g3
              | (g3, Inr answers) \<Rightarrow>
                  (g3, Inr (if answers = [] then no_response else an_content (last answers),
                            map RefChunk chunks))))"

text \<open>Agent mode: the agent's own workflow, with the references it returns.\<close>

definition ask_agent ::
  "config \<Rightarrow> rag \<Rightarrow> string \<Rightarrow> string \<Rightarrow> session_entry \<Rightarrow> (string \<times> reference list) gw_op" where
  "ask_agent C R session_id question e g =
     (let (g1, rs) = runtime_session C R session_id e g;
          fallback = (\<lambda>h. and_then (direct_chat C R [user_message question] h)
                             (\<lambda>answer h1. (h1, Inr (answer, []))))
      in case rs of
           None \<Rightarrow> fallback g1
         | Some session \<Rightarrow>
             (case rag_request (AskAgent session question None)
                     (\<lambda>n. on_ask R n session question None) g1 of
                (g2, Inl _) \<Rightarrow> fallback g2
              | (g2, Inr answers) \<Rightarrow>
                  if answers = [] then (g2, Inr (no_response, []))
                  else (case extract_chunks (an_reference (last answers)) of
                          None \<Rightarrow> fallback g2
                        | Some refs \<Rightarrow> (g2, Inr (an_content (last answers), map RefRaw refs)))))"

record asked =
  as_session_id :: string
  as_answer :: string
  as_references :: "reference list"
  as_agent_id :: string
  as_dept_id :: string

definition ask ::
  "env \<Rightarrow> config \<Rightarrow> rag \<Rightarrow> token \<Rightarrow> string \<Rightarrow> string \<Rightarrow> asked gw_op" where
  "ask E C R tok session_id question g =
     (case load_session session_id g of
        (g1, None) \<Rightarrow> (g1, Inl (ValueError SessionNotFound))
      | (g1, Some e) \<Rightarrow>
          (case t_sub tok of
             None \<Rightarrow> (g1, Inl (KeyError ''sub''))
           | Some sub \<Rightarrow>
               if e_user_id e \<noteq> Some sub then (g1, Inl (PermissionError SessionOwnerMismatch))
               else if str_strip question = [] then (g1, Inl (ValueError QuestionRequired))
               else
                 and_then (if e_agent_id e = ''direct'' then ask_direct C R session_id question e g1
                           else if e_kb_overridden e \<and> e_kb_ids e \<noteq> []
                           then ask_agent_kb C R session_id question e g1
                           else ask_agent C R session_id question e g1)
                   (\<lambda>(answer, refs) g2.
                      (upd_store (\<lambda>s. append_portal_message E session_id ''assistant'' answer (Some refs)
                          (append_portal_message E session_id ''user'' question (Some []) s)) g2,
                       Inr \<lparr>as_session_id = session_id, as_answer = answer, as_references = refs,
                            as_agent_id = e_agent_id e, as_dept_id = e_dept_id e\<rparr>))))"

definition get_history :: "token \<Rightarrow> string \<Rightarrow> reference message_row list gw_op" where
  "get_history tok session_id g =
     (case load_session session_id g of
        (g1, None) \<Rightarrow> (g1, Inr [])
      | (g1, Some e) \<Rightarrow>
          (case t_sub tok of
             None \<Rightarrow> (g1, Inl (KeyError ''sub''))
           | Some sub \<Rightarrow>
               if e_user_id e \<noteq> Some sub then (g1, Inl (PermissionError SessionOwnerMismatch))
               else (g1, Inr (list_portal_messages session_id 500 (store g1)))))"

end
