(* ===== verification/GatewayKb.thy ===== *)
theory GatewayKb
  imports GatewayChat
begin

text \<open>
  Agents and knowledge bases of \<open>PortalGateway\<close>: the policies it creates for what it finds
  in the users' RAGFlow accounts, the list of resources a user sees, uploads and their
  parsing progress, and deletion.
\<close>

subsection \<open>Departments and visibility from a title\<close>

text \<open>
  Python's \<open>\\b\<close> asks whether a character is a word character.  The text is split into code
  points; \<open>word_char\<close> answers for those that are not ASCII (the Unicode database).
\<close>

fun code_points :: "string \<Rightarrow> string list" where
  "code_points [] = []"
| "code_points (c # cs) =
     (case code_points cs of
        [] \<Rightarrow> [[c]]
      | p # ps \<Rightarrow> (case p of
           d # _ \<Rightarrow> if is_continuation d then (c # p) # ps else [c] # p # ps
         | [] \<Rightarrow> [c] # ps))"

definition is_word :: "(string \<Rightarrow> bool) \<Rightarrow> string \<Rightarrow> bool" where
  "is_word word_char p =
     (case p of
        [c] \<Rightarrow> (let n = (of_char c :: nat) in
           if n < 128 then (48 \<le> n \<and> n \<le> 57) \<or> (65 \<le> n \<and> n \<le> 90) \<or> (97 \<le> n \<and> n \<le> 122) \<or> n = 95
           else word_char p)
      | _ \<Rightarrow> word_char p)"

text \<open>\<open>re.search(r"\\bW\\b", t)\<close> for a word \<open>W\<close>; the flag tells whether a word precedes.\<close>

fun has_word :: "(string \<Rightarrow> bool) \<Rightarrow> string list \<Rightarrow> bool \<Rightarrow> string list \<Rightarrow> bool" where
  "has_word wc w before [] = False"
| "has_word wc w before (p # ps) =
     ((\<not> before \<and> take (length w) (p # ps) = w \<and>
       (case drop (length w) (p # ps) of [] \<Rightarrow> True | q # _ \<Rightarrow> \<not> is_word wc q)) \<or>
      has_word wc w (is_word wc p) ps)"

text \<open>\<open>re.search(r"A.*B", t)\<close>: both on one line.\<close>

fun has_between :: "string \<Rightarrow> string \<Rightarrow> string \<Rightarrow> bool" where
  "has_between a b [] = False"
| "has_between a b (c # cs) =
     ((starts_with a (c # cs) \<and>
       str_in b (takeWhile (\<lambda>x. x \<noteq> CHR 0x0A) (drop (length a) (c # cs)))) \<or>
      has_between a b cs)"

definition infer_dept_by_title :: "(string \<Rightarrow> bool) \<Rightarrow> string \<Rightarrow> string" where
  "infer_dept_by_title wc title =
     (let t = str_upper title; ps = code_points t in
      if str_in ''PLM'' t then ''dept_mp_plm''
      else if has_word wc [''A'', ''P''] False ps then ''dept_mp_ap''
      else if has_word wc [''M'', ''C''] False ps then ''dept_mp_mc''
      else if has_between ''US'' ''DX'' t \<or> has_between ''DX'' ''US'' t then ''dept_mp_usdx''
      else if has_word wc [''Q''] False ps then ''dept_mp_q''
      else ''dept_mp'')"

definition infer_visibility :: "string \<Rightarrow> string" where
  "infer_visibility title =
     (if str_in ([CHR 0xE5, CHR 0x85, CHR 0xAC, CHR 0xE5, CHR 0x85, CHR 0xB1]) title \<or>
         str_in ([CHR 0xE5, CHR 0x85, CHR 0xAC, CHR 0xE7, CHR 0x94, CHR 0xA8]) title \<or>
         starts_with ''MP'' (str_upper title) \<or>
         str_in ([CHR 0xE4, CHR 0xB8, CHR 0x8D, CHR 0xE9, CHR 0x80, CHR 0x89, CHR 0xE6, CHR 0x8B, CHR 0xA9]) title
      then ''public'' else ''dept'')"

subsection \<open>Policies for what RAGFlow lists\<close>

text \<open>
  A resource without policy gets one, owned by the account it was found in.  A policy
  without owner is written again with that owner; the call passes no allowed or denied
  departments and no roles, so these become empty.
\<close>

definition claim_resource ::
  "env \<Rightarrow> string \<Rightarrow> string \<Rightarrow> string \<Rightarrow> string \<Rightarrow> string \<Rightarrow> string \<Rightarrow> bool
     \<Rightarrow> reference db \<Rightarrow> (reference db, unit) outcome" where
  "claim_resource E resource_type resource_id user_id dept_id visibility category keep_category s =
     (case get_policy resource_type resource_id s of
        None \<Rightarrow> upsert_policy E resource_type resource_id (str_or dept_id ''dept_mp'') visibility
                  ''system'' (Some user_id) None None None category s
      | Some p \<Rightarrow>
          if opt_or (p_owner_user_id p) [] \<noteq> [] then (s, Inr ())
          else upsert_policy E resource_type resource_id (p_owner_dept_id p) (p_visibility p)
                 ''system'' (Some user_id) None None None
                 (if keep_category then p_category p else []) s)"

definition claim_agent :: "env \<Rightarrow> string \<Rightarrow> string \<Rightarrow> string \<Rightarrow> reference db \<Rightarrow> (reference db, unit) outcome" where
  "claim_agent E user_id dept_id agent_id s =
     claim_resource E ''agent'' agent_id user_id dept_id ''public'' [] False s"

definition claim_kb :: "env \<Rightarrow> string \<Rightarrow> string \<Rightarrow> string \<Rightarrow> reference db \<Rightarrow> (reference db, unit) outcome" where
  "claim_kb E user_id dept_id kb_id s =
     claim_resource E ''kb'' kb_id user_id dept_id ''dept'' ''D'' True s"

text \<open>
  One page of agents: those not seen yet are collected and claimed.  An exception ends the
  pages of this user (\<^term>\<open>False\<close>); what was collected stays.
\<close>

fun agent_batch ::
  "env \<Rightarrow> string \<Rightarrow> string \<Rightarrow> agent list \<Rightarrow> string set \<Rightarrow> agent list \<Rightarrow> gw
     \<Rightarrow> gw \<times> string set \<times> agent list \<times> bool" where
  "agent_batch E user_id dept_id [] seen acc g = (g, seen, acc, True)"
| "agent_batch E user_id dept_id (a # batch) seen acc g =
     (if ag_id a \<in> seen then agent_batch E user_id dept_id batch seen acc g
      else case on_store (claim_agent E user_id dept_id (ag_id a)) g of
        (g1, Inl _) \<Rightarrow> (g1, insert (ag_id a) seen, acc @ [a], False)
      | (g1, Inr _) \<Rightarrow>
          agent_batch E user_id dept_id batch (insert (ag_id a) seen) (acc @ [a]) g1)"

text \<open>The \<open>while True\<close> over the pages ends only when the service sends a short page.\<close>

partial_function (option) agent_pages ::
  "env \<Rightarrow> rag \<Rightarrow> string \<Rightarrow> string \<Rightarrow> string \<Rightarrow> nat \<Rightarrow> string set \<Rightarrow> agent list \<Rightarrow> gw
     \<Rightarrow> (gw \<times> string set \<times> agent list) option" where
  "agent_pages E R key user_id dept_id page seen acc g =
     (case list_agents R key page 200 None g of
        (g1, Inl _) \<Rightarrow> Some (g1, seen, acc)
      | (g1, Inr batch) \<Rightarrow>
          if batch = [] then Some (g1, seen, acc)
          else (case agent_batch E user_id dept_id batch seen acc g1 of
             (g2, seen2, acc2, ok) \<Rightarrow>
               if \<not> ok \<or> length batch < 200 then Some (g2, seen2, acc2)
               else agent_pages E R key user_id dept_id (Suc page) seen2 acc2 g2))"

fun agents_of_users ::
  "env \<Rightarrow> config \<Rightarrow> rag \<Rightarrow> (string \<times> string \<times> string) list \<Rightarrow> string set \<Rightarrow> agent list \<Rightarrow> gw
     \<Rightarrow> (gw \<times> agent list) option" where
  "agents_of_users E C R [] seen acc g = Some (g, acc)"
| "agents_of_users E C R ((user_id, _, dept_id) # us) seen acc g =
     (case agent_pages E R (get_rag_client C user_id g) user_id dept_id 1 seen acc g of
        None \<Rightarrow> None
      | Some (g1, seen1, acc1) \<Rightarrow> agents_of_users E C R us seen1 acc1 g1)"

definition ensure_agent_policies :: "env \<Rightarrow> config \<Rightarrow> rag \<Rightarrow> gw \<Rightarrow> (gw \<times> agent list) option" where
  "ensure_agent_policies E C R g =
     agents_of_users E C R (get_all_users_with_ragflow_token (store g)) {} [] g"

fun kb_batch ::
  "env \<Rightarrow> string \<Rightarrow> string \<Rightarrow> dataset list \<Rightarrow> string set \<Rightarrow> dataset list \<Rightarrow> gw
     \<Rightarrow> gw \<times> string set \<times> dataset list" where
  "kb_batch E user_id dept_id [] seen acc g = (g, seen, acc)"
| "kb_batch E user_id dept_id (d # ds) seen acc g =
     (if da_id d \<in> seen then kb_batch E user_id dept_id ds seen acc g
      else case on_store (claim_kb E user_id dept_id (da_id d)) g of
        (g1, Inl _) \<Rightarrow> (g1, insert (da_id d) seen, acc @ [d])
      | (g1, Inr _) \<Rightarrow> kb_batch E user_id dept_id ds (insert (da_id d) seen) (acc @ [d]) g1)"

fun kbs_of_users ::
  "env \<Rightarrow> config \<Rightarrow> rag \<Rightarrow> (string \<times> string \<times> string) list \<Rightarrow> string set \<Rightarrow> dataset list \<Rightarrow> gw
     \<Rightarrow> gw \<times> string set \<times> dataset list" where
  "kbs_of_users E C R [] seen acc g = (g, seen, acc)"
| "kbs_of_users E C R ((user_id, _, dept_id) # us) seen acc g =
     (case list_datasets R (get_rag_client C user_id g) None g of
        (g1, Inl _) \<Rightarrow> kbs_of_users E C R us seen acc g1
      | (g1, Inr ds) \<Rightarrow>
          (case kb_batch E user_id dept_id ds seen acc g1 of
             (g2, seen2, acc2) \<Rightarrow> kbs_of_users E C R us seen2 acc2 g2))"

text \<open>Afterwards the policies of knowledge bases that no account lists are switched off.\<close>

definition ensure_kb_policies :: "env \<Rightarrow> config \<Rightarrow> rag \<Rightarrow> dataset list gw_op" where
  "ensure_kb_policies E C R g =
     (let us = get_all_users_with_ragflow_token (store g) in
      if us = [] then list_datasets R (api_key C) None g
      else case kbs_of_users E C R us {} [] g of
        (g1, seen, ds) \<Rightarrow>
          (if seen = {} then g1 else upd_store (\<lambda>s. fst (cleanup_stale_kb_policies E seen s)) g1, Inr ds))"

text \<open>The administrator's bootstrap of both kinds; the counts are (total, updated).\<close>

fun bootstrap_all ::
  "('x \<Rightarrow> reference db \<Rightarrow> (reference db, unit) outcome) \<Rightarrow> 'x list \<Rightarrow> nat \<Rightarrow> (nat \<times> nat) gw_op" where
  "bootstrap_all put [] n g = (g, Inr (n, n))"
| "bootstrap_all put (x # xs) n g =
     and_then (on_store (put x) g) (\<lambda>_ g1. bootstrap_all put xs (Suc n) g1)"

definition bootstrap_agents ::
  "env \<Rightarrow> config \<Rightarrow> rag \<Rightarrow> (string \<Rightarrow> bool) \<Rightarrow> string \<Rightarrow> (nat \<times> nat) gw_op" where
  "bootstrap_agents E C R wc operator g =
     and_then (list_agents R (api_key C) 1 500 None g)
       (\<lambda>agents. bootstrap_all (\<lambda>a. upsert_policy E ''agent'' (ag_id a) (infer_dept_by_title wc (ag_title a))
           (infer_visibility (ag_title a)) operator None None None None []) agents 0)"

definition bootstrap_kbs :: "env \<Rightarrow> config \<Rightarrow> rag \<Rightarrow> string \<Rightarrow> (nat \<times> nat) gw_op" where
  "bootstrap_kbs E C R operator g =
     and_then (list_datasets R (api_key C) None g)
       (\<lambda>ds. bootstrap_all (\<lambda>d. upsert_policy E ''kb'' (da_id d) ''dept_mp'' ''public'' operator
           None None None None ''A'') ds 0)"

subsection \<open>The resources a user sees\<close>

record resource_item =
  ri_type :: string
  ri_id :: string
  ri_title :: string
  ri_description :: string
  ri_owner_dept_id :: string
  ri_owner_user_id :: "string option"
  ri_visibility :: string
  ri_category :: string
  ri_allow_dept_ids :: "string list option"
  ri_my_permission :: "int option"
  ri_shares :: "share_view list option"

text \<open>A resource without active policy counts as public, owned by nobody.\<close>

definition default_view :: "string \<Rightarrow> policy_view" where
  "default_view category =
     \<lparr>p_owner_dept_id = ''dept_mp'', p_owner_user_id = None, p_visibility = ''public'',
      p_allow_roles = [], p_allow_dept_ids = [], p_deny_dept_ids = [], p_category = category\<rparr>"

definition view_of :: "string \<Rightarrow> string \<Rightarrow> string \<Rightarrow> 'ref db \<Rightarrow> policy_view" where
  "view_of resource_type resource_id category s =
     (case get_policy resource_type resource_id s of
        None \<Rightarrow> default_view category | Some p \<Rightarrow> policy_view.truncate p)"

definition agent_item :: "agent \<Rightarrow> policy_view \<Rightarrow> resource_item" where
  "agent_item a p =
     \<lparr>ri_type = ''agent'', ri_id = ag_id a, ri_title = ag_title a, ri_description = ag_description a,
      ri_owner_dept_id = p_owner_dept_id p, ri_owner_user_id = p_owner_user_id p,
      ri_visibility = p_visibility p, ri_category = p_category p, ri_allow_dept_ids = None,
      ri_my_permission = None, ri_shares = None\<rparr>"

definition agent_items :: "token \<Rightarrow> string \<Rightarrow> agent list \<Rightarrow> 'ref db \<Rightarrow> resource_item list" where
  "agent_items tok dept agents s =
     map (\<lambda>a. agent_item a (view_of ''agent'' (ag_id a) [] s))
       (filter (\<lambda>a. can_access_resource (token_depts tok) dept (Some (view_of ''agent'' (ag_id a) [] s))
                      (t_sub tok)) agents)"

definition kb_permission_of :: "token \<Rightarrow> string \<Rightarrow> string \<Rightarrow> 'ref db \<Rightarrow> int" where
  "kb_permission_of tok dept kb_id s =
     effective_kb_permission (token_depts tok) dept kb_id (token_user tok)
       (Some (view_of ''kb'' kb_id ''A'' s)) s"

definition kb_item :: "token \<Rightarrow> string \<Rightarrow> dataset \<Rightarrow> 'ref db \<Rightarrow> resource_item" where
  "kb_item tok dept d s =
     (let p = view_of ''kb'' (da_id d) ''A'' s; owner = opt_or (p_owner_user_id p) [] in
      \<lparr>ri_type = ''kb'', ri_id = da_id d, ri_title = da_name d, ri_description = da_description d,
       ri_owner_dept_id = p_owner_dept_id p, ri_owner_user_id = Some owner,
       ri_visibility = p_visibility p, ri_category = p_category p,
       ri_allow_dept_ids = Some (p_allow_dept_ids p),
       ri_my_permission = Some (kb_permission_of tok dept (da_id d) s),
       ri_shares = Some (if Some owner = t_sub tok then list_kb_shares (da_id d) s else [])\<rparr>)"

definition kb_items :: "token \<Rightarrow> string \<Rightarrow> dataset list \<Rightarrow> 'ref db \<Rightarrow> resource_item list" where
  "kb_items tok dept ds s =
     map (\<lambda>d. kb_item tok dept d s)
       (filter (\<lambda>d. has_read (kb_permission_of tok dept (da_id d) s)) ds)"

text \<open>Sorted by visibility, then title.  \<^term>\<open>None\<close>: the agent pages do not end.\<close>

definition list_resources ::
  "env \<Rightarrow> config \<Rightarrow> rag \<Rightarrow> token \<Rightarrow> string option \<Rightarrow> string \<Rightarrow> gw
     \<Rightarrow> (gw, resource_item list) outcome option" where
  "list_resources E C R tok dept_id resource_type g =
     (let dept = normalize_dept_id (str_or (opt_or dept_id []) (opt_or (t_default_dept_id tok) [])) in
      if dept \<noteq> [] \<and> dept \<notin> token_depts tok then Some (g, Inl (PermissionError DeptNotAllowed))
      else
        case (if resource_type = ''agent'' \<or> resource_type = ''all'' then ensure_agent_policies E C R g
              else Some (g, [])) of
          None \<Rightarrow> None
        | Some (g1, agents) \<Rightarrow>
            let aitems = agent_items tok dept agents (store g1)
            in Some (and_then (if resource_type = ''kb'' \<or> resource_type = ''all''
                               then ensure_kb_policies E C R g1 else (g1, Inr []))
                 (\<lambda>ds g2. (g2, Inr (sort_key ri_visibility (sort_key ri_title
                              (aitems @ kb_items tok dept ds (store g2))))))))"

subsection \<open>Upload\<close>

record upload_result =
  up_kb_id :: string
  up_kb_name :: string
  up_dept_id :: string
  up_is_private :: bool
  up_uploaded :: nat
  up_doc_ids :: "string list"

text \<open>The first data set of that name; appending needs ownership, write permission, or a public one.\<close>

fun find_existing ::
  "string \<Rightarrow> string \<Rightarrow> string \<Rightarrow> dataset list \<Rightarrow> 'ref db \<Rightarrow> py_error + dataset option" where
  "find_existing user_id full_name raw_name [] s = Inr None"
| "find_existing user_id full_name raw_name (d # ds) s =
     (if da_name d = full_name \<or> da_name d = raw_name then
        (case get_policy ''kb'' (da_id d) s of
           None \<Rightarrow> Inr (Some d)
         | Some p \<Rightarrow>
             let owner = opt_or (p_owner_user_id p) [] in
             if owner \<noteq> [] \<and> owner \<noteq> user_id \<and> \<not> has_write (get_kb_permission (da_id d) user_id s) \<and>
                str_lower (p_visibility p) \<noteq> ''public''
             then Inl (PermissionError AppendForbidden)
             else Inr (Some d))
      else find_existing user_id full_name raw_name ds s)"

text \<open>A file without a name is given one with a fresh identifier.\<close>

fun file_payload :: "env \<Rightarrow> (string \<times> string) list \<Rightarrow> reference db \<Rightarrow> reference db \<times> (string \<times> string) list" where
  "file_payload E [] s = (s, [])"
| "file_payload E ((name, blob) # files) s =
     (let nm = str_strip name;
          (fname, s1) = (if nm = [] then (new_id E ''upload-'' s @ ''.txt'', tick s) else (nm, s));
          (s2, rest) = file_payload E files s1
      in (s2, (fname, blob) # rest))"

definition upload_kb_for_dept ::
  "env \<Rightarrow> config \<Rightarrow> rag \<Rightarrow> token \<Rightarrow> string \<Rightarrow> string \<Rightarrow> (string \<times> string) list \<Rightarrow> string \<Rightarrow> bool
     \<Rightarrow> upload_result gw_op" where
  "upload_kb_for_dept E C R tok dept_id0 kb_name files description is_private g =
     (let dept_id = normalize_dept_id dept_id0 in
      if dept_id \<notin> token_depts tok then (g, Inl (PermissionError DeptNotAllowed))
      else if str_strip kb_name = [] then (g, Inl (ValueError KbNameRequired))
      else if files = [] then (g, Inl (ValueError FilesRequired))
      else
        let user_id = token_user tok;
            key = get_rag_client C user_id g;
            code = dept_code dept_id;
            raw_name = str_strip kb_name;
            full_name = code @ ''-'' @ raw_name;
            (g1, r) = list_datasets R key None g;
            found = (case r of Inl _ \<Rightarrow> Inr None | Inr ds \<Rightarrow> find_existing user_id full_name raw_name ds (store g1))
        in case found of
             Inl e \<Rightarrow> (g1, Inl e)
           | Inr existing \<Rightarrow>
               and_then (case existing of
                   Some d \<Rightarrow> (g1, Inr d)
                 | None \<Rightarrow>
                     (let descr = str_or description (code @ '' private kb'')
                      in rag_request (CreateDataset key full_name descr)
                           (\<lambda>n. on_create_dataset R n key full_name descr) g1))
                 (\<lambda>d g2.
                   let (s3, payload) = file_payload E files (store g2);
                       g3 = g2\<lparr>store := s3\<rparr>
                   in and_then (rag_request (UploadDocuments key (da_id d) payload)
                          (\<lambda>n. on_upload R n key (da_id d) payload) g3)
                        (\<lambda>ids g4.
                          let doc_ids = filter (\<lambda>i. i \<noteq> []) ids;
                              g5 = (if doc_ids = [] then g4
                                    else fst (rag_request (ParseDocuments key (da_id d) doc_ids)
                                           (\<lambda>n. on_parse R n key (da_id d) doc_ids) g4))
                          in and_then (on_store (upsert_policy E ''kb'' (da_id d) dept_id
                                 (if is_private then ''private'' else ''dept'') (str_or user_id ''system'')
                                 (if user_id = [] then None else Some user_id) None None None ''D'') g5)
                               (\<lambda>_ g6. (g6, Inr
                                  \<lparr>up_kb_id = da_id d, up_kb_name = da_name d, up_dept_id = dept_id,
                                   up_is_private = is_private, up_uploaded = length payload,
                                   up_doc_ids = doc_ids\<rparr>)))))"

subsection \<open>Parsing progress\<close>

record doc_info =
  dinfo_id :: string
  dinfo_name :: string
  dinfo_run :: string
  dinfo_progress :: rat
  dinfo_msg :: string

text \<open>\<open>round(x, 2)\<close>: to hundredths, a tie to the even one (on the exact value).\<close>

definition round2 :: "rat \<Rightarrow> rat" where
  "round2 x =
     (let y = x * 100; f = floor y; r = y - of_int f;
          i = (if r < 1 / 2 then f else if r > 1 / 2 then f + 1 else if even f then f else f + 1)
      in of_int i / 100)"

definition run_text :: "string \<Rightarrow> string" where
  "run_text run =
     (case map_of [(''0'', ''UNSTART''), (''1'', ''RUNNING''), (''2'', ''CANCEL''), (''3'', ''DONE''),
                   (''4'', ''FAIL'')] run of Some t \<Rightarrow> t | None \<Rightarrow> run)"

record progress =
  pg_done :: nat
  pg_running :: nat
  pg_failed :: nat
  pg_total :: rat
  pg_docs :: "doc_info list"

definition count_doc :: "string \<Rightarrow> document \<Rightarrow> progress \<Rightarrow> progress" where
  "count_doc doc_id d p =
     (let t = run_text (str_or (do_run d) ''0'') in
      p\<lparr>pg_done := (if t = ''DONE'' then Suc (pg_done p) else pg_done p),
        pg_running := (if t = ''RUNNING'' then Suc (pg_running p) else pg_running p),
        pg_failed := (if t = ''FAIL'' then Suc (pg_failed p) else pg_failed p),
        pg_total := pg_total p + (if t = ''DONE'' then 1 else do_progress d),
        pg_docs := pg_docs p @ [\<lparr>dinfo_id = doc_id, dinfo_name = do_name d, dinfo_run = t,
                                 dinfo_progress = round2 (do_progress d),
                                 dinfo_msg = do_progress_msg d\<rparr>]\<rparr>)"

definition blank_doc :: "string \<Rightarrow> string \<Rightarrow> string \<Rightarrow> doc_info" where
  "blank_doc doc_id run msg =
     \<lparr>dinfo_id = doc_id, dinfo_name = [], dinfo_run = run, dinfo_progress = 0, dinfo_msg = msg\<rparr>"

fun poll_docs :: "rag \<Rightarrow> string \<Rightarrow> string \<Rightarrow> string list \<Rightarrow> progress \<Rightarrow> gw \<Rightarrow> gw \<times> progress" where
  "poll_docs R key kb_id [] p g = (g, p)"
| "poll_docs R key kb_id (i # ids) p g =
     (let (g1, r) = rag_request (ListDocuments key kb_id i) (\<lambda>n. on_list_documents R n key kb_id i) g;
          p1 = (case r of
                  Inl _ \<Rightarrow> p\<lparr>pg_docs := pg_docs p @ [blank_doc i ''ERROR'' (error_text R (calls_made g1))]\<rparr>
                | Inr [] \<Rightarrow> p\<lparr>pg_docs := pg_docs p @ [blank_doc i ''UNSTART'' []]\<rparr>
                | Inr (d # _) \<Rightarrow> count_doc i d p)
      in poll_docs R key kb_id ids p1 g1)"

record parse_status =
  st_total :: nat
  st_progress :: progress
  st_overall :: rat
  st_all_done :: bool

definition get_parse_status ::
  "config \<Rightarrow> rag \<Rightarrow> token \<Rightarrow> string \<Rightarrow> string list \<Rightarrow> parse_status gw_op" where
  "get_parse_status C R tok kb_id doc_ids g =
     (if token_user tok = [] then (g, Inl (PermissionError Unauthorized))
      else
        let owner = (case get_policy ''kb'' kb_id (store g) of None \<Rightarrow> [] | Some p \<Rightarrow> opt_or (p_owner_user_id p) []);
            key = (if owner = [] then api_key C else get_rag_client C owner g)
        in and_then (list_datasets R key (Some kb_id) g)
             (\<lambda>ds g1.
                if ds = [] then (g1, Inl (ValueError DatasetNotFound))
                else
                  let (g2, p) = poll_docs R key (da_id (hd ds)) doc_ids
                        \<lparr>pg_done = 0, pg_running = 0, pg_failed = 0, pg_total = 0, pg_docs = []\<rparr> g1;
                      total = length doc_ids
                  in (g2, Inr \<lparr>st_total = total, st_progress = p,
                       st_overall = (if 0 < total then round2 (pg_total p / of_nat total) else 0),
                       st_all_done = (pg_done p = total)\<rparr>)))"

subsection \<open>Deletion\<close>

definition forget_sessions :: "string list \<Rightarrow> gw \<Rightarrow> gw" where
  "forget_sessions sids g = g\<lparr>registry := (\<lambda>i. if i \<in> set sids then None else registry g i)\<rparr>"

text \<open>After RAGFlow was told: shares, requests and sessions go, then the policy is switched off.\<close>

definition drop_kb :: "env \<Rightarrow> string \<Rightarrow> gw \<Rightarrow> gw \<times> cleanup_report" where
  "drop_kb E kb_id g =
     (let (s1, report) = cascade_cleanup_kb E kb_id (store g);
          g1 = forget_sessions (cl_session_ids report) (g\<lparr>store := s1\<rparr>)
      in (upd_store (deactivate_policy E ''kb'' kb_id) g1, report))"

definition delete_private_kb :: "env \<Rightarrow> config \<Rightarrow> rag \<Rightarrow> token \<Rightarrow> string \<Rightarrow> bool gw_op" where
  "delete_private_kb E C R tok kb_id g =
     (let user_id = token_user tok in
      if user_id = [] then (g, Inl (PermissionError Unauthorized))
      else case get_policy ''kb'' kb_id (store g) of
        None \<Rightarrow> (g, Inl (ValueError KbNotFound))
      | Some p \<Rightarrow>
          if str_lower (p_visibility p) \<noteq> ''private'' then (g, Inl (PermissionError OnlyPrivateDeletable))
          else
            let owner = opt_or (p_owner_user_id p) [] in
            if owner \<noteq> user_id then (g, Inl (PermissionError OwnerOnlyDelete))
            else
              let key = str_or (get_user_ragflow_token owner (store g)) (api_key C)
              in and_then (delete_datasets R key [kb_id] g)
                   (\<lambda>_ g1. (fst (drop_kb E kb_id g1), Inr True)))"

fun delete_each ::
  "env \<Rightarrow> config \<Rightarrow> rag \<Rightarrow> token \<Rightarrow> bool \<Rightarrow> string list \<Rightarrow> string list \<Rightarrow> cleanup_report list
     \<Rightarrow> (string list \<times> cleanup_report list) gw_op" where
  "delete_each E C R tok is_mp [] deleted reports g = (g, Inr (deleted, reports))"
| "delete_each E C R tok is_mp (kb_id # kb_ids) deleted reports g =
     (case get_policy ''kb'' kb_id (store g) of
        None \<Rightarrow> (g, Inl (ValueError KbNotFound))
      | Some p \<Rightarrow>
          let user_id = token_user tok;
              owner = opt_or (p_owner_user_id p) [];
              dept = normalize_dept_id (opt_or (t_default_dept_id tok) [])
          in if \<not> is_mp \<and> owner \<noteq> user_id \<and>
                \<not> has_write (effective_kb_permission (token_depts tok) dept kb_id user_id
                              (Some (policy_view.truncate p)) (store g))
             then (g, Inl (PermissionError DeleteForbidden))
             else
               let key = (if owner = [] then api_key C else get_user_ragflow_token owner (store g))
               in and_then (delete_datasets R key [kb_id] g)
                    (\<lambda>_ g1. let (g2, report) = drop_kb E kb_id g1
                             in delete_each E C R tok is_mp kb_ids (deleted @ [kb_id]) (reports @ [report]) g2))"

definition delete_kbs ::
  "env \<Rightarrow> config \<Rightarrow> rag \<Rightarrow> token \<Rightarrow> string list \<Rightarrow> (string list \<times> cleanup_report list) gw_op" where
  "delete_kbs E C R tok kb_ids g =
     (if token_user tok = [] then (g, Inl (PermissionError Unauthorized))
      else delete_each E C R tok (is_dept_admin (token_user tok) ''dept_mp'' (store g)) kb_ids [] [] g)"

end
