(* ===== verification/PortalRoutes.thy ===== *)
theory PortalRoutes
  imports GatewayKb
begin

text \<open>
  The HTTP routes of \<open>create_app\<close>: one definition per view function, from the bearer token
  to the audit record and the status code.  A request body is given by its fields, a
  missing text as the empty one; \<open>rid\<close> is the request id (the header or a fresh one).
\<close>

subsection \<open>Responses\<close>

datatype failure = Text string | Raised py_error

text \<open>\<open>Crash\<close> is an exception that leaves the view function (the framework's own 500).\<close>

datatype 'a response =
    Ok nat 'a
  | Err nat string failure        \<comment> \<open>status, error code, message\<close>
  | NoContent                     \<comment> \<open>the answer to \<open>OPTIONS\<close>\<close>
  | Crash py_error

fun status_of :: "'a response \<Rightarrow> nat" where
  "status_of (Ok n x) = n"
| "status_of (Err n c m) = n"
| "status_of NoContent = 204"
| "status_of (Crash e) = 500"

definition bad_request :: "string \<Rightarrow> 'a response" where
  "bad_request m = Err 400 ''bad_request'' (Text m)"

text \<open>\<open>_auth_payload\<close>.\<close>

definition auth_payload :: "env \<Rightarrow> config \<Rightarrow> string \<Rightarrow> gw \<Rightarrow> token option" where
  "auth_payload E C header g =
     (if starts_with ''Bearer '' header
      then parse_token E (auth_secret C) (ticks (store g)) (str_strip (drop 7 header)) else None)"

definition with_auth ::
  "env \<Rightarrow> config \<Rightarrow> string \<Rightarrow> gw \<Rightarrow> (token \<Rightarrow> gw \<times> 'a response) \<Rightarrow> gw \<times> 'a response" where
  "with_auth E C header g f =
     (case auth_payload E C header g of
        None \<Rightarrow> (g, Err 401 ''unauthorized'' (Text ''unauthorized'')) | Some tok \<Rightarrow> f tok)"

text \<open>\<open>_is_admin\<close>: an administrator of the head department.\<close>

definition is_mp_admin :: "token \<Rightarrow> 'ref db \<Rightarrow> bool" where
  "is_mp_admin tok s \<longleftrightarrow> token_user tok \<noteq> [] \<and> is_dept_admin (token_user tok) ''dept_mp'' s"

definition admin_required :: "gw \<Rightarrow> gw \<times> 'a response" where
  "admin_required g = (g, Err 403 ''forbidden'' (Text ''admin required''))"

subsection \<open>Audit records\<close>

record audit_cols =
  ac_dept :: "string option"
  ac_type :: "string option"
  ac_resource :: "string option"
  ac_session :: "string option"

definition no_cols :: audit_cols where
  "no_cols = \<lparr>ac_dept = None, ac_type = None, ac_resource = None, ac_session = None\<rparr>"

definition kb_cols :: "string \<Rightarrow> audit_cols" where
  "kb_cols kb_id = no_cols\<lparr>ac_type := Some ''kb'', ac_resource := Some kb_id\<rparr>"

definition audit ::
  "env \<Rightarrow> string \<Rightarrow> string \<Rightarrow> string \<Rightarrow> string option \<Rightarrow> audit_cols \<Rightarrow> string option
     \<Rightarrow> py_error option \<Rightarrow> gw \<Rightarrow> gw" where
  "audit E rid action status user_id cols code msg g =
     upd_store (write_audit E rid action status user_id (ac_dept cols) (ac_type cols)
       (ac_resource cols) (ac_session cols) code msg None) g"

text \<open>
  The three \<open>except\<close> clauses most routes share.  \<open>vs\<close> and \<open>vc\<close> are the status and the error
  code of a \<open>ValueError\<close>; \<open>bad\<close> and \<open>good\<close> the audit columns of a failure and a success.
\<close>

definition audited ::
  "env \<Rightarrow> string \<Rightarrow> string \<Rightarrow> token \<Rightarrow> nat \<Rightarrow> string \<Rightarrow> audit_cols \<Rightarrow> ('a \<Rightarrow> audit_cols)
     \<Rightarrow> (gw, 'a) outcome \<Rightarrow> gw \<times> 'a response" where
  "audited E rid action tok vs vc bad good out =
     (case out of
        (g, Inr x) \<Rightarrow> (audit E rid action ''success'' (t_sub tok) (good x) None None g, Ok 200 x)
      | (g, Inl e) \<Rightarrow>
          (case e of
             PermissionError m \<Rightarrow>
               (audit E rid action ''denied'' (t_sub tok) bad (Some ''forbidden'') (Some e) g,
                Err 403 ''forbidden'' (Raised e))
           | ValueError m \<Rightarrow>
               (audit E rid action ''error'' (t_sub tok) bad (Some vc) (Some e) g, Err vs vc (Raised e))
           | _ \<Rightarrow>
               (audit E rid action ''error'' (t_sub tok) bad (Some ''internal_error'') (Some e) g,
                Err 500 ''internal_error'' (Raised e))))"

text \<open>Routes that record only what succeeds; other exceptions than the two leave the view.\<close>

definition audited_success ::
  "env \<Rightarrow> string \<Rightarrow> string \<Rightarrow> token \<Rightarrow> audit_cols \<Rightarrow> (gw, 'a) outcome \<Rightarrow> gw \<times> 'a response" where
  "audited_success E rid action tok cols out =
     (case out of
        (g, Inr x) \<Rightarrow> (audit E rid action ''success'' (t_sub tok) cols None None g, Ok 200 x)
      | (g, Inl e) \<Rightarrow>
          (case e of
             PermissionError m \<Rightarrow> (g, Err 403 ''forbidden'' (Raised e))
           | ValueError m \<Rightarrow> (g, Err 400 ''bad_request'' (Raised e))
           | _ \<Rightarrow> (g, Crash e)))"

definition unaudited :: "(gw, 'a) outcome \<Rightarrow> gw \<times> 'a response" where
  "unaudited out =
     (case out of
        (g, Inr x) \<Rightarrow> (g, Ok 200 x)
      | (g, Inl e) \<Rightarrow>
          (case e of
             PermissionError m \<Rightarrow> (g, Err 403 ''forbidden'' (Raised e))
           | ValueError m \<Rightarrow> (g, Err 400 ''bad_request'' (Raised e))
           | _ \<Rightarrow> (g, Crash e)))"

text \<open>A handler of the gateway that works on the database only.\<close>

definition lift_db :: "(reference db \<Rightarrow> (reference db, 'a) outcome) \<Rightarrow> 'a gw_op" where
  "lift_db f g = on_store f g"

subsection \<open>Accounts\<close>

definition route_login ::
  "env \<Rightarrow> config \<Rightarrow> string \<Rightarrow> string \<Rightarrow> string \<Rightarrow> string \<Rightarrow> gw \<Rightarrow> gw \<times> login_result response" where
  "route_login E C rid username login_id0 password0 g =
     (let login_id = str_strip (str_or username login_id0); password = str_strip password0 in
      if login_id = [] \<or> password = []
      then (g, bad_request ''username/login_id and password are required'')
      else case login E C login_id password g of
        (g1, None) \<Rightarrow>
          (audit E rid ''auth.login'' ''denied'' None no_cols (Some ''invalid_credentials'') None g1,
           Err 401 ''invalid_credentials'' (Text ''invalid username or password''))
      | (g1, Some out) \<Rightarrow>
          (audit E rid ''auth.login'' ''success'' (Some (lr_user_id out))
             (no_cols\<lparr>ac_dept := Some (lr_default_dept_id out)\<rparr>) None None g1, Ok 200 out))"

text \<open>
  The RAGFlow side of a registration: the account's id and its API key (either may stay
  empty), or the response that ends the request.
\<close>

definition rag_email :: "string \<Rightarrow> string" where
  "rag_email login_id =
     (if str_in ''@'' login_id then str_lower login_id else str_lower login_id @ ''@example.com'')"

definition rag_register ::
  "config \<Rightarrow> rag \<Rightarrow> string \<Rightarrow> string \<Rightarrow> gw \<Rightarrow> gw \<times> ((nat \<times> string) + string \<times> string)" where
  "rag_register C R login_id password g =
     (case encrypt_password C password of
        None \<Rightarrow> (g, Inl (500, ''dependency_missing''))
      | Some pw \<Rightarrow>
          (case rag_request (RegisterAccount login_id (rag_email login_id) pw)
                  (\<lambda>n. on_register R n login_id (rag_email login_id) pw) g of
             (g1, Inl _) \<Rightarrow> (g1, Inl (502, ''bad_request''))
           | (g1, Inr (code, uid, msg)) \<Rightarrow>
               if code = 102 then (g1, Inl (503, ''bad_request''))
               else if code \<noteq> 0 \<and> \<not> str_in ''already registered'' (str_lower msg)
               then (g1, Inl (502, ''bad_request''))
               else
                 let uid0 = (if code = 0 then uid else []) in
                 (case rag_request (LoginAccount (rag_email login_id) pw)
                         (\<lambda>n. on_login R n (rag_email login_id) pw) g1 of
                    (g2, Inl _) \<Rightarrow> (g2, Inl (502, ''bad_request''))
                  | (g2, Inr (lcode, luid, jwt)) \<Rightarrow>
                      let uid1 = (if uid0 = [] \<and> lcode = 0 then luid else uid0) in
                      if jwt = [] then (g2, Inr (uid1, []))
                      else
                        (case rag_request (NewApiKey jwt) (\<lambda>n. on_new_key R n jwt) g2 of
                           (g3, Inl _) \<Rightarrow> (g3, Inl (502, ''bad_request''))
                         | (g3, Inr (kcode, key)) \<Rightarrow> (g3, Inr (uid1, if kcode = 0 then key else []))))))"

definition route_register ::
  "env \<Rightarrow> config \<Rightarrow> rag \<Rightarrow> string \<Rightarrow> string \<Rightarrow> string \<Rightarrow> string \<Rightarrow> string \<Rightarrow> gw
     \<Rightarrow> gw \<times> registration response" where
  "route_register E C R rid login_id0 password0 display_name0 dept_id0 g =
     (let login_id = str_strip login_id0; password = str_strip password0;
          display_name = str_strip (str_or display_name0 login_id); dept0 = str_strip dept_id0 in
      if login_id = [] \<or> password = [] then (g, bad_request ''login_id and password are required'')
      else if text_length password < 6 then (g, bad_request ''password must be at least 6 characters'')
      else if dept0 = [] then (g, bad_request ''dept_id is required'')
      else
        let dept_id = normalize_dept_id dept0 in
        if \<not> list_ex (\<lambda>d. d_dept_id d = dept_id) (departments (store g))
        then (g, bad_request (''department '' @ dept_id @ '' not found''))
        else case rag_register C R login_id password g of
          (g1, Inl (status, code)) \<Rightarrow> (g1, Err status code (Raised RagError))
        | (g1, Inr (uid, key)) \<Rightarrow>
            (case on_store (register_user E login_id password display_name dept_id ''member'' uid key) g1 of
               (g2, Inr r) \<Rightarrow>
                 (audit E rid ''auth.register'' ''success'' (Some (reg_user_id r))
                    (no_cols\<lparr>ac_dept := Some dept_id\<rparr>) None None g2, Ok 201 r)
             | (g2, Inl (ValueError m)) \<Rightarrow> (g2, Err 409 ''bad_request'' (Raised (ValueError m)))
             | (g2, Inl e) \<Rightarrow> (g2, Err 500 ''bad_request'' (Raised e))))"

record me_view =
  me_user_id :: "string option"
  me_login_id :: "string option"
  me_display_name :: "string option"
  me_dept_ids :: "string list"
  me_dept :: string
  me_default_dept_id :: "string option"
  me_is_admin :: bool
  me_is_dept_admin :: bool
  me_exp :: "int option"

definition route_me :: "env \<Rightarrow> config \<Rightarrow> string \<Rightarrow> gw \<Rightarrow> gw \<times> me_view response" where
  "route_me E C header g = with_auth E C header g (\<lambda>tok.
     let user_id = token_user tok; dept = opt_or (t_default_dept_id tok) [] in
     (g, Ok 200 \<lparr>me_user_id = t_sub tok, me_login_id = t_login_id tok,
          me_display_name = t_display_name tok, me_dept_ids = t_dept_ids tok,
          me_dept = str_upper (str_replace ''dept_'' [] dept), me_default_dept_id = t_default_dept_id tok,
          me_is_admin = is_dept_admin user_id ''dept_mp'' (store g),
          me_is_dept_admin = (user_id \<noteq> [] \<and> dept \<noteq> [] \<and> is_dept_admin user_id dept (store g)),
          me_exp = t_exp tok\<rparr>))"

text \<open>The RAGFlow account is deleted if there is one; what that call answers does not matter.\<close>

definition route_delete_account ::
  "env \<Rightarrow> config \<Rightarrow> rag \<Rightarrow> string \<Rightarrow> string \<Rightarrow> gw \<Rightarrow> gw \<times> bool response" where
  "route_delete_account E C R header rid g = with_auth E C header g (\<lambda>tok.
     let user_id = token_user tok; account = get_user_ragflow_user_id user_id (store g);
         g1 = (if account = [] then g
               else fst (rag_request (DeleteAccount account) (\<lambda>n. on_delete_account R n account) g));
         g2 = upd_store (\<lambda>s. fst (delete_user user_id s)) g1
     in (audit E rid ''user.delete_account'' ''success'' (Some user_id) no_cols None None g2, Ok 200 True))"

subsection \<open>Departments and users\<close>

definition allowed_codes :: "string set" where
  "allowed_codes = {''MP'', ''MP-Q'', ''MP-PLM'', ''MP-AP'', ''MP-MC'', ''MP-US&DX''}"

fun pick_departments ::
  "(string \<Rightarrow> bool) \<Rightarrow> string set \<Rightarrow> department_row list \<Rightarrow> department_row list" where
  "pick_departments keep seen [] = []"
| "pick_departments keep seen (d # ds) =
     (let dept_id = normalize_dept_id (d_dept_id d); code = dept_code dept_id in
      if code \<in> allowed_codes \<and> dept_id \<notin> seen \<and> keep dept_id
      then d\<lparr>d_dept_id := dept_id, d_dept_code := code\<rparr> # pick_departments keep (insert dept_id seen) ds
      else pick_departments keep seen ds)"

definition route_departments ::
  "env \<Rightarrow> config \<Rightarrow> string \<Rightarrow> string \<Rightarrow> gw \<Rightarrow> gw \<times> department_row list response" where
  "route_departments E C header show_all0 g = with_auth E C header g (\<lambda>tok.
     let show_all = (str_lower show_all0 = ''true'') in
     (g, Ok 200 (sort_key d_dept_code (pick_departments (\<lambda>d. show_all \<or> d \<in> token_depts tok) {}
            (get_all_departments (store g))))))"

definition route_share_targets ::
  "env \<Rightarrow> config \<Rightarrow> string \<Rightarrow> gw \<Rightarrow> gw \<times> department_row list response" where
  "route_share_targets E C header g = with_auth E C header g (\<lambda>tok.
     (g, Ok 200 (sort_key d_dept_code (pick_departments (\<lambda>d. True) {} (get_all_departments (store g))))))"

definition route_search_users ::
  "env \<Rightarrow> config \<Rightarrow> string \<Rightarrow> string \<Rightarrow> gw \<Rightarrow> gw \<times> user_hit list response" where
  "route_search_users E C header q0 g = with_auth E C header g (\<lambda>tok.
     let q = str_strip q0 in
     (g, Ok 200 (if text_length q < 1 then [] else search_users q 20 (store g))))"

subsection \<open>Resources and sessions\<close>

definition opt_text :: "string \<Rightarrow> string option" where
  "opt_text t = (let v = str_strip t in if v = [] then None else Some v)"

text \<open>\<^term>\<open>None\<close>: listing the agents does not end.\<close>

definition route_resources ::
  "env \<Rightarrow> config \<Rightarrow> rag \<Rightarrow> string \<Rightarrow> string \<Rightarrow> string \<Rightarrow> string \<Rightarrow> gw
     \<Rightarrow> (gw \<times> resource_item list response) option" where
  "route_resources E C R header rid dept_id0 resource_type0 g =
     (case auth_payload E C header g of
        None \<Rightarrow> Some (g, Err 401 ''unauthorized'' (Text ''unauthorized''))
      | Some tok \<Rightarrow>
          let dept_id = opt_text dept_id0;
              rtype = str_lower (str_strip (str_or resource_type0 ''all'')) in
          if rtype \<notin> {''agent'', ''kb'', ''all''}
          then Some (g, bad_request ''resource_type must be one of: agent, kb, all'')
          else map_option (\<lambda>out.
                 case out of
                   (g1, Inr items) \<Rightarrow>
                     (audit E rid ''resource.list'' ''success'' (t_sub tok)
                        (no_cols\<lparr>ac_dept := (if dept_id = None then t_default_dept_id tok else dept_id)\<rparr>)
                        None None g1, Ok 200 items)
                 | (g1, Inl (PermissionError m)) \<Rightarrow>
                     (audit E rid ''resource.list'' ''denied'' (t_sub tok) (no_cols\<lparr>ac_dept := dept_id\<rparr>)
                        (Some ''forbidden'') (Some (PermissionError m)) g1,
                      Err 403 ''forbidden'' (Raised (PermissionError m)))
                 | (g1, Inl e) \<Rightarrow>
                     (audit E rid ''resource.list'' ''error'' (t_sub tok) (no_cols\<lparr>ac_dept := dept_id\<rparr>)
                        (Some ''internal_error'') (Some e) g1, Err 500 ''internal_error'' (Raised e)))
               (list_resources E C R tok dept_id rtype g))"

definition route_create_session ::
  "env \<Rightarrow> config \<Rightarrow> rag \<Rightarrow> string \<Rightarrow> string \<Rightarrow> string \<Rightarrow> string \<Rightarrow> string list \<Rightarrow> bool \<Rightarrow> gw
     \<Rightarrow> gw \<times> opened response" where
  "route_create_session E C R header rid dept_id0 agent_id0 kb_ids is_private g =
     with_auth E C header g (\<lambda>tok.
       let dept_id = str_strip (str_or dept_id0 (opt_or (t_default_dept_id tok) []));
           agent_id = str_strip agent_id0;
           cols = \<lparr>ac_dept = Some dept_id, ac_type = Some ''agent'', ac_resource = Some agent_id,
                   ac_session = None\<rparr> in
       if dept_id = [] then (g, bad_request ''dept_id is required'')
       else audited E rid ''session.create'' tok 404 ''not_found'' cols
              (\<lambda>d. cols\<lparr>ac_session := Some (op_session_id d)\<rparr>)
              (create_session E C R tok dept_id agent_id (filter (\<lambda>x. str_strip x \<noteq> []) kb_ids) is_private g))"

definition route_list_sessions ::
  "env \<Rightarrow> config \<Rightarrow> string \<Rightarrow> string \<Rightarrow> gw \<Rightarrow> gw \<times> session_row list response" where
  "route_list_sessions E C header dept_id0 g = with_auth E C header g (\<lambda>tok.
     case list_sessions tok (opt_text dept_id0) (store g) of
       (s, Inr items) \<Rightarrow> (g, Ok 200 items)
     | (s, Inl (PermissionError m)) \<Rightarrow> (g, Err 403 ''forbidden'' (Raised (PermissionError m)))
     | (s, Inl e) \<Rightarrow> (g, Crash e))"

definition session_cols :: "string \<Rightarrow> audit_cols" where
  "session_cols session_id = no_cols\<lparr>ac_session := Some session_id\<rparr>"

definition route_delete_session ::
  "env \<Rightarrow> config \<Rightarrow> string \<Rightarrow> string \<Rightarrow> string \<Rightarrow> gw \<Rightarrow> gw \<times> bool response" where
  "route_delete_session E C header rid session_id g = with_auth E C header g (\<lambda>tok.
     case delete_session E tok session_id g of
       (g1, True) \<Rightarrow> (audit E rid ''session.delete'' ''success'' (t_sub tok) (session_cols session_id)
                         None None g1, Ok 200 True)
     | (g1, False) \<Rightarrow> (audit E rid ''session.delete'' ''denied'' (t_sub tok) (session_cols session_id)
                         (Some ''not_found'') None g1, Err 404 ''not_found'' (Text ''session not found'')))"

definition route_session_privacy ::
  "env \<Rightarrow> config \<Rightarrow> string \<Rightarrow> string \<Rightarrow> string \<Rightarrow> bool \<Rightarrow> gw \<Rightarrow> gw \<times> bool response" where
  "route_session_privacy E C header rid session_id is_private g = with_auth E C header g (\<lambda>tok.
     case update_session_privacy E tok session_id is_private g of
       (g1, True) \<Rightarrow> (audit E rid ''session.privacy'' ''success'' (t_sub tok) (session_cols session_id)
                         None None g1, Ok 200 is_private)
     | (g1, False) \<Rightarrow> (audit E rid ''session.privacy'' ''denied'' (t_sub tok) (session_cols session_id)
                         (Some ''forbidden'') None g1, Err 404 ''not_found'' (Text ''session not found'')))"

definition route_chat ::
  "env \<Rightarrow> config \<Rightarrow> rag \<Rightarrow> string \<Rightarrow> string \<Rightarrow> string \<Rightarrow> string \<Rightarrow> gw \<Rightarrow> gw \<times> asked response" where
  "route_chat E C R header rid session_id0 question0 g = with_auth E C header g (\<lambda>tok.
     let session_id = str_strip session_id0; question = str_strip question0 in
     if session_id = [] \<or> question = [] then (g, bad_request ''session_id and question are required'')
     else audited E rid ''session.ask'' tok 404 ''invalid_session'' (session_cols session_id)
            (\<lambda>d. \<lparr>ac_dept = Some (as_dept_id d), ac_type = Some ''agent'',
                  ac_resource = Some (as_agent_id d), ac_session = Some session_id\<rparr>)
            (ask E C R tok session_id question g))"

definition route_history ::
  "env \<Rightarrow> config \<Rightarrow> string \<Rightarrow> string \<Rightarrow> gw \<Rightarrow> gw \<times> reference message_row list response" where
  "route_history E C header session_id g = with_auth E C header g (\<lambda>tok.
     case get_history tok session_id g of
       (g1, Inr items) \<Rightarrow> (g1, Ok 200 items)
     | (g1, Inl (PermissionError m)) \<Rightarrow> (g1, Err 403 ''forbidden'' (Raised (PermissionError m)))
     | (g1, Inl e) \<Rightarrow> (g1, Crash e))"

end
