(* ===== verification/PortalRoutesKb.thy ===== *)
theory PortalRoutesKb
  imports PortalRoutes
begin

text \<open>
  The routes for knowledge bases, share requests, policies, the recall dashboard and the
  audit log.
\<close>

subsection \<open>Upload and sharing\<close>

definition form_flag :: "string \<Rightarrow> bool" where
  "form_flag v \<longleftrightarrow> str_lower (str_strip v) \<in> {''1'', ''true'', ''yes'', ''on''}"

definition route_upload ::
  "env \<Rightarrow> config \<Rightarrow> rag \<Rightarrow> string \<Rightarrow> string \<Rightarrow> string \<Rightarrow> string \<Rightarrow> string \<Rightarrow> string
     \<Rightarrow> (string \<times> string) list \<Rightarrow> gw \<Rightarrow> gw \<times> upload_result response" where
  "route_upload E C R header rid dept_id0 kb_name description is_private files g =
     with_auth E C header g (\<lambda>tok.
       let dept_id = str_strip (str_or dept_id0 (opt_or (t_default_dept_id tok) [])) in
       audited E rid ''kb.upload'' tok 400 ''bad_request''
         (no_cols\<lparr>ac_dept := Some dept_id, ac_type := Some ''kb''\<rparr>)
         (\<lambda>d. (kb_cols (up_kb_id d))\<lparr>ac_dept := Some (up_dept_id d)\<rparr>)
         (upload_kb_for_dept E C R tok dept_id (str_strip kb_name) files (str_strip description)
            (form_flag is_private) g))"

definition route_request_share ::
  "env \<Rightarrow> config \<Rightarrow> string \<Rightarrow> string \<Rightarrow> string \<Rightarrow> string \<Rightarrow> string list \<Rightarrow> string \<Rightarrow> string \<Rightarrow> string
     \<Rightarrow> gw \<Rightarrow> gw \<times> request_row option response" where
  "route_request_share E C header rid kb_id scope dept_ids user_login reason permission g =
     with_auth E C header g (\<lambda>tok.
       audited E rid ''kb.share.request'' tok 400 ''bad_request'' (kb_cols kb_id) (\<lambda>_. kb_cols kb_id)
         (lift_db (request_kb_share E tok kb_id (str_lower (str_strip scope))
            (Some (filter (\<lambda>x. str_strip x \<noteq> []) dept_ids)) (Some (str_strip user_login))
            (str_strip reason) (str_lower (str_strip (str_or permission ''read'')))) g))"

definition route_share_internal ::
  "env \<Rightarrow> config \<Rightarrow> string \<Rightarrow> string \<Rightarrow> string \<Rightarrow> gw \<Rightarrow> gw \<times> policy_row option response" where
  "route_share_internal E C header rid kb_id g = with_auth E C header g (\<lambda>tok.
     audited E rid ''kb.share.internal'' tok 400 ''bad_request'' (kb_cols kb_id) (\<lambda>_. kb_cols kb_id)
       (lift_db (share_kb_internal E tok kb_id) g))"

text \<open>Failures of this route are not recorded.\<close>

definition route_share_to_user ::
  "env \<Rightarrow> config \<Rightarrow> string \<Rightarrow> string \<Rightarrow> string \<Rightarrow> string \<Rightarrow> string \<Rightarrow> gw \<Rightarrow> gw \<times> share_result response" where
  "route_share_to_user E C header rid kb_id user_login0 permission0 g = with_auth E C header g (\<lambda>tok.
     let user_login = str_strip user_login0; permission = str_strip (str_or permission0 ''read'') in
     if user_login = [] then (g, bad_request ''target_user_login is required'')
     else case lift_db (share_kb_to_user E tok kb_id user_login permission) g of
       (g1, Inr x) \<Rightarrow>
         (audit E rid ''kb.share.to_user'' ''success'' (t_sub tok) (kb_cols kb_id) None None g1, Ok 200 x)
     | (g1, Inl (PermissionError m)) \<Rightarrow> (g1, Err 403 ''forbidden'' (Raised (PermissionError m)))
     | (g1, Inl (ValueError m)) \<Rightarrow> (g1, Err 400 ''bad_request'' (Raised (ValueError m)))
     | (g1, Inl e) \<Rightarrow> (g1, Err 500 ''internal_error'' (Raised e)))"

definition route_list_shares ::
  "env \<Rightarrow> config \<Rightarrow> string \<Rightarrow> string \<Rightarrow> gw \<Rightarrow> gw \<times> share_view list response" where
  "route_list_shares E C header kb_id g = with_auth E C header g (\<lambda>tok.
     case get_policy ''kb'' kb_id (store g) of
       None \<Rightarrow> (g, Err 404 ''bad_request'' (Text ''kb not found''))
     | Some p \<Rightarrow>
         if \<not> has_read (effective_kb_permission (token_depts tok)
                 (normalize_dept_id (opt_or (t_default_dept_id tok) [])) kb_id (token_user tok)
                 (Some (policy_view.truncate p)) (store g))
         then (g, Err 403 ''bad_request'' (Text ''no access to this knowledge base''))
         else (g, Ok 200 (list_kb_shares kb_id (store g))))"

definition route_list_requests ::
  "env \<Rightarrow> config \<Rightarrow> string \<Rightarrow> string \<Rightarrow> string \<Rightarrow> gw \<Rightarrow> gw \<times> (request_row \<times> string option) list response" where
  "route_list_requests E C header status owner_dept g = with_auth E C header g (\<lambda>tok.
     (g, Ok 200 (list_share_requests tok (opt_text status) (opt_text owner_dept) (store g))))"

text \<open>\<open>approve\<close> and \<open>reject\<close> differ in the flag and in the action that is recorded.\<close>

definition route_review ::
  "env \<Rightarrow> config \<Rightarrow> string \<Rightarrow> string \<Rightarrow> bool \<Rightarrow> string \<Rightarrow> string \<Rightarrow> gw \<Rightarrow> gw \<times> request_row response" where
  "route_review E C header rid approved request_id comment g = with_auth E C header g (\<lambda>tok.
     audited E rid (if approved then ''kb.share.approve'' else ''kb.share.reject'') tok 400 ''bad_request''
       no_cols (\<lambda>r. kb_cols (r_kb_id r))
       (lift_db (review_share_request E tok request_id approved (str_strip comment)) g))"

definition route_approve ::
  "env \<Rightarrow> config \<Rightarrow> string \<Rightarrow> string \<Rightarrow> string \<Rightarrow> string \<Rightarrow> gw \<Rightarrow> gw \<times> request_row response" where
  "route_approve E C header rid request_id comment g = route_review E C header rid True request_id comment g"

definition route_reject ::
  "env \<Rightarrow> config \<Rightarrow> string \<Rightarrow> string \<Rightarrow> string \<Rightarrow> string \<Rightarrow> gw \<Rightarrow> gw \<times> request_row response" where
  "route_reject E C header rid request_id comment g = route_review E C header rid False request_id comment g"

definition route_dismiss ::
  "env \<Rightarrow> config \<Rightarrow> string \<Rightarrow> string \<Rightarrow> string \<Rightarrow> gw \<Rightarrow> gw \<times> bool response" where
  "route_dismiss E C header rid request_id g = with_auth E C header g (\<lambda>tok.
     case get_kb_share_request request_id (store g) of
       None \<Rightarrow> (g, Err 404 ''not_found'' (Text ''share request not found''))
     | Some r \<Rightarrow>
         if \<not> is_dept_admin (token_user tok) ''dept_mp'' (store g) \<and>
            \<not> is_dept_admin (token_user tok) (normalize_dept_id (r_owner_dept_id r)) (store g)
         then (g, Err 403 ''forbidden'' (Text ''forbidden''))
         else case delete_kb_share_request request_id (store g) of
           (s, True) \<Rightarrow>
             (audit E rid ''kb.share.dismiss'' ''success'' (t_sub tok) (kb_cols (r_kb_id r)) None None
                (g\<lparr>store := s\<rparr>), Ok 200 True)
         | (s, False) \<Rightarrow> (g\<lparr>store := s\<rparr>, Err 404 ''not_found'' (Text ''share request not found'')))"

definition route_unshare ::
  "env \<Rightarrow> config \<Rightarrow> string \<Rightarrow> string \<Rightarrow> string \<Rightarrow> gw \<Rightarrow> gw \<times> policy_row option response" where
  "route_unshare E C header rid kb_id g = with_auth E C header g (\<lambda>tok.
     audited E rid ''kb.unshare'' tok 400 ''bad_request'' (kb_cols kb_id) (\<lambda>_. kb_cols kb_id)
       (lift_db (unshare_kb E tok kb_id) g))"

subsection \<open>Deletion\<close>

definition route_delete_private ::
  "env \<Rightarrow> config \<Rightarrow> rag \<Rightarrow> string \<Rightarrow> string \<Rightarrow> string \<Rightarrow> gw \<Rightarrow> gw \<times> bool response" where
  "route_delete_private E C R header rid kb_id g = with_auth E C header g (\<lambda>tok.
     audited E rid ''kb.delete.private'' tok 404 ''not_found'' (kb_cols kb_id) (\<lambda>_. kb_cols kb_id)
       (delete_private_kb E C R tok kb_id g))"

definition route_delete_kbs ::
  "env \<Rightarrow> config \<Rightarrow> rag \<Rightarrow> string \<Rightarrow> string \<Rightarrow> string list \<Rightarrow> gw
     \<Rightarrow> gw \<times> (string list \<times> cleanup_report list) response" where
  "route_delete_kbs E C R header rid kb_ids0 g = with_auth E C header g (\<lambda>tok.
     let kb_ids = filter (\<lambda>x. str_strip x \<noteq> []) kb_ids0; cols = no_cols\<lparr>ac_type := Some ''kb''\<rparr> in
     if kb_ids = [] then (g, bad_request ''kb_ids are required'')
     else audited E rid ''kb.delete.batch'' tok 404 ''not_found'' cols (\<lambda>_. cols)
            (delete_kbs E C R tok kb_ids g))"

subsection \<open>Policies and bootstrap\<close>

text \<open>\<open>max(1, int(page or "1"))\<close> and \<open>min(200, max(1, int(size or "50")))\<close>; a bad number is raised.\<close>

definition page_args :: "string \<Rightarrow> string \<Rightarrow> (int \<times> int) option" where
  "page_args page page_size =
     (case (py_int (str_or page ''1''), py_int (str_or page_size ''50'')) of
        (Some p, Some n) \<Rightarrow> Some (max 1 p, min 200 (max 1 n)) | _ \<Rightarrow> None)"

definition route_list_policies ::
  "env \<Rightarrow> config \<Rightarrow> string \<Rightarrow> string \<Rightarrow> string \<Rightarrow> string \<Rightarrow> string \<Rightarrow> string \<Rightarrow> string \<Rightarrow> gw
     \<Rightarrow> gw \<times> policy_row list response" where
  "route_list_policies E C header rtype0 owner_dept visibility category page page_size g =
     with_auth E C header g (\<lambda>tok.
       if \<not> is_mp_admin tok (store g) then admin_required g
       else
         let rtype = str_lower (str_strip (str_or rtype0 ''agent'')) in
         if rtype \<notin> {''agent'', ''kb''} then (g, bad_request ''resource_type must be agent or kb'')
         else case page_args page page_size of
           None \<Rightarrow> (g, Crash (ValueError BadInteger))
         | Some (p, n) \<Rightarrow>
             (g, Ok 200 (list_policies (Some rtype) (opt_text owner_dept) (opt_text visibility)
                           (opt_text category) p n (store g))))"

text \<open>The administrator's policy has no owner: \<open>owner_user_id\<close> is not passed on.\<close>

definition route_upsert_policy ::
  "env \<Rightarrow> config \<Rightarrow> string \<Rightarrow> string \<Rightarrow> string \<Rightarrow> string \<Rightarrow> string \<Rightarrow> string \<Rightarrow> string list
     \<Rightarrow> string list \<Rightarrow> string list \<Rightarrow> gw \<Rightarrow> gw \<times> policy_row option response" where
  "route_upsert_policy E C header rtype0 resource_id owner_dept0 visibility0 category allow deny roles g =
     with_auth E C header g (\<lambda>tok.
       if \<not> is_mp_admin tok (store g) then admin_required g
       else
         let rtype = str_lower (str_strip rtype0); owner_dept = str_strip owner_dept0;
             visibility = str_lower (str_strip (str_or visibility0 ''dept'')) in
         if rtype \<notin> {''agent'', ''kb''} then (g, bad_request ''resource_type must be agent or kb'')
         else if owner_dept = [] then (g, bad_request ''owner_dept_id is required'')
         else if visibility \<notin> {''public'', ''dept''} then (g, bad_request ''visibility must be public or dept'')
         else case on_store (upsert_policy E rtype resource_id owner_dept visibility
                     (str_or (token_user tok) ''system'') None (Some allow) (Some deny) (Some roles)
                     (str_strip category)) g of
           (g1, Inr _) \<Rightarrow> (g1, Ok 200 (get_policy rtype resource_id (store g1)))
         | (g1, Inl e) \<Rightarrow> (g1, Crash e))"

definition route_bootstrap ::
  "env \<Rightarrow> config \<Rightarrow> string \<Rightarrow> string \<Rightarrow> string \<Rightarrow> string \<Rightarrow> (string \<Rightarrow> (nat \<times> nat) gw_op) \<Rightarrow> gw
     \<Rightarrow> gw \<times> (nat \<times> nat) response" where
  "route_bootstrap E C header rid action rtype run g = with_auth E C header g (\<lambda>tok.
     if \<not> is_mp_admin tok (store g) then admin_required g
     else case run (str_or (token_user tok) ''system'') g of
       (g1, Inr counts) \<Rightarrow>
         (audit E rid action ''success'' (t_sub tok)
            \<lparr>ac_dept = t_default_dept_id tok, ac_type = Some rtype, ac_resource = Some ''*'', ac_session = None\<rparr>
            None None g1, Ok 200 counts)
     | (g1, Inl e) \<Rightarrow> (g1, Crash e))"

definition route_bootstrap_kbs ::
  "env \<Rightarrow> config \<Rightarrow> rag \<Rightarrow> string \<Rightarrow> string \<Rightarrow> gw \<Rightarrow> gw \<times> (nat \<times> nat) response" where
  "route_bootstrap_kbs E C R header rid g =
     route_bootstrap E C header rid ''kb.bootstrap.public_a'' ''kb'' (bootstrap_kbs E C R) g"

definition route_bootstrap_agents ::
  "env \<Rightarrow> config \<Rightarrow> rag \<Rightarrow> (string \<Rightarrow> bool) \<Rightarrow> string \<Rightarrow> string \<Rightarrow> gw \<Rightarrow> gw \<times> (nat \<times> nat) response" where
  "route_bootstrap_agents E C R wc header rid g =
     route_bootstrap E C header rid ''agent.bootstrap.policies'' ''agent'' (bootstrap_agents E C R wc) g"

subsection \<open>Recall dashboard, progress, audit log\<close>

definition mask_argument :: "int option \<Rightarrow> string \<Rightarrow> int" where
  "mask_argument permission_mask permission =
     (case permission_mask of
        Some m \<Rightarrow> m
      | None \<Rightarrow>
          (let p = str_lower (str_strip (str_or permission ''read'')) in
           if p = ''write'' then 7 else if p = ''share'' then 5 else 4))"

definition owner_cols :: "token \<Rightarrow> string \<Rightarrow> audit_cols" where
  "owner_cols tok kb_id = (kb_cols kb_id)\<lparr>ac_dept := t_default_dept_id tok\<rparr>"

definition route_share_to_depts ::
  "env \<Rightarrow> config \<Rightarrow> string \<Rightarrow> string \<Rightarrow> string \<Rightarrow> string list \<Rightarrow> int option \<Rightarrow> string \<Rightarrow> gw
     \<Rightarrow> gw \<times> policy_row option response" where
  "route_share_to_depts E C header rid kb_id dept_ids permission_mask permission g =
     with_auth E C header g (\<lambda>tok.
       if dept_ids = [] then (g, bad_request ''dept_ids is required'')
       else audited_success E rid ''kb.share_to_depts'' tok (owner_cols tok kb_id)
              (lift_db (share_kb_to_depts E tok kb_id dept_ids (mask_argument permission_mask permission)) g))"

definition route_my_shares ::
  "env \<Rightarrow> config \<Rightarrow> string \<Rightarrow> gw \<Rightarrow> gw \<times> (dept_share list \<times> user_share list) response" where
  "route_my_shares E C header g = with_auth E C header g (\<lambda>tok.
     case list_all_shares tok (store g) of
       (s, Inr x) \<Rightarrow> (g, Ok 200 x)
     | (s, Inl (PermissionError m)) \<Rightarrow> (g, Err 403 ''forbidden'' (Raised (PermissionError m)))
     | (s, Inl e) \<Rightarrow> (g, Crash e))"

text \<open>\<open>text.split(",")\<close>.\<close>

fun split_comma :: "string \<Rightarrow> string list" where
  "split_comma [] = [[]]"
| "split_comma (c # cs) =
     (if c = CHR '','' then [] # split_comma cs
      else case split_comma cs of [] \<Rightarrow> [[c]] | p # ps \<Rightarrow> (c # p) # ps)"

definition route_parse_status ::
  "env \<Rightarrow> config \<Rightarrow> rag \<Rightarrow> string \<Rightarrow> string \<Rightarrow> string \<Rightarrow> gw \<Rightarrow> gw \<times> parse_status response" where
  "route_parse_status E C R header kb_id0 doc_ids0 g = with_auth E C header g (\<lambda>tok.
     let kb_id = str_strip kb_id0; text = str_strip doc_ids0;
         doc_ids = filter (\<lambda>d. d \<noteq> []) (map str_strip (split_comma text)) in
     if kb_id = [] \<or> text = [] then (g, bad_request ''kb_id and doc_ids are required'')
     else if doc_ids = [] then (g, bad_request ''doc_ids is empty'')
     else unaudited (get_parse_status C R tok kb_id doc_ids g))"

definition route_revoke_selective ::
  "env \<Rightarrow> config \<Rightarrow> string \<Rightarrow> string \<Rightarrow> string \<Rightarrow> string \<Rightarrow> string \<Rightarrow> gw \<Rightarrow> gw \<times> unit response" where
  "route_revoke_selective E C header rid kb_id revoke_type0 target_id0 g = with_auth E C header g (\<lambda>tok.
     let revoke_type = str_strip revoke_type0; target_id = str_strip target_id0 in
     if revoke_type = [] \<or> target_id = [] then (g, bad_request ''revoke_type and target_id are required'')
     else audited_success E rid ''kb.revoke_selective'' tok (owner_cols tok kb_id)
            (lift_db (selective_revoke E tok kb_id revoke_type target_id) g))"

text \<open>Only an administrator of the head department may leave the department open.\<close>

definition route_audit_logs ::
  "env \<Rightarrow> config \<Rightarrow> string \<Rightarrow> string \<Rightarrow> string \<Rightarrow> string \<Rightarrow> string \<Rightarrow> string \<Rightarrow> string \<Rightarrow> gw
     \<Rightarrow> gw \<times> audit_row list response" where
  "route_audit_logs E C header dept_id0 user_id0 action0 status0 page page_size g =
     with_auth E C header g (\<lambda>tok.
       let req_dept = opt_text dept_id0 in
       case page_args page page_size of
         None \<Rightarrow> (g, Crash (ValueError BadInteger))
       | Some (p, n) \<Rightarrow>
           let admin = is_mp_admin tok (store g);
               rows = (\<lambda>dept. list_audit_logs dept (opt_text user_id0) (opt_text action0) (opt_text status0)
                                p n (store g)) in
           if admin then (g, Ok 200 (rows req_dept))
           else (case req_dept of
                   Some d \<Rightarrow> if d \<notin> set (t_dept_ids tok)
                             then (g, Err 403 ''forbidden'' (Text ''dept not allowed''))
                             else (g, Ok 200 (rows req_dept))
                 | None \<Rightarrow> (g, Ok 200 (rows (t_default_dept_id tok)))))"

end
