(* ===== verification/GatewayInvariant.thy ===== *)
theory GatewayInvariant
  imports PortalRoutesKb
begin

text \<open>
  Every operation of the gateway and every route keeps an invariant of the database that
  the store's operations keep: proved once, in an extension of the locale \<open>store_ops\<close>, and
  interpreted for \<^term>\<open>store_ok\<close> (the schema's constraints and what the rows say).
\<close>

named_theorems gw_rules "gateway operations keep the invariant of the database"

locale gateway_ops = store_ops I for I :: "reference db \<Rightarrow> bool"
begin

abbreviation J :: "gw \<Rightarrow> bool" where
  "J g \<equiv> I (store g)"

subsection \<open>Sequencing\<close>

lemma J_and_then:
  "J (fst m) \<Longrightarrow> (\<And>x g. J g \<Longrightarrow> J (fst (f x g))) \<Longrightarrow> J (fst (and_then m f))"
  by (rule and_then_inv [where I = J])

lemma J_store [simp]: "J (g\<lparr>store := s\<rparr>) = I s"
  by simp

lemma J_registry [simp]: "J (g\<lparr>registry := r\<rparr>) = J g"
  by simp

lemma J_register_entry [simp]: "J (register_entry sid e g) = J g"
  by (simp add: register_entry_def)

lemma J_forget [simp]: "J (forget_sessions sids g) = J g"
  by (simp add: forget_sessions_def)

lemma J_audit [gw_rules]: "J g \<Longrightarrow> J (audit E rid ac st uo cols code msg g)"
  by (simp add: audit_def inv_audit)

lemma J_request [gw_rules]: "J g \<Longrightarrow> J (fst (rag_request c a g))"
  by simp

lemma J_lists [gw_rules]:
  "J g \<Longrightarrow> J (fst (list_agents R key p n i g))"
  "J g \<Longrightarrow> J (fst (list_datasets R key i g))"
  "J g \<Longrightarrow> J (fst (delete_datasets R key ids g))"
  by (simp_all add: list_agents_def list_datasets_def delete_datasets_def)

lemma J_on_store: "I (fst (f (store g))) \<Longrightarrow> J (fst (on_store f g))"
  by simp

subsection \<open>Sessions\<close>

lemma J_login [gw_rules]: "J g \<Longrightarrow> J (fst (login E C l p g))"
  by (auto simp: login_def Let_def inv_tick split: option.split)

lemma J_open_session [gw_rules]: "J g \<Longrightarrow> J (fst (open_session E sid uo d ag kbs pr ov g))"
  by (simp add: open_session_def inv_tick inv_open split: option.split)

lemma J_create_direct [gw_rules]: "J g \<Longrightarrow> J (fst (create_direct_session E tok d kbs pr g))"
  unfolding create_direct_session_def Let_def
  by (rule J_and_then) (simp_all add: J_open_session)

lemma J_dsl_kb_ids [gw_rules]: "J g \<Longrightarrow> J (fst (dsl_kb_ids C R key ag g))"
  using J_lists(1) [of g R key 1 1 "Some ag"]
  by (auto simp: dsl_kb_ids_def split: prod.split sum.split list.split)

lemma J_create_agent [gw_rules]: "J g \<Longrightarrow> J (fst (create_agent_session E C R tok d ag kbs pr g))"
proof -
  assume J: "J g"
  have open_it: "J (fst (and_then (open_session E sid uo d ag cl pr ov (register_entry sid e g2)) (\<lambda>_ g5. (g5, Inr x))))"
    if "J g2" for sid uo cl ov e g2 x
    by (rule J_and_then) (simp_all add: that J_open_session)
  show ?thesis
    unfolding create_agent_session_def Let_def
    by (auto simp: J J_lists split: option.split prod.split intro!: J_and_then open_it J_lists)
      (metis J_dsl_kb_ids fst_conv)+
qed

lemma J_create_session [gw_rules]: "J g \<Longrightarrow> J (fst (create_session E C R tok d ag kbs pr g))"
  by (simp add: create_session_def Let_def J_create_direct J_create_agent)

lemma J_delete_session [gw_rules]: "J g \<Longrightarrow> J (fst (delete_session E tok sid g))"
  using inv_close [of "store g" E sid "token_user tok"]
  by (auto simp: delete_session_def Let_def split: prod.split)

lemma J_privacy [gw_rules]: "J g \<Longrightarrow> J (fst (update_session_privacy E tok sid b g))"
  using inv_privacy [of "store g" E sid "token_user tok" b]
  by (auto simp: update_session_privacy_def Let_def split: prod.split)

subsection \<open>Questions\<close>

text \<open>Up to the messages that \<open>ask\<close> appends, a question leaves the database alone.\<close>

lemma J_try_urls [gw_rules]: "J g \<Longrightarrow> J (fst (try_urls R urls ms g))"
  by (induction R urls ms g rule: try_urls.induct)
    (auto intro!: J_and_then split: prod.split)

lemma J_direct_chat [gw_rules]: "J g \<Longrightarrow> J (fst (direct_chat C R ms g))"
  by (simp add: direct_chat_def J_try_urls)

lemma J_retrieve_groups [gw_rules]: "J g \<Longrightarrow> J (fst (retrieve_groups R q k grs g))"
proof (induction R q k grs g rule: retrieve_groups.induct)
  case (2 R q k key ids grs g)
  define m where "m = rag_request (Retrieve key ids q k) (\<lambda>n. on_retrieve R n key ids q k) g"
  have "J (fst m)" using 2(2) by (simp add: m_def)
  then have "J (fst (retrieve_groups R q k grs (fst m)))"
    using 2(1) [of m "fst m" "snd m"] by (simp add: m_def)
  then show ?case by (simp add: Let_def m_def split_beta)
qed simp

lemma J_retrieve [gw_rules]: "J g \<Longrightarrow> J (fst (multi_tenant_retrieve C R kbs q k ow g))"
  using J_retrieve_groups [of g R q k "key_groups (kb_key C ow (store g)) kbs []"]
  by (simp add: multi_tenant_retrieve_def Let_def split_beta)

lemma J_answer [gw_rules]:
  "J g \<Longrightarrow> J (fst (answer_or_failure C R ms g))"
  "J g \<Longrightarrow> J (fst (generate_answer C R q cs h g))"
  "J g \<Longrightarrow> J (fst (generate_answer_direct C R q cs h g))"
proof -
  show *: "J g \<Longrightarrow> J (fst (answer_or_failure C R ms g))" for ms g
    using J_direct_chat [of g C R ms] by (auto simp: answer_or_failure_def split: prod.split sum.split)
  show "J g \<Longrightarrow> J (fst (generate_answer C R q cs h g))"
    "J g \<Longrightarrow> J (fst (generate_answer_direct C R q cs h g))"
    by (simp_all add: generate_answer_def generate_answer_direct_def *)
qed

lemma J_load_session [gw_rules]: "J g \<Longrightarrow> J (fst (load_session sid g))"
  by (simp add: load_session_def Let_def split: option.split)

lemma J_recover [gw_rules]: "J g \<Longrightarrow> J (fst (recover_agent_session C R ag sid ow g))"
  using J_lists(1) [of g R "if ow = [] then api_key C else get_rag_client C ow g" 1 1 "Some ag"]
  by (auto simp: recover_agent_session_def Let_def split: prod.split sum.split list.split)
    (metis J_request fst_conv)+

lemma J_runtime_session [gw_rules]: "J g \<Longrightarrow> J (fst (runtime_session C R sid e g))"
  using J_recover [of g C R "e_agent_id e" sid "opt_or (e_agent_owner_id e) []"]
  by (auto simp: runtime_session_def split: option.split prod.split)

lemma J_ask_direct [gw_rules]: "J g \<Longrightarrow> J (fst (ask_direct C R sid q e g))"
  by (simp add: ask_direct_def split_beta J_answer J_retrieve J_and_then J_direct_chat)

lemma J_ask_agent_kb [gw_rules]: "J g \<Longrightarrow> J (fst (ask_agent_kb C R sid q e g))"
proof -
  assume J: "J g"
  define m where "m = multi_tenant_retrieve C R (e_kb_ids e) q 8 (opt_or (e_agent_owner_id e) []) g"
  define r where "r = runtime_session C R sid e (fst m)"
  have "J (fst r)" unfolding r_def m_def by (intro J_runtime_session J_retrieve J)
  then show ?thesis
    by (auto simp: ask_agent_kb_def Let_def split_beta m_def r_def split: option.split sum.split
        intro!: J_and_then J_direct_chat)
qed

lemma J_ask_agent [gw_rules]: "J g \<Longrightarrow> J (fst (ask_agent C R sid q e g))"
proof -
  assume J: "J g"
  define r where "r = runtime_session C R sid e g"
  have "J (fst r)" unfolding r_def by (intro J_runtime_session J)
  then show ?thesis
    by (auto simp: ask_agent_def Let_def split_beta r_def split: option.split sum.split
        intro!: J_and_then J_direct_chat)
qed

lemma J_ask [gw_rules]: "J g \<Longrightarrow> J (fst (ask E C R tok sid q g))"
proof -
  assume J: "J g"
  have "J (fst (load_session sid g))" by (rule J_load_session [OF J])
  then show ?thesis
    by (auto simp: ask_def split_beta split: option.split
        intro!: J_and_then J_ask_direct J_ask_agent_kb J_ask_agent inv_message)
qed

lemma J_history [gw_rules]: "J g \<Longrightarrow> J (fst (get_history tok sid g))"
  using J_load_session [of g sid] by (auto simp: get_history_def split: prod.split option.split)

subsection \<open>Agents and knowledge bases\<close>

lemma inv_claim:
  "I s \<Longrightarrow> I (fst (claim_resource E rt rid u d v cat kc s))"
  "I s \<Longrightarrow> I (fst (claim_agent E u d i s))" "I s \<Longrightarrow> I (fst (claim_kb E u d i s))"
  by (simp_all add: claim_resource_def claim_agent_def claim_kb_def inv_upsert split: option.split)

lemma J_on_storeD: "on_store f g = (g', r) \<Longrightarrow> I (fst (f (store g))) \<Longrightarrow> J g'"
  by (metis J_on_store fst_conv)

lemma J_agent_batch: "J g \<Longrightarrow> J (fst (agent_batch E u d batch seen acc g))"
proof (induction E u d batch seen acc g rule: agent_batch.induct)
  case (2 E u d a xs seen acc g)
  obtain g1 r where l: "on_store (claim_agent E u d (ag_id a)) g = (g1, r)" by fastforce
  then have "J g1" using 2(3) by (rule J_on_storeD [OF _ inv_claim(2)])
  then show ?case using 2(1,2,3) l by (cases r) simp_all
qed simp

text \<open>Where the pages end, the database still satisfies the invariant.\<close>

lemma J_agent_pages_aux:
  assumes a: "agent_pages E R key u d page seen acc g = Some y"
  shows "J g \<longrightarrow> J (fst y)"
proof (rule agent_pages.raw_induct
    [where P = "\<lambda>E R key u d page seen acc g y. J g \<longrightarrow> J (fst y)", OF _ a], goal_cases)
  case (1 pages E R key u d page seen acc g y)
  have L: "J (fst (list_agents R key page 200 None g))" if "J g" using that by (rule J_lists)
  show ?case
  proof
    assume "J g"
    with L have 0: "J (fst (list_agents R key page 200 None g))" .
    obtain g1 r where l: "list_agents R key page 200 None g = (g1, r)" by fastforce
    with 0 have J1: "J g1" by simp
    show "J (fst y)"
    proof (cases r)
      case (Inl e) then show ?thesis using 1(2) J1 l by (auto split: prod.splits)
    next
      case (Inr batch)
      obtain g2 s2 a2 ok where b: "agent_batch E u d batch seen acc g1 = (g2, s2, a2, ok)"
        by (metis prod_cases4)
      with J_agent_batch [OF J1, of E u d batch seen acc] have "J g2" by simp
      then show ?thesis using 1(1) 1(2) J1 l b Inr by (auto split: if_splits)
    qed
  qed
qed

lemma J_agent_pages:
  "agent_pages E R key u d page seen acc g = Some (g', seen', acc') \<Longrightarrow> J g \<Longrightarrow> J g'"
  using J_agent_pages_aux by fastforce

lemma J_agents_of_users:
  "agents_of_users E C R us seen acc g = Some (g', as') \<Longrightarrow> J g \<Longrightarrow> J g'"
proof (induction E C R us seen acc g rule: agents_of_users.induct)
  case (2 E C R u t d us seen acc g)
  then show ?case by (auto split: option.splits prod.splits dest: J_agent_pages)
qed simp

lemma J_ensure_agents: "ensure_agent_policies E C R g = Some (g', as') \<Longrightarrow> J g \<Longrightarrow> J g'"
  by (auto simp: ensure_agent_policies_def Let_def split: if_splits dest: J_agents_of_users)

lemma J_kb_batch: "J g \<Longrightarrow> J (fst (kb_batch E u d ds seen acc g))"
proof (induction E u d ds seen acc g rule: kb_batch.induct)
  case (2 E u d a xs seen acc g)
  obtain g1 r where l: "on_store (claim_kb E u d (da_id a)) g = (g1, r)" by fastforce
  then have "J g1" using 2(3) by (rule J_on_storeD [OF _ inv_claim(3)])
  then show ?case using 2(1,2,3) l by (cases r) simp_all
qed simp

lemma J_kbs_of_users: "J g \<Longrightarrow> J (fst (kbs_of_users E C R us seen acc g))"
proof (induction E C R us seen acc g rule: kbs_of_users.induct)
  case (2 E C R u t d us seen acc g)
  obtain g1 r where l: "list_datasets R (get_rag_client C u g) None g = (g1, r)" by fastforce
  with 2(3) J_lists(2) [of g R "get_rag_client C u g" None] have J1: "J g1" by simp
  show ?case
  proof (cases r)
    case (Inl e) then show ?thesis using 2(1) J1 l by simp
  next
    case (Inr ds)
    obtain g2 s2 a2 where b: "kb_batch E u d ds seen acc g1 = (g2, s2, a2)" by (metis prod_cases3)
    with J_kb_batch [OF J1, of E u d ds seen acc] have "J g2" by simp
    then show ?thesis using 2(2) l b Inr by simp
  qed
qed simp

lemma J_ensure_kbs [gw_rules]: "J g \<Longrightarrow> J (fst (ensure_kb_policies E C R g))"
  using J_kbs_of_users [of g E C R "get_all_users_with_ragflow_token (store g)" "{}" "[]"]
  by (auto simp: ensure_kb_policies_def Let_def split_beta inv_stale J_lists)

lemma J_bootstrap:
  assumes "\<And>x s. I s \<Longrightarrow> I (fst (put x s))"
  shows "J g \<Longrightarrow> J (fst (bootstrap_all put xs n g))"
proof (induction xs arbitrary: n g)
  case (Cons x xs)
  have "J (fst (on_store (put x) g))" using Cons.prems assms by simp
  then show ?case using Cons.IH by (simp add: J_and_then)
qed simp

lemma J_bootstraps [gw_rules]:
  "J g \<Longrightarrow> J (fst (bootstrap_agents E C R wc u g))" "J g \<Longrightarrow> J (fst (bootstrap_kbs E C R u g))"
  by (auto simp: bootstrap_agents_def bootstrap_kbs_def intro!: J_and_then J_bootstrap J_lists inv_upsert)

lemma J_list_resources: "list_resources E C R tok d rt g = Some out \<Longrightarrow> J g \<Longrightarrow> J (fst out)"
  by (auto simp: list_resources_def Let_def split: if_splits option.splits
      dest!: J_ensure_agents intro!: J_and_then J_ensure_kbs)

lemma inv_file_payload: "I s \<Longrightarrow> I (fst (file_payload E fs s))"
proof (induction E fs s rule: file_payload.induct)
  case (2 E nm blob fs s)
  then show ?case by (auto simp: Let_def inv_tick split: prod.split if_splits)
qed simp

lemma J_upload [gw_rules]: "J g \<Longrightarrow> J (fst (upload_kb_for_dept E C R tok d nm fs descr pr g))"
  unfolding upload_kb_for_dept_def Let_def
  by (auto simp: split_beta intro!: J_and_then J_lists inv_file_payload inv_upsert
      split: sum.split option.split)

lemma J_poll_docs [gw_rules]: "J g \<Longrightarrow> J (fst (poll_docs R key kb ids p g))"
  by (induction R key kb ids p g rule: poll_docs.induct) (simp_all add: Let_def split_beta)

lemma J_parse_status [gw_rules]: "J g \<Longrightarrow> J (fst (get_parse_status C R tok kb ids g))"
  unfolding get_parse_status_def Let_def
  by (auto intro!: J_and_then J_lists simp: split_beta J_poll_docs)

lemma J_drop_kb: "J g \<Longrightarrow> J (fst (drop_kb E kb g))"
  by (simp add: drop_kb_def split_beta Let_def inv_deactivate inv_cascade)

lemma J_delete_private [gw_rules]: "J g \<Longrightarrow> J (fst (delete_private_kb E C R tok kb g))"
  unfolding delete_private_kb_def Let_def
  by (auto intro!: J_and_then J_lists simp: J_drop_kb split: option.split)

lemma J_delete_each [gw_rules]: "J g \<Longrightarrow> J (fst (delete_each E C R tok mp kbs del reps g))"
proof (induction kbs arbitrary: del reps g)
  case (Cons kb kbs)
  have "J (fst (delete_each E C R tok mp kbs del' reps' (fst (drop_kb E kb g'))))" if "J g'" for del' reps' g'
    by (rule Cons.IH) (rule J_drop_kb [OF that])
  then show ?case using Cons.prems
    by (auto simp: Let_def split_beta intro!: J_and_then J_lists split: option.split)
qed simp

lemma J_delete_kbs [gw_rules]: "J g \<Longrightarrow> J (fst (delete_kbs E C R tok kbs g))"
  by (simp add: delete_kbs_def J_delete_each)

subsection \<open>Routes\<close>

lemma J_with_auth: "J g \<Longrightarrow> (\<And>tok. J (fst (f tok))) \<Longrightarrow> J (fst (with_auth E C h g f))"
  by (simp add: with_auth_def split: option.split)

lemma J_audited: "J (fst out) \<Longrightarrow> J (fst (audited E rid ac tok vs vc bad good out))"
  by (auto simp: audited_def J_audit split: prod.split sum.split py_error.split)

lemma J_audited_success: "J (fst out) \<Longrightarrow> J (fst (audited_success E rid ac tok cols out))"
  by (auto simp: audited_success_def J_audit split: prod.split sum.split py_error.split)

lemma J_unaudited: "J (fst out) \<Longrightarrow> J (fst (unaudited out))"
  by (auto simp: unaudited_def split: prod.split sum.split py_error.split)

lemma J_lift: "I (fst (f (store g))) \<Longrightarrow> J (fst (lift_db f g))"
  by (simp add: lift_db_def)

lemmas J_wrappers = J_with_auth J_audited J_audited_success J_unaudited J_lift J_audit

lemma J_route_login [gw_rules]: "J g \<Longrightarrow> J (fst (route_login E C rid a b c g))"
  using J_login [of g E C] by (auto simp: route_login_def Let_def J_audit split: prod.split option.split)
    (metis J_audit J_login fst_conv)+

lemma J_rag_register: "J g \<Longrightarrow> J (fst (rag_register C R l p g))"
proof -
  assume J: "J g"
  have r: "rag_request c a g' = (g2, x) \<Longrightarrow> J g' \<Longrightarrow> J g2" for c and a :: "nat \<Rightarrow> 'c option" and g' g2 x
    by (metis J_request fst_conv)
  show ?thesis
    using J by (auto simp: rag_register_def Let_def split: option.split prod.split sum.split dest: r)
qed

lemma J_route_register [gw_rules]: "J g \<Longrightarrow> J (fst (route_register E C R rid l p dn de g))"
proof -
  assume J: "J g"
  define m where "m = rag_register C R (str_strip l) (str_strip p) g"
  have Jm: "J (fst m)" unfolding m_def by (rule J_rag_register [OF J])
  show ?thesis
  proof (cases m)
    case (Pair g1 r)
    with Jm have J1: "J g1" by simp
    have reg: "on_store (register_user E l' p' dn' de' ro ru rt) g1 = (g2, x) \<Longrightarrow> J g2"
      for l' p' dn' de' ro ru rt g2 x
      using J1 by (auto intro: J_on_storeD inv_register)
    show ?thesis
      using J J1 Pair
      by (auto simp: route_register_def Let_def m_def [symmetric] J_audit
          split: sum.split prod.split py_error.split dest: reg)
  qed
qed

lemma J_route_delete_account [gw_rules]: "J g \<Longrightarrow> J (fst (route_delete_account E C R h rid g))"
  unfolding route_delete_account_def Let_def
  by (auto intro!: J_wrappers simp: inv_delete_user inv_audit)

lemma J_route_readers [gw_rules]:
  assumes "J g"
  shows "J (fst (route_me E C h g))" "J (fst (route_departments E C h sa g))"
    "J (fst (route_share_targets E C h g))" "J (fst (route_search_users E C h q g))"
    "J (fst (route_list_sessions E C h d g))" "J (fst (route_list_shares E C h kb g))"
    "J (fst (route_list_requests E C h st od g))"
    "J (fst (route_list_policies E C h rt od vi ca pa ps g))"
    "J (fst (route_my_shares E C h g))" "J (fst (route_audit_logs E C h a1 a2 a3 a4 a5 a6 g))"
  using assms
  by (auto simp: route_me_def route_departments_def route_share_targets_def route_search_users_def
      route_list_sessions_def route_list_shares_def route_list_requests_def route_list_policies_def
      route_my_shares_def route_audit_logs_def admin_required_def Let_def
      intro!: J_with_auth split: option.split prod.split sum.split py_error.split)

lemma J_route_sessions [gw_rules]:
  assumes "J g"
  shows "J (fst (route_create_session E C R h rid d ag kbs pr g))"
    "J (fst (route_delete_session E C h rid sid g))"
    "J (fst (route_session_privacy E C h rid sid pr g))"
    "J (fst (route_chat E C R h rid sid q g))" "J (fst (route_history E C h sid g))"
proof -
  show "J (fst (route_create_session E C R h rid d ag kbs pr g))" "J (fst (route_chat E C R h rid sid q g))"
    using assms
    by (auto simp: route_create_session_def route_chat_def Let_def
        intro!: J_with_auth J_audited J_create_session J_ask)
  have del: "delete_session E tok sid g = (g1, ok) \<Longrightarrow> J g1"
    and pri: "update_session_privacy E tok sid pr g = (g1, ok) \<Longrightarrow> J g1"
    and his: "get_history tok sid g = (g1, r) \<Longrightarrow> J g1" for tok g1 ok r
    using assms by (metis J_delete_session J_privacy J_history fst_conv)+
  show "J (fst (route_delete_session E C h rid sid g))" "J (fst (route_session_privacy E C h rid sid pr g))"
    using assms
    by (auto simp: route_delete_session_def route_session_privacy_def intro!: J_with_auth
        split: prod.split bool.split dest: del pri intro!: J_audit)
  show "J (fst (route_history E C h sid g))"
    using assms
    by (auto simp: route_history_def intro!: J_with_auth split: prod.split sum.split py_error.split dest: his)
qed

lemma J_route_sharing [gw_rules]:
  assumes "J g"
  shows "J (fst (route_request_share E C h rid kb sc ds lo re pe g))"
    "J (fst (route_share_internal E C h rid kb g))"
    "J (fst (route_review E C h rid ap q c g))"
    "J (fst (route_unshare E C h rid kb g))"
    "J (fst (route_share_to_depts E C h rid kb ds mo pe g))"
    "J (fst (route_revoke_selective E C h rid kb ty ta g))"
  using assms
  by (auto simp: route_request_share_def route_share_internal_def route_review_def route_unshare_def
      route_share_to_depts_def route_revoke_selective_def Let_def intro!: J_wrappers inv_share)

lemma J_route_review_two [gw_rules]:
  "J g \<Longrightarrow> J (fst (route_approve E C h rid q c g))" "J g \<Longrightarrow> J (fst (route_reject E C h rid q c g))"
  by (simp_all add: route_approve_def route_reject_def J_route_sharing)

lemma J_route_share_to_user [gw_rules]: "J g \<Longrightarrow> J (fst (route_share_to_user E C h rid kb lo pe g))"
proof -
  assume J: "J g"
  have sh: "lift_db (share_kb_to_user E tok kb lo' pe') g = (g1, r) \<Longrightarrow> J g1" for tok lo' pe' g1 r
    using J by (auto simp: lift_db_def intro: J_on_storeD inv_share_to_user)
  show ?thesis
    using J by (auto simp: route_share_to_user_def Let_def intro!: J_with_auth J_audit
        split: prod.split sum.split py_error.split dest: sh)
qed

lemma J_route_dismiss [gw_rules]: "J g \<Longrightarrow> J (fst (route_dismiss E C h rid q g))"
proof -
  assume J: "J g"
  have del: "delete_kb_share_request q (store g) = (s, b) \<Longrightarrow> I s" for s b
    using J by (metis inv_dismiss fst_conv)
  show ?thesis
    using J by (auto simp: route_dismiss_def intro!: J_with_auth J_audit
        split: option.split prod.split bool.split dest!: del)
qed

lemma J_route_kbs [gw_rules]:
  assumes "J g"
  shows "J (fst (route_upload E C R h rid d nm de pr fs g))"
    "J (fst (route_delete_private E C R h rid kb g))" "J (fst (route_delete_kbs E C R h rid kbs g))"
    "J (fst (route_parse_status E C R h kb ds g))"
  using assms
  by (auto simp: route_upload_def route_delete_private_def route_delete_kbs_def route_parse_status_def Let_def
      intro!: J_with_auth J_audited J_unaudited J_upload J_delete_private J_delete_kbs J_parse_status)

lemma J_route_upsert_policy [gw_rules]:
  "J g \<Longrightarrow> J (fst (route_upsert_policy E C h rt rid od vi ca al de ro g))"
proof -
  assume J: "J g"
  have up: "on_store (upsert_policy E rt' rid' od' vi' cb' ou' al' de' ro' ca') g = (g1, r) \<Longrightarrow> J g1"
    for rt' rid' od' vi' cb' ou' al' de' ro' ca' g1 r
    using J by (auto intro: J_on_storeD inv_upsert)
  show ?thesis
    using J by (auto simp: route_upsert_policy_def admin_required_def Let_def intro!: J_with_auth
        split: prod.split sum.split dest: up)
qed

lemma J_route_bootstrap: 
  assumes "J g" and "\<And>u. J (fst (run u g))"
  shows "J (fst (route_bootstrap E C h rid ac ty run g))"
proof -
  have r: "run u g = (g1, x) \<Longrightarrow> J g1" for u g1 x using assms(2) by (metis fst_conv)
  show ?thesis
    using assms(1) by (auto simp: route_bootstrap_def admin_required_def Let_def intro!: J_with_auth J_audit
        split: prod.split sum.split dest: r)
qed

lemma J_route_bootstraps [gw_rules]:
  "J g \<Longrightarrow> J (fst (route_bootstrap_agents E C R wc h rid g))"
  "J g \<Longrightarrow> J (fst (route_bootstrap_kbs E C R h rid g))"
  by (simp_all add: route_bootstrap_agents_def route_bootstrap_kbs_def J_route_bootstrap J_bootstraps)

lemma J_route_resources: "route_resources E C R h rid d rt g = Some out \<Longrightarrow> J g \<Longrightarrow> J (fst out)"
proof -
  assume o: "route_resources E C R h rid d rt g = Some out" and J: "J g"
  have l: "J (fst x)" if "list_resources E C R tok d' rt' g = Some x" for tok d' rt' x
    using that J by (rule J_list_resources)
  show ?thesis
    using o J by (auto simp: route_resources_def Let_def split: option.splits if_splits
        dest!: l) (auto intro!: J_audit split: sum.splits py_error.splits)
qed

end

end
