(* ===== verification/Portal.thy ===== *)
theory Portal
  imports GatewayInvariant
begin

text \<open>
  The running portal: the configuration read at start, the start itself (seeding, then the
  RAGFlow accounts that are still missing), the dispatch of a request to its view function,
  and the steps of the server.  A request is one step; the store calls of concurrent requests
  are also given as a relation of their own (\<open>store_step\<close>), since each of them is a transaction.
\<close>

subsection \<open>Configuration\<close>

text \<open>\<open>sha256_hex\<close> is \<open>hashlib.sha256(text).hexdigest()\<close>; \<open>default_db\<close> the path beside the source file.\<close>

definition getenv :: "(string \<Rightarrow> string option) \<Rightarrow> string \<Rightarrow> string \<Rightarrow> string" where
  "getenv vars name dflt = (case vars name of None \<Rightarrow> dflt | Some v \<Rightarrow> v)"

definition load_portal_config_from_env ::
  "(string \<Rightarrow> string option) \<Rightarrow> (string \<Rightarrow> string) \<Rightarrow> string \<Rightarrow> py_error + portal_config" where
  "load_portal_config_from_env vars sha256_hex default_db =
     (let key = str_strip (getenv vars ''RAGFLOW_API_KEY'' []) in
      if key = [] then Inl (RuntimeError ''RAGFLOW_API_KEY is required'')
      else
        let secret = str_or (str_strip (getenv vars ''PORTAL_AUTH_SECRET'' [])) (sha256_hex (key @ ''portal''))
        in case py_int (getenv vars ''PORTAL_TOKEN_TTL_SECONDS'' ''28800'') of
             None \<Rightarrow> Inl (ValueError BadInteger)
           | Some ttl \<Rightarrow> Inr
               \<lparr>api_key = key,
                base_url = str_strip (getenv vars ''RAGFLOW_BASE_URL'' ''http://127.0.0.1:9380''),
                db_path = str_strip (getenv vars ''PORTAL_DB_PATH'' default_db),
                auth_secret = secret,
                direct_chat_url = str_strip (getenv vars ''DIRECT_CHAT_URL''
                  ''https://apimgateway.siemens-healthineers.com''),
                direct_chat_api_key = str_strip (getenv vars ''DIRECT_CHAT_API_KEY'' ''YOUR_API_KEY_HERE''),
                direct_chat_model = str_strip (getenv vars ''DIRECT_CHAT_MODEL'' ''gpt-4o''),
                token_ttl_seconds = ttl\<rparr>)"

subsection \<open>Start\<close>

text \<open>
  One account of the loop: registered in RAGFlow (or already there), logged in for its token,
  given an API key; linked when both the id and the key are known.  Every exception ends
  this account's turn only.
\<close>

definition link_account :: "env \<Rightarrow> config \<Rightarrow> rag \<Rightarrow> string \<Rightarrow> string \<Rightarrow> gw \<Rightarrow> gw" where
  "link_account E C R user_id login_id g =
     (let email = rag_email login_id in
      case encrypt_password C ''12345678'' of
        None \<Rightarrow> g
      | Some pw \<Rightarrow>
          (case rag_request (RegisterAccount login_id email pw) (\<lambda>n. on_register R n login_id email pw) g of
             (g1, Inl _) \<Rightarrow> g1
           | (g1, Inr (code, uid, msg)) \<Rightarrow>
               if code \<noteq> 0 \<and> \<not> str_in ''already registered'' (str_lower msg) then g1
               else
                 let uid0 = (if code = 0 then uid else []) in
                 (case rag_request (LoginAccount email pw) (\<lambda>n. on_login R n email pw) g1 of
                    (g2, Inl _) \<Rightarrow> g2
                  | (g2, Inr (_, luid, jwt)) \<Rightarrow>
                      if jwt = [] then g2
                      else
                        let uid1 = str_or uid0 luid in
                        (case rag_request (NewApiKey jwt) (\<lambda>n. on_new_key R n jwt) g2 of
                           (g3, Inl _) \<Rightarrow> g3
                         | (g3, Inr (kcode, key)) \<Rightarrow>
                             if uid1 \<noteq> [] \<and> kcode = 0 \<and> key \<noteq> []
                             then upd_store (update_user_ragflow E user_id uid1 key) g3 else g3))))"

definition ensure_ragflow_accounts :: "env \<Rightarrow> config \<Rightarrow> rag \<Rightarrow> gw \<Rightarrow> gw" where
  "ensure_ragflow_accounts E C R g =
     fold (\<lambda>(user_id, login_id). link_account E C R user_id login_id)
       (get_all_users_without_ragflow (store g)) g"

text \<open>
  \<open>PortalGateway.__init__\<close>: the database is seeded in one transaction, the registry of
  sessions starts empty.
\<close>

definition start_portal :: "env \<Rightarrow> config \<Rightarrow> rag \<Rightarrow> gw \<Rightarrow> (gw, unit) outcome" where
  "start_portal E C R g =
     (case seed_defaults E (store g) of
        Inl e \<Rightarrow> (upd_store tick g, Inl e)
      | Inr s \<Rightarrow> (ensure_ragflow_accounts E C R (g\<lparr>store := s, registry := Map.empty\<rparr>), Inr ()))"

definition blank_gw :: gw where
  "blank_gw = \<lparr>store = empty_db, registry = Map.empty, outbox = []\<rparr>"

subsection \<open>Requests\<close>

text \<open>
  One constructor per view function, with the fields of its request.  The alias routes run the
  same view functions; \<open>Preflight\<close> is an \<open>OPTIONS\<close> request.
\<close>

datatype http_request =
    Preflight
  | Login string string string
  | Register string string string string
  | Me
  | DeleteAccountReq
  | Departments string
  | SearchUsers string
  | ShareTargets
  | Resources string string
  | OpenSession string string "string list" bool
  | ListSessionsReq string
  | CloseSession string
  | SessionPrivacy string bool
  | Chat string string
  | History string
  | Upload string string string string "(string \<times> string) list"
  | RequestShare string string "string list" string string string
  | ShareInternal string
  | ShareToUser string string string
  | ListShares string
  | ListRequests string string
  | Approve string string
  | Reject string string
  | Dismiss string
  | Unshare string
  | DeletePrivate string
  | DeleteKbs "string list"
  | ListPolicies string string string string string string
  | PutPolicy string string string string string "string list" "string list" "string list"
  | BootstrapKbs
  | BootstrapAgents
  | ShareToDepts string "string list" "int option" string
  | MyShares
  | ParseStatusReq string string
  | RevokeSelective string string string
  | AuditLogs string string string string string string

text \<open>The data of an answer.\<close>

datatype body =
    BLogin login_result | BRegistration registration | BMe me_view | BFlag bool
  | BDepartments "department_row list" | BUsers "user_hit list" | BResources "resource_item list"
  | BOpened opened | BSessions "session_row list" | BAsked asked | BMessages "reference message_row list"
  | BUpload upload_result | BRequest "request_row option" | BPolicy "policy_row option"
  | BShare share_result | BShares "share_view list" | BRequests "(request_row \<times> string option) list"
  | BDeleted "string list" "cleanup_report list" | BPolicies "policy_row list" | BCounts nat nat
  | BAllShares "dept_share list" "user_share list" | BParse parse_status | BDone
  | BAudit "audit_row list"

definition answer :: "('a \<Rightarrow> body) \<Rightarrow> gw \<times> 'a response \<Rightarrow> (gw \<times> body response) option" where
  "answer f out = Some (map_prod id (map_response f) out)"

text \<open>\<open>h\<close> is the \<open>Authorization\<close> header, \<open>rid\<close> the request id; \<^term>\<open>None\<close>: the view does not return.\<close>

fun handle ::
  "env \<Rightarrow> config \<Rightarrow> rag \<Rightarrow> (string \<Rightarrow> bool) \<Rightarrow> string \<Rightarrow> string \<Rightarrow> http_request \<Rightarrow> gw
     \<Rightarrow> (gw \<times> body response) option" where
  "handle E C R wc h rid Preflight g = Some (g, NoContent)"
| "handle E C R wc h rid (Login u l p) g = answer BLogin (route_login E C rid u l p g)"
| "handle E C R wc h rid (Register l p n d) g = answer BRegistration (route_register E C R rid l p n d g)"
| "handle E C R wc h rid Me g = answer BMe (route_me E C h g)"
| "handle E C R wc h rid DeleteAccountReq g = answer BFlag (route_delete_account E C R h rid g)"
| "handle E C R wc h rid (Departments sa) g = answer BDepartments (route_departments E C h sa g)"
| "handle E C R wc h rid (SearchUsers q) g = answer BUsers (route_search_users E C h q g)"
| "handle E C R wc h rid ShareTargets g = answer BDepartments (route_share_targets E C h g)"
| "handle E C R wc h rid (Resources d t) g =
     (case route_resources E C R h rid d t g of None \<Rightarrow> None | Some out \<Rightarrow> answer BResources out)"
| "handle E C R wc h rid (OpenSession d a ks pr) g = answer BOpened (route_create_session E C R h rid d a ks pr g)"
| "handle E C R wc h rid (ListSessionsReq d) g = answer BSessions (route_list_sessions E C h d g)"
| "handle E C R wc h rid (CloseSession i) g = answer BFlag (route_delete_session E C h rid i g)"
| "handle E C R wc h rid (SessionPrivacy i pr) g = answer BFlag (route_session_privacy E C h rid i pr g)"
| "handle E C R wc h rid (Chat i q) g = answer BAsked (route_chat E C R h rid i q g)"
| "handle E C R wc h rid (History i) g = answer BMessages (route_history E C h i g)"
| "handle E C R wc h rid (Upload d n ds pr fs) g = answer BUpload (route_upload E C R h rid d n ds pr fs g)"
| "handle E C R wc h rid (RequestShare k sc ds l re pe) g =
     answer BRequest (route_request_share E C h rid k sc ds l re pe g)"
| "handle E C R wc h rid (ShareInternal k) g = answer BPolicy (route_share_internal E C h rid k g)"
| "handle E C R wc h rid (ShareToUser k l pe) g = answer BShare (route_share_to_user E C h rid k l pe g)"
| "handle E C R wc h rid (ListShares k) g = answer BShares (route_list_shares E C h k g)"
| "handle E C R wc h rid (ListRequests st od) g = answer BRequests (route_list_requests E C h st od g)"
| "handle E C R wc h rid (Approve q c) g = answer (\<lambda>r. BRequest (Some r)) (route_approve E C h rid q c g)"
| "handle E C R wc h rid (Reject q c) g = answer (\<lambda>r. BRequest (Some r)) (route_reject E C h rid q c g)"
| "handle E C R wc h rid (Dismiss q) g = answer BFlag (route_dismiss E C h rid q g)"
| "handle E C R wc h rid (Unshare k) g = answer BPolicy (route_unshare E C h rid k g)"
| "handle E C R wc h rid (DeletePrivate k) g = answer BFlag (route_delete_private E C R h rid k g)"
| "handle E C R wc h rid (DeleteKbs ks) g =
     answer (\<lambda>(ds, rs). BDeleted ds rs) (route_delete_kbs E C R h rid ks g)"
| "handle E C R wc h rid (ListPolicies t od vi ca pa ps) g =
     answer BPolicies (route_list_policies E C h t od vi ca pa ps g)"
| "handle E C R wc h rid (PutPolicy t i od vi ca al de ro) g =
     answer BPolicy (route_upsert_policy E C h t i od vi ca al de ro g)"
| "handle E C R wc h rid BootstrapKbs g = answer (\<lambda>(a, b). BCounts a b) (route_bootstrap_kbs E C R h rid g)"
| "handle E C R wc h rid BootstrapAgents g =
     answer (\<lambda>(a, b). BCounts a b) (route_bootstrap_agents E C R wc h rid g)"
| "handle E C R wc h rid (ShareToDepts k ds m pe) g =
     answer BPolicy (route_share_to_depts E C h rid k ds m pe g)"
| "handle E C R wc h rid MyShares g = answer (\<lambda>(a, b). BAllShares a b) (route_my_shares E C h g)"
| "handle E C R wc h rid (ParseStatusReq k ds) g = answer BParse (route_parse_status E C R h k ds g)"
| "handle E C R wc h rid (RevokeSelective k t i) g =
     answer (\<lambda>_. BDone) (route_revoke_selective E C h rid k t i g)"
| "handle E C R wc h rid (AuditLogs a1 a2 a3 a4 a5 a6) g =
     answer BAudit (route_audit_logs E C h a1 a2 a3 a4 a5 a6 g)"

lemma answer_Some [simp]: "answer f out = Some (g', r) \<longleftrightarrow> g' = fst out \<and> r = map_response f (snd out)"
  by (cases out) (auto simp: answer_def)

subsection \<open>Steps of the server\<close>

inductive portal_step :: "env \<Rightarrow> config \<Rightarrow> rag \<Rightarrow> (string \<Rightarrow> bool) \<Rightarrow> gw \<Rightarrow> gw \<Rightarrow> bool"
  for E C R wc where
  served: "handle E C R wc h rid req g = Some (g', r) \<Longrightarrow> portal_step E C R wc g g'"
| clock: "portal_step E C R wc g (upd_store tick g)"
| restarted: "start_portal E C R g = (g', r) \<Longrightarrow> portal_step E C R wc g g'"

inductive_cases portal_stepE: "portal_step E C R wc g g'"

definition initial :: "env \<Rightarrow> config \<Rightarrow> rag \<Rightarrow> gw \<Rightarrow> bool" where
  "initial E C R g \<longleftrightarrow> start_portal E C R blank_gw = (g, Inr ())"

subsection \<open>Invariants of the database along the steps\<close>

context gateway_ops begin

text \<open>Whatever the request, its header and the answers of the services.\<close>

lemma J_handle: "handle E C R wc h rid req g = Some (g', r) \<Longrightarrow> J g \<Longrightarrow> J g'"
  by (cases req) (auto simp: gw_rules split: option.splits dest: J_route_resources)

end

locale portal_ops = gateway_ops I for I :: "reference db \<Rightarrow> bool" +
  assumes inv_seed: "I s \<Longrightarrow> seed_defaults E s = Inr s' \<Longrightarrow> I s'"
begin

lemma J_link: "J g \<Longrightarrow> J (link_account E C R u l g)"
proof -
  assume J: "J g"
  have r: "rag_request c a g' = (g2, x) \<Longrightarrow> J g' \<Longrightarrow> J g2" for c and a :: "nat \<Rightarrow> 'c option" and g' g2 x
    by (metis J_request fst_conv)
  show ?thesis
    using J by (auto simp: link_account_def Let_def inv_link split: option.split prod.split sum.split
        dest!: r)
qed

lemma J_accounts: "J g \<Longrightarrow> J (ensure_ragflow_accounts E C R g)"
  unfolding ensure_ragflow_accounts_def
  by (rule fold_inv [where I = J]) (auto simp: J_link split: prod.split)

lemma J_start: "J g \<Longrightarrow> J (fst (start_portal E C R g))"
  by (auto simp: start_portal_def inv_tick inv_seed intro!: J_accounts split: sum.split)

lemma J_step: "portal_step E C R wc g g' \<Longrightarrow> J g \<Longrightarrow> J g'"
  by (auto elim!: portal_stepE simp: inv_tick dest: J_handle) (metis J_start fst_conv)

lemma J_steps: "(portal_step E C R wc)\<^sup>*\<^sup>* g g' \<Longrightarrow> J g \<Longrightarrow> J g'"
  by (induction rule: rtranclp_induct) (auto dest: J_step)

end

subsection \<open>What seeding leaves alone\<close>

definition same_records :: "'ref db \<Rightarrow> 'ref db \<Rightarrow> bool" where
  "same_records s s' \<longleftrightarrow> kb_shares s' = kb_shares s \<and> kb_share_requests s' = kb_share_requests s \<and>
     audit_logs s' = audit_logs s \<and> resource_policies s' = resource_policies s \<and>
     portal_sessions s' = portal_sessions s \<and> portal_messages s' = portal_messages s"

lemma same_records_refl: "same_records s s"
  by (simp add: same_records_def)

lemma same_records_steps:
  "same_records s (tick s)" "same_records s (add_membership t u d ro df s)"
  "insert_department dr s = Inr s1 \<Longrightarrow> same_records s s1" "insert_user ur s = Inr s1 \<Longrightarrow> same_records s s1"
  by (auto simp: same_records_def insert_department_def insert_user_def split: if_splits)

lemma same_records_trans: "same_records s s1 \<Longrightarrow> same_records s1 s2 \<Longrightarrow> same_records s s2"
  by (simp add: same_records_def)

lemma same_records_fold:
  assumes "\<And>x s s'. f x s = Inr s' \<Longrightarrow> same_records s s'" and "sum_fold f xs s = Inr s'"
  shows "same_records s s'"
  by (rule sum_fold_inv [where I = "same_records s", OF _ _ assms(2)])
    (blast intro: assms(1) same_records_trans same_records_refl)+

lemma same_records_account: "seed_account E t ro a s = Inr s' \<Longrightarrow> same_records s s'"
  by (auto simp: seed_account_def same_records_def insert_user_def split: prod.splits option.splits if_splits
      elim!: sum_bind_InrE)

lemma same_records_seed:
  assumes "seed_defaults E s = Inr s'"
  shows "same_records s s'"
proof -
  from assms obtain s1 s2 s3 where 1: "sum_fold (seed_dept (now E s)) seed_depts (tick s) = Inr s1"
    and 2: "seed_mp_user E (now E s) s1 = Inr s2"
    and 3: "sum_fold (seed_account E (now E s) ''member'')  dept_demo_users
        (fold (\<lambda>d. add_membership (now E s) (case fetchone (\<lambda>u. u_login_id u = ''mp@example.com'') (users s2) of
                            Some u \<Rightarrow> u_user_id u | None \<Rightarrow> ''u_mp_default'') d ''admin'' False)
                   [''dept_mp_q'', ''dept_mp_plm'', ''dept_mp_ap'', ''dept_mp_mc'', ''dept_mp_usdx''] s2) = Inr s3"
    and 4: "sum_fold (seed_account E (now E s) ''admin'') dept_admin_users s3 = Inr s'"
    by (auto simp: seed_defaults_def Let_def elim!: sum_bind_InrE)
  have a: "same_records (tick s) s1"
    by (rule same_records_fold [OF _ 1]) (auto simp: seed_dept_def intro: same_records_steps split: prod.splits)
  have b: "same_records s1 s2"
    using 2 by (auto simp: seed_mp_user_def same_records_def insert_user_def split: option.splits if_splits
        elim!: sum_bind_InrE)
  have c: "same_records s2 s3"
    using same_records_fold [OF same_records_account 3] by (simp add: same_records_def)
  have d: "same_records s3 s'"
    by (rule same_records_fold [OF same_records_account 4])
  show ?thesis
    using a b c d by (simp add: same_records_def)
qed

lemma store_ok_seed: "store_ok s \<Longrightarrow> seed_defaults E s = Inr s' \<Longrightarrow> store_ok s'"
  using records_ok_frame [of s' s] same_records_seed [of E s s'] db_ok_seed [of s E s']
  by (auto simp: store_ok_def same_records_def)

interpretation portal_store: portal_ops store_ok
  by unfold_locales (rule store_ok_seed)

end
