(* ===== verification/PortalInvariant.thy ===== *)
theory PortalInvariant
  imports Portal
begin

text \<open>
  What holds along every run: the schema and the rows (\<open>store_ok\<close>) in every reachable state, the
  audit log as an append-only list, unique logins; and that a request without a valid token
  changes nothing.  The invariants are interpretations of the gateway locales.
\<close>

subsection \<open>The audit log only grows\<close>

definition audit_extends :: "audit_row list \<Rightarrow> 'ref db \<Rightarrow> bool" where
  "audit_extends L s \<longleftrightarrow> (\<exists>r. audit_logs s = L @ r)"

lemma audit_frames:
  "audit_logs (fst (deactivate_portal_session E sid u s)) = audit_logs s"
  "audit_logs (fst (update_portal_session_privacy E sid u b s)) = audit_logs s"
  "audit_logs (fst (register_user E l p dn dep role ruid key s)) = audit_logs s"
  "audit_logs (fst (delete_user u s)) = audit_logs s"
  "audit_logs (update_user_ragflow E u ruid key s) = audit_logs s"
  by (auto simp: deactivate_portal_session_def update_portal_session_privacy_def register_user_def
      delete_user_def update_user_ragflow_def insert_user_def Let_def split: option.split sum.split)

lemma audit_extends_write: "audit_extends L s \<Longrightarrow> audit_extends L (write_audit E q a st uo d rt ri si ec em pd s)"
  by (auto simp: audit_extends_def write_audit_def)

interpretation audit_kept: portal_ops "\<lambda>s. store_ok s \<and> audit_extends L s"
proof unfold_locales
  fix s :: "reference db" and r assume "store_ok s \<and> audit_extends L s" "r \<in> set (kb_share_requests s)"
  then show "grantable (r_requested_permission r)" using stored.request_masks by blast
next
  fix E and s s' :: "reference db" assume "store_ok s \<and> audit_extends L s" "seed_defaults E s = Inr s'"
  then show "store_ok s' \<and> audit_extends L s'"
    using store_ok_seed same_records_seed [of E s s'] by (auto simp: audit_extends_def same_records_def)
qed (simp_all add: stored.inv_ops audit_extends_write, simp_all add: audit_extends_def audit_frames)

subsection \<open>Logins stay unique up to case\<close>

text \<open>
  Along requests; a restart may break it, since seeding looks for the exact login only.
\<close>

lemma user_frames:
  "users (fst (deactivate_portal_session E sid u s)) = users s"
  "users (fst (update_portal_session_privacy E sid u b s)) = users s"
  by simp_all

lemma logins_unique_link: "logins_unique s \<Longrightarrow> logins_unique (update_user_ragflow E u ruid key s)"
  unfolding logins_unique_def update_user_ragflow_def Let_def update_where_def
  by (simp add: comp_def if_distrib cong: if_cong)

interpretation logins: gateway_ops "\<lambda>s. store_ok s \<and> logins_unique s"
proof unfold_locales
  fix s :: "reference db" and r assume "store_ok s \<and> logins_unique s" "r \<in> set (kb_share_requests s)"
  then show "grantable (r_requested_permission r)" using stored.request_masks by blast
qed (simp_all add: stored.inv_ops logins_unique_register logins_unique_delete logins_unique_link,
    simp_all add: logins_unique_def)

subsection \<open>Interleaved store calls\<close>

text \<open>
  Flask serves requests in threads: the store calls of two requests may alternate.  Each call
  is one transaction, so the database moves by these steps, in any order.  Masks and
  permissions are those the gateway passes (\<^term>\<open>grantable\<close>, \<^term>\<open>requestable\<close>).
\<close>

inductive store_step :: "env \<Rightarrow> reference db \<Rightarrow> reference db \<Rightarrow> bool" for E where
  "store_step E s (tick s)"
| "store_step E s (write_audit E q a st uo d rt ri si ec em pd s)"
| "store_step E s (create_portal_session E sid u dp ag kbs pr ov s)"
| "store_step E s (append_portal_message E sid ro c refs s)"
| "store_step E s (fst (deactivate_portal_session E sid u s))"
| "store_step E s (fst (update_portal_session_privacy E sid u b s))"
| "store_step E s (fst (upsert_policy E rtype rid od vis cb ou al de roles cat s))"
| "store_step E s (deactivate_policy E rtype rid s)"
| "store_step E s (fst (cleanup_stale_kb_policies E valid s))"
| "store_step E s (fst (cascade_cleanup_kb E kb s))"
| "grantable m \<Longrightarrow> store_step E s (add_kb_share E kb u m by' par ab ''approved'' s)"
| "store_step E s (fst (remove_kb_share E kb u s))"
| "store_step E s (fst (revoke_user_share E i s))"
| "store_step E s (fst (revoke_dept_share E kb dp s))"
| "requestable m \<Longrightarrow> store_step E s (fst (create_kb_share_request E kb od ru sc td tu re (Some m) ps s))"
| "store_step E s (fst (review_kb_share_request E rid u ap c s))"
| "store_step E s (fst (delete_kb_share_request rid s))"
| "store_step E s (fst (register_user E l p dn dp role ruid key s))"
| "store_step E s (fst (delete_user u s))"
| "store_step E s (update_user_ragflow E u ruid key s)"
| "seed_defaults E s = Inr s' \<Longrightarrow> store_step E s s'"

lemma store_step_ok: "store_step E s s' \<Longrightarrow> store_ok s \<Longrightarrow> store_ok s'"
  by (induction rule: store_step.induct) (simp_all add: stored.inv_ops store_ok_seed)

lemma store_ok_empty: "store_ok empty_db"
  unfolding store_ok_def by (intro conjI db_ok_empty) (simp add: records_ok_def empty_db_def)

interpretation transactions: invariant_system "\<lambda>s. s = empty_db" "store_step E" store_ok
  by unfold_locales (auto simp: store_ok_empty intro: store_step_ok)

interpretation server: invariant_system "initial E C R" "portal_step E C R wc" "\<lambda>g. store_ok (store g)"
proof unfold_locales
  fix g assume "initial E C R g"
  moreover have "store_ok (store blank_gw)"
    by (simp add: blank_gw_def store_ok_empty)
  ultimately show "store_ok (store g)"
    using portal_store.J_start [of blank_gw E C R] by (simp add: initial_def)
qed (rule portal_store.J_step)

subsection \<open>Requests without a token\<close>

fun open_request :: "http_request \<Rightarrow> bool" where
  "open_request Preflight = True" | "open_request (Login u l p) = True"
| "open_request (Register l p n d) = True" | "open_request req = False"

lemma handle_unauthorized:
  assumes "auth_payload E C h g = None" and "\<not> open_request req"
  shows "handle E C R wc h rid req g = Some (g, Err 401 ''unauthorized'' (Text ''unauthorized''))"
  using assms
  by (cases req) (simp_all add: with_auth_def answer_def route_me_def route_departments_def
      route_share_targets_def route_search_users_def route_list_sessions_def route_list_shares_def
      route_list_requests_def route_list_policies_def route_my_shares_def route_audit_logs_def
      route_delete_account_def route_create_session_def route_delete_session_def route_session_privacy_def
      route_chat_def route_history_def route_upload_def route_request_share_def route_share_internal_def
      route_share_to_user_def route_review_def route_approve_def route_reject_def route_dismiss_def
      route_unshare_def route_delete_private_def route_delete_kbs_def route_upsert_policy_def
      route_bootstrap_def route_bootstrap_agents_def route_bootstrap_kbs_def route_share_to_depts_def
      route_parse_status_def route_revoke_selective_def route_resources_def)

end
