(* ===== verification/Samples.thy ===== *)
theory Samples
  imports PortalInvariant
begin

text \<open>
  A small concrete portal on which the properties are instantiated: a clock that counts, a
  readable password hash, three accounts in two departments, and a knowledge base with a
  share.  Nothing here models code.
\<close>

definition env0 :: env where
  "env0 = \<lparr>utc_now = (\<lambda>n. ''t''), epoch_now = int, uuid4_hex = (\<lambda>n. replicate n (CHR ''f'')),
     urandom_hex = (\<lambda>n. ''salt''), pbkdf2 = (\<lambda>p s. s @ p), hmac_sha256 = (\<lambda>k b. k)\<rparr>"

definition user0 :: "string \<Rightarrow> string \<Rightarrow> string \<Rightarrow> user_row" where
  "user0 uid nm key =
     \<lparr>u_user_id = uid, u_login_id = nm, u_password_hash = ''pbkdf2_sha256$salt$saltsecret'',
      u_display_name = nm, u_email = None, u_is_active = True, u_ragflow_user_id = Some uid,
      u_ragflow_token = Some key, u_created_at = ''t'', u_updated_at = ''t''\<rparr>"

definition dept0 :: "string \<Rightarrow> string \<Rightarrow> department_row" where
  "dept0 i code = \<lparr>d_dept_id = i, d_dept_code = code, d_dept_name = code, d_parent_dept_id = None,
     d_is_public = False, d_is_active = True, d_created_at = ''t'', d_updated_at = ''t''\<rparr>"

definition member0 :: "string \<Rightarrow> string \<Rightarrow> string \<Rightarrow> user_department_row" where
  "member0 u d role = \<lparr>ud_user_id = u, ud_dept_id = d, ud_role = role, ud_is_default = True,
     ud_is_active = True, ud_created_at = ''t'', ud_updated_at = ''t''\<rparr>"

definition policy0 :: "string \<Rightarrow> string \<Rightarrow> string \<Rightarrow> policy_row" where
  "policy0 kb owner vis = \<lparr>p_owner_dept_id = ''dept_mp_q'', p_owner_user_id = Some owner, p_visibility = vis,
     p_allow_roles = [], p_allow_dept_ids = [], p_deny_dept_ids = [], p_category = ''D'',
     p_policy_id = ''pol'' @ kb, p_resource_type = ''kb'', p_resource_id = kb, p_is_active = True,
     p_created_by = None, p_created_at = ''t'', p_updated_at = ''t''\<rparr>"

definition share0 :: "nat \<Rightarrow> string \<Rightarrow> string \<Rightarrow> int \<Rightarrow> nat option \<Rightarrow> share_row" where
  "share0 i kb u m par = \<lparr>k_id = i, k_kb_id = kb, k_target_user_id = u, k_permission_mask = m,
     k_shared_by = ''alice'', k_approved_by = None, k_parent_share_id = par, k_status = ''approved'',
     k_created_at = ''t'', k_updated_at = ''t''\<rparr>"

definition request0 :: "string \<Rightarrow> string \<Rightarrow> string \<Rightarrow> int \<Rightarrow> request_row" where
  "request0 i by' target m = \<lparr>r_request_id = i, r_kb_id = ''kb1'', r_owner_dept_id = ''dept_mp_q'',
     r_requester_user_id = by', r_target_scope = ''user'', r_target_dept_ids = [],
     r_target_user_id = Some target, r_reason = None, r_status = ''pending'', r_reviewer_user_id = None,
     r_review_comment = None, r_created_at = ''t'', r_updated_at = ''t'', r_requested_permission = m,
     r_parent_share_id = None\<rparr>"

definition session0 :: "string \<Rightarrow> string \<Rightarrow> string list \<Rightarrow> session_row" where
  "session0 i u kbs = \<lparr>s_session_id = i, s_user_id = u, s_dept_id = ''dept_mp_q'', s_agent_id = ''direct'',
     s_kb_ids = kbs, s_is_private = False, s_kb_overridden = False, s_created_at = ''t'',
     s_updated_at = ''t'', s_is_active = True\<rparr>"

text \<open>
  Alice owns \<open>kb1\<close>, Bob (who may share it) is a member of her department, Carol administers
  the head department; Dan has no department.  Bob asked to share with Dan.
\<close>

definition db0 :: "reference db" where
  "db0 = empty_db\<lparr>
     users := [user0 ''alice'' ''Alice'' ''keyA'', user0 ''bob'' ''Bob'' ''keyB'', user0 ''carol'' ''Carol'' [],
               user0 ''dan'' ''Dan'' []],
     departments := [dept0 ''dept_mp'' ''MP'', dept0 ''dept_mp_q'' ''MP-Q''],
     user_departments := [member0 ''alice'' ''dept_mp_q'' ''admin'', member0 ''bob'' ''dept_mp_q'' ''member'',
                          member0 ''carol'' ''dept_mp'' ''admin''],
     resource_policies := [policy0 ''kb1'' ''alice'' ''dept'', policy0 ''kb2'' ''bob'' ''private''],
     kb_shares := [share0 1 ''kb1'' ''bob'' 5 None],
     kb_share_requests := [request0 ''q1'' ''bob'' ''dan'' 5, request0 ''q2'' ''bob'' ''dan'' 7],
     portal_sessions := [session0 ''s1'' ''alice'' [''kb1'']],
     share_seq := 1\<rparr>"

definition token0 :: "string \<Rightarrow> string \<Rightarrow> token" where
  "token0 u d = \<lparr>t_sub = Some u, t_login_id = Some u, t_display_name = Some u, t_dept_ids = [d],
     t_default_dept_id = Some d, t_iat = Some 0, t_exp = Some 1000\<rparr>"

definition gw0 :: gw where
  "gw0 = \<lparr>store = db0, registry = Map.empty, outbox = []\<rparr>"

text \<open>
  A portal configuration, and a service: it lists the data set \<open>kb1\<close> and one agent to every account,
  retrieves two chunks, refuses agent runs and answers chats.
\<close>

definition cfg0 :: config where
  "cfg0 = \<lparr>api_key = ''shared'', base_url = [], db_path = [], auth_secret = ''k'', direct_chat_url = ''u'',
     direct_chat_api_key = [], direct_chat_model = ''m'', token_ttl_seconds = 100, azure_version = ''v'',
     system_prompt = [], encrypt_password = Some, debug_repr = (\<lambda>_. [])\<rparr>"

definition chunk0 :: "string \<Rightarrow> rat \<Rightarrow> chunk" where
  "chunk0 i x = \<lparr>ch_content = i, ch_document_name = ''doc'', ch_similarity = Some x, ch_chunk_id = i\<rparr>"

definition rag0 :: rag where
  "rag0 = \<lparr>on_list_agents = (\<lambda>n key p k i. Some [\<lparr>ag_id = ''ag1'', ag_title = ''A'', ag_description = [], ag_dsl = JNull\<rparr>]),
     on_list_sessions = (\<lambda>n key a k i. Some [i]), on_create_session = (\<lambda>n key a nm. Some nm),
     on_list_datasets = (\<lambda>n key i. Some [\<lparr>da_id = ''kb1'', da_name = ''x'', da_description = []\<rparr>]),
     on_create_dataset = (\<lambda>n key nm d. None), on_upload = (\<lambda>n key kb fs. Some (map fst fs)),
     on_parse = (\<lambda>n key kb ids. Some ()), on_list_documents = (\<lambda>n key kb i. Some []),
     on_delete = (\<lambda>n key ids. Some ()), on_retrieve = (\<lambda>n key ids q k. Some [chunk0 ''a'' 1, chunk0 ''b'' 2]),
     on_ask = (\<lambda>n rs q c. None), on_post = (\<lambda>n url ms. Some (200, ''hello'')),
     on_register = (\<lambda>n a b c. None), on_login = (\<lambda>n a b. None), on_new_key = (\<lambda>n a. None),
     on_delete_account = (\<lambda>n a. None), error_text = (\<lambda>n. [])\<rparr>"

lemmas row_defs = user0_def dept0_def member0_def policy0_def share0_def request0_def session0_def

lemmas text_simps = same_ci_def str_upper_def char_upper_def str_lower_def char_lower_def char_of_def bit_0

lemma db0_tables [simp]:
  "users db0 = [user0 ''alice'' ''Alice'' ''keyA'', user0 ''bob'' ''Bob'' ''keyB'', user0 ''carol'' ''Carol'' [],
     user0 ''dan'' ''Dan'' []]"
  "departments db0 = [dept0 ''dept_mp'' ''MP'', dept0 ''dept_mp_q'' ''MP-Q'']"
  "user_departments db0 = [member0 ''alice'' ''dept_mp_q'' ''admin'', member0 ''bob'' ''dept_mp_q'' ''member'',
     member0 ''carol'' ''dept_mp'' ''admin'']"
  "resource_policies db0 = [policy0 ''kb1'' ''alice'' ''dept'', policy0 ''kb2'' ''bob'' ''private'']"
  "kb_shares db0 = [share0 1 ''kb1'' ''bob'' 5 None]"
  "kb_share_requests db0 = [request0 ''q1'' ''bob'' ''dan'' 5, request0 ''q2'' ''bob'' ''dan'' 7]"
  "portal_sessions db0 = [session0 ''s1'' ''alice'' [''kb1'']]" "portal_messages db0 = []"
  "audit_logs db0 = []" "share_seq db0 = 1" "message_seq db0 = 0" "ticks db0 = 0"
  by (simp_all add: db0_def empty_db_def)

lemma env0_simps [simp]:
  "utc_now env0 n = ''t''" "epoch_now env0 n = int n" "uuid4_hex env0 n = replicate n (CHR ''f'')"
  "urandom_hex env0 n = ''salt''" "pbkdf2 env0 p s = s @ p" "hmac_sha256 env0 k b = k"
  by (simp_all add: env0_def)

lemma now_env0 [simp]: "now env0 s = ''t''"
  by (simp add: now_def)

lemma new_id_env0 [simp]: "new_id env0 p s = p @ replicate (ticks s) (CHR ''f'')"
  by (simp add: new_id_def)

lemma store_ok_db0: "store_ok db0"
  by (simp add: store_ok_def db_ok_def users_ok_def policies_ok_def requests_ok_def sessions_ok_def messages_ok_def
      shares_ok_def records_ok_def share_row_ok_def request_row_ok_def grantable_def requestable_def
      row_defs PERM_READ_def PERM_SHARE_def PERM_FULL_def)

lemma db_ok_db0: "db_ok db0"
  by (rule store_ok_db0 [unfolded store_ok_def, THEN conjunct1])

end
