(* ===== verification/StoreProperties.thy ===== *)
theory StoreProperties
  imports Samples
begin

unbundle bit_operations_syntax

text \<open>
  What the store promises: accounts, shares, policies, requests and sessions of
  \<open>portal_store.py\<close>.
\<close>

subsection \<open>Accounts\<close>

text \<open>
  C35: after a successful registration the new account can be logged into under its login in any
  case, with exactly those passwords whose PBKDF2 digest is that of the password it was
  registered with (the random salt is hexadecimal, so it has no dollar sign).
\<close>

theorem register_then_login:
  assumes "register_user E l p dn dep ro ru rt s = (s', Inr r)" and "same_ci l nm"
    and "CHR ''$'' \<notin> set (urandom_hex E (ticks s))"
  shows "authenticate_user E nm q s' =
    (if pbkdf2 E q (urandom_hex E (ticks s)) = pbkdf2 E p (urandom_hex E (ticks s))
     then Some \<lparr>pu_user_id = reg_user_id r, pu_login_id = l, pu_display_name = dn, pu_is_active = True\<rparr>
     else None)"
proof -
  have s': "s' = fst (register_user E l p dn dep ro ru rt s)" and r: "snd (register_user E l p dn dep ro ru rt s) = Inr r"
    using assms(1) by simp_all
  note acc = account_of_registered [OF r assms(2), folded s']
  have ver: "verify_password E q (u_password_hash (registered_row E l p dn ru rt s)) \<longleftrightarrow>
      pbkdf2 E q (urandom_hex E (ticks s)) = pbkdf2 E p (urandom_hex E (ticks s))"
    using verify_make_password [of None E "ticks s" q p] assms(3) by (simp add: registered_row_def)
  have id: "u_user_id (registered_row E l p dn ru rt s) = reg_user_id r"
    by (rule register_users(2) [OF r])
  show ?thesis
    using acc ver id unfolding authenticate_user_def account_of_def
    by (auto simp: registered_row_def split: option.splits)
qed

theorem register_then_login_witness:
  "authenticate_user env0 ''EVE'' ''pw'' (fst (register_user env0 ''Eve'' ''pw'' ''Eve'' ''dept_mp'' ''member'' [] [] db0)) =
     Some \<lparr>pu_user_id = ''u_'', pu_login_id = ''Eve'', pu_display_name = ''Eve'', pu_is_active = True\<rparr>"
proof -
  have reg: "register_user env0 ''Eve'' ''pw'' ''Eve'' ''dept_mp'' ''member'' [] [] db0 =
      (fst (register_user env0 ''Eve'' ''pw'' ''Eve'' ''dept_mp'' ''member'' [] [] db0),
       Inr \<lparr>reg_user_id = ''u_'', reg_login_id = ''Eve'', reg_display_name = ''Eve'', reg_dept_id = ''dept_mp'',
            reg_role = ''member'', reg_ragflow_user_id = []\<rparr>)"
    by (simp add: register_user_def insert_user_def row_defs text_simps Let_def)
  have ci: "same_ci ''Eve'' ''EVE''"
    by (simp add: text_simps)
  show ?thesis
    using register_then_login [OF reg ci, of "''pw''"] by simp
qed

text \<open>
  A registration that fails changes nothing but the clock, and it fails for one of three
  reasons: the login is taken (in any case), the department does not exist, or the fresh
  user id is taken.
\<close>

lemma failed_registration:
  assumes "register_user E l p dn dep ro ru rt s = (s', Inl e)"
  shows "s' = tick s \<and>
    (e = ValueError (UserExists l) \<and> (\<exists>u\<in>set (users s). same_ci (u_login_id u) l) \<or>
     e = ValueError (DeptMissing dep) \<and> dep \<notin> d_dept_id ` set (departments s) \<or>
     e = IntegrityError \<and> new_id E ''u_'' s \<in> u_user_id ` set (users s))"
proof
  show "s' = tick s"
    using register_rejected [of E l p dn dep ro ru rt s e] assms by simp
  show "e = ValueError (UserExists l) \<and> (\<exists>u\<in>set (users s). same_ci (u_login_id u) l) \<or>
     e = ValueError (DeptMissing dep) \<and> dep \<notin> d_dept_id ` set (departments s) \<or>
     e = IntegrityError \<and> new_id E ''u_'' s \<in> u_user_id ` set (users s)"
    using assms
    by (auto simp: register_user_def insert_user_def Let_def list_ex_iff same_ci_def
        split: if_splits) (metis image_eqI)
qed

text \<open>
  Deleting an account removes its row, its memberships, its sessions and the policies it
  owns, for good; everything else stays, in particular the shares granted to it or by it, its
  messages and its share requests.
\<close>

lemma delete_user_scope:
  assumes "u \<in> set (users s)" and "u_user_id u = uid"
  shows "snd (delete_user uid s) \<and>
    uid \<notin> u_user_id ` set (users (fst (delete_user uid s))) \<and>
    uid \<notin> ud_user_id ` set (user_departments (fst (delete_user uid s))) \<and>
    uid \<notin> s_user_id ` set (portal_sessions (fst (delete_user uid s))) \<and>
    Some uid \<notin> p_owner_user_id ` set (resource_policies (fst (delete_user uid s))) \<and>
    kb_shares (fst (delete_user uid s)) = kb_shares s \<and>
    portal_messages (fst (delete_user uid s)) = portal_messages s \<and>
    kb_share_requests (fst (delete_user uid s)) = kb_share_requests s"
proof -
  obtain v where "fetchone (\<lambda>x. u_user_id x = uid) (users s) = Some v"
    using assms by (cases "fetchone (\<lambda>x. u_user_id x = uid) (users s)") (auto simp: fetchone_None)
  then show ?thesis
    by (auto simp: delete_user_def)
qed

subsection \<open>Seeding\<close>

definition accounts_kept :: "'ref db \<Rightarrow> 'ref db \<Rightarrow> bool" where
  "accounts_kept s s' \<longleftrightarrow>
     (\<forall>u\<in>set (users s). \<exists>v\<in>set (users s'). u_user_id v = u_user_id u \<and> u_login_id v = u_login_id u \<and>
        u_password_hash v = u_password_hash u \<and> u_is_active v = u_is_active u) \<and>
     set (user_departments s) \<subseteq> set (user_departments s')"

lemma accounts_kept_refl: "accounts_kept s s"
  by (auto simp: accounts_kept_def)

lemma accounts_kept_trans: "accounts_kept s s1 \<Longrightarrow> accounts_kept s1 s2 \<Longrightarrow> accounts_kept s s2"
  unfolding accounts_kept_def by (metis subset_trans)

lemma accounts_kept_tables:
  "users s' = users s \<Longrightarrow> user_departments s' = user_departments s \<Longrightarrow> accounts_kept s s'"
  by (auto simp: accounts_kept_def)

lemma accounts_kept_membership: "accounts_kept s (add_membership t u d ro df s)"
  by (auto simp: accounts_kept_def add_membership_def insert_or_ignore_def)

lemma accounts_kept_insert: "insert_user u s = Inr s' \<Longrightarrow> accounts_kept s s'"
proof -
  assume "insert_user u s = Inr s'"
  then have s': "s' = s\<lparr>users := users s @ [u]\<rparr>" by (simp add: insert_user_def split: if_splits)
  show ?thesis
    unfolding s' accounts_kept_def
  proof (intro conjI ballI)
    fix v assume "v \<in> set (users s)"
    then show "\<exists>w\<in>set (users (s\<lparr>users := users s @ [u]\<rparr>)). u_user_id w = u_user_id v \<and>
        u_login_id w = u_login_id v \<and> u_password_hash w = u_password_hash v \<and> u_is_active w = u_is_active v"
      by (intro bexI [of _ v]) simp_all
  qed simp
qed

lemma accounts_kept_rename:
  "accounts_kept s (s\<lparr>users := update_where P (\<lambda>u. u\<lparr>u_display_name := dn, u_updated_at := t\<rparr>) (users s)\<rparr>)"
  unfolding accounts_kept_def
proof (intro conjI ballI)
  fix u assume "u \<in> set (users s)"
  then show "\<exists>v\<in>set (users (s\<lparr>users := update_where P (\<lambda>u. u\<lparr>u_display_name := dn, u_updated_at := t\<rparr>) (users s)\<rparr>)).
      u_user_id v = u_user_id u \<and> u_login_id v = u_login_id u \<and> u_password_hash v = u_password_hash u \<and>
      u_is_active v = u_is_active u"
    by (intro bexI [of _ "if P u then u\<lparr>u_display_name := dn, u_updated_at := t\<rparr> else u"])
      (simp_all add: set_update_where)
qed simp

lemma accounts_kept_account: "seed_account E t ro a s = Inr s' \<Longrightarrow> accounts_kept s s'"
proof -
  assume *: "seed_account E t ro a s = Inr s'"
  obtain uid l dn d where a: "a = (uid, l, dn, d)" by (metis prod_cases4)
  obtain s1 where 1: "s' = add_membership t uid d ro True s1"
    and 2: "(case fetchone (\<lambda>u. u_login_id u = l) (users s) of
          None \<Rightarrow> insert_user (new_user t uid l
                    (make_password_hash E (ticks s) ''12345678'' None) dn
                    (seed_email l)) (tick s)
        | Some _ \<Rightarrow> Inr (s\<lparr>users := update_where (\<lambda>u. u_login_id u = l)
                    (\<lambda>u. u\<lparr>u_display_name := dn, u_updated_at := t\<rparr>) (users s)\<rparr>)) = Inr s1"
    using * by (auto simp: seed_account_def a elim!: sum_bind_InrE)
  have "accounts_kept s s1"
  proof (cases "fetchone (\<lambda>u. u_login_id u = l) (users s)")
    case None
    then have "accounts_kept (tick s) s1" using 2 by (auto intro: accounts_kept_insert)
    then show ?thesis by (simp add: accounts_kept_def)
  next
    case (Some v)
    then show ?thesis using 2 accounts_kept_rename by auto
  qed
  with 1 show ?thesis using accounts_kept_trans accounts_kept_membership by blast
qed

lemma accounts_kept_fold:
  assumes "\<And>x s s'. f x s = Inr s' \<Longrightarrow> accounts_kept s s'" and "sum_fold f xs s = Inr s'"
  shows "accounts_kept s s'"
  by (rule sum_fold_inv [where I = "accounts_kept s", OF _ _ assms(2)])
    (blast intro: assms(1) accounts_kept_trans accounts_kept_refl)+

lemma accounts_kept_memberships: "accounts_kept s (fold (\<lambda>d. add_membership t u d ro df) ds s)"
  by (rule fold_inv [where I = "accounts_kept s"])
    (blast intro: accounts_kept_trans accounts_kept_membership accounts_kept_refl)+

text \<open>The head administrator's account exists after every start, and what there was is kept.\<close>

lemma seed_steps:
  assumes "seed_defaults E s = Inr s'"
  obtains s1 s2 where "users s1 = users s" "user_departments s1 = user_departments s" "ticks s1 = Suc (ticks s)"
    and "seed_mp_user E (now E s) s1 = Inr s2" and "accounts_kept s2 s'"
proof -
  from assms obtain s1 s2 s3 u where 1: "sum_fold (seed_dept (now E s)) seed_depts (tick s) = Inr s1"
    and 2: "seed_mp_user E (now E s) s1 = Inr s2"
    and 3: "sum_fold (seed_account E (now E s) ''member'')  dept_demo_users
        (fold (\<lambda>d. add_membership (now E s) u d ''admin'' False)
                   [''dept_mp_q'', ''dept_mp_plm'', ''dept_mp_ap'', ''dept_mp_mc'', ''dept_mp_usdx''] s2) = Inr s3"
    and 4: "sum_fold (seed_account E (now E s) ''admin'') dept_admin_users s3 = Inr s'"
    by (auto simp: seed_defaults_def Let_def elim!: sum_bind_InrE)
  have "users s1 = users (tick s) \<and> user_departments s1 = user_departments (tick s) \<and> ticks s1 = ticks (tick s)"
    by (rule sum_fold_inv [OF _ _ 1, where I = "\<lambda>x. users x = users (tick s) \<and>
          user_departments x = user_departments (tick s) \<and> ticks x = ticks (tick s)"])
      (auto simp: seed_dept_def insert_department_def split: prod.splits if_splits)
  moreover have "accounts_kept s2 s'"
  proof -
    have a: "accounts_kept (fold (\<lambda>d. add_membership (now E s) u d ''admin'' False)
        [''dept_mp_q'', ''dept_mp_plm'', ''dept_mp_ap'', ''dept_mp_mc'', ''dept_mp_usdx''] s2) s3"
      by (rule accounts_kept_fold [OF _ 3]) (rule accounts_kept_account)
    have b: "accounts_kept s3 s'" by (rule accounts_kept_fold [OF _ 4]) (rule accounts_kept_account)
    show ?thesis
      by (rule accounts_kept_trans [OF accounts_kept_memberships accounts_kept_trans [OF a b]])
  qed
  ultimately show thesis using that [OF _ _ _ 2] by simp
qed

text \<open>
  Starting the portal puts a deleted head administrator back, with the default password:
  whenever no account has the login \<open>mp@example.com\<close>, seeding creates it, active, with the
  rights of an administrator of the head department and the password \<open>12345678\<close>.
\<close>

lemma restart_revives_default_admin:
  assumes "seed_defaults E s = Inr s'"
    and "''mp@example.com'' \<notin> u_login_id ` set (users s)"
    and "(''u_mp_default'', ''dept_mp'') \<notin> membership_key ` set (user_departments s)"
    and "\<And>n. CHR ''$'' \<notin> set (urandom_hex E n)"
  shows "(\<exists>u\<in>set (users s'). u_user_id u = ''u_mp_default'' \<and> u_login_id u = ''mp@example.com'' \<and> u_is_active u \<and>
           verify_password E ''12345678'' (u_password_hash u)) \<and>
    is_dept_admin ''u_mp_default'' ''dept_mp'' s'"
proof (intro conjI)
  obtain s1 s2 where s1: "users s1 = users s" "user_departments s1 = user_departments s" "ticks s1 = Suc (ticks s)"
    and mp: "seed_mp_user E (now E s) s1 = Inr s2" and kept: "accounts_kept s2 s'"
    by (rule seed_steps [OF assms(1)])
  have none: "fetchone (\<lambda>u. u_login_id u = ''mp@example.com'') (users s1) = None"
    using assms(2) s1(1) by (force simp: fetchone_None)
  define r where "r = new_user (now E s) ''u_mp_default'' ''mp@example.com''
      (make_password_hash E (ticks s1) ''12345678'' None) mp_display_name ''mp@example.com''"
  from mp none obtain s0 where ins: "insert_user r (tick s1) = Inr s0"
    and s2: "s2 = add_membership (now E s) ''u_mp_default'' ''dept_mp'' ''admin'' True s0"
    unfolding seed_mp_user_def r_def by (auto elim!: sum_bind_InrE)
  from ins s2 have "r \<in> set (users s2)" by (auto simp: insert_user_def split: if_splits)
  with kept obtain v where "v \<in> set (users s')" "u_user_id v = u_user_id r" "u_login_id v = u_login_id r"
    "u_password_hash v = u_password_hash r" "u_is_active v = u_is_active r"
    unfolding accounts_kept_def by blast
  moreover have "verify_password E ''12345678'' (u_password_hash r)"
    using verify_make_password [of None E "ticks s1" "''12345678''" "''12345678''"] assms(4)
    by (simp add: r_def new_user_def)
  ultimately show "\<exists>u\<in>set (users s'). u_user_id u = ''u_mp_default'' \<and> u_login_id u = ''mp@example.com'' \<and>
      u_is_active u \<and> verify_password E ''12345678'' (u_password_hash u)"
    by (intro bexI [of _ v]) (simp_all add: r_def new_user_def)
  have "user_departments s0 = user_departments s" using ins s1(2) by (auto simp: insert_user_def split: if_splits)
  then have "\<exists>m\<in>set (user_departments s2). membership_key m = (''u_mp_default'', ''dept_mp'') \<and>
      ud_role m = ''admin'' \<and> ud_is_active m"
    using assms(3) s2 by (force simp: add_membership_def insert_or_ignore_def list_ex_iff)
  with kept show "is_dept_admin ''u_mp_default'' ''dept_mp'' s'"
    unfolding accounts_kept_def is_dept_admin_def by (force simp: list_ex_iff)
qed


subsection \<open>Shares\<close>

text \<open>The abstract state behind the share table: a map from (knowledge base, user) to the mask granted.\<close>

definition grants_of :: "'ref db \<Rightarrow> string \<times> string \<rightharpoonup> int" where
  "grants_of s = (\<lambda>key. approved_mask key s)"

text \<open>
  C15: the share table refines that map.  Granting is an update of it, revoking a deletion, and
  reading a permission a lookup with default 0, although the table keeps revoked rows, reuses
  the row of a pair that was shared before, and searches linearly.
\<close>

theorem shares_refine_map:
  "grants_of (add_kb_share E kb u m sharer par ab ''approved'' s) = (grants_of s)((kb, u) \<mapsto> m) \<and>
   grants_of (fst (remove_kb_share E kb u s)) = (grants_of s)((kb, u) := None) \<and>
   get_kb_permission kb u s = (case grants_of s (kb, u) of None \<Rightarrow> 0 | Some m \<Rightarrow> m)"
  by (auto simp: grants_of_def fun_eq_iff get_kb_permission_mask
      approved_mask_add [where k = "(kb, u)", simplified] approved_mask_remove [where k = "(kb, u)", simplified])

text \<open>What \<open>revoke_user_share\<close> does to an approved share.\<close>

lemma revoke_user_share_effect:
  assumes "db_ok s" and "k \<in> set (kb_shares s)" and "k_status k = ''approved''"
  shows "snd (revoke_user_share E (k_id k) s)"
    and "grants_of (fst (revoke_user_share E (k_id k) s)) = (grants_of s)(share_key k := None)"
proof -
  show "snd (revoke_user_share E (k_id k) s)"
    using assms by (auto simp: revoke_user_share_def Let_def rowcount_def filter_empty_conv)
  have ids: "distinct (map k_id (kb_shares s))" and keys: "distinct (map share_key (kb_shares s))"
    using assms(1) by (auto simp: db_ok_def shares_ok_def)
  have same: "x = k" if "x \<in> set (kb_shares s)" "k_id x = k_id k" for x
    using ids that assms(2) by (metis distinct_map inj_onD)
  have same_key: "x = k" if "x \<in> set (kb_shares s)" "share_key x = share_key k" for x
    using keys that assms(2) by (metis (no_types, lifting) distinct_map inj_onD)
  define f :: "share_row \<Rightarrow> share_row" where "f = (\<lambda>x. x\<lparr>k_status := ''revoked'', k_updated_at := now E s\<rparr>)"
  define hit :: "share_row \<Rightarrow> bool" where "hit = (\<lambda>x. k_id x = k_id k \<and> k_status x = ''approved'')"
  have t: "kb_shares (fst (revoke_user_share E (k_id k) s)) = update_where hit f (kb_shares s)"
    by (simp add: revoke_user_share_def Let_def hit_def f_def)
  have "approved_mask j (fst (revoke_user_share E (k_id k) s)) =
      (if j = share_key k then None else approved_mask j s)" for j
  proof -
    define P :: "share_row \<Rightarrow> bool" where "P = (\<lambda>x. k_kb_id x = fst j \<and> k_target_user_id x = snd j \<and> k_status x = ''approved'')"
    have *: "approved_mask j s' = map_option k_permission_mask (fetchone P (kb_shares s'))" for s' :: "'a db"
      by (simp add: approved_mask_def approved_share_def P_def)
    show ?thesis
    proof (cases "j = share_key k")
      case True
      have "fetchone P (update_where hit f (kb_shares s)) = None"
        unfolding fetchone_None
      proof
        fix y assume "y \<in> set (update_where hit f (kb_shares s))"
        then show "\<not> P y"
        proof (cases rule: update_whereE)
          case (hit x) then show ?thesis by (simp add: P_def f_def)
        next
          case other
          show ?thesis
          proof
            assume "P y"
            then have "share_key y = share_key k" "k_status y = ''approved''" using True by (auto simp: P_def)
            with same_key other(1) have "y = k" by simp
            with other(2) assms(3) show False by (simp add: hit_def)
          qed
        qed
      qed
      then have "approved_mask j (fst (revoke_user_share E (k_id k) s)) = None"
        by (simp add: * t)
      with True show ?thesis by simp
    next
      case False
      have "fetchone P (update_where hit f (kb_shares s)) = fetchone P (kb_shares s)"
      proof (rule fetchone_update_rows)
        fix x assume "x \<in> set (kb_shares s)" "hit x"
        then have "x = k" using same by (simp add: hit_def)
        then show "\<not> P x \<and> \<not> P (f x)" using False by (cases j) (auto simp: P_def f_def)
      qed
      with False show ?thesis by (simp add: * t)
    qed
  qed
  then show "grants_of (fst (revoke_user_share E (k_id k) s)) = (grants_of s)(share_key k := None)"
    by (auto simp: grants_of_def fun_eq_iff)
qed

text \<open>
  Where every share is younger than the one it was passed on from, the chain behind a share
  is returned, it starts with the share itself, and it is at most one longer than the id of
  that share's parent.
\<close>

lemma share_chain_returns:
  assumes "parents_older s" and "approved_share kb u s = Some k" and "k_parent_share_id k = Some p"
  shows "\<exists>c. get_share_chain kb u s = Some (k # c) \<and> length c \<le> p"
proof -
  have "\<exists>r. chain_loop (kb_shares s) (Some p) [k] = Some ([k] @ r) \<and> length r \<le> p"
    using assms(1) by (intro chain_loop_returns) (auto simp: parents_older_def split: option.splits)
  with assms(2,3) show ?thesis by (auto simp: get_share_chain_def)
qed

definition chained0 :: "reference db" where
  "chained0 = db0\<lparr>kb_shares := [share0 1 ''kb1'' ''bob'' 5 None, share0 2 ''kb1'' ''dan'' 4 (Some 1)]\<rparr>"

text \<open>
  C39: nothing keeps shares from being each other's parents, and then the walk to the owner does
  not end.  Two users who pass a share to each other are enough: after three grants, the chain
  of the first one is never returned.
\<close>

theorem share_chain_diverges:
  assumes "db_ok s" and "u \<noteq> v"
    and "\<And>k. k \<in> set (kb_shares s) \<Longrightarrow> share_key k \<notin> {(kb, u), (kb, v)}"
  shows "get_share_chain kb u
    (add_kb_share E kb u m v (Some (share_seq s + 2)) a ''approved''
      (add_kb_share E kb v m u (Some (share_seq s + 1)) a ''approved''
        (add_kb_share E kb u m w None a ''approved'' s))) = None"
proof -
  define n where "n = share_seq s"
  define t where "t = now E s"
  have old: "k_id k \<le> n" "k_id k \<noteq> 0" if "k \<in> set (kb_shares s)" for k
    using assms(1) that by (auto simp: db_ok_def shares_ok_def n_def)
  have free: "\<not> list_ex (\<lambda>k. share_key k = (kb, x)) (kb_shares s)" if "x \<in> {u, v}" for x
    using assms(3) that by (auto simp: list_ex_iff)
  have keep: "update_where (\<lambda>k. share_key k = (kb, u)) f (kb_shares s) = kb_shares s" for f
    using assms(3) by (intro update_where_id) auto
  define s1 where "s1 = add_kb_share E kb u m w None a ''approved'' s"
  define s2 where "s2 = add_kb_share E kb v m u (Some (n + 1)) a ''approved'' s1"
  define s3 where "s3 = add_kb_share E kb u m v (Some (n + 2)) a ''approved'' s2"
  obtain a1 where s1: "kb_shares s1 = kb_shares s @ [a1]" "share_key a1 = (kb, u)" "k_id a1 = n + 1" "share_seq s1 = n + 1"
    using free [of u] by (auto simp: s1_def add_kb_share_def Let_def upsert_def n_def)
  obtain b1 where s2: "kb_shares s2 = kb_shares s @ [a1, b1]" "share_key b1 = (kb, v)" "k_id b1 = n + 2"
    "k_parent_share_id b1 = Some (n + 1)" "k_status b1 = ''approved''"
    using free [of v] s1 assms(2) by (auto simp: s2_def add_kb_share_def Let_def upsert_def)
  obtain a2 where s3: "kb_shares s3 = kb_shares s @ [a2, b1]" "k_id a2 = n + 1" "share_key a2 = (kb, u)"
    "k_parent_share_id a2 = Some (n + 2)" "k_status a2 = ''approved''"
    using s1 s2 assms(2) keep
    by (auto simp: s3_def add_kb_share_def Let_def upsert_def update_where_def)
  have none: "fetchone P (kb_shares s) = None" if "\<And>k. k \<in> set (kb_shares s) \<Longrightarrow> \<not> P k" for P
    using that by (simp add: fetchone_None)
  have a2: "fetchone (\<lambda>k. k_id k = n + 1) (kb_shares s3) = Some a2"
    and b1: "fetchone (\<lambda>k. k_id k = n + 2) (kb_shares s3) = Some b1"
    using old none [of "\<lambda>k. k_id k = n + 1"] none [of "\<lambda>k. k_id k = n + 2"] s2(3) s3
    by (force simp: fetchone_append)+
  have held: "approved_share kb u s3 = Some a2"
    using assms(3) none [of "\<lambda>k. k_kb_id k = kb \<and> k_target_user_id k = u \<and> k_status k = ''approved''"] s3
    by (force simp: approved_share_def fetchone_append)
  have "chain_loop (kb_shares s3) (Some (n + 2)) [a2] = None"
  proof (rule chain_loop_trapped [where I = "{n + 1, n + 2}"])
    fix i assume "i \<in> {n + 1, n + 2}"
    then show "i \<noteq> 0 \<and> (\<exists>k j. fetchone (\<lambda>k. k_id k = i) (kb_shares s3) = Some k \<and>
        k_parent_share_id k = Some j \<and> j \<in> {n + 1, n + 2})"
      using a2 b1 s2(4) s3(4) by auto
  qed simp
  then show ?thesis
    using held s3(4) by (simp add: get_share_chain_def s3_def s2_def s1_def n_def)
qed

theorem share_chain_diverges_witness:
  "get_share_chain ''kb2'' ''alice''
    (add_kb_share env0 ''kb2'' ''alice'' 5 ''dan'' (Some 3) [] ''approved''
      (add_kb_share env0 ''kb2'' ''dan'' 5 ''alice'' (Some 2) [] ''approved''
        (add_kb_share env0 ''kb2'' ''alice'' 5 ''bob'' None [] ''approved'' db0))) = None"
  using share_chain_diverges [OF db_ok_db0, of "''alice''" "''dan''" "''kb2''" env0 5 "[]" "''bob''"]
  by (simp add: share0_def numeral_3_eq_3 numeral_2_eq_2)

subsection \<open>Policies and access\<close>

text \<open>
  \<open>upsert_policy\<close> followed by \<open>get_policy\<close> returns an active policy with exactly the
  values that were passed (a missing list as the empty one), and every other resource's
  policy is as before.
\<close>

lemma policy_put_get:
  assumes "db_ok s" and "upsert_policy E rtype rid od vis cb ou al de ro cat s = (s', Inr ())"
  shows "(\<exists>p. get_policy rtype rid s' = Some p \<and> p_is_active p \<and>
      policy_has p od ou vis (list_or_empty al) (list_or_empty de) (list_or_empty ro) cat) \<and>
    ((rtype', rid') \<noteq> (rtype, rid) \<longrightarrow> get_policy rtype' rid' s' = get_policy rtype' rid' s)"
proof (intro conjI impI)
  have s': "s' = fst (upsert_policy E rtype rid od vis cb ou al de ro cat s)" using assms(2) by simp
  show "\<exists>p. get_policy rtype rid s' = Some p \<and> p_is_active p \<and>
      policy_has p od ou vis (list_or_empty al) (list_or_empty de) (list_or_empty ro) cat"
  proof -
    from upsert_policyD(7) [OF assms] obtain p where p: "get_policy rtype rid s' = Some p"
      "policy_has p od ou vis (list_or_empty al) (list_or_empty de) (list_or_empty ro) cat" by blast
    with fetchone_SomeD [OF p(1) [unfolded get_policy_def]] show ?thesis by blast
  qed
  show "get_policy rtype' rid' s' = get_policy rtype' rid' s" if "(rtype', rid') \<noteq> (rtype, rid)"
    using get_policy_upsert_other [OF db_ok_parts(2) [OF assms(1)]] s' that by simp
qed

text \<open>
  C4: what a user may do with a knowledge base.  The owner of the policy that is passed (or, when
  none is, of the stored one) has every right.  Anybody else may read if the selected department
  has access or any share was granted, and may write or share exactly if a share says so; a user
  or a knowledge base without a name gets nothing.
\<close>

theorem effective_permission_spec:
  fixes s :: "'ref db" and policy :: "policy_view option" and depts dept kb u
  defines "m \<equiv> effective_kb_permission depts dept kb u policy s"
    and "v \<equiv> kb_policy_view (str_strip kb) policy s"
    and "g \<equiv> get_kb_permission (str_strip kb) (str_strip u) s"
  defines "named \<equiv> str_strip kb \<noteq> [] \<and> str_strip u \<noteq> []"
    and "own \<equiv> (\<exists>p. v = Some p \<and> p_owner_user_id p = Some (str_strip u))"
  shows "(has_read m \<longleftrightarrow> named \<and> (own \<or> can_access_resource depts dept v (Some (str_strip u)) \<or> g \<noteq> 0)) \<and>
    (has_write m \<longleftrightarrow> named \<and> (own \<or> has_write g)) \<and>
    (has_share m \<longleftrightarrow> named \<and> (own \<or> has_share g))"
proof -
  have own: "own \<longleftrightarrow> owns_kb (str_strip kb) (str_strip u) policy s"
    by (simp add: own_def v_def owns_kb_def)
  consider "\<not> named" | "str_strip kb \<noteq> []" "str_strip u \<noteq> []" by (auto simp: named_def)
  then show ?thesis
  proof cases
    case 1
    then have "m = 0" by (auto simp: m_def named_def intro: effective_blank)
    with 1 show ?thesis by simp
  next
    case 2
    then show ?thesis
      using effective_bits [OF 2, of depts dept policy s]
      by (simp add: own m_def v_def g_def named_def)
  qed
qed

theorem effective_permission_spec_witness:
  "has_share (effective_kb_permission {''dept_mp_q''} ''dept_q'' ''kb1'' ''bob'' None db0) \<and>
   \<not> has_write (effective_kb_permission {''dept_mp_q''} ''dept_q'' ''kb1'' ''bob'' None db0)"
proof -
  have "str_strip ''kb1'' = ''kb1''" "str_strip ''bob'' = ''bob''" "get_kb_permission ''kb1'' ''bob'' db0 = 5"
    "map_option p_owner_user_id (kb_policy_view ''kb1'' None db0) = Some (Some ''alice'')"
    by code_simp+
  then show ?thesis
    using effective_permission_spec [of "{''dept_mp_q''}" "''dept_q''" "''kb1''" "''bob''" None db0]
    by (auto simp: has_share_def has_write_def PERM_SHARE_def PERM_WRITE_def)
qed

text \<open>
  Access by department is limited: it needs membership in the selected department, a private
  resource is open to its owner only, and a denied department gets nothing from a resource that is
  not private, whatever else the policy allows.
\<close>

lemma department_access_limits:
  assumes "can_access_resource depts dept (Some p) user_id"
  shows "normalize_dept_id dept \<in> normalize_dept_id ` depts \<and>
    (str_lower (str_or (p_visibility p) ''dept'') = ''private'' \<longrightarrow>
      opt_or user_id [] \<noteq> [] \<and> p_owner_user_id p = user_id) \<and>
    (normalize_dept_id dept \<in> normalize_dept_id ` set (p_deny_dept_ids p) \<longrightarrow>
      str_lower (str_or (p_visibility p) ''dept'') = ''private'')"
  using can_access_member [OF assms] can_access_private [OF _ assms] can_access_denied [OF _ assms] by auto

subsection \<open>Deletion of a knowledge base\<close>

text \<open>
  After the clean-up of a knowledge base no share and no share request mentions it, no active
  session uses it, and the sessions that did are closed and have lost their messages; rows of
  other knowledge bases, other sessions and other messages are as before.
\<close>

lemma cleanup_leaves_nothing:
  assumes "db_ok s" and "str_strip kb = kb" and "kb \<noteq> []" and "fst (cascade_cleanup_kb E kb s) = s'"
  shows "kb \<notin> k_kb_id ` set (kb_shares s') \<and> kb \<notin> r_kb_id ` set (kb_share_requests s') \<and>
    (\<forall>v\<in>set (portal_sessions s'). s_is_active v \<longrightarrow> kb \<notin> set (s_kb_ids v)) \<and>
    (\<forall>v\<in>set (portal_sessions s). s_is_active v \<longrightarrow> kb \<in> set (s_kb_ids v) \<longrightarrow>
      get_portal_session (s_session_id v) s' = None \<and> session_messages (s_session_id v) s' = []) \<and>
    (\<forall>kb' u. kb' \<noteq> kb \<longrightarrow> get_kb_permission kb' u s' = get_kb_permission kb' u s)"
proof -
  have eq: "s' = (tick s)\<lparr>kb_shares := delete_where (\<lambda>k. k_kb_id k = kb) (kb_shares s),
        kb_share_requests := delete_where (\<lambda>r. r_kb_id r = kb) (kb_share_requests s),
        portal_messages := filter (\<lambda>m. m_session_id m \<notin> kb_sessions kb s) (portal_messages s),
        portal_sessions := update_where (\<lambda>v. s_session_id v \<in> kb_sessions kb s)
          (\<lambda>v. v\<lparr>s_is_active := False, s_updated_at := now E s\<rparr>) (portal_sessions s)\<rparr>"
    unfolding assms(4) [symmetric] by (rule cascade_cleanup_eq(1) [OF assms(2,3)])
  have ids: "distinct (map s_session_id (portal_sessions s))"
    using assms(1) by (simp add: db_ok_def sessions_ok_def)
  have 1: "kb \<notin> k_kb_id ` set (kb_shares s')" "kb \<notin> r_kb_id ` set (kb_share_requests s')"
    by (auto simp: eq)
  have 2: "kb \<notin> set (s_kb_ids v)" if "v \<in> set (portal_sessions s')" "s_is_active v" for v
  proof -
    from that(1) have "v \<in> set (update_where (\<lambda>v. s_session_id v \<in> kb_sessions kb s)
          (\<lambda>v. v\<lparr>s_is_active := False, s_updated_at := now E s\<rparr>) (portal_sessions s))" by (simp add: eq)
    then show ?thesis
    proof (cases rule: update_whereE)
      case other
      with that(2) show ?thesis by (auto simp: kb_sessions_def)
    qed (use that(2) in simp)
  qed
  have 3: "get_portal_session (s_session_id v) s' = None \<and> session_messages (s_session_id v) s' = []"
    if v: "v \<in> set (portal_sessions s)" "s_is_active v" "kb \<in> set (s_kb_ids v)" for v
  proof
    have in_: "s_session_id v \<in> kb_sessions kb s" using v by (auto simp: kb_sessions_def)
    show "get_portal_session (s_session_id v) s' = None"
      unfolding get_portal_session_def eq fetchone_None using in_ by (auto elim!: update_whereE)
    show "session_messages (s_session_id v) s' = []"
      using in_ by (auto simp: session_messages_def eq filter_empty_conv)
  qed
  have 4: "get_kb_permission kb' u s' = get_kb_permission kb' u s" if "kb' \<noteq> kb" for kb' u
  proof -
    have "approved_share kb' u s' = approved_share kb' u s"
      unfolding approved_share_def using that by (simp add: eq) (intro fetchone_delete_other, simp)
    then show ?thesis by (simp add: get_kb_permission_def)
  qed
  from 1 2 3 4 show ?thesis by blast
qed

text \<open>
  The clean-up of stale policies switches off exactly the active knowledge base policies that
  RAGFlow no longer lists and deletes exactly their shares; it reports how many there were.
\<close>

lemma stale_cleanup_exact:
  assumes "cleanup_stale_kb_policies E valid s = (s', n)"
  shows "get_policy ''kb'' kb s' = (if kb \<in> valid then get_policy ''kb'' kb s else None) \<and>
    get_policy ''agent'' a s' = get_policy ''agent'' a s \<and>
    set (kb_shares s') = {k \<in> set (kb_shares s). k_kb_id k \<in> valid \<or> get_policy ''kb'' (k_kb_id k) s = None} \<and>
    n = length (filter (\<lambda>p. p_resource_type p = ''kb'' \<and> p_is_active p \<and> p_resource_id p \<notin> valid)
               (resource_policies s))"
proof (intro conjI)
  have s': "s' = fst (cleanup_stale_kb_policies E valid s)" using assms by simp
  have stale: "k \<in> stale_kbs valid s \<longleftrightarrow> k \<notin> valid \<and> get_policy ''kb'' k s \<noteq> None" for k
    unfolding stale_kbs_def get_policy_def fetchone_None not_None_eq [symmetric] by (auto simp: image_iff)
  let ?f = "\<lambda>p. p\<lparr>p_is_active := False, p_updated_at := now E s\<rparr>"
  let ?Q = "\<lambda>p :: policy_row. p_resource_type p = ''kb'' \<and> p_resource_id p \<in> stale_kbs valid s"
  have t: "resource_policies s' = update_where ?Q ?f (resource_policies s)"
    and k: "kb_shares s' = delete_where (\<lambda>k. k_kb_id k \<in> stale_kbs valid s) (kb_shares s)"
    by (simp_all add: s' cleanup_stale_eq)
  show "set (kb_shares s') = {k \<in> set (kb_shares s). k_kb_id k \<in> valid \<or> get_policy ''kb'' (k_kb_id k) s = None}"
    by (auto simp: k stale)
  show "get_policy ''agent'' a s' = get_policy ''agent'' a s"
    unfolding get_policy_def t by (rule fetchone_update_other) auto
  show "get_policy ''kb'' kb s' = (if kb \<in> valid then get_policy ''kb'' kb s else None)"
  proof (cases "kb \<in> stale_kbs valid s")
    case True
    then have "get_policy ''kb'' kb s' = None"
      unfolding get_policy_def t by (intro fetchone_update_gone) auto
    with True stale show ?thesis by auto
  next
    case False
    then have "get_policy ''kb'' kb s' = get_policy ''kb'' kb s"
      unfolding get_policy_def t by (intro fetchone_update_other) auto
    with False stale show ?thesis by auto
  qed
  have n: "n = length (filter (\<lambda>i. i \<notin> valid) (map p_resource_id
      (filter (\<lambda>p. p_resource_type p = ''kb'' \<and> p_is_active p) (resource_policies s))))"
  proof (cases "filter (\<lambda>i. i \<notin> valid) (map p_resource_id
      (filter (\<lambda>p. p_resource_type p = ''kb'' \<and> p_is_active p) (resource_policies s))) = []")
    case True
    with assms show ?thesis by (simp only: cleanup_stale_kb_policies_def Let_def) simp
  next
    case False
    with assms show ?thesis by (simp only: cleanup_stale_kb_policies_def Let_def if_False prod.inject)
  qed
  have *: "filter (\<lambda>i. i \<notin> valid) (map p_resource_id
      (filter (\<lambda>p. p_resource_type p = ''kb'' \<and> p_is_active p) (resource_policies s))) =
     map p_resource_id (filter (\<lambda>p. p_resource_type p = ''kb'' \<and> p_is_active p \<and> p_resource_id p \<notin> valid)
       (resource_policies s))"
    by (simp add: filter_map comp_def conj_ac)
  show "n = length (filter (\<lambda>p. p_resource_type p = ''kb'' \<and> p_is_active p \<and> p_resource_id p \<notin> valid)
               (resource_policies s))"
    unfolding n * by simp
qed

subsection \<open>Requests and recall\<close>

text \<open>
  A request that is filed can be read back as filed; it is pending, asks at least for reading,
  and grants nothing by itself.
\<close>

lemma request_filed:
  assumes "create_kb_share_request E kb od ru sc td tu re rp ps s = (s', Inr ro)"
  shows "\<exists>r. ro = Some r \<and> get_kb_share_request (r_request_id r) s' = Some r \<and>
    r_kb_id r = kb \<and> r_requester_user_id r = ru \<and> r_target_user_id r = tu \<and> r_parent_share_id r = ps \<and>
    r_status r = ''pending'' \<and> has_read (r_requested_permission r) \<and>
    get_kb_share_request (r_request_id r) s = None \<and> kb_shares s' = kb_shares s"
proof -
  have s': "s' = fst (create_kb_share_request E kb od ru sc td tu re rp ps s)" using assms by simp
  have fresh: "\<not> list_ex (\<lambda>r. r_request_id r = new_id E ''shr_'' s) (kb_share_requests s)"
    using assms by (auto simp: create_kb_share_request_def Let_def)
  then have none: "get_kb_share_request (new_id E ''shr_'' s) s = None"
    by (auto simp: get_kb_share_request_def fetchone_None list_ex_iff)
  from create_request_result [OF fresh, of kb od ru sc td tu re rp ps] assms
  obtain r where r: "ro = Some r" "r_request_id r = new_id E ''shr_'' s" "r_kb_id r = kb" "r_requester_user_id r = ru"
    "r_target_user_id r = tu" "r_parent_share_id r = ps" "r_status r = ''pending''"
    "has_read (r_requested_permission r)" by auto
  moreover have "get_kb_share_request (r_request_id r) s' = Some r"
    unfolding s' using assms r(1) by (intro get_request_created) simp
  ultimately show ?thesis using none by (simp add: s')
qed

text \<open>
  A pending request is decided once.  The review puts the verdict and the reviewer on it, leaves
  every other request alone, and a second review of it, whatever its verdict, changes no request.
\<close>

lemma review_once:
  assumes "r \<in> set (kb_share_requests s)" and "r_request_id r = rid" and "r_status r = ''pending''"
    and "db_ok s" and "review_kb_share_request E rid u ap c s = (s1, v)"
  shows "(\<exists>x. v = Some x \<and> r_status x = (if ap then ''approved'' else ''rejected'') \<and>
      r_reviewer_user_id x = Some u \<and> r_requested_permission x = r_requested_permission r) \<and>
    (\<forall>rid'. rid' \<noteq> rid \<longrightarrow> get_kb_share_request rid' s1 = get_kb_share_request rid' s) \<and>
    kb_share_requests (fst (review_kb_share_request E' rid u' ap' c' s1)) = kb_share_requests s1"
proof (intro conjI)
  have s1: "s1 = fst (review_kb_share_request E rid u ap c s)" using assms(5) by simp
  have "fetchone (\<lambda>x. r_request_id x = rid) (kb_share_requests s) = Some r"
    using assms(1,2,4) by (intro fetchone_unique [of r_request_id]) (auto simp: db_ok_def requests_ok_def)
  then have "fetchone (\<lambda>x. r_request_id x = rid) (kb_share_requests s1) =
      Some (r\<lparr>r_status := if ap then ''approved'' else ''rejected'', r_reviewer_user_id := Some u,
              r_review_comment := Some c, r_updated_at := now E s\<rparr>)"
    unfolding s1 review_requests_eq by (subst fetchone_update_where) (simp_all add: assms(2,3))
  moreover have "v = get_kb_share_request rid s1"
    using assms(5) by (auto simp: review_kb_share_request_def Let_def)
  ultimately show "\<exists>x. v = Some x \<and> r_status x = (if ap then ''approved'' else ''rejected'') \<and>
      r_reviewer_user_id x = Some u \<and> r_requested_permission x = r_requested_permission r"
    by (simp add: get_kb_share_request_def request_view_def)
  show "\<forall>rid'. rid' \<noteq> rid \<longrightarrow> get_kb_share_request rid' s1 = get_kb_share_request rid' s"
    by (simp add: s1 review_other)
  show "kb_share_requests (fst (review_kb_share_request E' rid u' ap' c' s1)) = kb_share_requests s1"
    by (rule review_not_pending) (use review_decides s1 in blast)
qed

text \<open>
  Recalling a department from an owned knowledge base takes the shares of its active members
  away and one entry of the allow list; shares of everybody else, shares of other knowledge bases
  and the rest of the policy stay.  Only the normalised id is looked for, so an entry written as
  an alias of the department is not removed.
\<close>

lemma department_recall:
  assumes "db_ok s" and "get_policy ''kb'' kb s = Some p"
  shows "snd (revoke_dept_share E kb d s) \<and>
    get_policy ''kb'' kb (fst (revoke_dept_share E kb d s)) =
      Some (p\<lparr>p_allow_dept_ids := remove1 (normalize_dept_id d) (p_allow_dept_ids p), p_updated_at := now E s\<rparr>) \<and>
    grants_of (fst (revoke_dept_share E kb d s)) =
      (\<lambda>(kb', u). if kb' = kb \<and> u \<in> dept_member_ids (normalize_dept_id d) s then None else grants_of s (kb', u))"
proof (intro conjI)
  show "snd (revoke_dept_share E kb d s)"
    using assms(2) by (simp add: revoke_dept_share_def Let_def)
  have rm: "list_remove x xs = remove1 x xs" for x :: string and xs
    by (simp add: list_remove_def remove1_idem)
  show "get_policy ''kb'' kb (fst (revoke_dept_share E kb d s)) =
      Some (p\<lparr>p_allow_dept_ids := remove1 (normalize_dept_id d) (p_allow_dept_ids p), p_updated_at := now E s\<rparr>)"
    using assms(2) unfolding revoke_dept_share_eq get_policy_def
    by (simp add: rm fetchone_update_where)
  have "approved_share kb' u (fst (revoke_dept_share E kb d s)) =
      (if kb' = kb \<and> u \<in> dept_member_ids (normalize_dept_id d) s then None else approved_share kb' u s)" for kb' u
  proof (cases "kb' = kb \<and> u \<in> dept_member_ids (normalize_dept_id d) s")
    case True
    then show ?thesis
      by (auto simp: approved_share_def revoke_dept_share_eq assms(2) fetchone_None delete_where_def)
  next
    case False
    then have "fetchone (\<lambda>k. k_kb_id k = kb' \<and> k_target_user_id k = u \<and> k_status k = ''approved'')
        (delete_where (\<lambda>k. k_kb_id k = kb \<and> k_target_user_id k \<in> dept_member_ids (normalize_dept_id d) s)
          (kb_shares s)) =
      fetchone (\<lambda>k. k_kb_id k = kb' \<and> k_target_user_id k = u \<and> k_status k = ''approved'') (kb_shares s)"
      by (intro fetchone_delete_other) auto
    then show ?thesis
      unfolding if_not_P [OF False] by (simp add: approved_share_def revoke_dept_share_eq assms(2))
  qed
  then show "grants_of (fst (revoke_dept_share E kb d s)) =
      (\<lambda>(kb', u). if kb' = kb \<and> u \<in> dept_member_ids (normalize_dept_id d) s then None else grants_of s (kb', u))"
    by (auto simp: grants_of_def approved_mask_def fun_eq_iff)
qed

subsection \<open>Sessions\<close>

lemma messages_ok_append: "messages_ok s \<Longrightarrow> messages_ok (append_portal_message E sid ro c re s)"
  by (auto simp: messages_ok_def append_portal_message_def Let_def sorted_wrt_append le_imp_less_Suc le_SucI)

text \<open>
  A message that is written is the last of its conversation and of no other, and the
  conversation is read back in the order of writing, but from the front: once it has \<open>n\<close>
  messages, reading \<open>n\<close> of them returns the same ones for ever.
\<close>

lemma conversation_reads_oldest:
  assumes "messages_ok s"
  shows "(\<exists>m. session_messages sid (append_portal_message E sid ro c re s) = session_messages sid s @ [m] \<and>
      m_role m = ro \<and> m_content m = c \<and> m_references m = list_or_empty re) \<and>
    (sid' \<noteq> sid \<longrightarrow> session_messages sid' (append_portal_message E sid ro c re s) = session_messages sid' s) \<and>
    list_portal_messages sid' (int n) (append_portal_message E sid ro c re s) =
      take n (session_messages sid' (append_portal_message E sid ro c re s)) \<and>
    (n \<le> length (session_messages sid s) \<longrightarrow>
      list_portal_messages sid (int n) (append_portal_message E sid ro c re s) = list_portal_messages sid (int n) s)"
proof -
  have "messages_ok (append_portal_message E sid ro c re s)"
    using assms by (rule messages_ok_append)
  with assms show ?thesis
    by (simp add: list_messages_in_order session_messages_append limit_offset_def)
qed

end
