(* ===== verification/GatewayProperties.thy ===== *)
theory GatewayProperties
  imports StoreProperties
begin

unbundle bit_operations_syntax

text \<open>
  What the gateway of \<open>portal_server.py\<close> promises: sharing and its review, recall, sessions and
  questions, the resources a user sees, uploads and deletion.
\<close>

lemma result_cases:
  assumes "case_sum (\<lambda>_. False) P (snd x)"
  obtains s r where "x = (s, Inr r)" and "P r"
  using assms by (cases x; cases "snd x") auto

subsection \<open>Review of share requests\<close>

text \<open>
  C5: an approved request to share with a user is the act of an administrator of the owner
  department or of the head department, on a request that was still pending, and it gives that
  user a mask that includes reading and never exceeds what the requester held when the request was
  reviewed (a requester without rights counts as a reader).
\<close>

theorem approval_within_rights:
  assumes "db_ok s" and "review_share_request E tok rid True c s = (s', Inr r)"
    and "str_lower (r_target_scope r) = ''user''" and "r_target_user_id r = Some t" and "t \<noteq> []"
  shows "may_review tok rid s \<and>
    (\<exists>m. get_kb_permission (r_kb_id r) t s' = m \<and> has_read m \<and>
       mask_le m (sharer_cap (r_kb_id r) (r_requester_user_id r) s))"
proof
  show "may_review tok rid s"
    by (rule review.result_needs_guard [OF arg_cong [where f = snd, OF assms(2), unfolded snd_conv]])
  from review_within_rights [OF assms] show "\<exists>m. get_kb_permission (r_kb_id r) t s' = m \<and> has_read m \<and>
       mask_le m (sharer_cap (r_kb_id r) (r_requester_user_id r) s)"
    by (auto simp: get_kb_permission_mask)
qed

theorem approval_within_rights_witness:
  "may_review (token0 ''carol'' ''dept_mp'') ''q1'' db0 \<and>
   has_read (get_kb_permission ''kb1'' ''dan''
     (fst (review_share_request env0 (token0 ''carol'' ''dept_mp'') ''q1'' True [] db0)))"
proof -
  have "case_sum (\<lambda>_. False) (\<lambda>r. str_lower (r_target_scope r) = ''user'' \<and> r_target_user_id r = Some ''dan'' \<and> r_kb_id r = ''kb1'')
      (snd (review_share_request env0 (token0 ''carol'' ''dept_mp'') ''q1'' True [] db0))"
    by code_simp
  then obtain s' r where *: "review_share_request env0 (token0 ''carol'' ''dept_mp'') ''q1'' True [] db0 = (s', Inr r)"
    "str_lower (r_target_scope r) = ''user''" "r_target_user_id r = Some ''dan''" and kb: "r_kb_id r = ''kb1''"
    by (rule result_cases) auto
  from approval_within_rights [OF db_ok_db0 *] kb *(1) show ?thesis by auto
qed

text \<open>
  C40: the review writes its verdict before it checks the rights of the requester.  When a request
  asks for more than its requester holds, the approval fails and grants nothing, but the request is
  stored as approved and cannot be reviewed again.
\<close>

theorem refused_approval_is_recorded:
  assumes "get_kb_share_request rid s = Some q" "r_status q = ''pending''"
    and "is_dept_admin (token_user tok) ''dept_mp'' s"
    and "get_policy ''kb'' (r_kb_id q) s = Some p"
    and "str_lower (r_target_scope q) = ''user''" "r_target_user_id q = Some t" "t \<noteq> []"
    and "\<not> mask_le (r_requested_permission q) (sharer_cap (r_kb_id q) (r_requester_user_id q) s)"
  shows "\<exists>s' q'. review_share_request E tok rid True c s = (s', Inl (PermissionError BeyondSharerRights)) \<and>
    kb_shares s' = kb_shares s \<and> get_kb_share_request rid s' = Some q' \<and> r_status q' = ''approved'' \<and>
    review_share_request E tok rid True c s' = (s', Inl (ValueError RequestNotPending))"
proof -
  from review_commits_before_check [OF assms] obtain s' q' where
    *: "review_share_request E tok rid True c s = (s', Inl (PermissionError BeyondSharerRights))"
    "kb_shares s' = kb_shares s" "get_kb_share_request rid s' = Some q'" "r_status q' = ''approved''"
    by blast
  then have "review_share_request E tok rid True c s' = (s', Inl (ValueError RequestNotPending))"
    by (simp add: review_share_request_def)
  with * show ?thesis by blast
qed

theorem refused_approval_is_recorded_witness:
  "\<exists>s'. review_share_request env0 (token0 ''carol'' ''dept_mp'') ''q2'' True [] db0 =
     (s', Inl (PermissionError BeyondSharerRights)) \<and>
   review_share_request env0 (token0 ''carol'' ''dept_mp'') ''q2'' True [] s' = (s', Inl (ValueError RequestNotPending))"
proof -
  let ?q = "request_view (request0 ''q2'' ''bob'' ''dan'' 7)"
  have q: "get_kb_share_request ''q2'' db0 = Some ?q"
    by (simp add: get_kb_share_request_def request0_def)
  have view: "r_status ?q = ''pending''" "r_kb_id ?q = ''kb1''" "r_target_scope ?q = ''user''"
    "r_target_user_id ?q = Some ''dan''" "r_requester_user_id ?q = ''bob''" "r_requested_permission ?q = 7"
    by (simp_all add: request_view_def request0_def)
  have "get_policy ''kb'' (r_kb_id ?q) db0 = Some (policy0 ''kb1'' ''alice'' ''dept'')"
    by (simp add: view get_policy_def policy0_def)
  moreover have "is_dept_admin (token_user (token0 ''carol'' ''dept_mp'')) ''dept_mp'' db0" by code_simp
  moreover have "str_lower (r_target_scope ?q) = ''user''" unfolding view by code_simp
  moreover have "\<not> mask_le (r_requested_permission ?q) (sharer_cap (r_kb_id ?q) (r_requester_user_id ?q) db0)"
    unfolding view by code_simp
  ultimately show ?thesis
    using refused_approval_is_recorded [OF q view(1), of "token0 ''carol'' ''dept_mp''" "policy0 ''kb1'' ''alice'' ''dept''" "''dan''" env0 "[]"]
    by (simp add: view(4)) blast
qed

subsection \<open>Direct shares\<close>

text \<open>
  C6: sharing with a user.  Somebody who does not own the knowledge base gets a pending request at
  most, and needs the share right and a knowledge base that is not private for that; no share is
  written.  The owner's call writes exactly one grant, to another account, with the mask of the
  permission that was named.
\<close>

theorem share_to_user_result:
  assumes "share_kb_to_user E tok kb name perm s = (s', Inr x)"
  shows "may_share_to_user tok kb s \<and>
    (if owns_policy tok kb s
     then (\<exists>u. get_user_by_login name s = Some u \<and> u_user_id u \<noteq> token_user tok \<and>
             x = ShareGranted (permission_mask_of perm) (u_user_id u) \<and>
             grants_of s' = (grants_of s)((kb, u_user_id u) \<mapsto> permission_mask_of perm))
     else (\<exists>i. x = SharePending (Some i) \<and> kb_shares s' = kb_shares s \<and>
             (\<exists>r. get_kb_share_request i s' = Some r \<and> r_status r = ''pending'' \<and> r_kb_id r = kb \<and>
                r_requester_user_id r = token_user tok)))"
proof
  show may: "may_share_to_user tok kb s"
    by (rule user_share.result_needs_guard [OF arg_cong [where f = snd, OF assms, unfolded snd_conv]])
  then have me: "token_user tok \<noteq> []" by (simp add: may_share_to_user_def)
  from may obtain p where p: "get_policy ''kb'' kb s = Some p" by (auto simp: may_share_to_user_def)
  have owns: "owns_policy tok kb s \<longleftrightarrow> opt_or (p_owner_user_id p) [] = token_user tok"
    using p me by (simp add: owns_policy_def opt_or_user)
  obtain u where u: "get_user_by_login name s = Some u" "u_user_id u \<noteq> token_user tok"
    using assms p me by (auto simp: share_kb_to_user_def Let_def split: if_splits option.splits)
  show "if owns_policy tok kb s
     then (\<exists>u. get_user_by_login name s = Some u \<and> u_user_id u \<noteq> token_user tok \<and>
             x = ShareGranted (permission_mask_of perm) (u_user_id u) \<and>
             grants_of s' = (grants_of s)((kb, u_user_id u) \<mapsto> permission_mask_of perm))
     else (\<exists>i. x = SharePending (Some i) \<and> kb_shares s' = kb_shares s \<and>
             (\<exists>r. get_kb_share_request i s' = Some r \<and> r_status r = ''pending'' \<and> r_kb_id r = kb \<and>
                r_requester_user_id r = token_user tok))"
  proof (cases "owns_policy tok kb s")
    case True
    with owns have own: "opt_or (p_owner_user_id p) [] = token_user tok" by simp
    from assms p me u own
    have "x = ShareGranted (permission_mask_of perm) (u_user_id u) \<and>
      s' = add_kb_share E kb (u_user_id u) (permission_mask_of perm) (token_user tok) None [] ''approved'' s"
      by (auto simp: share_kb_to_user_def Let_def split: if_splits)
    moreover have "grants_of (add_kb_share E kb (u_user_id u) (permission_mask_of perm) (token_user tok) None [] ''approved'' s)
      = (grants_of s)((kb, u_user_id u) \<mapsto> permission_mask_of perm)"
      by (auto simp: grants_of_def fun_eq_iff approved_mask_add [where k = "(kb, u_user_id u)", simplified])
    ultimately show ?thesis using u True by auto
  next
    case False
    with owns have own: "opt_or (p_owner_user_id p) [] \<noteq> token_user tok" by simp
    let ?cr = "create_kb_share_request E kb (normalize_dept_id (p_owner_dept_id p)) (token_user tok) ''user'' None
      (Some (u_user_id u)) (share_reason name perm) (Some (permission_mask_of perm))
      (parent_share_of kb (token_user tok) s) s"
    from assms p me u own have cr: "and_then ?cr (\<lambda>req s1. (s1, Inr (SharePending (map_option r_request_id req)))) = (s', Inr x)"
      by (auto simp: share_kb_to_user_def Let_def split: if_splits)
    then obtain ro s1 where ro: "?cr = (s1, Inr ro)" "s' = s1" "x = SharePending (map_option r_request_id ro)"
      by (auto elim!: and_then_InrE)
    have fresh: "\<not> list_ex (\<lambda>r. r_request_id r = new_id E ''shr_'' s) (kb_share_requests s)"
      using ro(1) by (auto simp: create_kb_share_request_def Let_def)
    from create_request_result [OF fresh] ro(1) obtain r where
      r: "ro = Some r" "r_status r = ''pending''" "r_kb_id r = kb" "r_requester_user_id r = token_user tok"
      by (metis (no_types, lifting) snd_conv sum.inject(2))
    have "get_kb_share_request (r_request_id r) (fst ?cr) = Some r"
      using ro(1) r(1) by (intro get_request_created) simp
    moreover have "kb_shares (fst ?cr) = kb_shares s" by simp
    ultimately show ?thesis using False ro r by auto
  qed
qed

theorem share_to_user_result_witness:
  "\<exists>s' s2 i. share_kb_to_user env0 (token0 ''alice'' ''dept_mp_q'') ''kb1'' ''Dan'' ''read'' db0 = (s', Inr (ShareGranted 4 ''dan'')) \<and>
     share_kb_to_user env0 (token0 ''bob'' ''dept_mp_q'') ''kb1'' ''Dan'' ''read'' db0 = (s2, Inr (SharePending (Some i))) \<and>
     kb_shares s2 = kb_shares db0"
proof -
  have "case_sum (\<lambda>_. False) (\<lambda>r. True)
      (snd (share_kb_to_user env0 (token0 ''alice'' ''dept_mp_q'') ''kb1'' ''Dan'' ''read'' db0))" by code_simp
  then obtain s' x where *: "share_kb_to_user env0 (token0 ''alice'' ''dept_mp_q'') ''kb1'' ''Dan'' ''read'' db0 = (s', Inr x)"
    by (rule result_cases)
  have "case_sum (\<lambda>_. False) (\<lambda>r. True)
      (snd (share_kb_to_user env0 (token0 ''bob'' ''dept_mp_q'') ''kb1'' ''Dan'' ''read'' db0))" by code_simp
  then obtain s2 y where **: "share_kb_to_user env0 (token0 ''bob'' ''dept_mp_q'') ''kb1'' ''Dan'' ''read'' db0 = (s2, Inr y)"
    by (rule result_cases)
  have own: "owns_policy (token0 ''alice'' ''dept_mp_q'') ''kb1'' db0" "\<not> owns_policy (token0 ''bob'' ''dept_mp_q'') ''kb1'' db0"
    by (simp_all add: owns_policy_def get_policy_def token_user_def token0_def policy0_def)
  have "map_option u_user_id (get_user_by_login ''Dan'' db0) = Some ''dan''" "permission_mask_of ''read'' = 4" by code_simp+
  with share_to_user_result [OF *] share_to_user_result [OF **] own * ** show ?thesis by auto
qed




subsection \<open>Recall\<close>

text \<open>
  Taking a knowledge base back.  It needs the owner, an administrator of the owner department or
  of the head department; afterwards no account holds a share of it, the knowledge base is private or
  restricted to its department, and nobody is on its allow or deny lists.
\<close>

lemma unshare_takes_all_back:
  assumes "db_ok s" and "unshare_kb E tok kb s = (s', Inr r)"
  shows "may_unshare tok kb s \<and> (\<forall>u\<in>set (users s). get_kb_permission kb (u_user_id u) s' = 0) \<and>
    (\<exists>p. get_policy ''kb'' kb s' = Some p \<and> p_visibility p \<in> {''private'', ''dept''} \<and>
       p_allow_dept_ids p = [] \<and> p_deny_dept_ids p = [])"
proof (intro conjI ballI)
  show "may_unshare tok kb s"
    by (rule unshare.result_needs_guard [OF arg_cong [where f = snd, OF assms(2), unfolded snd_conv]])
  show "get_kb_permission kb (u_user_id u) s' = 0" if "u \<in> set (users s)" for u
    by (rule unshare_result(1) [OF assms that])
  from assms(2) obtain p s1 where "get_policy ''kb'' kb s = Some p"
    and up: "upsert_policy E ''kb'' kb (normalize_dept_id (p_owner_dept_id p))
           (if opt_or (p_owner_user_id p) [] = token_user tok then ''private'' else ''dept'')
           (token_user tok) (Some (opt_or (p_owner_user_id p) [])) (Some []) (Some []) (Some [])
           (str_or (p_category p) ''D'') s = (s1, Inr ())"
    and s': "s' = fold (\<lambda>v st. fst (remove_kb_share E kb (sv_target_user_id v) st)) (list_kb_shares kb s1) s1"
    by (rule unshare_InrE)
  have "get_policy ''kb'' kb s' = get_policy ''kb'' kb s1" by (simp add: s' get_policy_def)
  with upsert_policyD(7) [OF assms(1) up]
  show "\<exists>p. get_policy ''kb'' kb s' = Some p \<and> p_visibility p \<in> {''private'', ''dept''} \<and>
       p_allow_dept_ids p = [] \<and> p_deny_dept_ids p = []"
    by (auto simp: policy_has_def list_or_empty_def)
qed

text \<open>
  The recall of one user's share takes an id and never compares it with the knowledge base it
  was called for: the owner of any knowledge base can take back any approved share of any other.
\<close>

lemma recall_reaches_other_kbs:
  assumes "db_ok s" and "owns_policy tok kb s" and "k \<in> set (kb_shares s)" and "k_status k = ''approved''"
    and "py_int text = Some (int (k_id k))" and "k_id k < 2 ^ 63"
  shows "grants_of (fst (selective_revoke E tok kb ''user'' text s)) (share_key k) = None"
proof -
  from assms(2) obtain p where p: "get_policy ''kb'' kb s = Some p" "p_owner_user_id p = Some (token_user tok)"
    and me: "token_user tok \<noteq> []" by (auto simp: owns_policy_def)
  note rv = revoke_user_share_effect [OF assms(1,3,4), of E]
  have "int (k_id k) < 2 ^ 63" using assms(6) by (metis of_nat_less_iff of_nat_numeral of_nat_power)
  then have t: "revoke_target E kb ''user'' text s = (fst (revoke_user_share E (k_id k) s), Inr ())"
    using rv(1) assms(5) by (simp add: revoke_target_def revoke_share_id_def split_beta)
  have "fst (selective_revoke E tok kb ''user'' text s) =
      fst (revert_if_unshared E kb p (token_user tok) (fst (revoke_user_share E (k_id k) s)))"
    using p me t by (simp add: selective_revoke_def Let_def and_then_def)
  moreover have "kb_shares (fst (revert_if_unshared E kb p u s1)) = kb_shares s1" for u and s1 :: "'a db"
    by (simp add: revert_if_unshared_def Let_def)
  ultimately have "kb_shares (fst (selective_revoke E tok kb ''user'' text s)) =
      kb_shares (fst (revoke_user_share E (k_id k) s))" by simp
  from approved_mask_frame [OF this] rv(2) show ?thesis
    by (simp add: grants_of_def fun_eq_iff)
qed

subsection \<open>Sessions\<close>

lemma store_dsl_kb_ids [frame, simp]: "store (fst (dsl_kb_ids C R key a g)) = store g"
proof -
  have "store (fst (list_agents R key 1 1 (Some a) g)) = store g" by (simp add: list_agents_def)
  then show ?thesis
    by (cases "list_agents R key 1 1 (Some a) g") (auto simp: dsl_kb_ids_def split: sum.split list.split)
qed

lemma readable_kbs_iff:
  "kb \<in> set (readable_kbs ds d u kbs s) \<longleftrightarrow> kb \<in> set kbs \<and>
     has_read (effective_kb_permission ds d kb u (map_option policy_view.truncate (get_policy ''kb'' kb s)) s)"
  by (simp add: readable_kbs_def)

lemma open_sessionE:
  assumes "open_session E sid uo d ag kbs pr ov g = (g', Inr ())"
  obtains u where "uo = Some u" and "g' = upd_store (create_portal_session E sid u d ag (Some kbs) pr ov) g"
  using assms by (auto simp: open_session_def split: option.splits)

lemma opened_lookup:
  "session_lookup sid (create_portal_session E sid u d ag (Some kbs) pr ov s) =
     Some \<lparr>x_user_id = u, x_dept_id = d, x_agent_id = ag, x_kb_ids = kbs, x_is_private = pr, x_kb_overridden = ov\<rparr>"
  using session_lookup_store [of sid E sid "\<lparr>x_user_id = u, x_dept_id = d, x_agent_id = ag, x_kb_ids = kbs,
      x_is_private = pr, x_kb_overridden = ov\<rparr>" s]
  by (simp add: session_store_def)

text \<open>
  C10: opening a session on chosen knowledge bases.  It needs a department of the user; the session
  keeps only knowledge bases that were asked for and that the user may read at that moment, and it is
  stored under the user who opened it, in the database and in memory alike.
\<close>

theorem session_keeps_readable_kbs:
  assumes "create_session E C R tok d ag kbs pr g = (g', Inr x)" and "kbs \<noteq> []"
  shows "normalize_dept_id d \<in> token_depts tok \<and>
    set (op_kb_ids x) = {kb \<in> set kbs. has_read (effective_kb_permission (token_depts tok) (normalize_dept_id d) kb
      (token_user tok) (map_option policy_view.truncate (get_policy ''kb'' kb (store g))) (store g))} \<and>
    (\<exists>e r. registry g' (op_session_id x) = Some e \<and> session_lookup (op_session_id x) (store g') = Some r \<and>
       e_user_id e = t_sub tok \<and> t_sub tok = Some (x_user_id r) \<and> e_kb_ids e = op_kb_ids x \<and> x_kb_ids r = op_kb_ids x)"
proof -
  have dept: "normalize_dept_id d \<in> token_depts tok"
    using assms(1) by (auto simp: create_session_def Let_def split: if_splits)
  show ?thesis
  proof (cases "ag = [] \<or> ag = ''direct''")
    case True
    with assms(1) dept have "create_direct_session E tok (normalize_dept_id d) kbs pr g = (g', Inr x)"
      by (simp add: create_session_def Let_def)
    with dept show ?thesis
      by (auto simp: create_direct_session_def Let_def readable_kbs_iff opened_lookup register_entry_def
          elim!: and_then_InrE open_sessionE)
  next
    case False
    with assms(1) dept have "create_agent_session E C R tok (normalize_dept_id d) ag kbs pr g = (g', Inr x)"
      by (simp add: create_session_def Let_def)
    with dept assms(2) show ?thesis
      by (auto simp: create_agent_session_def Let_def readable_kbs_iff opened_lookup register_entry_def
          list_agents_def rag_request_def
          split: if_splits option.splits elim!: and_then_InrE open_sessionE)
  qed
qed

theorem session_keeps_readable_kbs_witness:
  "\<exists>g' x. create_session env0 cfg0 rag0 (token0 ''bob'' ''dept_mp_q'') ''dept_q'' ''direct'' [''kb1'', ''kb9''] False gw0 = (g', Inr x) \<and>
     set (op_kb_ids x) = {''kb1''}"
proof -
  have c: "case_sum (\<lambda>_. False) (\<lambda>_. True)
      (snd (create_session env0 cfg0 rag0 (token0 ''bob'' ''dept_mp_q'') ''dept_q'' ''direct'' [''kb1'', ''kb9''] False gw0))"
    by (simp add: create_session_def create_direct_session_def open_session_def and_then_def Let_def token0_def token_depts_def) code_simp
  then obtain g' x where *:
    "create_session env0 cfg0 rag0 (token0 ''bob'' ''dept_mp_q'') ''dept_q'' ''direct'' [''kb1'', ''kb9''] False gw0 = (g', Inr x)"
    by (rule result_cases)
  have r: "has_read (effective_kb_permission (token_depts (token0 ''bob'' ''dept_mp_q'')) (normalize_dept_id ''dept_q'') kb
      (token_user (token0 ''bob'' ''dept_mp_q'')) (map_option policy_view.truncate (get_policy ''kb'' kb db0)) db0) \<longleftrightarrow> kb = ''kb1''"
    if "kb \<in> {''kb1'', ''kb9''}" for kb
    using that by (elim insertE emptyE; hypsubst) code_simp+
  from session_keeps_readable_kbs [OF *] have "set (op_kb_ids x) = {''kb1''}"
    using r by (auto simp: gw0_def)
  with * show ?thesis by blast
qed

subsection \<open>Questions\<close>

text \<open>Up to the messages that \<open>ask\<close> appends, a question leaves the database as it is.\<close>

lemma store_try_urls [frame, simp]: "store (fst (try_urls R urls ms g)) = store g"
  by (induction urls arbitrary: g) (auto simp: and_then_def rag_request_def split: sum.split)

lemma store_direct_chat [frame, simp]: "store (fst (direct_chat C R ms g)) = store g"
  by (simp add: direct_chat_def)

lemma store_retrieve_groups [frame, simp]: "store (fst (retrieve_groups R q k grs g)) = store g"
  by (induction grs arbitrary: g) (auto simp: Let_def split_beta)

lemma store_retrieve [frame, simp]: "store (fst (multi_tenant_retrieve C R kbs q k ow g)) = store g"
  by (simp add: multi_tenant_retrieve_def Let_def split_beta)

lemma store_answer [frame, simp]: "store (fst (generate_answer_direct C R q cs h g)) = store g"
proof -
  have "store (fst (answer_or_failure C R ms g)) = store g" for ms
    using store_direct_chat [of C R ms g] unfolding answer_or_failure_def
    by (cases "direct_chat C R ms g") (auto split: sum.split)
  then show ?thesis by (simp add: generate_answer_direct_def)
qed

lemma store_recover [frame, simp]: "store (fst (recover_agent_session C R ag sid ow g)) = store g"
  by (auto simp: recover_agent_session_def list_agents_def rag_request_def Let_def split: sum.split list.split option.split)

lemma store_runtime [frame, simp]: "store (fst (runtime_session C R sid e g)) = store g"
proof -
  obtain g1 x where r: "recover_agent_session C R (e_agent_id e) sid (opt_or (e_agent_owner_id e) []) g = (g1, x)"
    by fastforce
  with store_recover [of C R "e_agent_id e" sid "opt_or (e_agent_owner_id e) []" g] have "store g1 = store g" by simp
  with r show ?thesis by (simp add: runtime_session_def register_entry_def split: option.split)
qed

lemma store_fallback: "store (fst (and_then (direct_chat C R ms h) (\<lambda>a h1. (h1, Inr (a, x))))) = store h"
  using store_direct_chat [of C R ms h]
  by (cases "direct_chat C R ms h") (auto simp: and_then_def split: sum.split)

lemma store_ask_direct [frame, simp]: "store (fst (ask_direct C R sid q e g)) = store g"
  by (simp add: ask_direct_def split_beta store_fallback)

lemma store_ask_agent_kb [frame, simp]: "store (fst (ask_agent_kb C R sid q e g)) = store g"
proof -
  obtain g1 cs where r: "multi_tenant_retrieve C R (e_kb_ids e) q 8 (opt_or (e_agent_owner_id e) []) g = (g1, cs)" by fastforce
  obtain g2 rs where s: "runtime_session C R sid e g1 = (g2, rs)" by fastforce
  from store_retrieve [of C R "e_kb_ids e" q 8 "opt_or (e_agent_owner_id e) []" g] store_runtime [of C R sid e g1] r s
  have "store g2 = store g" by simp
  with r s show ?thesis
    by (simp add: ask_agent_kb_def Let_def store_fallback rag_request_def split: option.split sum.split)
qed

lemma store_ask_agent [frame, simp]: "store (fst (ask_agent C R sid q e g)) = store g"
proof -
  obtain g2 rs where s: "runtime_session C R sid e g = (g2, rs)" by fastforce
  with store_runtime [of C R sid e g] have "store g2 = store g" by simp
  with s show ?thesis
    by (simp add: ask_agent_def Let_def store_fallback rag_request_def split: option.split sum.split)
qed

lemma store_load_session [frame, simp]: "store (fst (load_session sid g)) = store g"
  by (simp add: load_session_def register_entry_def Let_def split: option.split)

text \<open>
  C8: a question that is answered was asked by the user whose session it is, and it adds exactly two
  messages to that session, the question without references and the answer with those returned; all
  other conversations stay as they were.  A question that fails writes nothing at all.
\<close>

theorem ask_records_one_exchange:
  assumes "ask E C R tok sid q g = (g', r)"
  shows "(case r of
      Inl _ \<Rightarrow> store g' = store g
    | Inr a \<Rightarrow> (\<exists>e u. snd (load_session sid g) = Some e \<and> t_sub tok = Some u \<and> e_user_id e = Some u) \<and>
        str_strip q \<noteq> [] \<and>
        (\<exists>m1 m2. session_messages sid (store g') = session_messages sid (store g) @ [m1, m2] \<and>
           m_role m1 = ''user'' \<and> m_content m1 = q \<and> m_references m1 = [] \<and>
           m_role m2 = ''assistant'' \<and> m_content m2 = as_answer a \<and> m_references m2 = as_references a) \<and>
        (\<forall>sid'. sid' \<noteq> sid \<longrightarrow> session_messages sid' (store g') = session_messages sid' (store g)))"
proof -
  obtain g1 eo where l: "load_session sid g = (g1, eo)" by fastforce
  with store_load_session [of sid g] have g1: "store g1 = store g" by simp
  show ?thesis
  proof (cases eo)
    case None
    with assms l g1 show ?thesis by (auto simp: ask_def)
  next
    case (Some e)
    define m where "m = (if e_agent_id e = ''direct'' then ask_direct C R sid q e g1
                           else if e_kb_overridden e \<and> e_kb_ids e \<noteq> []
                           then ask_agent_kb C R sid q e g1
                           else ask_agent C R sid q e g1)"
    have m: "store (fst m) = store g" by (simp add: m_def g1)
    show ?thesis
    proof (cases "t_sub tok = None \<or> e_user_id e \<noteq> t_sub tok \<or> str_strip q = []")
      case True
      with assms l g1 Some show ?thesis by (auto simp: ask_def split: option.splits if_splits)
    next
      case False
      then obtain u where u: "t_sub tok = Some u" "e_user_id e = Some u" "str_strip q \<noteq> []" by auto
      from assms l Some u have res: "and_then m (\<lambda>(answer, refs) g2.
                      (upd_store (\<lambda>s. append_portal_message E sid ''assistant'' answer (Some refs)
                          (append_portal_message E sid ''user'' q (Some []) s)) g2,
                       Inr \<lparr>as_session_id = sid, as_answer = answer, as_references = refs,
                            as_agent_id = e_agent_id e, as_dept_id = e_dept_id e\<rparr>)) = (g', r)"
        by (simp add: ask_def m_def)
      show ?thesis
      proof (cases "snd m")
        case (Inl x)
        with res m show ?thesis by (cases m) (auto simp: and_then_def)
      next
        case (Inr y)
        obtain g2 an refs where my: "m = (g2, Inr (an, refs))" using Inr by (cases m; cases y) simp
        with m have "store g2 = store g" by simp
        with res my l Some u show ?thesis
          by (auto simp: and_then_def session_messages_append list_or_empty_def)
      qed
    qed
  qed
qed

theorem ask_records_one_exchange_witness:
  "\<exists>g' a. ask env0 cfg0 rag0 (token0 ''alice'' ''dept_mp_q'') ''s1'' ''Why?'' gw0 = (g', Inr a) \<and>
     length (session_messages ''s1'' (store g')) = 2"
proof -
  have "case_sum (\<lambda>_. False) (\<lambda>_. True) (snd (ask env0 cfg0 rag0 (token0 ''alice'' ''dept_mp_q'') ''s1'' ''Why?'' gw0))"
    by code_simp
  then obtain g' a where *: "ask env0 cfg0 rag0 (token0 ''alice'' ''dept_mp_q'') ''s1'' ''Why?'' gw0 = (g', Inr a)"
    by (rule result_cases)
  from ask_records_one_exchange [OF *] have "length (session_messages ''s1'' (store g')) = 2"
    by (auto simp: session_messages_def gw0_def)
  with * show ?thesis by blast
qed

subsection \<open>Retrieval\<close>

lemma group_add_spec:
  "distinct (map fst gs) \<Longrightarrow> distinct (map fst (group_add k kb gs)) \<and>
     set (map fst (group_add k kb gs)) = insert k (set (map fst gs)) \<and>
     map_of (group_add k kb gs) = (map_of gs)(k \<mapsto> (case map_of gs k of None \<Rightarrow> [] | Some l \<Rightarrow> l) @ [kb])"
  by (induction k kb gs rule: group_add.induct) (auto simp: fun_eq_iff)

lemma key_groups_spec:
  assumes "distinct (map fst gs)"
  shows "distinct (map fst (key_groups f kbs gs)) \<and>
    map_of (key_groups f kbs gs) k =
      (let new = filter (\<lambda>kb. f kb = Some k) kbs
       in case map_of gs k of None \<Rightarrow> if new = [] then None else Some new | Some l \<Rightarrow> Some (l @ new))"
  using assms
proof (induction f kbs gs rule: key_groups.induct)
  case (2 f kb kbs gs)
  then show ?case
  proof (cases "f kb")
    case (Some key)
    from group_add_spec [OF 2(2), of key kb]
    show ?thesis using Some 2(1) by (auto simp: Let_def split: option.split)
  qed (auto simp: Let_def)
qed (auto split: option.split)

lemma key_groups_entries:
  "(k, ids) \<in> set (key_groups f kbs []) \<longleftrightarrow> ids = filter (\<lambda>kb. f kb = Some k) kbs \<and> ids \<noteq> []"
proof -
  have "distinct (map fst (key_groups f kbs []))" using key_groups_spec [of "[]" f kbs k] by simp
  then have "(k, ids) \<in> set (key_groups f kbs []) \<longleftrightarrow> map_of (key_groups f kbs []) k = Some ids" by simp
  then show ?thesis using key_groups_spec [of "[]" f kbs k] by (auto simp: Let_def)
qed

lemma retrieve_groups_calls:
  "outbox (fst (retrieve_groups R q n grs g)) = outbox g @ map (\<lambda>(key, ids). Retrieve key ids q n) grs"
  by (induction grs arbitrary: g) (auto simp: Let_def split_beta)

lemma retrieve_groups_nonempty: "c \<in> set (snd (retrieve_groups R q n grs g)) \<Longrightarrow> ch_content c \<noteq> []"
  by (induction grs arbitrary: g) (auto simp: Let_def split_beta split: sum.splits)

text \<open>
  C11: retrieval over several accounts.  One call per account, with the key of the account that owns
  the knowledge bases and exactly those of the session that belong to it, in their order; a knowledge
  base without policy is not searched.  At most the requested number of chunks comes back, none of
  them empty, the most similar first.
\<close>

theorem retrieval_by_owner:
  assumes "multi_tenant_retrieve C R kbs q n ow g = (g', cs)"
  shows "length cs \<le> n \<and> sorted_wrt (\<lambda>a b. similarity_of b \<le> similarity_of a) cs \<and>
    (\<forall>c\<in>set cs. ch_content c \<noteq> []) \<and> store g' = store g \<and>
    (\<exists>calls. outbox g' = outbox g @ calls \<and> distinct calls \<and>
       (\<forall>c\<in>set calls. \<exists>key. c = Retrieve key (filter (\<lambda>kb. kb_key C ow (store g) kb = Some key) kbs) q n) \<and>
       (str_strip q \<noteq> [] \<longrightarrow> (\<forall>kb\<in>set kbs. \<forall>key. kb_key C ow (store g) kb = Some key \<longrightarrow>
          Retrieve key (filter (\<lambda>kb. kb_key C ow (store g) kb = Some key) kbs) q n \<in> set calls)))"
proof (cases "kbs = [] \<or> str_strip q = []")
  case True
  with assms show ?thesis by (auto simp: multi_tenant_retrieve_def intro!: exI [of _ "[]"])
next
  case False
  let ?grs = "key_groups (kb_key C ow (store g)) kbs []"
  let ?calls = "map (\<lambda>(key, ids). Retrieve key ids q n) ?grs"
  from assms False have cs: "cs = take n (order_desc similarity_of (snd (retrieve_groups R q n ?grs g)))"
    and g': "g' = fst (retrieve_groups R q n ?grs g)"
    by (auto simp: multi_tenant_retrieve_def Let_def split_beta)
  have "distinct (map fst ?grs)" using key_groups_spec [of "[]"] by simp
  then have dist: "distinct ?calls" by (auto simp: distinct_map inj_on_def)
  have calls: "c \<in> set ?calls \<longleftrightarrow> (\<exists>key. c = Retrieve key (filter (\<lambda>kb. kb_key C ow (store g) kb = Some key) kbs) q n \<and>
      filter (\<lambda>kb. kb_key C ow (store g) kb = Some key) kbs \<noteq> [])" for c
  proof -
    have "c \<in> set ?calls \<longleftrightarrow> (\<exists>key ids. (key, ids) \<in> set ?grs \<and> c = Retrieve key ids q n)"
      by (auto simp: image_iff split_beta) force
    then show ?thesis by (auto simp: key_groups_entries)
  qed
  show ?thesis
  proof (intro conjI)
    show "sorted_wrt (\<lambda>a b. similarity_of b \<le> similarity_of a) cs"
      unfolding cs using sorted_order_desc [of similarity_of]
      by (intro sorted_wrt_take) (simp add: sorted_wrt_rev sorted_wrt_map)
    show "\<forall>c\<in>set cs. ch_content c \<noteq> []"
      unfolding cs by (auto dest!: in_set_takeD dest: retrieve_groups_nonempty)
    show "\<exists>calls. outbox g' = outbox g @ calls \<and> distinct calls \<and>
       (\<forall>c\<in>set calls. \<exists>key. c = Retrieve key (filter (\<lambda>kb. kb_key C ow (store g) kb = Some key) kbs) q n) \<and>
       (str_strip q \<noteq> [] \<longrightarrow> (\<forall>kb\<in>set kbs. \<forall>key. kb_key C ow (store g) kb = Some key \<longrightarrow>
          Retrieve key (filter (\<lambda>kb. kb_key C ow (store g) kb = Some key) kbs) q n \<in> set calls))"
      unfolding g' using dist
      by (intro exI [of _ ?calls] conjI)
        (auto simp only: retrieve_groups_calls calls simp: filter_empty_conv)
  qed (simp_all add: cs g')
qed

theorem retrieval_by_owner_witness:
  "\<exists>g' cs. multi_tenant_retrieve cfg0 rag0 [''kb1'', ''kb2''] ''q'' 1 [] gw0 = (g', cs) \<and> length cs \<le> 1 \<and>
     Retrieve ''keyB'' [''kb2''] ''q'' 1 \<in> set (outbox g')"
proof -
  obtain g' cs where *: "multi_tenant_retrieve cfg0 rag0 [''kb1'', ''kb2''] ''q'' 1 [] gw0 = (g', cs)" by fastforce
  have k: "kb_key cfg0 [] db0 ''kb1'' = Some ''keyA''" "kb_key cfg0 [] db0 ''kb2'' = Some ''keyB''" by code_simp+
  have q: "str_strip ''q'' \<noteq> []" by code_simp
  from retrieval_by_owner [OF *] k q show ?thesis
    using * by (auto simp: gw0_def)
qed

subsection \<open>Agents of all accounts\<close>

lemma agent_pages_short:
  assumes "\<And>n p. P \<le> p \<Longrightarrow> case on_list_agents R n key p 200 None of None \<Rightarrow> True | Some b \<Rightarrow> length b < 200"
  shows "\<exists>y. agent_pages E R key u d p seen acc g = Some y"
proof (induction "P - p" arbitrary: p seen acc g rule: less_induct)
  case less
  obtain g1 r where l: "list_agents R key p 200 None g = (g1, r)" by fastforce
  show ?case
  proof (cases r)
    case (Inl e)
    with l show ?thesis by (subst agent_pages.simps) simp
  next
    case (Inr b)
    obtain g2 s2 a2 ok where b: "agent_batch E u d b seen acc g1 = (g2, s2, a2, ok)"
      by (metis prod_cases4)
    show ?thesis
    proof (cases "P \<le> p")
      case True
      have "length b < 200"
        using assms [OF True, of "calls_made g"] l Inr
        by (auto simp: list_agents_def rag_request_def split: option.splits)
      with l Inr b show ?thesis by (subst agent_pages.simps) simp
    next
      case False
      then have "P - Suc p < P - p" by simp
      from less [OF this] obtain y where y: "agent_pages E R key u d (Suc p) s2 a2 g2 = Some y" by blast
      obtain y1 y2 y3 where "y = (y1, y2, y3)" by (cases y)
      with y l Inr b show ?thesis by (subst agent_pages.simps) simp
    qed
  qed
qed

lemma list_resources_returns:
  assumes "\<And>n key p. P \<le> p \<Longrightarrow>
    case on_list_agents R n key p 200 None of None \<Rightarrow> True | Some b \<Rightarrow> length b < 200"
  shows "\<exists>out. list_resources E C R tok d rt g = Some out"
proof -
  have "\<exists>y. agents_of_users E C R us seen acc g = Some y" for us seen acc g
  proof (induction us arbitrary: seen acc g)
    case (Cons u us)
    obtain i nm dp where u: "u = (i, nm, dp)" by (cases u) auto
    from agent_pages_short [of P R "get_rag_client C i g" E i dp 1 seen acc g, OF assms]
    obtain g1 s1 a1 where "agent_pages E R (get_rag_client C i g) i dp 1 seen acc g = Some (g1, s1, a1)" by force
    with Cons show ?case by (simp add: u)
  qed simp
  then have "\<exists>y. ensure_agent_policies E C R g = Some y" by (simp add: ensure_agent_policies_def)
  then show ?thesis by (auto simp: list_resources_def Let_def split: option.split)
qed

text \<open>
  Everybody sees only knowledge bases he may read.  A listed knowledge base comes with the mask
  that the permission check computes for this user, and its shares are shown to its owner only.
\<close>

lemma listed_kbs_readable:
  assumes "list_resources E C R tok d rt g = Some (g', Inr items)" and "i \<in> set items" and "ri_type i = ''kb''"
  shows "has_read (kb_permission_of tok (normalize_dept_id (str_or (opt_or d []) (opt_or (t_default_dept_id tok) [])))
      (ri_id i) (store g')) \<and>
    ri_my_permission i = Some (kb_permission_of tok
      (normalize_dept_id (str_or (opt_or d []) (opt_or (t_default_dept_id tok) []))) (ri_id i) (store g')) \<and>
    (ri_owner_user_id i \<noteq> t_sub tok \<longrightarrow> ri_shares i = Some [])"
proof -
  define dp where "dp = normalize_dept_id (str_or (opt_or d []) (opt_or (t_default_dept_id tok) []))"
  have ok: "\<not> (dp \<noteq> [] \<and> dp \<notin> token_depts tok)"
    using assms(1) by (rule contrapos_pn) (simp add: list_resources_def Let_def dp_def)
  obtain g1 agents where r: "and_then (if rt = ''kb'' \<or> rt = ''all'' then ensure_kb_policies E C R g1 else (g1, Inr []))
      (\<lambda>ds g2. (g2, Inr (sort_key ri_visibility (sort_key ri_title
         (agent_items tok dp agents (store g1) @ kb_items tok dp ds (store g2)))))) = (g', Inr items)"
    using assms(1) unfolding list_resources_def Let_def dp_def [symmetric] if_not_P [OF ok]
    by (cases "if rt = ''agent'' \<or> rt = ''all'' then ensure_agent_policies E C R g else Some (g, [])") auto
  from r obtain ds where "items = sort_key ri_visibility (sort_key ri_title
      (agent_items tok dp agents (store g1) @ kb_items tok dp ds (store g')))"
    by (auto elim!: and_then_InrE dest: sym)
  with assms(2,3) obtain x where "i = kb_item tok dp x (store g')" "has_read (kb_permission_of tok dp (da_id x) (store g'))"
    by (auto simp: agent_items_def agent_item_def kb_items_def)
  then show ?thesis by (simp add: kb_item_def Let_def dp_def)
qed


subsection \<open>Deletion\<close>

text \<open>Who may delete a knowledge base: the head department, its owner, and who may write.\<close>

definition deletable :: "bool \<Rightarrow> token \<Rightarrow> string \<Rightarrow> 'ref db \<Rightarrow> bool" where
  "deletable is_mp tok kb s \<longleftrightarrow>
     (\<exists>p. get_policy ''kb'' kb s = Some p \<and>
        (is_mp \<or> opt_or (p_owner_user_id p) [] = token_user tok \<or>
         has_write (effective_kb_permission (token_depts tok) (normalize_dept_id (opt_or (t_default_dept_id tok) []))
           kb (token_user tok) (Some (policy_view.truncate p)) s)))"

lemma store_drop_kb: "store (fst (drop_kb E kb g)) = deactivate_policy E ''kb'' kb (fst (cascade_cleanup_kb E kb (store g)))"
  by (simp add: drop_kb_def forget_sessions_def split_beta)

lemma get_policy_dropped:
  "get_policy ''kb'' x (store (fst (drop_kb E kb g))) = (if x = kb then None else get_policy ''kb'' x (store g))"
proof (cases "x = kb")
  case True
  then show ?thesis
    unfolding store_drop_kb get_policy_def deactivate_policy_def Let_def
    by (simp, intro fetchone_update_gone) auto
next
  case False
  then show ?thesis
    unfolding store_drop_kb get_policy_def deactivate_policy_def Let_def
    by (simp, intro fetchone_update_other) auto
qed

lemma permission_dropped:
  "get_kb_permission x u (store (fst (drop_kb E kb g))) \<in> {0, get_kb_permission x u (store g)}"
proof -
  have "approved_share x u (store (fst (drop_kb E kb g))) \<in> {None, approved_share x u (store g)}"
  proof (cases "str_strip kb = [] \<or> x \<noteq> str_strip kb")
    case True
    then have "approved_share x u (store (fst (drop_kb E kb g))) = approved_share x u (store g)"
      unfolding approved_share_def store_drop_kb
      by (cases "str_strip kb = []"; simp add: cascade_cleanup_blank cascade_cleanup_eq(1) [OF refl])
        (rule fetchone_delete_other, auto)
    then show ?thesis by simp
  next
    case False
    then have "approved_share x u (store (fst (drop_kb E kb g))) = None"
      unfolding approved_share_def store_drop_kb
      by (simp add: cascade_cleanup_eq(1) [OF refl] fetchone_None delete_where_def)
    then show ?thesis by simp
  qed
  then show ?thesis by (auto simp: get_kb_permission_def)
qed

lemma deletable_dropped:
  assumes "deletable mp tok x (store (fst (drop_kb E kb g)))"
  shows "deletable mp tok x (store g)"
proof -
  from assms obtain p where p: "get_policy ''kb'' x (store g) = Some p"
    and r: "mp \<or> opt_or (p_owner_user_id p) [] = token_user tok \<or>
         has_write (effective_kb_permission (token_depts tok) (normalize_dept_id (opt_or (t_default_dept_id tok) []))
           x (token_user tok) (Some (policy_view.truncate p)) (store (fst (drop_kb E kb g))))"
    by (auto simp: deletable_def get_policy_dropped split: if_splits)
  have "has_write (effective_kb_permission ds d x u (Some v) (store g))"
    if w: "has_write (effective_kb_permission ds d x u (Some v) (store (fst (drop_kb E kb g))))" for ds d u v
  proof -
    have named: "str_strip x \<noteq> []" "str_strip u \<noteq> []"
      using w effective_blank [of x u ds d "Some v" "store (fst (drop_kb E kb g))"] by auto
    have "owns_kb (str_strip x) (str_strip u) (Some v) (store (fst (drop_kb E kb g))) =
        owns_kb (str_strip x) (str_strip u) (Some v) (store g)"
      by (simp add: owns_kb_def kb_policy_view_def)
    with w show ?thesis
      using permission_dropped [of "str_strip x" "str_strip u" E kb g]
      by (auto simp: effective_bits(2) [OF named])
  qed
  with p r show ?thesis by (auto simp: deletable_def)
qed

lemma delete_each_calls:
  assumes "delete_each E C R tok mp kbs del reps g = (g', r)"
  shows "\<exists>calls. outbox g' = outbox g @ calls \<and>
      (\<forall>c\<in>set calls. \<exists>kb\<in>set kbs. \<exists>key. c = DeleteDatasets key [kb] \<and> deletable mp tok kb (store g))"
    and "\<And>x. r = Inr x \<Longrightarrow> fst x = del @ kbs \<and> (\<forall>kb\<in>set kbs. get_policy ''kb'' kb (store g') = None)"
    and "get_policy ''kb'' k (store g) = None \<Longrightarrow> get_policy ''kb'' k (store g') = None"
proof -
  have "(\<exists>calls. outbox g' = outbox g @ calls \<and>
      (\<forall>c\<in>set calls. \<exists>kb\<in>set kbs. \<exists>key. c = DeleteDatasets key [kb] \<and> deletable mp tok kb (store g))) \<and>
    (\<forall>x. r = Inr x \<longrightarrow> fst x = del @ kbs \<and> (\<forall>kb\<in>set kbs. get_policy ''kb'' kb (store g') = None)) \<and>
    (\<forall>k. get_policy ''kb'' k (store g) = None \<longrightarrow> get_policy ''kb'' k (store g') = None)"
    using assms
  proof (induction kbs arbitrary: del reps g)
    case (Cons kb kbs)
    show ?case
    proof (cases "deletable mp tok kb (store g)")
      case False
      with Cons.prems have "g' = g" "isl r"
        by (auto simp: deletable_def Let_def split: option.splits if_splits)
      then show ?thesis by auto
    next
      case True
      then obtain p where p: "get_policy ''kb'' kb (store g) = Some p" by (auto simp: deletable_def)
      define key where "key = (if opt_or (p_owner_user_id p) [] = [] then api_key C
          else get_user_ragflow_token (opt_or (p_owner_user_id p) []) (store g))"
      define m where "m = delete_datasets R key [kb] g"
      have m: "store (fst m) = store g" "outbox (fst m) = outbox g @ [DeleteDatasets key [kb]]"
        by (simp_all add: m_def delete_datasets_def)
      have step: "delete_each E C R tok mp (kb # kbs) del reps g =
          and_then m (\<lambda>_ g1. delete_each E C R tok mp kbs (del @ [kb]) (reps @ [snd (drop_kb E kb g1)]) (fst (drop_kb E kb g1)))"
        using True p by (auto simp: deletable_def Let_def m_def key_def split_beta)
      show ?thesis
      proof (cases "snd m")
        case (Inl e)
        with Cons.prems step m True show ?thesis by (cases m) (auto simp: and_then_def)
      next
        case (Inr x)
        define g2 where "g2 = fst (drop_kb E kb (fst m))"
        have g2: "outbox g2 = outbox g @ [DeleteDatasets key [kb]]"
          by (simp add: g2_def drop_kb_def forget_sessions_def split_beta m)
        from Cons.prems step Inr have "delete_each E C R tok mp kbs (del @ [kb]) (reps @ [snd (drop_kb E kb (fst m))]) g2 = (g', r)"
          by (cases m) (simp add: and_then_def g2_def)
        note IH = Cons.IH [OF this]
        have earlier: "deletable mp tok y (store g)" if "deletable mp tok y (store g2)" for y
          using deletable_dropped [of mp tok y E kb "fst m"] that by (simp add: g2_def m)
        have gone: "get_policy ''kb'' y (store g2) = (if y = kb then None else get_policy ''kb'' y (store g))" for y
          by (simp add: g2_def get_policy_dropped m)
        from IH obtain calls where c: "outbox g' = outbox g2 @ calls"
          "\<forall>c\<in>set calls. \<exists>kb\<in>set kbs. \<exists>key. c = DeleteDatasets key [kb] \<and> deletable mp tok kb (store g2)" by blast
        have 1: "\<exists>calls. outbox g' = outbox g @ calls \<and> (\<forall>c\<in>set calls. \<exists>x\<in>set (kb # kbs). \<exists>key.
            c = DeleteDatasets key [x] \<and> deletable mp tok x (store g))"
          using c earlier True by (intro exI [of _ "DeleteDatasets key [kb] # calls"]) (auto simp: g2)
        have 2: "get_policy ''kb'' k (store g') = None" if "get_policy ''kb'' k (store g) = None \<or> k = kb" for k
          using IH gone [of k] that by auto
        from IH 1 2 show ?thesis by auto
      qed
    qed
  qed auto
  then show "\<exists>calls. outbox g' = outbox g @ calls \<and>
      (\<forall>c\<in>set calls. \<exists>kb\<in>set kbs. \<exists>key. c = DeleteDatasets key [kb] \<and> deletable mp tok kb (store g))"
    and "\<And>x. r = Inr x \<Longrightarrow> fst x = del @ kbs \<and> (\<forall>kb\<in>set kbs. get_policy ''kb'' kb (store g') = None)"
    and "get_policy ''kb'' k (store g) = None \<Longrightarrow> get_policy ''kb'' k (store g') = None"
    by blast+
qed

text \<open>
  C9: deleting a list of knowledge bases.  Every deletion that is sent to RAGFlow names one knowledge
  base of the list that the user had the right to delete when the call began, also if a later one is
  refused; when the call succeeds, all of them are gone.
\<close>

theorem deletes_only_permitted:
  assumes "delete_kbs E C R tok kbs g = (g', r)"
  shows "\<exists>calls. outbox g' = outbox g @ calls \<and>
      (\<forall>c\<in>set calls. \<exists>kb\<in>set kbs. \<exists>key. c = DeleteDatasets key [kb] \<and>
         deletable (is_dept_admin (token_user tok) ''dept_mp'' (store g)) tok kb (store g)) \<and>
      (case r of Inl _ \<Rightarrow> True | Inr (deleted, _) \<Rightarrow> deleted = kbs \<and> (\<forall>kb\<in>set kbs. get_policy ''kb'' kb (store g') = None))"
proof (cases "token_user tok = []")
  case True
  with assms show ?thesis by (auto simp: delete_kbs_def)
next
  case False
  with assms have "delete_each E C R tok (is_dept_admin (token_user tok) ''dept_mp'' (store g)) kbs [] [] g = (g', r)"
    by (simp add: delete_kbs_def)
  from delete_each_calls(1,2) [OF this] show ?thesis by (cases r) fastforce+
qed

theorem deletes_only_permitted_witness:
  "\<exists>g' x. delete_kbs env0 cfg0 rag0 (token0 ''alice'' ''dept_mp_q'') [''kb1''] gw0 = (g', Inr x) \<and>
     get_policy ''kb'' ''kb1'' (store g') = None"
proof -
  have "case_sum (\<lambda>_. False) (\<lambda>_. True) (snd (delete_kbs env0 cfg0 rag0 (token0 ''alice'' ''dept_mp_q'') [''kb1''] gw0))"
    by code_simp
  then obtain g' x where *: "delete_kbs env0 cfg0 rag0 (token0 ''alice'' ''dept_mp_q'') [''kb1''] gw0 = (g', Inr x)"
    by (rule result_cases)
  from deletes_only_permitted [OF *] * show ?thesis by (cases x) auto
qed

subsection \<open>Who owns a knowledge base\<close>

text \<open>
  An upload makes the uploader the owner.  Whoever uploads into a knowledge base, also one that
  somebody else owns and that he may only write to, is its owner afterwards, in his department, and
  the lists of allowed and denied departments are empty.
\<close>

lemma upload_takes_ownership:
  assumes "store_ok (store g)" and "upload_kb_for_dept E C R tok d nm fs descr priv g = (g', Inr x)"
    and "token_user tok \<noteq> []"
  shows "normalize_dept_id d \<in> token_depts tok \<and>
    (\<exists>p. get_policy ''kb'' (up_kb_id x) (store g') = Some p \<and>
       policy_has p (normalize_dept_id d) (Some (token_user tok)) (if priv then ''private'' else ''dept'') [] [] [] ''D'')"
proof
  show "normalize_dept_id d \<in> token_depts tok"
    using assms(2) by (auto simp: upload_kb_for_dept_def Let_def split: if_splits)
  obtain g1 r where l: "list_datasets R (get_rag_client C (token_user tok) g) None g = (g1, r)" by fastforce
  then have "store g1 = store g" by (auto simp: list_datasets_def rag_request_def)
  with assms(2,3) l obtain g5 i pl where up: "on_store (upsert_policy E ''kb'' i (normalize_dept_id d)
        (if priv then ''private'' else ''dept'') (token_user tok) (Some (token_user tok)) None None None ''D'') g5 = (g', Inr ())"
    and i: "up_kb_id x = i" and s5: "store g5 = fst (file_payload E fs (store g))"
    by (auto simp: upload_kb_for_dept_def Let_def rag_request_def split: if_splits sum.splits option.splits prod.splits
        elim!: and_then_InrE)
  have "store_ok (store g5)"
    unfolding s5 by (rule portal_store.inv_file_payload [OF assms(1)])
  then have ok: "db_ok (store g5)" by (simp add: store_ok_def)
  have "upsert_policy E ''kb'' i (normalize_dept_id d) (if priv then ''private'' else ''dept'') (token_user tok)
      (Some (token_user tok)) None None None ''D'' (store g5) = (store g', Inr ())"
    using up by (auto simp: on_store_def split: prod.splits)
  from upsert_policyD(7) [OF ok this] show "\<exists>p. get_policy ''kb'' (up_kb_id x) (store g') = Some p \<and>
       policy_has p (normalize_dept_id d) (Some (token_user tok)) (if priv then ''private'' else ''dept'') [] [] [] ''D''"
    by (simp add: i list_or_empty_def)
qed

text \<open>Bob may write to Alice's knowledge base.\<close>

definition gw1 :: gw where
  "gw1 = \<lparr>store = db0\<lparr>kb_shares := [share0 1 ''kb1'' ''bob'' 7 None]\<rparr>, registry = Map.empty, outbox = []\<rparr>"

text \<open>
  The policy form of the administrator passes no owner, and the next time resources are listed
  the account that holds the knowledge base claims it.  The claim keeps the department and the
  visibility but drops what the form had stored: the allowed and denied departments and the roles.
\<close>

lemma claim_drops_lists:
  assumes "db_ok s" and "upsert_policy E ''kb'' kb od vis cb None al de ro cat s = (s1, Inr ())"
    and "claim_kb E u dp kb s1 = (s2, Inr ())"
  shows "\<exists>p. get_policy ''kb'' kb s2 = Some p \<and> policy_has p od (Some u) vis [] [] [] cat"
proof -
  from upsert_policyD(1,7) [OF assms(1,2)] obtain p where ok: "db_ok s1"
    and p: "get_policy ''kb'' kb s1 = Some p" "p_owner_user_id p = None" "p_owner_dept_id p = od"
      "p_visibility p = vis" "p_category p = cat"
    by (auto simp: policy_has_def)
  with assms(3) have "upsert_policy E ''kb'' kb od vis ''system'' (Some u) None None None cat s1 = (s2, Inr ())"
    by (simp add: claim_kb_def claim_resource_def)
  from upsert_policyD(7) [OF ok this] show ?thesis by (simp add: list_or_empty_def)
qed

end
