(* ===== verification/QmsText.thy ===== *)
theory QmsText
  imports Prelude
begin

text \<open>
  Text of the QMS agent service (\<open>extensions/qms_agent_backend/memory_store.py\<close>,
  \<open>qms_agent_service.py\<close>): a Python \<open>str\<close> as the list of its code points, since the service
  slices, scans and matches Chinese text; and the regular expressions it searches with, one
  definition per shape of expression.
\<close>

subsection \<open>Text\<close>

type_synonym ustr = "nat list"

definition asc :: "string \<Rightarrow> ustr" where
  "asc s = map of_char s"

lemma asc_Nil [simp]: "asc [] = []"
  by (simp add: asc_def)

lemma asc_Cons [simp]: "asc (c # s) = of_char c # asc s"
  by (simp add: asc_def)

text \<open>\<open>str.isspace\<close>, which is also \<open>\s\<close> of \<open>re\<close>; \<open>strip()\<close>; \<open>lower()\<close> of ASCII text.\<close>

definition u_space :: "nat \<Rightarrow> bool" where
  "u_space c \<longleftrightarrow> (9 \<le> c \<and> c \<le> 13) \<or> (28 \<le> c \<and> c \<le> 32) \<or> c = 0x85 \<or> c = 0xA0 \<or> c = 0x1680
     \<or> (0x2000 \<le> c \<and> c \<le> 0x200A) \<or> c = 0x2028 \<or> c = 0x2029 \<or> c = 0x202F \<or> c = 0x205F \<or> c = 0x3000"

definition u_strip :: "ustr \<Rightarrow> ustr" where
  "u_strip s = rev (dropWhile u_space (rev (dropWhile u_space s)))"

definition u_lower :: "ustr \<Rightarrow> ustr" where
  "u_lower s = map (\<lambda>c. if 65 \<le> c \<and> c \<le> 90 then c + 32 else c) s"

definition u_starts :: "ustr \<Rightarrow> ustr \<Rightarrow> bool" where
  "u_starts p s \<longleftrightarrow> take (length p) s = p"

fun u_in :: "ustr \<Rightarrow> ustr \<Rightarrow> bool" where
  "u_in p [] = (p = [])"
| "u_in p (c # cs) = (u_starts p (c # cs) \<or> u_in p cs)"

fun u_join :: "ustr \<Rightarrow> ustr list \<Rightarrow> ustr" where
  "u_join d [] = []"
| "u_join d [x] = x"
| "u_join d (x # y # ys) = x @ d @ u_join d (y # ys)"

fun u_split :: "nat \<Rightarrow> ustr \<Rightarrow> ustr list" where
  "u_split c [] = [[]]"
| "u_split c (x # xs) =
     (if x = c then [] # u_split c xs
      else case u_split c xs of [] \<Rightarrow> [[x]] | p # ps \<Rightarrow> (x # p) # ps)"

text \<open>SQLite's \<open>content LIKE '%' || kw || '%'\<close>: ASCII letters match in either case, \<open>%\<close> and \<open>_\<close> of \<open>kw\<close> are wildcards.\<close>

fun u_like :: "ustr \<Rightarrow> ustr \<Rightarrow> bool" where
  "u_like [] s = (s = [])"
| "u_like (p # ps) [] = (p = 37 \<and> u_like ps [])"
| "u_like (p # ps) (c # cs) =
     (if p = 37 then u_like ps (c # cs) \<or> u_like (p # ps) cs
      else (p = 95 \<or> u_lower [p] = u_lower [c]) \<and> u_like ps cs)"

definition u_contains :: "ustr \<Rightarrow> ustr \<Rightarrow> bool" where
  "u_contains kw s = u_like ([37] @ kw @ [37]) s"

subsection \<open>Classes of characters\<close>

definition is_letter :: "nat \<Rightarrow> bool" where
  "is_letter c \<longleftrightarrow> (65 \<le> c \<and> c \<le> 90) \<or> (97 \<le> c \<and> c \<le> 122)"

definition is_cjk :: "nat \<Rightarrow> bool" where
  "is_cjk c \<longleftrightarrow> 0x4E00 \<le> c \<and> c \<le> 0x9FA5"

text \<open>\<open>[A-Za-z0-9\u4e00-\u9fa5_\-]\<close>, \<open>[0-9a-f]\<close>, and what is neither a Chinese comma or full stop nor a line end.\<close>

definition is_term_char :: "nat \<Rightarrow> bool" where
  "is_term_char c \<longleftrightarrow> is_letter c \<or> (48 \<le> c \<and> c \<le> 57) \<or> is_cjk c \<or> c = 95 \<or> c = 45"

definition is_hex :: "nat \<Rightarrow> bool" where
  "is_hex c \<longleftrightarrow> (48 \<le> c \<and> c \<le> 57) \<or> (97 \<le> c \<and> c \<le> 102)"

definition in_clause :: "nat \<Rightarrow> bool" where
  "in_clause c \<longleftrightarrow> c \<noteq> 0xFF0C \<and> c \<noteq> 0x3002 \<and> c \<noteq> 10"

subsection \<open>Searches\<close>

text \<open>
  \<open>re.findall\<close> scans from the left; after a match it goes on behind it, and past one character
  where there is none.  \<open>scan m s\<close> collects the groups of the matches that \<open>m\<close> finds: \<open>m t\<close> is
  the group and the length of the match at the start of \<open>t\<close>.
\<close>

function scan :: "(ustr \<Rightarrow> (ustr \<times> nat) option) \<Rightarrow> ustr \<Rightarrow> ustr list" where
  "scan m [] = []"
| "scan m (c # cs) =
     (case m (c # cs) of
        None \<Rightarrow> scan m cs
      | Some (g, n) \<Rightarrow> g # scan m (drop (n - 1) cs))"
  by pat_completeness auto
termination
  by (relation "measure (\<lambda>(m, s). length s)") auto

text \<open>
  \<open>(?:p1|p2|...)([...]{lo,hi})\<close>, the alternatives being no prefixes of each other; with \<open>gap\<close>,
  \<open>\s*\<close> stands before the group.
\<close>

definition after_prefix ::
  "ustr list \<Rightarrow> bool \<Rightarrow> (nat \<Rightarrow> bool) \<Rightarrow> nat \<Rightarrow> nat \<Rightarrow> ustr \<Rightarrow> (ustr \<times> nat) option" where
  "after_prefix ps gap ok lo hi s =
     (case find (\<lambda>p. u_starts p s) ps of
        None \<Rightarrow> None
      | Some p \<Rightarrow>
          let r = drop (length p) s;
              k = (if gap then length (takeWhile u_space r) else 0);
              g = take hi (takeWhile ok (drop k r))
          in if lo \<le> length g then Some (g, length p + k + length g) else None)"

text \<open>\<open>(a.*?b)\<close> and \<open>(a.*?b.*?)\<close>, whose last part matches nothing: \<open>b\<close> is sought in the line of \<open>a\<close>.\<close>

fun find_text :: "ustr \<Rightarrow> ustr \<Rightarrow> nat option" where
  "find_text b [] = (if b = [] then Some 0 else None)"
| "find_text b (c # cs) = (if u_starts b (c # cs) then Some 0 else map_option Suc (find_text b cs))"

definition lazy_pair :: "ustr \<Rightarrow> ustr \<Rightarrow> ustr \<Rightarrow> (ustr \<times> nat) option" where
  "lazy_pair a b s =
     (if u_starts a s then
        case find_text b (takeWhile (\<lambda>c. c \<noteq> 10) (drop (length a) s)) of
          None \<Rightarrow> None
        | Some k \<Rightarrow> let n = length a + k + length b in Some (take n s, n)
      else None)"

text \<open>
  \<open>([...]{2,30})\s*q\<close>: the longest run of at most 30 characters behind which, after white space,
  \<open>q\<close> follows.
\<close>

definition before_suffix :: "ustr \<Rightarrow> ustr \<Rightarrow> (ustr \<times> nat) option" where
  "before_suffix q s =
     (let run = take 30 (takeWhile is_term_char s);
          fits = (\<lambda>n. u_starts q (dropWhile u_space (drop n s)))
      in case find fits (rev [2 ..< Suc (length run)]) of
           None \<Rightarrow> None
         | Some n \<Rightarrow> Some (take n s, n + length (takeWhile u_space (drop n s)) + length q))"

text \<open>\<open>[A-Za-z]{3,}|[\u4e00-\u9fa5]{2,}\<close>.\<close>

definition word_at :: "ustr \<Rightarrow> (ustr \<times> nat) option" where
  "word_at s =
     (let w = takeWhile is_letter s; z = takeWhile is_cjk s in
      if 3 \<le> length w then Some (w, length w)
      else if 2 \<le> length z then Some (z, length z) else None)"

text \<open>\<open>re.search(r"The dataset\s+([0-9a-f]{32})\s+doesn't own parsed file", text)\<close>, its group.\<close>

definition dataset_at :: "ustr \<Rightarrow> (ustr \<times> nat) option" where
  "dataset_at s =
     (let a = asc ''The dataset''; r = drop (length a) s; h = dropWhile u_space r; t = drop 32 h in
      if u_starts a s \<and> r \<noteq> h \<and> length (takeWhile is_hex (take 32 h)) = 32 \<and> t \<noteq> dropWhile u_space t
         \<and> u_starts (asc ''doesn'' @ [39] @ asc ''t own parsed file'') (dropWhile u_space t)
      then Some (take 32 h, length s) else None)"

definition bad_dataset :: "ustr \<Rightarrow> ustr option" where
  "bad_dataset s = (case scan dataset_at s of [] \<Rightarrow> None | g # _ \<Rightarrow> Some g)"

subsection \<open>Lemmas\<close>

lemma u_starts_iff: "u_starts p s \<longleftrightarrow> (\<exists>t. s = p @ t)"
  by (metis append_eq_conv_conj append_take_drop_id u_starts_def)

lemma u_in_iff: "u_in p s \<longleftrightarrow> (\<exists>u v. s = u @ p @ v)"
proof (induction s)
  case (Cons c cs)
  have "(\<exists>u v. c # cs = u @ p @ v) \<longleftrightarrow> (\<exists>v. c # cs = p @ v) \<or> (\<exists>u v. cs = u @ p @ v)"
    by (metis append_Cons append_Nil list.exhaust list.inject)
  with Cons show ?case by (simp add: u_starts_iff)
qed simp

text \<open>Whatever a scan finds was matched at a suffix of the text.\<close>

lemma scan_sound:
  "g \<in> set (scan m s) \<Longrightarrow> \<exists>u t n. s = u @ t \<and> m t = Some (g, n)"
proof (induction m s rule: scan.induct)
  case (2 m c cs)
  show ?case
  proof (cases "m (c # cs)")
    case None
    with 2 obtain u t n where "cs = u @ t" "m t = Some (g, n)" by auto
    then have "c # cs = (c # u) @ t" by simp
    with \<open>m t = Some (g, n)\<close> show ?thesis by blast
  next
    case (Some gn)
    obtain h n where gn: "gn = (h, n)" by (cases gn)
    show ?thesis
    proof (cases "g = h")
      case True
      with Some gn have "c # cs = [] @ (c # cs) \<and> m (c # cs) = Some (g, n)" by simp
      then show ?thesis by blast
    next
      case False
      from "2.prems" Some gn False have "g \<in> set (scan m (drop (n - 1) cs))" by simp
      with "2.IH"(2) [OF Some gn [symmetric]] obtain u t k where "drop (n - 1) cs = u @ t" "m t = Some (g, k)"
        by blast
      then have "c # cs = (c # take (n - 1) cs @ u) @ t"
        by (metis append.assoc append_Cons append_take_drop_id)
      with \<open>m t = Some (g, k)\<close> show ?thesis by blast
    qed
  qed
qed simp

lemma bad_dataset_length: "bad_dataset s = Some g \<Longrightarrow> length g = 32"
proof -
  assume "bad_dataset s = Some g"
  then have "g \<in> set (scan dataset_at s)" by (auto simp: bad_dataset_def split: list.splits)
  then obtain u t n where "dataset_at t = Some (g, n)" using scan_sound by blast
  then show ?thesis
    by (auto simp: dataset_at_def Let_def split: if_splits)
      (metis length_take length_takeWhile_le min.absorb2 min.commute min_def order_antisym)
qed

text \<open>A keyword without wildcards is sought as a substring, whatever the case of its letters.\<close>

lemma u_like_tail: "u_like [37] s"
  by (induction s) auto

lemma u_like_plain:
  assumes "37 \<notin> set p" and "95 \<notin> set p"
  shows "u_like (p @ [37]) s \<longleftrightarrow> u_starts (u_lower p) (u_lower s)"
  using assms
proof (induction p arbitrary: s)
  case Nil
  show ?case by (simp add: u_like_tail u_starts_def u_lower_def)
next
  case (Cons q p)
  then show ?case by (cases s) (auto simp: u_starts_def u_lower_def)
qed

lemma u_contains_plain:
  assumes "37 \<notin> set p" and "95 \<notin> set p"
  shows "u_contains p s \<longleftrightarrow> u_in (u_lower p) (u_lower s)"
proof (induction s)
  case Nil
  have "u_like (p @ [37]) [] \<longleftrightarrow> u_starts (u_lower p) (u_lower [])" by (rule u_like_plain [OF assms])
  then show ?case by (simp add: u_contains_def u_starts_def u_lower_def)
next
  case (Cons c s)
  have "u_like (p @ [37]) (c # s) \<longleftrightarrow> u_starts (u_lower p) (u_lower (c # s))"
    by (rule u_like_plain [OF assms])
  moreover have "u_contains p (c # s) \<longleftrightarrow> u_like (p @ [37]) (c # s) \<or> u_contains p s"
    by (simp add: u_contains_def)
  ultimately show ?case using Cons by (simp add: u_lower_def)
qed

end
