(* ===== verification/QmsMemory.thy ===== *)
theory QmsMemory
  imports Complex_Main QmsText "HOL-Library.Product_Lexorder"
begin

text \<open>
  The memory store of the QMS agent service (\<open>memory_store.py\<close>): its four tables as lists of
  rows in insertion order, one definition per method.  A weight is an SQLite \<open>REAL\<close>, kept as the
  rational number it is; \<open>q_rnd\<close> rounds the exact result of an operation to a double.
\<close>

subsection \<open>Environment and tables\<close>

text \<open>
  \<open>q_iso n\<close> is the \<open>n\<close>-th reading of \<open>datetime.now(timezone.utc).isoformat()\<close>, numbered by the
  store's counter; \<open>q_float\<close> is \<open>float(text)\<close>, and \<open>q_of_int\<close> \<open>float\<close> of an integer, which overflows beyond
  the largest double.
\<close>

datatype pyfloat = Fin rat | PosInf | NegInf | NaN

record qenv =
  q_rnd :: "rat \<Rightarrow> rat"
  q_iso :: "nat \<Rightarrow> ustr"
  q_float :: "ustr \<Rightarrow> pyfloat option"
  q_of_int :: "int \<Rightarrow> rat option"

record memory_item =
  mi_user :: ustr
  mi_type :: ustr
  mi_content :: ustr
  mi_weight :: rat

record memory_row = memory_item +
  mi_seen :: ustr

type_synonym doc = "ustr \<times> ustr"   \<comment> \<open>\<open>document_id\<close>, \<open>document_name\<close>\<close>

record log_row =
  lg_id :: nat
  lg_user :: ustr
  lg_session :: ustr
  lg_question :: ustr
  lg_answer :: ustr
  lg_references :: "doc list"
  lg_created :: ustr

record profile =
  pf_user :: ustr
  pf_persona :: "ustr list"
  pf_preferences :: "ustr list"
  pf_objectives :: "ustr list"
  pf_glossary :: "(ustr \<times> ustr) list"
  pf_topics :: "ustr list"
  pf_memory_count :: nat
  pf_conversation_count :: nat
  pf_updated :: ustr

record feedback_row =
  fb_user :: ustr
  fb_session :: ustr
  fb_question :: ustr
  fb_original :: ustr
  fb_corrected :: ustr
  fb_signal :: ustr
  fb_score :: rat
  fb_created :: ustr

text \<open>
  The columns \<open>references_json\<close> and \<open>profile_json\<close> hold the value their text encodes: the store
  is their only writer, and reads back what \<open>json.dumps\<close> wrote.
\<close>

record memdb =
  typed_memory :: "memory_row list"
  conversation_log :: "log_row list"
  user_profile :: "profile list"
  feedback_log :: "feedback_row list"
  q_ticks :: nat

definition empty_memdb :: memdb where
  "empty_memdb = \<lparr>typed_memory = [], conversation_log = [], user_profile = [], feedback_log = [], q_ticks = 0\<rparr>"

definition q_tick :: "memdb \<Rightarrow> memdb" where
  "q_tick M = M\<lparr>q_ticks := Suc (q_ticks M)\<rparr>"

definition q_now :: "qenv \<Rightarrow> memdb \<Rightarrow> ustr" where
  "q_now E M = q_iso E (q_ticks M)"

subsection \<open>Memories\<close>

definition same_memory :: "memory_item \<Rightarrow> memory_row \<Rightarrow> bool" where
  "same_memory i r \<longleftrightarrow> mi_user r = mi_user i \<and> mi_type r = mi_type i \<and> mi_content r = u_strip (mi_content i)"

definition reinforce :: "qenv \<Rightarrow> ustr \<Rightarrow> rat \<Rightarrow> memory_row \<Rightarrow> memory_row" where
  "reinforce E t w r =
     r\<lparr>mi_weight := min 10 (q_rnd E (mi_weight r + q_rnd E (w * q_rnd E (1/5)))), mi_seen := t\<rparr>"

definition new_memory :: "ustr \<Rightarrow> memory_item \<Rightarrow> memory_row" where
  "new_memory t i = \<lparr>mi_user = mi_user i, mi_type = mi_type i, mi_content = u_strip (mi_content i),
     mi_weight = mi_weight i, mi_seen = t\<rparr>"

definition upsert_memory :: "qenv \<Rightarrow> ustr \<Rightarrow> memory_item \<Rightarrow> memory_row list \<Rightarrow> memory_row list" where
  "upsert_memory E t i = upsert (same_memory i) (reinforce E t (mi_weight i)) (new_memory t i)"

definition upsert_memories :: "qenv \<Rightarrow> memory_item list \<Rightarrow> memdb \<Rightarrow> memdb" where
  "upsert_memories E items M =
     (let t = q_now E M in
      (q_tick M)\<lparr>typed_memory := fold (upsert_memory E t) items (typed_memory M)\<rparr>)"

definition ranked_memories :: "ustr \<Rightarrow> memdb \<Rightarrow> memory_row list" where
  "ranked_memories user M =
     order_desc (\<lambda>r. (mi_weight r, mi_seen r)) (filter (\<lambda>r. mi_user r = user) (typed_memory M))"

definition get_top_memories :: "ustr \<Rightarrow> nat \<Rightarrow> memdb \<Rightarrow> memory_row list" where
  "get_top_memories user limit M = take limit (ranked_memories user M)"

text \<open>\<open>decay_memories_by_keywords\<close> counts the rows that each keyword's \<open>UPDATE\<close> matches.\<close>

definition decay_hit :: "ustr \<Rightarrow> ustr \<Rightarrow> memory_row \<Rightarrow> bool" where
  "decay_hit user kw r \<longleftrightarrow> mi_user r = user \<and> u_contains kw (mi_content r)"

definition weaken :: "qenv \<Rightarrow> rat \<Rightarrow> ustr \<Rightarrow> memory_row \<Rightarrow> memory_row" where
  "weaken E factor t r =
     r\<lparr>mi_weight := max (q_rnd E (1/10)) (q_rnd E (mi_weight r * factor)), mi_seen := t\<rparr>"

definition decay_keyword :: "qenv \<Rightarrow> ustr \<Rightarrow> rat \<Rightarrow> ustr \<Rightarrow> memdb \<times> nat \<Rightarrow> memdb \<times> nat" where
  "decay_keyword E user factor kw = (\<lambda>(M, n).
     ((q_tick M)\<lparr>typed_memory := update_where (decay_hit user kw) (weaken E factor (q_now E M)) (typed_memory M)\<rparr>,
      n + rowcount (decay_hit user kw) (typed_memory M)))"

definition decay_factor :: "qenv \<Rightarrow> rat \<Rightarrow> rat" where
  "decay_factor E f = min (q_rnd E (99/100)) (max (q_rnd E (1/10)) f)"

definition decay_memories_by_keywords :: "qenv \<Rightarrow> ustr \<Rightarrow> ustr list \<Rightarrow> rat \<Rightarrow> memdb \<Rightarrow> memdb \<times> nat" where
  "decay_memories_by_keywords E user keywords f M =
     (let kws = filter (\<lambda>k. k \<noteq> []) (map u_strip (filter (\<lambda>k. k \<noteq> []) keywords)) in
      if kws = [] then (M, 0)
      else fold (decay_keyword E user (decay_factor E f)) kws (M, 0))"

subsection \<open>Conversations and feedback\<close>

definition log_interaction :: "qenv \<Rightarrow> ustr \<Rightarrow> ustr \<Rightarrow> ustr \<Rightarrow> ustr \<Rightarrow> doc list \<Rightarrow> memdb \<Rightarrow> memdb" where
  "log_interaction E user session question answer refs M =
     (q_tick M)\<lparr>conversation_log := conversation_log M @
        [\<lparr>lg_id = Suc (length (conversation_log M)), lg_user = user, lg_session = session,
          lg_question = question, lg_answer = answer, lg_references = refs, lg_created = q_now E M\<rparr>]\<rparr>"

definition recent_history :: "ustr \<Rightarrow> ustr \<Rightarrow> nat \<Rightarrow> memdb \<Rightarrow> log_row list" where
  "recent_history user session limit M =
     take limit (order_desc lg_id (filter (\<lambda>r. lg_user r = user \<and> lg_session r = session) (conversation_log M)))"

definition recent_history_all_sessions :: "ustr \<Rightarrow> nat \<Rightarrow> memdb \<Rightarrow> log_row list" where
  "recent_history_all_sessions user limit M =
     take limit (order_desc lg_id (filter (\<lambda>r. lg_user r = user) (conversation_log M)))"

definition log_feedback ::
  "qenv \<Rightarrow> ustr \<Rightarrow> ustr \<Rightarrow> ustr \<Rightarrow> ustr \<Rightarrow> ustr \<Rightarrow> ustr \<Rightarrow> rat \<Rightarrow> memdb \<Rightarrow> memdb" where
  "log_feedback E user session question original corrected signal score M =
     (q_tick M)\<lparr>feedback_log := feedback_log M @
        [\<lparr>fb_user = user, fb_session = session, fb_question = question, fb_original = original,
          fb_corrected = corrected, fb_signal = signal, fb_score = score, fb_created = q_now E M\<rparr>]\<rparr>"

subsection \<open>The profile of a user\<close>

definition stop_words :: "ustr list" where
  "stop_words =
    [[0x8BF7], [0x5E2E], [0x4E00, 0x4E0B], [0x8FD9, 0x4E2A], [0x90A3, 0x4E2A], [0x6211, 0x4EEC],
     [0x4F60, 0x4EEC], [0x4EE5, 0x53CA], [0x8FD8, 0x6709], [0x5982, 0x4F55], [0x4EC0, 0x4E48],
     [0x6839, 0x636E], [0x5173, 0x4E8E], asc ''the'', asc ''and'', asc ''for'', asc ''with'',
     asc ''that'', asc ''this'', asc ''from'', asc ''what'', asc ''how'', asc ''please'']"

text \<open>\<open>d[k] = v\<close> and \<open>d[k] = d.get(k, 0) + 1\<close>: a new key goes to the end.\<close>

fun put_key :: "'k \<Rightarrow> 'v \<Rightarrow> ('k \<times> 'v) list \<Rightarrow> ('k \<times> 'v) list" where
  "put_key k v [] = [(k, v)]"
| "put_key k v ((j, w) # d) = (if j = k then (k, v) # d else (j, w) # put_key k v d)"

definition count_key :: "'k \<Rightarrow> ('k \<times> nat) list \<Rightarrow> ('k \<times> nat) list" where
  "count_key k d = put_key k (case map_of d k of None \<Rightarrow> 1 | Some n \<Rightarrow> n + 1) d"

definition glossary_entry :: "ustr \<Rightarrow> (ustr \<times> ustr) list \<Rightarrow> (ustr \<times> ustr) list" where
  "glossary_entry g d =
     (if 61 \<notin> set g then d
      else let k = u_strip (takeWhile (\<lambda>c. c \<noteq> 61) g); v = u_strip (tl (dropWhile (\<lambda>c. c \<noteq> 61) g)) in
           if k \<noteq> [] \<and> v \<noteq> [] then put_key k v d else d)"

definition row_tokens :: "log_row \<Rightarrow> ustr list" where
  "row_tokens r = filter (\<lambda>t. t \<notin> set stop_words)
     (map u_lower (scan word_at (lg_question r @ [32] @ take 200 (lg_answer r))))"

definition top_topics :: "log_row list \<Rightarrow> ustr list" where
  "top_topics rows =
     take 8 (map fst (order_desc snd (fold count_key (concat (map row_tokens rows)) [])))"

definition contents_of :: "string \<Rightarrow> memory_row list \<Rightarrow> ustr list" where
  "contents_of ty rows = map mi_content (filter (\<lambda>r. mi_type r = asc ty) rows)"

definition build_profile :: "ustr \<Rightarrow> ustr \<Rightarrow> memdb \<Rightarrow> profile" where
  "build_profile user t M =
     (let mems = ranked_memories user M; logs = recent_history_all_sessions user 200 M in
      \<lparr>pf_user = user,
       pf_persona = take 6 (contents_of ''profile'' mems),
       pf_preferences = take 8 (contents_of ''preference'' mems),
       pf_objectives = take 6 (contents_of ''objective'' mems),
       pf_glossary = fold glossary_entry (contents_of ''glossary'' mems) [],
       pf_topics = top_topics logs,
       pf_memory_count = length mems,
       pf_conversation_count = length logs,
       pf_updated = t\<rparr>)"

definition refresh_user_profile :: "qenv \<Rightarrow> ustr \<Rightarrow> memdb \<Rightarrow> memdb \<times> profile" where
  "refresh_user_profile E user M =
     (let p = build_profile user (q_now E M) M in
      ((q_tick M)\<lparr>user_profile := upsert (\<lambda>r. pf_user r = user) (\<lambda>_. p) p (user_profile M)\<rparr>, p))"

text \<open>\<open>get_user_profile\<close> with \<open>auto_build\<close>, which all callers leave at \<open>True\<close>, and without.\<close>

definition get_user_profile :: "qenv \<Rightarrow> ustr \<Rightarrow> bool \<Rightarrow> memdb \<Rightarrow> memdb \<times> profile option" where
  "get_user_profile E user auto_build M =
     (case fetchone (\<lambda>r. pf_user r = user) (user_profile M) of
        Some p \<Rightarrow> (M, Some p)
      | None \<Rightarrow> if auto_build then (let (M1, p) = refresh_user_profile E user M in (M1, Some p))
                else (M, None))"

end
