(* ===== verification/QmsService.thy ===== *)
theory QmsService
  imports QmsMemory
begin

text \<open>
  The QMS agent service (\<open>qms_agent_service.py\<close>): the chat it binds at start-up, what it learns
  from a conversation, the prompts, the questions and the feedback.  RAGFlow is the parameter
  \<open>A\<close>: its \<open>n\<close>-th answer may depend on everything before, so every call gets its number.
\<close>

subsection \<open>RAGFlow and the state of the service\<close>

record chat =
  ct_id :: ustr
  ct_datasets :: "ustr list"

text \<open>A chunk of a reference: the six keys of the dictionary that are read.\<close>

record ref_chunk =
  rc_document_id :: "ustr option"
  rc_doc_id :: "ustr option"
  rc_id :: "ustr option"
  rc_document_name :: "ustr option"
  rc_docnm_kwd :: "ustr option"
  rc_doc_name :: "ustr option"

text \<open>An exception is its text, \<open>str(e)\<close>.  \<open>list_chats\<close> is \<^term>\<open>None\<close> when no list can be read from the reply.\<close>

record qms_api =
  api_get_chat :: "nat \<Rightarrow> ustr \<Rightarrow> ustr + chat"
  api_create_chat :: "nat \<Rightarrow> ustr \<Rightarrow> ustr list \<Rightarrow> ustr + chat"
  api_update_chat :: "nat \<Rightarrow> ustr \<Rightarrow> ustr list \<Rightarrow> ustr option"
  api_list_chats :: "nat \<Rightarrow> ustr \<Rightarrow> (ustr option \<times> ustr option) list option"
  api_create_session :: "nat \<Rightarrow> ustr \<Rightarrow> ustr \<Rightarrow> ustr + ustr"
  api_ask :: "nat \<Rightarrow> ustr \<Rightarrow> ustr \<Rightarrow> ustr + ustr \<times> ref_chunk list"
  api_stamp :: "nat \<Rightarrow> ustr"

record qms_config =
  qc_chat_id :: ustr
  qc_chat_name :: ustr
  qc_dataset_ids :: "ustr list option"

record qms =
  qs_memory :: memdb
  qs_chat :: chat
  qs_sessions :: "(ustr \<times> ustr) list"
  qs_calls :: nat

datatype q_error =
    QValueError ustr
  | QTypeError
  | QAttributeError
  | QOverflowError
  | QJsonError
  | QRemoteError ustr

definition q_call :: "qms \<Rightarrow> qms" where
  "q_call Q = Q\<lparr>qs_calls := Suc (qs_calls Q)\<rparr>"

subsection \<open>The chat of the service\<close>

definition drop_invalid_dataset_id :: "ustr \<Rightarrow> ustr list \<Rightarrow> ustr list" where
  "drop_invalid_dataset_id err ids =
     (case bad_dataset err of None \<Rightarrow> ids | Some bad \<Rightarrow> filter (\<lambda>x. x \<noteq> bad) ids)"

lemma drop_invalid_shorter:
  "drop_invalid_dataset_id err ids \<noteq> ids \<Longrightarrow> length (drop_invalid_dataset_id err ids) < length ids"
  by (auto simp: drop_invalid_dataset_id_def split: option.splits)
    (metis (mono_tags, lifting) filter_True length_filter_less)

text \<open>The loop drops one refused data set per turn, so it ends with the list.\<close>

function create_chat_with_valid_datasets ::
  "qms_api \<Rightarrow> ustr \<Rightarrow> ustr list \<Rightarrow> nat \<Rightarrow> nat \<times> (ustr + chat)" where
  "create_chat_with_valid_datasets A name cur n =
     (case api_create_chat A n name cur of
        Inr c \<Rightarrow> (Suc n, Inr c)
      | Inl e \<Rightarrow>
          let nxt = drop_invalid_dataset_id e cur in
          if nxt = cur then (Suc n, Inl e) else create_chat_with_valid_datasets A name nxt (Suc n))"
  by pat_completeness auto
termination
  by (relation "measure (\<lambda>(A, name, cur, n). length cur)") (auto simp: drop_invalid_shorter)

declare create_chat_with_valid_datasets.simps [simp del]

definition try_bind :: "qms_api \<Rightarrow> chat \<Rightarrow> ustr list \<Rightarrow> nat \<Rightarrow> nat \<times> (ustr + chat)" where
  "try_bind A c ids n =
     (case api_update_chat A n (ct_id c) ids of
        Some e \<Rightarrow> (Suc n, Inl e)
      | None \<Rightarrow> (Suc (Suc n), api_get_chat A (Suc n) (ct_id c)))"

function bind_retry :: "qms_api \<Rightarrow> chat \<Rightarrow> ustr list \<Rightarrow> ustr \<Rightarrow> nat \<Rightarrow> nat \<times> chat" where
  "bind_retry A c cur e n =
     (let nxt = drop_invalid_dataset_id e cur in
      if nxt = cur then (n, c)
      else case try_bind A c nxt n of
             (n1, Inr c1) \<Rightarrow> (n1, c1)
           | (n1, Inl e1) \<Rightarrow> bind_retry A c nxt e1 n1)"
  by pat_completeness auto
termination
  by (relation "measure (\<lambda>(A, c, cur, e, n). length cur)") (auto simp: drop_invalid_shorter)

declare bind_retry.simps [simp del]

definition bind_datasets_if_needed :: "qms_api \<Rightarrow> ustr list \<Rightarrow> chat \<Rightarrow> nat \<Rightarrow> nat \<times> chat" where
  "bind_datasets_if_needed A expected c n =
     (if expected = [] \<or> set (ct_datasets c) = set expected then (n, c)
      else case try_bind A c expected n of
             (n1, Inr c1) \<Rightarrow> (n1, c1)
           | (n1, Inl e) \<Rightarrow> bind_retry A c expected e n1)"

definition find_existing_chat_by_name :: "qms_api \<Rightarrow> ustr \<Rightarrow> nat \<Rightarrow> nat \<times> chat option" where
  "find_existing_chat_by_name A name n =
     (case api_list_chats A n name of
        None \<Rightarrow> (Suc n, None)
      | Some cs \<Rightarrow>
          (case find (\<lambda>(nm, i). nm = Some name \<and> i \<noteq> None \<and> i \<noteq> Some []) cs of
             Some (_, Some i) \<Rightarrow>
               (Suc (Suc n), case api_get_chat A (Suc n) i of Inl _ \<Rightarrow> None | Inr c \<Rightarrow> Some c)
           | _ \<Rightarrow> (Suc n, None)))"

definition bound :: "qms_api \<Rightarrow> ustr list \<Rightarrow> nat \<times> (ustr + chat) \<Rightarrow> nat \<times> (ustr + chat)" where
  "bound A expected r =
     (case r of
        (n, Inl e) \<Rightarrow> (n, Inl e)
      | (n, Inr c) \<Rightarrow> (let (n1, c1) = bind_datasets_if_needed A expected c n in (n1, Inr c1)))"

definition ensure_chat :: "qms_api \<Rightarrow> qms_config \<Rightarrow> nat \<Rightarrow> nat \<times> (ustr + chat)" where
  "ensure_chat A cfg n =
     (let expected = (case qc_dataset_ids cfg of None \<Rightarrow> [] | Some ids \<Rightarrow> ids); name = qc_chat_name cfg in
      if qc_chat_id cfg \<noteq> [] then bound A expected (Suc n, api_get_chat A n (qc_chat_id cfg))
      else case find_existing_chat_by_name A name n of
        (n1, Some c) \<Rightarrow> bound A expected (n1, Inr c)
      | (n1, None) \<Rightarrow>
          (case create_chat_with_valid_datasets A name expected n1 of
             (n2, Inr c) \<Rightarrow> bound A expected (n2, Inr c)
           | (n2, Inl e) \<Rightarrow>
               if u_in (asc ''Duplicated chat name'') e then
                 case find_existing_chat_by_name A name n2 of
                   (n3, Some c) \<Rightarrow> bound A expected (n3, Inr c)
                 | (n3, None) \<Rightarrow>
                     bound A expected (create_chat_with_valid_datasets A (name @ asc ''-'' @ api_stamp A n3) expected n3)
               else (n2, Inl e)))"

subsection \<open>What is learnt from a conversation\<close>

definition profile_prefixes :: "ustr list" where
  "profile_prefixes =
    [[0x6211, 0x662F], [0x6211, 0x5728], [0x6211, 0x8D1F, 0x8D23]]"

definition preference_patterns :: "(ustr \<times> ustr) list" where
  "preference_patterns =
    [([0x8BF7], [0x7B80, 0x77ED]), ([0x8BF7], [0x8BE6, 0x7EC6]),
     ([0x7ED9, 0x6211], [0x6B65, 0x9AA4]), ([0x7528], [0x8868, 0x683C]),
     ([0x4E2D, 0x82F1, 0x53CC, 0x8BED], []), ([0x5148, 0x7ED9, 0x6B65, 0x9AA4], []),
     ([0x5C3D, 0x91CF, 0x7B80, 0x77ED], []), ([0x5148], [0x518D]), ([0x8981, 0x70B9, 0x5F0F], []),
     ([0x5206, 0x70B9, 0x56DE, 0x7B54], [])]"

definition objective_prefixes :: "ustr list" where
  "objective_prefixes =
    [[0x76EE, 0x6807], [0x5E0C, 0x671B], [0x6211, 0x8981], [0x9700, 0x8981]]"

definition glossary_hints :: "(ustr \<times> ustr) list" where
  "glossary_hints =
    [
     (asc ''NCM'', asc ''NCM='' @ [0x4E0D, 0x5408, 0x683C, 0x54C1, 0x7BA1, 0x7406, 0x6D41, 0x7A0B]),
     ([0x7BA1, 0x7406, 0x8BC4, 0x5BA1], [0x7BA1, 0x7406, 0x8BC4, 0x5BA1] @ asc ''='' @ [0x7BA1, 0x7406, 0x5C42, 0x5B9A, 0x671F, 0x4F53, 0x7CFB, 0x6709, 0x6548, 0x6027, 0x8BC4, 0x4F30]),
     ([0x98CE, 0x9669, 0x7BA1, 0x7406], [0x98CE, 0x9669, 0x7BA1, 0x7406] @ asc ''='' @ [0x8BC6, 0x522B] @ asc ''-'' @ [0x8BC4, 0x4F30] @ asc ''-'' @ [0x63A7, 0x5236] @ asc ''-'' @ [0x76D1, 0x6D4B, 0x95ED, 0x73AF])]"

definition learnt :: "ustr \<Rightarrow> string \<Rightarrow> rat \<Rightarrow> ustr \<Rightarrow> memory_item" where
  "learnt user ty w content = \<lparr>mi_user = user, mi_type = asc ty, mi_content = content, mi_weight = w\<rparr>"

definition extract_typed_memories :: "qenv \<Rightarrow> ustr \<Rightarrow> ustr \<Rightarrow> ustr \<Rightarrow> memory_item list" where
  "extract_typed_memories E user question answer =
     (let t = question @ [10] @ answer in
      map (learnt user ''profile'' (3/2) \<circ> u_strip) (scan (after_prefix profile_prefixes False in_clause 2 40) t)
      @ concat (map (\<lambda>(a, b). map (learnt user ''preference'' (q_rnd E (6/5)) \<circ> u_strip) (scan (lazy_pair a b) t))
          preference_patterns)
      @ map (learnt user ''objective'' (q_rnd E (13/10)) \<circ> u_strip)
          (scan (after_prefix objective_prefixes False in_clause 3 60) question)
      @ map (\<lambda>(w, entry). learnt user ''glossary'' 1 entry) (filter (\<lambda>(w, entry). u_in w t) glossary_hints)
      @ [learnt user ''history'' (q_rnd E (4/5)) (take 120 question)])"

subsection \<open>The context of a question\<close>

definition text_none :: ustr where
  "text_none =
    [0x6682, 0x65E0]"

definition text_profile_head :: ustr where
  "text_profile_head =
    asc ''['' @ [0x957F, 0x671F, 0x7528, 0x6237, 0x753B, 0x50CF] @ asc '']''"

definition text_memory_head :: ustr where
  "text_memory_head =
    asc ''['' @ [0x7528, 0x6237, 0x8BB0, 0x5FC6] @ asc '']''"

definition text_history_head :: ustr where
  "text_history_head =
    asc ''['' @ [0x8DE8, 0x4F1A, 0x8BDD, 0x6700, 0x8FD1, 0x5BF9, 0x8BDD] @ asc '']''"

definition join_items :: "ustr list \<Rightarrow> nat \<Rightarrow> ustr" where
  "join_items items n = (if items = [] then text_none else u_join [0xFF1B] (take n items))"

definition context_text :: "profile \<Rightarrow> memory_row list \<Rightarrow> log_row list \<Rightarrow> ustr" where
  "context_text p memories history =
     u_join [10]
       ([text_profile_head,
         asc ''- persona: '' @ join_items (pf_persona p) 4,
         asc ''- preferences: '' @ join_items (pf_preferences p) 5,
         asc ''- objectives: '' @ join_items (pf_objectives p) 4,
         asc ''- recurring_topics: '' @ (if pf_topics p = [] then text_none else u_join [0x3001] (take 6 (pf_topics p))),
         text_memory_head]
        @ (if memories = [] then [asc ''- '' @ text_none]
           else map (\<lambda>m. asc ''- ('' @ mi_type m @ asc '') '' @ mi_content m) memories)
        @ [text_history_head]
        @ (if history = [] then [asc ''- '' @ text_none]
           else map (\<lambda>h. asc ''- Q: '' @ take 100 (lg_question h)) history))"

text \<open>A profile is built on first use.\<close>

definition build_memory_context :: "qenv \<Rightarrow> ustr \<Rightarrow> memdb \<Rightarrow> memdb \<times> ustr" where
  "build_memory_context E user M =
     (let memories = get_top_memories user 10 M;
          history = recent_history_all_sessions user 6 M;
          (M1, p) = get_user_profile E user True M
      in (M1, case p of None \<Rightarrow> [] | Some q \<Rightarrow> context_text q memories history))"

subsection \<open>Feedback\<close>

definition extract_negative_keywords :: "ustr \<Rightarrow> ustr list" where
  "extract_negative_keywords t =
     (let kws = map u_strip
        (scan (before_suffix [0x6539, 0x4E3A]) t
         @ scan (after_prefix [[0x4E0D, 0x662F]] True is_term_char 2 30) t
         @ scan (after_prefix [[0x4E0D, 0x8981]] True is_term_char 2 30) t
         @ scan (after_prefix [[0x9519, 0x8BEF] @ asc '':'', [0x9519, 0x8BEF, 0xFF1A]] True is_term_char 2 30) t)
      in take 12 (dedup (filter (\<lambda>k. 2 \<le> length k) kws)))"

definition evidence_words :: "ustr list" where
  "evidence_words =
    [[0x5F15, 0x7528], [0x8BC1, 0x636E], [0x6765, 0x6E90], [0x6761, 0x6B3E]]"

definition workflow_words :: "ustr list" where
  "workflow_words =
    [[0x6B65, 0x9AA4], [0x6D41, 0x7A0B], [0x987A, 0x5E8F], [0x73AF, 0x8282]]"

definition terminology_words :: "ustr list" where
  "terminology_words =
    [[0x672F, 0x8BED], [0x5B9A, 0x4E49], [0x6982, 0x5FF5]]"

definition style_words :: "ustr list" where
  "style_words =
    [[0x683C, 0x5F0F], [0x7B80, 0x77ED], [0x8BE6, 0x7EC6], [0x5206, 0x70B9], [0x8868, 0x683C]]"

definition template_words :: "ustr list" where
  "template_words =
    [asc ''template'', asc ''tpl'', asc ''form'', [0x8868, 0x5355], [0x6A21, 0x677F]]"

definition any_word :: "ustr list \<Rightarrow> ustr \<Rightarrow> bool" where
  "any_word ws t \<longleftrightarrow> list_ex (\<lambda>w. u_in w t) ws"

definition issue_tags :: "ustr \<Rightarrow> ustr list" where
  "issue_tags raw =
     (let tags = (if any_word evidence_words raw then [asc ''evidence''] else [])
               @ (if any_word workflow_words raw then [asc ''workflow''] else [])
               @ (if any_word terminology_words raw then [asc ''terminology''] else [])
               @ (if any_word style_words raw then [asc ''style''] else [])
      in if tags = [] then [asc ''general''] else tags)"

definition build_feedback_eval_signal :: "ustr \<Rightarrow> ustr \<Rightarrow> ustr \<Rightarrow> ustr \<Rightarrow> ustr" where
  "build_feedback_eval_signal question original corrected note =
     asc ''[feedback_eval] tags='' @ u_join (asc '','') (issue_tags (u_lower (corrected @ [10] @ note)))
     @ asc '' | question='' @ take 180 (u_strip question)
     @ asc '' | original='' @ take 260 (u_strip original)
     @ asc '' | corrected='' @ take 260 (u_strip corrected)
     @ asc '' | note='' @ take 160 (u_strip note)"

subsection \<open>References\<close>

text \<open>The first of the values that is there and not empty.\<close>

fun first_text :: "ustr option list \<Rightarrow> ustr" where
  "first_text [] = asc ''unknown''"
| "first_text (None # xs) = first_text xs"
| "first_text (Some s # xs) = (if s = [] then first_text xs else s)"

definition chunk_doc :: "ref_chunk \<Rightarrow> doc" where
  "chunk_doc c = (first_text [rc_document_id c, rc_doc_id c, rc_id c],
                  first_text [rc_document_name c, rc_docnm_kwd c, rc_doc_name c])"

definition add_doc :: "ref_chunk \<Rightarrow> doc list \<Rightarrow> doc list" where
  "add_doc c docs = (if fst (chunk_doc c) \<in> fst ` set docs then docs else docs @ [chunk_doc c])"

definition extract_reference_docs :: "ref_chunk list \<Rightarrow> doc list" where
  "extract_reference_docs chunks = fold add_doc chunks []"

definition pick_template_hints :: "doc list \<Rightarrow> doc list" where
  "pick_template_hints docs = filter (\<lambda>(_, name). any_word template_words (u_lower name)) docs"

subsection \<open>Questions\<close>

definition text_process_prompt :: ustr where
  "text_process_prompt =
    [0x4F60, 0x662F] @ asc ''SSME DX & SSME US QMS'' @ [0x6D41, 0x7A0B, 0x52A9, 0x624B, 0x3002,
    10, 0x56DE, 0x7B54, 0x76EE, 0x6807, 0xFF1A, 10] @ asc ''1) '' @ [0x76F4, 0x63A5, 0x7ED9,
    0x51FA, 0x53EF, 0x6267, 0x884C, 0x6B65, 0x9AA4, 0xFF08, 0x7F16, 0x53F7, 0xFF09, 10] @
    asc ''2) '' @ [0x7ED9, 0x51FA, 0x5173, 0x952E, 0x63A7, 0x5236, 0x70B9, 0xFF08, 0x81F3, 0x5C11]
    @ asc ''3'' @ [0x6761, 0xFF09, 10] @ asc ''3) '' @ [0x7ED9, 0x51FA, 0x5E38, 0x89C1, 0x9519,
    0x8BEF, 0x4E0E, 0x907F, 0x514D, 0x5EFA, 0x8BAE, 10] @ asc ''4) '' @ [0x82E5, 0x68C0, 0x7D22,
    0x7ED3, 0x679C, 0x4E2D, 0x6709, 0x6A21, 0x677F] @ asc ''/'' @ [0x8868, 0x5355, 0x6587, 0x4EF6,
    0xFF0C, 0x5355, 0x72EC, 0x5217, 0x51FA, 0x201C, 0x76F8, 0x5173, 0x6A21, 0x677F, 0x201D, 10] @
    asc ''5) '' @ [0x4EC5, 0x4F7F, 0x7528, 0x53EF, 0x8FFD, 0x6EAF, 0x5230, 0x77E5, 0x8BC6, 0x5E93,
    0x7684, 0x5185, 0x5BB9, 0xFF0C, 0x4E0D, 0x7F16, 0x9020, 0x6761, 0x6B3E, 0x7F16, 0x53F7, 10,
    10]"

definition text_learning_prompt :: ustr where
  "text_learning_prompt =
    [0x4F60, 0x662F] @ asc ''QMS'' @ [0x57F9, 0x8BAD, 0x4E13, 0x5BB6, 0xFF0C, 0x9762, 0x5411,
    0x5458, 0x5DE5, 0x505A, 0x4F53, 0x7CFB, 0x5316, 0x6559, 0x5B66, 0x3002, 10, 0x4E3B, 0x9898,
    0x6A21, 0x5757, 0xFF1A]"

definition text_learning_rules :: ustr where
  "text_learning_rules =
    [10, 0x6559, 0x5B66, 0x8981, 0x6C42, 0xFF1A, 10] @ asc ''1) '' @ [0x5148, 0x7ED9, 0x201C,
    0x6A21, 0x5757, 0x603B, 0x89C8, 0x201D, 10] @ asc ''2) '' @ [0x518D, 0x7ED9, 0x201C, 0x6838,
    0x5FC3, 0x539F, 0x5219] @ asc ''/'' @ [0x5173, 0x952E, 0x672F, 0x8BED, 0x201D, 10] @
    asc ''3) '' @ [0x518D, 0x7ED9, 0x201C, 0x6D41, 0x7A0B, 0x6846, 0x67B6, 0xFF08, 0x8F93, 0x5165]
    @ asc ''-'' @ [0x6D3B, 0x52A8] @ asc ''-'' @ [0x8F93, 0x51FA, 0xFF09, 0x201D, 10] @
    asc ''4) '' @ [0x518D, 0x7ED9, 0x201C, 0x5C97, 0x4F4D, 0x843D, 0x5730, 0x5EFA, 0x8BAE, 0xFF08,
    0x6267, 0x884C] @ asc ''/'' @ [0x8BB0, 0x5F55] @ asc ''/'' @ [0x8BC1, 0x636E, 0xFF09, 0x201D,
    10] @ asc ''5) '' @ [0x6700, 0x540E, 0x7ED9, 0x201C] @ asc ''3'' @ [0x9053, 0x81EA, 0x6D4B,
    0x9898, 0xFF08, 0x542B, 0x53C2, 0x8003, 0x7B54, 0x6848, 0xFF09, 0x201D, 10, 0x5E76, 0x5728,
    0x56DE, 0x7B54, 0x672B, 0x5C3E, 0x7ED9, 0x51FA, 0x201C, 0x4E0B, 0x4E00, 0x8F6E, 0x53EF,
    0x6DF1, 0x5165, 0x95EE, 0x9898, 0x5EFA, 0x8BAE, 0x201D, 0x3002, 10, 10]"

definition text_question :: ustr where
  "text_question =
    [0x7528, 0x6237, 0x95EE, 0x9898, 0xFF1A]"

definition text_more_question :: ustr where
  "text_more_question =
    [0x7528, 0x6237, 0x8865, 0x5145, 0x95EE, 0x9898, 0xFF1A]"

definition text_feedback :: ustr where
  "text_feedback =
    [0x53CD, 0x9988, 0x4FEE, 0x6B63] @ asc '': ''"

definition text_default_module :: ustr where
  "text_default_module =
    [0x7BA1, 0x7406, 0x8BC4, 0x5BA1]"

definition text_default_question :: ustr where
  "text_default_question =
    [0x8BF7, 0x7CFB, 0x7EDF, 0x8BB2, 0x89E3, 0x8BE5, 0x6A21, 0x5757, 0x5E76, 0x7ED9, 0x5B9E,
    0x8DF5, 0x5EFA, 0x8BAE]"

definition process_prompt :: "ustr \<Rightarrow> ustr \<Rightarrow> ustr" where
  "process_prompt ctx question =
     u_strip ([10] @ text_process_prompt @ ctx @ [10, 10] @ text_question @ question @ [10])"

definition learning_prompt :: "ustr \<Rightarrow> ustr \<Rightarrow> ustr \<Rightarrow> ustr" where
  "learning_prompt topic ctx question =
     u_strip ([10] @ text_learning_prompt @ topic @ text_learning_rules @ ctx @ [10, 10]
              @ text_more_question @ question @ [10])"

definition get_or_create_session :: "qms_api \<Rightarrow> ustr \<Rightarrow> qms \<Rightarrow> qms \<times> (q_error + ustr)" where
  "get_or_create_session A user Q =
     (case map_of (qs_sessions Q) user of
        Some sid \<Rightarrow> (Q, Inr sid)
      | None \<Rightarrow>
          (case api_create_session A (qs_calls Q) (ct_id (qs_chat Q)) (asc ''qms-'' @ user) of
             Inl e \<Rightarrow> (q_call Q, Inl (QRemoteError e))
           | Inr sid \<Rightarrow> ((q_call Q)\<lparr>qs_sessions := (user, sid) # qs_sessions Q\<rparr>, Inr sid)))"

definition with_context :: "qenv \<Rightarrow> ustr \<Rightarrow> qms \<Rightarrow> qms \<times> ustr" where
  "with_context E user Q =
     (let (M, ctx) = build_memory_context E user (qs_memory Q) in (Q\<lparr>qs_memory := M\<rparr>, ctx))"

definition q_ask :: "qms_api \<Rightarrow> ustr \<Rightarrow> ustr \<Rightarrow> qms \<Rightarrow> qms \<times> (q_error + ustr \<times> ref_chunk list)" where
  "q_ask A sid prompt Q =
     (q_call Q, case api_ask A (qs_calls Q) sid prompt of Inl e \<Rightarrow> Inl (QRemoteError e) | Inr a \<Rightarrow> Inr a)"

text \<open>What both kinds of question leave behind: the exchange, the memories, a fresh profile.\<close>

definition remember_exchange ::
  "qenv \<Rightarrow> ustr \<Rightarrow> ustr \<Rightarrow> ustr \<Rightarrow> ustr \<Rightarrow> ustr \<Rightarrow> doc list \<Rightarrow> memdb \<Rightarrow> memdb" where
  "remember_exchange E user sid logged question answer refs M =
     fst (refresh_user_profile E user
       (upsert_memories E (extract_typed_memories E user question answer)
         (log_interaction E user sid logged answer refs M)))"

record answer =
  an_session :: ustr
  an_module :: "ustr option"
  an_answer :: ustr
  an_references :: "doc list"
  an_template_hints :: "doc list"

definition ask_process_qa :: "qenv \<Rightarrow> qms_api \<Rightarrow> ustr \<Rightarrow> ustr \<Rightarrow> qms \<Rightarrow> qms \<times> (q_error + answer)" where
  "ask_process_qa E A user question Q =
     and_then (get_or_create_session A user Q) (\<lambda>sid Q1.
       let (Q2, ctx) = with_context E user Q1 in
       and_then (q_ask A sid (process_prompt ctx question) Q2) (\<lambda>(text, chunks) Q3.
         let refs = extract_reference_docs chunks in
         (Q3\<lparr>qs_memory := remember_exchange E user sid question question text refs (qs_memory Q3)\<rparr>,
          Inr \<lparr>an_session = sid, an_module = None, an_answer = text, an_references = refs,
               an_template_hints = pick_template_hints refs\<rparr>)))"

definition ask_learning_qa ::
  "qenv \<Rightarrow> qms_api \<Rightarrow> ustr \<Rightarrow> ustr \<Rightarrow> ustr \<Rightarrow> qms \<Rightarrow> qms \<times> (q_error + answer)" where
  "ask_learning_qa E A user topic question Q =
     and_then (get_or_create_session A user Q) (\<lambda>sid Q1.
       let (Q2, ctx) = with_context E user Q1 in
       and_then (q_ask A sid (learning_prompt topic ctx question) Q2) (\<lambda>(text, chunks) Q3.
         let refs = extract_reference_docs chunks in
         (Q3\<lparr>qs_memory := remember_exchange E user sid (asc ''['' @ topic @ asc ''] '' @ question)
                question text refs (qs_memory Q3)\<rparr>,
          Inr \<lparr>an_session = sid, an_module = Some topic, an_answer = text, an_references = refs,
               an_template_hints = []\<rparr>)))"

definition get_user_long_term_memory ::
  "qenv \<Rightarrow> ustr \<Rightarrow> qms \<Rightarrow> qms \<times> profile option \<times> memory_row list" where
  "get_user_long_term_memory E user Q =
     (let (M, p) = get_user_profile E user True (qs_memory Q) in
      (Q\<lparr>qs_memory := M\<rparr>, p, get_top_memories user 20 M))"

subsection \<open>Learning from a correction\<close>

text \<open>\<open>max(0.1, min(2.0, score))\<close>; \<open>min(2.0, nan)\<close> is 2.0 in Python.\<close>

fun clamp_score :: "qenv \<Rightarrow> pyfloat \<Rightarrow> rat" where
  "clamp_score E (Fin x) = max (q_rnd E (1/10)) (min 2 x)"
| "clamp_score E PosInf = 2"
| "clamp_score E NegInf = q_rnd E (1/10)"
| "clamp_score E NaN = 2"

definition amplify :: "qenv \<Rightarrow> rat \<Rightarrow> memory_item \<Rightarrow> memory_item" where
  "amplify E score i =
     i\<lparr>mi_weight := min 4 (q_rnd E (mi_weight i * q_rnd E (q_rnd E (6/5) + q_rnd E (q_rnd E (3/5) * score))))\<rparr>"

definition feedback_items :: "qenv \<Rightarrow> ustr \<Rightarrow> ustr \<Rightarrow> ustr \<Rightarrow> ustr \<Rightarrow> rat \<Rightarrow> memory_item list" where
  "feedback_items E user question corrected signal score =
     map (amplify E score) (extract_typed_memories E user question corrected)
     @ [learnt user ''history'' (min (7/2) (q_rnd E (3/2 + score))) (text_feedback @ take 220 signal)]"

record feedback_result =
  fr_session :: ustr
  fr_signal :: ustr
  fr_keywords :: "ustr list"
  fr_decayed :: nat
  fr_learned :: nat
  fr_updated :: ustr

text \<open>The five writes of a correction, from the decay on.\<close>

definition apply_feedback ::
  "qenv \<Rightarrow> ustr \<Rightarrow> ustr \<Rightarrow> ustr \<Rightarrow> ustr \<Rightarrow> ustr \<Rightarrow> ustr \<Rightarrow> ustr \<Rightarrow> rat \<Rightarrow> memdb \<Rightarrow> memdb \<times> nat \<times> profile" where
  "apply_feedback E user sid question original corrected note signal score M =
     (let kws = extract_negative_keywords (corrected @ [10] @ note);
          (M1, decayed) = decay_memories_by_keywords E user kws (q_rnd E (41/50)) M;
          M2 = upsert_memories E (feedback_items E user question corrected signal score) M1;
          M3 = log_feedback E user sid question original corrected signal score M2;
          M4 = log_interaction E user sid (asc ''[USER_FEEDBACK] '' @ question)
                 (u_strip (corrected @ [10, 10] @ note)) [] M3;
          (M5, p) = refresh_user_profile E user M4
      in (M5, decayed, p))"

text \<open>\<open>fscore\<close> is \<open>float(score)\<close>, which may raise; it is read only after the session is there.\<close>

definition submit_user_feedback ::
  "qenv \<Rightarrow> qms_api \<Rightarrow> ustr \<Rightarrow> ustr \<Rightarrow> ustr \<Rightarrow> ustr \<Rightarrow> q_error + pyfloat \<Rightarrow> ustr \<Rightarrow> ustr option
     \<Rightarrow> qms \<Rightarrow> qms \<times> (q_error + feedback_result)" where
  "submit_user_feedback E A user question original corrected fscore note session_id Q =
     (if u_strip question = [] then (Q, Inl (QValueError (asc ''question is required'')))
      else if u_strip original = [] then (Q, Inl (QValueError (asc ''original_answer is required'')))
      else if u_strip corrected = [] then (Q, Inl (QValueError (asc ''corrected_answer is required'')))
      else and_then (get_or_create_session A user Q) (\<lambda>own Q1.
        let sid = (case session_id of Some s \<Rightarrow> if s = [] then own else s | None \<Rightarrow> own) in
        case fscore of
          Inl e \<Rightarrow> (Q1, Inl e)
        | Inr f \<Rightarrow>
            let score = clamp_score E f;
                signal = build_feedback_eval_signal question original corrected note;
                (M, decayed, p) = apply_feedback E user sid question original corrected note signal score (qs_memory Q1)
            in (Q1\<lparr>qs_memory := M\<rparr>,
                Inr \<lparr>fr_session = sid, fr_signal = signal,
                     fr_keywords = extract_negative_keywords (corrected @ [10] @ note), fr_decayed = decayed,
                     fr_learned = length (feedback_items E user question corrected signal score),
                     fr_updated = pf_updated p\<rparr>)))"

subsection \<open>Configuration\<close>

definition placeholder_keys :: "ustr list" where
  "placeholder_keys =
    [[0x4F60, 0x7684] @ asc ''token'', [0x4F60, 0x7684] @ asc ''RAGFlow_API_TOKEN'',
     asc ''your_token'', asc ''your_api_token'']"

text \<open>\<open>os.getenv(name, default).strip()\<close>.\<close>

definition q_getenv :: "(string \<Rightarrow> ustr option) \<Rightarrow> string \<Rightarrow> ustr \<Rightarrow> ustr" where
  "q_getenv env name d = u_strip (case env name of None \<Rightarrow> d | Some v \<Rightarrow> v)"

definition load_config_from_env :: "(string \<Rightarrow> ustr option) \<Rightarrow> string + ustr \<times> ustr \<times> qms_config \<times> ustr" where
  "load_config_from_env env =
     (let raw = q_getenv env ''QMS_DATASET_IDS'' [];
          ids = (if raw = [] then None
                 else Some (filter (\<lambda>x. x \<noteq> []) (map u_strip (u_split 44 raw))));
          key = q_getenv env ''RAGFLOW_API_KEY'' []
      in if key = [] then Inl ''RAGFLOW_API_KEY is required''
         else if key \<in> set placeholder_keys then Inl ''placeholder''
         else if list_ex (\<lambda>c. 256 \<le> c) key then Inl ''not latin-1''
         else Inr (key, q_getenv env ''RAGFLOW_BASE_URL'' (asc ''http://127.0.0.1:9380''),
           \<lparr>qc_chat_id = q_getenv env ''QMS_CHAT_ID'' [],
            qc_chat_name = q_getenv env ''QMS_CHAT_NAME'' (asc ''QMS Assistant''),
            qc_dataset_ids = ids\<rparr>,
           q_getenv env ''QMS_MEMORY_DB'' (asc ''./extensions/qms_agent_backend/data/qms_memory.sqlite3'')))"

end
