(* ===== verification/QmsServer.thy ===== *)
theory QmsServer
  imports QmsService
begin

text \<open>
  The HTTP front of the QMS agent service (\<open>extensions/qms_agent_backend/server.py\<close>): \<open>do_GET\<close>,
  \<open>do_POST\<close>, \<open>run_server\<close>, and the service as a transition system.  Requests are taken one at a
  time.
\<close>

subsection \<open>Requests and replies\<close>

text \<open>A value of the JSON body; of a list or an object only its truth value matters.\<close>

datatype jfield =
    JNull
  | JBool bool
  | JInt int
  | JFloat pyfloat
  | JStr ustr
  | JOther bool

datatype body = BadBody | NotObject | Fields "(string \<times> jfield) list"

datatype q_payload =
    QHealth
  | QMessage ustr
  | QErrorText q_error
  | QAnswer answer
  | QFeedback feedback_result
  | QMemory "profile option" "memory_row list"

text \<open>A GET gives the raw path, the path without query, and \<open>user_id\<close> as \<open>parse_qs\<close> finds it.\<close>

datatype q_request =
    Get string string "ustr option"
  | Post string body

datatype q_reply = QReply nat q_payload

fun j_truthy :: "jfield \<Rightarrow> bool" where
  "j_truthy JNull = False"
| "j_truthy (JBool b) = b"
| "j_truthy (JInt i) = (i \<noteq> 0)"
| "j_truthy (JFloat x) = (x \<noteq> Fin 0)"
| "j_truthy (JStr s) = (s \<noteq> [])"
| "j_truthy (JOther b) = b"

text \<open>\<open>(payload.get(k) or d).strip()\<close>.\<close>

definition text_field :: "(string \<times> jfield) list \<Rightarrow> string \<Rightarrow> ustr \<Rightarrow> q_error + ustr" where
  "text_field fs k d =
     (case map_of fs k of
        None \<Rightarrow> Inr (u_strip d)
      | Some v \<Rightarrow>
          if \<not> j_truthy v then Inr (u_strip d)
          else case v of JStr s \<Rightarrow> Inr (u_strip s) | _ \<Rightarrow> Inl QAttributeError)"

text \<open>\<open>float(payload.get("score", 1.0))\<close>.\<close>

definition score_field :: "qenv \<Rightarrow> (string \<times> jfield) list \<Rightarrow> q_error + pyfloat" where
  "score_field E fs =
     (case map_of fs ''score'' of
        None \<Rightarrow> Inr (Fin 1)
      | Some v \<Rightarrow>
          (case v of
             JFloat x \<Rightarrow> Inr x
           | JBool b \<Rightarrow> Inr (Fin (if b then 1 else 0))
           | JInt i \<Rightarrow> (case q_of_int E i of None \<Rightarrow> Inl QOverflowError | Some x \<Rightarrow> Inr (Fin x))
           | JStr s \<Rightarrow> (case q_float E s of None \<Rightarrow> Inl (QValueError s) | Some x \<Rightarrow> Inr x)
           | _ \<Rightarrow> Inl QTypeError))"

definition required :: "string \<Rightarrow> q_reply" where
  "required k = QReply 400 (QMessage (asc (k @ '' is required'')))"

text \<open>The answer of an operation, or \<open>except Exception\<close> of \<open>do_POST\<close>.\<close>

definition finish :: "('a \<Rightarrow> q_payload) \<Rightarrow> qms \<times> (q_error + 'a) \<Rightarrow> qms \<times> q_reply" where
  "finish f r = (fst r, case snd r of Inl e \<Rightarrow> QReply 500 (QErrorText e) | Inr x \<Rightarrow> QReply 200 (f x))"

definition failed :: "q_error \<Rightarrow> q_reply" where
  "failed e = QReply 500 (QErrorText e)"

subsection \<open>Routes\<close>

definition do_GET :: "qenv \<Rightarrow> string \<Rightarrow> string \<Rightarrow> ustr option \<Rightarrow> qms \<Rightarrow> qms \<times> q_reply" where
  "do_GET E raw path user_id Q =
     (if raw = ''/healthz'' then (Q, QReply 200 QHealth)
      else if path = ''/v1/qms/memory/profile'' then
        let user = u_strip (case user_id of None \<Rightarrow> asc ''anonymous''
                            | Some u \<Rightarrow> if u = [] then asc ''anonymous'' else u);
            (Q1, p, mems) = get_user_long_term_memory E user Q
        in (Q1, QReply 200 (QMemory p mems))
      else (Q, QReply 404 (QMessage (asc ''not found''))))"

definition ask_procedure_route :: "qenv \<Rightarrow> qms_api \<Rightarrow> (string \<times> jfield) list \<Rightarrow> qms \<Rightarrow> qms \<times> q_reply" where
  "ask_procedure_route E A fs Q =
     (case text_field fs ''user_id'' (asc ''anonymous'') of
        Inl e \<Rightarrow> (Q, failed e)
      | Inr user \<Rightarrow>
          (case text_field fs ''question'' [] of
             Inl e \<Rightarrow> (Q, failed e)
           | Inr question \<Rightarrow>
               if question = [] then (Q, required ''question'')
               else finish QAnswer (ask_process_qa E A user question Q)))"

definition learn_module_route :: "qenv \<Rightarrow> qms_api \<Rightarrow> (string \<times> jfield) list \<Rightarrow> qms \<Rightarrow> qms \<times> q_reply" where
  "learn_module_route E A fs Q =
     (case text_field fs ''user_id'' (asc ''anonymous'') of
        Inl e \<Rightarrow> (Q, failed e)
      | Inr user \<Rightarrow>
          (case text_field fs ''module'' text_default_module of
             Inl e \<Rightarrow> (Q, failed e)
           | Inr topic \<Rightarrow>
               (case text_field fs ''question'' text_default_question of
                  Inl e \<Rightarrow> (Q, failed e)
                | Inr question \<Rightarrow> finish QAnswer (ask_learning_qa E A user topic question Q))))"

text \<open>The six texts are read in this order; the first that is no text raises.\<close>

definition feedback_fields :: "(string \<times> jfield) list \<Rightarrow> q_error + ustr list" where
  "feedback_fields fs =
     sum_fold (\<lambda>(k, d) xs. sum_bind (text_field fs k d) (\<lambda>x. Inr (xs @ [x])))
       [(''user_id'', asc ''anonymous''), (''question'', []), (''original_answer'', []),
        (''corrected_answer'', []), (''note'', []), (''session_id'', [])] []"

definition feedback_route :: "qenv \<Rightarrow> qms_api \<Rightarrow> (string \<times> jfield) list \<Rightarrow> qms \<Rightarrow> qms \<times> q_reply" where
  "feedback_route E A fs Q =
     (case feedback_fields fs of
        Inl e \<Rightarrow> (Q, failed e)
      | Inr xs \<Rightarrow>
          let user = xs ! 0; question = xs ! 1; original = xs ! 2; corrected = xs ! 3; note = xs ! 4;
              sid = (if xs ! 5 = [] then None else Some (xs ! 5)) in
          if question = [] then (Q, required ''question'')
          else if original = [] then (Q, required ''original_answer'')
          else if corrected = [] then (Q, required ''corrected_answer'')
          else finish QFeedback
            (submit_user_feedback E A user question original corrected (score_field E fs) note sid Q))"

definition post_routes :: "(string \<times> (qenv \<Rightarrow> qms_api \<Rightarrow> (string \<times> jfield) list \<Rightarrow> qms \<Rightarrow> qms \<times> q_reply)) list" where
  "post_routes = [(''/v1/qms/ask-procedure'', ask_procedure_route), (''/v1/qms/learn-module'', learn_module_route),
                  (''/v1/qms/feedback'', feedback_route)]"

definition do_POST :: "qenv \<Rightarrow> qms_api \<Rightarrow> string \<Rightarrow> body \<Rightarrow> qms \<Rightarrow> qms \<times> q_reply" where
  "do_POST E A path b Q =
     (if b = BadBody then (Q, failed QJsonError)
      else case map_of post_routes path of
        None \<Rightarrow> (Q, QReply 404 (QMessage (asc ''not found'')))
      | Some route \<Rightarrow> (case b of Fields fs \<Rightarrow> route E A fs Q | _ \<Rightarrow> (Q, failed QAttributeError)))"

fun q_handle :: "qenv \<Rightarrow> qms_api \<Rightarrow> q_request \<Rightarrow> qms \<Rightarrow> qms \<times> q_reply" where
  "q_handle E A (Get raw path user_id) Q = do_GET E raw path user_id Q"
| "q_handle E A (Post path b) Q = do_POST E A path b Q"

subsection \<open>Runs\<close>

text \<open>\<open>run_server\<close>: the configuration, the service over the database file, then the requests.\<close>

definition run_server :: "qms_api \<Rightarrow> (string \<Rightarrow> ustr option) \<Rightarrow> memdb \<Rightarrow> qms option" where
  "run_server A env M =
     (case load_config_from_env env of
        Inl _ \<Rightarrow> None
      | Inr (_, _, cfg, _) \<Rightarrow>
          (case ensure_chat A cfg 0 of
             (_, Inl _) \<Rightarrow> None
           | (n, Inr c) \<Rightarrow> Some \<lparr>qs_memory = M, qs_chat = c, qs_sessions = [], qs_calls = n\<rparr>))"

inductive q_step :: "qenv \<Rightarrow> qms_api \<Rightarrow> qms \<Rightarrow> qms \<Rightarrow> bool" for E A where
  request: "q_step E A Q (fst (q_handle E A r Q))"
| restart: "run_server A env (qs_memory Q) = Some Q' \<Longrightarrow> q_step E A Q Q'"

inductive_cases q_stepE: "q_step E A Q Q'"

definition q_init :: "qms_api \<Rightarrow> qms \<Rightarrow> bool" where
  "q_init A Q \<longleftrightarrow> (\<exists>env. run_server A env empty_memdb = Some Q)"

end
