(* ===== verification/QmsInvariant.thy ===== *)
theory QmsInvariant
  imports QmsServer
begin

text \<open>
  What the operations of the QMS agent's memory keep: keys, weights and row numbers
  (\<open>memory_ok\<close>), the rows of other users (locale \<open>user_write\<close>), and the stored profiles, which are
  those that the present rows give (\<open>profiles_fresh\<close>).
\<close>

subsection \<open>Rows of one user\<close>

definition rows_of :: "ustr \<Rightarrow> memdb \<Rightarrow> memory_row list \<times> log_row list" where
  "rows_of v M = (filter (\<lambda>r. mi_user r = v) (typed_memory M), filter (\<lambda>r. lg_user r = v) (conversation_log M))"

lemma build_profile_rows:
  "rows_of v M = rows_of v M' \<Longrightarrow> build_profile v t M = build_profile v t M'"
  by (simp add: rows_of_def build_profile_def ranked_memories_def recent_history_all_sessions_def)

lemma rows_of_tick [simp]: "rows_of v (q_tick M) = rows_of v M"
  by (simp add: rows_of_def q_tick_def)

lemma q_tick_simps [simp]:
  "typed_memory (q_tick M) = typed_memory M" "conversation_log (q_tick M) = conversation_log M"
  "user_profile (q_tick M) = user_profile M" "feedback_log (q_tick M) = feedback_log M"
  by (simp_all add: q_tick_def)

lemma filter_update_where_other:
  assumes "\<And>r. Q r \<Longrightarrow> \<not> P r" and "\<And>r. Q r \<Longrightarrow> \<not> P (f r)"
  shows "filter P (update_where Q f t) = filter P t"
  using assms by (induction t) auto

lemma filter_upsert_other:
  assumes "\<And>r. Q r \<Longrightarrow> \<not> P r" and "\<And>r. Q r \<Longrightarrow> \<not> P (f r)" and "\<not> P n"
  shows "filter P (upsert Q f n t) = filter P t"
  using assms by (simp add: upsert_def filter_update_where_other)

text \<open>An operation for one user that writes no profile.\<close>

definition profiles_fresh_except :: "ustr set \<Rightarrow> memdb \<Rightarrow> bool" where
  "profiles_fresh_except U M \<longleftrightarrow>
     (\<forall>p\<in>set (user_profile M). pf_user p \<notin> U \<longrightarrow> p = build_profile (pf_user p) (pf_updated p) M)"

abbreviation profiles_fresh :: "memdb \<Rightarrow> bool" where
  "profiles_fresh \<equiv> profiles_fresh_except {}"

locale user_write =
  fixes user :: ustr
    and run :: "memdb \<Rightarrow> memdb"
  assumes other_rows: "v \<noteq> user \<Longrightarrow> rows_of v (run M) = rows_of v M"
    and same_profiles: "user_profile (run M) = user_profile M"
begin

lemma fresh_except: "profiles_fresh_except U M \<Longrightarrow> profiles_fresh_except (insert user U) (run M)"
  unfolding profiles_fresh_except_def same_profiles
  using build_profile_rows [OF other_rows] by (metis insertCI)

end

lemma memory_user_simps [simp]:
  "mi_user (reinforce E t w r) = mi_user r" "mi_user (weaken E f t r) = mi_user r"
  "mi_type (reinforce E t w r) = mi_type r" "mi_type (weaken E f t r) = mi_type r"
  "mi_content (reinforce E t w r) = mi_content r" "mi_content (weaken E f t r) = mi_content r"
  "mi_user (new_memory t i) = mi_user i" "mi_type (new_memory t i) = mi_type i"
  "mi_content (new_memory t i) = u_strip (mi_content i)" "mi_weight (new_memory t i) = mi_weight i"
  by (simp_all add: reinforce_def weaken_def new_memory_def)

lemma upsert_memory_other:
  "mi_user i \<noteq> v \<Longrightarrow> filter (\<lambda>r. mi_user r = v) (upsert_memory E t i rows) = filter (\<lambda>r. mi_user r = v) rows"
  unfolding upsert_memory_def by (rule filter_upsert_other) (auto simp: same_memory_def)

lemma upsert_all_other:
  assumes "\<forall>i\<in>set items. mi_user i \<noteq> v"
  shows "filter (\<lambda>r. mi_user r = v) (fold (upsert_memory E t) items rows) = filter (\<lambda>r. mi_user r = v) rows"
  using assms by (induction items arbitrary: rows) (auto simp: upsert_memory_other)

definition items_of :: "ustr \<Rightarrow> memory_item list \<Rightarrow> bool" where
  "items_of user items \<longleftrightarrow> (\<forall>i\<in>set items. mi_user i = user)"

interpretation logging: user_write user "log_interaction E user sid question ans refs"
  for user E sid question ans refs
  by unfold_locales (auto simp: log_interaction_def rows_of_def)

interpretation feedback: user_write user "log_feedback E user sid question original corrected signal score"
  for user E sid question original corrected signal score
  by unfold_locales (auto simp: log_feedback_def rows_of_def)

interpretation learning: user_write user "upsert_memories E (filter (\<lambda>i. mi_user i = user) items)"
  for user E items
  by unfold_locales (auto simp: upsert_memories_def rows_of_def upsert_all_other)

lemma decay_keyword_frame:
  assumes "v \<noteq> user"
  shows "rows_of v (fst (decay_keyword E user f kw Mn)) = rows_of v (fst Mn)
     \<and> user_profile (fst (decay_keyword E user f kw Mn)) = user_profile (fst Mn)"
  using assms
  by (cases Mn) (auto simp: decay_keyword_def rows_of_def decay_hit_def intro!: filter_update_where_other)

lemma decay_fold_frame:
  "(v \<noteq> user \<longrightarrow> rows_of v (fst (fold (decay_keyword E user f) kws Mn)) = rows_of v (fst Mn))
     \<and> user_profile (fst (fold (decay_keyword E user f) kws Mn)) = user_profile (fst Mn)"
proof (induction kws arbitrary: Mn)
  case (Cons k kws)
  have "user_profile (fst (decay_keyword E user f k Mn)) = user_profile (fst Mn)"
    by (cases Mn) (simp add: decay_keyword_def)
  with Cons show ?case using decay_keyword_frame [of v user E f k Mn] by auto
qed simp

interpretation decaying: user_write user "\<lambda>M. fst (decay_memories_by_keywords E user kws f M)"
  for user E kws f
  by unfold_locales (auto simp: decay_memories_by_keywords_def Let_def decay_fold_frame)

subsection \<open>Weights\<close>

text \<open>What the rounding of doubles is relied on for: it is monotone, and exact on doubles, such as small halves.\<close>

definition double_rounding :: "(rat \<Rightarrow> rat) \<Rightarrow> bool" where
  "double_rounding f \<longleftrightarrow> (\<forall>x y. x \<le> y \<longrightarrow> f x \<le> f y) \<and> (\<forall>x. f (f x) = f x)
     \<and> f 0 = 0 \<and> f 1 = 1 \<and> f (3/2) = 3/2 \<and> f 2 = 2 \<and> f (7/2) = 7/2 \<and> f 4 = 4 \<and> f 10 = 10"

lemma rounding_mono: "double_rounding f \<Longrightarrow> x \<le> y \<Longrightarrow> f x \<le> f y"
  by (simp add: double_rounding_def)

lemma rounding_simps [simp]:
  assumes "double_rounding f"
  shows "f (f x) = f x" "f 0 = 0" "f 1 = 1" "f (3/2) = 3/2" "f 2 = 2" "f (7/2) = 7/2" "f 4 = 4" "f 10 = 10"
  using assms by (simp_all add: double_rounding_def)

lemma rounding_bounds:
  assumes "double_rounding f" and "0 \<le> x" and "x \<le> 1"
  shows "0 \<le> f x \<and> f x \<le> 1"
  using rounding_mono [OF assms(1,2)] rounding_mono [OF assms(1,3)] assms(1) by simp

lemma rounding_above:
  assumes "double_rounding f" and "f x \<le> y"
  shows "f x \<le> f y"
  using rounding_mono [OF assms(1,2)] assms(1) by simp

lemma tenth_le_one: "double_rounding f \<Longrightarrow> f (1/10) \<le> 1"
  using rounding_bounds [of f "1/10"] by simp

definition weight_ok :: "qenv \<Rightarrow> rat \<Rightarrow> bool" where
  "weight_ok E w \<longleftrightarrow> q_rnd E (1/10) \<le> w \<and> w \<le> 10"

lemma reinforce_weight_ok:
  assumes r: "double_rounding (q_rnd E)" and "weight_ok E (mi_weight m)" and "0 \<le> w"
  shows "weight_ok E (mi_weight (reinforce E t w m))"
proof -
  let ?f = "q_rnd E"
  have "0 \<le> ?f (1/5)" using rounding_bounds [OF r, of "1/5"] by simp
  with \<open>0 \<le> w\<close> have "0 \<le> ?f (w * ?f (1/5))" using rounding_mono [OF r, of 0 "w * ?f (1/5)"] r by simp
  with assms(2) have "?f (1/10) \<le> mi_weight m + ?f (w * ?f (1/5))" by (simp add: weight_ok_def)
  from rounding_above [OF r this] tenth_le_one [OF r] show ?thesis
    by (simp add: weight_ok_def reinforce_def)
qed

lemma decay_factor_unit:
  assumes r: "double_rounding (q_rnd E)"
  shows "0 \<le> decay_factor E f \<and> decay_factor E f \<le> 1"
  using rounding_bounds [OF r, of "99/100"] rounding_bounds [OF r, of "1/10"]
  by (auto simp: decay_factor_def min_def max_def)

lemma weaken_weight_ok:
  assumes r: "double_rounding (q_rnd E)" and w: "weight_ok E (mi_weight m)" and "0 \<le> f" and "f \<le> 1"
  shows "weight_ok E (mi_weight (weaken E f t m))"
proof -
  have "0 \<le> mi_weight m" using w rounding_bounds [OF r, of "1/10"] by (simp add: weight_ok_def)
  with assms have "mi_weight m * f \<le> 10"
    using mult_left_le [of f "mi_weight m"] by (simp add: weight_ok_def)
  with rounding_mono [OF r this] r tenth_le_one [OF r] show ?thesis
    by (simp add: weight_ok_def weaken_def)
qed

definition new_weights_ok :: "qenv \<Rightarrow> memory_item list \<Rightarrow> bool" where
  "new_weights_ok E items \<longleftrightarrow> (\<forall>i\<in>set items. weight_ok E (mi_weight i) \<and> 0 \<le> mi_weight i)"

lemma rounded_weight_ok:
  assumes r: "double_rounding (q_rnd E)" and "1/10 \<le> x" and "x \<le> 10"
  shows "weight_ok E (q_rnd E x) \<and> 0 \<le> q_rnd E x"
  using rounding_mono [OF r assms(2)] rounding_mono [OF r assms(3)] r rounding_bounds [OF r, of "1/10"]
  by (auto simp: weight_ok_def)

lemma exact_weight_ok:
  assumes r: "double_rounding (q_rnd E)" and "1 \<le> x" and "x \<le> 10"
  shows "weight_ok E x \<and> 0 \<le> x"
  using assms tenth_le_one [OF r] by (auto simp: weight_ok_def)

lemma learnt_simps [simp]:
  "mi_user (learnt user ty w c) = user" "mi_weight (learnt user ty w c) = w" "mi_content (learnt user ty w c) = c"
  "mi_type (learnt user ty w c) = asc ty"
  by (simp_all add: learnt_def)

lemma extracted_user: "i \<in> set (extract_typed_memories E user q a) \<Longrightarrow> mi_user i = user"
  by (auto simp: extract_typed_memories_def Let_def)

lemma extracted_weight:
  "i \<in> set (extract_typed_memories E user q a) \<Longrightarrow>
     mi_weight i \<in> {3/2, q_rnd E (6/5), q_rnd E (13/10), 1, q_rnd E (4/5)}"
  by (auto simp: extract_typed_memories_def Let_def)

lemma extracted_weights_ok:
  assumes r: "double_rounding (q_rnd E)"
  shows "new_weights_ok E (extract_typed_memories E user q a)"
proof -
  have "\<forall>w\<in>{3/2, q_rnd E (6/5), q_rnd E (13/10), 1, q_rnd E (4/5)}. weight_ok E w \<and> 0 \<le> w"
    using rounded_weight_ok [OF r, of "6/5"] rounded_weight_ok [OF r, of "13/10"]
      rounded_weight_ok [OF r, of "4/5"] exact_weight_ok [OF r, of "3/2"] exact_weight_ok [OF r, of 1]
    by simp
  with extracted_weight show ?thesis unfolding new_weights_ok_def by blast
qed

lemma amplify_simps [simp]: "mi_user (amplify E s i) = mi_user i" "mi_content (amplify E s i) = mi_content i"
  "mi_type (amplify E s i) = mi_type i"
  by (simp_all add: amplify_def)

lemma clamp_bounds:
  assumes r: "double_rounding (q_rnd E)"
  shows "q_rnd E (1/10) \<le> clamp_score E f \<and> clamp_score E f \<le> 2"
  using tenth_le_one [OF r] by (cases f) auto

lemma amplify_weight_ok:
  assumes r: "double_rounding (q_rnd E)" and "0 \<le> s" and "weight_ok E (mi_weight i)" and "0 \<le> mi_weight i"
  shows "weight_ok E (mi_weight (amplify E s i)) \<and> 0 \<le> mi_weight (amplify E s i)"
proof -
  let ?f = "q_rnd E" and ?g = "q_rnd E (q_rnd E (6/5) + q_rnd E (q_rnd E (3/5) * s))"
  have "0 \<le> ?f (3/5) * s" using rounding_bounds [OF r, of "3/5"] \<open>0 \<le> s\<close> by simp
  then have "0 \<le> ?f (?f (3/5) * s)" using rounding_mono [OF r, of 0 "?f (3/5) * s"] r by simp
  moreover have "1 \<le> ?f (6/5)" using rounding_mono [OF r, of 1 "6/5"] r by simp
  ultimately have "1 \<le> ?g" using rounding_mono [OF r, of 1 "?f (6/5) + ?f (?f (3/5) * s)"] r by simp
  with assms(4) have "mi_weight i \<le> mi_weight i * ?g" using mult_left_mono [of 1 ?g "mi_weight i"] by simp
  with assms(3) have "?f (1/10) \<le> mi_weight i * ?g" by (simp add: weight_ok_def)
  from rounding_above [OF r this] tenth_le_one [OF r] rounding_bounds [OF r, of "1/10"] show ?thesis
    by (auto simp: weight_ok_def amplify_def)
qed

lemma feedback_weights_ok:
  assumes r: "double_rounding (q_rnd E)"
  shows "new_weights_ok E (feedback_items E user q c sig (clamp_score E f))"
proof -
  let ?s = "clamp_score E f"
  have s0: "0 \<le> ?s" using clamp_bounds [OF r, of f] rounding_bounds [OF r, of "1/10"] by auto
  have "1 \<le> q_rnd E (3/2 + ?s)" using rounding_mono [OF r, of 1 "3/2 + ?s"] r s0 by simp
  then have "weight_ok E (min (7/2) (q_rnd E (3/2 + ?s))) \<and> 0 \<le> min (7/2) (q_rnd E (3/2 + ?s))"
    using exact_weight_ok [OF r, of "min (7/2) (q_rnd E (3/2 + ?s))"] by (auto simp: min_def)
  moreover have "\<forall>i\<in>set (extract_typed_memories E user q c).
      weight_ok E (mi_weight (amplify E ?s i)) \<and> 0 \<le> mi_weight (amplify E ?s i)"
    using extracted_weights_ok [OF r, of user q c] amplify_weight_ok [OF r s0] by (auto simp: new_weights_ok_def)
  ultimately show ?thesis by (auto simp: new_weights_ok_def feedback_items_def)
qed

lemma feedback_items_user: "i \<in> set (feedback_items E user q c sig s) \<Longrightarrow> mi_user i = user"
  by (auto simp: feedback_items_def extracted_user)

subsection \<open>The invariant\<close>

definition memory_key :: "memory_row \<Rightarrow> ustr \<times> ustr \<times> ustr" where
  "memory_key r = (mi_user r, mi_type r, mi_content r)"

definition memory_rows_ok :: "qenv \<Rightarrow> memory_row list \<Rightarrow> bool" where
  "memory_rows_ok E rows \<longleftrightarrow> distinct (map memory_key rows) \<and> (\<forall>r\<in>set rows. weight_ok E (mi_weight r))"

definition memory_ok :: "qenv \<Rightarrow> memdb \<Rightarrow> bool" where
  "memory_ok E M \<longleftrightarrow> memory_rows_ok E (typed_memory M)
     \<and> map lg_id (conversation_log M) = [1 ..< Suc (length (conversation_log M))]
     \<and> distinct (map pf_user (user_profile M))"

definition q_ok :: "qenv \<Rightarrow> memdb \<Rightarrow> bool" where
  "q_ok E M \<longleftrightarrow> memory_ok E M \<and> profiles_fresh M"

lemma q_ok_empty: "q_ok E empty_memdb"
  by (simp add: q_ok_def memory_ok_def memory_rows_ok_def profiles_fresh_except_def empty_memdb_def)

lemma upsert_memory_ok:
  assumes r: "double_rounding (q_rnd E)" and "weight_ok E (mi_weight i)" and "0 \<le> mi_weight i"
    and ok: "memory_rows_ok E rows"
  shows "memory_rows_ok E (upsert_memory E t i rows)"
proof -
  have "distinct (map memory_key (upsert_memory E t i rows))"
    unfolding upsert_memory_def
    by (rule distinct_key_upsert) (use ok in \<open>auto simp: memory_rows_ok_def memory_key_def same_memory_def\<close>)
  then show ?thesis
    using assms reinforce_weight_ok [OF r _ assms(3)]
    by (auto simp: memory_rows_ok_def upsert_memory_def upsert_def elim!: update_whereE)
qed

lemma upsert_all_ok:
  assumes "double_rounding (q_rnd E)" and "new_weights_ok E items" and "memory_rows_ok E rows"
  shows "memory_rows_ok E (fold (upsert_memory E t) items rows)"
  using assms(2-)
proof (induction items arbitrary: rows)
  case (Cons i items)
  then show ?case using upsert_memory_ok [OF assms(1)] by (simp add: new_weights_ok_def)
qed simp

lemma memory_ok_upsert:
  assumes "double_rounding (q_rnd E)" and "new_weights_ok E items" and "memory_ok E M"
  shows "memory_ok E (upsert_memories E items M)"
  using upsert_all_ok [OF assms(1,2)] assms(3) by (simp add: memory_ok_def upsert_memories_def)

lemma memory_ok_log: "memory_ok E M \<Longrightarrow> memory_ok E (log_interaction E user sid q a refs M)"
  by (simp add: memory_ok_def log_interaction_def)

lemma memory_ok_feedback: "memory_ok E M \<Longrightarrow> memory_ok E (log_feedback E user sid q a c s x M)"
  by (simp add: memory_ok_def log_feedback_def)

lemma memory_ok_decay_keyword:
  assumes r: "double_rounding (q_rnd E)" and "0 \<le> f" and "f \<le> 1" and "memory_ok E (fst Mn)"
  shows "memory_ok E (fst (decay_keyword E user f kw Mn))"
proof -
  obtain M n where Mn: "Mn = (M, n)" by (cases Mn)
  have ok: "memory_rows_ok E (typed_memory M)" using assms(4) by (simp add: Mn memory_ok_def)
  then have "distinct (map memory_key (update_where (decay_hit user kw) (weaken E f (q_now E M)) (typed_memory M)))"
    by (intro distinct_key_update) (auto simp: memory_rows_ok_def memory_key_def)
  with ok have "memory_rows_ok E (update_where (decay_hit user kw) (weaken E f (q_now E M)) (typed_memory M))"
    using weaken_weight_ok [OF r _ assms(2,3)] by (auto simp: memory_rows_ok_def elim!: update_whereE)
  then show ?thesis using assms(4) by (simp add: Mn memory_ok_def decay_keyword_def)
qed

lemma memory_ok_decay:
  assumes r: "double_rounding (q_rnd E)" and "memory_ok E M"
  shows "memory_ok E (fst (decay_memories_by_keywords E user kws f M))"
proof -
  have "memory_ok E (fst (fold (decay_keyword E user (decay_factor E f)) ks (M, 0)))" for ks
    using fold_inv [of "\<lambda>Mn. memory_ok E (fst Mn)"] memory_ok_decay_keyword [OF r] decay_factor_unit [OF r]
      assms(2) by (metis fst_conv)
  then show ?thesis using assms(2) by (simp add: decay_memories_by_keywords_def Let_def)
qed

lemma refresh_simps [simp]:
  "typed_memory (fst (refresh_user_profile E user M)) = typed_memory M"
  "conversation_log (fst (refresh_user_profile E user M)) = conversation_log M"
  "feedback_log (fst (refresh_user_profile E user M)) = feedback_log M"
  "rows_of v (fst (refresh_user_profile E user M)) = rows_of v M"
  by (simp_all add: refresh_user_profile_def Let_def rows_of_def)

lemma refreshed_table:
  "user_profile (fst (refresh_user_profile E user M)) =
     upsert (\<lambda>r. pf_user r = user) (\<lambda>_. build_profile user (q_now E M) M) (build_profile user (q_now E M) M) (user_profile M)"
  by (simp add: refresh_user_profile_def Let_def)

lemma refreshed_profiles:
  assumes "p \<in> set (user_profile (fst (refresh_user_profile E user M)))"
  shows "p = build_profile user (q_now E M) M \<or> p \<in> set (user_profile M) \<and> pf_user p \<noteq> user"
  using assms unfolding refreshed_table upsert_def
  by (auto simp: list_ex_iff split: if_split_asm elim!: update_whereE)

lemma refresh_result: "snd (refresh_user_profile E user M) = build_profile user (q_now E M) M"
  by (simp add: refresh_user_profile_def Let_def)

lemma build_profile_user [simp]: "pf_user (build_profile user t M) = user" "pf_updated (build_profile user t M) = t"
  by (simp_all add: build_profile_def Let_def)

lemma refresh_fresh:
  assumes "profiles_fresh_except {user} M"
  shows "profiles_fresh (fst (refresh_user_profile E user M))"
  unfolding profiles_fresh_except_def
proof (intro ballI impI)
  fix p assume "p \<in> set (user_profile (fst (refresh_user_profile E user M)))"
  then consider "p = build_profile user (q_now E M) M" | "p \<in> set (user_profile M)" "pf_user p \<noteq> user"
    using refreshed_profiles by blast
  then have "p = build_profile (pf_user p) (pf_updated p) M"
    using assms by cases (auto simp: profiles_fresh_except_def)
  also have "\<dots> = build_profile (pf_user p) (pf_updated p) (fst (refresh_user_profile E user M))"
    by (rule build_profile_rows) simp
  finally show "p = build_profile (pf_user p) (pf_updated p) (fst (refresh_user_profile E user M))" .
qed

lemma memory_ok_refresh:
  assumes "memory_ok E M"
  shows "memory_ok E (fst (refresh_user_profile E user M))"
proof -
  have "distinct (map pf_user (user_profile (fst (refresh_user_profile E user M))))"
    unfolding refreshed_table upsert_def
    using assms by (auto simp: memory_ok_def list_ex_iff update_where_def comp_def if_distrib [of pf_user]
        cong: if_cong)
  with assms show ?thesis by (simp add: memory_ok_def)
qed

lemma fresh_weaken: "profiles_fresh M \<Longrightarrow> profiles_fresh_except U M"
  by (simp add: profiles_fresh_except_def)

lemma q_ok_refresh:
  "memory_ok E M \<Longrightarrow> profiles_fresh_except {user} M \<Longrightarrow> q_ok E (fst (refresh_user_profile E user M))"
  by (simp add: q_ok_def memory_ok_refresh refresh_fresh)

subsection \<open>The operations of the service\<close>

lemma rows_of_exchange:
  assumes "v \<noteq> user"
  shows "rows_of v (remember_exchange E user sid logged q a refs M) = rows_of v M"
proof -
  have "filter (\<lambda>i. mi_user i = user) (extract_typed_memories E user q a) = extract_typed_memories E user q a"
    by (rule filter_True) (simp add: extracted_user)
  with learning.other_rows [OF assms, of E "extract_typed_memories E user q a"] logging.other_rows [OF assms]
  show ?thesis by (simp add: remember_exchange_def)
qed

lemma q_ok_exchange:
  assumes r: "double_rounding (q_rnd E)" and "q_ok E M"
  shows "q_ok E (remember_exchange E user sid logged q a refs M)"
proof -
  let ?items = "extract_typed_memories E user q a"
  let ?M1 = "log_interaction E user sid logged a refs M"
  have items: "filter (\<lambda>i. mi_user i = user) ?items = ?items"
    by (rule filter_True) (simp add: extracted_user)
  have "profiles_fresh_except {user} ?M1"
    using logging.fresh_except assms(2) by (simp add: q_ok_def)
  then have "profiles_fresh_except {user} (upsert_memories E ?items ?M1)"
    using learning.fresh_except [of "{user}" ?M1 user E ?items] items by simp
  moreover have "memory_ok E (upsert_memories E ?items ?M1)"
    using assms(2) by (intro memory_ok_upsert [OF r extracted_weights_ok [OF r]] memory_ok_log) (simp add: q_ok_def)
  ultimately show ?thesis by (simp add: remember_exchange_def q_ok_refresh)
qed

lemma get_user_profile_ok: "q_ok E M \<Longrightarrow> q_ok E (fst (get_user_profile E user b M))"
  by (auto simp: get_user_profile_def split_beta q_ok_refresh q_ok_def fresh_weaken memory_ok_refresh refresh_fresh
      split: option.split)

lemma get_user_profile_rows: "rows_of v (fst (get_user_profile E user b M)) = rows_of v M"
  by (auto simp: get_user_profile_def split_beta split: option.split)

lemma context_memory [simp]: "fst (build_memory_context E user M) = fst (get_user_profile E user True M)"
  by (simp add: build_memory_context_def Let_def split_beta)

lemma with_context_simps [simp]:
  "qs_memory (fst (with_context E user Q)) = fst (get_user_profile E user True (qs_memory Q))"
  "qs_chat (fst (with_context E user Q)) = qs_chat Q" "qs_sessions (fst (with_context E user Q)) = qs_sessions Q"
  by (simp_all add: with_context_def split_beta)

lemma q_call_simps [simp]:
  "qs_memory (q_call Q) = qs_memory Q" "qs_chat (q_call Q) = qs_chat Q" "qs_sessions (q_call Q) = qs_sessions Q"
  by (simp_all add: q_call_def)

lemma session_memory [simp]: "qs_memory (fst (get_or_create_session A user Q)) = qs_memory Q"
  by (simp add: get_or_create_session_def split: option.split sum.split)

lemma q_ask_memory [simp]: "qs_memory (fst (q_ask A sid prompt Q)) = qs_memory Q"
  by (simp add: q_ask_def)

text \<open>What a request that succeeds or fails leaves of the memory.\<close>

lemma ask_process_memory:
  "qs_memory (fst (ask_process_qa E A user q Q)) \<in>
     {qs_memory Q, fst (get_user_profile E user True (qs_memory Q))} \<union>
     {remember_exchange E user sid q q a refs (fst (get_user_profile E user True (qs_memory Q))) | sid a refs. True}"
  by (auto simp: ask_process_qa_def and_then_def split_beta Let_def split: sum.splits)

lemma feedback_run:
  fixes E user sid q original c remark sig score M
  defines "M1 \<equiv> fst (decay_memories_by_keywords E user (extract_negative_keywords (c @ [10] @ remark)) (q_rnd E (41/50)) M)"
  defines "M2 \<equiv> upsert_memories E (feedback_items E user q c sig score) M1"
  defines "M3 \<equiv> log_feedback E user sid q original c sig score M2"
  defines "M4 \<equiv> log_interaction E user sid (asc ''[USER_FEEDBACK] '' @ q) (u_strip (c @ [10, 10] @ remark)) [] M3"
  shows "fst (apply_feedback E user sid q original c remark sig score M) = fst (refresh_user_profile E user M4)"
  by (simp add: apply_feedback_def Let_def split_beta assms)

lemma feedback_items_filter:
  "filter (\<lambda>i. mi_user i = user) (feedback_items E user q c sig s) = feedback_items E user q c sig s"
  by (rule filter_True) (simp add: feedback_items_user)

lemma rows_of_feedback:
  assumes "v \<noteq> user"
  shows "rows_of v (fst (apply_feedback E user sid q original c remark sig score M)) = rows_of v M"
  unfolding feedback_run refresh_simps logging.other_rows [OF assms] feedback.other_rows [OF assms]
  using learning.other_rows [OF assms, of E "feedback_items E user q c sig score"] decaying.other_rows [OF assms]
  by (simp add: feedback_items_filter)

lemma q_ok_feedback:
  assumes r: "double_rounding (q_rnd E)" and "q_ok E M"
  shows "q_ok E (fst (apply_feedback E user sid q original c remark sig (clamp_score E f) M))"
proof -
  let ?items = "feedback_items E user q c sig (clamp_score E f)"
  let ?kws = "extract_negative_keywords (c @ [10] @ remark)"
  let ?M1 = "fst (decay_memories_by_keywords E user ?kws (q_rnd E (41/50)) M)"
  have "profiles_fresh_except {user} ?M1"
    using decaying.fresh_except [of "{}" M user E ?kws] assms(2) by (simp add: q_ok_def)
  then have "profiles_fresh_except {user} (upsert_memories E ?items ?M1)"
    using learning.fresh_except [of "{user}" ?M1 user E ?items] by (simp add: feedback_items_filter)
  then have "profiles_fresh_except {user} (log_interaction E user sid l a refs
      (log_feedback E user sid q original c sig x (upsert_memories E ?items ?M1)))" for l a refs x
    using logging.fresh_except feedback.fresh_except by (metis insert_absorb2)
  moreover have "memory_ok E (upsert_memories E ?items ?M1)"
    using assms(2) by (intro memory_ok_upsert [OF r feedback_weights_ok [OF r]] memory_ok_decay [OF r])
      (simp add: q_ok_def)
  ultimately show ?thesis
    unfolding feedback_run by (intro q_ok_refresh memory_ok_log memory_ok_feedback)
qed

subsection \<open>What a user sees\<close>

text \<open>All that a question of a user depends on: the rows, the stored profile, the session.\<close>

definition stored_profile :: "ustr \<Rightarrow> memdb \<Rightarrow> profile option" where
  "stored_profile v M = fetchone (\<lambda>p. pf_user p = v) (user_profile M)"

definition seen_by :: "ustr \<Rightarrow> memdb \<Rightarrow> (memory_row list \<times> log_row list) \<times> profile option" where
  "seen_by v M = (rows_of v M, stored_profile v M)"

lemma context_seen:
  assumes "seen_by v M = seen_by v M'"
  shows "snd (build_memory_context E v M) = snd (build_memory_context E v M')"
proof -
  have rows: "rows_of v M = rows_of v M'" and prof: "stored_profile v M = stored_profile v M'"
    using assms by (simp_all add: seen_by_def)
  have "get_top_memories v 10 M = get_top_memories v 10 M'"
    and "recent_history_all_sessions v 6 M = recent_history_all_sessions v 6 M'"
    using rows by (simp_all add: rows_of_def get_top_memories_def ranked_memories_def recent_history_all_sessions_def)
  moreover have "context_text (build_profile v t M) ms hs = context_text (build_profile v t' M') ms hs" for t t' ms hs
    using build_profile_rows [OF rows] by (simp add: context_text_def build_profile_def Let_def)
  ultimately show ?thesis
    using prof by (auto simp: build_memory_context_def Let_def get_user_profile_def stored_profile_def
        refresh_user_profile_def split: option.split)
qed

lemma stored_profile_refresh:
  assumes "v \<noteq> user"
  shows "stored_profile v (fst (refresh_user_profile E user M)) = stored_profile v M"
proof -
  have "fetchone (\<lambda>p. pf_user p = v) (update_where (\<lambda>r. pf_user r = user) (\<lambda>_. build_profile user t M) ps)
      = fetchone (\<lambda>p. pf_user p = v) ps" for t ps
    by (rule fetchone_update_other) (use assms in auto)
  then show ?thesis
    unfolding stored_profile_def refreshed_table upsert_def
    using assms by (auto simp: fetchone_append split: option.split)
qed

lemma seen_by_refresh: "v \<noteq> user \<Longrightarrow> seen_by v (fst (refresh_user_profile E user M)) = seen_by v M"
  by (simp add: seen_by_def stored_profile_refresh)

lemma seen_by_get_profile: "v \<noteq> user \<Longrightarrow> seen_by v (fst (get_user_profile E user b M)) = seen_by v M"
  by (auto simp: get_user_profile_def split_beta seen_by_refresh split: option.split)

lemma upsert_profiles [simp]: "user_profile (upsert_memories E items M) = user_profile M"
  by (simp add: upsert_memories_def)

lemma seen_by_exchange:
  assumes "v \<noteq> user"
  shows "seen_by v (remember_exchange E user sid logged q a refs M) = seen_by v M"
  using rows_of_exchange [OF assms] stored_profile_refresh [OF assms]
  by (simp add: seen_by_def) (simp add: remember_exchange_def stored_profile_def log_interaction_def)

lemma seen_by_feedback:
  assumes "v \<noteq> user"
  shows "seen_by v (fst (apply_feedback E user sid q original c remark sig score M)) = seen_by v M"
proof -
  have "stored_profile v (fst (apply_feedback E user sid q original c remark sig score M)) = stored_profile v M"
    unfolding feedback_run stored_profile_refresh [OF assms]
    by (simp add: stored_profile_def logging.same_profiles feedback.same_profiles decaying.same_profiles)
  with rows_of_feedback [OF assms] show ?thesis by (simp add: seen_by_def)
qed

subsection \<open>Requests\<close>

text \<open>
  What holds of the memory before a request, and is kept by building a profile for \<open>user\<close>, by an
  exchange and by a correction of \<open>user\<close>, holds after every request of \<open>user\<close>.
\<close>

locale request_kept =
  fixes E :: qenv and user :: ustr and I :: "memdb \<Rightarrow> bool"
  assumes profile: "I M \<Longrightarrow> I (fst (get_user_profile E user True M))"
    and exchange: "I M \<Longrightarrow> I (remember_exchange E user sid logged q a refs M)"
    and correction: "I M \<Longrightarrow> I (fst (apply_feedback E user sid q original c remark sig (clamp_score E f) M))"
begin

lemma process: "I (qs_memory Q) \<Longrightarrow> I (qs_memory (fst (ask_process_qa E A user q Q)))"
  unfolding ask_process_qa_def split_beta Let_def
  by (intro and_then_inv [where I = "\<lambda>Q. I (qs_memory Q)"]) (auto intro: profile exchange)

lemma learning: "I (qs_memory Q) \<Longrightarrow> I (qs_memory (fst (ask_learning_qa E A user topic q Q)))"
  unfolding ask_learning_qa_def split_beta Let_def
  by (intro and_then_inv [where I = "\<lambda>Q. I (qs_memory Q)"]) (auto intro: profile exchange)

lemma feedback:
  "I (qs_memory Q) \<Longrightarrow> I (qs_memory (fst (submit_user_feedback E A user q original c fs remark sid Q)))"
  by (auto simp: submit_user_feedback_def split_beta Let_def split: sum.split
      intro!: and_then_inv [where I = "\<lambda>Q. I (qs_memory Q)"] correction)

lemma long_term: "I (qs_memory Q) \<Longrightarrow> I (qs_memory (fst (get_user_long_term_memory E user Q)))"
  by (simp add: get_user_long_term_memory_def split_beta profile)

end

text \<open>The user a request acts for.\<close>

fun request_user :: "q_request \<Rightarrow> ustr option" where
  "request_user (Get raw path user_id) =
     (if raw \<noteq> ''/healthz'' \<and> path = ''/v1/qms/memory/profile''
      then Some (u_strip (case user_id of None \<Rightarrow> asc ''anonymous'' | Some u \<Rightarrow> if u = [] then asc ''anonymous'' else u))
      else None)"
| "request_user (Post path (Fields fs)) =
     (if path \<in> fst ` set post_routes
      then case text_field fs ''user_id'' (asc ''anonymous'') of Inl _ \<Rightarrow> None | Inr u \<Rightarrow> Some u else None)"
| "request_user (Post path b) = None"

lemma finish_fst [simp]: "fst (finish f r) = fst r"
  by (simp add: finish_def)

lemma feedback_fields_user:
  "feedback_fields fs = Inr xs \<Longrightarrow> text_field fs ''user_id'' (asc ''anonymous'') = Inr (xs ! 0)"
  by (auto simp: feedback_fields_def sum_bind_def split: sum.splits)

lemma post_routes_simps:
  "fst ` set post_routes = {''/v1/qms/ask-procedure'', ''/v1/qms/learn-module'', ''/v1/qms/feedback''}"
  by (auto simp: post_routes_def)

text \<open>A request does nothing to the memory, or one of the four operations for its user.\<close>

lemma handle_memory:
  assumes kept: "\<And>u. request_user r = Some u \<Longrightarrow> request_kept E u I" and I: "I (qs_memory Q)"
  shows "I (qs_memory (fst (q_handle E A r Q)))"
proof (cases r)
  case (Get raw path user_id)
  show ?thesis
  proof (cases "request_user r")
    case None
    with Get I show ?thesis by (auto simp: do_GET_def split: if_splits)
  next
    case (Some u)
    from request_kept.long_term [OF kept [OF Some] I] Some Get I show ?thesis
      by (auto simp: do_GET_def split_beta Let_def split: if_splits)
  qed
next
  case (Post path b)
  show ?thesis
  proof (cases b)
    case (Fields fs)
    have k: "request_kept E u I"
      if "path \<in> fst ` set post_routes" "text_field fs ''user_id'' (asc ''anonymous'') = Inr u" for u
      using kept that Post Fields by simp
    have "I (qs_memory (fst (ask_procedure_route E A fs Q)))" if "path = ''/v1/qms/ask-procedure''"
      using k that I by (auto simp: ask_procedure_route_def post_routes_simps request_kept.process split: sum.split)
    moreover have "I (qs_memory (fst (learn_module_route E A fs Q)))" if "path = ''/v1/qms/learn-module''"
      using k that I by (auto simp: learn_module_route_def post_routes_simps request_kept.learning split: sum.split)
    moreover have "I (qs_memory (fst (feedback_route E A fs Q)))" if "path = ''/v1/qms/feedback''"
      using k that I feedback_fields_user
      by (auto simp: feedback_route_def Let_def post_routes_simps request_kept.feedback split: sum.split)
    ultimately show ?thesis
      using I by (simp add: Post Fields do_POST_def post_routes_def)
  qed (use I Post in \<open>simp_all add: do_POST_def split: option.split\<close>)
qed

interpretation ok_requests: request_kept E u "\<lambda>M. double_rounding (q_rnd E) \<longrightarrow> q_ok E M" for E u
  by unfold_locales (auto intro: get_user_profile_ok q_ok_exchange q_ok_feedback)

interpretation other_requests: request_kept E u "\<lambda>M. u \<noteq> v \<longrightarrow> seen_by v M = x" for E u v x
  by unfold_locales (auto simp: seen_by_get_profile seen_by_exchange seen_by_feedback)

lemma request_keeps_others: "u \<noteq> v \<Longrightarrow> request_kept E u (\<lambda>M. seen_by v M = x)"
  using other_requests.request_kept_axioms [of E u v x] by simp

lemma run_server_memory: "run_server A env M = Some Q \<Longrightarrow> qs_memory Q = M"
  by (auto simp: run_server_def split: sum.splits prod.splits)

text \<open>Reachable states.\<close>

definition sound_service :: "qenv \<Rightarrow> qms \<Rightarrow> bool" where
  "sound_service E Q \<longleftrightarrow> (double_rounding (q_rnd E) \<longrightarrow> q_ok E (qs_memory Q))"

interpretation qms_server: invariant_system "q_init A" "q_step E A" "sound_service E" for E A
proof
  fix Q assume "q_init A Q"
  then show "sound_service E Q"
    by (auto simp: q_init_def sound_service_def run_server_memory q_ok_empty)
next
  fix Q Q' assume ok: "sound_service E Q" and "q_step E A Q Q'"
  from this(2) show "sound_service E Q'"
  proof cases
    case (request r)
    have "double_rounding (q_rnd E) \<longrightarrow> q_ok E (qs_memory (fst (q_handle E A r Q)))"
      by (rule handle_memory [OF ok_requests.request_kept_axioms]) (use ok in \<open>simp add: sound_service_def\<close>)
    with request show ?thesis by (simp add: sound_service_def)
  next
    case (restart env)
    with ok show ?thesis by (simp add: sound_service_def run_server_memory)
  qed
qed

subsection \<open>The decay of memories\<close>

text \<open>How many keywords a row matches, and what one match does to its weight.\<close>

definition keyword_hits :: "ustr \<Rightarrow> ustr list \<Rightarrow> memory_row \<Rightarrow> nat" where
  "keyword_hits user kws r = length (filter (\<lambda>k. decay_hit user k r) kws)"

definition weakened :: "qenv \<Rightarrow> rat \<Rightarrow> rat \<Rightarrow> rat" where
  "weakened E f w = max (q_rnd E (1/10)) (q_rnd E (w * f))"

lemma keyword_hits_simps [simp]:
  "keyword_hits user [] r = 0"
  "keyword_hits user (k # kws) r = (if decay_hit user k r then Suc (keyword_hits user kws r) else keyword_hits user kws r)"
  "keyword_hits user kws (weaken E f t r) = keyword_hits user kws r"
  by (simp_all add: keyword_hits_def decay_hit_def)

lemma memory_key_weaken [simp]: "memory_key (weaken E f t r) = memory_key r"
  by (simp add: memory_key_def)

lemma weight_weaken [simp]: "mi_weight (weaken E f t r) = weakened E f (mi_weight r)"
  by (simp add: weaken_def weakened_def)

lemma decay_step_rows:
  "map (keyword_hits user kws) (update_where (decay_hit user k) (weaken E f t) rows) = map (keyword_hits user kws) rows"
  "map memory_key (update_where (decay_hit user k) (weaken E f t) rows) = map memory_key rows"
  "map (\<lambda>r. (weakened E f ^^ keyword_hits user kws r) (mi_weight r)) (update_where (decay_hit user k) (weaken E f t) rows)
     = map (\<lambda>r. (weakened E f ^^ keyword_hits user (k # kws) r) (mi_weight r)) rows"
  by (induction rows) (auto simp: funpow_swap1)

lemma rowcount_hits:
  "rowcount (decay_hit user k) rows + sum_list (map (keyword_hits user kws) rows)
     = sum_list (map (keyword_hits user (k # kws)) rows)"
  by (induction rows) (auto simp: rowcount_def)

lemma decay_keyword_eq:
  obtains M' where "decay_keyword E user f k (M, n) = (M', n + rowcount (decay_hit user k) (typed_memory M))"
    and "typed_memory M' = update_where (decay_hit user k) (weaken E f (q_now E M)) (typed_memory M)"
  by (simp add: decay_keyword_def)

lemma decay_fold_rows:
  "map memory_key (typed_memory (fst (fold (decay_keyword E user f) kws (M, n)))) = map memory_key (typed_memory M)
     \<and> map mi_weight (typed_memory (fst (fold (decay_keyword E user f) kws (M, n))))
       = map (\<lambda>r. (weakened E f ^^ keyword_hits user kws r) (mi_weight r)) (typed_memory M)
     \<and> snd (fold (decay_keyword E user f) kws (M, n)) = n + sum_list (map (keyword_hits user kws) (typed_memory M))"
proof (induction kws arbitrary: M n)
  case (Cons k kws)
  obtain M' where step: "decay_keyword E user f k (M, n) = (M', n + rowcount (decay_hit user k) (typed_memory M))"
    and rows: "typed_memory M' = update_where (decay_hit user k) (weaken E f (q_now E M)) (typed_memory M)"
    by (rule decay_keyword_eq)
  show ?case
    unfolding fold_simps step
    using Cons.IH [of M' "n + rowcount (decay_hit user k) (typed_memory M)"]
      rowcount_hits [of user k "typed_memory M" kws]
    by (simp only: rows decay_step_rows) (simp only: add.assoc)
qed simp

subsection \<open>Failures\<close>

text \<open>The rows themselves, without the stored profiles.\<close>

definition same_rows :: "memdb \<Rightarrow> memdb \<Rightarrow> bool" where
  "same_rows M M' \<longleftrightarrow> typed_memory M' = typed_memory M \<and> conversation_log M' = conversation_log M
     \<and> feedback_log M' = feedback_log M"

lemma same_rows_refl [simp]: "same_rows M M"
  by (simp add: same_rows_def)

lemma same_rows_profile [simp]: "same_rows M (fst (get_user_profile E user b M))"
  by (auto simp: same_rows_def get_user_profile_def split_beta split: option.split)

lemma failed_process:
  "snd (ask_process_qa E A user q Q) = Inl e \<Longrightarrow> same_rows (qs_memory Q) (qs_memory (fst (ask_process_qa E A user q Q)))"
  using same_rows_profile
  by (auto simp: ask_process_qa_def and_then_def split_beta Let_def split: sum.splits)

lemma failed_learning:
  "snd (ask_learning_qa E A user topic q Q) = Inl e \<Longrightarrow>
     same_rows (qs_memory Q) (qs_memory (fst (ask_learning_qa E A user topic q Q)))"
  using same_rows_profile
  by (auto simp: ask_learning_qa_def and_then_def split_beta Let_def split: sum.splits)

lemma failed_feedback:
  assumes "snd (submit_user_feedback E A user q original c fs remark sid Q) = Inl e"
  shows "qs_memory (fst (submit_user_feedback E A user q original c fs remark sid Q)) = qs_memory Q"
proof -
  have "qs_memory (fst (get_or_create_session A user Q)) = qs_memory Q" by simp
  with assms show ?thesis
    by (cases fs; cases "get_or_create_session A user Q"; cases "snd (get_or_create_session A user Q)")
      (auto simp: submit_user_feedback_def split_beta Let_def split: if_splits)
qed

lemma finish_code: "snd (finish f x) = QReply c p \<Longrightarrow> c \<noteq> 200 \<Longrightarrow> \<exists>e. snd x = Inl e"
  by (auto simp: finish_def split: sum.splits)

lemma failed_route:
  assumes "route \<in> snd ` set post_routes" and "snd (route E A fs Q) = QReply c p" and "c \<noteq> 200"
  shows "same_rows (qs_memory Q) (qs_memory (fst (route E A fs Q)))"
proof -
  from assms(1) consider "route = ask_procedure_route" | "route = learn_module_route" | "route = feedback_route"
    by (auto simp: post_routes_def)
  then show ?thesis
  proof cases
    case 1
    with assms(2,3) show ?thesis
      by (auto simp: ask_procedure_route_def dest!: finish_code failed_process split: sum.splits if_splits)
  next
    case 2
    with assms(2,3) show ?thesis
      by (auto simp: learn_module_route_def dest!: finish_code failed_learning split: sum.splits if_splits)
  next
    case 3
    with assms(2,3) show ?thesis
      by (auto simp: feedback_route_def Let_def dest!: finish_code failed_feedback split: sum.splits if_splits)
  qed
qed

lemma failed_request:
  assumes "snd (q_handle E A r Q) = QReply c p" and "c \<noteq> 200"
  shows "same_rows (qs_memory Q) (qs_memory (fst (q_handle E A r Q)))"
proof (cases r)
  case (Get raw path user_id)
  with assms show ?thesis by (auto simp: do_GET_def Let_def split_beta split: if_splits)
next
  case (Post path b)
  then show ?thesis
    using assms failed_route [of _ E A _ Q c p] map_of_SomeD [of post_routes path]
    by (auto simp: do_POST_def image_iff split: if_splits option.splits body.splits) (metis snd_conv)
qed

subsection \<open>Calls at start-up\<close>

lemma create_chat_calls:
  "fst (create_chat_with_valid_datasets A name ids n) \<le> n + length ids + 1"
proof (induction A name ids n rule: create_chat_with_valid_datasets.induct)
  case (1 A name cur n)
  show ?case
  proof (cases "api_create_chat A n name cur")
    case (Inr c)
    then show ?thesis by (simp add: create_chat_with_valid_datasets.simps)
  next
    case (Inl e)
    show ?thesis
    proof (cases "drop_invalid_dataset_id e cur = cur")
      case False
      with "1.IH" [OF Inl refl False] drop_invalid_shorter [OF False] show ?thesis
        by (simp add: Inl create_chat_with_valid_datasets.simps [of A name cur n] Let_def)
    qed (simp add: Inl create_chat_with_valid_datasets.simps)
  qed
qed

lemma try_bind_calls: "fst (try_bind A c ids n) \<le> n + 2"
  by (simp add: try_bind_def split: option.split)

lemma bind_retry_calls: "fst (bind_retry A c cur e n) \<le> n + 2 * length cur"
proof (induction A c cur e n rule: bind_retry.induct)
  case (1 A c cur e n)
  let ?nxt = "drop_invalid_dataset_id e cur"
  show ?case
  proof (cases "?nxt = cur")
    case False
    obtain n1 x where t: "try_bind A c ?nxt n = (n1, x)" by (cases "try_bind A c ?nxt n")
    have n1: "n1 \<le> n + 2" using try_bind_calls [of A c ?nxt n] t by simp
    show ?thesis
    proof (cases x)
      case (Inl e1)
      with "1.IH" [OF refl False t [symmetric] Inl] n1 drop_invalid_shorter [OF False] t False show ?thesis
        by (simp add: bind_retry.simps [of A c cur e n] Let_def)
    next
      case (Inr c1)
      with n1 drop_invalid_shorter [OF False] t False show ?thesis
        by (simp add: bind_retry.simps [of A c cur e n] Let_def)
    qed
  qed (simp add: bind_retry.simps Let_def)
qed

lemma bind_calls: "fst (bind_datasets_if_needed A ids c n) \<le> n + 2 + 2 * length ids"
proof -
  obtain n1 x where t: "try_bind A c ids n = (n1, x)" by (cases "try_bind A c ids n")
  then have n1: "n1 \<le> n + 2" using try_bind_calls [of A c ids n] by simp
  have "fst (bind_retry A c ids e n1) \<le> n + 2 + 2 * length ids" for e
    using bind_retry_calls [of A c ids e n1] n1 by linarith
  with n1 show ?thesis by (cases x) (simp_all add: bind_datasets_if_needed_def t)
qed

lemma bound_calls: "fst (bound A ids r) \<le> fst r + 2 + 2 * length ids"
  using bind_calls [of A ids _ "fst r"] by (cases r; cases "snd r") (auto simp: bound_def split_beta)

lemma find_chat_calls: "fst (find_existing_chat_by_name A name n) \<le> n + 2"
  by (auto simp: find_existing_chat_by_name_def split: option.split prod.split)

subsection \<open>An answered question\<close>

definition item_key :: "memory_item \<Rightarrow> ustr \<times> ustr \<times> ustr" where
  "item_key i = (mi_user i, mi_type i, u_strip (mi_content i))"

lemma same_memory_key: "same_memory i r \<longleftrightarrow> memory_key r = item_key i"
  by (auto simp: same_memory_def memory_key_def item_key_def)

lemma memory_key_simps [simp]: "memory_key (reinforce E t w r) = memory_key r" "memory_key (new_memory t i) = item_key i"
  by (simp_all add: memory_key_def item_key_def)

lemma upsert_memory_keys:
  "memory_key ` set (upsert_memory E t i rows) = insert (item_key i) (memory_key ` set rows)"
proof (cases "list_ex (same_memory i) rows")
  case True
  have "map memory_key (update_where (same_memory i) (reinforce E t (mi_weight i)) rows) = map memory_key rows"
    by (rule map_key_update_where) simp
  from arg_cong [OF this, of set] have "memory_key ` set (upsert_memory E t i rows) = memory_key ` set rows"
    unfolding upsert_memory_def upsert_def by (simp add: True)
  moreover have "item_key i \<in> memory_key ` set rows"
    using True by (auto simp: list_ex_iff same_memory_key intro: rev_image_eqI)
  ultimately show ?thesis by (simp add: insert_absorb)
qed (simp add: upsert_memory_def upsert_def)

lemma upsert_all_keys:
  "memory_key ` set (fold (upsert_memory E t) items rows) = item_key ` set items \<union> memory_key ` set rows"
  by (induction items arbitrary: rows) (auto simp: upsert_memory_keys)

end
