(* ===== verification/QmsProperties.thy ===== *)
theory QmsProperties
  imports QmsInvariant
begin

text \<open>
  The properties of the QMS agent service: its memory in every reachable state, isolation of its
  users, what a question, a correction and a failure leave behind, and its start-up.
\<close>

subsection \<open>A sample service\<close>

text \<open>Rounding to multiples of \<open>2 ^ -40\<close>, downwards.\<close>

definition rnd0 :: "rat \<Rightarrow> rat" where
  "rnd0 x = of_int \<lfloor>x * 1099511627776\<rfloor> / 1099511627776"

lemma rnd0_exact: "x * 1099511627776 = of_int k \<Longrightarrow> rnd0 x = x"
proof -
  assume x: "x * 1099511627776 = of_int k"
  then have "rnd0 x = of_int k / 1099511627776" by (simp add: rnd0_def)
  with x show ?thesis by (simp flip: x)
qed

lemma double_rounding_rnd0: "double_rounding rnd0"
  unfolding double_rounding_def
proof (intro conjI allI impI)
  show "rnd0 x \<le> rnd0 y" if "x \<le> y" for x y
    unfolding rnd0_def by (intro divide_right_mono of_int_le_iff [THEN iffD2] floor_mono mult_right_mono that) simp_all
  show "rnd0 (rnd0 x) = rnd0 x" for x
    by (rule rnd0_exact [where k = "\<lfloor>x * 1099511627776\<rfloor>"]) (simp add: rnd0_def)
  show "rnd0 0 = 0" by (rule rnd0_exact [of _ 0]) simp
  show "rnd0 1 = 1" by (rule rnd0_exact [of _ 1099511627776]) simp
  show "rnd0 (3/2) = 3/2" by (rule rnd0_exact [of _ 1649267441664]) simp
  show "rnd0 2 = 2" by (rule rnd0_exact [of _ 2199023255552]) simp
  show "rnd0 (7/2) = 7/2" by (rule rnd0_exact [of _ 3848290697216]) simp
  show "rnd0 4 = 4" by (rule rnd0_exact [of _ 4398046511104]) simp
  show "rnd0 10 = 10" by (rule rnd0_exact [of _ 10995116277760]) simp
qed

definition qenv0 :: qenv where
  "qenv0 = \<lparr>q_rnd = rnd0, q_iso = (\<lambda>n. [n]), q_float = (\<lambda>_. None), q_of_int = (\<lambda>i. Some (of_int i))\<rparr>"

lemma double_rounding_qenv0: "double_rounding (q_rnd qenv0)"
  by (simp add: qenv0_def double_rounding_rnd0)

definition qchat0 :: chat where
  "qchat0 = \<lparr>ct_id = asc ''c'', ct_datasets = []\<rparr>"

definition qapi0 :: qms_api where
  "qapi0 = \<lparr>api_get_chat = (\<lambda>_ _. Inr qchat0), api_create_chat = (\<lambda>_ _ _. Inr qchat0),
     api_update_chat = (\<lambda>_ _ _. None), api_list_chats = (\<lambda>_ _. None),
     api_create_session = (\<lambda>n _ _. Inr [n]), api_ask = (\<lambda>_ _ _. Inr (asc ''ok'', [])), api_stamp = (\<lambda>_. [])\<rparr>"

definition qms0 :: qms where
  "qms0 = \<lparr>qs_memory = empty_memdb, qs_chat = qchat0, qs_sessions = [], qs_calls = 2\<rparr>"

definition qvars0 :: "string \<Rightarrow> ustr option" where
  "qvars0 = (\<lambda>n. if n = ''RAGFLOW_API_KEY'' then Some (asc ''k'') else None)"

lemma q_init_qms0: "q_init qapi0 qms0"
proof -
  have "run_server qapi0 qvars0 empty_memdb = Some qms0"
    by (simp add: run_server_def load_config_from_env_def q_getenv_def qvars0_def u_strip_def u_space_def
        placeholder_keys_def ensure_chat_def find_existing_chat_by_name_def qapi0_def qms0_def bound_def
        bind_datasets_if_needed_def create_chat_with_valid_datasets.simps)
  then show ?thesis by (auto simp: q_init_def)
qed

definition ask0 :: q_request where
  "ask0 = Post ''/v1/qms/ask-procedure'' (Fields [(''user_id'', JStr (asc ''ann'')), (''question'', JStr (asc ''why''))])"

subsection \<open>The memory\<close>



text \<open>
  C14: a request of somebody else changes nothing of what a user's next question is built from: the
  user's rows are the same, and so is the context that is put into the prompt.
\<close>

theorem users_isolated:
  assumes "request_user r \<noteq> Some v"
  shows "rows_of v (qs_memory (fst (q_handle E A r Q))) = rows_of v (qs_memory Q)
     \<and> snd (build_memory_context E v (qs_memory (fst (q_handle E A r Q)))) = snd (build_memory_context E v (qs_memory Q))"
proof -
  have "request_kept E u (\<lambda>M. seen_by v M = seen_by v (qs_memory Q))" if "request_user r = Some u" for u
    by (rule request_keeps_others) (use assms that in auto)
  from handle_memory [where I = "\<lambda>M. seen_by v M = seen_by v (qs_memory Q)", OF this refl]
  have seen: "seen_by v (qs_memory (fst (q_handle E A r Q))) = seen_by v (qs_memory Q)" .
  then have "rows_of v (qs_memory (fst (q_handle E A r Q))) = rows_of v (qs_memory Q)"
    unfolding seen_by_def by simp
  with context_seen [OF seen] show ?thesis by blast
qed

theorem users_isolated_witness:
  "request_user ask0 = Some (asc ''ann'')
     \<and> rows_of (asc ''bob'') (qs_memory (fst (q_handle qenv0 qapi0 ask0 qms0))) = rows_of (asc ''bob'') (qs_memory qms0)"
proof -
  have u: "request_user ask0 = Some (asc ''ann'')"
    by (simp add: ask0_def post_routes_simps text_field_def u_strip_def u_space_def)
  then have "request_user ask0 \<noteq> Some (asc ''bob'')" by simp
  from users_isolated [OF this, of qenv0 qapi0 qms0] u show ?thesis by simp
qed

text \<open>
  A decay keeps the memories and their order; each weight is weakened, down to 0.1 at least, once for
  every keyword that its row matches, rows of other users not at all; the answer counts these matches.
\<close>

lemma decay_exact:
  "let kws = filter (\<lambda>k. k \<noteq> []) (map u_strip ks); R = decay_memories_by_keywords E user ks f M in
     map memory_key (typed_memory (fst R)) = map memory_key (typed_memory M)
     \<and> map mi_weight (typed_memory (fst R))
         = map (\<lambda>r. (weakened E (decay_factor E f) ^^ keyword_hits user kws r) (mi_weight r)) (typed_memory M)
     \<and> snd R = sum_list (map (keyword_hits user kws) (typed_memory M))"
proof -
  have "filter (\<lambda>k. k \<noteq> []) (map u_strip (filter (\<lambda>k. k \<noteq> []) ks)) = filter (\<lambda>k. k \<noteq> []) (map u_strip ks)"
    by (induction ks) (auto simp: u_strip_def)
  moreover have "sum_list (map (keyword_hits user []) rows) = 0" for rows by (induction rows) auto
  ultimately show ?thesis
    using decay_fold_rows [of E user "decay_factor E f" _ M 0]
    by (auto simp: decay_memories_by_keywords_def Let_def)
qed

subsection \<open>Questions\<close>

lemma insort_key_last: "\<forall>y\<in>set ys. key y < key r \<Longrightarrow> insort_key key r ys = ys @ [r]"
  by (induction ys) auto

lemma order_desc_last: "\<forall>y\<in>set ys. key y < key r \<Longrightarrow> order_desc key (ys @ [r]) = r # order_desc key ys"
  by (simp add: order_desc_def insort_key_last)

lemma log_ids: "memory_ok E M \<Longrightarrow> r \<in> set (conversation_log M) \<Longrightarrow> lg_id r \<le> length (conversation_log M)"
proof -
  assume "memory_ok E M" and "r \<in> set (conversation_log M)"
  then have "lg_id r \<in> set [1 ..< Suc (length (conversation_log M))]"
    unfolding memory_ok_def by (metis image_eqI set_map)
  then show ?thesis by (auto simp del: upt_Suc)
qed

lemma asked_exchange:
  assumes "ask_process_qa E A user q Q = (Q', Inr an)"
  shows "qs_memory Q' = remember_exchange E user (an_session an) q q (an_answer an) (an_references an)
     (fst (get_user_profile E user True (qs_memory Q)))"
proof -
  obtain Q1 sid where s: "get_or_create_session A user Q = (Q1, Inr sid)"
    using assms unfolding ask_process_qa_def by (elim and_then_InrE) blast
  then have m: "qs_memory Q1 = qs_memory Q" using session_memory [of A user Q] by simp
  obtain Q2 ctx where c: "with_context E user Q1 = (Q2, ctx)" by (cases "with_context E user Q1")
  then have m2: "qs_memory Q2 = fst (get_user_profile E user True (qs_memory Q))"
    using with_context_simps(1) [of E user Q1] m by simp
  show ?thesis
    using assms s c m2 by (auto simp: ask_process_qa_def q_ask_def Let_def split: sum.splits prod.splits)
qed

lemma profile_rows [simp]:
  "conversation_log (fst (get_user_profile E user b M)) = conversation_log M"
  "typed_memory (fst (get_user_profile E user b M)) = typed_memory M"
  using same_rows_profile [of M E user b] by (simp_all add: same_rows_def)

lemma exchange_log:
  "\<exists>t. conversation_log (remember_exchange E user sid q q a refs M) = conversation_log M @
     [\<lparr>lg_id = Suc (length (conversation_log M)), lg_user = user, lg_session = sid, lg_question = q, lg_answer = a,
       lg_references = refs, lg_created = t\<rparr>]"
  by (auto simp: remember_exchange_def upsert_memories_def log_interaction_def Let_def)

lemma refresh_stored:
  "fetchone (\<lambda>p. pf_user p = user) (user_profile (fst (refresh_user_profile E user M)))
     = Some (build_profile user (q_now E M) M)"
proof -
  have "fetchone (\<lambda>p. pf_user p = user) (update_where (\<lambda>p. pf_user p = user) (\<lambda>_. build_profile user t M) ps)
      = map_option (\<lambda>_. build_profile user t M) (fetchone (\<lambda>p. pf_user p = user) ps)" for t ps
    by (induction ps) auto
  then show ?thesis
    unfolding refreshed_table upsert_def
    by (auto simp: list_ex_iff fetchone_append fetchone_None dest: fetchone_SomeD split: option.split)
qed

lemma exchange_keys:
  "memory_key ` set (typed_memory (remember_exchange E user sid q q a refs M))
     = item_key ` set (extract_typed_memories E user q a) \<union> memory_key ` set (typed_memory M)"
  by (simp add: remember_exchange_def upsert_memories_def Let_def upsert_all_keys) (simp add: log_interaction_def)

lemma history_learnt:
  "learnt user ''history'' (q_rnd E (4/5)) (take 120 q) \<in> set (extract_typed_memories E user q a)"
  by (simp add: extract_typed_memories_def Let_def)

lemma refresh_then_get:
  "get_user_profile E user b (fst (refresh_user_profile E user M))
     = (fst (refresh_user_profile E user M), Some (build_profile user (q_now E M) M))"
  by (simp add: get_user_profile_def refresh_stored)

text \<open>
  C38: an answered question is remembered: it is the newest entry of its session, the next prompt's profile
  is built from all rows including it and counts it (up to 200 conversations), and its first 120
  characters are a memory of the user.
\<close>

theorem answered_question_remembered:
  assumes ok: "memory_ok E (qs_memory Q)" and ask: "ask_process_qa E A user q Q = (Q', Inr an)"
  shows "(\<exists>t. recent_history user (an_session an) 1 (qs_memory Q') =
            [\<lparr>lg_id = Suc (length (conversation_log (qs_memory Q))), lg_user = user, lg_session = an_session an,
              lg_question = q, lg_answer = an_answer an, lg_references = an_references an, lg_created = t\<rparr>])
     \<and> (user, asc ''history'', u_strip (take 120 q)) \<in> memory_key ` set (typed_memory (qs_memory Q'))
     \<and> (\<exists>p. get_user_profile E user b (qs_memory Q') = (qs_memory Q', Some p)
           \<and> pf_conversation_count p
               = min 200 (Suc (length (filter (\<lambda>r. lg_user r = user) (conversation_log (qs_memory Q))))))"
proof -
  define M where "M = fst (get_user_profile E user True (qs_memory Q))"
  have mem: "qs_memory Q' = remember_exchange E user (an_session an) q q (an_answer an) (an_references an) M"
    unfolding M_def by (rule asked_exchange [OF ask])
  obtain t where log: "conversation_log (qs_memory Q') = conversation_log (qs_memory Q) @
     [\<lparr>lg_id = Suc (length (conversation_log (qs_memory Q))), lg_user = user, lg_session = an_session an, lg_question = q,
       lg_answer = an_answer an, lg_references = an_references an, lg_created = t\<rparr>]"
    using exchange_log [of E user "an_session an" q "an_answer an" "an_references an" M] mem by (auto simp: M_def)
  have "order_desc lg_id (filter P (conversation_log (qs_memory Q)) @ [r]) = r # order_desc lg_id (filter P (conversation_log (qs_memory Q)))"
    if "lg_id r = Suc (length (conversation_log (qs_memory Q)))" for P r
    by (rule order_desc_last) (use log_ids [OF ok] that in \<open>auto simp: less_Suc_eq_le\<close>)
  then have "recent_history user (an_session an) 1 (qs_memory Q') = [\<lparr>lg_id = Suc (length (conversation_log (qs_memory Q))),
      lg_user = user, lg_session = an_session an, lg_question = q, lg_answer = an_answer an,
      lg_references = an_references an, lg_created = t\<rparr>]"
    by (simp add: recent_history_def log)
  moreover have "(user, asc ''history'', u_strip (take 120 q)) \<in> memory_key ` set (typed_memory (qs_memory Q'))"
    unfolding mem exchange_keys
    using history_learnt [of user E q] by (auto simp: item_key_def simp del: asc_Cons intro!: rev_image_eqI)
  moreover obtain M1 where M1: "qs_memory Q' = fst (refresh_user_profile E user M1)"
    using mem by (auto simp: remember_exchange_def)
  then have "conversation_log M1 = conversation_log (qs_memory Q')" by simp
  then have "pf_conversation_count (build_profile user s M1)
      = min 200 (Suc (length (filter (\<lambda>r. lg_user r = user) (conversation_log (qs_memory Q)))))" for s
    by (simp add: build_profile_def Let_def recent_history_all_sessions_def log)
  moreover have "get_user_profile E user b (qs_memory Q') = (qs_memory Q', Some (build_profile user (q_now E M1) M1))"
    unfolding M1 by (rule refresh_then_get)
  ultimately show ?thesis by blast
qed

theorem answered_question_remembered_witness:
  "\<exists>t. recent_history (asc ''ann'') [2] 1 (qs_memory (fst (ask_process_qa qenv0 qapi0 (asc ''ann'') (asc ''why'') qms0))) =
     [\<lparr>lg_id = 1, lg_user = asc ''ann'', lg_session = [2], lg_question = asc ''why'', lg_answer = asc ''ok'',
       lg_references = [], lg_created = t\<rparr>]"
proof -
  have ok: "memory_ok qenv0 (qs_memory qms0)" using q_ok_empty by (simp add: qms0_def q_ok_def)
  obtain Q' where ask: "ask_process_qa qenv0 qapi0 (asc ''ann'') (asc ''why'') qms0 =
      (Q', Inr \<lparr>an_session = [2], an_module = None, an_answer = asc ''ok'', an_references = [], an_template_hints = []\<rparr>)"
    by (auto simp: ask_process_qa_def get_or_create_session_def qms0_def qapi0_def q_ask_def with_context_def split_beta
        Let_def extract_reference_docs_def pick_template_hints_def)
  from answered_question_remembered [OF ok ask] show ?thesis
    unfolding ask by (simp add: qms0_def empty_memdb_def)
qed

text \<open>
  A request that is not answered with 200, be it malformed, incomplete, or refused by RAGFlow, leaves
  every memory, conversation and feedback row as it was.
\<close>

lemma failed_request_writes_nothing:
  assumes "snd (q_handle E A r Q) = QReply c p" and "c \<noteq> 200"
  shows "same_rows (qs_memory Q) (qs_memory (fst (q_handle E A r Q)))"
  by (rule failed_request [OF assms])

subsection \<open>Start-up\<close>

text \<open>
  The start-up talks to RAGFlow a bounded number of times, however often RAGFlow refuses a data set:
  each refusal takes one data set out of the list.
\<close>

lemma startup_calls_bounded:
  "fst (ensure_chat A cfg n) \<le> n + 8 + 4 * (case qc_dataset_ids cfg of None \<Rightarrow> 0 | Some ids \<Rightarrow> length ids)"
proof -
  define ids where "ids = (case qc_dataset_ids cfg of None \<Rightarrow> [] | Some ids \<Rightarrow> ids)"
  let ?name = "qc_chat_name cfg"
  obtain n1 x1 where f1: "find_existing_chat_by_name A ?name n = (n1, x1)" by fastforce
  obtain n2 x2 where c2: "create_chat_with_valid_datasets A ?name ids n1 = (n2, x2)" by fastforce
  obtain n3 x3 where f3: "find_existing_chat_by_name A ?name n2 = (n3, x3)" by fastforce
  let ?last = "create_chat_with_valid_datasets A (?name @ asc ''-'' @ api_stamp A n3) ids n3"
  have n1: "n1 \<le> n + 2" using find_chat_calls [of A ?name n] f1 by simp
  have n2: "n2 \<le> n1 + length ids + 1" using create_chat_calls [of A ?name ids n1] c2 by simp
  have n3: "n3 \<le> n2 + 2" using find_chat_calls [of A ?name n2] f3 by simp
  have last: "fst ?last \<le> n3 + length ids + 1" by (rule create_chat_calls)
  have b: "fst (bound A ids (m, y)) \<le> m + 2 + 2 * length ids" for m y using bound_calls [of A ids "(m, y)"] by simp
  have steps: "fst (bound A ids (Suc n, y)) \<le> n + 8 + 4 * length ids"
      "fst (bound A ids (n1, y)) \<le> n + 8 + 4 * length ids" "fst (bound A ids (n2, y)) \<le> n + 8 + 4 * length ids"
      "fst (bound A ids (n3, y)) \<le> n + 8 + 4 * length ids" for y
    using b [of "Suc n" y] b [of n1 y] b [of n2 y] b [of n3 y] n1 n2 n3 by linarith+
  have steps': "fst (bound A ids ?last) \<le> n + 8 + 4 * length ids" "n2 \<le> n + 8 + 4 * length ids"
    using bound_calls [of A ids ?last] last n1 n2 n3 by linarith+
  have "fst (ensure_chat A cfg n) \<le> n + 8 + 4 * length ids"
    using steps steps'
    by (cases x1; cases x2; cases x3) (simp_all add: ensure_chat_def f1 c2 f3 Let_def flip: ids_def)
  then show ?thesis by (simp add: ids_def split: option.splits)
qed

end
