(* ===== verification/AgentValues.thy ===== *)
theory AgentValues
  imports Complex_Main PortalJson
begin

text \<open>
  Values and variables of RAGFlow's agent engine (\<open>agent/canvas.py\<close>, \<open>agent/component/base.py\<close>).
  A value is what JSON can hold.  Floats are finite doubles, kept as the rational numbers they are;
  \<open>rnd\<close> rounds the exact result of an operation to a double.  Values are immutable here: two
  variables that share one Python list or dictionary are not modelled.
\<close>

subsection \<open>Values\<close>

datatype val =
    VNone
  | VBool bool
  | VInt int
  | VFloat rat
  | VStr string
  | VList "val list"
  | VDict "(string \<times> val) list"

text \<open>
  Functions of Python's library on values: JSON, \<open>str\<close>, \<open>float(text)\<close> (\<^term>\<open>None\<close>: \<open>ValueError\<close>),
  rounding, \<open>getattr\<close> of a scalar with default \<open>None\<close>, and \<open>str.lower\<close>.
\<close>

record pyenv =
  json_loads :: "string \<Rightarrow> val option"
  json_dumps :: "val \<Rightarrow> string"
  py_str :: "val \<Rightarrow> string"
  py_float :: "string \<Rightarrow> rat option"
  rnd :: "rat \<Rightarrow> rat"
  py_attr :: "val \<Rightarrow> string \<Rightarrow> val"
  py_lower :: "string \<Rightarrow> string"

datatype agent_error =
    BadKey string                 \<comment> \<open>\<open>KeyError\<close>\<close>
  | BadReference string           \<comment> \<open>more than one \<open>@\<close> to unpack\<close>
  | NoVariable string string      \<comment> \<open>\<open>Can't find variable\<close>\<close>
  | TypeErr                       \<comment> \<open>\<open>TypeError\<close> or \<open>AttributeError\<close> of an operation on the wrong type\<close>
  | ValueErr string
  | BadOperator string
  | NotArray string

fun truthy :: "val \<Rightarrow> bool" where
  "truthy VNone = False"
| "truthy (VBool b) = b"
| "truthy (VInt i) = (i \<noteq> 0)"
| "truthy (VFloat x) = (x \<noteq> 0)"
| "truthy (VStr s) = (s \<noteq> [])"
| "truthy (VList xs) = (xs \<noteq> [])"
| "truthy (VDict d) = (d \<noteq> [])"

text \<open>
  What equality and order of values look at.  Numbers are compared by value, a Boolean is one, too;
  a dictionary is the collection of its entries.  \<open>encode True\<close> is the key that \<open>_hashable\<close> of
  \<open>list_operations.py\<close> makes: a dictionary becomes the tuple of its sorted entries, a list the tuple of its items.
\<close>

datatype key =
    KNone
  | KNum rat
  | KStr string
  | KTuple "key list"
  | KDict "key list"

fun encode :: "bool \<Rightarrow> val \<Rightarrow> key" where
  "encode hashable VNone = KNone"
| "encode hashable (VBool b) = KNum (if b then 1 else 0)"
| "encode hashable (VInt i) = KNum (of_int i)"
| "encode hashable (VFloat x) = KNum x"
| "encode hashable (VStr s) = KStr s"
| "encode hashable (VList xs) = KTuple (map (encode hashable) xs)"
| "encode hashable (VDict d) =
     (let entries = map (\<lambda>(k, v). KTuple [KStr k, v]) (sort_key fst (map (\<lambda>(k, v). (k, encode hashable v)) d))
      in if hashable then KTuple entries else KDict entries)"

text \<open>\<open>==\<close>.\<close>

definition veq :: "val \<Rightarrow> val \<Rightarrow> bool" where
  "veq v w \<longleftrightarrow> encode False v = encode False w"

text \<open>\<open><\<close>; \<^term>\<open>None\<close> is a \<open>TypeError\<close>.  Tuples and lists are compared at the first place where they differ.\<close>

fun key_less :: "key \<Rightarrow> key \<Rightarrow> bool option"
and keys_less :: "key list \<Rightarrow> key list \<Rightarrow> bool option" where
  "key_less (KNum x) (KNum y) = Some (x < y)"
| "key_less (KStr s) (KStr t) = Some (s < t)"
| "key_less (KTuple xs) (KTuple ys) = keys_less xs ys"
| "key_less _ _ = None"
| "keys_less xs [] = Some False"
| "keys_less [] (y # ys) = Some True"
| "keys_less (x # xs) (y # ys) = (if x = y then keys_less xs ys else key_less x y)"

text \<open>The number a value is.\<close>

fun number_of :: "val \<Rightarrow> rat option" where
  "number_of (VBool b) = Some (if b then 1 else 0)"
| "number_of (VInt i) = Some (of_int i)"
| "number_of (VFloat x) = Some x"
| "number_of v = None"

text \<open>\<open>d[k] = v\<close>: in place, or at the end.\<close>

fun dict_put :: "string \<Rightarrow> 'v \<Rightarrow> (string \<times> 'v) list \<Rightarrow> (string \<times> 'v) list" where
  "dict_put k v [] = [(k, v)]"
| "dict_put k v ((j, w) # d) = (if j = k then (k, v) # d else (j, w) # dict_put k v d)"

definition dict_value :: "(string \<times> val) list \<Rightarrow> string \<Rightarrow> val" where
  "dict_value d k = (case map_of d k of None \<Rightarrow> VNone | Some v \<Rightarrow> v)"

lemma map_of_dict_put [simp]: "map_of (dict_put k v d) = (map_of d)(k \<mapsto> v)"
  by (induction d) auto

lemma keys_dict_put: "fst ` set (dict_put k v d) = insert k (fst ` set d)"
proof (induction d)
  case (Cons a d)
  then show ?case by (cases a) auto
qed simp

lemma distinct_dict_put: "distinct (map fst d) \<Longrightarrow> distinct (map fst (dict_put k v d))"
proof (induction d)
  case (Cons a d)
  then show ?case using keys_dict_put [of k v d] by (cases a) auto
qed simp

lemma dict_put_nonempty [simp]: "dict_put k v d \<noteq> []"
  by (cases "(k, v, d)" rule: dict_put.cases) auto

subsection \<open>References to variables\<close>

fun split_on :: "char \<Rightarrow> string \<Rightarrow> string list" where
  "split_on c [] = [[]]"
| "split_on c (x # xs) =
     (if x = c then [] # split_on c xs
      else case split_on c xs of [] \<Rightarrow> [[x]] | p # ps \<Rightarrow> (x # p) # ps)"

definition strip_char :: "char \<Rightarrow> string \<Rightarrow> string" where
  "strip_char c s = rev (dropWhile (\<lambda>x. x = c) (rev (dropWhile (\<lambda>x. x = c) s)))"

definition trim_ref :: "string \<Rightarrow> string" where
  "trim_ref s = strip_char (CHR ''}'') (strip_char (CHR ''{'') (strip_char (CHR '' '')
     (strip_char (CHR ''}'') (strip_char (CHR ''{'') s))))"

text \<open>A global variable, or an output of a component with the path behind its first dot.\<close>

datatype var_ref = Global string | Output string string string

definition parse_ref :: "string \<Rightarrow> agent_error + var_ref" where
  "parse_ref text =
     (let s = trim_ref text in
      if CHR ''@'' \<notin> set s then Inr (Global s)
      else case split_on (CHR ''@'') s of
        [cid, var] \<Rightarrow>
          Inr (Output cid (takeWhile (\<lambda>c. c \<noteq> CHR ''.'') var) (tl (dropWhile (\<lambda>c. c \<noteq> CHR ''.'') var)))
      | _ \<Rightarrow> Inl (BadReference s))"

subsection \<open>The canvas\<close>

text \<open>
  The variables of a canvas: the outputs of each component (\<open>_param.outputs\<close>, only the values) and
  the globals.  The graph and the components' own state are added in the theories that need them.
\<close>

record vars =
  v_outputs :: "string \<Rightarrow> (string \<times> val) list option"
  v_globals :: "(string \<times> val) list"

definition output_of :: "(string \<times> val) list \<Rightarrow> string \<Rightarrow> val" where
  "output_of outs name =
     (if name = [] then VDict outs
      else case map_of outs name of None \<Rightarrow> VStr [] | Some v \<Rightarrow> v)"

definition set_output :: "string \<Rightarrow> string \<Rightarrow> val \<Rightarrow> ('x) vars_scheme \<Rightarrow> ('x) vars_scheme" where
  "set_output cid name v C =
     C\<lparr>v_outputs := (v_outputs C)(cid := map_option (dict_put name v) (v_outputs C cid))\<rparr>"

text \<open>An element of a list by its index, which may count from the end.\<close>

definition list_item :: "val list \<Rightarrow> int \<Rightarrow> val option" where
  "list_item xs i =
     (let n = int (length xs) in
      if 0 \<le> i \<and> i < n then Some (xs ! nat i)
      else if - n \<le> i \<and> i < 0 then Some (xs ! nat (n + i)) else None)"

fun get_param_value :: "pyenv \<Rightarrow> val \<Rightarrow> string list \<Rightarrow> val" where
  "get_param_value P cur [] = cur"
| "get_param_value P cur (key # keys) =
     (if cur = VNone then VNone
      else case (case cur of VStr s \<Rightarrow> json_loads P s | _ \<Rightarrow> Some cur) of
        None \<Rightarrow> VNone
      | Some (VDict d) \<Rightarrow> get_param_value P (dict_value d key) keys
      | Some (VList xs) \<Rightarrow>
          (case Option.bind (py_int key) (list_item xs) of
             None \<Rightarrow> VNone | Some v \<Rightarrow> get_param_value P v keys)
      | Some v \<Rightarrow> get_param_value P (py_attr P v key) keys)"

text \<open>
  The loop of \<open>set_variable_param_value\<close> descends through every key, the last one included, making
  dictionaries where there are none; only then it stores the value under the last key.
\<close>

fun set_param_value :: "string list \<Rightarrow> string \<Rightarrow> val \<Rightarrow> (string \<times> val) list \<Rightarrow> (string \<times> val) list" where
  "set_param_value [] last_key v d = dict_put last_key v d"
| "set_param_value (key # keys) last_key v d =
     dict_put key (VDict (set_param_value keys last_key v
       (case map_of d key of Some (VDict e) \<Rightarrow> e | _ \<Rightarrow> []))) d"

definition get_variable_value :: "pyenv \<Rightarrow> string \<Rightarrow> ('x) vars_scheme \<Rightarrow> agent_error + val" where
  "get_variable_value P expr C =
     sum_bind (parse_ref expr) (\<lambda>r.
       case r of
         Global g \<Rightarrow> (case map_of (v_globals C) g of None \<Rightarrow> Inl (BadKey g) | Some v \<Rightarrow> Inr v)
       | Output cid nm rest \<Rightarrow>
           (case v_outputs C cid of
              None \<Rightarrow> Inl (NoVariable cid nm)
            | Some outs \<Rightarrow>
                Inr (if rest = [] then output_of outs nm
                     else get_param_value P (output_of outs nm) (split_on (CHR ''.'') rest))))"

definition set_variable_value :: "string \<Rightarrow> val \<Rightarrow> ('x) vars_scheme \<Rightarrow> agent_error + ('x) vars_scheme" where
  "set_variable_value expr v C =
     sum_bind (parse_ref expr) (\<lambda>r.
       case r of
         Global g \<Rightarrow> Inr (C\<lparr>v_globals := dict_put g v (v_globals C)\<rparr>)
       | Output cid nm rest \<Rightarrow>
           (case v_outputs C cid of
              None \<Rightarrow> Inl (NoVariable cid nm)
            | Some outs \<Rightarrow>
                if rest = [] then Inr (set_output cid nm v C)
                else
                  let val0 = output_of outs nm; keys = split_on (CHR ''.'') rest in
                  case (if truthy val0 then val0 else VDict []) of
                    VDict d \<Rightarrow> Inr (set_output cid nm (VDict (set_param_value keys (last keys) v d)) C)
                  | _ \<Rightarrow> Inl TypeErr))"

subsection \<open>Templates\<close>

text \<open>
  \<open>get_value_with_variable\<close> replaces what its pattern
  \<^verbatim>\<open>\{* *\{(a reference)\} *\}*\<close>
  finds.  The braces and spaces in front are taken greedily, so the brace of the reference is the one
  behind them, or else the last of the first run; then one of the three forms of a reference up to a
  closing brace; then the spaces and braces behind it.
\<close>

definition is_alnum :: "char \<Rightarrow> bool" where
  "is_alnum c = (let n = (of_char c :: nat) in (48 \<le> n \<and> n \<le> 57) \<or> (65 \<le> n \<and> n \<le> 90) \<or> (97 \<le> n \<and> n \<le> 122))"

definition ref_char :: "char \<Rightarrow> bool" where   \<comment> \<open>\<open>[A-Za-z0-9_.]\<close>\<close>
  "ref_char c \<longleftrightarrow> is_alnum c \<or> c = CHR ''_'' \<or> c = CHR ''.''"

definition ref_char' :: "char \<Rightarrow> bool" where  \<comment> \<open>\<open>[A-Za-z0-9_.-]\<close>\<close>
  "ref_char' c \<longleftrightarrow> ref_char c \<or> c = CHR ''-''"

definition id_char :: "char \<Rightarrow> bool" where    \<comment> \<open>\<open>[a-zA-Z:0-9_.-]\<close>\<close>
  "id_char c \<longleftrightarrow> ref_char' c \<or> c = CHR '':''"

text \<open>A reference at the start of a text, before a closing brace.\<close>

definition closed :: "string \<Rightarrow> bool" where
  "closed s \<longleftrightarrow> s \<noteq> [] \<and> hd s = CHR ''}''"

definition ref_at :: "string \<Rightarrow> string option" where
  "ref_at s =
     (let a = takeWhile id_char s; r = dropWhile id_char s; b = takeWhile ref_char' (tl r);
          g = takeWhile ref_char (drop 4 s)
      in if a \<noteq> [] \<and> r \<noteq> [] \<and> hd r = CHR ''@'' \<and> b \<noteq> [] \<and> closed (dropWhile ref_char' (tl r)) then Some (a @ ''@'' @ b)
         else if (take 4 s = ''sys.'' \<or> take 4 s = ''env.'') \<and> g \<noteq> [] \<and> closed (dropWhile ref_char (drop 4 s))
         then Some (take 4 s @ g) else None)"

definition match_at :: "string \<Rightarrow> (string \<times> nat) option" where
  "match_at s =
     (let b = length (takeWhile (\<lambda>c. c = CHR ''{'') s);
          t = drop b s; m = length (takeWhile (\<lambda>c. c = CHR '' '') t);
          behind = drop m t;
          first = (if 0 < m \<and> behind \<noteq> [] \<and> hd behind = CHR ''{'' then map_option (\<lambda>g. (g, b + m + 1)) (ref_at (tl behind))
                   else None);
          start = (case first of Some x \<Rightarrow> Some x
                   | None \<Rightarrow> if 0 < b then map_option (\<lambda>g. (g, b)) (ref_at t) else None)
      in case start of
           None \<Rightarrow> None
         | Some (g, k) \<Rightarrow>
             let e = k + length g + 1; r = drop e s;
                 sp = length (takeWhile (\<lambda>c. c = CHR '' '') r);
                 br = length (takeWhile (\<lambda>c. c = CHR ''}'') (drop sp r))
             in Some (g, e + sp + br))"

text \<open>The text between matches, and the references.\<close>

datatype piece = Lit char | Ref string

function pieces :: "string \<Rightarrow> piece list" where
  "pieces [] = []"
| "pieces (c # cs) =
     (case match_at (c # cs) of
        None \<Rightarrow> Lit c # pieces cs
      | Some (g, n) \<Rightarrow> Ref g # pieces (drop (n - 1) cs))"
  by pat_completeness auto
termination
  by (relation "measure length") auto

definition replacement :: "pyenv \<Rightarrow> val \<Rightarrow> string" where
  "replacement P v = (case v of VNone \<Rightarrow> [] | VStr s \<Rightarrow> s | _ \<Rightarrow> json_dumps P v)"

fun fill :: "pyenv \<Rightarrow> ('x) vars_scheme \<Rightarrow> piece list \<Rightarrow> agent_error + string" where
  "fill P C [] = Inr []"
| "fill P C (Lit c # ps) = sum_bind (fill P C ps) (\<lambda>s. Inr (c # s))"
| "fill P C (Ref g # ps) =
     sum_bind (get_variable_value P g C) (\<lambda>v. sum_bind (fill P C ps) (\<lambda>s. Inr (replacement P v @ s)))"

definition get_value_with_variable :: "pyenv \<Rightarrow> string \<Rightarrow> ('x) vars_scheme \<Rightarrow> agent_error + string" where
  "get_value_with_variable P value C = fill P C (pieces value)"

end
