(* ===== verification/AgentOps.thy ===== *)
theory AgentOps
  imports AgentValues
begin

text \<open>
  Components of RAGFlow's agent engine that compute: list operations, data operations, the variable
  assigner and aggregator (\<open>agent/component/*.py\<close>).  Each definition is the component's
  \<open>_invoke\<close> on the variables of the canvas; \<open>Inl\<close> is the exception that \<open>invoke\<close> turns into \<open>_ERROR\<close>.
\<close>

subsection \<open>List operations\<close>

record list_param =
  lp_query :: string
  lp_operation :: string
  lp_n :: val
  lp_sort_method :: string
  lp_filter_operator :: string
  lp_filter_value :: val

text \<open>\<open>int(n)\<close>, or 0 where it raises.\<close>

definition truncate :: "rat \<Rightarrow> int" where
  "truncate x = (if 0 \<le> x then \<lfloor>x\<rfloor> else - \<lfloor>- x\<rfloor>)"

definition coerce_n :: "val \<Rightarrow> int" where
  "coerce_n v =
     (case v of
        VBool b \<Rightarrow> (if b then 1 else 0)
      | VInt i \<Rightarrow> i
      | VFloat x \<Rightarrow> truncate x
      | VStr s \<Rightarrow> (case py_int s of None \<Rightarrow> 0 | Some i \<Rightarrow> i)
      | _ \<Rightarrow> 0)"

definition top_n :: "int \<Rightarrow> 'v list \<Rightarrow> 'v list" where
  "top_n n xs = (if n < 1 then [] else take (nat (min n (int (length xs)))) xs)"

definition head_n :: "int \<Rightarrow> 'v list \<Rightarrow> 'v list" where
  "head_n n xs = (if 1 \<le> n \<and> n \<le> int (length xs) then [xs ! nat (n - 1)] else [])"

definition tail_n :: "int \<Rightarrow> 'v list \<Rightarrow> 'v list" where
  "tail_n n xs = (if 1 \<le> n \<and> n \<le> int (length xs) then [xs ! (length xs - nat n)] else [])"

text \<open>\<open>_norm\<close> and \<open>_eval\<close> of the filter; the sign of inequality by its UTF-8 bytes.\<close>

definition norm_text :: "pyenv \<Rightarrow> val \<Rightarrow> string" where
  "norm_text P v = (if v = VNone then [] else py_str P v)"

definition not_equal_sign :: string where
  "not_equal_sign = [CHR 0xE2, CHR 0x89, CHR 0xA0]"

definition ends_with :: "string \<Rightarrow> string \<Rightarrow> bool" where
  "ends_with p s = starts_with (rev p) (rev s)"

text \<open>A test of one text against another value, which must be a text, too.\<close>

definition text_test :: "(string \<Rightarrow> bool) \<Rightarrow> val \<Rightarrow> agent_error + bool" where
  "text_test f v = (case v of VStr s \<Rightarrow> Inr (f s) | _ \<Rightarrow> Inl TypeErr)"

definition filter_test :: "string \<Rightarrow> string \<Rightarrow> val \<Rightarrow> agent_error + bool" where
  "filter_test v operator value =
     (if operator = ''='' then Inr (value = VStr v)
      else if operator = not_equal_sign then Inr (value \<noteq> VStr v)
      else if operator = ''contains'' then text_test (\<lambda>s. str_in s v) value
      else if operator = ''start with'' then text_test (\<lambda>s. starts_with s v) value
      else if operator = ''end with'' then text_test (\<lambda>s. ends_with s v) value
      else Inr False)"

fun sum_filter :: "('v \<Rightarrow> 'e + bool) \<Rightarrow> 'v list \<Rightarrow> 'e + 'v list" where
  "sum_filter f [] = Inr []"
| "sum_filter f (x # xs) =
     sum_bind (f x) (\<lambda>b. sum_bind (sum_filter f xs) (\<lambda>ys. Inr (if b then x # ys else ys)))"

text \<open>
  \<open>sorted\<close>: stable, and a \<open>TypeError\<close> as soon as two items cannot be compared.  Timsort compares every two
  items that end up side by side, and items that cannot be compared have such a pair between them.
\<close>

fun comparable :: "('v \<Rightarrow> key) \<Rightarrow> 'v list \<Rightarrow> bool" where
  "comparable k [] = True"
| "comparable k (x # xs) = (list_all (\<lambda>y. key_less (k y) (k x) \<noteq> None) xs \<and> comparable k xs)"

definition key_le :: "('v \<Rightarrow> key) \<Rightarrow> 'v \<Rightarrow> 'v \<Rightarrow> bool" where
  "key_le k x y \<longleftrightarrow> key_less (k y) (k x) \<noteq> Some True"

fun insort_by :: "('v \<Rightarrow> key) \<Rightarrow> 'v \<Rightarrow> 'v list \<Rightarrow> 'v list" where
  "insort_by k x [] = [x]"
| "insort_by k x (y # ys) = (if key_le k x y then x # y # ys else y # insort_by k x ys)"

definition py_sorted :: "('v \<Rightarrow> key) \<Rightarrow> bool \<Rightarrow> 'v list \<Rightarrow> agent_error + 'v list" where
  "py_sorted k backwards xs =
     (if comparable k xs
      then Inr (if backwards then rev (foldr (insort_by k) (rev xs) []) else foldr (insort_by k) xs [])
      else Inl TypeErr)"

definition sort_op :: "string \<Rightarrow> val list \<Rightarrow> agent_error + val list" where
  "sort_op sort_method xs =
     (case xs of
        [] \<Rightarrow> Inr []
      | x # _ \<Rightarrow> py_sorted (encode (case x of VDict _ \<Rightarrow> True | _ \<Rightarrow> False))
                   (str_or sort_method ''asc'' = ''desc'') xs)"

fun drop_seen :: "key list \<Rightarrow> val list \<Rightarrow> val list" where
  "drop_seen seen [] = []"
| "drop_seen seen (x # xs) =
     (if encode True x \<in> set seen then drop_seen seen xs else x # drop_seen (encode True x # seen) xs)"

definition drop_duplicates :: "val list \<Rightarrow> val list" where
  "drop_duplicates xs = drop_seen [] xs"

definition list_check :: "list_param \<Rightarrow> bool" where
  "list_check p \<longleftrightarrow> lp_query p \<noteq> []
     \<and> lp_operation p \<in> {''topN'', ''head'', ''tail'', ''filter'', ''sort'', ''drop_duplicates''}"

text \<open>An unknown operation, which \<open>check\<close> refuses, would leave the outputs alone.\<close>

definition list_operation :: "pyenv \<Rightarrow> list_param \<Rightarrow> val list \<Rightarrow> (agent_error + val list) option" where
  "list_operation P p xs =
     (if lp_operation p = ''topN'' then Some (Inr (top_n (coerce_n (lp_n p)) xs))
      else if lp_operation p = ''head'' then Some (Inr (head_n (coerce_n (lp_n p)) xs))
      else if lp_operation p = ''tail'' then Some (Inr (tail_n (coerce_n (lp_n p)) xs))
      else if lp_operation p = ''filter'' then
        Some (sum_filter (\<lambda>i. filter_test (norm_text P i) (lp_filter_operator p) (lp_filter_value p)) xs)
      else if lp_operation p = ''sort'' then Some (sort_op (lp_sort_method p) xs)
      else if lp_operation p = ''drop_duplicates'' then Some (Inr (drop_duplicates xs))
      else None)"

definition set_list_outputs :: "string \<Rightarrow> val list \<Rightarrow> ('x) vars_scheme \<Rightarrow> ('x) vars_scheme" where
  "set_list_outputs cid ys C =
     set_output cid ''last'' (if ys = [] then VNone else last ys)
       (set_output cid ''first'' (if ys = [] then VNone else hd ys) (set_output cid ''result'' (VList ys) C))"

definition invoke_list :: "pyenv \<Rightarrow> string \<Rightarrow> list_param \<Rightarrow> ('x) vars_scheme \<Rightarrow> agent_error + ('x) vars_scheme" where
  "invoke_list P cid p C =
     sum_bind (get_variable_value P (lp_query p) C) (\<lambda>v.
       case v of
         VList xs \<Rightarrow>
           (case list_operation P p xs of
              None \<Rightarrow> Inr C
            | Some r \<Rightarrow> sum_bind r (\<lambda>ys. Inr (set_list_outputs cid ys C)))
       | _ \<Rightarrow> Inl TypeErr)"

subsection \<open>Data operations\<close>

record data_rule =
  dr_key :: string
  dr_operator :: string
  dr_value :: val

record data_param =
  dp_query :: "string list"
  dp_operation :: string
  dp_select_keys :: "string list"
  dp_filter_values :: "data_rule list"
  dp_updates :: "(string \<times> val) list"
  dp_remove_keys :: "val list"
  dp_rename_keys :: "(string \<times> string) list"

type_synonym obj = "(string \<times> val) list"

text \<open>The dictionaries that the references of the query give, those inside lists included.\<close>

definition objects_of :: "val \<Rightarrow> obj list" where
  "objects_of v =
     (case v of
        VDict d \<Rightarrow> [d]
      | VList xs \<Rightarrow> concat (map (\<lambda>x. case x of VDict d \<Rightarrow> [d] | _ \<Rightarrow> []) xs)
      | _ \<Rightarrow> [])"

definition input_objects :: "pyenv \<Rightarrow> string list \<Rightarrow> ('x) vars_scheme \<Rightarrow> agent_error + obj list" where
  "input_objects P refs C =
     sum_fold (\<lambda>r objs. sum_bind (get_variable_value P r C) (\<lambda>v. Inr (objs @ objects_of v))) refs []"

definition select_keys :: "string list \<Rightarrow> obj \<Rightarrow> obj" where
  "select_keys ks d = filter (\<lambda>(k, v). k \<in> set ks) d"

definition match_rule :: "pyenv \<Rightarrow> ('x) vars_scheme \<Rightarrow> obj \<Rightarrow> data_rule \<Rightarrow> agent_error + bool" where
  "match_rule P C d r =
     (let op = py_lower P (str_or (dr_operator r) ''equals''); raw = norm_text P (dr_value r) in
      sum_bind (get_value_with_variable P raw C) (\<lambda>filled.
        let target = str_or filled raw in
        case map_of d (dr_key r) of
          None \<Rightarrow> Inr False
        | Some v \<Rightarrow> filter_test (norm_text P v) op (VStr target)))"

text \<open>\<open>all(...)\<close> stops at the first rule that fails.\<close>

fun sum_all :: "('r \<Rightarrow> 'e + bool) \<Rightarrow> 'r list \<Rightarrow> 'e + bool" where
  "sum_all f [] = Inr True"
| "sum_all f (x # xs) = sum_bind (f x) (\<lambda>b. if b then sum_all f xs else Inr False)"

definition update_key :: "pyenv \<Rightarrow> ('x) vars_scheme \<Rightarrow> string \<times> val \<Rightarrow> obj \<Rightarrow> agent_error + obj" where
  "update_key P C = (\<lambda>(key, value) d.
     let k = str_strip key in
     if k = [] then Inr d
     else case value of
       VStr s \<Rightarrow> sum_bind (get_value_with_variable P s C) (\<lambda>t. Inr (dict_put k (VStr (str_or t s)) d))
     | _ \<Rightarrow> Inl TypeErr)"

definition dict_pop :: "string \<Rightarrow> (string \<times> 'v) list \<Rightarrow> (string \<times> 'v) list" where
  "dict_pop k d = filter (\<lambda>(j, v). j \<noteq> k) d"

definition remove_key :: "val \<Rightarrow> obj \<Rightarrow> obj" where
  "remove_key v d = (case v of VStr k \<Rightarrow> dict_pop k d | _ \<Rightarrow> d)"

definition rename_key :: "string \<times> string \<Rightarrow> obj \<Rightarrow> obj" where
  "rename_key = (\<lambda>(old_key, new_key) d.
     let old = str_strip old_key; new = str_strip new_key in
     if old = [] \<or> new = [] \<or> old = new then d
     else case map_of d old of None \<Rightarrow> d | Some v \<Rightarrow> dict_put new v (dict_pop old d))"

fun sum_map :: "('a \<Rightarrow> 'e + 'b) \<Rightarrow> 'a list \<Rightarrow> 'e + 'b list" where
  "sum_map f [] = Inr []"
| "sum_map f (x # xs) = sum_bind (f x) (\<lambda>y. sum_bind (sum_map f xs) (\<lambda>ys. Inr (y # ys)))"

definition data_check :: "data_param \<Rightarrow> bool" where
  "data_check p \<longleftrightarrow> dp_operation p \<in>
     {''select_keys'', ''literal_eval'', ''combine'', ''filter_values'', ''append_or_update'', ''remove_keys'',
      ''rename_keys''}"

text \<open>
  The dispatch of \<open>_invoke\<close> without \<open>combine\<close>, which changes its inputs (below).  \<open>recursive_eval\<close> is
  refused by \<open>check\<close>; every other name is a renaming.
\<close>

definition data_operation :: "pyenv \<Rightarrow> data_param \<Rightarrow> ('x) vars_scheme \<Rightarrow> obj list \<Rightarrow> agent_error + obj list" where
  "data_operation P p C objs =
     (if dp_operation p = ''select_keys'' then Inr (map (select_keys (dp_select_keys p)) objs)
      else if dp_operation p = ''filter_values'' then
        sum_filter (\<lambda>d. sum_all (match_rule P C d) (dp_filter_values p)) objs
      else if dp_operation p = ''append_or_update'' then sum_map (sum_fold (update_key P C) (dp_updates p)) objs
      else if dp_operation p = ''remove_keys'' then Inr (map (fold remove_key (dp_remove_keys p)) objs)
      else Inr (map (fold rename_key (dp_rename_keys p)) objs))"

definition invoke_data :: "pyenv \<Rightarrow> string \<Rightarrow> data_param \<Rightarrow> ('x) vars_scheme \<Rightarrow> agent_error + ('x) vars_scheme" where
  "invoke_data P cid p C =
     sum_bind (input_objects P (dp_query p) C) (\<lambda>objs.
       sum_bind (data_operation P p C objs) (\<lambda>rs. Inr (set_output cid ''result'' (VList (map VDict rs)) C)))"

text \<open>
  \<open>_combine\<close> puts the list it finds first under a key into the result itself, not a copy, and extends it
  there.  Lists therefore live in a store; an entry of an object is a list's address or another value.
\<close>

datatype entry = Addr nat | Imm val

record combine_state =
  cs_store :: "nat \<Rightarrow> val list"
  cs_next :: nat
  cs_result :: "(string \<times> entry) list"

text \<open>The items a value contributes: its own where it is a list, or itself.\<close>

definition entry_items :: "(nat \<Rightarrow> val list) \<Rightarrow> entry \<Rightarrow> val list" where
  "entry_items store e = (case e of Addr a \<Rightarrow> store a | Imm v \<Rightarrow> [v])"

definition combine_entry :: "string \<times> entry \<Rightarrow> combine_state \<Rightarrow> combine_state" where
  "combine_entry = (\<lambda>(k, e) S.
     case map_of (cs_result S) k of
       None \<Rightarrow> S\<lparr>cs_result := cs_result S @ [(k, e)]\<rparr>
     | Some (Addr a) \<Rightarrow> S\<lparr>cs_store := (cs_store S)(a := cs_store S a @ entry_items (cs_store S) e)\<rparr>
     | Some (Imm v) \<Rightarrow>
         S\<lparr>cs_store := (cs_store S)(cs_next S := v # entry_items (cs_store S) e), cs_next := Suc (cs_next S),
           cs_result := dict_put k (Addr (cs_next S)) (cs_result S)\<rparr>)"

definition combine_objects :: "(string \<times> entry) list list \<Rightarrow> (nat \<Rightarrow> val list) \<Rightarrow> nat \<Rightarrow> combine_state" where
  "combine_objects objs store nxt =
     fold combine_entry (concat objs) \<lparr>cs_store = store, cs_next = nxt, cs_result = []\<rparr>"

subsection \<open>The variable assigner\<close>

record assignment =
  as_variable :: string
  as_operator :: string
  as_parameter :: val

definition is_number :: "val \<Rightarrow> bool" where
  "is_number v = (case v of VInt _ \<Rightarrow> True | VFloat _ \<Rightarrow> True | _ \<Rightarrow> False)"

text \<open>\<open>isinstance(v, type(w))\<close>; a Boolean is an instance of \<open>int\<close>.\<close>

fun same_type :: "val \<Rightarrow> val \<Rightarrow> bool" where
  "same_type VNone w = (w = VNone)"
| "same_type (VBool _) w = (case w of VBool _ \<Rightarrow> True | VInt _ \<Rightarrow> True | _ \<Rightarrow> False)"
| "same_type (VInt _) w = (case w of VInt _ \<Rightarrow> True | _ \<Rightarrow> False)"
| "same_type (VFloat _) w = (case w of VFloat _ \<Rightarrow> True | _ \<Rightarrow> False)"
| "same_type (VStr _) w = (case w of VStr _ \<Rightarrow> True | _ \<Rightarrow> False)"
| "same_type (VList _) w = (case w of VList _ \<Rightarrow> True | _ \<Rightarrow> False)"
| "same_type (VDict _) w = (case w of VDict _ \<Rightarrow> True | _ \<Rightarrow> False)"

text \<open>An argument that must be the text of a reference, or a template.\<close>

definition with_text :: "val \<Rightarrow> (string \<Rightarrow> agent_error + 'a) \<Rightarrow> agent_error + 'a" where
  "with_text v f = (case v of VStr s \<Rightarrow> f s | _ \<Rightarrow> Inl TypeErr)"

fun clear_value :: "val \<Rightarrow> val" where
  "clear_value (VList xs) = VList []"
| "clear_value (VStr s) = VStr []"
| "clear_value (VDict d) = VDict []"
| "clear_value (VInt i) = VInt 0"
| "clear_value (VBool b) = VInt 0"
| "clear_value (VFloat x) = VFloat 0"
| "clear_value VNone = VNone"

definition set_value :: "pyenv \<Rightarrow> ('x) vars_scheme \<Rightarrow> val \<Rightarrow> val \<Rightarrow> agent_error + val" where
  "set_value P C v param =
     (case v of
        VNone \<Rightarrow> with_text param (\<lambda>s. sum_bind (get_value_with_variable P s C) (\<lambda>t. Inr (VStr t)))
      | VStr _ \<Rightarrow> with_text param (\<lambda>s. sum_bind (get_value_with_variable P s C) (\<lambda>t. Inr (VStr t)))
      | _ \<Rightarrow> Inr param)"

definition append_value :: "val \<Rightarrow> val \<Rightarrow> val" where
  "append_value v w =
     (case (if v = VNone then VList [] else v) of
        VList xs \<Rightarrow>
          if xs \<noteq> [] \<and> \<not> same_type w (hd xs) then VStr ''ERROR:PARAMETER_NOT_LIST_ELEMENT_TYPE''
          else VList (xs @ [w])
      | _ \<Rightarrow> VStr ''ERROR:VARIABLE_NOT_LIST'')"

definition extend_value :: "val \<Rightarrow> val \<Rightarrow> val" where
  "extend_value v w =
     (case (if v = VNone then VList [] else v) of
        VList xs \<Rightarrow>
          (case w of
             VList ys \<Rightarrow>
               if xs \<noteq> [] \<and> ys \<noteq> [] \<and> \<not> same_type (hd ys) (hd xs)
               then VStr ''ERROR:PARAMETER_NOT_LIST_ELEMENT_TYPE'' else VList (xs @ ys)
           | _ \<Rightarrow> VStr ''ERROR:PARAMETER_NOT_LIST'')
      | _ \<Rightarrow> VStr ''ERROR:VARIABLE_NOT_LIST'')"

text \<open>\<open>_remove_first\<close> and \<open>_remove_last\<close> ask for the length first.\<close>

definition remove_end :: "(val list \<Rightarrow> val list) \<Rightarrow> val \<Rightarrow> agent_error + val" where
  "remove_end f v =
     (case v of
        VList xs \<Rightarrow> Inr (if xs = [] then v else VList (f xs))
      | VStr s \<Rightarrow> Inr (if s = [] then v else VStr ''ERROR:VARIABLE_NOT_LIST'')
      | VDict d \<Rightarrow> Inr (if d = [] then v else VStr ''ERROR:VARIABLE_NOT_LIST'')
      | _ \<Rightarrow> Inl TypeErr)"

text \<open>Arithmetic: on integers exact, but for \<open>/\<close>; with a float in a double.\<close>

definition float_of :: "pyenv \<Rightarrow> val \<Rightarrow> rat" where
  "float_of P v = (case v of VInt i \<Rightarrow> rnd P (of_int i) | VFloat x \<Rightarrow> x | _ \<Rightarrow> 0)"

definition arith :: "pyenv \<Rightarrow> (int \<Rightarrow> int \<Rightarrow> int) \<Rightarrow> (rat \<Rightarrow> rat \<Rightarrow> rat) \<Rightarrow> val \<Rightarrow> val \<Rightarrow> val" where
  "arith P f g v w =
     (if is_number v \<and> is_number w then
        case (v, w) of (VInt i, VInt j) \<Rightarrow> VInt (f i j) | _ \<Rightarrow> VFloat (rnd P (g (float_of P v) (float_of P w)))
      else VStr ''ERROR:VARIABLE_NOT_NUMBER or PARAMETER_NOT_NUMBER'')"

definition divide_value :: "pyenv \<Rightarrow> val \<Rightarrow> val \<Rightarrow> val" where
  "divide_value P v w =
     (if is_number v \<and> is_number w then
        if number_of w = Some 0 then VStr ''ERROR:DIVIDE_BY_ZERO''
        else case (v, w) of (VInt i, VInt j) \<Rightarrow> VFloat (rnd P (of_int i / of_int j))
             | _ \<Rightarrow> VFloat (rnd P (float_of P v / float_of P w))
      else VStr ''ERROR:VARIABLE_NOT_NUMBER or PARAMETER_NOT_NUMBER'')"

definition operate :: "pyenv \<Rightarrow> ('x) vars_scheme \<Rightarrow> val \<Rightarrow> string \<Rightarrow> val \<Rightarrow> agent_error + val" where
  "operate P C v operator param =
     (if operator = ''overwrite'' then with_text param (\<lambda>s. get_variable_value P s C)
      else if operator = ''clear'' then Inr (clear_value v)
      else if operator = ''set'' then set_value P C v param
      else if operator = ''append'' then
        with_text param (\<lambda>s. sum_bind (get_variable_value P s C) (\<lambda>w. Inr (append_value v w)))
      else if operator = ''extend'' then
        with_text param (\<lambda>s. sum_bind (get_variable_value P s C) (\<lambda>w. Inr (extend_value v w)))
      else if operator = ''remove_first'' then remove_end tl v
      else if operator = ''remove_last'' then remove_end butlast v
      else if operator = ''+='' then Inr (arith P (+) (+) v param)
      else if operator = ''-='' then Inr (arith P (-) (-) v param)
      else if operator = ''*='' then Inr (arith P (*) (*) v param)
      else if operator = ''/='' then Inr (divide_value P v param)
      else Inr VNone)"

text \<open>The assertion on incomplete items is on a text, which is true: it checks nothing.\<close>

definition assign :: "pyenv \<Rightarrow> assignment \<Rightarrow> ('x) vars_scheme \<Rightarrow> agent_error + ('x) vars_scheme" where
  "assign P a C =
     sum_bind (get_variable_value P (as_variable a) C) (\<lambda>v.
       sum_bind (operate P C v (as_operator a) (as_parameter a)) (\<lambda>w. set_variable_value (as_variable a) w C))"

definition assign_all :: "pyenv \<Rightarrow> assignment list \<Rightarrow> ('x) vars_scheme \<Rightarrow> ('x) vars_scheme \<times> (agent_error + unit)" where
  "assign_all P as C =
     foldl (\<lambda>r a. and_then r (\<lambda>_ C. case assign P a C of Inl e \<Rightarrow> (C, Inl e) | Inr C1 \<Rightarrow> (C1, Inr ()))) (C, Inr ()) as"

subsection \<open>The variable aggregator\<close>

record group =
  gr_name :: string
  gr_variables :: "string list"

text \<open>The first variable of the group that has a value.\<close>

fun first_value :: "pyenv \<Rightarrow> string list \<Rightarrow> ('x) vars_scheme \<Rightarrow> agent_error + val option" where
  "first_value P [] C = Inr None"
| "first_value P (s # ss) C =
     sum_bind (get_variable_value P s C) (\<lambda>v. if truthy v then Inr (Some v) else first_value P ss C)"

definition aggregate_group ::
  "pyenv \<Rightarrow> string \<Rightarrow> group \<Rightarrow> ('x) vars_scheme \<Rightarrow> ('x) vars_scheme \<times> (agent_error + unit)" where
  "aggregate_group P cid g C =
     (case first_value P (gr_variables g) C of
        Inl e \<Rightarrow> (C, Inl e)
      | Inr None \<Rightarrow> (C, Inr ())
      | Inr (Some v) \<Rightarrow> (set_output cid (gr_name g) v C, Inr ()))"

definition invoke_aggregator ::
  "pyenv \<Rightarrow> string \<Rightarrow> group list \<Rightarrow> ('x) vars_scheme \<Rightarrow> ('x) vars_scheme \<times> (agent_error + unit)" where
  "invoke_aggregator P cid gs C = foldl (\<lambda>r g. and_then r (\<lambda>_. aggregate_group P cid g)) (C, Inr ()) gs"

end
