(* ===== verification/AgentFlow.thy ===== *)
theory AgentFlow
  imports AgentOps
begin

text \<open>
  Components of RAGFlow's agent engine that steer a run: the switch, iterations and loops
  (\<open>agent/component/switch.py\<close>, \<open>iteration.py\<close>, \<open>iterationitem.py\<close>, \<open>loop.py\<close>, \<open>loopitem.py\<close>).
  A run that is cancelled from outside is not modelled.
\<close>

subsection \<open>The switch\<close>

record switch_item =
  si_cpn_id :: string
  si_operator :: string
  si_value :: val

record switch_cond =
  sc_logical_operator :: string
  sc_items :: "switch_item list"
  sc_to :: "string list"

text \<open>\<open>float(v)\<close>, \<^term>\<open>None\<close> where it raises.\<close>

definition to_float :: "pyenv \<Rightarrow> val \<Rightarrow> rat option" where
  "to_float P v =
     (case v of
        VBool b \<Rightarrow> Some (if b then 1 else 0)
      | VInt i \<Rightarrow> Some (rnd P (of_int i))
      | VFloat x \<Rightarrow> Some x
      | VStr s \<Rightarrow> py_float P s
      | _ \<Rightarrow> None)"

text \<open>\<open>v < w\<close> of Python values.\<close>

definition less_value :: "val \<Rightarrow> val \<Rightarrow> agent_error + bool" where
  "less_value v w = (case key_less (encode False v) (encode False w) of None \<Rightarrow> Inl TypeErr | Some b \<Rightarrow> Inr b)"

text \<open>The comparison as floats, or else as it is.\<close>

definition less_switch :: "pyenv \<Rightarrow> val \<Rightarrow> val \<Rightarrow> agent_error + bool" where
  "less_switch P v w =
     (case (to_float P v, to_float P w) of
        (Some x, Some y) \<Rightarrow> Inr (x < y)
      | _ \<Rightarrow> less_value v w)"

definition negated :: "agent_error + bool \<Rightarrow> agent_error + bool" where
  "negated r = sum_bind r (\<lambda>b. Inr (\<not> b))"

definition lower_test :: "pyenv \<Rightarrow> (string \<Rightarrow> string \<Rightarrow> bool) \<Rightarrow> val \<Rightarrow> val \<Rightarrow> agent_error + bool" where
  "lower_test P f v w =
     (case (v, w) of (VStr s, VStr t) \<Rightarrow> Inr (f (py_lower P t) (py_lower P s)) | _ \<Rightarrow> Inl TypeErr)"

definition at_least_sign :: string where
  "at_least_sign = [CHR 0xE2, CHR 0x89, CHR 0xA5]"

definition at_most_sign :: string where
  "at_most_sign = [CHR 0xE2, CHR 0x89, CHR 0xA4]"

definition process_operator :: "pyenv \<Rightarrow> val \<Rightarrow> string \<Rightarrow> val \<Rightarrow> agent_error + bool" where
  "process_operator P input operator value =
     (if operator = ''contains'' then lower_test P str_in input value
      else if operator = ''not contains'' then negated (lower_test P str_in input value)
      else if operator = ''start with'' then lower_test P starts_with input value
      else if operator = ''end with'' then lower_test P ends_with input value
      else if operator = ''empty'' then Inr (\<not> truthy input)
      else if operator = ''not empty'' then Inr (truthy input)
      else if operator = ''='' then Inr (veq input value)
      else if operator = not_equal_sign then Inr (\<not> veq input value)
      else if operator = ''>'' then less_switch P value input
      else if operator = ''<'' then less_switch P input value
      else if operator = at_least_sign then negated (less_switch P input value)
      else if operator = at_most_sign then negated (less_switch P value input)
      else Inl (BadOperator operator))"

definition is_number_or_bool :: "val \<Rightarrow> bool" where
  "is_number_or_bool v \<longleftrightarrow> number_of v \<noteq> None"

definition switch_test :: "pyenv \<Rightarrow> ('x) vars_scheme \<Rightarrow> switch_item \<Rightarrow> agent_error + bool" where
  "switch_test P C item =
     sum_bind (get_variable_value P (si_cpn_id item) C) (\<lambda>v.
       if is_number_or_bool v then
         case to_float P (si_value item) of
           None \<Rightarrow> Inl (ValueErr ''float'')
         | Some x \<Rightarrow> process_operator P v (si_operator item) (VFloat x)
       else process_operator P v (si_operator item) (si_value item))"

text \<open>The items in order; other operators than \<open>and\<close> end at the first success.\<close>

fun switch_items ::
  "pyenv \<Rightarrow> ('x) vars_scheme \<Rightarrow> string \<Rightarrow> switch_item list \<Rightarrow> bool list \<Rightarrow> agent_error + bool" where
  "switch_items P C lop [] res = Inr (list_all id res)"
| "switch_items P C lop (it # its) res =
     (if si_cpn_id it = [] then switch_items P C lop its res
      else sum_bind (switch_test P C it) (\<lambda>b.
        if lop \<noteq> ''and'' \<and> list_ex id (res @ [b]) then Inr True
        else switch_items P C lop its (res @ [b])))"

fun switch_target ::
  "pyenv \<Rightarrow> ('x) vars_scheme \<Rightarrow> switch_cond list \<Rightarrow> string list \<Rightarrow> agent_error + string list" where
  "switch_target P C [] ends = Inr ends"
| "switch_target P C (c # cs) ends =
     sum_bind (switch_items P C (sc_logical_operator c) (sc_items c) []) (\<lambda>b.
       if b then Inr (sc_to c) else switch_target P C cs ends)"

text \<open>\<open>names\<close> is \<open>get_component_name\<close> of the canvas: the name of the node, or the empty text.\<close>

definition invoke_switch ::
  "pyenv \<Rightarrow> (string \<Rightarrow> string) \<Rightarrow> string \<Rightarrow> switch_cond list \<Rightarrow> string list \<Rightarrow> ('x) vars_scheme
     \<Rightarrow> agent_error + ('x) vars_scheme" where
  "invoke_switch P names cid conds ends C =
     sum_bind (switch_target P C conds ends) (\<lambda>ids. Inr (set_output cid ''_next'' (VList (map VStr ids))
       (set_output cid ''next'' (VList (map (VStr \<circ> names) ids)) C)))"

subsection \<open>Iterations\<close>

text \<open>
  The outputs of an iteration that collect an output of a component inside: name, component, its output.
\<close>

record iteration =
  it_id :: string
  it_items_ref :: string
  it_refs :: "(string \<times> string \<times> string) list"
  it_children :: "string list"

definition outputs_of :: "string \<Rightarrow> ('x) vars_scheme \<Rightarrow> (string \<times> val) list" where
  "outputs_of cid C = (case v_outputs C cid of None \<Rightarrow> [] | Some outs \<Rightarrow> outs)"

definition collect_output ::
  "string \<Rightarrow> string \<times> string \<times> string \<Rightarrow> ('x) vars_scheme \<Rightarrow> ('x) vars_scheme \<times> (agent_error + unit)" where
  "collect_output pid = (\<lambda>(k, cid, var) C.
     let res = output_of (outputs_of pid C) k in
     case (if truthy res then res else VList []) of
       VList xs \<Rightarrow> (set_output pid k (VList (xs @ [output_of (outputs_of cid C) var])) C, Inr ())
     | _ \<Rightarrow> (C, Inl TypeErr))"

text \<open>The components inside in the order of the canvas, for each the outputs that refer to it.\<close>

definition collected :: "iteration \<Rightarrow> (string \<times> string \<times> string) list" where
  "collected I = concat (map (\<lambda>cid. filter (\<lambda>(k, c, var). c = cid) (it_refs I)) (it_children I))"

definition output_collation :: "iteration \<Rightarrow> ('x) vars_scheme \<Rightarrow> ('x) vars_scheme \<times> (agent_error + unit)" where
  "output_collation I C = foldl (\<lambda>r x. and_then r (\<lambda>_. collect_output (it_id I) x)) (C, Inr ()) (collected I)"

text \<open>One call of \<open>IterationItem\<close> named \<open>cid\<close>: the variables, the new \<open>_idx\<close>, and the exception, if any.\<close>

definition invoke_iteration_item ::
  "pyenv \<Rightarrow> iteration \<Rightarrow> string \<Rightarrow> int \<Rightarrow> ('x) vars_scheme \<Rightarrow> ('x) vars_scheme \<times> int \<times> agent_error option" where
  "invoke_iteration_item P I cid idx C =
     (case get_variable_value P (it_items_ref I) C of
        Inl e \<Rightarrow> (C, idx, Some e)
      | Inr (VList arr) \<Rightarrow>
          (case (if 0 < idx then output_collation I C else (C, Inr ())) of
             (C1, Inl e) \<Rightarrow> (C1, idx, Some e)
           | (C1, Inr _) \<Rightarrow>
               if int (length arr) \<le> idx then (C1, - 1, None)
               else case list_item arr idx of
                      None \<Rightarrow> (C1, idx, Some (ValueErr ''list index out of range''))
                    | Some v \<Rightarrow> (set_output cid ''index'' (VInt idx) (set_output cid ''item'' v C1), idx + 1, None))
      | Inr _ \<Rightarrow> (C, - 1, Some (NotArray (it_items_ref I))))"

definition iteration_end :: "int \<Rightarrow> bool" where
  "iteration_end idx \<longleftrightarrow> idx = - 1"

text \<open>The rounds of an iteration: the item, then the components inside, until it ends.\<close>

fun iterate ::
  "pyenv \<Rightarrow> iteration \<Rightarrow> string \<Rightarrow> (('x) vars_scheme \<Rightarrow> ('x) vars_scheme) \<Rightarrow> nat \<Rightarrow> int \<Rightarrow> ('x) vars_scheme
     \<Rightarrow> (('x) vars_scheme \<times> int) option" where
  "iterate P I cid inside 0 idx C = None"
| "iterate P I cid inside (Suc fuel) idx C =
     (case invoke_iteration_item P I cid idx C of
        (C1, idx1, Some e) \<Rightarrow> None
      | (C1, idx1, None) \<Rightarrow>
          if iteration_end idx1 then Some (C1, idx1) else iterate P I cid inside fuel idx1 (inside C1))"

subsection \<open>Loops\<close>

record loop_condition =
  lc_variable :: string
  lc_operator :: string
  lc_input_mode :: string
  lc_value :: val

record loop =
  lo_maximum_count :: int
  lo_logical_operator :: string
  lo_conditions :: "loop_condition list"

definition evaluate_condition :: "val \<Rightarrow> string \<Rightarrow> val \<Rightarrow> agent_error + bool" where
  "evaluate_condition var operator value =
     (case var of
        VStr s \<Rightarrow>
          if operator = ''contains'' then text_test (\<lambda>t. str_in t s) value
          else if operator = ''not contains'' then negated (text_test (\<lambda>t. str_in t s) value)
          else if operator = ''start with'' then text_test (\<lambda>t. starts_with t s) value
          else if operator = ''end with'' then text_test (\<lambda>t. ends_with t s) value
          else if operator = ''is'' then Inr (veq var value)
          else if operator = ''is not'' then Inr (\<not> veq var value)
          else if operator = ''empty'' then Inr (s = [])
          else if operator = ''not empty'' then Inr (s \<noteq> [])
          else Inl (BadOperator operator)
      | VDict d \<Rightarrow>
          if operator = ''empty'' then Inr (d = [])
          else if operator = ''not empty'' then Inr (d \<noteq> [])
          else Inl (BadOperator operator)
      | VList xs \<Rightarrow>
          if operator = ''contains'' then Inr (list_ex (veq value) xs)
          else if operator = ''not contains'' then Inr (\<not> list_ex (veq value) xs)
          else if operator = ''is'' then Inr (veq var value)
          else if operator = ''is not'' then Inr (\<not> veq var value)
          else if operator = ''empty'' then Inr (xs = [])
          else if operator = ''not empty'' then Inr (xs \<noteq> [])
          else Inl (BadOperator operator)
      | VNone \<Rightarrow> Inr (operator = ''empty'')
      | _ \<Rightarrow>   \<comment> \<open>numbers; a Boolean is an \<open>int\<close>, so its own branch is never reached\<close>
          if operator = ''='' then Inr (veq var value)
          else if operator = not_equal_sign then Inr (\<not> veq var value)
          else if operator = ''>'' then less_value value var
          else if operator = ''<'' then less_value var value
          else if operator = at_least_sign then negated (less_value var value)
          else if operator = at_most_sign then negated (less_value value var)
          else if operator = ''empty'' then Inr False
          else if operator = ''not empty'' then Inr True
          else Inl (BadOperator operator))"

definition condition_holds :: "pyenv \<Rightarrow> ('x) vars_scheme \<Rightarrow> loop_condition \<Rightarrow> agent_error + bool" where
  "condition_holds P C c =
     (if lc_variable c = [] \<or> lc_operator c = [] then Inl (ValueErr ''Loop condition is incomplete.'')
      else sum_bind (get_variable_value P (lc_variable c) C) (\<lambda>var.
        if lc_input_mode c = ''variable'' then
          with_text (lc_value c) (\<lambda>s. sum_bind (get_variable_value P s C) (\<lambda>v.
            evaluate_condition var (lc_operator c) v))
        else if lc_input_mode c = ''constant'' then evaluate_condition var (lc_operator c) (lc_value c)
        else Inl (ValueErr ''Invalid input mode.'')))"

text \<open>\<open>LoopItem._invoke\<close> and \<open>LoopItem.end\<close>, on \<open>_idx\<close>.\<close>

definition invoke_loop_item :: "loop \<Rightarrow> int \<Rightarrow> int" where
  "invoke_loop_item L idx = (if lo_maximum_count L \<le> idx then - 1 else idx + 1)"

definition loop_end :: "pyenv \<Rightarrow> loop \<Rightarrow> int \<Rightarrow> ('x) vars_scheme \<Rightarrow> agent_error + bool \<times> int" where
  "loop_end P L idx C =
     (if idx = - 1 then Inr (True, idx)
      else sum_bind (sum_map (condition_holds P C) (lo_conditions L)) (\<lambda>bs.
        let op = lo_logical_operator L in
        if op \<noteq> ''and'' \<and> op \<noteq> ''or'' then Inl (ValueErr ''Invalid logical operator'')
        else let done = (if op = ''and'' then list_all id bs else list_ex id bs)
             in Inr (done, if done then - 1 else idx)))"

text \<open>The rounds of a loop: the result is the number of times the components inside ran.\<close>

fun loop_rounds ::
  "pyenv \<Rightarrow> loop \<Rightarrow> (('x) vars_scheme \<Rightarrow> ('x) vars_scheme) \<Rightarrow> nat \<Rightarrow> int \<Rightarrow> ('x) vars_scheme
     \<Rightarrow> (agent_error + nat \<times> ('x) vars_scheme) option" where
  "loop_rounds P L inside 0 idx C = None"
| "loop_rounds P L inside (Suc fuel) idx C =
     (case loop_end P L (invoke_loop_item L idx) C of
        Inl e \<Rightarrow> Some (Inl e)
      | Inr (True, idx1) \<Rightarrow> Some (Inr (0, C))
      | Inr (False, idx1) \<Rightarrow>
          map_option (map_sum id (\<lambda>(n, C1). (Suc n, C1))) (loop_rounds P L inside fuel idx1 (inside C)))"

text \<open>\<open>Loop._invoke\<close>: the loop's variables; an item is name, input mode, value and type.\<close>

definition initial_value :: "string \<Rightarrow> val" where
  "initial_value ty =
     (if ty = ''number'' then VInt 0
      else if ty = ''string'' then VStr []
      else if ty = ''boolean'' then VBool False
      else if starts_with ''object'' ty then VDict []
      else if starts_with ''array'' ty then VList []
      else VStr [])"

definition set_loop_variable ::
  "pyenv \<Rightarrow> string \<Rightarrow> string \<times> string \<times> val \<times> string \<Rightarrow> ('x) vars_scheme \<Rightarrow> agent_error + ('x) vars_scheme" where
  "set_loop_variable P cid = (\<lambda>(name, mode, value, ty) C.
     if mode = ''variable'' then
       with_text value (\<lambda>s. sum_bind (get_variable_value P s C) (\<lambda>v. Inr (set_output cid name v C)))
     else if mode = ''constant'' then Inr (set_output cid name value C)
     else Inr (set_output cid name (initial_value ty) C))"

definition invoke_loop ::
  "pyenv \<Rightarrow> string \<Rightarrow> (string \<times> string \<times> val \<times> string) list \<Rightarrow> ('x) vars_scheme \<Rightarrow> ('x) vars_scheme \<times> (agent_error + unit)" where
  "invoke_loop P cid items C =
     foldl (\<lambda>r i. and_then r (\<lambda>_ C. case set_loop_variable P cid i C of Inl e \<Rightarrow> (C, Inl e) | Inr C1 \<Rightarrow> (C1, Inr ()))) (C, Inr ()) items"

end
