(* ===== verification/AgentProperties.thy ===== *)
theory AgentProperties
  imports AgentFlow "HOL-Library.Multiset"
begin

text \<open>
  The properties of the agent engine's components: variables and templates, list operations, the
  combination of objects, the switch, iterations and loops.
\<close>

subsection \<open>Variables\<close>

lemma set_output_simps [simp]:
  "v_globals (set_output cid k v C) = v_globals C"
  "j \<noteq> cid \<Longrightarrow> v_outputs (set_output cid k v C) j = v_outputs C j"
  "v_outputs (set_output cid k v C) cid = map_option (dict_put k v) (v_outputs C cid)"
  by (simp_all add: set_output_def)

lemma output_of_put [simp]:
  "j \<noteq> [] \<Longrightarrow> output_of (dict_put k v outs) j = (if j = k then v else output_of outs j)"
  by (simp add: output_of_def)

lemma get_set_param:
  "\<exists>e. get_param_value P (VDict (set_param_value keys lk v d)) keys = VDict e \<and> map_of e lk = Some v"
  by (induction keys arbitrary: d) (simp_all add: dict_value_def)

text \<open>The variable a reference reads: its component, if any, and its name.\<close>

fun variable_of :: "var_ref \<Rightarrow> string option \<times> string" where
  "variable_of (Global g) = (None, g)"
| "variable_of (Output cid nm rest) = (Some cid, nm)"

text \<open>Whole outputs of a component, which \<open>cid@\<close> and \<open>cid@.path\<close> read, are no single variable.\<close>

definition names_variable :: "var_ref \<Rightarrow> bool" where
  "names_variable r \<longleftrightarrow> (case r of Global g \<Rightarrow> True | Output cid nm rest \<Rightarrow> nm \<noteq> [])"

lemma get_other_variable:
  assumes "parse_ref e' = Inr r'" and "names_variable r'" and "variable_of r' \<noteq> (Some cid, nm)"
  shows "get_variable_value P e' (set_output cid nm v C) = get_variable_value P e' C"
proof (cases r')
  case (Output cid' nm' rest')
  show ?thesis
  proof (cases "cid' = cid")
    case True
    with assms Output have "nm' \<noteq> nm" "nm' \<noteq> []" by (auto simp: names_variable_def)
    with assms(1) Output True show ?thesis
      by (cases "v_outputs C cid") (simp_all add: get_variable_value_def)
  next
    case False
    with assms(1) Output show ?thesis by (simp add: get_variable_value_def)
  qed
qed (use assms in \<open>simp add: get_variable_value_def\<close>)

text \<open>
  A variable that was set is read back as it was set when its reference has no path, and no other
  variable changes; with a path behind the name, what is read back is a dictionary that holds the value
  under the last key of the path, since the descent goes one key too far.
\<close>

lemma set_then_get:
  assumes "parse_ref e = Inr r" and "names_variable r" and set: "set_variable_value e v C = Inr C'"
  shows "(case r of
            Global g \<Rightarrow> get_variable_value P e C' = Inr v
          | Output cid nm rest \<Rightarrow>
              if rest = [] then get_variable_value P e C' = Inr v
              else \<exists>d. get_variable_value P e C' = Inr (VDict d) \<and> map_of d (last (split_on (CHR ''.'') rest)) = Some v)
     \<and> (\<forall>e' r'. parse_ref e' = Inr r' \<and> names_variable r' \<and> variable_of r' \<noteq> variable_of r
          \<longrightarrow> get_variable_value P e' C' = get_variable_value P e' C)"
proof (cases r)
  case (Global g)
  then have C': "C' = C\<lparr>v_globals := dict_put g v (v_globals C)\<rparr>"
    using set assms(1) by (simp add: set_variable_value_def)
  have "get_variable_value P e' C' = get_variable_value P e' C"
    if "parse_ref e' = Inr r'" "variable_of r' \<noteq> (None, g)" for e' r'
    using that by (cases r') (simp_all add: C' get_variable_value_def)
  with Global assms(1) show ?thesis by (auto simp: C' get_variable_value_def)
next
  case (Output cid nm rest)
  then obtain outs where outs: "v_outputs C cid = Some outs"
    using set assms(1) by (auto simp: set_variable_value_def split: option.splits)
  have nm: "nm \<noteq> []" using assms(2) Output by (simp add: names_variable_def)
  show ?thesis
  proof (cases "rest = []")
    case True
    then have C': "C' = set_output cid nm v C"
      using set assms(1) Output outs by (simp add: set_variable_value_def)
    have "get_variable_value P e C' = Inr v"
      using assms(1) Output outs True nm by (simp add: C' get_variable_value_def)
    with get_other_variable [of _ _ cid nm P v C] True Output show ?thesis by (auto simp: C')
  next
    case False
    let ?keys = "split_on (CHR ''.'') rest"
    obtain d where C': "C' = set_output cid nm (VDict (set_param_value ?keys (last ?keys) v d)) C"
      using set assms(1) Output outs False
      by (auto simp: set_variable_value_def Let_def split: val.splits if_splits)
    obtain e1 where "get_param_value P (VDict (set_param_value ?keys (last ?keys) v d)) ?keys = VDict e1"
      and "map_of e1 (last ?keys) = Some v"
      using get_set_param by blast
    with assms(1) Output outs False nm
    have "get_variable_value P e C' = Inr (VDict e1) \<and> map_of e1 (last ?keys) = Some v"
      by (simp add: C' get_variable_value_def)
    with get_other_variable [of _ _ cid nm P _ C] False Output show ?thesis by (auto simp: C')
  qed
qed

text \<open>A sample canvas: the component \<open>a\<close> with the output \<open>x\<close>, one global.\<close>

definition pyenv0 :: pyenv where
  "pyenv0 = \<lparr>json_loads = (\<lambda>_. None), json_dumps = (\<lambda>_. ''?''), py_str = (\<lambda>_. ''?''), py_float = (\<lambda>_. None),
     rnd = id, py_attr = (\<lambda>_ _. VNone), py_lower = str_lower\<rparr>"

definition canvas0 :: vars where
  "canvas0 = \<lparr>v_outputs = (\<lambda>c. if c = ''a'' then Some [(''x'', VNone)] else None), v_globals = [(''sys.query'', VStr ''hi'')]\<rparr>"

subsection \<open>Templates\<close>

definition reference :: "string \<Rightarrow> bool" where
  "reference g \<longleftrightarrow>
     (\<exists>x y. g = x @ ''@'' @ y \<and> x \<noteq> [] \<and> y \<noteq> [] \<and> list_all id_char x \<and> list_all ref_char' y)
     \<or> (\<exists>p y. g = p @ y \<and> p \<in> {''sys.'', ''env.''} \<and> y \<noteq> [] \<and> list_all ref_char y)"

lemma char_classes [simp]:
  "\<not> ref_char CHR ''}''" "\<not> ref_char' CHR ''}''" "\<not> id_char CHR ''@''" "\<not> id_char CHR ''}''" "\<not> id_char CHR '' ''"
  "\<not> id_char CHR ''{''"
  by code_simp+

lemma ref_at_reference:
  assumes "reference g"
  shows "ref_at (g @ CHR ''}'' # r) = Some g"
  using assms unfolding reference_def
proof (elim disjE exE conjE)
  fix x y assume g: "g = x @ ''@'' @ y" and ne: "x \<noteq> []" "y \<noteq> []" and cl: "list_all id_char x" "list_all ref_char' y"
  have "takeWhile id_char (g @ CHR ''}'' # r) = x" "dropWhile id_char (g @ CHR ''}'' # r) = ''@'' @ y @ CHR ''}'' # r"
    using g cl by (simp_all add: list_all_iff)
  moreover have "takeWhile ref_char' (y @ CHR ''}'' # r) = y" "dropWhile ref_char' (y @ CHR ''}'' # r) = CHR ''}'' # r"
    using cl by (simp_all add: list_all_iff)
  ultimately show ?thesis using g ne by (simp add: ref_at_def Let_def closed_def)
next
  fix p y assume g: "g = p @ y" and p: "p \<in> {''sys.'', ''env.''}" and y: "y \<noteq> []" "list_all ref_char y"
  have "\<forall>c\<in>set g. id_char c"
    using g p y by (auto simp: list_all_iff id_char_def ref_char'_def) (auto simp: ref_char_def is_alnum_def)
  then have "dropWhile id_char (g @ CHR ''}'' # r) = CHR ''}'' # r" by simp
  moreover have "takeWhile ref_char (y @ CHR ''}'' # r) = y" "dropWhile ref_char (y @ CHR ''}'' # r) = CHR ''}'' # r"
    using y by (simp_all add: list_all_iff)
  moreover have "take 4 g = p" "drop 4 (g @ CHR ''}'' # r) = y @ CHR ''}'' # r" "take 4 (g @ CHR ''}'' # r) = p"
    using g p by auto
  ultimately show ?thesis using g p y by (auto simp: ref_at_def Let_def closed_def)
qed

lemma reference_start: "reference g \<Longrightarrow> g \<noteq> [] \<and> id_char (hd g)"
  unfolding reference_def by (auto simp: list_all_iff hd_append id_char_def ref_char'_def ref_char_def is_alnum_def)

text \<open>A match from the brace, or from the spaces in front of it.\<close>

lemma match_reference:
  assumes "reference g" and "r = [] \<or> hd r \<noteq> CHR '' '' \<and> hd r \<noteq> CHR ''}''"
  shows "match_at (replicate m CHR '' '' @ CHR ''{'' # g @ CHR ''}'' # replicate n CHR '' '' @ r)
     = Some (g, m + 1 + length g + 1 + n)"
proof -
  obtain c g' where g: "g = c # g'" and c: "id_char c" using reference_start [OF assms(1)] by (cases g) auto
  have c': "c \<noteq> CHR ''{''" "c \<noteq> CHR '' ''" using c by auto
  let ?tail = "CHR ''}'' # replicate n CHR '' '' @ r"
  have at: "ref_at (g @ ?tail) = Some g" by (rule ref_at_reference [OF assms(1)])
  have t1: "takeWhile (\<lambda>c. c = CHR '' '') (replicate n CHR '' '' @ r) = replicate n CHR '' ''"
    using assms(2) by (cases r) (simp_all add: takeWhile_append)
  have t2: "takeWhile (\<lambda>c. c = CHR ''}'') r = []" using assms(2) by (cases r) simp_all
  have len: "drop (Suc (length g')) (g' @ ?tail) = replicate n CHR '' '' @ r" by simp
  show ?thesis
  proof (cases m)
    case 0
    then show ?thesis
      using at c' t1 t2 by (simp add: match_at_def g Let_def)
  next
    case (Suc k)
    have sp: "takeWhile (\<lambda>c. c = CHR '' '') (replicate m CHR '' '' @ CHR ''{'' # z) = replicate m CHR '' ''" for z
      by (simp add: takeWhile_append)
    have "takeWhile (\<lambda>c. c = CHR ''{'') (replicate m CHR '' '' @ z) = []" for z using Suc by simp
    moreover have "drop (m + 1 + length g + 1) (replicate m CHR '' '' @ CHR ''{'' # g @ CHR ''}'' # z) = z" for z
      by simp
    moreover have "drop (m + 1 + length g + 1 + n) (replicate m CHR '' '' @ CHR ''{'' # g @ CHR ''}'' # replicate n CHR '' '' @ r) = r"
      by simp
    ultimately show ?thesis
      using at t1 t2 sp Suc c' by (simp add: match_at_def Let_def g add.commute add.left_commute)
  qed
qed

text \<open>No match starts in a text without braces in front of something that is no space.\<close>

lemma match_plain:
  assumes "CHR ''{'' \<notin> set (c # a)" and "last (c # a) \<noteq> CHR '' ''"
  shows "match_at ((c # a) @ s) = None"
proof -
  let ?t = "(c # a) @ s"
  have b: "takeWhile (\<lambda>c. c = CHR ''{'') ?t = []" using assms(1) by auto
  obtain u d w where split: "c # a = u @ d # w" and u: "\<forall>x\<in>set u. x = CHR '' ''" and d: "d \<noteq> CHR '' ''"
  proof -
    have "dropWhile (\<lambda>x. x = CHR '' '') (c # a) \<noteq> []"
      using assms(2) last_in_set [of "c # a"] unfolding dropWhile_eq_Nil_conv by blast
    then obtain d w where dw: "dropWhile (\<lambda>x. x = CHR '' '') (c # a) = d # w"
      by (cases "dropWhile (\<lambda>x. x = CHR '' '') (c # a)") auto
    have "c # a = takeWhile (\<lambda>x. x = CHR '' '') (c # a) @ d # w"
      unfolding dw [symmetric] by (rule takeWhile_dropWhile_id [symmetric])
    moreover have "\<forall>x\<in>set (takeWhile (\<lambda>x. x = CHR '' '') (c # a)). x = CHR '' ''"
      by (auto dest: set_takeWhileD)
    moreover have "d \<noteq> CHR '' ''" using hd_dropWhile [of "\<lambda>x. x = CHR '' ''" "c # a"] dw by simp
    ultimately show ?thesis by (rule that)
  qed
  have "d \<noteq> CHR ''{''" using assms(1) split by (metis in_set_conv_decomp)
  moreover have "takeWhile (\<lambda>x. x = CHR '' '') ?t = u" "drop (length u) ?t = d # w @ s"
    using u d split by (simp_all add: takeWhile_append)
  ultimately show ?thesis using b by (simp add: match_at_def Let_def)
qed

lemma pieces_plain:
  assumes "CHR ''{'' \<notin> set a" and "a = [] \<or> last a \<noteq> CHR '' ''"
  shows "pieces (a @ s) = map Lit a @ pieces s"
  using assms
proof (induction a)
  case (Cons c a)
  from match_plain [OF Cons.prems(1)] Cons.prems(2) have "match_at (c # a @ s) = None" by simp
  moreover have "pieces (a @ s) = map Lit a @ pieces s"
    using Cons by (cases a) auto
  ultimately show ?case by simp
qed simp

lemma match_no_brace: "CHR ''{'' \<notin> set s \<Longrightarrow> match_at s = None"
proof -
  assume no: "CHR ''{'' \<notin> set s"
  then have b: "takeWhile (\<lambda>c. c = CHR ''{'') s = []" by (cases s) auto
  have "CHR ''{'' \<notin> set (drop n s)" for n using no by (meson in_set_dropD)
  then have "drop n s \<noteq> [] \<longrightarrow> hd (drop n s) \<noteq> CHR ''{''" for n by (metis hd_in_set)
  with b show ?thesis by (auto simp: match_at_def Let_def)
qed

lemma pieces_no_brace: "CHR ''{'' \<notin> set s \<Longrightarrow> pieces s = map Lit s"
proof (induction s)
  case (Cons c s)
  with match_no_brace [of "c # s"] show ?case by simp
qed simp

lemma pieces_match:
  "s \<noteq> [] \<Longrightarrow> match_at s = Some (g, n) \<Longrightarrow> 0 < n \<Longrightarrow> pieces s = Ref g # pieces (drop n s)"
  by (cases s; cases n) auto

lemma fill_literals: "fill P C (map Lit a @ ps) = sum_bind (fill P C ps) (\<lambda>s. Inr (a @ s))"
proof (induction a)
  case Nil
  show ?case by (cases "fill P C ps") simp_all
next
  case (Cons c a)
  then show ?case by (cases "fill P C ps") simp_all
qed

text \<open>
  A reference in braces is replaced by the text of its variable, and the spaces on both sides of it
  disappear: \<open>a {x} b\<close> becomes \<open>a\<close>, the text, and \<open>b\<close> without any space between them.
\<close>

lemma template_drops_spaces:
  assumes "reference g" and "CHR ''{'' \<notin> set a" and "a = [] \<or> last a \<noteq> CHR '' ''"
    and "CHR ''{'' \<notin> set b" and "b = [] \<or> hd b \<noteq> CHR '' '' \<and> hd b \<noteq> CHR ''}''"
    and "get_variable_value P g C = Inr v"
  shows "get_value_with_variable P
      (a @ replicate m CHR '' '' @ ''{'' @ g @ ''}'' @ replicate n CHR '' '' @ b) C
     = Inr (a @ replacement P v @ b)"
proof -
  let ?s = "replicate m CHR '' '' @ CHR ''{'' # g @ CHR ''}'' # replicate n CHR '' '' @ b"
  have "drop (m + 1 + length g + 1 + n) ?s = b" by simp
  with pieces_match [OF _ match_reference [OF assms(1,5), of m n]]
  have "pieces ?s = Ref g # pieces b" by simp
  then have "pieces (a @ ?s) = map Lit a @ Ref g # map Lit b"
    using pieces_plain [OF assms(2,3)] pieces_no_brace [OF assms(4)] by simp
  moreover have "fill P C (map Lit b) = Inr b" using fill_literals [of P C b "[]"] by simp
  ultimately show ?thesis
    using assms(6) by (simp add: get_value_with_variable_def fill_literals)
qed

subsection \<open>Sorting\<close>

lemma key_less_asym:
  "key_less x y = Some True \<Longrightarrow> key_less y x = Some False"
  "keys_less xs ys = Some True \<Longrightarrow> keys_less ys xs = Some False"
  by (induction x y and xs ys rule: key_less_keys_less.induct) (auto split: if_splits)

lemma keys_less_Nil: "keys_less [] xs = Some (xs \<noteq> [])"
  by (cases xs) simp_all

lemma key_less_total:
  "key_less x y = Some False \<Longrightarrow> x = y \<or> key_less y x = Some True"
  "keys_less xs ys = Some False \<Longrightarrow> xs = ys \<or> keys_less ys xs = Some True"
  by (induction x y and xs ys rule: key_less_keys_less.induct) (auto simp: keys_less_Nil split: if_splits)

lemma key_less_irrefl: "key_less x x \<noteq> Some True" "keys_less xs xs \<noteq> Some True"
  using key_less_asym by fastforce+

lemma key_less_trans:
  "key_less x y = Some True \<Longrightarrow> key_less y z = Some True \<Longrightarrow> key_less x z = Some True"
  "keys_less xs ys = Some True \<Longrightarrow> keys_less ys zs = Some True \<Longrightarrow> keys_less xs zs = Some True"
proof (induction x y and xs ys arbitrary: z and zs rule: key_less_keys_less.induct)
  case (1 x y)
  then show ?case by (cases z) auto
next
  case (2 s t)
  then show ?case by (cases z) auto
next
  case (3 xs ys)
  then show ?case by (cases z) auto
next
  case (7 x xs y ys)
  from "7.prems"(2) obtain w ws where zs: "zs = w # ws" by (cases zs) auto
  show ?case
    using 7 key_less_asym(1) [of x y] key_less_asym(1) [of y w] by (auto simp: zs split: if_splits)
next
  case (6 y ys)
  then show ?case by (cases zs) auto
qed auto

text \<open>On items that can be compared, \<open>key_le\<close> is a total preorder.\<close>

definition le_or_same :: "('v \<Rightarrow> key) \<Rightarrow> 'v \<Rightarrow> 'v \<Rightarrow> bool" where
  "le_or_same k x y \<longleftrightarrow> k x = k y \<or> key_less (k x) (k y) = Some True"

lemma key_le_iff: "key_less (k y) (k x) \<noteq> None \<Longrightarrow> key_le k x y \<longleftrightarrow> le_or_same k x y"
  using key_less_asym(1) [of "k y" "k x"] key_less_total(1) [of "k y" "k x"] key_less_irrefl(1) [of "k x"]
    key_less_asym(1) [of "k x" "k y"]
  by (auto simp: key_le_def le_or_same_def)

lemma le_or_same_trans: "le_or_same k x y \<Longrightarrow> le_or_same k y z \<Longrightarrow> le_or_same k x z"
  unfolding le_or_same_def using key_less_trans(1) [of "k x" "k y" "k z"] by metis

lemma key_less_defined:
  "key_less x y = None \<longleftrightarrow> key_less y x = None"
  "keys_less xs ys = None \<longleftrightarrow> keys_less ys xs = None"
  by (induction x y and xs ys rule: key_less_keys_less.induct) (auto simp: keys_less_Nil)

lemma comparable_append:
  "comparable k (xs @ ys) \<longleftrightarrow>
     comparable k xs \<and> comparable k ys \<and> (\<forall>x\<in>set xs. \<forall>y\<in>set ys. key_less (k y) (k x) \<noteq> None)"
  by (induction xs) (auto simp: list_all_iff)

lemma comparable_rev: "comparable k (rev xs) = comparable k xs"
proof (induction xs)
  case (Cons x xs)
  have "(\<forall>y\<in>set xs. key_less (k x) (k y) \<noteq> None) \<longleftrightarrow> (\<forall>y\<in>set xs. key_less (k y) (k x) \<noteq> None)"
    using key_less_defined(1) [of "k x"] by simp
  with Cons show ?case by (auto simp: comparable_append list_all_iff)
qed simp

lemma mset_insort_by [simp]: "mset (insort_by k x ys) = add_mset x (mset ys)"
  by (induction ys) auto

lemma set_insort_by [simp]: "set (insort_by k x ys) = insert x (set ys)"
  by (induction ys) auto

lemma sorted_insort_by:
  assumes "sorted_wrt (le_or_same k) ys" and "\<forall>y\<in>set ys. key_less (k y) (k x) \<noteq> None"
  shows "sorted_wrt (le_or_same k) (insort_by k x ys)"
  using assms
proof (induction ys)
  case (Cons y ys)
  show ?case
  proof (cases "key_le k x y")
    case True
    with Cons.prems have "le_or_same k x y" by (simp add: key_le_iff)
    with True Cons.prems le_or_same_trans [of k x y] show ?thesis by auto
  next
    case False
    then have "le_or_same k y x" by (simp add: key_le_def le_or_same_def)
    with False Cons show ?thesis by auto
  qed
qed simp

lemma filter_insort_by:
  "filter (\<lambda>y. k y = c) (insort_by k x ys) = filter (\<lambda>y. k y = c) (x # ys)"
  by (induction ys) (auto simp: key_le_def key_less_irrefl)

lemma insertion_sort:
  assumes "comparable k xs"
  shows "mset (foldr (insort_by k) xs []) = mset xs \<and> sorted_wrt (le_or_same k) (foldr (insort_by k) xs [])
     \<and> filter (\<lambda>y. k y = c) (foldr (insort_by k) xs []) = filter (\<lambda>y. k y = c) xs"
  using assms
proof (induction xs)
  case (Cons x xs)
  then have IH: "mset (foldr (insort_by k) xs []) = mset xs" "sorted_wrt (le_or_same k) (foldr (insort_by k) xs [])"
    "filter (\<lambda>y. k y = c) (foldr (insort_by k) xs []) = filter (\<lambda>y. k y = c) xs" by auto
  have "set (foldr (insort_by k) xs []) = set xs" using IH(1) by (metis set_mset_mset)
  with Cons.prems sorted_insort_by [OF IH(2)] IH(1,3) show ?case by (simp add: filter_insort_by list_all_iff)
qed simp

text \<open>The key that \<open>_sort\<close> uses: the hashable one when the first item is a dictionary.\<close>

definition sort_key_of :: "val list \<Rightarrow> val \<Rightarrow> key" where
  "sort_key_of xs = encode (case xs of VDict _ # _ \<Rightarrow> True | _ \<Rightarrow> False)"

lemma sort_op_sorts:
  assumes "sort_op m xs = Inr ys"
  shows "mset ys = mset xs
     \<and> sorted_wrt (\<lambda>x y. if m = ''desc'' then le_or_same (sort_key_of xs) y x else le_or_same (sort_key_of xs) x y) ys
     \<and> (\<forall>c. filter (\<lambda>v. sort_key_of xs v = c) ys = filter (\<lambda>v. sort_key_of xs v = c) xs)"
proof (cases xs)
  case (Cons x xs')
  have key: "encode (case x of VDict _ \<Rightarrow> True | _ \<Rightarrow> False) = sort_key_of xs"
    by (cases x) (simp_all add: sort_key_of_def Cons)
  have down: "str_or m ''asc'' = ''desc'' \<longleftrightarrow> m = ''desc''" by (simp add: str_or_def)
  have cmp: "comparable (sort_key_of xs) xs"
    and ys: "ys = (if m = ''desc'' then rev (foldr (insort_by (sort_key_of xs)) (rev xs) [])
                   else foldr (insort_by (sort_key_of xs)) xs [])"
    using assms by (auto simp: sort_op_def Cons py_sorted_def key [unfolded Cons] down split: if_splits)
  note up = insertion_sort [OF cmp] and down = insertion_sort [OF cmp [folded comparable_rev [of _ xs]]]
  show ?thesis
  proof (cases "m = ''desc''")
    case True
    have "filter (\<lambda>v. sort_key_of xs v = c) ys = filter (\<lambda>v. sort_key_of xs v = c) xs" for c
      using down [of c] True by (simp add: ys rev_filter [symmetric])
    with down True show ?thesis by (simp add: ys sorted_wrt_rev)
  next
    case False
    with up show ?thesis by (simp add: ys)
  qed
qed (use assms in \<open>simp add: sort_op_def\<close>)

text \<open>
  Where it does not raise, the list operation \<open>sort\<close> returns the items of its input in the order of
  Python's \<open><\<close> (or against it), and items that are equal in that order keep their places.
\<close>

lemma sort_is_stable:
  assumes "sort_op m xs = Inr ys"
  shows "mset ys = mset xs
     \<and> sorted_wrt (\<lambda>x y. if m = ''desc'' then le_or_same (sort_key_of xs) y x else le_or_same (sort_key_of xs) x y) ys
     \<and> (\<forall>c. filter (\<lambda>v. sort_key_of xs v = c) ys = filter (\<lambda>v. sort_key_of xs v = c) xs)"
  by (rule sort_op_sorts [OF assms])

subsection \<open>List operations\<close>

lemma drop_seen_nths:
  "drop_seen seen xs =
     nths xs {i. i < length xs \<and> encode True (xs ! i) \<notin> set seen \<union> encode True ` set (take i xs)}"
proof (induction seen xs rule: drop_seen.induct)
  case (2 seen x xs)
  have tail: "{j. Suc j < length (x # xs) \<and> encode True ((x # xs) ! Suc j) \<notin> set seen \<union> encode True ` set (take (Suc j) (x # xs))}
      = {i. i < length xs \<and> encode True (xs ! i) \<notin> set (encode True x # seen) \<union> encode True ` set (take i xs)}"
    by auto
  show ?case
  proof (cases "encode True x \<in> set seen")
    case True
    then have "set (encode True x # seen) = set seen" by auto
    with 2(1) [OF True] tail True show ?thesis by (simp add: nths_Cons) (metis (mono_tags, lifting))
  next
    case False
    with 2(2) [OF False] tail show ?thesis
      by (auto simp: nths_Cons intro!: arg_cong [where f = "nths xs"])
  qed
qed simp

text \<open>
  \<open>drop_duplicates\<close> keeps exactly the items that no earlier item equals, in their order; a list and a
  dictionary with the same entries count as equal, as do 1, 1.0 and \<open>True\<close>.
\<close>

lemma drop_duplicates_first_occurrences:
  "drop_duplicates xs = nths xs {i. i < length xs \<and> encode True (xs ! i) \<notin> encode True ` set (take i xs)}"
  by (simp add: drop_duplicates_def drop_seen_nths)

lemma sum_filter_subset: "sum_filter f xs = Inr ys \<Longrightarrow> set ys \<subseteq> set xs"
proof (induction xs arbitrary: ys)
  case (Cons x xs)
  then obtain b zs where "sum_filter f xs = Inr zs" "ys = (if b then x # zs else zs)"
    by (auto elim!: sum_bind_InrE)
  with Cons.IH show ?case by auto
qed simp

lemma list_operation_items:
  assumes "list_operation P p xs = Some (Inr ys)"
  shows "set ys \<subseteq> set xs"
proof -
  consider "ys = top_n (coerce_n (lp_n p)) xs" | "ys = head_n (coerce_n (lp_n p)) xs" | "ys = tail_n (coerce_n (lp_n p)) xs"
    | "sum_filter (\<lambda>i. filter_test (norm_text P i) (lp_filter_operator p) (lp_filter_value p)) xs = Inr ys" | "sort_op (lp_sort_method p) xs = Inr ys" | "ys = drop_duplicates xs"
    using assms unfolding list_operation_def by (auto split: if_splits)
  then show ?thesis
  proof cases
    case 5
    from arg_cong [OF conjunct1 [OF sort_op_sorts [OF 5]], of set_mset] show ?thesis by simp
  next
    case 6
    then show ?thesis by (simp add: drop_duplicates_def drop_seen_nths set_nths_subset)
  qed (auto simp: top_n_def head_n_def tail_n_def split: if_splits dest: in_set_takeD sum_filter_subset)
qed



subsection \<open>The switch\<close>

text \<open>What a condition means when all its tests have a value; items without a reference do not count.\<close>

definition test_holds :: "pyenv \<Rightarrow> ('x) vars_scheme \<Rightarrow> switch_item \<Rightarrow> bool" where
  "test_holds P C it \<longleftrightarrow> switch_test P C it = Inr True"

definition cond_holds :: "pyenv \<Rightarrow> ('x) vars_scheme \<Rightarrow> switch_cond \<Rightarrow> bool" where
  "cond_holds P C c \<longleftrightarrow>
     (let its = filter (\<lambda>it. si_cpn_id it \<noteq> []) (sc_items c) in
      if sc_logical_operator c = ''and'' then list_all (test_holds P C) its
      else its = [] \<or> list_ex (test_holds P C) its)"

definition tests_defined :: "pyenv \<Rightarrow> ('x) vars_scheme \<Rightarrow> switch_cond \<Rightarrow> bool" where
  "tests_defined P C c \<longleftrightarrow> (\<forall>it\<in>set (sc_items c). si_cpn_id it \<noteq> [] \<longrightarrow> (\<exists>b. switch_test P C it = Inr b))"

lemma switch_items_and:
  assumes "\<forall>it\<in>set its. si_cpn_id it \<noteq> [] \<longrightarrow> (\<exists>b. switch_test P C it = Inr b)"
  shows "switch_items P C ''and'' its res =
    Inr (list_all id res \<and> list_all (test_holds P C) (filter (\<lambda>it. si_cpn_id it \<noteq> []) its))"
  using assms by (induction its arbitrary: res) (auto simp: test_holds_def)

lemma switch_items_or:
  assumes "\<forall>it\<in>set its. si_cpn_id it \<noteq> [] \<longrightarrow> (\<exists>b. switch_test P C it = Inr b)" and "lop \<noteq> ''and''"
    and "True \<notin> set res"
  shows "switch_items P C lop its res =
    Inr (let ts = filter (\<lambda>it. si_cpn_id it \<noteq> []) its in res = [] \<and> ts = [] \<or> list_ex (test_holds P C) ts)"
  using assms
proof (induction its arbitrary: res)
  case Nil
  then show ?case by (cases res) (auto simp: list_all_iff)
next
  case (Cons it its)
  show ?case
  proof (cases "si_cpn_id it = []")
    case False
    with Cons.prems(1) obtain b where b: "switch_test P C it = Inr b" by auto
    with False Cons show ?thesis by (cases b) (auto simp: test_holds_def Let_def list_ex_iff)
  qed (use Cons in simp)
qed

lemma switch_cond_holds:
  "tests_defined P C c \<Longrightarrow> switch_items P C (sc_logical_operator c) (sc_items c) [] = Inr (cond_holds P C c)"
  using switch_items_and [of "sc_items c" P C "[]"] switch_items_or [of "sc_items c" P C "sc_logical_operator c" "[]"]
  by (auto simp: tests_defined_def cond_holds_def Let_def)

text \<open>
  A switch whose tests do not raise goes to the target of the first condition that holds, and to the
  \<open>else\<close> branch when none does: a condition under \<open>and\<close> holds when all its tests do, any other when one
  does, and a condition without tests always holds.
\<close>

lemma switch_takes_first:
  assumes "\<forall>c\<in>set conds. tests_defined P C c"
  shows "switch_target P C conds ends =
    Inr (case find (cond_holds P C) conds of None \<Rightarrow> ends | Some c \<Rightarrow> sc_to c)"
  using assms by (induction conds) (simp_all add: switch_cond_holds)

end
