(* ===== verification/AgentText.thy ===== *)
theory AgentText
  imports AgentProperties
begin

text \<open>
  Components of the agent engine that work on text: the splitting of \<open>StringTransform\<close>
  (\<open>string_transform.py\<close>), the streamed answer of \<open>Message\<close> (\<open>message.py\<close>), and \<open>Categorize\<close>
  (\<open>categorize.py\<close>), whose language model is a function of the prompts.
\<close>

subsection \<open>Splitting\<close>

text \<open>
  \<open>re.split\<close> at the first of the delimiters that is found, leftmost.  An empty delimiter matches
  everywhere, but not twice at one place: \<open>stuck\<close> says that there was an empty match here.
\<close>

fun first_delimiter :: "string list \<Rightarrow> bool \<Rightarrow> string \<Rightarrow> string option" where
  "first_delimiter [] stuck s = None"
| "first_delimiter (d # ds) stuck s =
     (if starts_with d s \<and> (d \<noteq> [] \<or> \<not> stuck) then Some d else first_delimiter ds stuck s)"

lemma first_delimiter_SomeD:
  "first_delimiter ds stuck s = Some d \<Longrightarrow> d \<in> set ds \<and> starts_with d s \<and> (d = [] \<longrightarrow> \<not> stuck)"
  by (induction ds) (auto split: if_splits)

definition onto_head :: "char \<Rightarrow> string list \<Rightarrow> string list" where
  "onto_head c ps = (case ps of [] \<Rightarrow> [[c]] | p # qs \<Rightarrow> (c # p) # qs)"

function split_pieces :: "string list \<Rightarrow> bool \<Rightarrow> string \<Rightarrow> string list" where
  "split_pieces ds stuck s =
     (case first_delimiter ds stuck s of
        Some d \<Rightarrow> [] # split_pieces ds (d = []) (drop (length d) s)
      | None \<Rightarrow> if s = [] then [[]] else onto_head (hd s) (split_pieces ds False (tl s)))"
  by pat_completeness auto
termination
proof (relation "measure (\<lambda>(ds, stuck, s). 2 * length s + (if stuck then 0 else 1))")
  fix ds :: "string list" and stuck :: bool and s d :: string
  assume "first_delimiter ds stuck s = Some d"
  from first_delimiter_SomeD [OF this] obtain t where "s = d @ t" and "d = [] \<longrightarrow> \<not> stuck"
    by (auto simp: starts_with_iff)
  then show "((ds, d = [], drop (length d) s), ds, stuck, s)
      \<in> measure (\<lambda>(ds, stuck, s). 2 * length s + (if stuck then 0 else 1))"
    by (cases d) auto
qed (auto simp: neq_Nil_conv)

declare split_pieces.simps [simp del]

record split_param =
  sp_split_ref :: string
  sp_delimiters :: "string list"

text \<open>\<open>_split\<close>; \<open>line\<close> is the argument of a debugging call, else the variable is read.\<close>

definition invoke_split ::
  "pyenv \<Rightarrow> string \<Rightarrow> split_param \<Rightarrow> val \<Rightarrow> ('x) vars_scheme \<Rightarrow> agent_error + ('x) vars_scheme" where
  "invoke_split P cid p line C =
     sum_bind (if truthy line then Inr line else get_variable_value P (sp_split_ref p) C) (\<lambda>v.
       case (if truthy v then v else VStr []) of
         VStr s \<Rightarrow> Inr (set_output cid ''result'' (VList (map VStr (split_pieces (sp_delimiters p) False s))) C)
       | _ \<Rightarrow> Inl (ValueErr ''The input variable is not a string''))"

subsection \<open>The streamed message\<close>

text \<open>
  \<open>_stream\<close> on the pieces of the content: a chunk for the text in front of each reference, one for the
  value (remembered in \<open>cache\<close>), one for the rest of the text, if any.
\<close>

fun stream_chunks ::
  "pyenv \<Rightarrow> ('x) vars_scheme \<Rightarrow> (string \<times> string) list \<Rightarrow> string \<Rightarrow> piece list \<Rightarrow> agent_error + string list" where
  "stream_chunks P C cache text [] = Inr (if text = [] then [] else [text])"
| "stream_chunks P C cache text (Lit c # ps) = stream_chunks P C cache (text @ [c]) ps"
| "stream_chunks P C cache text (Ref g # ps) =
     (case map_of cache g of
        Some v \<Rightarrow> sum_bind (stream_chunks P C cache [] ps) (\<lambda>cs. Inr (text # v # cs))
      | None \<Rightarrow> sum_bind (get_variable_value P g C) (\<lambda>v.
          sum_bind (stream_chunks P C ((g, replacement P v) # cache) [] ps) (\<lambda>cs.
            Inr (text # replacement P v # cs))))"

definition stream_message :: "pyenv \<Rightarrow> string \<Rightarrow> string \<Rightarrow> ('x) vars_scheme \<Rightarrow> agent_error + string list \<times> ('x) vars_scheme" where
  "stream_message P cid content C =
     sum_bind (stream_chunks P C [] [] (pieces content)) (\<lambda>cs.
       Inr (cs, set_output cid ''content'' (VStr (concat cs)) C))"

subsection \<open>Categories\<close>

record category =
  ca_name :: string
  ca_description :: string
  ca_examples :: "string list"
  ca_to :: "string list"

text \<open>\<open>s.count(p)\<close>: occurrences that do not overlap.\<close>

function str_count :: "string \<Rightarrow> string \<Rightarrow> nat" where
  "str_count p s =
     (if p = [] then Suc (length s)
      else if s = [] then 0
      else if starts_with p s then Suc (str_count p (drop (length p) s))
      else str_count p (tl s))"
  by pat_completeness auto
termination
  by (relation "measure (\<lambda>(p, s). length s)") (auto simp: neq_Nil_conv)

declare str_count.simps [simp del]

definition category_count :: "pyenv \<Rightarrow> string \<Rightarrow> category \<Rightarrow> nat" where
  "category_count P ans c = str_count (py_lower P (ca_name c)) (py_lower P ans)"

text \<open>\<open>max\<close> with a key: the first of the largest.\<close>

fun first_max :: "('c \<Rightarrow> nat) \<Rightarrow> 'c \<Rightarrow> 'c list \<Rightarrow> 'c" where
  "first_max f b [] = b"
| "first_max f b (c # cs) = first_max f (if f b < f c then c else b) cs"

definition choose_category :: "pyenv \<Rightarrow> string \<Rightarrow> category list \<Rightarrow> category" where
  "choose_category P ans cats =
     (if \<exists>c\<in>set cats. 0 < category_count P ans c
      then first_max (category_count P ans) (hd cats) (tl cats) else last cats)"

definition category_check :: "int \<Rightarrow> category list \<Rightarrow> bool" where
  "category_check window cats \<longleftrightarrow> 0 < window \<and> cats \<noteq> [] \<and> (\<forall>c\<in>set cats. ca_name c \<noteq> [] \<and> ca_to c \<noteq> [])"

text \<open>The prompts.  \<open>nl\<close> is a line break, \<open>arrow\<close> the right arrow in UTF-8.\<close>

abbreviation nl :: string where "nl \<equiv> [CHR 0x0A]"

definition arrow :: string where
  "arrow = [CHR 0xE2, CHR 0x86, CHR 0x92]"

fun join_with :: "string \<Rightarrow> string list \<Rightarrow> string" where
  "join_with sep [] = []"
| "join_with sep [s] = s"
| "join_with sep (s # t # ss) = s @ sep @ join_with sep (t # ss)"

definition example_line :: "string \<Rightarrow> string \<Rightarrow> string" where
  "example_line c line =
     ''USER: '' @ [CHR 0x22] @ str_replace nl ''    '' line @ [CHR 0x22] @ '' '' @ arrow @ '' '' @ c"

definition example_lines :: "category list \<Rightarrow> string list" where
  "example_lines cats =
     concat (map (\<lambda>c. map (example_line (ca_name c)) (filter (\<lambda>l. l \<noteq> []) (ca_examples c))) cats)"

definition description_lines :: "category list \<Rightarrow> string list" where
  "description_lines cats =
     map (\<lambda>c. nl @ ''------'' @ nl @ ''Category: '' @ ca_name c @ nl @ ''Description: '' @ ca_description c)
       (filter (\<lambda>c. ca_description c \<noteq> []) cats)"

definition category_prompt :: "category list \<Rightarrow> string" where
  "category_prompt cats =
     nl @ ''You are an advanced classification system that categorizes user questions into specific types. ''
     @ ''Analyze the input question and classify it into ONE of the following categories:'' @ nl
     @ join_with (nl @ '' - '') (map ca_name cats) @ nl @ nl
     @ ''Here'' @ [CHR 0x27] @ ''s description of each category:'' @ nl @ '' - ''
     @ join_with nl (description_lines cats) @ nl @ nl
     @ ''---- Instructions ----'' @ nl
     @ '' - Consider both explicit mentions and implied context'' @ nl
     @ '' - Prioritize the most specific applicable category'' @ nl
     @ '' - Return only the category name without explanations'' @ nl
     @ '' - Use '' @ [CHR 0x22] @ ''Other'' @ [CHR 0x22] @ '' only when no other category fits'' @ nl @ nl @ '' ''
     @ (if example_lines cats = [] then []
        else nl @ ''---- Examples ----'' @ nl @ join_with nl (example_lines cats) @ nl)"

text \<open>A message is a role and its content, which must be text to be put into the prompt.\<close>

definition question_line :: "pyenv \<Rightarrow> string \<times> val \<Rightarrow> agent_error + string" where
  "question_line P = (\<lambda>(role, content).
     case content of
       VStr s \<Rightarrow> Inr (str_upper role @ '': '' @ [CHR 0x22] @ str_replace nl [] s @ [CHR 0x22])
     | _ \<Rightarrow> Inl TypeErr)"

definition question_prompt :: "pyenv \<Rightarrow> (string \<times> val) list \<Rightarrow> agent_error + string" where
  "question_prompt P msgs =
     sum_bind (sum_map (question_line P) msgs) (\<lambda>ls.
       Inr (nl @ ''---- Real Data ----'' @ nl @ join_with '' | '' ls @ '' '' @ arrow @ nl))"

text \<open>\<open>get_history\<close> of the canvas: the last turns, a dictionary by its entry \<open>content\<close>.\<close>

definition history_content :: "pyenv \<Rightarrow> val \<Rightarrow> val" where
  "history_content P v =
     (case v of
        VDict d \<Rightarrow> (case map_of d ''content'' of None \<Rightarrow> VStr [] | Some c \<Rightarrow> c)
      | _ \<Rightarrow> VStr (py_str P v))"

definition history_window :: "pyenv \<Rightarrow> int \<Rightarrow> (string \<times> val) list \<Rightarrow> (string \<times> val) list" where
  "history_window P window hist =
     (if window \<le> 0 then []
      else map (\<lambda>(r, v). (r, history_content P v)) (drop (length hist - nat (2 * window)) hist))"

record categorize_param =
  cp_query :: string
  cp_window :: int
  cp_categories :: "category list"

text \<open>
  \<open>chat\<close> answers the system prompt and the question; an answer with the prefix of errors is raised.
\<close>

definition error_prefix :: string where
  "error_prefix = ''**ERROR**''"

definition invoke_categorize ::
  "pyenv \<Rightarrow> (string \<Rightarrow> string \<Rightarrow> agent_error + string) \<Rightarrow> string \<Rightarrow> categorize_param \<Rightarrow> (string \<times> val) list
     \<Rightarrow> ('x) vars_scheme \<Rightarrow> agent_error + ('x) vars_scheme" where
  "invoke_categorize P chat cid p hist C =
     (let msgs = history_window P (cp_window p) hist; msgs = (if msgs = [] then [(''user'', VStr [])] else msgs) in
      sum_bind (get_variable_value P (str_or (cp_query p) ''sys.query'') C) (\<lambda>v.
        let q = (if v = VNone then VStr [] else v) in
        sum_bind (question_prompt P (butlast msgs @ [(fst (last msgs), q)])) (\<lambda>prompt.
          sum_bind (chat (category_prompt (cp_categories p)) prompt) (\<lambda>ans.
            if str_in error_prefix ans then Inl (ValueErr ans)
            else let c = choose_category P ans (cp_categories p) in
              Inr (set_output cid ''_next'' (VList (map VStr (ca_to c)))
                (set_output cid ''category_name'' (VStr (ca_name c)) C))))))"

end
