(* ===== verification/AgentCanvas.thy ===== *)
theory AgentCanvas
  imports AgentText
begin

text \<open>
  The canvas of the agent engine (\<open>canvas.py\<close>: \<open>Graph\<close>, \<open>Canvas\<close>; \<open>base.py\<close>: \<open>ComponentBase\<close>): the graph of
  components, the state of a conversation, and one call of a component with its error handling.
  Cancellation, and values that are streams, are not modelled.
\<close>

subsection \<open>The graph\<close>

text \<open>
  The components that are modelled, with their parameters, and the others by their name in lower case;
  \<open>DataOperations\<close> with \<open>combine\<close>, which shares lists with its inputs, counts among the others.
\<close>

datatype kind =
    Begin string                   \<comment> \<open>its mode\<close>
  | ListOperations list_param
  | DataOperations data_param
  | VariableAssigner "assignment list"
  | VariableAggregator "group list"
  | StringSplit split_param
  | Categorize categorize_param
  | Switch "switch_cond list" "string list"
  | Iteration string "(string \<times> string \<times> string) list"
  | IterationItem
  | Loop loop "(string \<times> string \<times> val \<times> string) list"
  | LoopItem
  | ExitLoop
  | Elsewhere string

text \<open>\<open>component_name.lower()\<close>.\<close>

fun kind_name :: "kind \<Rightarrow> string" where
  "kind_name (Begin mode) = ''begin''"
| "kind_name (ListOperations p) = ''listoperations''"
| "kind_name (DataOperations p) = ''dataoperations''"
| "kind_name (VariableAssigner as) = ''variableassigner''"
| "kind_name (VariableAggregator gs) = ''variableaggregator''"
| "kind_name (StringSplit p) = ''stringtransform''"
| "kind_name (Categorize p) = ''categorize''"
| "kind_name (Switch conds ends) = ''switch''"
| "kind_name (Iteration ref refs) = ''iteration''"
| "kind_name IterationItem = ''iterationitem''"
| "kind_name (Loop l items) = ''loop''"
| "kind_name LoopItem = ''loopitem''"
| "kind_name ExitLoop = ''exitloop''"
| "kind_name (Elsewhere nm) = nm"

text \<open>
  \<open>c_refs\<close>: the components that the texts of this one refer to (\<open>_cpn_id\<close> of its input elements).
\<close>

record cpn =
  c_kind :: kind
  c_parent :: "string option"
  c_downstream :: "string list"
  c_refs :: "string list"
  c_exception_method :: string
  c_exception_goto :: "string list"
  c_exception_default :: val

type_synonym graph = "(string \<times> cpn) list"

abbreviation type_of :: "cpn \<Rightarrow> string" where
  "type_of c \<equiv> kind_name (c_kind c)"

text \<open>
  \<open>get_parent\<close>: none, or a component that must exist; \<open>get_start\<close>: the first item inside, \<open>None\<close> being the
  empty id, which no component has.
\<close>

definition get_parent :: "graph \<Rightarrow> cpn \<Rightarrow> agent_error + (string \<times> cpn) option" where
  "get_parent G c =
     (case c_parent c of
        None \<Rightarrow> Inr None
      | Some pid \<Rightarrow> (case map_of G pid of None \<Rightarrow> Inl TypeErr | Some p \<Rightarrow> Inr (Some (pid, p))))"

definition inside_of :: "graph \<Rightarrow> string \<Rightarrow> (string \<times> cpn) list" where
  "inside_of G pid = filter (\<lambda>(cid, c). c_parent c = Some pid) G"

definition start_of :: "graph \<Rightarrow> string \<Rightarrow> string \<Rightarrow> string" where
  "start_of G item pid =
     (case find (\<lambda>(cid, c). type_of c = item) (inside_of G pid) of None \<Rightarrow> [] | Some (cid, c) \<Rightarrow> cid)"

definition get_start :: "graph \<Rightarrow> string \<Rightarrow> cpn \<Rightarrow> agent_error + string" where
  "get_start G pid p =
     (case c_kind p of
        Iteration _ _ \<Rightarrow> Inr (start_of G ''iterationitem'' pid)
      | Loop _ _ \<Rightarrow> Inr (start_of G ''loopitem'' pid)
      | _ \<Rightarrow> Inl TypeErr)"

definition iteration_of :: "graph \<Rightarrow> string \<Rightarrow> string \<Rightarrow> (string \<times> string \<times> string) list \<Rightarrow> iteration" where
  "iteration_of G pid ref refs =
     \<lparr>it_id = pid, it_items_ref = ref, it_refs = refs, it_children = map fst (inside_of G pid)\<rparr>"

subsection \<open>The state\<close>

text \<open>
  Beside the variables: \<open>_idx\<close> of the items, the path, the history, the declared variables of the
  environment (name, type and value), and the number of readings of the clock.
\<close>

record canvas = vars +
  cv_idx :: "string \<Rightarrow> int"
  cv_path :: "string list"
  cv_history :: "(string \<times> val) list"
  cv_variables :: "(string \<times> string \<times> val) list"
  cv_ticks :: nat

text \<open>
  What the engine does not define itself: Python's library, the text of an exception, the clock
  and the date, \<open>get_component_name\<close>, the language model, the reading of the files of a form and of those
  attached to a question, and the components elsewhere, which get the
  inputs of the run and change the canvas or raise.
\<close>

record engine =
  e_py :: pyenv
  e_exc :: "agent_error \<Rightarrow> string"
  e_clock :: "nat \<Rightarrow> rat"
  e_date :: "nat \<Rightarrow> string"
  e_names :: "string \<Rightarrow> string"
  e_chat :: "string \<Rightarrow> string \<Rightarrow> agent_error + string"
  e_files :: "val \<Rightarrow> val"
  e_attach :: "val \<Rightarrow> val"
  e_invoke :: "string \<Rightarrow> val \<Rightarrow> canvas \<Rightarrow> canvas \<times> agent_error option"

definition tick_clock :: "engine \<Rightarrow> canvas \<Rightarrow> rat \<times> canvas" where
  "tick_clock E C = (e_clock E (cv_ticks C), C\<lparr>cv_ticks := Suc (cv_ticks C)\<rparr>)"

text \<open>\<open>reset(True)\<close> of every component: the outputs keep their names and lose their values.\<close>

definition reset_outputs :: "('x) vars_scheme \<Rightarrow> ('x) vars_scheme" where
  "reset_outputs C = C\<lparr>v_outputs := (\<lambda>cid. map_option (map (\<lambda>(k, v). (k, VNone))) (v_outputs C cid))\<rparr>"

text \<open>\<open>Canvas.reset\<close>, on the globals.  A Boolean is an \<open>int\<close>.\<close>

definition blank :: "val \<Rightarrow> val" where
  "blank v =
     (case v of
        VStr _ \<Rightarrow> VStr []
      | VBool _ \<Rightarrow> VInt 0
      | VInt _ \<Rightarrow> VInt 0
      | VFloat _ \<Rightarrow> VInt 0
      | VList _ \<Rightarrow> VList []
      | VDict _ \<Rightarrow> VDict []
      | VNone \<Rightarrow> VNone)"

definition blank_of_type :: "string \<Rightarrow> val option" where
  "blank_of_type ty =
     (if ty = ''string'' then Some (VStr [])
      else if ty = ''number'' then Some (VInt 0)
      else if ty = ''boolean'' then Some (VBool False)
      else if ty = ''object'' then Some (VDict [])
      else if starts_with ''array'' ty then Some (VList [])
      else None)"

definition reset_global :: "(string \<times> string \<times> val) list \<Rightarrow> string \<times> val \<Rightarrow> string \<times> val" where
  "reset_global vars = (\<lambda>(k, v).
     (k, if starts_with ''sys.'' k then blank v
         else if starts_with ''env.'' k then
           (case map_of vars (drop 4 k) of
              None \<Rightarrow> VStr []
            | Some (ty, _) \<Rightarrow> (case blank_of_type ty of None \<Rightarrow> VStr [] | Some w \<Rightarrow> w))
         else v))"

definition reset_variable :: "(string \<times> val) list \<Rightarrow> string \<times> string \<times> val \<Rightarrow> string \<times> string \<times> val" where
  "reset_variable globals = (\<lambda>(k, ty, v).
     (k, ty, if ''env.'' @ k \<in> fst ` set globals
             then (case blank_of_type ty of None \<Rightarrow> v | Some w \<Rightarrow> w) else v))"

definition reset_canvas :: "bool \<Rightarrow> canvas \<Rightarrow> canvas" where
  "reset_canvas mem C =
     (let C1 = reset_outputs C in
      C1\<lparr>cv_path := [], cv_history := (if mem then cv_history C else []),
         v_globals := map (reset_global (cv_variables C)) (v_globals C),
         cv_variables := map (reset_variable (v_globals C)) (cv_variables C)\<rparr>)"

text \<open>
  A turn of the conversation enters the history and, as text, the global \<open>sys.history\<close>, which must be a list.
\<close>

definition add_history :: "pyenv \<Rightarrow> string \<Rightarrow> val \<Rightarrow> canvas \<Rightarrow> agent_error + canvas" where
  "add_history P role v C =
     (case map_of (v_globals C) ''sys.history'' of
        Some (VList hs) \<Rightarrow>
          Inr (C\<lparr>cv_history := cv_history C @ [(role, v)],
                 v_globals := dict_put ''sys.history'' (VList (hs @ [VStr (role @ '': '' @ py_str P v)])) (v_globals C)\<rparr>)
      | Some _ \<Rightarrow> Inl TypeErr
      | None \<Rightarrow> Inl (BadKey ''sys.history''))"

definition is_reff :: "graph \<Rightarrow> string \<Rightarrow> ('x) vars_scheme \<Rightarrow> bool" where
  "is_reff G expr C =
     (let s = strip_char (CHR ''}'') (strip_char (CHR ''{'') expr) in
      if CHR ''@'' \<notin> set s then map_of (v_globals C) s \<noteq> None
      else case split_on (CHR ''@'') s of [cid, var] \<Rightarrow> map_of G cid \<noteq> None | _ \<Rightarrow> False)"

subsection \<open>A call of a component\<close>

definition lift_result :: "canvas \<Rightarrow> agent_error + canvas \<Rightarrow> canvas \<times> agent_error option" where
  "lift_result C r = (case r of Inl e \<Rightarrow> (C, Some e) | Inr C1 \<Rightarrow> (C1, None))"

definition unit_result :: "canvas \<times> (agent_error + unit) \<Rightarrow> canvas \<times> agent_error option" where
  "unit_result = (\<lambda>(C, r). (C, case r of Inl e \<Rightarrow> Some e | Inr _ \<Rightarrow> None))"

text \<open>\<open>str(type(v))\<close>.\<close>

definition type_text :: "val \<Rightarrow> string" where
  "type_text v =
     ''<class '' @ [CHR 0x27] @
       (case v of VNone \<Rightarrow> ''NoneType'' | VBool _ \<Rightarrow> ''bool'' | VInt _ \<Rightarrow> ''int'' | VFloat _ \<Rightarrow> ''float''
        | VStr _ \<Rightarrow> ''str'' | VList _ \<Rightarrow> ''list'' | VDict _ \<Rightarrow> ''dict'') @ [CHR 0x27] @ ''>''"

text \<open>
  \<open>Begin._invoke\<close>: an input is a dictionary with its value; files are read.  The inputs before one that
  raises are kept.
\<close>

definition input_value :: "engine \<Rightarrow> val \<Rightarrow> agent_error + val" where
  "input_value E v =
     (case v of
        VDict d \<Rightarrow>
          (case (case map_of d ''type'' of None \<Rightarrow> VStr [] | Some t \<Rightarrow> t) of
             VStr t \<Rightarrow>
               if str_in ''file'' (py_lower (e_py E) t) then
                 if truthy (dict_value d ''optional'') \<and> dict_value d ''value'' = VNone then Inr VNone
                 else (case map_of d ''value'' of
                         None \<Rightarrow> Inl (BadKey ''value'')
                       | Some w \<Rightarrow> Inr (e_files E (case w of VList _ \<Rightarrow> w | _ \<Rightarrow> VList [w])))
               else Inr (dict_value d ''value'')
           | _ \<Rightarrow> Inl TypeErr)
      | _ \<Rightarrow> Inl TypeErr)"

fun set_inputs :: "engine \<Rightarrow> string \<Rightarrow> (string \<times> val) list \<Rightarrow> canvas \<Rightarrow> canvas \<times> agent_error option" where
  "set_inputs E cid [] C = (C, None)"
| "set_inputs E cid ((k, v) # ivs) C =
     (case input_value E v of
        Inl e \<Rightarrow> (C, Some e)
      | Inr w \<Rightarrow> set_inputs E cid ivs (set_output cid k w C))"

definition invoke_begin :: "engine \<Rightarrow> string \<Rightarrow> val \<Rightarrow> canvas \<Rightarrow> canvas \<times> agent_error option" where
  "invoke_begin E cid inputs C =
     (case inputs of VDict ivs \<Rightarrow> set_inputs E cid ivs C | _ \<Rightarrow> (C, Some TypeErr))"

text \<open>\<open>Iteration._invoke\<close> reports a wrong type without raising.\<close>

definition invoke_iteration :: "pyenv \<Rightarrow> string \<Rightarrow> string \<Rightarrow> canvas \<Rightarrow> canvas \<times> agent_error option" where
  "invoke_iteration P cid ref C =
     (case get_variable_value P ref C of
        Inl e \<Rightarrow> (C, Some e)
      | Inr (VList _) \<Rightarrow> (C, None)
      | Inr v \<Rightarrow> (set_output cid ''_ERROR'' (VStr (ref @ '' must be an array, but its type is '' @ type_text v)) C, None))"

definition call_iteration_item :: "engine \<Rightarrow> graph \<Rightarrow> string \<Rightarrow> cpn \<Rightarrow> canvas \<Rightarrow> canvas \<times> agent_error option" where
  "call_iteration_item E G cid c C =
     (case get_parent G c of
        Inr (Some (pid, p)) \<Rightarrow>
          (case c_kind p of
             Iteration ref refs \<Rightarrow>
               (case invoke_iteration_item (e_py E) (iteration_of G pid ref refs) cid (cv_idx C cid) C of
                  (C1, idx1, err) \<Rightarrow> (C1\<lparr>cv_idx := (cv_idx C1)(cid := idx1)\<rparr>, err))
           | _ \<Rightarrow> (C, Some TypeErr))
      | _ \<Rightarrow> (C, Some TypeErr))"

definition call_loop_item :: "graph \<Rightarrow> string \<Rightarrow> cpn \<Rightarrow> canvas \<Rightarrow> canvas \<times> agent_error option" where
  "call_loop_item G cid c C =
     (case get_parent G c of
        Inr (Some (pid, p)) \<Rightarrow>
          (case c_kind p of
             Loop l items \<Rightarrow> (C\<lparr>cv_idx := (cv_idx C)(cid := invoke_loop_item l (cv_idx C cid))\<rparr>, None)
           | _ \<Rightarrow> (C, Some TypeErr))
      | _ \<Rightarrow> (C, Some TypeErr))"

definition call_inner ::
  "engine \<Rightarrow> graph \<Rightarrow> string \<Rightarrow> cpn \<Rightarrow> val \<Rightarrow> canvas \<Rightarrow> canvas \<times> agent_error option" where
  "call_inner E G cid c inputs C =
     (let P = e_py E in
      case c_kind c of
        Begin mode \<Rightarrow> invoke_begin E cid inputs C
      | ListOperations p \<Rightarrow> lift_result C (invoke_list P cid p C)
      | DataOperations p \<Rightarrow>
          if dp_operation p = ''combine'' then e_invoke E cid inputs C else lift_result C (invoke_data P cid p C)
      | VariableAssigner as \<Rightarrow> unit_result (assign_all P as C)
      | VariableAggregator gs \<Rightarrow> unit_result (invoke_aggregator P cid gs C)
      | StringSplit p \<Rightarrow> lift_result C (invoke_split P cid p VNone C)
      | Categorize p \<Rightarrow> lift_result C (invoke_categorize P (e_chat E) cid p (cv_history C) C)
      | Switch conds ends \<Rightarrow> lift_result C (invoke_switch P (e_names E) cid conds ends C)
      | Iteration ref refs \<Rightarrow> invoke_iteration P cid ref C
      | IterationItem \<Rightarrow> call_iteration_item E G cid c C
      | Loop l items \<Rightarrow> unit_result (invoke_loop P cid items C)
      | LoopItem \<Rightarrow> call_loop_item G cid c C
      | ExitLoop \<Rightarrow> (C, None)
      | Elsewhere nm \<Rightarrow> e_invoke E cid inputs C)"

text \<open>\<open>get_exception_default_value\<close>.\<close>

definition comment_default :: "cpn \<Rightarrow> val" where
  "comment_default c = (if c_exception_method c = ''comment'' then c_exception_default c else VStr [])"

text \<open>\<open>invoke\<close>: the times are outputs, too, and an exception becomes a default or the output \<open>_ERROR\<close>.\<close>

definition invoke :: "engine \<Rightarrow> graph \<Rightarrow> string \<Rightarrow> cpn \<Rightarrow> val \<Rightarrow> canvas \<Rightarrow> canvas" where
  "invoke E G cid c inputs C0 =
     (let (t0, C1) = tick_clock E C0;
          (C2, err) = call_inner E G cid c inputs (set_output cid ''_created_time'' (VFloat t0) C1);
          C3 = (case err of
                  None \<Rightarrow> C2
                | Some e \<Rightarrow>
                    if truthy (comment_default c) then set_output cid ''result'' (comment_default c) C2
                    else set_output cid ''_ERROR'' (VStr (e_exc E e)) C2);
          (t1, C4) = tick_clock E C3
      in set_output cid ''_elapsed_time'' (VFloat (rnd (e_py E) (t1 - t0))) C4)"

text \<open>\<open>error\<close>.\<close>

definition error_of :: "string \<Rightarrow> ('x) vars_scheme \<Rightarrow> val" where
  "error_of cid C = dict_value (outputs_of cid C) ''_ERROR''"

end
