(* ===== verification/AgentRun.thy ===== *)
theory AgentRun
  imports AgentCanvas
begin

text \<open>
  \<open>Canvas.run\<close> (\<open>canvas.py\<close>): the scheduler of the agent engine.  A run works on the path of the canvas in
  rounds: the components behind the index are called together, then each of them, in the order of the
  path, appends its successors.  The calls of a round run in threads; the model runs them one after
  another in any order, which \<open>ord\<close> gives for each round.
\<close>

subsection \<open>Events and state of a run\<close>

datatype event =
    WorkflowStarted
  | NodeStarted string
  | NodeFinished string val
  | MessageEvent val
  | MessageEnd
  | UserInputs "string list"
  | WorkflowFinished val

record run =
  r_canvas :: canvas
  r_idx :: nat
  r_error :: val
  r_events :: "event list"

text \<open>The arguments of a run; \<^term>\<open>VNone\<close>, and an empty payload, is an argument that is missing.\<close>

record run_args =
  ra_query :: val
  ra_user_id :: val
  ra_files :: val
  ra_inputs :: val
  ra_webhook_payload :: "(string \<times> val) list"

abbreviation run_path :: "run \<Rightarrow> string list" where
  "run_path R \<equiv> cv_path (r_canvas R)"

definition emit :: "event \<Rightarrow> run \<Rightarrow> run" where
  "emit ev R = R\<lparr>r_events := r_events R @ [ev]\<rparr>"

definition set_path :: "string list \<Rightarrow> run \<Rightarrow> run" where
  "set_path p R = R\<lparr>r_canvas := (r_canvas R)\<lparr>cv_path := p\<rparr>\<rparr>"

lemma emit_simps [simp]:
  "r_canvas (emit ev R) = r_canvas R" "r_idx (emit ev R) = r_idx R" "r_error (emit ev R) = r_error R"
  "r_events (emit ev R) = r_events R @ [ev]"
  by (simp_all add: emit_def)

lemma set_path_simps [simp]:
  "r_canvas (set_path p R) = (r_canvas R)\<lparr>cv_path := p\<rparr>" "r_idx (set_path p R) = r_idx R"
  "r_error (set_path p R) = r_error R" "r_events (set_path p R) = r_events R"
  by (simp_all add: set_path_def)

definition component :: "graph \<Rightarrow> string \<Rightarrow> agent_error + cpn" where
  "component G cid = (case map_of G cid of None \<Rightarrow> Inl TypeErr | Some c \<Rightarrow> Inr c)"

subsection \<open>The start\<close>

text \<open>A component whose id names a form that waits for the user.\<close>

definition fillup_id :: "pyenv \<Rightarrow> string \<Rightarrow> bool" where
  "fillup_id P s = str_in ''userfillup'' (py_lower P s)"

definition put_payload :: "(string \<times> val) list \<Rightarrow> string \<times> cpn \<Rightarrow> canvas \<Rightarrow> canvas" where
  "put_payload payload = (\<lambda>(cid, c) C.
     if c_kind c = Begin ''Webhook''
     then fold (\<lambda>(k, v) C. if k = ''input'' then C else set_output cid k v C) payload C else C)"

definition set_global :: "string \<Rightarrow> val \<Rightarrow> canvas \<Rightarrow> canvas" where
  "set_global g v C = C\<lparr>v_globals := dict_put g v (v_globals C)\<rparr>"

definition count_turn :: "engine \<Rightarrow> canvas \<Rightarrow> agent_error + canvas" where
  "count_turn E C =
     (case map_of (v_globals C) ''sys.conversation_turns'' of
        None \<Rightarrow> Inl (BadKey ''sys.conversation_turns'')
      | Some v \<Rightarrow>
          (case (if truthy v then v else VInt 0) of
             VInt i \<Rightarrow> Inr (set_global ''sys.conversation_turns'' (VInt (i + 1)) C)
           | VBool b \<Rightarrow> Inr (set_global ''sys.conversation_turns'' (VInt 2) C)
           | VFloat x \<Rightarrow> Inr (set_global ''sys.conversation_turns'' (VFloat (rnd (e_py E) (x + 1))) C)
           | _ \<Rightarrow> Inl TypeErr))"

definition start_run :: "engine \<Rightarrow> graph \<Rightarrow> run_args \<Rightarrow> canvas \<Rightarrow> agent_error + run" where
  "start_run E G args C =
     sum_bind (add_history (e_py E) ''user'' (ra_query args)
       (set_global ''sys.date'' (VStr (e_date E (cv_ticks C))) C)) (\<lambda>C1.
     let C2 = reset_outputs C1;
         C3 = fold (put_payload (ra_webhook_payload args)) G C2;
         C4 = (if truthy (ra_query args) then set_global ''sys.query'' (ra_query args) C3 else C3);
         C5 = (if truthy (ra_user_id args) then set_global ''sys.user_id'' (ra_user_id args) C4 else C4);
         C6 = (if truthy (ra_files args) then set_global ''sys.files'' (e_attach E (ra_files args)) C5 else C5)
     in sum_bind (count_turn E C6) (\<lambda>C7.
       let path = cv_path C7;
           path1 = (if path = [] \<or> \<not> fillup_id (e_py E) (last path) then path @ [''begin''] else path)
       in Inr \<lparr>r_canvas = C7\<lparr>cv_path := path1\<rparr>, r_idx = length path1 - 1, r_error = VStr [],
                r_events = [WorkflowStarted]\<rparr>))"

subsection \<open>One round: the calls\<close>

text \<open>
  The components behind the index that are called: all forms, and the others if the components they refer
  to stand in front of them in the path, or if the path starts with a form.  The rest leaves the path.
\<close>

fun select_batch :: "graph \<Rightarrow> bool \<Rightarrow> string list \<Rightarrow> string list \<Rightarrow> agent_error + string list" where
  "select_batch G resumed front [] = Inr []"
| "select_batch G resumed front (cid # cids) =
     sum_bind (component G cid) (\<lambda>c.
       if type_of c \<in> {''begin'', ''userfillup''}
       then sum_bind (select_batch G resumed (front @ [cid]) cids) (\<lambda>ids. Inr (cid # ids))
       else case find (\<lambda>r. map_of G r = None) (c_refs c) of
         Some r \<Rightarrow> Inl (NoVariable r [])
       | None \<Rightarrow>
           if \<not> resumed \<and> list_ex (\<lambda>r. r \<notin> set front) (c_refs c) then select_batch G resumed front cids
           else sum_bind (select_batch G resumed (front @ [cid]) cids) (\<lambda>ids. Inr (cid # ids)))"

definition call :: "engine \<Rightarrow> graph \<Rightarrow> val \<Rightarrow> string \<Rightarrow> canvas \<Rightarrow> canvas" where
  "call E G inputs cid C = (case map_of G cid of None \<Rightarrow> C | Some c \<Rightarrow> invoke E G cid c inputs C)"

definition run_batch ::
  "engine \<Rightarrow> graph \<Rightarrow> (nat \<Rightarrow> string list \<Rightarrow> string list) \<Rightarrow> val \<Rightarrow> run \<Rightarrow> agent_error + string list \<times> run" where
  "run_batch E G ord inputs R =
     (let path = run_path R; front = take (r_idx R) path in
      sum_bind (select_batch G (fillup_id (e_py E) (hd path)) front (drop (r_idx R) path)) (\<lambda>ids.
        let R1 = set_path (front @ ids) R in
        Inr (ids, R1\<lparr>r_canvas := fold (call E G inputs) (ord (r_idx R) ids) (r_canvas R1)\<rparr>)))"

subsection \<open>One round: the successors\<close>

definition append_path :: "string \<Rightarrow> string list \<Rightarrow> string list" where
  "append_path cid path = (if last path = cid then path else path @ [cid])"

text \<open>Iterating over the output \<open>_next\<close>.\<close>

definition next_ids :: "val \<Rightarrow> agent_error + string list" where
  "next_ids v =
     (case v of
        VList vs \<Rightarrow> sum_map (\<lambda>x. case x of VStr s \<Rightarrow> Inr s | _ \<Rightarrow> Inl TypeErr) vs
      | VStr s \<Rightarrow> Inr (map (\<lambda>c. [c]) s)
      | VDict d \<Rightarrow> Inr (map fst d)
      | _ \<Rightarrow> Inl TypeErr)"

text \<open>\<open>end\<close> of an item, which for a loop evaluates its conditions.\<close>

definition item_end :: "engine \<Rightarrow> graph \<Rightarrow> string \<Rightarrow> cpn \<Rightarrow> canvas \<Rightarrow> agent_error + bool \<times> canvas" where
  "item_end E G cid c C =
     (case c_kind c of
        IterationItem \<Rightarrow> Inr (iteration_end (cv_idx C cid), C)
      | LoopItem \<Rightarrow>
          if cv_idx C cid = - 1 then Inr (True, C)
          else sum_bind (get_parent G c) (\<lambda>p.
            case p of
              None \<Rightarrow> Inl TypeErr
            | Some (pid, pc) \<Rightarrow>
                (case c_kind pc of
                   Loop l items \<Rightarrow>
                     sum_bind (loop_end (e_py E) l (cv_idx C cid) C) (\<lambda>(b, idx).
                       Inr (b, C\<lparr>cv_idx := (cv_idx C)(cid := idx)\<rparr>))
                 | _ \<Rightarrow> Inl TypeErr))
      | _ \<Rightarrow> Inr (False, C))"

text \<open>The ids that a component appends, unless its error sends the run elsewhere.\<close>

definition successors :: "engine \<Rightarrow> graph \<Rightarrow> string \<Rightarrow> cpn \<Rightarrow> canvas \<Rightarrow> agent_error + string list" where
  "successors E G cid c C =
     (if type_of c \<in> {''categorize'', ''switch''} then next_ids (output_of (outputs_of cid C) ''_next'')
      else if type_of c \<in> {''iteration'', ''loop''} then sum_bind (get_start G cid c) (\<lambda>s. Inr [s])
      else sum_bind (if type_of c = ''exitloop'' \<or> c_downstream c = [] then get_parent G c else Inr None) (\<lambda>p.
        if type_of c = ''exitloop'' \<and> p = None then Inl TypeErr
        else case p of
          Some (pid, pc) \<Rightarrow>
            if type_of c = ''exitloop'' \<and> type_of pc = ''loop'' then Inr (c_downstream pc)
            else if c_downstream c = [] then sum_bind (get_start G pid pc) (\<lambda>s. Inr [s])
            else Inr (c_downstream c)
        | None \<Rightarrow> Inr (c_downstream c)))"

definition finished :: "string \<Rightarrow> run \<Rightarrow> run" where
  "finished cid R = emit (NodeFinished cid (VDict (outputs_of cid (r_canvas R)))) R"

text \<open>
  A component after its call: its message, its error (the flag says that the run continues with the
  components of its handler), its end; an item that has ended makes its iteration or loop finish.
\<close>

definition handle_error :: "string \<Rightarrow> cpn \<Rightarrow> run \<Rightarrow> bool \<times> run" where
  "handle_error cid c R =
     (let err = error_of cid (r_canvas R) in
      if \<not> truthy err then (False, R)
      else if c_exception_method c \<noteq> [] \<and> c_exception_goto c \<noteq> []
      then (True, set_path (run_path R @ c_exception_goto c) R)
      else if c_exception_method c \<noteq> [] \<and> truthy (c_exception_default c)
      then (False, emit MessageEnd (emit (MessageEvent (c_exception_default c)) R))
      else (False, R\<lparr>r_error := err\<rparr>))"

definition say_message :: "string \<Rightarrow> cpn \<Rightarrow> run \<Rightarrow> run" where
  "say_message cid c R =
     (if type_of c = ''message''
      then emit MessageEnd (emit (MessageEvent (output_of (outputs_of cid (r_canvas R)) ''content'')) R) else R)"

definition goes_on :: "engine \<Rightarrow> graph \<Rightarrow> string \<Rightarrow> cpn \<Rightarrow> bool \<Rightarrow> run \<Rightarrow> agent_error + run" where
  "goes_on E G cid c elsewhere R =
     (if elsewhere \<and> type_of c \<in> {''categorize'', ''switch''} then Inr R
      else sum_bind (successors E G cid c (r_canvas R)) (\<lambda>ids.
        Inr (if elsewhere then R else set_path (fold append_path ids (run_path R)) R)))"

definition leaves_parent :: "graph \<Rightarrow> cpn \<Rightarrow> bool \<Rightarrow> run \<Rightarrow> agent_error + run" where
  "leaves_parent G c elsewhere R =
     sum_bind (get_parent G c) (\<lambda>p. case p of
       None \<Rightarrow> Inl TypeErr
     | Some (pid, pc) \<Rightarrow>
         let R1 = finished pid R in
         Inr (if elsewhere then R1 else set_path (fold append_path (c_downstream pc) (run_path R1)) R1))"

definition report :: "string \<Rightarrow> cpn \<Rightarrow> run \<Rightarrow> bool \<times> run" where
  "report cid c R =
     (let (elsewhere, R1) = handle_error cid c (say_message cid c R)
      in (elsewhere, if type_of c \<in> {''iteration'', ''loop''} then R1 else finished cid R1))"

definition after_call :: "engine \<Rightarrow> graph \<Rightarrow> string \<Rightarrow> run \<Rightarrow> agent_error + run" where
  "after_call E G cid R =
     sum_bind (component G cid) (\<lambda>c.
       let (elsewhere, R1) = report cid c R
       in sum_bind (item_end E G cid c (r_canvas R1)) (\<lambda>(ended, C).
         if ended then leaves_parent G c elsewhere (R1\<lparr>r_canvas := C\<rparr>)
         else goes_on E G cid c elsewhere (R1\<lparr>r_canvas := C\<rparr>)))"

subsection \<open>Rounds\<close>

datatype status = Running | Stopped | Waiting

text \<open>If a form comes next, the run stops: the forms are called and put in front.\<close>

definition wait_for_user :: "engine \<Rightarrow> graph \<Rightarrow> run \<Rightarrow> agent_error + run \<times> status" where
  "wait_for_user E G R =
     (let ids = drop (r_idx R) (run_path R) in
      sum_bind (sum_map (component G) ids) (\<lambda>cs.
        let forms = map fst (filter (\<lambda>(cid, c). type_of c = ''userfillup'') (zip ids cs));
            others = map fst (filter (\<lambda>(cid, c). type_of c \<noteq> ''userfillup'') (zip ids cs))
        in if forms = [] then Inr (R, Running)
           else let C = fold (call E G (VDict [])) forms (r_canvas R) in
                Inr (emit (UserInputs forms) (R\<lparr>r_canvas := C\<lparr>cv_path := forms @ others\<rparr>\<rparr>), Waiting)))"

definition run_round ::
  "engine \<Rightarrow> graph \<Rightarrow> (nat \<Rightarrow> string list \<Rightarrow> string list) \<Rightarrow> val \<Rightarrow> run \<Rightarrow> agent_error + run \<times> status" where
  "run_round E G ord inputs R =
     (let ids = drop (r_idx R) (run_path R) in
      sum_bind (sum_map (component G) ids) (\<lambda>_.
      sum_bind (run_batch E G ord inputs (fold (\<lambda>cid. emit (NodeStarted cid)) ids R)) (\<lambda>(kept, R1).
      sum_bind (sum_fold (after_call E G) kept R1) (\<lambda>R2.
        if truthy (r_error R2) then Inr (R2, Stopped)
        else wait_for_user E G (R2\<lparr>r_idx := r_idx R + length kept\<rparr>)))))"

text \<open>The end of a run: the path is cut, and the answer enters the history.\<close>

definition finish_run :: "engine \<Rightarrow> run \<Rightarrow> agent_error + run" where
  "finish_run E R =
     (let R1 = set_path (take (r_idx R) (run_path R)) R in
      if \<not> truthy (r_error R) then
        if run_path R1 = [] then Inl TypeErr
        else let out = VDict (outputs_of (last (run_path R1)) (r_canvas R1));
                 R2 = emit (WorkflowFinished out) R1
             in sum_bind (add_history (e_py E) ''assistant'' out (r_canvas R2)) (\<lambda>C. Inr (R2\<lparr>r_canvas := C\<rparr>))
      else case r_error R of
        VStr s \<Rightarrow> Inr (if str_in ''Task has been canceled'' s
                      then emit (WorkflowFinished (VStr ''Task has been canceled'')) R1 else R1)
      | VList vs \<Rightarrow> Inr (if VStr ''Task has been canceled'' \<in> set vs
                        then emit (WorkflowFinished (VStr ''Task has been canceled'')) R1 else R1)
      | VDict d \<Rightarrow> Inr (if map_of d ''Task has been canceled'' \<noteq> None
                       then emit (WorkflowFinished (VStr ''Task has been canceled'')) R1 else R1)
      | _ \<Rightarrow> Inl TypeErr)"

text \<open>The loop of \<open>run\<close>, which need not end, with fuel: one unit per round and one for the end.\<close>

fun run_rounds ::
  "engine \<Rightarrow> graph \<Rightarrow> (nat \<Rightarrow> string list \<Rightarrow> string list) \<Rightarrow> val \<Rightarrow> nat \<Rightarrow> run \<Rightarrow> (agent_error + run) option" where
  "run_rounds E G ord inputs 0 R = None"
| "run_rounds E G ord inputs (Suc n) R =
     (if r_idx R < length (run_path R) then
        case run_round E G ord inputs R of
          Inl e \<Rightarrow> Some (Inl e)
        | Inr (R1, Running) \<Rightarrow> run_rounds E G ord inputs n R1
        | Inr (R1, Stopped) \<Rightarrow> Some (finish_run E R1)
        | Inr (R1, Waiting) \<Rightarrow> Some (Inr R1)
      else Some (finish_run E R))"

definition canvas_run ::
  "engine \<Rightarrow> graph \<Rightarrow> (nat \<Rightarrow> string list \<Rightarrow> string list) \<Rightarrow> run_args \<Rightarrow> nat \<Rightarrow> canvas \<Rightarrow> (agent_error + run) option" where
  "canvas_run E G ord args n C =
     (case start_run E G args C of
        Inl e \<Rightarrow> Some (Inl e)
      | Inr R \<Rightarrow> run_rounds E G ord (if ra_inputs args = VNone then VDict [] else ra_inputs args) n R)"

text \<open>Every order of the calls of a round.\<close>

definition valid_order :: "(nat \<Rightarrow> string list \<Rightarrow> string list) \<Rightarrow> bool" where
  "valid_order ord \<longleftrightarrow> (\<forall>n xs. mset (ord n xs) = mset xs)"

inductive round_step :: "engine \<Rightarrow> graph \<Rightarrow> val \<Rightarrow> run \<Rightarrow> run \<Rightarrow> bool" for E G inputs where
  round: "\<lbrakk>valid_order ord; r_idx R < length (run_path R); run_round E G ord inputs R = Inr (R', Running)\<rbrakk>
    \<Longrightarrow> round_step E G inputs R R'"

inductive_cases round_stepE: "round_step E G inputs R R'"

end
