(* ===== verification/AgentSchedule.thy ===== *)
theory AgentSchedule
  imports AgentRun
begin

text \<open>
  What the calls of components and the rounds of a run leave alone, and the laws of the scheduler: the
  path only grows behind the index, and an invariant that every call keeps holds in all reachable states.
\<close>

subsection \<open>Components only change variables\<close>

text \<open>
  Every component that is modelled changes the outputs and globals only, whatever else the state holds,
  and no component gets outputs that had none.
\<close>

definition kept :: "'x vars_scheme \<Rightarrow> 'x \<times> string set" where
  "kept C = (vars.more C, dom (v_outputs C))"

lemma kept_update [simp]: "kept (C\<lparr>v_globals := g\<rparr>) = kept C"
  by (simp add: kept_def)

named_theorems same_kept

lemma kept_set_output [simp, same_kept]: "kept (set_output cid k v C) = kept C"
  by (auto simp: set_output_def kept_def split: if_splits)

lemma kept_set_variable [same_kept]: "set_variable_value s v C = Inr C' \<Longrightarrow> kept C' = kept C"
  by (auto simp: set_variable_value_def Let_def elim!: sum_bind_InrE split: var_ref.splits option.splits
      if_splits val.splits)

lemma kept_list [same_kept]: "invoke_list P cid p C = Inr C' \<Longrightarrow> kept C' = kept C"
  by (auto simp: invoke_list_def set_list_outputs_def elim!: sum_bind_InrE split: val.splits option.splits)

lemma kept_data [same_kept]: "invoke_data P cid p C = Inr C' \<Longrightarrow> kept C' = kept C"
  by (auto simp: invoke_data_def elim!: sum_bind_InrE)

lemma kept_split [same_kept]: "invoke_split P cid p line C = Inr C' \<Longrightarrow> kept C' = kept C"
  by (auto simp: invoke_split_def elim!: sum_bind_InrE split: val.splits)

lemma kept_categorize [same_kept]: "invoke_categorize P chat cid p hist C = Inr C' \<Longrightarrow> kept C' = kept C"
  by (auto simp: invoke_categorize_def Let_def elim!: sum_bind_InrE split: if_splits)

lemma kept_switch [same_kept]: "invoke_switch P names cid conds ends C = Inr C' \<Longrightarrow> kept C' = kept C"
  by (auto simp: invoke_switch_def elim!: sum_bind_InrE)

lemma kept_assign [same_kept]: "assign P a C = Inr C' \<Longrightarrow> kept C' = kept C"
  by (auto simp: assign_def elim!: sum_bind_InrE dest: kept_set_variable)

lemma kept_foldl:
  assumes "\<And>x C. kept (fst (f x C)) = kept C"
  shows "kept (fst (foldl (\<lambda>r x. and_then r (\<lambda>_. f x)) r xs)) = kept (fst r)"
proof (induction xs arbitrary: r)
  case (Cons x xs)
  show ?case using Cons [of "and_then r (\<lambda>_. f x)"] assms by (cases r) (auto simp: and_then_def split: sum.splits)
qed simp

lemma kept_assign_all [same_kept]: "kept (fst (assign_all P as C)) = kept C"
  unfolding assign_all_def
  by (subst kept_foldl) (auto split: sum.splits dest: kept_assign)

lemma kept_aggregator [same_kept]: "kept (fst (invoke_aggregator P cid gs C)) = kept C"
  unfolding invoke_aggregator_def
  by (subst kept_foldl) (auto simp: aggregate_group_def split: sum.splits option.splits)

lemma kept_loop [same_kept]: "kept (fst (invoke_loop P cid items C)) = kept C"
  unfolding invoke_loop_def
  by (subst kept_foldl)
    (auto simp: set_loop_variable_def with_text_def elim!: sum_bind_InrE split: sum.splits if_splits val.splits)

lemma kept_collation [same_kept]: "kept (fst (output_collation I C)) = kept C"
  unfolding output_collation_def
  by (subst kept_foldl) (auto simp: collect_output_def Let_def split: val.splits)

lemma kept_iteration_item [same_kept]:
  "kept (fst (invoke_iteration_item P I cid idx C)) = kept C"
  using kept_collation [of I C]
  by (auto simp: invoke_iteration_item_def split: sum.splits val.splits prod.splits option.splits)

subsection \<open>What a call leaves alone\<close>

definition frame :: "canvas \<Rightarrow> string list \<times> (string \<times> val) list \<times> (string \<times> string \<times> val) list \<times> string set" where
  "frame C = (cv_path C, cv_history C, cv_variables C, dom (v_outputs C))"

lemma kept_frame: "kept C = kept C' \<Longrightarrow> frame C = frame C'"
  by (cases C; cases C') (simp add: frame_def kept_def)

lemma frame_simps [simp]:
  "frame (set_output cid k v C) = frame C" "frame (C\<lparr>cv_idx := f\<rparr>) = frame C" "frame (C\<lparr>cv_ticks := n\<rparr>) = frame C"
  "frame (snd (tick_clock E C)) = frame C"
  by (auto simp: frame_def set_output_def tick_clock_def split: if_splits)

text \<open>
  The one law asked of the components elsewhere: they leave the path, the history and the declared
  variables alone, and give outputs to no component that had none.
\<close>

definition elsewhere_local :: "engine \<Rightarrow> bool" where
  "elsewhere_local E \<longleftrightarrow> (\<forall>cid inputs C. frame (fst (e_invoke E cid inputs C)) = frame C)"

lemma frame_lift: "(\<And>C'. r = Inr C' \<Longrightarrow> kept C' = kept C) \<Longrightarrow> frame (fst (lift_result C r)) = frame C"
  by (auto simp: lift_result_def intro: kept_frame split: sum.splits)

lemma frame_unit: "kept (fst x) = kept C \<Longrightarrow> frame (fst (unit_result x)) = frame C"
  by (auto simp: unit_result_def intro: kept_frame split: prod.splits)

lemma frame_set_inputs: "frame (fst (set_inputs E cid ivs C)) = frame C"
  by (induction ivs arbitrary: C) (auto split: sum.splits)

lemma frame_iteration_item: "frame (fst (call_iteration_item E G cid c C)) = frame C"
proof -
  have "frame (fst (invoke_iteration_item P I cid i C)) = frame C" for P I i
    by (rule kept_frame) (rule kept_iteration_item)
  then show ?thesis
    by (auto simp: call_iteration_item_def split: sum.splits option.splits prod.splits kind.splits) (metis fst_conv)
qed

lemma frame_call_inner:
  assumes "elsewhere_local E"
  shows "frame (fst (call_inner E G cid c inputs C)) = frame C"
  using assms frame_set_inputs frame_iteration_item
  by (auto simp: call_inner_def elsewhere_local_def invoke_begin_def invoke_iteration_def call_loop_item_def
      frame_lift frame_unit same_kept Let_def
      split: kind.splits val.splits sum.splits option.splits)

lemma frame_invoke:
  assumes "elsewhere_local E"
  shows "frame (invoke E G cid c inputs C) = frame C"
  using frame_call_inner [OF assms, of G cid c inputs]
  by (auto simp: invoke_def Let_def tick_clock_def split: prod.splits option.splits) (metis fst_conv frame_simps(1,3))+

lemma frame_call: "elsewhere_local E \<Longrightarrow> frame (call E G inputs cid C) = frame C"
  by (simp add: call_def frame_invoke split: option.split)

lemma frame_calls: "elsewhere_local E \<Longrightarrow> frame (fold (call E G inputs) cids C) = frame C"
  by (induction cids arbitrary: C) (simp_all add: frame_call)

subsection \<open>What follows a call\<close>

text \<open>After the calls of a round only the path grows, and the counters of loops change.\<close>

definition grows :: "run \<Rightarrow> run \<Rightarrow> bool" where
  "grows R R' \<longleftrightarrow> r_idx R' = r_idx R
     \<and> v_outputs (r_canvas R') = v_outputs (r_canvas R) \<and> v_globals (r_canvas R') = v_globals (r_canvas R)
     \<and> cv_history (r_canvas R') = cv_history (r_canvas R) \<and> cv_variables (r_canvas R') = cv_variables (r_canvas R)
     \<and> cv_ticks (r_canvas R') = cv_ticks (r_canvas R) \<and> (\<exists>p. run_path R' = run_path R @ p)"

lemma grows_same: "r_idx R' = r_idx R \<Longrightarrow> r_canvas R' = r_canvas R \<Longrightarrow> grows R R'"
  by (simp add: grows_def)

lemma grows_trans: "grows R1 R2 \<Longrightarrow> grows R2 R3 \<Longrightarrow> grows R1 R3"
  by (auto simp: grows_def)

lemma grows_path: "grows R R' \<Longrightarrow> \<exists>p. run_path R' = run_path R @ p"
  by (simp add: grows_def)

lemma grows_set_path: "grows R (set_path (run_path R @ p) R)"
  by (simp add: grows_def)

lemma append_paths: "\<exists>p. fold append_path ids path = path @ p"
proof (induction ids arbitrary: path)
  case (Cons i ids)
  from Cons [of "append_path i path"] show ?case by (auto simp: append_path_def split: if_splits)
qed simp

lemma grows_append_path: "grows R (set_path (fold append_path ids (run_path R)) R)"
  using append_paths [of ids "run_path R"] grows_set_path by metis

lemma grows_handle_error: "grows R (snd (handle_error cid c R))"
  by (auto simp: handle_error_def Let_def intro: grows_same grows_set_path)

lemma grows_finished: "grows R (finished cid R)"
  by (simp add: finished_def grows_same)

lemma grows_say: "grows R (say_message cid c R)"
  by (simp add: say_message_def grows_same)

lemma grows_item_end:
  assumes "item_end E G cid c (r_canvas R) = Inr (b, C)"
  shows "grows R (R\<lparr>r_canvas := C\<rparr>)"
proof -
  have "grows R (R\<lparr>r_canvas := (r_canvas R)\<lparr>cv_idx := f\<rparr>\<rparr>)" for f by (simp add: grows_def)
  moreover have "grows R (R\<lparr>r_canvas := r_canvas R\<rparr>)" by (simp add: grows_def)
  ultimately show ?thesis using assms
    by (auto simp: item_end_def elim!: sum_bind_InrE split: kind.splits if_splits option.splits)
qed

lemma grows_leaves_parent: "leaves_parent G c b R = Inr R' \<Longrightarrow> grows R R'"
  using grows_finished grows_trans [OF grows_finished grows_append_path]
  by (auto simp: leaves_parent_def Let_def elim!: sum_bind_InrE split: option.splits if_splits)

lemma grows_goes_on: "goes_on E G cid c b R = Inr R' \<Longrightarrow> grows R R'"
  by (auto simp: goes_on_def elim!: sum_bind_InrE split: if_splits intro: grows_append_path grows_same)

lemma grows_report: "grows R (snd (report cid c R))"
  using grows_trans [OF grows_say grows_handle_error, of R cid c]
    grows_trans [OF grows_trans [OF grows_say grows_handle_error, of R cid c] grows_finished]
  by (simp add: report_def case_prod_beta)

lemma grows_after_call:
  assumes "after_call E G cid R = Inr R'"
  shows "grows R R'"
proof -
  from assms obtain c where c: "component G cid = Inr c"
    by (auto simp: after_call_def elim: sum_bind_InrE)
  obtain b R1 where r: "report cid c R = (b, R1)" by (cases "report cid c R")
  with grows_report [of R cid c] have 1: "grows R R1" by simp
  from assms c r obtain e C where e: "item_end E G cid c (r_canvas R1) = Inr (e, C)"
    and t: "(if e then leaves_parent G c b (R1\<lparr>r_canvas := C\<rparr>) else goes_on E G cid c b (R1\<lparr>r_canvas := C\<rparr>)) = Inr R'"
    by (auto simp: after_call_def elim!: sum_bind_InrE)
  from t have "grows (R1\<lparr>r_canvas := C\<rparr>) R'"
    by (cases e) (auto intro: grows_leaves_parent grows_goes_on)
  with 1 grows_item_end [OF e] show ?thesis by (blast intro: grows_trans)
qed

lemma grows_after_calls: "sum_fold (after_call E G) ids R = Inr R' \<Longrightarrow> grows R R'"
  by (rule sum_fold_inv [where I = "grows R"]) (auto intro: grows_trans grows_after_call grows_same)

subsection \<open>One round\<close>

lemma select_batch_refs:
  assumes "select_batch G False front cids = Inr ids" and "j < length ids" and "map_of G (ids ! j) = Some c"
    and "type_of c \<notin> {''begin'', ''userfillup''}" and "r \<in> set (c_refs c)"
  shows "r \<in> set (front @ take j ids)"
  using assms
proof (induction cids arbitrary: front ids j)
  case (Cons cid cids)
  from Cons.prems(1) obtain c0 where c0: "component G cid = Inr c0" by (auto elim: sum_bind_InrE)
  then have m: "map_of G cid = Some c0" by (simp add: component_def split: option.splits)
  show ?case
  proof (cases "type_of c0 \<notin> {''begin'', ''userfillup''} \<and> list_ex (\<lambda>r. r \<notin> set front) (c_refs c0)")
    case True
    then have "select_batch G False front cids = Inr ids"
      using Cons.prems(1) c0 by (auto split: option.splits)
    then show ?thesis using Cons.IH Cons.prems(2-5) by blast
  next
    case False
    then obtain ids1 where i: "select_batch G False (front @ [cid]) cids = Inr ids1" "ids = cid # ids1"
      using Cons.prems(1) c0 by (auto split: option.splits if_splits elim!: sum_bind_InrE)
    show ?thesis
    proof (cases j)
      case 0
      then show ?thesis using False Cons.prems(3-5) i(2) m by (auto simp: list_ex_iff)
    next
      case (Suc k)
      then show ?thesis using Cons.IH [OF i(1), of k] Cons.prems(2-5) i(2) by auto
    qed
  qed
qed simp

lemma run_roundE:
  assumes "run_round E G ord inputs R = Inr (R', st)"
  obtains kept R1 R2 where
    "select_batch G (fillup_id (e_py E) (hd (run_path R))) (take (r_idx R) (run_path R)) (drop (r_idx R) (run_path R)) = Inr kept"
    "r_idx R1 = r_idx R" "r_error R1 = r_error R"
    "r_canvas R1 = fold (call E G inputs) (ord (r_idx R) kept) ((r_canvas R)\<lparr>cv_path := take (r_idx R) (run_path R) @ kept\<rparr>)"
    "sum_fold (after_call E G) kept R1 = Inr R2"
    "if truthy (r_error R2) then R' = R2 \<and> st = Stopped
     else wait_for_user E G (R2\<lparr>r_idx := r_idx R + length kept\<rparr>) = Inr (R', st)"
proof -
  define R0 where "R0 = fold (\<lambda>cid. emit (NodeStarted cid)) (drop (r_idx R) (run_path R)) R"
  have "r_canvas (fold (\<lambda>cid. emit (NodeStarted cid)) ids R) = r_canvas R
      \<and> r_idx (fold (\<lambda>cid. emit (NodeStarted cid)) ids R) = r_idx R
      \<and> r_error (fold (\<lambda>cid. emit (NodeStarted cid)) ids R) = r_error R" for ids
    by (induction ids arbitrary: R) simp_all
  then have 0: "r_canvas R0 = r_canvas R" "r_idx R0 = r_idx R" "r_error R0 = r_error R" by (simp_all add: R0_def)
  from assms obtain kept R1 R2 where
    b: "run_batch E G ord inputs R0 = Inr (kept, R1)" and f: "sum_fold (after_call E G) kept R1 = Inr R2"
    and w: "(if truthy (r_error R2) then Inr (R2, Stopped)
      else wait_for_user E G (R2\<lparr>r_idx := r_idx R + length kept\<rparr>)) = Inr (R', st)"
    by (auto simp: run_round_def Let_def R0_def [symmetric] elim!: sum_bind_InrE)
  show thesis
    by (rule that [of kept R1 R2])
      (use b f w 0 in \<open>auto simp: run_batch_def Let_def elim!: sum_bind_InrE split: if_splits\<close>)
qed

lemma wait_running:
  "wait_for_user E G R = Inr (R', Running) \<Longrightarrow> R' = R"
  by (auto simp: wait_for_user_def Let_def elim!: sum_bind_InrE split: if_splits)

text \<open>The path behind a round that goes on: what was behind the index, what was called, and new ids.\<close>

lemma round_step_path:
  assumes "round_step E G inputs R R'" and "elsewhere_local E"
  obtains kept new where
    "select_batch G (fillup_id (e_py E) (hd (run_path R))) (take (r_idx R) (run_path R)) (drop (r_idx R) (run_path R)) = Inr kept"
    "run_path R' = take (r_idx R) (run_path R) @ kept @ new" "r_idx R' = r_idx R + length kept"
    "r_idx R < length (run_path R)" "kept = [] \<longrightarrow> new = []"
proof -
  from assms(1) obtain ord where idx: "r_idx R < length (run_path R)"
    and "run_round E G ord inputs R = Inr (R', Running)" by (auto elim: round_stepE)
  from this(2) show thesis
  proof (rule run_roundE)
    fix kept R1 R2
    assume s: "select_batch G (fillup_id (e_py E) (hd (run_path R))) (take (r_idx R) (run_path R)) (drop (r_idx R) (run_path R)) = Inr kept"
      and c: "r_canvas R1 = fold (call E G inputs) (ord (r_idx R) kept) ((r_canvas R)\<lparr>cv_path := take (r_idx R) (run_path R) @ kept\<rparr>)"
      and f: "sum_fold (after_call E G) kept R1 = Inr R2"
      and w: "if truthy (r_error R2) then R' = R2 \<and> Running = Stopped
        else wait_for_user E G (R2\<lparr>r_idx := r_idx R + length kept\<rparr>) = Inr (R', Running)"
    have "run_path R1 = take (r_idx R) (run_path R) @ kept"
      using frame_calls [OF assms(2)] by (simp add: c frame_def)
    moreover obtain new where "run_path R2 = run_path R1 @ new" "kept = [] \<longrightarrow> new = []"
      using grows_path [OF grows_after_calls [OF f]] f by (cases kept) auto
    moreover have "R' = R2\<lparr>r_idx := r_idx R + length kept\<rparr>" using w wait_running by (simp split: if_splits)
    ultimately show thesis using that [OF s, of new] idx by simp
  qed
qed

subsection \<open>Errors\<close>

text \<open>An error that neither sends the run elsewhere nor is answered by a default.\<close>

definition unhandled :: "cpn \<Rightarrow> val \<Rightarrow> bool" where
  "unhandled c err \<longleftrightarrow> truthy err
     \<and> (c_exception_method c = [] \<or> c_exception_goto c = [] \<and> \<not> truthy (c_exception_default c))"

lemma error_simps [simp]:
  "r_error (finished cid R) = r_error R" "r_canvas (finished cid R) = r_canvas R"
  "r_error (say_message cid c R) = r_error R" "r_canvas (say_message cid c R) = r_canvas R"
  by (simp_all add: finished_def say_message_def)

lemma report_error:
  "r_error (snd (report cid c R)) =
     (if unhandled c (error_of cid (r_canvas R)) then error_of cid (r_canvas R) else r_error R)"
  by (auto simp: report_def handle_error_def unhandled_def Let_def case_prod_beta)

lemma moves_error:
  "leaves_parent G c b R = Inr R' \<Longrightarrow> r_error R' = r_error R"
  "goes_on E G cid c b R = Inr R' \<Longrightarrow> r_error R' = r_error R"
  by (auto simp: leaves_parent_def goes_on_def Let_def elim!: sum_bind_InrE split: option.splits if_splits)

lemma after_call_error:
  assumes "after_call E G cid R = Inr R'" and "map_of G cid = Some c"
  shows "r_error R' = (if unhandled c (error_of cid (r_canvas R)) then error_of cid (r_canvas R) else r_error R)"
proof -
  obtain b R1 where r: "report cid c R = (b, R1)" by (cases "report cid c R")
  from assms r obtain e C where
    "(if e then leaves_parent G c b (R1\<lparr>r_canvas := C\<rparr>) else goes_on E G cid c b (R1\<lparr>r_canvas := C\<rparr>)) = Inr R'"
    by (auto simp: after_call_def component_def elim!: sum_bind_InrE)
  then have "r_error R' = r_error R1" by (cases e) (auto dest: moves_error)
  with r report_error [of cid c R] show ?thesis by simp
qed

lemma after_calls_error:
  assumes "sum_fold (after_call E G) ids R = Inr R'"
  shows "truthy (r_error R') \<longleftrightarrow>
    truthy (r_error R) \<or> (\<exists>cid\<in>set ids. \<exists>c. map_of G cid = Some c \<and> unhandled c (error_of cid (r_canvas R)))"
  using assms
proof (induction ids arbitrary: R)
  case (Cons cid ids)
  then obtain R1 where 1: "after_call E G cid R = Inr R1" and 2: "sum_fold (after_call E G) ids R1 = Inr R'"
    by (auto elim: sum_bind_InrE)
  from 1 obtain c where c: "map_of G cid = Some c"
    by (auto simp: after_call_def component_def elim!: sum_bind_InrE split: option.splits)
  have same: "error_of i (r_canvas R1) = error_of i (r_canvas R)" for i
    using grows_after_call [OF 1] by (simp add: grows_def error_of_def outputs_of_def)
  show ?case
    using Cons.IH [OF 2] after_call_error [OF 1 c] c
    by (cases "unhandled c (error_of cid (r_canvas R))") (auto simp: same unhandled_def)
qed simp

subsection \<open>Invariants of a run\<close>

text \<open>
  What every call keeps, and what does not look at the path and the counters, holds in all states that
  the rounds of a run reach.
\<close>

locale run_kept =
  fixes E :: engine and G :: graph and J :: "canvas \<Rightarrow> bool"
  assumes J_call: "J C \<Longrightarrow> J (call E G inputs cid C)"
    and J_cong: "\<lbrakk>v_outputs C' = v_outputs C; v_globals C' = v_globals C; cv_history C' = cv_history C;
      cv_variables C' = cv_variables C; cv_ticks C' = cv_ticks C\<rbrakk> \<Longrightarrow> J C \<Longrightarrow> J C'"
begin

lemma J_calls: "J C \<Longrightarrow> J (fold (call E G inputs) cids C)"
  by (induction cids arbitrary: C) (simp_all add: J_call)

lemma J_grows: "grows R R' \<Longrightarrow> J (r_canvas R) \<Longrightarrow> J (r_canvas R')"
  by (rule J_cong) (auto simp: grows_def)

lemma J_round:
  assumes "run_round E G ord inputs R = Inr (R', st)" and J: "J (r_canvas R)"
  shows "J (r_canvas R')"
  using assms(1)
proof (rule run_roundE)
  fix kept R1 R2
  assume c: "r_canvas R1 = fold (call E G inputs) (ord (r_idx R) kept) ((r_canvas R)\<lparr>cv_path := take (r_idx R) (run_path R) @ kept\<rparr>)"
    and f: "sum_fold (after_call E G) kept R1 = Inr R2"
    and w: "if truthy (r_error R2) then R' = R2 \<and> st = Stopped
       else wait_for_user E G (R2\<lparr>r_idx := r_idx R + length kept\<rparr>) = Inr (R', st)"
  have path: "J C \<Longrightarrow> J (C\<lparr>cv_path := p\<rparr>)" for C p by (rule J_cong) auto
  have "J (r_canvas R1)" unfolding c by (intro J_calls path J)
  with J_grows [OF grows_after_calls [OF f]] have 2: "J (r_canvas R2)" by blast
  show "J (r_canvas R')"
  proof (cases "truthy (r_error R2)")
    case False
    with w have "wait_for_user E G (R2\<lparr>r_idx := r_idx R + length kept\<rparr>) = Inr (R', st)" by simp
    then show ?thesis
      using 2 by (auto simp: wait_for_user_def Let_def elim!: sum_bind_InrE split: if_splits intro!: path J_calls)
  qed (use w 2 in simp)
qed

lemma J_reachable:
  assumes "(round_step E G inputs)\<^sup>*\<^sup>* R R'" and "J (r_canvas R)"
  shows "J (r_canvas R')"
  using assms by (induction rule: rtranclp_induct) (auto elim!: round_stepE dest: J_round)

end

interpretation frame_kept: run_kept E G
  "\<lambda>C. elsewhere_local E \<longrightarrow> cv_history C = h \<and> cv_variables C = vs \<and> dom (v_outputs C) = D" for E G h vs D
proof
  fix C :: canvas and inputs cid
  assume "elsewhere_local E \<longrightarrow> cv_history C = h \<and> cv_variables C = vs \<and> dom (v_outputs C) = D"
  with frame_call [of E G inputs cid C]
  show "elsewhere_local E \<longrightarrow> cv_history (call E G inputs cid C) = h \<and> cv_variables (call E G inputs cid C) = vs
      \<and> dom (v_outputs (call E G inputs cid C)) = D"
    by (auto simp: frame_def)
qed simp

lemma rounds_keep_frame:
  assumes "(round_step E G inputs)\<^sup>*\<^sup>* R R'" and "elsewhere_local E"
  shows "cv_history (r_canvas R') = cv_history (r_canvas R) \<and> cv_variables (r_canvas R') = cv_variables (r_canvas R)
    \<and> dom (v_outputs (r_canvas R')) = dom (v_outputs (r_canvas R))"
  using frame_kept.J_reachable [OF assms(1), of "cv_history (r_canvas R)" "cv_variables (r_canvas R)" "dom (v_outputs (r_canvas R))"]
    assms(2) by simp

end
