(* ===== verification/AgentLoops.thy ===== *)
theory AgentLoops
  imports AgentProperties
begin

text \<open>Properties of the agent engine's iterations and loops, and of the combination of objects.\<close>

subsection \<open>Iterations\<close>

text \<open>A variable is read the same where its component and the globals are the same.\<close>

lemma get_variable_frame:
  assumes "parse_ref e = Inr r" and "v_globals C' = v_globals C"
    and "\<And>j. fst (variable_of r) = Some j \<Longrightarrow> v_outputs C' j = v_outputs C j"
  shows "get_variable_value P e C' = get_variable_value P e C"
  using assms by (cases r) (simp_all add: get_variable_value_def)

text \<open>
  What the components inside an iteration do: they read the item and leave a value in the output \<open>var\<close>
  of the component \<open>c\<close>, and nothing else.
\<close>

definition maps_item ::
  "string \<Rightarrow> string \<Rightarrow> string \<Rightarrow> (val \<Rightarrow> val) \<Rightarrow> (('x) vars_scheme \<Rightarrow> ('x) vars_scheme) \<Rightarrow> bool" where
  "maps_item cid c var g inside \<longleftrightarrow>
     (\<forall>C. v_globals (inside C) = v_globals C \<and> (\<forall>j. j \<noteq> c \<longrightarrow> v_outputs (inside C) j = v_outputs C j)
        \<and> output_of (outputs_of c (inside C)) var = g (output_of (outputs_of cid C) ''item''))"

text \<open>The state before the call number \<open>j\<close> of the iteration's item.\<close>

definition iterating ::
  "pyenv \<Rightarrow> iteration \<Rightarrow> string \<Rightarrow> string \<times> string \<times> string \<Rightarrow> (val \<Rightarrow> val) \<Rightarrow> val list \<Rightarrow> nat \<Rightarrow> ('x) vars_scheme \<Rightarrow> bool" where
  "iterating P I cid = (\<lambda>(k, c, var) g xs j C.
     get_variable_value P (it_items_ref I) C = Inr (VList xs)
     \<and> v_outputs C cid \<noteq> None \<and> v_outputs C (it_id I) \<noteq> None
     \<and> (let res = output_of (outputs_of (it_id I) C) k in
        (if truthy res then res else VList []) = VList (map g (take (j - 1) xs)))
     \<and> (0 < j \<longrightarrow> output_of (outputs_of c C) var = g (xs ! (j - 1))))"

lemma outputs_of_set [simp]:
  "v_outputs C cid \<noteq> None \<Longrightarrow> outputs_of cid (set_output cid k v C) = dict_put k v (outputs_of cid C)"
  "j \<noteq> cid \<Longrightarrow> outputs_of j (set_output cid k v C) = outputs_of j C"
  by (auto simp: outputs_of_def)

lemma iteration_step:
  assumes ref: "parse_ref (it_items_ref I) = Inr r" "fst (variable_of r) \<notin> {Some cid, Some c, Some (it_id I)}"
    and col: "collected I = [(k, c, var)]" and k: "k \<noteq> []"
    and ids: "cid \<noteq> it_id I" "c \<noteq> cid" "c \<noteq> it_id I"
    and body: "maps_item cid c var g inside"
    and at: "iterating P I cid (k, c, var) g xs j C" and j: "j \<le> length xs"
  shows "\<exists>C1. (if j = length xs
      then invoke_iteration_item P I cid (int j) C = (C1, - 1, None)
        \<and> (0 < j \<longrightarrow> output_of (outputs_of (it_id I) C1) k = VList (map g xs)) \<and> (j = 0 \<longrightarrow> C1 = C)
      else invoke_iteration_item P I cid (int j) C = (C1, int (Suc j), None)
        \<and> iterating P I cid (k, c, var) g xs (Suc j) (inside C1))"
proof -
  let ?pid = "it_id I"
  define C1 where "C1 = (if 0 < j then set_output ?pid k (VList (map g (take j xs))) C else C)"
  have arr: "get_variable_value P (it_items_ref I) C = Inr (VList xs)" using at by (simp add: iterating_def)
  have "take j xs = take (j - 1) xs @ [xs ! (j - 1)]" if "0 < j"
    using that j by (metis Suc_diff_1 Suc_le_lessD take_Suc_conv_app_nth)
  then have col1: "(if 0 < int j then output_collation I C else (C, Inr ())) = (C1, Inr ())"
    using at by (simp add: output_collation_def col collect_output_def iterating_def Let_def C1_def)
  have outs: "v_outputs C cid \<noteq> None" "v_outputs C ?pid \<noteq> None" using at by (auto simp: iterating_def)
  show ?thesis
  proof (cases "j = length xs")
    case True
    then have "invoke_iteration_item P I cid (int j) C = (C1, - 1, None)"
      using arr col1 by (simp add: invoke_iteration_item_def)
    moreover have "0 < j \<longrightarrow> output_of (outputs_of ?pid C1) k = VList (map g xs)"
      using True outs k by (auto simp: C1_def)
    ultimately show ?thesis using True by (auto simp: C1_def)
  next
    case False
    with j have lt: "j < length xs" by simp
    define C2 where "C2 = set_output cid ''index'' (VInt (int j)) (set_output cid ''item'' (xs ! j) C1)"
    have run: "invoke_iteration_item P I cid (int j) C = (C2, int (Suc j), None)"
      using arr col1 lt by (simp add: invoke_iteration_item_def list_item_def C2_def)
    have frame: "v_globals (inside C2) = v_globals C" "\<And>i. i \<notin> {cid, c, ?pid} \<Longrightarrow> v_outputs (inside C2) i = v_outputs C i"
      "v_outputs (inside C2) cid \<noteq> None" "outputs_of ?pid (inside C2) = outputs_of ?pid C1"
      "v_outputs (inside C2) ?pid \<noteq> None"
      using body ids outs by (auto simp: maps_item_def C2_def C1_def outputs_of_def)
    have "get_variable_value P (it_items_ref I) (inside C2) = get_variable_value P (it_items_ref I) C"
      by (rule get_variable_frame [OF ref(1) frame(1) frame(2)]) (use ref(2) in auto)
    moreover have "(let res = output_of (outputs_of ?pid C1) k in if truthy res then res else VList [])
        = VList (map g (take j xs))"
      using at outs k by (auto simp: C1_def iterating_def Let_def)
    moreover have "output_of (outputs_of cid C2) ''item'' = xs ! j"
      using outs ids by (auto simp: C2_def C1_def outputs_of_def)
    then have "output_of (outputs_of c (inside C2)) var = g (xs ! j)" using body by (simp add: maps_item_def)
    ultimately have "iterating P I cid (k, c, var) g xs (Suc j) (inside C2)"
      using arr frame by (auto simp: iterating_def Let_def split: if_splits)
    with run False show ?thesis by auto
  qed
qed

lemma iterate_maps:
  assumes ref: "parse_ref (it_items_ref I) = Inr r" "fst (variable_of r) \<notin> {Some cid, Some c, Some (it_id I)}"
    and col: "collected I = [(k, c, var)]" and k: "k \<noteq> []"
    and ids: "cid \<noteq> it_id I" "c \<noteq> cid" "c \<noteq> it_id I"
    and body: "maps_item cid c var g inside"
    and at: "iterating P I cid (k, c, var) g xs j C" and j: "j + n = length xs"
  shows "\<exists>C'. iterate P I cid inside (Suc n) (int j) C = Some (C', - 1)
     \<and> (xs \<noteq> [] \<longrightarrow> output_of (outputs_of (it_id I) C') k = VList (map g xs)) \<and> (xs = [] \<longrightarrow> C' = C)"
  using at j
proof (induction n arbitrary: j C)
  case 0
  with iteration_step [OF ref col k ids body 0(1)] show ?case by (auto simp: iteration_end_def)
next
  case (Suc n)
  then have "j \<le> length xs" "j \<noteq> length xs" by auto
  with iteration_step [OF ref col k ids body Suc.prems(1)] obtain C1
    where run: "invoke_iteration_item P I cid (int j) C = (C1, int (Suc j), None)"
      and nxt: "iterating P I cid (k, c, var) g xs (Suc j) (inside C1)" by auto
  from Suc.IH [OF nxt] Suc.prems(2) run show ?case by (auto simp: iteration_end_def)
qed


definition iteration0 :: iteration where
  "iteration0 = \<lparr>it_id = ''it'', it_items_ref = ''l'', it_refs = [(''out'', ''c'', ''y'')], it_children = [''item'', ''c'']\<rparr>"

definition canvas1 :: vars where
  "canvas1 = \<lparr>v_outputs = (\<lambda>j. if j \<in> {''it'', ''item'', ''c''} then Some [] else None),
     v_globals = [(''l'', VList [VInt 3, VInt 4])]\<rparr>"

definition inside0 :: "vars \<Rightarrow> vars" where
  "inside0 C = C\<lparr>v_outputs := (v_outputs C)(''c'' := Some [(''y'', VList [output_of (outputs_of ''item'' C) ''item''])])\<rparr>"


subsection \<open>Loops\<close>

lemma loop_rounds_bounded:
  assumes "- 1 \<le> idx"
  shows "\<exists>r. loop_rounds P L inside (Suc (nat (lo_maximum_count L - idx))) idx C = Some r
     \<and> (\<forall>n C'. r = Inr (n, C') \<longrightarrow> int n \<le> max 0 (lo_maximum_count L - idx))"
  using assms
proof (induction "nat (lo_maximum_count L - idx)" arbitrary: idx C)
  case 0
  then have "lo_maximum_count L \<le> idx" by simp
  then show ?case by (simp add: invoke_loop_item_def loop_end_def)
next
  case (Suc d)
  then have lt: "idx < lo_maximum_count L" by linarith
  have m: "d = nat (lo_maximum_count L - (idx + 1))" using Suc.hyps(2) by linarith
  show ?case
  proof (cases "loop_end P L (idx + 1) C")
    case (Inl e)
    with lt show ?thesis by (simp add: invoke_loop_item_def)
  next
    case (Inr bi)
    obtain b i where bi: "bi = (b, i)" by (cases bi)
    show ?thesis
    proof (cases b)
      case True
      with Inr bi lt show ?thesis by (simp add: invoke_loop_item_def)
    next
      case False
      then have i: "i = idx + 1"
        using Inr bi by (auto simp: loop_end_def Let_def elim!: sum_bind_InrE split: if_splits)
      have "- 1 \<le> idx + 1" using Suc.prems by simp
      from Suc.hyps(1) [OF m this, of "inside C"] obtain r where
        r: "loop_rounds P L inside (Suc d) (idx + 1) (inside C) = Some r"
          "\<forall>n C'. r = Inr (n, C') \<longrightarrow> int n \<le> max 0 (lo_maximum_count L - (idx + 1))"
        unfolding m [symmetric] by blast
      have "loop_rounds P L inside (Suc (Suc d)) idx C = Some (map_sum id (\<lambda>(n, C1). (Suc n, C1)) r)"
        using lt Inr bi False i r(1) by (simp add: invoke_loop_item_def del: loop_rounds.simps(1) split del: if_split)
      moreover have "int n \<le> max 0 (lo_maximum_count L - idx)"
        if "map_sum id (\<lambda>(n, C1). (Suc n, C1)) r = Inr (n, C')" for n C'
        using that r(2) lt by (cases r) auto
      ultimately show ?thesis using Suc.hyps(2) by auto
    qed
  qed
qed



text \<open>An iteration that is entered again starts with \<open>_idx = -1\<close>: its first item is the last of the list.\<close>

lemma reentered_iteration_item:
  assumes "get_variable_value P (it_items_ref I) C = Inr (VList xs)" and "xs \<noteq> []"
  shows "invoke_iteration_item P I cid (- 1) C =
    (set_output cid ''index'' (VInt (- 1)) (set_output cid ''item'' (last xs) C), 0, None)"
  using assms by (simp add: invoke_iteration_item_def list_item_def last_conv_nth nat_diff_distrib Suc_leI)

subsection \<open>Combining objects\<close>

definition addresses :: "(string \<times> entry) list \<Rightarrow> nat list" where
  "addresses ps = concat (map (\<lambda>(k, e). case e of Addr a \<Rightarrow> [a] | Imm v \<Rightarrow> []) ps)"

definition values_of :: "string \<Rightarrow> (string \<times> entry) list \<Rightarrow> entry list" where
  "values_of k ps = map snd (filter (\<lambda>(j, e). j = k) ps)"

lemma addresses_simps [simp]:
  "addresses [] = []" "addresses (ps @ qs) = addresses ps @ addresses qs"
  "addresses [(k, Addr a)] = [a]" "addresses [(k, Imm v)] = []"
  by (simp_all add: addresses_def)

lemma values_of_simps [simp]:
  "values_of k [] = []" "values_of k (ps @ [(j, e)]) = (if j = k then values_of k ps @ [e] else values_of k ps)"
  by (simp_all add: values_of_def)

text \<open>
  What stands under a key after some entries: nothing, the one value there was, or a list of the items
  of all values, which is the first value itself where that is a list, and a new one otherwise.
\<close>

fun slot_ok :: "(nat \<Rightarrow> val list) \<Rightarrow> nat \<Rightarrow> (nat \<Rightarrow> val list) \<Rightarrow> entry list \<Rightarrow> entry option \<Rightarrow> bool" where
  "slot_ok store nxt cur es None = (es = [])"
| "slot_ok store nxt cur es (Some (Imm v)) = (es = [Imm v])"
| "slot_ok store nxt cur es (Some (Addr a)) =
     (es \<noteq> [] \<and> cur a = concat (map (entry_items store) es)
      \<and> (hd es = Addr a \<or> nxt \<le> a \<and> 2 \<le> length es \<and> (\<forall>b. hd es \<noteq> Addr b)))"

definition combined ::
  "(nat \<Rightarrow> val list) \<Rightarrow> nat \<Rightarrow> (string \<times> entry) list \<Rightarrow> (string \<Rightarrow> entry option) \<Rightarrow> (nat \<Rightarrow> val list) \<Rightarrow> nat \<Rightarrow> bool" where
  "combined store nxt ps res cur nx \<longleftrightarrow>
     nxt \<le> nx
     \<and> (\<forall>b<nxt. b \<notin> set (addresses ps) \<longrightarrow> cur b = store b)
     \<and> (\<forall>k. slot_ok store nxt cur (values_of k ps) (res k))
     \<and> (\<forall>k a. res k = Some (Addr a) \<longrightarrow> a < nx \<and> (a < nxt \<longrightarrow> a \<in> set (addresses ps)))
     \<and> (\<forall>k j a. res k = Some (Addr a) \<and> res j = Some (Addr a) \<longrightarrow> k = j)"

lemma slot_ok_cong:
  "(\<And>a. x = Some (Addr a) \<Longrightarrow> cur' a = cur a) \<Longrightarrow> slot_ok store nxt cur' es x = slot_ok store nxt cur es x"
  by (cases "(store, nxt, cur, es, x)" rule: slot_ok.cases) auto

lemma combined_new:
  assumes inv: "combined store nxt ps res cur nx" and "res k = None"
    and new: "\<And>b. e = Addr b \<Longrightarrow> b < nxt \<and> b \<notin> set (addresses ps)"
  shows "combined store nxt (ps @ [(k, e)]) (res(k \<mapsto> e)) cur nx"
proof -
  have es: "values_of k ps = []" using inv assms(2) unfolding combined_def by (metis slot_ok.simps(1))
  have slots: "slot_ok store nxt cur (values_of j (ps @ [(k, e)])) ((res(k \<mapsto> e)) j)" for j
    using inv es new by (cases "j = k"; cases e) (auto simp: combined_def entry_items_def)
  have "b \<notin> set (addresses (ps @ [(k, e)])) \<Longrightarrow> b \<notin> set (addresses ps)" for b by simp
  moreover have "a < nx \<and> (a < nxt \<longrightarrow> a \<in> set (addresses (ps @ [(k, e)])))" if "(res(k \<mapsto> e)) j = Some (Addr a)" for j a
    using that inv new by (auto simp: combined_def split: if_splits)
  moreover have "i = j" if "(res(k \<mapsto> e)) i = Some (Addr a)" "(res(k \<mapsto> e)) j = Some (Addr a)" for i j a
    using that inv new by (auto simp: combined_def split: if_splits)
  ultimately show ?thesis using inv slots unfolding combined_def by blast
qed

lemma combined_extend:
  assumes inv: "combined store nxt ps res cur nx" and "res k = Some (Addr a)"
    and new: "\<And>b. e = Addr b \<Longrightarrow> b < nxt \<and> b \<notin> set (addresses ps)"
  shows "combined store nxt (ps @ [(k, e)]) res (cur(a := cur a @ entry_items cur e)) nx"
proof -
  have items: "entry_items cur e = entry_items store e"
    using inv new by (cases e) (auto simp: combined_def entry_items_def)
  have k: "slot_ok store nxt cur (values_of k ps) (Some (Addr a))" using inv assms(2) unfolding combined_def by metis
  have slots: "slot_ok store nxt (cur(a := cur a @ entry_items cur e)) (values_of j (ps @ [(k, e)])) (res j)" for j
  proof (cases "j = k")
    case True
    with k assms(2) items show ?thesis by (auto simp: hd_append)
  next
    case False
    then have "slot_ok store nxt (cur(a := cur a @ entry_items cur e)) (values_of j ps) (res j)
        = slot_ok store nxt cur (values_of j ps) (res j)"
      using inv assms(2) by (intro slot_ok_cong) (auto simp: combined_def)
    with False inv show ?thesis by (simp add: combined_def)
  qed
  have "a < nxt \<Longrightarrow> a \<in> set (addresses ps)" using inv assms(2) by (simp add: combined_def)
  with inv slots show ?thesis unfolding combined_def by auto
qed

lemma combined_wrap:
  assumes inv: "combined store nxt ps res cur nx" and "res k = Some (Imm v)"
    and new: "\<And>b. e = Addr b \<Longrightarrow> b < nxt \<and> b \<notin> set (addresses ps)"
  shows "combined store nxt (ps @ [(k, e)]) (res(k \<mapsto> Addr nx)) (cur(nx := v # entry_items cur e)) (Suc nx)"
proof -
  have items: "entry_items cur e = entry_items store e"
    using inv new by (cases e) (auto simp: combined_def entry_items_def)
  have k: "values_of k ps = [Imm v]" using inv assms(2) unfolding combined_def by (metis slot_ok.simps(2))
  have nx: "nxt \<le> nx" "\<And>j a. res j = Some (Addr a) \<Longrightarrow> a < nx" using inv by (auto simp: combined_def)
  have slots: "slot_ok store nxt (cur(nx := v # entry_items cur e)) (values_of j (ps @ [(k, e)])) ((res(k \<mapsto> Addr nx)) j)" for j
  proof (cases "j = k")
    case True
    with k items nx show ?thesis by (simp add: entry_items_def)
  next
    case False
    have "slot_ok store nxt (cur(nx := v # entry_items cur e)) (values_of j ps) (res j)
        = slot_ok store nxt cur (values_of j ps) (res j)"
      by (rule slot_ok_cong) (use nx(2) in force)
    with False inv show ?thesis by (simp add: combined_def)
  qed
  have "a < Suc nx \<and> (a < nxt \<longrightarrow> a \<in> set (addresses (ps @ [(k, e)])))" if "(res(k \<mapsto> Addr nx)) j = Some (Addr a)" for j a
    using that inv nx by (auto simp: combined_def less_Suc_eq split: if_splits)
  moreover have "i = j" if "(res(k \<mapsto> Addr nx)) i = Some (Addr a)" "(res(k \<mapsto> Addr nx)) j = Some (Addr a)" for i j a
    using that inv nx(2) by (fastforce simp: combined_def split: if_splits)
  moreover have "(cur(nx := v # entry_items cur e)) b = store b" if "b < nxt" "b \<notin> set (addresses (ps @ [(k, e)]))" for b
    using that inv nx(1) by (auto simp: combined_def)
  ultimately show ?thesis using slots nx(1) unfolding combined_def by (meson le_SucI)
qed

lemma map_of_snoc: "map_of d k = None \<Longrightarrow> map_of (d @ [(k, e)]) = (map_of d)(k \<mapsto> e)"
  by (auto simp: map_add_def split: option.split)

lemma combined_entry:
  assumes inv: "combined store nxt ps (map_of (cs_result S)) (cs_store S) (cs_next S)"
    and new: "\<And>b. e = Addr b \<Longrightarrow> b < nxt \<and> b \<notin> set (addresses ps)"
  shows "combined store nxt (ps @ [(k, e)]) (map_of (cs_result (combine_entry (k, e) S)))
    (cs_store (combine_entry (k, e) S)) (cs_next (combine_entry (k, e) S))"
proof -
  consider "map_of (cs_result S) k = None" | a where "map_of (cs_result S) k = Some (Addr a)"
    | v where "map_of (cs_result S) k = Some (Imm v)" by (metis entry.exhaust option.exhaust)
  then show ?thesis
  proof cases
    case 1
    with combined_new [OF inv 1 new] map_of_snoc [OF 1] show ?thesis by (simp add: combine_entry_def)
  next
    case (2 a)
    with combined_extend [OF inv 2 new] show ?thesis by (simp add: combine_entry_def)
  next
    case (3 v)
    with combined_wrap [OF inv 3 new] show ?thesis by (simp add: combine_entry_def)
  qed
qed

lemma combined_fold:
  assumes "combined store nxt ps (map_of (cs_result S)) (cs_store S) (cs_next S)"
    and "distinct (addresses (ps @ qs))" and "\<forall>a\<in>set (addresses (ps @ qs)). a < nxt"
  shows "combined store nxt (ps @ qs) (map_of (cs_result (fold combine_entry qs S)))
    (cs_store (fold combine_entry qs S)) (cs_next (fold combine_entry qs S))"
  using assms
proof (induction qs arbitrary: ps S)
  case (Cons q qs)
  obtain k e where q: "q = (k, e)" by (cases q)
  have "b < nxt \<and> b \<notin> set (addresses ps)" if "e = Addr b" for b
    using Cons.prems(2,3) that by (auto simp: q addresses_def)
  from combined_entry [OF Cons.prems(1) this]
  show ?case using Cons.IH [of "ps @ [q]" "combine_entry q S"] Cons.prems(2,3) by (simp add: q)
qed simp

text \<open>
  \<open>combine\<close> puts under every key what the objects have there: the value itself if there is one, else
  the list of all values, lists among them item by item.  If the first of several values is a list, that
  list itself is extended, so the input is changed by the component that only reads it.
\<close>

lemma combine_extends_inputs:
  assumes "distinct (addresses (concat objs))" and "\<forall>a\<in>set (addresses (concat objs)). a < nxt"
  shows "let S = combine_objects objs store nxt; es = values_of k (concat objs) in
    (es = [] \<longrightarrow> map_of (cs_result S) k = None)
    \<and> (\<forall>e. es = [e] \<longrightarrow> map_of (cs_result S) k = Some e)
    \<and> (2 \<le> length es \<longrightarrow> (\<exists>a. map_of (cs_result S) k = Some (Addr a)
          \<and> cs_store S a = concat (map (entry_items store) es) \<and> (\<forall>b. hd es = Addr b \<longrightarrow> a = b)))"
proof -
  let ?S = "combine_objects objs store nxt" and ?es = "values_of k (concat objs)"
  have "combined store nxt [] (map_of []) store nxt" by (simp add: combined_def)
  with combined_fold [of store nxt "[]" "\<lparr>cs_store = store, cs_next = nxt, cs_result = []\<rparr>" "concat objs"] assms
  have "combined store nxt (concat objs) (map_of (cs_result ?S)) (cs_store ?S) (cs_next ?S)"
    by (simp add: combine_objects_def)
  then have "slot_ok store nxt (cs_store ?S) ?es (map_of (cs_result ?S) k)" by (simp add: combined_def)
  then show ?thesis
    by (cases "(store, nxt, cs_store ?S, ?es, map_of (cs_result ?S) k)" rule: slot_ok.cases) (auto simp: Let_def)
qed

end
