(* ===== verification/AgentScheduling.thy ===== *)
theory AgentScheduling
  imports AgentSchedule AgentLoops
begin

text \<open>
  The properties of the scheduler: in which order components run, what an error does, what a form does
  to the run that follows.
\<close>

subsection \<open>Sample agents\<close>

text \<open>
  A language model that repeats the question; components elsewhere that do nothing; an agent whose
  category depends on a component of the same round, one that fails, one with two forms.
\<close>

definition engine0 :: engine where
  "engine0 = \<lparr>e_py = pyenv0, e_exc = (\<lambda>_. ''failed''), e_clock = (\<lambda>_. 0), e_date = (\<lambda>_. ''today''), e_names = id,
     e_chat = (\<lambda>_ q. Inr q), e_files = id, e_attach = id, e_invoke = (\<lambda>_ _ C. (C, None))\<rparr>"

definition node :: "kind \<Rightarrow> string list \<Rightarrow> string list \<Rightarrow> cpn" where
  "node k ds refs = \<lparr>c_kind = k, c_parent = None, c_downstream = ds, c_refs = refs, c_exception_method = [],
     c_exception_goto = [], c_exception_default = VNone\<rparr>"

definition topics :: categorize_param where
  "topics = \<lparr>cp_query = ''d@out'', cp_window = 1, cp_categories =
     [\<lparr>ca_name = ''hi'', ca_description = [], ca_examples = [], ca_to = [''b'']\<rparr>,
      \<lparr>ca_name = ''other'', ca_description = [], ca_examples = [], ca_to = [''o'']\<rparr>]\<rparr>"

definition agent1 :: graph where
  "agent1 =
     [(''begin'', node (Begin ''conversational'') [''d'', ''c''] []),
      (''d'', node (VariableAggregator [\<lparr>gr_name = ''out'', gr_variables = [''sys.query'']\<rparr>]) [''b''] []),
      (''c'', node (Categorize topics) [] [''d'']), (''b'', node (Elsewhere ''done'') [] []), (''o'', node (Elsewhere ''done'') [] []),
      (''l'', node (ListOperations \<lparr>lp_query = ''d@out'', lp_operation = ''sort'', lp_n = VInt 0, lp_sort_method = [],
         lp_filter_operator = [], lp_filter_value = VNone\<rparr>) [] []),
      (''s'', node (StringSplit \<lparr>sp_split_ref = ''sys.query'', sp_delimiters = ['','']\<rparr>) [] [''d'']),
      (''UserFillUp:1'', node (Elsewhere ''userfillup'') [] []), (''UserFillUp:2'', node (Elsewhere ''userfillup'') [] [])]"

definition fresh_canvas :: canvas where
  "fresh_canvas = \<lparr>v_outputs = (\<lambda>cid. map_option (\<lambda>_. []) (map_of agent1 cid)),
     v_globals = [(''sys.query'', VStr ''hi''), (''sys.history'', VList []), (''sys.conversation_turns'', VInt 0)],
     cv_idx = (\<lambda>_. 0), cv_path = [], cv_history = [], cv_variables = [], cv_ticks = 0\<rparr>"

definition question0 :: run_args where
  "question0 = \<lparr>ra_query = VStr ''hi'', ra_user_id = VNone, ra_files = VNone, ra_inputs = VNone, ra_webhook_payload = []\<rparr>"

definition run_at :: "string list \<Rightarrow> nat \<Rightarrow> run" where
  "run_at path i = \<lparr>r_canvas = fresh_canvas\<lparr>cv_path := path\<rparr>, r_idx = i, r_error = VStr [], r_events = []\<rparr>"

definition agent2 :: graph where
  "agent2 = [(''begin'', node (Begin ''conversational'') [''b''] []), (''b'', node (Elsewhere ''done'') [] [''begin''])]"

lemma engine0_local: "elsewhere_local engine0"
  by (simp add: elsewhere_local_def engine0_def)

lemma valid_id: "valid_order (\<lambda>_. id)"
  by (simp add: valid_order_def)

subsection \<open>References\<close>

text \<open>What holds of the path between two rounds of a run that did not start with a form.\<close>

definition refs_in_front :: "graph \<Rightarrow> string list \<Rightarrow> nat \<Rightarrow> bool" where
  "refs_in_front G path i \<longleftrightarrow>
     (\<forall>c r. map_of G (path ! i) = Some c \<and> type_of c \<notin> {''begin'', ''userfillup''} \<and> r \<in> set (c_refs c)
        \<longrightarrow> r \<in> set (take i path))"

definition in_order :: "engine \<Rightarrow> graph \<Rightarrow> nat \<Rightarrow> run \<Rightarrow> bool" where
  "in_order E G n R \<longleftrightarrow>
     (run_path R \<noteq> [] \<longrightarrow> \<not> fillup_id (e_py E) (hd (run_path R)))
     \<and> (r_idx R = 0 \<longrightarrow> length (run_path R) \<le> 1) \<and> r_idx R \<le> length (run_path R)
     \<and> (\<forall>i. n \<le> i \<and> i < r_idx R \<longrightarrow> refs_in_front G (run_path R) i)"

lemma in_order_step:
  assumes "round_step E G inputs R R'" and "elsewhere_local E" and inv: "in_order E G n R" and "n \<le> r_idx R"
  shows "in_order E G n R' \<and> n \<le> r_idx R'"
  using assms(1,2)
proof (rule round_step_path)
  fix kept new
  let ?front = "take (r_idx R) (run_path R)"
  assume sel: "select_batch G (fillup_id (e_py E) (hd (run_path R))) ?front (drop (r_idx R) (run_path R)) = Inr kept"
    and path: "run_path R' = ?front @ kept @ new" and idx: "r_idx R' = r_idx R + length kept"
    and lt: "r_idx R < length (run_path R)" and new: "kept = [] \<longrightarrow> new = []"
  have nf: "\<not> fillup_id (e_py E) (hd (run_path R))" using inv lt by (auto simp: in_order_def)
  have front: "length ?front = r_idx R" using lt by simp
  have old: "refs_in_front G (run_path R') i" if "n \<le> i" "i < r_idx R" for i
  proof -
    have "run_path R' ! i = run_path R ! i" "take i (run_path R') = take i (run_path R)"
      using that(2) front by (simp_all add: path nth_append)
    moreover have "refs_in_front G (run_path R) i" using inv that by (simp add: in_order_def)
    ultimately show ?thesis by (simp add: refs_in_front_def)
  qed
  have called: "refs_in_front G (run_path R') i" if "r_idx R \<le> i" "i < r_idx R'" for i
  proof -
    have j: "i - r_idx R < length kept" using that idx by simp
    with front that have "run_path R' ! i = kept ! (i - r_idx R)" by (simp add: path nth_append)
    moreover have "take i (run_path R') = ?front @ take (i - r_idx R) kept"
      using that j front by (simp add: path)
    ultimately show ?thesis
      using select_batch_refs [of G ?front _ kept "i - r_idx R"] sel nf j unfolding refs_in_front_def by simp
  qed
  have "refs_in_front G (run_path R') i" if "n \<le> i" "i < r_idx R'" for i
    using old called that by (cases "i < r_idx R") auto
  moreover have "\<not> fillup_id (e_py E) (hd (run_path R'))" if "run_path R' \<noteq> []"
  proof (cases "r_idx R = 0")
    case True
    then obtain x where x: "run_path R = [x]" using inv lt by (cases "run_path R") (auto simp: in_order_def)
    have "kept = [] \<or> kept = [x]"
      using sel True x by (auto elim!: sum_bind_InrE split: if_splits option.splits)
    with nf x path new True that show ?thesis by auto
  next
    case False
    then show ?thesis using nf path lt by (cases "run_path R"; cases "r_idx R") auto
  qed
  ultimately show ?thesis using assms(4) front new by (auto simp: in_order_def path idx)
qed

text \<open>
  C17: in a run that does not continue from a form, every component that is called stands in the path
  behind all the components its texts refer to (of which those of the same round are called with it).
\<close>

theorem components_follow_their_references:
  assumes "start_run E G args C = Inr R0" and "(round_step E G inputs)\<^sup>*\<^sup>* R0 R" and "elsewhere_local E"
    and "\<not> fillup_id (e_py E) (hd (run_path R0))" and "r_idx R0 \<le> i" and "i < r_idx R"
    and "map_of G (run_path R ! i) = Some c" and "type_of c \<notin> {''begin'', ''userfillup''}" and "r \<in> set (c_refs c)"
  shows "r \<in> set (take i (run_path R))"
proof -
  have 0: "in_order E G (r_idx R0) R0"
    using assms(1,4) by (auto simp: start_run_def in_order_def Let_def elim!: sum_bind_InrE)
  have "in_order E G (r_idx R0) R \<and> r_idx R0 \<le> r_idx R"
    using assms(2)
  proof (induction rule: rtranclp_induct)
    case (step R1 R2)
    then show ?case using in_order_step [OF _ assms(3)] by blast
  qed (use 0 in simp)
  then have "refs_in_front G (run_path R) i" using assms(5,6) by (simp add: in_order_def)
  with assms(7-9) show ?thesis unfolding refs_in_front_def by blast
qed

subsection \<open>Errors\<close>



text \<open>The error of a component that has outputs.\<close>

definition has_error :: "string \<Rightarrow> ('x) vars_scheme \<Rightarrow> bool" where
  "has_error cid C \<longleftrightarrow> v_outputs C cid \<noteq> None \<and> truthy (error_of cid C)"

lemma has_errorI: "truthy (error_of cid C) \<Longrightarrow> has_error cid C"
  by (cases "v_outputs C cid") (simp_all add: has_error_def error_of_def outputs_of_def dict_value_def)

lemma has_error_set_output [simp]:
  "has_error cid (set_output cid k v C) \<longleftrightarrow>
     (if k = ''_ERROR'' then v_outputs C cid \<noteq> None \<and> truthy v else has_error cid C)"
  by (cases "v_outputs C cid") (auto simp: has_error_def error_of_def outputs_of_def dict_value_def)

lemma has_error_cong: "v_outputs C' = v_outputs C \<Longrightarrow> has_error cid C' = has_error cid C"
  by (simp add: has_error_def error_of_def outputs_of_def)

lemma has_error_tick [simp]: "has_error cid (snd (tick_clock E C)) = has_error cid C"
  by (rule has_error_cong) (simp add: tick_clock_def)

lemma has_error_other: "j \<noteq> cid \<Longrightarrow> has_error j (set_output cid k v C) = has_error j C"
  by (simp add: has_error_def error_of_def outputs_of_def)

lemma has_error_ticks [simp]: "has_error j (C\<lparr>cv_ticks := n\<rparr>) = has_error j C"
  "has_error j (C\<lparr>cv_path := p\<rparr>) = has_error j C"
  by (rule has_error_cong, simp)+

lemma has_error_exists: "has_error cid C \<Longrightarrow> v_outputs C cid \<noteq> None"
  by (simp add: has_error_def)

lemma has_error_ops:
  "invoke_list P cid lp C = Inr C' \<Longrightarrow> has_error cid C \<Longrightarrow> has_error cid C'"
  "invoke_split P cid sp line C = Inr C' \<Longrightarrow> has_error cid C \<Longrightarrow> has_error cid C'"
  "invoke_switch P names cid conds ends C = Inr C' \<Longrightarrow> has_error cid C \<Longrightarrow> has_error cid C'"
  "invoke_categorize P chat cid cp hist C = Inr C' \<Longrightarrow> has_error cid C \<Longrightarrow> has_error cid C'"
  by (auto simp: invoke_list_def set_list_outputs_def invoke_split_def invoke_switch_def invoke_categorize_def Let_def
      elim!: sum_bind_InrE split: val.splits option.splits if_splits)

text \<open>
  The output \<open>_ERROR\<close> of a component is not cleared by a later call that succeeds: having failed
  once, it reports the error, and goes to its handler, after every further call of the run.
\<close>

lemma errors_stay:
  assumes "truthy (error_of cid C)" and "c_kind c \<in> {ListOperations lp, StringSplit sp, Switch conds ends, Categorize cp}"
    and "\<And>e. e_exc E e \<noteq> []"
  shows "truthy (error_of cid (invoke E G cid c inputs C))"
proof -
  define C1 where "C1 = set_output cid ''_created_time'' (VFloat (fst (tick_clock E C))) (snd (tick_clock E C))"
  have 1: "has_error cid C1" using has_errorI [OF assms(1)] by (simp add: C1_def)
  obtain C2 err where r: "call_inner E G cid c inputs C1 = (C2, err)" by (cases "call_inner E G cid c inputs C1")
  have 2: "has_error cid C2"
    using r assms(2) 1 by (auto simp: call_inner_def lift_result_def has_error_ops split: sum.splits)
  have "has_error cid (invoke E G cid c inputs C)"
    using 2 r assms(3) by (simp add: invoke_def Let_def C1_def [symmetric] case_prod_beta has_error_exists split: option.split)
  then show ?thesis by (simp add: has_error_def)
qed

subsection \<open>References within one round\<close>

text \<open>
  A component that refers to another one of the same round may be called before it, and then reads
  what the other one had before: the check only asks for the place in the path.
\<close>

lemma reference_may_come_later:
  assumes "drop (r_idx R) (run_path R) = [d, cid]" and "map_of G d = Some cd" and "map_of G cid = Some c"
    and "c_refs cd = []" and "c_refs c = [d]"
  shows "\<exists>ord. valid_order ord \<and> run_batch E G ord inputs R =
    Inr ([d, cid], R\<lparr>r_canvas := call E G inputs d (call E G inputs cid ((r_canvas R)\<lparr>cv_path := run_path R\<rparr>))\<rparr>)"
proof (intro exI conjI)
  show "valid_order (\<lambda>_. rev)" by (simp add: valid_order_def)
  have p: "take (r_idx R) (run_path R) @ [d, cid] = run_path R"
    using append_take_drop_id [of "r_idx R" "run_path R"] assms(1) by simp
  have "select_batch G b front [d, cid] = Inr [d, cid]" for b front
    using assms(2-5) by (simp add: component_def)
  then show "run_batch E G (\<lambda>_. rev) inputs R =
    Inr ([d, cid], R\<lparr>r_canvas := call E G inputs d (call E G inputs cid ((r_canvas R)\<lparr>cv_path := run_path R\<rparr>))\<rparr>)"
    by (simp add: run_batch_def assms(1) p Let_def set_path_def)
qed

subsection \<open>Forms\<close>

lemma drop_last: "p \<noteq> [] \<Longrightarrow> drop (length p - 1) p = [last p]"
  by (induction p rule: rev_induct) simp_all

lemma filter_components:
  assumes "sum_map (component G) ids = Inr cs"
    and "\<And>cid c. cid \<in> set ids \<Longrightarrow> map_of G cid = Some c \<Longrightarrow> f cid = (type_of c = t)"
  shows "map fst (filter (\<lambda>(cid, c). type_of c = t) (zip ids cs)) = filter f ids
    \<and> map fst (filter (\<lambda>(cid, c). type_of c \<noteq> t) (zip ids cs)) = filter (\<lambda>cid. \<not> f cid) ids"
  using assms
proof (induction ids arbitrary: cs)
  case (Cons i ids)
  from Cons.prems(1) obtain c cs1 where c: "component G i = Inr c" and cs1: "sum_map (component G) ids = Inr cs1" "cs = c # cs1"
    by (auto elim!: sum_bind_InrE)
  from c have "f i = (type_of c = t)" using Cons.prems(2) [of i c] by (simp add: component_def split: option.splits)
  with Cons.IH [OF cs1(1)] Cons.prems(2) cs1(2) show ?case by auto
qed simp

lemma payload_path: "cv_path (fold (put_payload kvs) cs C) = cv_path C"
proof -
  have "cv_path (fold (\<lambda>(k, v) C. if k = ''input'' then C else set_output cid k v C) kvs C) = cv_path C" for cid and C :: canvas
    by (induction kvs arbitrary: C) (auto simp: set_output_def)
  then have "cv_path (put_payload kvs x C) = cv_path C" for x C by (cases x) (simp add: put_payload_def)
  then show ?thesis by (induction cs arbitrary: C) simp_all
qed

lemma start_run_path:
  assumes "start_run E G args C = Inr R"
  shows "run_path R = (if cv_path C = [] \<or> \<not> fillup_id (e_py E) (last (cv_path C)) then cv_path C @ [''begin''] else cv_path C)"
    and "r_idx R = length (run_path R) - 1"
proof -
  have add: "cv_path C2 = cv_path C1" if "add_history P role v C1 = Inr C2" for P role v C1 C2
    using that by (auto simp: add_history_def split: option.splits val.splits)
  have count: "cv_path C2 = cv_path C1" if "count_turn E C1 = Inr C2" for C1 C2
    using that by (auto simp: count_turn_def set_global_def Let_def split: option.splits val.splits)
  have reset: "cv_path (reset_outputs C1) = cv_path C1" for C1 by (simp add: reset_outputs_def)
  have global: "cv_path (set_global g v C1) = cv_path C1" for g v C1 by (simp add: set_global_def)
  from assms show "run_path R = (if cv_path C = [] \<or> \<not> fillup_id (e_py E) (last (cv_path C)) then cv_path C @ [''begin''] else cv_path C)"
    and "r_idx R = length (run_path R) - 1"
    by (auto simp: start_run_def Let_def reset global payload_path dest!: add count elim!: sum_bind_InrE split: if_splits)
qed

text \<open>
  The run that follows a stop at forms does not go on behind all of them: it calls the last form only
  or, if anything else was due beside the forms, begins again at \<open>begin\<close>.
\<close>

lemma resumed_run_starts_at_the_end:
  assumes "wait_for_user E G R = Inr (R', Waiting)" and "start_run E G args (r_canvas R') = Inr R''"
    and "\<And>cid c. cid \<in> set (drop (r_idx R) (run_path R)) \<Longrightarrow> map_of G cid = Some c
      \<Longrightarrow> fillup_id (e_py E) cid = (type_of c = ''userfillup'')"
  shows "drop (r_idx R'') (run_path R'') =
    (if \<exists>cid\<in>set (drop (r_idx R) (run_path R)). \<not> fillup_id (e_py E) cid then [''begin'']
     else [last (filter (fillup_id (e_py E)) (drop (r_idx R) (run_path R)))])"
proof -
  let ?ids = "drop (r_idx R) (run_path R)" and ?f = "fillup_id (e_py E)"
  obtain cs where cs: "sum_map (component G) ?ids = Inr cs"
    using assms(1) by (auto simp: wait_for_user_def Let_def elim: sum_bind_InrE)
  have forms: "map fst (filter (\<lambda>(cid, c). type_of c = ''userfillup'') (zip ?ids cs)) = filter ?f ?ids"
    and others: "map fst (filter (\<lambda>(cid, c). type_of c \<noteq> ''userfillup'') (zip ?ids cs)) = filter (\<lambda>cid. \<not> ?f cid) ?ids"
    using filter_components [OF cs assms(3)] by simp_all
  have "filter (\<lambda>(cid, c). type_of c = ''userfillup'') (zip ?ids cs) = [] \<longleftrightarrow> filter ?f ?ids = []"
    unfolding forms [symmetric] by (simp only: map_is_Nil_conv)
  with assms(1) cs have ne: "filter ?f ?ids \<noteq> []" and path: "run_path R' = filter ?f ?ids @ filter (\<lambda>cid. \<not> ?f cid) ?ids"
    by (auto simp: wait_for_user_def Let_def forms others simp del: filter_empty_conv split: if_splits)
  have "run_path R' \<noteq> []" using ne by (simp add: path)
  with start_run_path [OF assms(2)]
  have start: "drop (r_idx R'') (run_path R'') = (if ?f (last (run_path R')) then [last (run_path R')] else [''begin''])"
    by (simp add: drop_last [simplified])
  show ?thesis
  proof (cases "\<exists>cid\<in>set ?ids. \<not> ?f cid")
    case True
    then have "filter (\<lambda>cid. \<not> ?f cid) ?ids \<noteq> []" by (simp add: filter_empty_conv)
    then have "last (run_path R') \<in> set (filter (\<lambda>cid. \<not> ?f cid) ?ids)"
      unfolding path by (metis last_appendR last_in_set)
    with True start show ?thesis by simp
  next
    case False
    then have "run_path R' = filter ?f ?ids" using path by (simp add: filter_False)
    moreover have "?f (last (filter ?f ?ids))" using ne last_in_set [OF ne] by simp
    ultimately show ?thesis using start False by simp
  qed
qed

subsection \<open>Chains\<close>

text \<open>
  A chain of components, each the only successor of the one before, that neither branch nor steer, stand
  in no iteration or loop, and refer to components in front of them only.
\<close>

definition plain_kind :: "kind \<Rightarrow> bool" where
  "plain_kind k \<longleftrightarrow> (case k of
     Categorize _ \<Rightarrow> False | Switch _ _ \<Rightarrow> False | Iteration _ _ \<Rightarrow> False | IterationItem \<Rightarrow> False
   | Loop _ _ \<Rightarrow> False | LoopItem \<Rightarrow> False | ExitLoop \<Rightarrow> False
   | Elsewhere nm \<Rightarrow> nm \<notin> {''userfillup'', ''categorize'', ''switch'', ''iteration'', ''loop'', ''exitloop''}
   | _ \<Rightarrow> True)"

fun chain :: "graph \<Rightarrow> string list \<Rightarrow> string list \<Rightarrow> bool" where
  "chain G front [] = True"
| "chain G front (x # xs) =
     ((case map_of G x of
         None \<Rightarrow> False
       | Some c \<Rightarrow> plain_kind (c_kind c) \<and> c_parent c = None \<and> c_downstream c = (case xs of [] \<Rightarrow> [] | y # _ \<Rightarrow> [y])
           \<and> list_all (\<lambda>r. r \<in> set front \<and> map_of G r \<noteq> None) (c_refs c))
      \<and> x \<notin> set xs \<and> chain G (front @ [x]) xs)"

text \<open>The calls one after another, each on the path that ends with it.\<close>

fun chain_calls :: "engine \<Rightarrow> graph \<Rightarrow> val \<Rightarrow> string list \<Rightarrow> string list \<Rightarrow> canvas \<Rightarrow> canvas" where
  "chain_calls E G inputs front [] C = C"
| "chain_calls E G inputs front (x # xs) C =
     chain_calls E G inputs (front @ [x]) xs (call E G inputs x (C\<lparr>cv_path := front @ [x]\<rparr>))"

fun chain_errors :: "engine \<Rightarrow> graph \<Rightarrow> val \<Rightarrow> string list \<Rightarrow> string list \<Rightarrow> canvas \<Rightarrow> bool" where
  "chain_errors E G inputs front [] C = False"
| "chain_errors E G inputs front (x # xs) C =
     (let C1 = call E G inputs x (C\<lparr>cv_path := front @ [x]\<rparr>)
      in truthy (error_of x C1) \<or> chain_errors E G inputs (front @ [x]) xs C1)"

lemma plain_kind_type:
  assumes "plain_kind k"
  shows "kind_name k \<notin> {''userfillup'', ''categorize'', ''switch'', ''iteration'', ''loop'', ''exitloop''}"
  using assms by (cases k) (auto simp: plain_kind_def)

lemma same_path: "(C :: canvas)\<lparr>cv_path := cv_path C\<rparr> = C"
  by (cases C) simp

lemma plain_after_call:
  assumes c: "map_of G x = Some c" and k: "plain_kind (c_kind c)" and p: "c_parent c = None"
    and err: "\<not> truthy (error_of x (r_canvas R))"
  shows "\<exists>R'. after_call E G x R = Inr R' \<and> r_idx R' = r_idx R \<and> r_error R' = r_error R
    \<and> r_canvas R' = (r_canvas R)\<lparr>cv_path := fold append_path (c_downstream c) (run_path R)\<rparr>"
proof -
  note t = plain_kind_type [OF k]
  define R1 where "R1 = finished x (say_message x c R)"
  have r: "report x c R = (False, R1)"
    using err t by (simp add: report_def handle_error_def R1_def)
  have R1: "r_canvas R1 = r_canvas R" "r_error R1 = r_error R" "r_idx R1 = r_idx R"
    by (simp_all add: R1_def finished_def say_message_def)
  have e: "item_end E G x c C = Inr (False, C)" for C
    using k by (cases "c_kind c") (simp_all add: item_end_def plain_kind_def)
  have "successors E G x c C = Inr (c_downstream c)" for C
    using t p by (simp add: successors_def get_parent_def)
  then have "after_call E G x R =
      Inr (set_path (fold append_path (c_downstream c) (run_path R)) (R1\<lparr>r_canvas := r_canvas R\<rparr>))"
    by (simp add: after_call_def component_def c r e goes_on_def R1)
  then show ?thesis using R1 by simp
qed

lemma plain_batch:
  assumes c: "map_of G x = Some c" and k: "plain_kind (c_kind c)"
    and refs: "list_all (\<lambda>r. r \<in> set front \<and> map_of G r \<noteq> None) (c_refs c)"
    and path: "run_path R = front @ [x]" and idx: "r_idx R = length front" and ord: "valid_order ord"
  shows "run_batch E G ord inputs R = Inr ([x], R\<lparr>r_canvas := call E G inputs x (r_canvas R)\<rparr>)"
proof -
  have "mset (ord n [x]) = mset [x]" for n using ord unfolding valid_order_def by blast
  then have o: "ord n [x] = [x]" for n by simp
  have f: "find (\<lambda>r. map_of G r = None) (c_refs c) = None"
    using refs by (auto simp: find_None_iff list_all_iff)
  have "\<not> list_ex (\<lambda>r. r \<notin> set front) (c_refs c)" using refs by (auto simp: list_ex_iff list_all_iff)
  with c f have "select_batch G b front [x] = Inr [x]" for b by (simp add: component_def)
  moreover have "call E G inputs x ((r_canvas R)\<lparr>cv_path := front @ [x]\<rparr>) = call E G inputs x (r_canvas R)"
    using same_path [of "r_canvas R"] by (simp only: path)
  ultimately show ?thesis
    by (simp add: run_batch_def path idx o Let_def set_path_def)
qed

lemma plain_round:
  assumes c: "map_of G x = Some c" and k: "plain_kind (c_kind c)" and p: "c_parent c = None"
    and ds: "c_downstream c = (case xs of [] \<Rightarrow> [] | y # _ \<Rightarrow> [y])" and new: "x \<notin> set xs"
    and refs: "list_all (\<lambda>r. r \<in> set front \<and> map_of G r \<noteq> None) (c_refs c)"
    and path: "run_path R = front @ [x]" and idx: "r_idx R = length front"
    and nx: "xs \<noteq> [] \<longrightarrow> (\<exists>c'. map_of G (hd xs) = Some c' \<and> type_of c' \<noteq> ''userfillup'')"
    and ord: "valid_order ord" and E: "elsewhere_local E" and re: "\<not> truthy (r_error R)"
    and err: "\<not> truthy (error_of x (call E G inputs x (r_canvas R)))"
  shows "\<exists>R'. run_round E G ord inputs R = Inr (R', Running) \<and> r_idx R' = Suc (length front) \<and> r_error R' = r_error R
    \<and> r_canvas R' = (call E G inputs x (r_canvas R))\<lparr>cv_path := front @ x # take 1 xs\<rparr>"
proof -
  define R0 where "R0 = emit (NodeStarted x) R"
  define R1 where "R1 = R0\<lparr>r_canvas := call E G inputs x (r_canvas R)\<rparr>"
  have b: "run_batch E G ord inputs R0 = Inr ([x], R1)"
    using plain_batch [OF c k refs, of R0 ord E inputs] path idx ord by (simp add: R0_def R1_def)
  have path1: "run_path R1 = front @ [x]"
    using frame_call [OF E, of G inputs x "r_canvas R"] path by (simp add: R1_def frame_def)
  from plain_after_call [OF c k p, of R1 E] err obtain R2 where
    a: "after_call E G x R1 = Inr R2" and i: "r_idx R2 = r_idx R1" and re2: "r_error R2 = r_error R1"
    and C2: "r_canvas R2 = (r_canvas R1)\<lparr>cv_path := fold append_path (c_downstream c) (run_path R1)\<rparr>"
    by (auto simp: R1_def)
  have "fold append_path (c_downstream c) (run_path R1) = front @ x # take 1 xs"
    using ds new path1 by (cases xs) (auto simp: append_path_def)
  then have C2': "r_canvas R2 = (call E G inputs x (r_canvas R))\<lparr>cv_path := front @ x # take 1 xs\<rparr>"
    using C2 by (simp add: R1_def)
  let ?R3 = "R2\<lparr>r_idx := Suc (length front)\<rparr>"
  have w: "wait_for_user E G ?R3 = Inr (?R3, Running)"
    using nx by (cases xs) (auto simp: wait_for_user_def C2' component_def)
  have "run_round E G ord inputs R = Inr (?R3, Running)"
    using b a w re re2 c
    by (simp add: run_round_def path idx component_def R0_def [symmetric] R1_def [symmetric])
      (simp add: R1_def R0_def)
  with C2' re2 show ?thesis by (simp add: R1_def R0_def)
qed

text \<open>
  C16: a chain of components without errors is run to its end: every component is called exactly once, in
  the order of the chain, and the last one's outputs are the answer.
\<close>

theorem chain_runs_in_order:
  assumes "chain G front xs" and "xs \<noteq> []" and "run_path R = front @ [hd xs]" and "r_idx R = length front"
    and "valid_order ord" and "elsewhere_local E" and "\<not> truthy (r_error R)"
    and "\<not> chain_errors E G inputs front xs (r_canvas R)"
  shows "\<exists>R'. run_rounds E G ord inputs (Suc (length xs)) R = Some (finish_run E R')
    \<and> r_idx R' = length (front @ xs) \<and> r_error R' = r_error R
    \<and> r_canvas R' = (chain_calls E G inputs front xs (r_canvas R))\<lparr>cv_path := front @ xs\<rparr>"
  using assms(1-4,7,8)
proof (induction xs arbitrary: front R)
  case (Cons x xs)
  note IH = Cons.IH and path = Cons.prems(3) and idx = Cons.prems(4) and re = Cons.prems(5)
  from Cons.prems(1) obtain c where c: "map_of G x = Some c" "plain_kind (c_kind c)" "c_parent c = None"
    "c_downstream c = (case xs of [] \<Rightarrow> [] | y # _ \<Rightarrow> [y])" "x \<notin> set xs"
    "list_all (\<lambda>r. r \<in> set front \<and> map_of G r \<noteq> None) (c_refs c)" and ch: "chain G (front @ [x]) xs"
    by (auto split: option.splits)
  have nx: "xs \<noteq> [] \<longrightarrow> (\<exists>c'. map_of G (hd xs) = Some c' \<and> type_of c' \<noteq> ''userfillup'')"
    using ch plain_kind_type by (cases xs) (auto split: option.splits)
  have C: "call E G inputs x ((r_canvas R)\<lparr>cv_path := front @ [x]\<rparr>) = call E G inputs x (r_canvas R)"
    using same_path [of "r_canvas R"] Cons.prems(3) by (simp only: list.sel)
  have err: "\<not> truthy (error_of x (call E G inputs x (r_canvas R)))"
    and errs: "\<not> chain_errors E G inputs (front @ [x]) xs (call E G inputs x (r_canvas R))"
    using Cons.prems(6) by (simp_all add: Let_def C)
  from plain_round [OF c _ Cons.prems(4) nx assms(5,6) Cons.prems(5) err] Cons.prems(3) obtain R1 where
    r: "run_round E G ord inputs R = Inr (R1, Running)" and i: "r_idx R1 = Suc (length front)" and e: "r_error R1 = r_error R"
    and C1: "r_canvas R1 = (call E G inputs x (r_canvas R))\<lparr>cv_path := front @ x # take 1 xs\<rparr>"
    by auto
  show ?case
  proof (cases xs)
    case Nil
    then show ?thesis using r i e C1 Cons.prems(3,4) C by (intro exI [of _ R1]) simp
  next
    case (Cons y ys)
    have path1: "run_path R1 = (front @ [x]) @ [hd xs]" "r_idx R1 = length (front @ [x])" using C1 i Cons by simp_all
    have same: "chain_calls E G inputs (front @ [x]) xs (r_canvas R1) = chain_calls E G inputs (front @ [x]) xs (call E G inputs x (r_canvas R))"
      "chain_errors E G inputs (front @ [x]) xs (r_canvas R1) = chain_errors E G inputs (front @ [x]) xs (call E G inputs x (r_canvas R))"
      using Cons by (simp_all add: C1)
    have "xs \<noteq> []" using Cons by simp
    from IH [OF ch this path1] re e errs same obtain R2 where
      "run_rounds E G ord inputs (Suc (length xs)) R1 = Some (finish_run E R2)"
      and i2: "r_idx R2 = length ((front @ [x]) @ xs)" and e2: "r_error R2 = r_error R1"
      and C2: "r_canvas R2 = (chain_calls E G inputs (front @ [x]) xs (call E G inputs x (r_canvas R)))\<lparr>cv_path := (front @ [x]) @ xs\<rparr>"
      by auto
    then have "run_rounds E G ord inputs (Suc (length (x # xs))) R = Some (finish_run E R2)"
      using r path idx by simp
    with i2 e2 e C2 show ?thesis by (intro exI [of _ R2]) (simp add: C)
  qed
qed simp

text \<open>The sample agent with two components that do nothing.\<close>

lemma quiet_call:
  assumes "x \<in> {''begin'', ''b''}"
  shows "has_error j (call engine0 agent2 (VDict []) x C) = has_error j C"
  using assms
  by (cases "j = x")
    (auto simp: call_def agent2_def invoke_def call_inner_def node_def invoke_begin_def has_error_other Let_def case_prod_beta
      , auto simp: engine0_def tick_clock_def has_error_other)

lemma quiet: "\<not> has_error j C \<Longrightarrow> x \<in> {''begin'', ''b''} \<Longrightarrow> \<not> truthy (error_of j (call engine0 agent2 (VDict []) x C))"
  using quiet_call [of x j C] by (auto dest: has_errorI)

lemma no_errors: "\<not> has_error x fresh_canvas"
  by (cases "map_of agent1 x") (simp_all add: has_error_def error_of_def outputs_of_def fresh_canvas_def dict_value_def)

lemma quiet_round:
  assumes "run_path R = front @ [x]" and "r_idx R = length front" and "\<not> truthy (r_error R)"
    and "\<And>j. \<not> has_error j (r_canvas R)" and "(front, x, xs) \<in> {([], ''begin'', [''b'']), ([''begin''], ''b'', [])}"
  shows "\<exists>R'. round_step engine0 agent2 (VDict []) R R' \<and> run_path R' = front @ x # take 1 xs \<and> r_idx R' = Suc (length front)
    \<and> r_error R' = r_error R \<and> (\<forall>j. \<not> has_error j (r_canvas R'))"
proof -
  from assms(5) have "\<exists>c. map_of agent2 x = Some c \<and> plain_kind (c_kind c) \<and> c_parent c = None
      \<and> c_downstream c = (case xs of [] \<Rightarrow> [] | y # _ \<Rightarrow> [y]) \<and> x \<notin> set xs
      \<and> list_all (\<lambda>r. r \<in> set front \<and> map_of agent2 r \<noteq> None) (c_refs c)"
    and nx: "xs \<noteq> [] \<longrightarrow> (\<exists>c'. map_of agent2 (hd xs) = Some c' \<and> type_of c' \<noteq> ''userfillup'')"
    by (auto simp: agent2_def node_def plain_kind_def)
  then obtain c where c: "map_of agent2 x = Some c" "plain_kind (c_kind c)" "c_parent c = None"
    "c_downstream c = (case xs of [] \<Rightarrow> [] | y # _ \<Rightarrow> [y])" "x \<notin> set xs"
    "list_all (\<lambda>r. r \<in> set front \<and> map_of agent2 r \<noteq> None) (c_refs c)" by blast
  have x: "x \<in> {''begin'', ''b''}" using assms(5) by auto
  from plain_round [OF c assms(1,2) nx valid_id engine0_local assms(3) quiet [OF assms(4) x]] obtain R' where
    r: "run_round engine0 agent2 (\<lambda>_. id) (VDict []) R = Inr (R', Running)" "r_idx R' = Suc (length front)" "r_error R' = r_error R"
      "r_canvas R' = (call engine0 agent2 (VDict []) x (r_canvas R))\<lparr>cv_path := front @ x # take 1 xs\<rparr>" by blast
  have "round_step engine0 agent2 (VDict []) R R'"
    using round_step.round [OF valid_id _ r(1)] assms(1,2) by simp
  with r quiet_call [OF x] assms(4) show ?thesis by auto
qed

theorem chain_runs_in_order_witness:
  "\<exists>R'. run_rounds engine0 agent2 (\<lambda>_. id) (VDict []) 3 (run_at [''begin''] 0) = Some (finish_run engine0 R')
     \<and> run_path R' = [''begin'', ''b''] \<and> r_idx R' = 2"
proof -
  have c: "chain agent2 [] [''begin'', ''b'']" by (simp add: agent2_def node_def plain_kind_def)
  have "\<not> has_error j (call engine0 agent2 (VDict []) ''begin'' (fresh_canvas\<lparr>cv_path := p\<rparr>))" for j p
    using no_errors by (simp add: quiet_call)
  then have "\<not> chain_errors engine0 agent2 (VDict []) [] [''begin'', ''b''] (r_canvas (run_at [''begin''] 0))"
    using no_errors by (simp add: run_at_def Let_def quiet)
  from chain_runs_in_order [OF c _ _ _ valid_id engine0_local _ this] show ?thesis
    by (fastforce simp: run_at_def numeral_eq_Suc)
qed

theorem components_follow_their_references_witness:
  "\<exists>R0 R. start_run engine0 agent2 question0 fresh_canvas = Inr R0 \<and> (round_step engine0 agent2 (VDict []))\<^sup>*\<^sup>* R0 R
     \<and> run_path R = [''begin'', ''b''] \<and> ''begin'' \<in> set (take 1 (run_path R))"
proof -
  have "\<exists>R0. start_run engine0 agent2 question0 fresh_canvas = Inr R0 \<and> run_path R0 = [''begin''] \<and> r_idx R0 = 0
      \<and> r_error R0 = VStr [] \<and> (\<forall>j. \<not> has_error j (r_canvas R0))"
    by (simp add: start_run_def add_history_def question0_def fresh_canvas_def engine0_def set_global_def reset_outputs_def
        count_turn_def put_payload_def agent2_def Let_def node_def has_error_def error_of_def outputs_of_def dict_value_def
        split: option.split)
  then obtain R0 where R0: "start_run engine0 agent2 question0 fresh_canvas = Inr R0" "run_path R0 = [''begin'']" "r_idx R0 = 0"
    "r_error R0 = VStr []" "\<And>j. \<not> has_error j (r_canvas R0)" by blast
  from quiet_round [of R0 "[]" "''begin''" "[''b'']"] R0 obtain R1 where
    R1: "round_step engine0 agent2 (VDict []) R0 R1" "run_path R1 = [''begin'', ''b'']" "r_idx R1 = 1" "r_error R1 = VStr []"
      "\<And>j. \<not> has_error j (r_canvas R1)" by auto
  from quiet_round [of R1 "[''begin'']" "''b''" "[]"] R1 obtain R2 where
    R2: "round_step engine0 agent2 (VDict []) R1 R2" "run_path R2 = [''begin'', ''b'']" "r_idx R2 = 2" by auto
  have steps: "(round_step engine0 agent2 (VDict []))\<^sup>*\<^sup>* R0 R2" using R1(1) R2(1) by (rule converse_rtranclp_into_rtranclp [OF _ r_into_rtranclp])
  have "\<not> fillup_id (e_py engine0) ''begin''" by code_simp
  with components_follow_their_references [OF R0(1) steps engine0_local, of 1 "node (Elsewhere ''done'') [] [''begin'']" "''begin''"]
    R0 R2 have "''begin'' \<in> set (take 1 (run_path R2))"
    by (simp add: agent2_def node_def)
  with R0(1) steps R2(2) show ?thesis by blast
qed

end
