(* ===== verification/AgentTextProperties.thy ===== *)
theory AgentTextProperties
  imports AgentText
begin

text \<open>
  The properties of the components that work on text: the streamed message is the filled template,
  splitting undoes joining, and a category is chosen by its number of mentions.
\<close>

subsection \<open>Messages\<close>

definition cache_ok :: "pyenv \<Rightarrow> ('x) vars_scheme \<Rightarrow> (string \<times> string) list \<Rightarrow> bool" where
  "cache_ok P C cache \<longleftrightarrow>
     (\<forall>g s. map_of cache g = Some s \<longrightarrow> (\<exists>v. get_variable_value P g C = Inr v \<and> s = replacement P v))"

lemma stream_chunks_fill:
  assumes "cache_ok P C cache"
  shows "map_sum id concat (stream_chunks P C cache lit ps) = map_sum id ((@) lit) (fill P C ps)"
  using assms
proof (induction P C cache lit ps rule: stream_chunks.induct)
  case (1 P C cache lit)
  then show ?case by simp
next
  case (2 P C cache lit c ps)
  then show ?case by (cases "fill P C ps") simp_all
next
  case (3 P C cache lit g ps)
  show ?case
  proof (cases "map_of cache g")
    case None
    show ?thesis
    proof (cases "get_variable_value P g C")
      case (Inr v)
      have ok: "cache_ok P C ((g, replacement P v) # cache)" using 3(3) Inr by (auto simp: cache_ok_def)
      with 3(1) [OF None ok] show ?thesis
        using None Inr
        by (cases "stream_chunks P C ((g, replacement P v) # cache) [] ps"; cases "fill P C ps") auto
    qed (simp add: None)
  next
    case (Some s)
    then obtain v where "get_variable_value P g C = Inr v" "s = replacement P v" using 3(3) by (auto simp: cache_ok_def)
    with 3(2) [OF Some 3(3)] Some show ?thesis
      by (cases "stream_chunks P C cache [] ps"; cases "fill P C ps") auto
  qed
qed

text \<open>
  The chunks of a streamed message, put together, are its content with the references filled in, as
  a template is filled at once; the same text becomes the component's output.
\<close>

lemma streamed_message_is_template:
  "map_sum id (\<lambda>(cs, C'). (concat cs, C')) (stream_message P cid content C) =
     map_sum id (\<lambda>s. (s, set_output cid ''content'' (VStr s) C)) (get_value_with_variable P content C)"
proof -
  have "cache_ok P C []" by (simp add: cache_ok_def)
  from stream_chunks_fill [OF this, of "[]" "pieces content"] show ?thesis
    by (cases "stream_chunks P C [] [] (pieces content)"; cases "fill P C (pieces content)")
      (simp_all add: stream_message_def get_value_with_variable_def)
qed

subsection \<open>Splitting\<close>

lemma split_pieces_nonempty [simp]: "split_pieces ds stuck s \<noteq> []"
  by (subst split_pieces.simps) (auto simp: onto_head_def split: option.split list.split)

lemma join_onto_head: "ps \<noteq> [] \<Longrightarrow> join_with d (onto_head c ps) = c # join_with d ps"
  by (cases "(d, ps)" rule: join_with.cases) (auto simp: onto_head_def)

lemma join_Cons: "ps \<noteq> [] \<Longrightarrow> join_with d (p # ps) = p @ d @ join_with d ps"
  by (cases ps) auto

lemma split_pieces_one:
  assumes "d \<noteq> []"
  shows "split_pieces [d] stuck s =
    (if starts_with d s then [] # split_pieces [d] False (drop (length d) s)
     else if s = [] then [[]] else onto_head (hd s) (split_pieces [d] False (tl s)))"
  using assms by (subst split_pieces.simps) simp

lemma split_head_prefix:
  assumes "d \<noteq> []"
  shows "starts_with (hd (split_pieces [d] stuck s)) s"
proof (induction s arbitrary: stuck)
  case Nil
  show ?case using assms by (subst split_pieces_one) simp_all
next
  case (Cons c s)
  obtain p ps where ps: "split_pieces [d] False s = p # ps" by (meson neq_Nil_conv split_pieces_nonempty)
  have "hd (split_pieces [d] stuck (c # s)) = (if starts_with d (c # s) then [] else c # p)"
    using assms ps by (subst split_pieces_one) (simp_all add: onto_head_def)
  moreover have "starts_with p s" using Cons [of False] ps by simp
  ultimately show ?case by simp
qed

lemma starts_with_trans: "starts_with p q \<Longrightarrow> starts_with q s \<Longrightarrow> starts_with p s"
  by (auto simp: starts_with_iff)

text \<open>
  With one delimiter that is not empty, joining the pieces of a text with it gives the text back, and
  no piece contains the delimiter.
\<close>

lemma split_then_join:
  assumes "d \<noteq> []"
  shows "join_with d (split_pieces [d] stuck s) = s \<and> (\<forall>p\<in>set (split_pieces [d] stuck s). \<not> str_in d p)"
proof (induction s arbitrary: stuck rule: length_induct)
  case (1 s)
  show ?case
  proof (cases "starts_with d s")
    case True
    then obtain t where t: "s = d @ t" by (auto simp: starts_with_iff)
    with assms have "length t < length s" by (cases d) auto
    with 1 have ih: "join_with d (split_pieces [d] False t) = t" "\<forall>p\<in>set (split_pieces [d] False t). \<not> str_in d p" by blast+
    have "split_pieces [d] stuck s = [] # split_pieces [d] False t" using t assms by (subst split_pieces_one) simp_all
    with ih t assms show ?thesis by (simp add: join_Cons)
  next
    case False
    show ?thesis
    proof (cases s)
      case (Cons c s')
      let ?ps = "split_pieces [d] False s'"
      have "length s' < length s" using Cons by simp
      with 1 have ih: "join_with d ?ps = s'" "\<forall>p\<in>set ?ps. \<not> str_in d p" by blast+
      obtain p ps where ps: "?ps = p # ps" by (meson neq_Nil_conv split_pieces_nonempty)
      have "starts_with (c # p) s" using split_head_prefix [OF assms, of False s'] ps Cons by simp
      then have "\<not> starts_with d (c # p)" using False starts_with_trans by blast
      with ih ps have "\<not> str_in d (c # p)" by simp
      moreover have "split_pieces [d] stuck s = (c # p) # ps"
        using False assms Cons ps by (subst split_pieces_one) (auto simp: onto_head_def)
      ultimately show ?thesis using ih ps Cons by (cases ps) auto
    qed (use False assms in \<open>simp add: split_pieces_one\<close>)
  qed
qed

subsection \<open>Categories\<close>

lemma first_max_spec:
  "\<exists>ys zs. b # cs = ys @ first_max f b cs # zs \<and> (\<forall>y\<in>set ys. f y < f (first_max f b cs))
     \<and> (\<forall>z\<in>set zs. f z \<le> f (first_max f b cs))"
proof (induction cs arbitrary: b)
  case (Cons c cs)
  show ?case
  proof (cases "f b < f c")
    case True
    from Cons [of c] obtain ys zs where *: "c # cs = ys @ first_max f c cs # zs" "\<forall>y\<in>set ys. f y < f (first_max f c cs)"
      "\<forall>z\<in>set zs. f z \<le> f (first_max f c cs)" by blast
    have "f c \<le> f (first_max f c cs)" using * by (cases ys) (auto intro: less_imp_le)
    with True *(2) have "\<forall>y\<in>set (b # ys). f y < f (first_max f c cs)" by simp
    moreover have "b # c # cs = (b # ys) @ first_max f c cs # zs" using *(1) by simp
    moreover have "first_max f b (c # cs) = first_max f c cs" using True by simp
    ultimately show ?thesis using *(3) by metis
  next
    case False
    then have e: "first_max f b (c # cs) = first_max f b cs" by simp
    obtain m where m: "first_max f b cs = m" by blast
    from Cons [of b] obtain ys zs where *: "b # cs = ys @ m # zs" "\<forall>y\<in>set ys. f y < f m" "\<forall>z\<in>set zs. f z \<le> f m"
      unfolding m by blast
    show ?thesis
    proof (cases ys)
      case Nil
      with * False have "b # c # cs = [] @ m # c # zs" "\<forall>z\<in>set (c # zs). f z \<le> f m" by auto
      then show ?thesis unfolding e m by (metis empty_iff empty_set)
    next
      case (Cons y ys')
      with * have "b # c # cs = (b # c # ys') @ m # zs" by simp
      moreover have "\<forall>y\<in>set (b # c # ys'). f y < f m" using * Cons False by auto
      ultimately show ?thesis unfolding e m using *(3) by metis
    qed
  qed
qed (intro exI [of _ "[]"], simp)

text \<open>
  A categorisation that succeeds goes to the targets of the category that the model's answer mentions
  most often, the first of several; if it mentions none, to those of the last category.
\<close>

lemma category_most_mentioned:
  assumes "invoke_categorize P chat cid p hist C = Inr C'" and "v_outputs C cid \<noteq> None" and "cp_categories p \<noteq> []"
  shows "\<exists>prompt ans c ys zs. chat (category_prompt (cp_categories p)) prompt = Inr ans
    \<and> cp_categories p = ys @ c # zs
    \<and> output_of (outputs_of cid C') ''_next'' = VList (map VStr (ca_to c))
    \<and> (if \<exists>d\<in>set (cp_categories p). 0 < category_count P ans d
       then (\<forall>d\<in>set ys. category_count P ans d < category_count P ans c) \<and> (\<forall>d\<in>set zs. category_count P ans d \<le> category_count P ans c)
       else zs = [])"
proof -
  obtain prompt ans where a: "chat (category_prompt (cp_categories p)) prompt = Inr ans"
    and C': "C' = set_output cid ''_next'' (VList (map VStr (ca_to (choose_category P ans (cp_categories p)))))
      (set_output cid ''category_name'' (VStr (ca_name (choose_category P ans (cp_categories p)))) C)"
    using assms(1) by (auto simp: invoke_categorize_def Let_def elim!: sum_bind_InrE split: if_splits)
  let ?c = "choose_category P ans (cp_categories p)"
  have out: "output_of (outputs_of cid C') ''_next'' = VList (map VStr (ca_to ?c))"
    using assms(2) by (auto simp: C' outputs_of_def output_of_def)
  obtain b cs where b: "cp_categories p = b # cs" using assms(3) by (cases "cp_categories p") auto
  show ?thesis
  proof (cases "\<exists>d\<in>set (cp_categories p). 0 < category_count P ans d")
    case True
    then have "?c = first_max (category_count P ans) b cs" by (simp add: choose_category_def b)
    with first_max_spec [of b cs "category_count P ans"] a out True b show ?thesis by (metis (lifting))
  next
    case False
    then have "cp_categories p = butlast (cp_categories p) @ ?c # []"
      using assms(3) by (simp add: choose_category_def)
    with a out False show ?thesis by (metis (lifting))
  qed
qed

definition topics0 :: categorize_param where
  "topics0 = \<lparr>cp_query = [], cp_window = 1, cp_categories =
     [\<lparr>ca_name = ''bill'', ca_description = [], ca_examples = [], ca_to = [''b'']\<rparr>,
      \<lparr>ca_name = ''other'', ca_description = [], ca_examples = [], ca_to = [''o'']\<rparr>]\<rparr>"

end
