(* ===== verification/AgentDsl.thy ===== *)
theory AgentDsl
  imports AgentProperties
begin

text \<open>
  The migration of old agents (\<open>agent/dsl_migration.py\<close>): components with a legacy name get the current
  one, and with it the ids, references, paths, nodes and edges.  A DSL is a value as JSON gives it.
\<close>

subsection \<open>Renamed ids\<close>

definition component_rename :: "string \<Rightarrow> string" where
  "component_rename name =
     (if name = ''Splitter'' then ''TokenChunker''
      else if name = ''HierarchicalMerger'' then ''TitleChunker'' else name)"

definition node_type_rename :: "string \<Rightarrow> string" where
  "node_type_rename ty = (if ty = ''splitterNode'' then ''chunkerNode'' else ty)"

definition current_id :: "string \<Rightarrow> string" where
  "current_id cid =
     (if starts_with ''Splitter:'' cid then ''TokenChunker:'' @ drop 9 cid
      else if starts_with ''HierarchicalMerger:'' cid then ''TitleChunker:'' @ drop 19 cid
      else cid)"

text \<open>\<open>component_id_map.get(x, x)\<close>, for the components \<open>ids\<close>.\<close>

definition mapped_id :: "string list \<Rightarrow> string \<Rightarrow> string" where
  "mapped_id ids x = (if x \<in> set ids then current_id x else x)"

subsection \<open>References in texts\<close>

text \<open>
  \<open>VARIABLE_REF_PATTERN\<close>: braces and spaces, an id, \<open>@\<close> and a name, spaces and braces.  No two of these
  classes that are neighbours share a character, so a match at a place is the one of the longest runs.
\<close>

definition dsl_id_char :: "char \<Rightarrow> bool" where  \<comment> \<open>\<open>[A-Za-z0-9:_-]\<close>\<close>
  "dsl_id_char c \<longleftrightarrow> is_alnum c \<or> c = CHR '':'' \<or> c = CHR ''_'' \<or> c = CHR ''-''"

text \<open>The three parts of a match around the id: in front, the id, behind it; and the rest of the text.\<close>

definition dsl_ref :: "string \<Rightarrow> (string \<times> string \<times> string \<times> string) option" where
  "dsl_ref s =
     (let b = takeWhile (\<lambda>c. c = CHR ''{'') s; s1 = dropWhile (\<lambda>c. c = CHR ''{'') s;
          sp = takeWhile is_space s1; s2 = dropWhile is_space s1;
          i = takeWhile dsl_id_char s2; s3 = dropWhile dsl_id_char s2;
          n = takeWhile ref_char' (tl s3); s4 = dropWhile ref_char' (tl s3);
          sp' = takeWhile is_space s4; s5 = dropWhile is_space s4;
          b' = takeWhile (\<lambda>c. c = CHR ''}'') s5
      in if b \<noteq> [] \<and> i \<noteq> [] \<and> s3 \<noteq> [] \<and> hd s3 = CHR ''@'' \<and> n \<noteq> [] \<and> b' \<noteq> []
         then Some (b @ sp, i, CHR ''@'' # n @ sp' @ b', dropWhile (\<lambda>c. c = CHR ''}'') s5) else None)"

lemma dsl_ref_append:
  assumes "dsl_ref s = Some (p, i, q, r)"
  shows "s = p @ i @ q @ r \<and> p \<noteq> []"
proof -
  define s1 where "s1 = dropWhile (\<lambda>c. c = CHR ''{'') s"
  define s2 where "s2 = dropWhile is_space s1"
  define s3 where "s3 = dropWhile dsl_id_char s2"
  define s4 where "s4 = dropWhile ref_char' (tl s3)"
  define s5 where "s5 = dropWhile is_space s4"
  have "p = takeWhile (\<lambda>c. c = CHR ''{'') s @ takeWhile is_space s1" "i = takeWhile dsl_id_char s2"
    "q = CHR ''@'' # takeWhile ref_char' (tl s3) @ takeWhile is_space s4 @ takeWhile (\<lambda>c. c = CHR ''}'') s5"
    "r = dropWhile (\<lambda>c. c = CHR ''}'') s5" "s3 \<noteq> []" "hd s3 = CHR ''@''" "takeWhile (\<lambda>c. c = CHR ''{'') s \<noteq> []"
    using assms by (auto simp: dsl_ref_def Let_def s1_def s2_def s3_def s4_def s5_def split: if_splits)
  moreover from \<open>s3 \<noteq> []\<close> \<open>hd s3 = CHR ''@''\<close> have "s3 = CHR ''@'' # tl s3" by (cases s3) simp_all
  moreover have "s = takeWhile (\<lambda>c. c = CHR ''{'') s @ s1" "s1 = takeWhile is_space s1 @ s2" "s2 = takeWhile dsl_id_char s2 @ s3"
    "tl s3 = takeWhile ref_char' (tl s3) @ s4" "s4 = takeWhile is_space s4 @ s5"
    "s5 = takeWhile (\<lambda>c. c = CHR ''}'') s5 @ dropWhile (\<lambda>c. c = CHR ''}'') s5"
    by (simp_all add: s1_def s2_def s3_def s4_def s5_def)
  ultimately show ?thesis by (metis append.assoc append_Cons append_is_Nil_conv)
qed

function rewrite_refs :: "(string \<Rightarrow> string) \<Rightarrow> string \<Rightarrow> string" where
  "rewrite_refs f s =
     (case dsl_ref s of
        Some (p, i, q, r) \<Rightarrow> p @ f i @ q @ rewrite_refs f r
      | None \<Rightarrow> (case s of [] \<Rightarrow> [] | c # cs \<Rightarrow> c # rewrite_refs f cs))"
  by pat_completeness auto
termination
proof (relation "measure (\<lambda>(f, s). length s)")
  fix f :: "string \<Rightarrow> string" and s p i q r :: string and x y z
  assume "dsl_ref s = Some x" "(p, y) = x" "(i, z) = y" "(q, r) = z"
  then have "dsl_ref s = Some (p, i, q, r)" by simp
  from dsl_ref_append [OF this] show "((f, r), f, s) \<in> measure (\<lambda>(f, s). length s)"
    by (auto simp: neq_Nil_conv)
qed auto

declare rewrite_refs.simps [simp del]

definition rewrite_text :: "string list \<Rightarrow> string \<Rightarrow> string" where
  "rewrite_text ids s = (if s \<in> set ids then current_id s else rewrite_refs (mapped_id ids) s)"

fun rewrite_value :: "string list \<Rightarrow> val \<Rightarrow> val" where
  "rewrite_value ids (VStr s) = VStr (rewrite_text ids s)"
| "rewrite_value ids (VList vs) = VList (map (rewrite_value ids) vs)"
| "rewrite_value ids (VDict d) = VDict (map (\<lambda>(k, v). (k, rewrite_value ids v)) d)"
| "rewrite_value ids v = v"

subsection \<open>The parts of a DSL\<close>

text \<open>Changing the value under a key, if there is one, and the shapes a change asks for.\<close>

definition at_key :: "string \<Rightarrow> (val \<Rightarrow> val) \<Rightarrow> (string \<times> val) list \<Rightarrow> (string \<times> val) list" where
  "at_key k f d = map (\<lambda>(j, v). (j, if j = k then f v else v)) d"

definition if_text :: "(string \<Rightarrow> string) \<Rightarrow> val \<Rightarrow> val" where
  "if_text f v = (case v of VStr s \<Rightarrow> VStr (f s) | _ \<Rightarrow> v)"

definition if_list :: "(val \<Rightarrow> val) \<Rightarrow> val \<Rightarrow> val" where
  "if_list f v = (case v of VList vs \<Rightarrow> VList (map f vs) | _ \<Rightarrow> v)"

definition if_dict :: "((string \<times> val) list \<Rightarrow> (string \<times> val) list) \<Rightarrow> val \<Rightarrow> val" where
  "if_dict f v = (case v of VDict d \<Rightarrow> VDict (f d) | _ \<Rightarrow> v)"

text \<open>\<open>obj["component_name"] = COMPONENT_RENAMES.get(component_name, component_name)\<close> sets the key in any case.\<close>

definition rename_component :: "(string \<times> val) list \<Rightarrow> (string \<times> val) list" where
  "rename_component d =
     dict_put ''component_name'' (if_text component_rename (dict_value d ''component_name'')) d"

definition migrate_component :: "string list \<Rightarrow> val \<Rightarrow> val" where
  "migrate_component ids v =
     if_dict (\<lambda>d.
       at_key ''parent_id'' (if_text (mapped_id ids))
         (at_key ''upstream'' (if_list (if_text (mapped_id ids)))
           (at_key ''downstream'' (if_list (if_text (mapped_id ids)))
             (at_key ''obj'' (if_dict rename_component) d)))) (rewrite_value ids v)"

definition migrate_components :: "(string \<times> val) list \<Rightarrow> (string \<times> val) list" where
  "migrate_components comps =
     fold (\<lambda>(cid, v). dict_put (current_id cid) (migrate_component (map fst comps) v)) comps []"

definition migrate_node :: "string list \<Rightarrow> val \<Rightarrow> val" where
  "migrate_node ids =
     if_dict (\<lambda>d.
       at_key ''data'' (if_dict (\<lambda>e.
           at_key ''form'' (rewrite_value ids)
             (at_key ''name'' (if_text component_rename)
               (at_key ''label'' (if_text component_rename) e))))
         (at_key ''type'' (if_text node_type_rename)
           (at_key ''parentId'' (if_text (mapped_id ids)) (at_key ''id'' (if_text (mapped_id ids)) d))))"

text \<open>The id of an edge holds the ids of its ends; longer ids are replaced first.\<close>

definition replacements :: "string list \<Rightarrow> string list" where
  "replacements ids = sort_key (\<lambda>cid. - int (length cid)) ids"

definition edge_id :: "string list \<Rightarrow> string \<Rightarrow> string" where
  "edge_id ids s = fold (\<lambda>cid. str_replace cid (current_id cid)) (replacements ids) s"

definition migrate_edge :: "string list \<Rightarrow> val \<Rightarrow> val" where
  "migrate_edge ids =
     if_dict (\<lambda>d.
       at_key ''id'' (if_text (edge_id ids))
         (at_key ''target'' (if_text (mapped_id ids)) (at_key ''source'' (if_text (mapped_id ids)) d)))"

definition migrate_graph :: "string list \<Rightarrow> (string \<times> val) list \<Rightarrow> (string \<times> val) list" where
  "migrate_graph ids d =
     at_key ''edges'' (if_list (migrate_edge ids)) (at_key ''nodes'' (if_list (migrate_node ids)) d)"

definition normalize_chunker_dsl :: "val \<Rightarrow> val" where
  "normalize_chunker_dsl dsl =
     (case dsl of
        VDict d \<Rightarrow>
          (case map_of d ''components'' of
             Some (VDict comps) \<Rightarrow>
               let ids = map fst comps;
                   d1 = at_key ''components'' (\<lambda>_. VDict (migrate_components comps)) d;
                   d2 = at_key ''path'' (if_list (if_text (mapped_id ids))) d1;
                   d3 = at_key ''graph'' (if_dict (migrate_graph ids)) d2
               in VDict (fold (\<lambda>k. at_key k (rewrite_value ids)) [''history'', ''messages'', ''reference''] d3)
           | _ \<Rightarrow> dsl)
      | _ \<Rightarrow> dsl)"

end
