(* ===== verification/AgentDslProperties.thy ===== *)
theory AgentDslProperties
  imports AgentDsl
begin

text \<open>
  The properties of the migration: applying it twice is applying it once, and it keeps every component
  as long as no two ids become the same.
\<close>

subsection \<open>Current ids\<close>

definition current :: "string list \<Rightarrow> bool" where
  "current ids \<longleftrightarrow> (\<forall>x\<in>set ids. current_id x = x)"

lemma new_id_idem [simp]: "current_id (current_id x) = current_id x"
  by (simp add: current_id_def)

lemma component_rename_idem [simp]: "component_rename (component_rename s) = component_rename s"
  by (simp add: component_rename_def)

lemma node_type_rename_idem [simp]: "node_type_rename (node_type_rename s) = node_type_rename s"
  by (simp add: node_type_rename_def)

lemma mapped_id_current: "current ids \<Longrightarrow> mapped_id ids = id"
  by (auto simp: mapped_id_def current_def)

lemma if_text_id [simp]: "if_text id = id"
  by (auto simp: if_text_def fun_eq_iff split: val.split)

lemma if_list_id [simp]: "if_list id = id"
  by (auto simp: if_list_def fun_eq_iff split: val.split)

lemma if_dict_id [simp]: "if_dict id = id"
  by (auto simp: if_dict_def fun_eq_iff split: val.split)

lemma rewrite_refs_id [simp]: "rewrite_refs id s = s"
proof (induction "id :: string \<Rightarrow> string" s rule: rewrite_refs.induct)
  case (1 s)
  then show ?case
    by (subst rewrite_refs.simps) (auto dest: dsl_ref_append split: option.split list.split)
qed

lemma rewrite_text_current: "current ids \<Longrightarrow> rewrite_text ids s = s"
  by (simp add: rewrite_text_def mapped_id_current) (simp add: current_def)

lemma rewrite_value_current: "current ids \<Longrightarrow> rewrite_value ids = id"
proof
  fix v
  assume "current ids"
  then show "rewrite_value ids v = id v"
    by (induction ids v rule: rewrite_value.induct) (auto simp: rewrite_text_current intro: map_idI)
qed

lemma str_replace_same: "str_replace p p s = s"
proof (induction s rule: length_induct)
  case (1 s)
  show ?case
  proof (cases "p = [] \<or> s = []")
    case False
    then have "length (drop (length p) s) < length s" "length (tl s) < length s" by (auto simp: neq_Nil_conv)
    with 1 have "str_replace p p (drop (length p) s) = drop (length p) s" "str_replace p p (tl s) = tl s" by blast+
    with False show ?thesis by (subst str_replace.simps) (auto simp: starts_with_iff)
  qed (auto simp: str_replace.simps)
qed

lemma edge_id_current: "current ids \<Longrightarrow> edge_id ids = id"
proof
  fix s
  assume "current ids"
  then have "\<forall>x\<in>set (replacements ids). current_id x = x" by (simp add: replacements_def current_def)
  moreover have "\<forall>x\<in>set cs. current_id x = x \<Longrightarrow> fold (\<lambda>cid. str_replace cid (current_id cid)) cs s = s" for cs
    by (induction cs) (simp_all add: str_replace_same)
  ultimately have "fold (\<lambda>cid. str_replace cid (current_id cid)) (replacements ids) s = s" by blast
  then show "edge_id ids s = id s" by (simp add: edge_id_def)
qed

subsection \<open>Changes under a key\<close>

lemma at_key_same: "(\<And>v. (k, v) \<in> set d \<Longrightarrow> f v = v) \<Longrightarrow> at_key k f d = d"
  by (auto simp: at_key_def intro!: map_idI)

lemma at_key_set: "(j, v) \<in> set (at_key k f d) \<longleftrightarrow> (\<exists>w. (j, w) \<in> set d \<and> v = (if j = k then f w else w))"
  by (force simp: at_key_def)

lemma at_key_id [simp]: "at_key k id d = d"
  by (auto simp: at_key_def intro!: map_idI)

lemma map_of_at_key: "map_of (at_key k f d) j = (if j = k then map_option f (map_of d k) else map_of d j)"
  by (induction d) (auto simp: at_key_def)

lemma if_dict_twice: "(\<And>d. g (f d) = f d) \<Longrightarrow> if_dict g (if_dict f v) = if_dict f v"
  by (auto simp: if_dict_def split: val.split)

lemma if_list_twice: "(\<And>v. g (f v) = f v) \<Longrightarrow> if_list g (if_list f v) = if_list f v"
  by (auto simp: if_list_def split: val.split)

lemma if_text_twice: "(\<And>s. g (f s) = f s) \<Longrightarrow> if_text g (if_text f v) = if_text f v"
  by (auto simp: if_text_def split: val.split)

lemma dict_put_same: "map_of d k = Some v \<Longrightarrow> dict_put k v d = d"
proof (induction d)
  case (Cons a d)
  then show ?case by (cases a) (auto split: if_splits)
qed simp

lemma rename_component_twice: "rename_component (rename_component d) = rename_component d"
  by (simp add: rename_component_def dict_value_def if_text_twice dict_put_same)

subsection \<open>Components\<close>

lemma migrate_component_current:
  "current ids \<Longrightarrow> migrate_component ids v = if_dict (at_key ''obj'' (if_dict rename_component)) v"
  by (simp add: migrate_component_def rewrite_value_current mapped_id_current)

lemma migrate_component_twice:
  assumes "current ids'"
  shows "migrate_component ids' (migrate_component ids v) = migrate_component ids v"
  unfolding migrate_component_current [OF assms] unfolding migrate_component_def
  by (rule if_dict_twice) (rule at_key_same, auto simp: at_key_set if_dict_twice rename_component_twice)

lemma fold_put_distinct:
  assumes "distinct (map fst (ys @ xs))"
  shows "fold (\<lambda>(k, v). dict_put k v) xs ys = ys @ xs"
  using assms
proof (induction xs arbitrary: ys)
  case (Cons x xs)
  obtain k v where x: "x = (k, v)" by (cases x)
  have "k \<notin> fst ` set ys \<Longrightarrow> dict_put k v ys = ys @ [(k, v)]" by (induction ys) auto
  moreover have "k \<notin> fst ` set ys" using Cons.prems x by auto
  ultimately show ?case using Cons.IH [of "ys @ [(k, v)]"] Cons.prems by (simp add: x)
qed simp

lemma migrate_components_keys:
  "distinct (map fst (migrate_components comps)) \<and> fst ` set (migrate_components comps) = current_id ` fst ` set comps
   \<and> (\<forall>v\<in>snd ` set (migrate_components comps). \<exists>w. v = migrate_component (map fst comps) w)"
proof -
  let ?f = "\<lambda>(cid, v). dict_put (current_id cid) (migrate_component (map fst comps) v)"
  have put: "snd ` set (dict_put k v d) \<subseteq> insert v (snd ` set d)" for k v and d :: "(string \<times> val) list"
    by (induction k v d rule: dict_put.induct) (simp_all, blast)
  have "distinct (map fst d) \<Longrightarrow> (\<forall>v\<in>snd ` set d. \<exists>w. v = migrate_component (map fst comps) w) \<Longrightarrow>
      distinct (map fst (fold ?f xs d)) \<and> fst ` set (fold ?f xs d) = fst ` set d \<union> current_id ` fst ` set xs
      \<and> (\<forall>v\<in>snd ` set (fold ?f xs d). \<exists>w. v = migrate_component (map fst comps) w)" for xs d
  proof (induction xs arbitrary: d)
    case (Cons x xs)
    obtain k v where x: "x = (k, v)" by (cases x)
    let ?d = "dict_put (current_id k) (migrate_component (map fst comps) v) d"
    have "\<forall>v\<in>snd ` set ?d. \<exists>w. v = migrate_component (map fst comps) w"
      using put [of "current_id k" "migrate_component (map fst comps) v" d] Cons.prems(2) by blast
    from Cons.IH [OF distinct_dict_put [OF Cons.prems(1)] this] show ?case
      by (auto simp: x keys_dict_put)
  qed simp
  from this [of "[]" comps] show ?thesis by (simp add: migrate_components_def)
qed

lemma current_migrated: "current (map fst (migrate_components comps))"
  using migrate_components_keys [of comps] by (auto simp: current_def)

lemma migrate_components_twice: "migrate_components (migrate_components comps) = migrate_components comps"
proof -
  let ?ms = "migrate_components comps"
  have cur: "current (map fst ?ms)" by (rule current_migrated)
  have "(\<lambda>(cid, v). dict_put (current_id cid) (migrate_component (map fst ?ms) v)) x = (\<lambda>(k, v). dict_put k v) x"
    if "x \<in> set ?ms" for x
  proof -
    obtain k v where x: "x = (k, v)" by (cases x)
    from that x have k: "k \<in> set (map fst ?ms)" and v: "v \<in> snd ` set ?ms"
      by (auto intro: rev_image_eqI)
    from k cur have "current_id k = k" unfolding current_def by blast
    moreover obtain w where "v = migrate_component (map fst comps) w"
      using migrate_components_keys [of comps] v by blast
    ultimately show ?thesis by (simp add: x migrate_component_twice [OF cur])
  qed
  then have "migrate_components ?ms = fold (\<lambda>(k, v). dict_put k v) ?ms []"
    by (subst migrate_components_def) (rule fold_cong; simp)
  then show ?thesis using fold_put_distinct [of "[]" ?ms] migrate_components_keys [of comps] by simp
qed

subsection \<open>The graph\<close>

lemma migrate_node_twice:
  assumes "current ids'"
  shows "migrate_node ids' (migrate_node ids v) = migrate_node ids v"
proof -
  define f where "f = (\<lambda>e. at_key ''form'' (rewrite_value ids)
    (at_key ''name'' (if_text component_rename) (at_key ''label'' (if_text component_rename) e)))"
  define F where "F = (\<lambda>d. at_key ''data'' (if_dict f) (at_key ''type'' (if_text node_type_rename)
    (at_key ''parentId'' (if_text (mapped_id ids)) (at_key ''id'' (if_text (mapped_id ids)) d))))"
  have label: "at_key ''label'' (if_text component_rename) (f e) = f e"
    and name: "at_key ''name'' (if_text component_rename) (f e) = f e" for e
    by (rule at_key_same, auto simp: f_def at_key_set if_text_twice)+
  have type: "at_key ''type'' (if_text node_type_rename) (F d) = F d" for d
    by (rule at_key_same) (auto simp: F_def at_key_set if_text_twice)
  have data: "at_key ''data'' (if_dict (\<lambda>e. at_key ''name'' (if_text component_rename)
      (at_key ''label'' (if_text component_rename) e))) (F d) = F d" for d
    by (rule at_key_same) (auto simp: F_def at_key_set if_dict_twice label name)
  have "migrate_node ids' = if_dict (\<lambda>d. at_key ''data'' (if_dict (\<lambda>e. at_key ''name'' (if_text component_rename)
      (at_key ''label'' (if_text component_rename) e))) (at_key ''type'' (if_text node_type_rename) d))"
    by (simp add: migrate_node_def fun_eq_iff mapped_id_current [OF assms] rewrite_value_current [OF assms])
  moreover have "migrate_node ids = if_dict F" by (simp add: migrate_node_def F_def f_def)
  ultimately show ?thesis by (simp add: if_dict_twice type data)
qed

lemma migrate_edge_current: "current ids \<Longrightarrow> migrate_edge ids = id"
proof -
  assume "current ids"
  then have "migrate_edge ids v = if_dict (\<lambda>d. d) v" for v
    by (simp add: migrate_edge_def mapped_id_current edge_id_current)
  then show ?thesis by (simp add: fun_eq_iff if_dict_def split: val.split)
qed

lemma migrate_graph_twice:
  assumes "current ids'"
  shows "migrate_graph ids' (migrate_graph ids d) = migrate_graph ids d"
proof -
  have "at_key ''nodes'' (if_list (migrate_node ids')) (migrate_graph ids d) = migrate_graph ids d"
    by (rule at_key_same) (auto simp: migrate_graph_def at_key_set if_list_twice migrate_node_twice [OF assms])
  then show ?thesis
    by (subst migrate_graph_def) (simp add: migrate_edge_current [OF assms])
qed

text \<open>
  Migrating a migrated agent changes nothing.
\<close>

lemma migration_idempotent:
  "normalize_chunker_dsl (normalize_chunker_dsl dsl) = normalize_chunker_dsl dsl"
proof (cases "\<exists>d comps. dsl = VDict d \<and> map_of d ''components'' = Some (VDict comps)")
  case True
  then obtain d comps where dsl: "dsl = VDict d" and comps: "map_of d ''components'' = Some (VDict comps)" by blast
  define ids where "ids = map fst comps"
  define ids' where "ids' = map fst (migrate_components comps)"
  have cur: "current ids'" unfolding ids'_def by (rule current_migrated)
  define D where "D = fold (\<lambda>k. at_key k (rewrite_value ids)) [''history'', ''messages'', ''reference'']
    (at_key ''graph'' (if_dict (migrate_graph ids)) (at_key ''path'' (if_list (if_text (mapped_id ids)))
      (at_key ''components'' (\<lambda>_. VDict (migrate_components comps)) d)))"
  have n: "normalize_chunker_dsl dsl = VDict D" by (simp add: normalize_chunker_dsl_def dsl comps D_def ids_def Let_def)
  have c: "map_of D ''components'' = Some (VDict (migrate_components comps))" by (simp add: D_def map_of_at_key comps)
  have c': "at_key ''components'' (\<lambda>_. VDict (migrate_components comps)) D = D"
    by (rule at_key_same) (auto simp: D_def at_key_set)
  have g: "at_key ''graph'' (if_dict (migrate_graph ids')) D = D"
    by (rule at_key_same) (auto simp: D_def at_key_set if_dict_twice migrate_graph_twice [OF cur])
  have "normalize_chunker_dsl (VDict D) = VDict D"
    by (simp add: normalize_chunker_dsl_def c Let_def migrate_components_twice ids'_def [symmetric]
        mapped_id_current [OF cur] rewrite_value_current [OF cur] c' g)
  then show ?thesis by (simp add: n)
next
  case False
  then have "normalize_chunker_dsl dsl = dsl"
    by (auto simp: normalize_chunker_dsl_def split: val.splits option.splits)
  then show ?thesis by simp
qed

lemma map_of_fold_put:
  assumes "distinct (map (g \<circ> fst) xs)" and "(k, v) \<in> set xs"
  shows "map_of (fold (\<lambda>(j, w). dict_put (g j) (h w)) xs d) (g k) = Some (h v)"
proof -
  have other: "k \<notin> set (map (g \<circ> fst) ys) \<Longrightarrow> map_of (fold (\<lambda>(j, w). dict_put (g j) (h w)) ys d) k = map_of d k" for k ys d
    by (induction ys arbitrary: d) auto
  show ?thesis using assms
  proof (induction xs arbitrary: d)
    case (Cons x xs)
    show ?case
    proof (cases "x = (k, v)")
      case True
      then show ?thesis using other [of "g k" xs] Cons.prems(1) by simp
    next
      case False
      then show ?thesis using Cons by (cases x) auto
    qed
  qed simp
qed

text \<open>
  Every component survives the migration under its current id, with its references renamed, provided
  no two components get the same id; otherwise the later one takes the place of the earlier.
\<close>

lemma migration_keeps_components:
  assumes "distinct (map (current_id \<circ> fst) comps)" and "(cid, v) \<in> set comps"
  shows "map_of (migrate_components comps) (current_id cid) = Some (migrate_component (map fst comps) v)"
  using map_of_fold_put [OF assms, of "migrate_component (map fst comps)" "[]"]
  by (simp add: migrate_components_def)

text \<open>A legacy id and its current form in one agent: one of the two components is lost.\<close>

lemma migration_collision:
  "migrate_components [(''Splitter:a'', v), (''TokenChunker:a'', w)] =
     [(''TokenChunker:a'', migrate_component [''Splitter:a'', ''TokenChunker:a''] w)]"
  by (simp add: migrate_components_def current_id_def)

end
