(* ===== verification/RagText.thy ===== *)
theory RagText
  imports QmsText
begin

text \<open>
  Text in RAGFlow's document pipeline (\<open>rag/nlp/__init__.py\<close>): the regular expressions that \<open>re.match\<close>
  tries, the splitting of \<open>re.split\<close> at delimiters that are kept, and the delimiters a user writes
  between backticks.  A text is the list of its code points, as in \<open>QmsText\<close>.
\<close>

subsection \<open>Regular expressions\<close>

text \<open>
  The shapes the patterns use: a class of characters, greedy repetitions of a class (\<open>[..]*\<close> and
  \<open>[..]{,n}\<close>), sequence, alternatives, and \<open>$\<close>.  \<open>rests\<close> is what each way to match leaves of the text,
  in the order in which \<open>re\<close> tries them.
\<close>

datatype rx =
    REmpty
  | RClass "nat \<Rightarrow> bool"
  | RMany "nat \<Rightarrow> bool"
  | RUpTo nat "nat \<Rightarrow> bool"
  | RSeq rx rx
  | RAlt rx rx
  | REnd

definition greedy :: "nat \<Rightarrow> ustr \<Rightarrow> ustr list" where
  "greedy n s = map (\<lambda>k. drop k s) (rev [0 ..< Suc n])"

primrec rests :: "rx \<Rightarrow> ustr \<Rightarrow> ustr list" where
  "rests REmpty s = [s]"
| "rests (RClass p) s = (if s \<noteq> [] \<and> p (hd s) then [tl s] else [])"
| "rests (RMany p) s = greedy (length (takeWhile p s)) s"
| "rests (RUpTo n p) s = greedy (min n (length (takeWhile p s))) s"
| "rests (RSeq a b) s = concat (map (rests b) (rests a s))"
| "rests (RAlt a b) s = rests a s @ rests b s"
| "rests REnd s = (if s = [] \<or> s = [10] then [s] else [])"

text \<open>\<open>re.match\<close> and \<open>re.search\<close>, as truth values.\<close>

definition re_match :: "rx \<Rightarrow> ustr \<Rightarrow> bool" where
  "re_match r s \<longleftrightarrow> rests r s \<noteq> []"

fun re_search :: "rx \<Rightarrow> ustr \<Rightarrow> bool" where
  "re_search r [] = re_match r []"
| "re_search r (c # cs) = (re_match r (c # cs) \<or> re_search r cs)"

definition chars :: "nat list \<Rightarrow> rx" where
  "chars w = foldr (\<lambda>c. RSeq (RClass (\<lambda>x. x = c))) w REmpty"

definition some_of :: "(nat \<Rightarrow> bool) \<Rightarrow> rx" where   \<comment> \<open>\<open>[..]+\<close>\<close>
  "some_of p = RSeq (RClass p) (RMany p)"

fun seqs :: "rx list \<Rightarrow> rx" where
  "seqs [] = REmpty"
| "seqs [r] = r"
| "seqs (r # r' # rs) = RSeq r (seqs (r' # rs))"

fun alts :: "rx list \<Rightarrow> rx" where
  "alts [] = RClass (\<lambda>_. False)"
| "alts [r] = r"
| "alts (r # r' # rs) = RAlt r (alts (r' # rs))"

definition digit_code :: "nat \<Rightarrow> bool" where
  "digit_code c \<longleftrightarrow> 48 \<le> c \<and> c \<le> 57"

lemma re_match_seq: "re_match (RSeq a b) s \<longleftrightarrow> (\<exists>t\<in>set (rests a s). re_match b t)"
  by (auto simp: re_match_def)

lemma re_match_alt [simp]: "re_match (RAlt a b) s \<longleftrightarrow> re_match a s \<or> re_match b s"
  by (auto simp: re_match_def)

lemma re_match_class [simp]: "re_match (RClass p) s \<longleftrightarrow> s \<noteq> [] \<and> p (hd s)"
  by (auto simp: re_match_def)

lemma re_match_empty [simp]: "re_match REmpty s"
  by (simp add: re_match_def)

text \<open>A match leaves a suffix of the text.\<close>

lemma rests_suffix: "t \<in> set (rests r s) \<Longrightarrow> \<exists>u. s = u @ t"
proof (induction r arbitrary: s t)
  case (RSeq a b)
  then obtain v where "v \<in> set (rests a s)" and "t \<in> set (rests b v)" by auto
  with RSeq.IH obtain u1 u2 where "s = u1 @ v" and "v = u2 @ t" by blast
  then show ?case by simp
next
  case (RClass p)
  then show ?case by (cases s) (auto split: if_splits)
qed (auto simp: greedy_def simp del: upt_Suc intro: append_take_drop_id [symmetric] split: if_splits)

lemma re_search_iff: "re_search r s \<longleftrightarrow> (\<exists>u v. s = u @ v \<and> re_match r v)"
proof (induction s)
  case (Cons c cs)
  have "(\<exists>u v. c # cs = u @ v \<and> re_match r v) \<longleftrightarrow> re_match r (c # cs) \<or> (\<exists>u v. cs = u @ v \<and> re_match r v)"
    by (metis append_Cons append_Nil list.exhaust list.inject)
  with Cons show ?case by simp
qed simp

subsection \<open>Splitting at delimiters\<close>

text \<open>
  \<open>re.split(r"(..)", s)\<close>: text, delimiter, text, and so on.  \<open>m t\<close> is the length of the delimiter at the
  start of \<open>t\<close>; no delimiter is empty.
\<close>

definition onto_first :: "nat \<Rightarrow> ustr list \<Rightarrow> ustr list" where
  "onto_first c ps = (case ps of [] \<Rightarrow> [[c]] | p # qs \<Rightarrow> (c # p) # qs)"

function re_split :: "(ustr \<Rightarrow> nat option) \<Rightarrow> ustr \<Rightarrow> ustr list" where
  "re_split m [] = [[]]"
| "re_split m (c # cs) =
     (case m (c # cs) of
        Some n \<Rightarrow> [] # take (Suc (n - 1)) (c # cs) # re_split m (drop (n - 1) cs)
      | None \<Rightarrow> onto_first c (re_split m cs))"
  by pat_completeness auto
termination
  by (relation "measure (\<lambda>(m, s). length s)") auto

text \<open>Each text with the delimiter behind it.\<close>

fun pair_up :: "ustr list \<Rightarrow> ustr list" where
  "pair_up [] = []"
| "pair_up [t] = [t]"
| "pair_up (t # d # ps) = (t @ d) # pair_up ps"

lemma concat_onto_first [simp]: "concat (onto_first c ps) = c # concat ps"
  by (simp add: onto_first_def split: list.split)

lemma re_split_nonempty [simp]: "re_split m s \<noteq> []"
  by (cases "(m, s)" rule: re_split.cases) (auto simp: onto_first_def split: option.splits list.splits)

lemma concat_re_split [simp]: "concat (re_split m s) = s"
proof (induction m s rule: re_split.induct)
  case (2 m c cs)
  then show ?case by (cases "m (c # cs)") auto
qed simp

lemma concat_pair_up [simp]: "concat (pair_up ps) = concat ps"
  by (induction ps rule: pair_up.induct) auto

lemma odd_re_split: "odd (length (re_split m s))"
proof (induction m s rule: re_split.induct)
  case (2 m c cs)
  then show ?case
    by (cases "m (c # cs)"; cases "re_split m cs") (auto simp: onto_first_def)
qed simp

text \<open>Alternatives \<open>d1|d2|...\<close> of escaped texts: the first that stands here.\<close>

definition delim_at :: "ustr list \<Rightarrow> ustr \<Rightarrow> nat option" where
  "delim_at ds s = map_option length (find (\<lambda>d. u_starts d s) ds)"

text \<open>The end of a sentence: a line end, \<open>!\<close>, \<open>?\<close>, one of the Chinese marks, or a full stop with a space.\<close>

definition sentence_end :: "ustr \<Rightarrow> nat option" where
  "sentence_end s =
     (if s \<noteq> [] \<and> hd s \<in> {0x3002, 33, 63, 0xFF1F, 0xFF1B, 0xFF01, 10} then Some 1
      else if u_starts [46, 32] s then Some 2 else None)"

definition sentences :: "ustr \<Rightarrow> ustr list" where
  "sentences s = pair_up (re_split sentence_end s)"

lemma concat_sentences [simp]: "concat (sentences s) = s"
  by (simp add: sentences_def)

text \<open>
  The texts between backticks, \<^verbatim>\<open>re.finditer(r"`([^`]+)`", s)\<close>, and the order in which they are tried:
  longest first.  Texts of the same length exclude each other, so their order is of no account.
\<close>

definition backtick_at :: "ustr \<Rightarrow> (ustr \<times> nat) option" where
  "backtick_at s =
     (let g = takeWhile (\<lambda>c. c \<noteq> 96) (tl s) in
      if s \<noteq> [] \<and> hd s = 96 \<and> g \<noteq> [] \<and> drop (length g) (tl s) \<noteq> [] then Some (g, length g + 2) else None)"

definition custom_delimiters :: "ustr \<Rightarrow> ustr list" where
  "custom_delimiters s = scan backtick_at s"

definition longest_first :: "ustr list \<Rightarrow> ustr list" where
  "longest_first ds = rev (sort_key length (rev (remdups ds)))"

lemma custom_delimiters_nonempty: "d \<in> set (custom_delimiters s) \<Longrightarrow> d \<noteq> []"
  by (auto simp: custom_delimiters_def backtick_at_def Let_def dest!: scan_sound split: if_splits)

lemma set_longest_first [simp]: "set (longest_first ds) = set ds"
  by (simp add: longest_first_def)

text \<open>Without a backtick there is no delimiter.\<close>

lemma custom_delimiters_plain: "96 \<notin> set s \<Longrightarrow> custom_delimiters s = []"
  unfolding custom_delimiters_def
  by (induction s) (auto simp: backtick_at_def Let_def)

subsection \<open>Tags of positions\<close>

text \<open>\<open>RAGFlowPdfParser.remove_tag\<close>: \<^verbatim>\<open>re.sub(r"@@[\t0-9.-]+?##", "", txt)\<close>.\<close>

definition tag_char :: "nat \<Rightarrow> bool" where
  "tag_char c \<longleftrightarrow> c = 9 \<or> digit_code c \<or> c = 46 \<or> c = 45"

definition tag_at :: "ustr \<Rightarrow> nat option" where
  "tag_at s =
     (let t = drop 2 s; g = takeWhile tag_char t in
      if u_starts [64, 64] s \<and> g \<noteq> [] \<and> u_starts [35, 35] (drop (length g) t) then Some (length g + 4) else None)"

function remove_tag :: "ustr \<Rightarrow> ustr" where
  "remove_tag [] = []"
| "remove_tag (c # cs) =
     (case tag_at (c # cs) of Some n \<Rightarrow> remove_tag (drop (n - 1) cs) | None \<Rightarrow> c # remove_tag cs)"
  by pat_completeness auto
termination
  by (relation "measure length") auto

lemma remove_tag_plain: "64 \<notin> set s \<Longrightarrow> remove_tag s = s"
  by (induction s) (auto simp: tag_at_def u_starts_def)

subsection \<open>Further functions on text\<close>

text \<open>\<open>s.split()\<close>, \<open>s.split("@")[0]\<close>.\<close>

function u_words :: "ustr \<Rightarrow> ustr list" where
  "u_words s =
     (let t = dropWhile u_space s in
      if t = [] then [] else takeWhile (\<lambda>c. \<not> u_space c) t # u_words (dropWhile (\<lambda>c. \<not> u_space c) t))"
  by pat_completeness auto
termination
proof (relation "measure length", simp)
  fix s t assume t: "t = dropWhile u_space s" and "t \<noteq> []"
  from t \<open>t \<noteq> []\<close> have "\<not> u_space (hd t)" using hd_dropWhile by metis
  with \<open>t \<noteq> []\<close> obtain c cs where "t = c # cs" and "\<not> u_space c" by (cases t) auto
  then have "length (dropWhile (\<lambda>c. \<not> u_space c) t) < length t"
    by (simp add: le_imp_less_Suc length_dropWhile_le)
  also have "\<dots> \<le> length s" using t by (simp add: length_dropWhile_le)
  finally show "(dropWhile (\<lambda>c. \<not> u_space c) t, s) \<in> measure length" by simp
qed

declare u_words.simps [simp del]

definition before_at :: "ustr \<Rightarrow> ustr" where
  "before_at s = takeWhile (\<lambda>c. c \<noteq> 64) s"

end
