(* ===== verification/RagSections.thy ===== *)
theory RagSections
  imports RagText
begin

text \<open>
  The outline of a document (\<open>rag/nlp/__init__.py\<close>): which lines are titles and of which level, the
  tree of titles that \<open>tree_merge\<close> builds and flattens, and \<open>hierarchical_merge\<close>, which gives each
  body text the titles before it.  The number of tokens of a text (\<open>tiktoken\<close>) is a parameter.
\<close>

subsection \<open>Titles\<close>

definition cn_number :: "nat \<Rightarrow> bool" where
  "cn_number c \<longleftrightarrow> c \<in> {0x96F6, 0x4E00, 0x4E8C, 0x4E09, 0x56DB, 0x4E94, 0x516D, 0x4E03, 0x516B, 0x4E5D, 0x5341, 0x767E}"

definition cn_or_digit :: "nat \<Rightarrow> bool" where
  "cn_or_digit c \<longleftrightarrow> cn_number c \<or> digit_code c"

definition one_of :: "nat list \<Rightarrow> rx" where
  "one_of cs = RClass (\<lambda>c. c \<in> set cs)"

abbreviation "digits2 \<equiv> RUpTo 2 digit_code"
abbreviation "dot \<equiv> one_of [46]"
abbreviation "open_paren \<equiv> one_of [40, 0xFF08]"
abbreviation "close_paren \<equiv> one_of [41, 0xFF09]"
abbreviation "line_rest \<equiv> RMany (\<lambda>c. c \<noteq> 10)"

definition nth_cn :: "(nat \<Rightarrow> bool) \<Rightarrow> rx \<Rightarrow> rx" where   \<comment> \<open>\<open>\u7b2c[..]+\<close> and what follows\<close>
  "nth_cn p r = seqs [chars [0x7B2C], some_of p, r]"

definition bullet_pattern :: "rx list list" where
  "bullet_pattern =
    [[nth_cn cn_or_digit (RAlt (RSeq (RUpTo 1 (\<lambda>c. c = 0x5206)) (chars [0x7F16])) (chars [0x90E8, 0x5206])),
      nth_cn cn_or_digit (chars [0x7AE0]),
      nth_cn cn_or_digit (chars [0x8282]),
      nth_cn cn_or_digit (chars [0x6761]),
      seqs [open_paren, some_of cn_number, close_paren]],
     [nth_cn digit_code (chars [0x7AE0]),
      nth_cn digit_code (chars [0x8282]),
      seqs [digits2, one_of [46, 32, 0x3001]],
      seqs [digits2, dot, digits2, RClass (\<lambda>c. \<not> is_letter c \<and> c \<notin> {47, 37, 126, 45})],
      seqs [digits2, dot, digits2, dot, digits2],
      seqs [digits2, dot, digits2, dot, digits2, dot, digits2]],
     [nth_cn cn_or_digit (chars [0x7AE0]),
      nth_cn cn_or_digit (chars [0x8282]),
      seqs [some_of cn_number, one_of [32, 0x3001]],
      seqs [open_paren, some_of cn_number, close_paren],
      seqs [open_paren, digits2, close_paren]],
     [RSeq (chars (asc ''PART ''))
        (alts (map (\<lambda>w. chars (asc w)) [''ONE'', ''TWO'', ''THREE'', ''FOUR'', ''FIVE'', ''SIX'', ''SEVEN'', ''EIGHT'', ''NINE'', ''TEN''])),
      RSeq (chars (asc ''Chapter ''))
        (alts [RSeq (some_of (\<lambda>c. c = 73)) (RUpTo 1 (\<lambda>c. c = 86)), RSeq (chars [86]) (RMany (\<lambda>c. c = 73)),
               chars (asc ''XI''), chars (asc ''IX''), chars (asc ''X'')]),
      RSeq (chars (asc ''Section '')) (some_of digit_code),
      RSeq (chars (asc ''Article '')) (some_of digit_code)],
     [RSeq (chars [35]) (RClass (\<lambda>c. c \<noteq> 35)),
      RSeq (chars [35, 35]) (RClass (\<lambda>c. c \<noteq> 35)),
      RSeq (chars [35, 35, 35]) line_rest,
      RSeq (chars [35, 35, 35, 35]) line_rest,
      RSeq (chars [35, 35, 35, 35, 35]) line_rest,
      RSeq (chars [35, 35, 35, 35, 35, 35]) line_rest]]"

text \<open>\<open>BULLET_PATTERN[bull]\<close>, which counts from the end for \<open>-1\<close>; \<^term>\<open>None\<close> is an \<open>IndexError\<close>.\<close>

definition bullet_group :: "int \<Rightarrow> rx list option" where
  "bullet_group bull =
     (let n = int (length bullet_pattern) in
      if 0 \<le> bull \<and> bull < n then Some (bullet_pattern ! nat bull)
      else if - n \<le> bull \<and> bull < 0 then Some (bullet_pattern ! nat (n + bull)) else None)"

text \<open>The first pattern that matches.\<close>

fun first_match :: "rx list \<Rightarrow> ustr \<Rightarrow> nat option" where
  "first_match [] s = None"
| "first_match (r # rs) s = (if re_match r s then Some 0 else map_option Suc (first_match rs s))"

definition not_bullet :: "ustr \<Rightarrow> bool" where
  "not_bullet line \<longleftrightarrow>
     re_match (chars [48]) line
     \<or> re_match (seqs [some_of digit_code, some_of (\<lambda>c. c = 32), RClass (\<lambda>c. digit_code c \<or> c \<in> {126, 0x4E2A, 0x53EA, 45})]) line
     \<or> re_match (seqs [some_of digit_code, chars [46, 46], RMany (\<lambda>c. c = 46)]) line"

definition not_title :: "ustr \<Rightarrow> bool" where
  "not_title txt \<longleftrightarrow>
     (if re_match (nth_cn cn_or_digit (chars [0x6761])) txt then False
      else if 12 < length (u_words txt) \<or> (32 \<notin> set txt \<and> 32 \<le> length txt) then True
      else re_search (one_of [44, 59, 0xFF0C, 0x3002, 0xFF1B, 0xFF01, 33]) txt)"

definition title_layout :: "ustr \<Rightarrow> bool" where   \<comment> \<open>\<open>re.search(r"(title|head)", layout)\<close>\<close>
  "title_layout layout \<longleftrightarrow> re_search (RAlt (chars (asc ''title'')) (chars (asc ''head''))) layout"

text \<open>\<open>bullets_category\<close>: the group of patterns that matches the most sections, the first of several; \<open>-1\<close> without any.\<close>

definition group_hits :: "ustr list \<Rightarrow> rx list \<Rightarrow> nat" where
  "group_hits sections pro =
     length (filter (\<lambda>sec. first_match pro (u_strip sec) \<noteq> None \<and> \<not> not_bullet (u_strip sec)) sections)"

fun first_most :: "int \<Rightarrow> nat \<Rightarrow> int \<Rightarrow> nat list \<Rightarrow> int" where
  "first_most res maximum i [] = res"
| "first_most res maximum i (h # hs) =
     (if h \<le> maximum then first_most res maximum (i + 1) hs else first_most i h (i + 1) hs)"

definition bullets_category :: "ustr list \<Rightarrow> int" where
  "bullets_category sections = first_most (- 1) 0 0 (map (group_hits sections) bullet_pattern)"

text \<open>\<open>title_frequency\<close>: the level of each section, and the level of titles that most sections have.\<close>

definition frequency_level :: "rx list \<Rightarrow> ustr \<times> ustr \<Rightarrow> nat" where
  "frequency_level ps sec =
     (let (txt, layout) = sec in
      case first_match ps (u_strip txt) of
        Some j \<Rightarrow> if \<not> not_bullet txt then j
                  else if title_layout layout \<and> \<not> not_title (before_at txt) then length ps else length ps + 1
      | None \<Rightarrow> if title_layout layout \<and> \<not> not_title (before_at txt) then length ps else length ps + 1)"

definition most_level :: "nat \<Rightarrow> nat list \<Rightarrow> nat" where
  "most_level n levels =
     (case find (\<lambda>l. l \<le> n) (sort_key (\<lambda>l. - int (count_list levels l)) (dedup levels)) of
        Some l \<Rightarrow> l | None \<Rightarrow> n + 1)"

definition title_frequency :: "int \<Rightarrow> (ustr \<times> ustr) list \<Rightarrow> (nat \<times> nat list) option" where
  "title_frequency bull sections =
     (case bullet_group bull of
        None \<Rightarrow> None
      | Some ps \<Rightarrow>
          let n = length ps in
          Some (if sections = [] \<or> bull < 0 then (n + 1, map (\<lambda>_. n + 1) sections)
                else let levels = map (frequency_level ps) sections in (most_level n levels, levels)))"

text \<open>
  \<open>make_colon_as_title\<close>, which changes the list in place: a text that ends with a colon is split, from
  its end, at the marks of sentences.
\<close>

definition mark_at :: "ustr \<Rightarrow> nat option" where
  "mark_at s =
     (if s \<noteq> [] \<and> hd s \<in> {0x3002, 0xFF1F, 0xFF01, 33, 63, 59, 0xFF1B} then Some 1
      else if u_starts [32, 46] s then Some 2 else None)"

fun make_colon_as_title :: "(ustr \<times> ustr) list \<Rightarrow> (ustr \<times> ustr) list" where
  "make_colon_as_title [] = []"
| "make_colon_as_title ((txt, layout) # rest) =
     (let t = u_strip (before_at txt); arr = re_split mark_at (rev t) in
      if t = [] \<or> last t \<notin> {58, 0xFF1A} \<or> length arr < 2 \<or> length (arr ! 1) < 32
      then (txt, layout) # make_colon_as_title rest
      else (rev (arr ! 0), asc ''title'') # (txt, layout) # make_colon_as_title rest)"

text \<open>The sections both merges look at: those that are more than a page number.\<close>

datatype sections = Texts "ustr list" | Laid "(ustr \<times> ustr) list"

fun laid_out :: "sections \<Rightarrow> (ustr \<times> ustr) list" where
  "laid_out (Texts ts) = map (\<lambda>t. (t, [])) ts"
| "laid_out (Laid ps) = ps"

definition proper_section :: "ustr \<times> ustr \<Rightarrow> bool" where
  "proper_section sec \<longleftrightarrow>
     (let t = u_strip (before_at (fst sec)) in
      fst sec \<noteq> [] \<and> 1 < length t \<and> \<not> re_match (RSeq (some_of digit_code) REnd) t)"

subsection \<open>The tree of titles\<close>

text \<open>
  \<open>Node\<close> with its level, texts and children; the depth is that of the root.  \<open>build_tree\<close> keeps a stack of the nodes that are
  still open, here the innermost first: each is the last child of the one behind it, and joins its
  children when it is popped.
\<close>

datatype title_node = Node (n_level: nat) (n_texts: "ustr list") (n_children: "title_node list")

definition add_child :: "title_node \<Rightarrow> title_node \<Rightarrow> title_node" where
  "add_child c n = Node (n_level n) (n_texts n) (n_children n @ [c])"

definition add_text :: "ustr \<Rightarrow> title_node \<Rightarrow> title_node" where
  "add_text t n = Node (n_level n) (n_texts n @ [t]) (n_children n)"

fun pop_to :: "nat \<Rightarrow> title_node list \<Rightarrow> title_node list" where
  "pop_to level (n # p # st) = (if level \<le> n_level n then pop_to level (add_child n p # st) else n # p # st)"
| "pop_to level st = st"

definition build_step :: "int \<Rightarrow> nat \<times> ustr \<Rightarrow> title_node list \<Rightarrow> title_node list" where
  "build_step depth line st =
     (let (level, text) = line in
      if depth \<noteq> - 1 \<and> depth < int level then add_text text (hd st) # tl st
      else Node level [text] [] # pop_to level st)"

fun close_all :: "title_node list \<Rightarrow> title_node" where
  "close_all (n # p # st) = close_all (add_child n p # st)"
| "close_all [n] = n"
| "close_all [] = Node 0 [] []"

definition build_tree :: "int \<Rightarrow> title_node \<Rightarrow> (nat \<times> ustr) list \<Rightarrow> title_node" where
  "build_tree depth self lines = close_all (fold (build_step depth) lines [self])"

fun dfs :: "int \<Rightarrow> ustr list \<Rightarrow> title_node \<Rightarrow> ustr list" where
  "dfs depth titles (Node level texts child) =
     (let path_titles = (if 1 \<le> level \<and> int level \<le> depth then titles @ texts else titles) in
      (if level = 0 \<and> texts \<noteq> [] then [u_join [10] (titles @ texts)] else [])
      @ (if depth < int level \<and> texts \<noteq> [] then [u_join [10] (path_titles @ texts)]
         else if child = [] \<and> 1 \<le> level \<and> int level \<le> depth then [u_join [10] path_titles] else [])
      @ concat (map (dfs depth path_titles) child))"

definition get_tree :: "int \<Rightarrow> title_node \<Rightarrow> ustr list" where
  "get_tree depth n = dfs depth [] n"

text \<open>\<open>re.sub(r"\u3000", " ", text).strip()\<close>, and the level of a line, from 1.\<close>

definition plain_spaces :: "ustr \<Rightarrow> ustr" where
  "plain_spaces s = u_strip (map (\<lambda>c. if c = 0x3000 then 32 else c) s)"

definition get_level :: "rx list \<Rightarrow> ustr \<times> ustr \<Rightarrow> nat \<times> ustr" where
  "get_level ps sec =
     (let text = plain_spaces (fst sec) in
      (case first_match ps (u_strip text) of
         Some i \<Rightarrow> i + 1
       | None \<Rightarrow> if title_layout (snd sec) \<and> \<not> not_title text then length ps + 1 else length ps + 2, text))"

definition tree_lines :: "rx list \<Rightarrow> (ustr \<times> ustr) list \<Rightarrow> (nat \<times> ustr) list" where
  "tree_lines ps secs = filter (\<lambda>(l, t). \<not> (set t \<subseteq> {10})) (map (get_level ps) secs)"

text \<open>The level down to which titles are told apart; \<^term>\<open>None\<close>: \<open>IndexError\<close> of an empty list.\<close>

definition target_level :: "nat \<Rightarrow> nat \<Rightarrow> nat list \<Rightarrow> nat option" where
  "target_level n depth levels =
     (let sorted_levels = sort (remdups levels);
          target = (if 1 \<le> depth \<and> depth \<le> length sorted_levels then Some (sorted_levels ! (depth - 1))
                    else if sorted_levels = [] then None else Some (last sorted_levels))
      in case target of
           None \<Rightarrow> None
         | Some l \<Rightarrow>
             if l = n + 2 then
               Some (if 1 < length sorted_levels then sorted_levels ! (length sorted_levels - 2) else sorted_levels ! 0)
             else Some l)"

datatype merge_error = BadIndex | BadAssertion

definition tree_merge :: "int \<Rightarrow> sections \<Rightarrow> nat \<Rightarrow> merge_error + sections" where
  "tree_merge bull secs depth =
     (if laid_out secs = [] \<or> bull < 0 then Inr secs
      else case bullet_group bull of
        None \<Rightarrow> Inl BadIndex
      | Some ps \<Rightarrow>
          let lines = tree_lines ps (filter proper_section (laid_out secs)) in
          case target_level (length ps) depth (map fst lines) of
            None \<Rightarrow> Inl BadIndex
          | Some target \<Rightarrow>
              Inr (Texts (filter (\<lambda>e. e \<noteq> []) (get_tree (int target) (build_tree (int target) (Node 0 [] []) lines)))))"

subsection \<open>The hierarchical merge\<close>

text \<open>
  \<open>binary_search\<close>: the place of the last element of \<open>arr\<close> before \<open>target\<close>, \<open>-1\<close> if there is none;
  \<^term>\<open>None\<close> is the \<open>assert False\<close> of a target that is in the list.
\<close>

function search_loop :: "nat list \<Rightarrow> nat \<Rightarrow> nat \<Rightarrow> nat \<Rightarrow> nat option" where
  "search_loop arr target s e =
     (if e - s \<le> 1 then Some s
      else let i = (e + s) div 2 in
        if arr ! i < target then search_loop arr target i e
        else if target < arr ! i then search_loop arr target s i
        else None)"
  by pat_completeness auto
termination
  by (relation "measure (\<lambda>(arr, target, s, e). e - s)") auto

declare search_loop.simps [simp del]

definition binary_search :: "nat list \<Rightarrow> nat \<Rightarrow> int option" where
  "binary_search arr target =
     (if arr = [] then Some (- 1)
      else if last arr < target then Some (int (length arr) - 1)
      else if target < hd arr then Some (- 1)
      else map_option int (search_loop arr target 0 (length arr)))"

text \<open>The kind of a section: its pattern, a title without one, or body text; and the sections of each kind.\<close>

definition section_kind :: "rx list \<Rightarrow> ustr \<times> ustr \<Rightarrow> nat" where
  "section_kind ps sec =
     (case first_match ps (u_strip (fst sec)) of
        Some j \<Rightarrow> j
      | None \<Rightarrow> if title_layout (snd sec) \<and> \<not> not_title (fst sec) then length ps else length ps + 1)"

definition kind_levels :: "rx list \<Rightarrow> (ustr \<times> ustr) list \<Rightarrow> nat list list" where
  "kind_levels ps secs =
     map (\<lambda>k. filter (\<lambda>i. section_kind ps (secs ! i) = k) [0 ..< length secs]) [0 ..< length ps + 2]"

text \<open>
  For a section \<open>j\<close>, the last section of each higher level that stands before it, if it stands behind the one
  found so far it takes the place of that one.
\<close>

fun attach :: "nat \<Rightarrow> nat list list \<Rightarrow> nat list \<Rightarrow> nat list option" where
  "attach j [] ck = Some ck"
| "attach j (level # levels) ck =
     (case binary_search level j of
        None \<Rightarrow> None
      | Some jj \<Rightarrow>
          if jj < 0 then attach j levels ck
          else let x = level ! nat jj in
            attach j levels ((if last ck < x then butlast ck else ck) @ [x]))"

text \<open>The chunks found so far, and which sections are in one.\<close>

type_synonym reading = "nat list list \<times> bool list"

definition read_section :: "nat list list \<Rightarrow> nat \<Rightarrow> reading \<Rightarrow> reading option" where
  "read_section later j R =
     (let (cks, readed) = R in
      if readed ! j then Some R
      else if length later = 1 then Some (cks @ [[j]], readed[j := True])
      else case attach j later [j] of
        None \<Rightarrow> None
      | Some ck \<Rightarrow> Some (cks @ [ck], fold (\<lambda>i r. r[i := True]) ck (readed[j := True])))"

fun opt_fold :: "('x \<Rightarrow> 's \<Rightarrow> 's option) \<Rightarrow> 'x list \<Rightarrow> 's \<Rightarrow> 's option" where
  "opt_fold f [] s = Some s"
| "opt_fold f (x # xs) s = (case f x s of None \<Rightarrow> None | Some s' \<Rightarrow> opt_fold f xs s')"

fun read_levels :: "nat \<Rightarrow> nat list list \<Rightarrow> reading \<Rightarrow> reading option" where
  "read_levels 0 levels R = Some R"
| "read_levels (Suc depth) [] R = Some R"
| "read_levels (Suc depth) (arr # later) R =
     (case opt_fold (read_section later) arr R of None \<Rightarrow> None | Some R' \<Rightarrow> read_levels depth later R')"

definition section_groups :: "rx list \<Rightarrow> (ustr \<times> ustr) list \<Rightarrow> nat \<Rightarrow> nat list list option" where
  "section_groups ps secs depth =
     map_option fst (read_levels depth (rev (kind_levels ps secs)) ([], replicate (length secs) False))"

text \<open>\<^verbatim>\<open>re.sub(r"@@[0-9]+.*", "", s)\<close>.\<close>

function cut_positions :: "ustr \<Rightarrow> ustr" where
  "cut_positions [] = []"
| "cut_positions (c # cs) =
     (if u_starts [64, 64] (c # cs) \<and> tl cs \<noteq> [] \<and> digit_code (hd (tl cs))
      then cut_positions (dropWhile (\<lambda>x. x \<noteq> 10) cs)
      else c # cut_positions cs)"
  by pat_completeness auto
termination
  by (relation "measure length") (auto simp: length_dropWhile_le le_imp_less_Suc)

text \<open>Body texts without a title of their own are put together while they stay below 218 tokens.\<close>

fun regroup :: "(ustr \<Rightarrow> nat) \<Rightarrow> ustr list list \<Rightarrow> ustr list list \<times> nat list \<Rightarrow> ustr list list \<times> nat list" where
  "regroup num_tokens [] (res, num) = (res, num)"
| "regroup num_tokens (ck # cks) (res, num) =
     regroup num_tokens cks
      (if length ck = 1 then
         let n = num_tokens (cut_positions (ck ! 0)) in
         if n + last num < 218 then (butlast res @ [last res @ [ck ! 0]], butlast num @ [last num + n])
         else (res @ [ck], num @ [n])
       else (res @ [ck], num @ [218]))"

definition hierarchical_merge ::
  "(ustr \<Rightarrow> nat) \<Rightarrow> int \<Rightarrow> sections \<Rightarrow> nat \<Rightarrow> merge_error + ustr list list" where
  "hierarchical_merge num_tokens bull secs depth =
     (if laid_out secs = [] \<or> bull < 0 then Inr []
      else case bullet_group bull of
        None \<Rightarrow> Inl BadIndex
      | Some ps \<Rightarrow>
          let ss = filter proper_section (laid_out secs) in
          case section_groups ps ss depth of
            None \<Rightarrow> Inl BadAssertion
          | Some [] \<Rightarrow> Inr []
          | Some cks \<Rightarrow>
              Inr (fst (regroup num_tokens (map (\<lambda>ck. map (\<lambda>j. fst (ss ! j)) (rev ck)) cks) ([[]], [0]))))"

end
