(* ===== verification/RagOutline.thy ===== *)
theory RagOutline
  imports RagSections "HOL-Library.Sublist"
begin

text \<open>
  Properties of the outline of a document: the search for the last title before a text, what the
  hierarchical merge and the tree of titles do with the texts, and which levels of titles can be
  told apart at all.
\<close>

subsection \<open>The binary search\<close>

lemma search_loop_spec:
  assumes "sorted_wrt (<) arr" and "target \<notin> set arr"
    and "s < e" and "e \<le> length arr" and "arr ! s < target" and "e < length arr \<Longrightarrow> target < arr ! e"
  shows "\<exists>k. search_loop arr target s e = Some k \<and> k < length arr \<and> arr ! k < target
    \<and> (Suc k < length arr \<longrightarrow> target < arr ! Suc k)"
  using assms(3-6)
proof (induction "e - s" arbitrary: s e rule: less_induct)
  case less
  show ?case
  proof (cases "e - s \<le> 1")
    case True
    with less.prems have "e = Suc s" by simp
    with less.prems show ?thesis by (auto simp: search_loop.simps)
  next
    case False
    define i where "i = (e + s) div 2"
    from False less.prems have i: "s < i" "i < e" by (auto simp: i_def)
    with less.prems assms(2) have "arr ! i \<noteq> target" using nth_mem [of i arr] by auto
    then consider "arr ! i < target" | "target < arr ! i" by linarith
    then show ?thesis
    proof cases
      case 1
      have "search_loop arr target s e = search_loop arr target i e"
        using False 1 by (subst search_loop.simps) (simp add: i_def Let_def)
      with less.hyps [of e i] i 1 less.prems show ?thesis by simp
    next
      case 2
      have "search_loop arr target s e = search_loop arr target s i"
        using False 2 by (subst search_loop.simps) (simp add: i_def Let_def)
      with less.hyps [of i s] i 2 less.prems show ?thesis by simp
    qed
  qed
qed

lemma filter_less_takeWhile:
  fixes arr :: "nat list"
  assumes "sorted_wrt (<) arr"
  shows "filter (\<lambda>x. x < target) arr = takeWhile (\<lambda>x. x < target) arr"
  using assms
proof (induction arr)
  case (Cons a arr)
  show ?case
  proof (cases "a < target")
    case False
    then have "filter (\<lambda>x. x < target) arr = []" using Cons.prems by (fastforce intro!: filter_False)
    with False show ?thesis by simp
  qed (use Cons in simp)
qed simp

lemma filter_less_prefix:
  fixes arr :: "nat list"
  assumes "sorted_wrt (<) arr" and "k < length arr" and "arr ! k < target"
    and "Suc k < length arr \<longrightarrow> target < arr ! Suc k"
  shows "filter (\<lambda>x. x < target) arr = take (Suc k) arr"
proof -
  have "takeWhile (\<lambda>x. x < target) arr = take (Suc k) arr"
  proof (rule takeWhile_eq_take_P_nth)
    fix i assume "i < Suc k" and "i < length arr"
    then have "arr ! i \<le> arr ! k"
      using assms(1,2) by (cases "i = k") (auto simp: sorted_wrt_iff_nth_less order_less_imp_le)
    with assms(3) show "arr ! i < target" by simp
  qed (use assms(4) in simp)
  with filter_less_takeWhile [OF assms(1)] show ?thesis by simp
qed

lemma binary_search_counts:
  assumes "sorted_wrt (<) arr" and "target \<notin> set arr"
  shows "binary_search arr target = Some (int (length (filter (\<lambda>x. x < target) arr)) - 1)"
proof (cases "arr = [] \<or> last arr < target \<or> target < hd arr")
  case True
  have below: "x \<le> last arr" "hd arr \<le> x" if "x \<in> set arr" for x
  proof -
    from that have "arr \<noteq> []" by auto
    then have "sorted_wrt (<) (butlast arr @ [last arr])" and "x \<in> set (butlast arr @ [last arr])"
      using assms(1) that by simp_all
    then show "x \<le> last arr" by (auto simp: sorted_wrt_append simp del: append_butlast_last_id)
    show "hd arr \<le> x" using assms(1) that by (cases arr) auto
  qed
  consider "arr = []" | "arr \<noteq> []" "last arr < target" | "arr \<noteq> []" "\<not> last arr < target" "target < hd arr"
    using True by blast
  then show ?thesis
  proof cases
    case 2
    have "filter (\<lambda>x. x < target) arr = arr"
      by (intro filter_True ballI) (rule le_less_trans [OF below(1) 2(2)])
    with 2 show ?thesis by (simp add: binary_search_def)
  next
    case 3
    have "\<not> x < target" if "x \<in> set arr" for x using below(2) [OF that] 3(3) by simp
    then have "filter (\<lambda>x. x < target) arr = []" by (simp add: filter_empty_conv)
    with 3 show ?thesis by (simp add: binary_search_def)
  qed (simp add: binary_search_def)
next
  case False
  then have "arr \<noteq> []" "hd arr \<noteq> target" using assms(2) by auto
  with False have "arr ! 0 < target" by (simp add: hd_conv_nth)
  with search_loop_spec [OF assms, of 0 "length arr"] \<open>arr \<noteq> []\<close> obtain k where
    k: "search_loop arr target 0 (length arr) = Some k" "k < length arr" "arr ! k < target"
       "Suc k < length arr \<longrightarrow> target < arr ! Suc k" by auto
  from filter_less_prefix [OF assms(1) k(2,3,4)] k False show ?thesis by (simp add: binary_search_def)
qed

text \<open>
  In an ascending list without the target, the search never runs into its assertion and returns the
  place of the last element before the target, \<open>-1\<close> if there is none.
\<close>

lemma search_finds_predecessor:
  assumes "sorted_wrt (<) arr" and "target \<notin> set arr"
  shows "binary_search arr target = Some (int (length (filter (\<lambda>x. x < target) arr)) - 1)"
  by (rule binary_search_counts [OF assms])

text \<open>What the search finds stands before the target.\<close>

lemma found_before:
  assumes "sorted_wrt (<) arr" and "target \<notin> set arr" and "binary_search arr target = Some jj" and "\<not> jj < 0"
  shows "arr ! nat jj \<in> set arr \<and> arr ! nat jj < target"
proof -
  define n where "n = length (filter (\<lambda>x. x < target) arr)"
  from binary_search_counts [OF assms(1,2)] assms(3,4) have n: "nat jj = n - 1" "0 < n"
    by (auto simp: n_def)
  have "n \<le> length arr" by (simp add: n_def)
  have len: "n = length (takeWhile (\<lambda>x. x < target) arr)"
    by (simp add: n_def filter_less_takeWhile [OF assms(1)])
  then have "takeWhile (\<lambda>x. x < target) arr ! (n - 1) \<in> set (takeWhile (\<lambda>x. x < target) arr)"
    using n by (intro nth_mem) simp
  then have "takeWhile (\<lambda>x. x < target) arr ! (n - 1) < target" by (rule set_takeWhileD [THEN conjunct2])
  with len n have "arr ! (n - 1) < target" by (simp add: takeWhile_nth)
  moreover have "arr ! (n - 1) \<in> set arr" using n \<open>n \<le> length arr\<close> by simp
  ultimately show ?thesis using n by simp
qed

subsection \<open>The hierarchical merge\<close>

text \<open>The levels are ascending lists without common elements.\<close>

lemma kind_levels_sorted: "level \<in> set (kind_levels ps secs) \<Longrightarrow> sorted_wrt (<) level"
  by (auto simp: kind_levels_def intro!: sorted_wrt_filter)

definition levels_ok :: "nat \<Rightarrow> nat list list \<Rightarrow> bool" where
  "levels_ok j levels \<longleftrightarrow> (\<forall>level\<in>set levels. sorted_wrt (<) level \<and> j \<notin> set level)"

lemma levels_ok_Cons [simp]:
  "levels_ok j (level # levels) \<longleftrightarrow> sorted_wrt (<) level \<and> j \<notin> set level \<and> levels_ok j levels"
  by (auto simp: levels_ok_def)

text \<open>Titles are attached behind the section itself, which is never dropped.\<close>

lemma attach_keeps_section:
  assumes "levels_ok j levels"
  shows "\<exists>r'. attach j levels (j # r) = Some (j # r') \<and> set r' \<subseteq> set r \<union> \<Union> (set (map set levels))"
  using assms
proof (induction levels arbitrary: r)
  case (Cons level levels)
  obtain jj where jj: "binary_search level j = Some jj"
    using binary_search_counts [of level j] Cons.prems by auto
  show ?case
  proof (cases "jj < 0")
    case True
    with Cons.IH [of r] Cons.prems jj show ?thesis by auto
  next
    case False
    define x where "x = level ! nat jj"
    have x: "x \<in> set level" "x < j"
      using found_before [OF _ _ jj False] Cons.prems by (auto simp: x_def)
    obtain r1 where r1: "(if last (j # r) < x then butlast (j # r) else j # r) @ [x] = j # r1"
      and "set r1 \<subseteq> set r \<union> {x}"
    proof (cases "last (j # r) < x")
      case True
      with x have "r \<noteq> []" by auto
      with True that [of "butlast r @ [x]"] show thesis by (auto dest: in_set_butlastD)
    next
      case False
      with that [of "r @ [x]"] show thesis by auto
    qed
    moreover have "attach j (level # levels) (j # r) = attach j levels (j # r1)"
      using jj False r1 by (simp add: x_def [symmetric] Let_def)
    ultimately show ?thesis using Cons.IH [of r1] Cons.prems x by fastforce
  qed
qed simp

text \<open>Reading a section succeeds and adds at most one chunk, which begins with the section.\<close>

lemma read_section_total:
  assumes "levels_ok j later"
  shows "\<exists>r' rd'. read_section later j (cks, rd) =
     Some (if rd ! j then cks else cks @ [j # r'], rd')
     \<and> set r' \<subseteq> \<Union> (set (map set later))
     \<and> length rd' = length rd
     \<and> (\<forall>i. i \<noteq> j \<longrightarrow> i \<notin> \<Union> (set (map set later)) \<longrightarrow> rd' ! i = rd ! i)"
proof -
  have mark: "length (fold (\<lambda>i r. r[i := True]) ck rd) = length rd
      \<and> (\<forall>i. i \<notin> set ck \<longrightarrow> fold (\<lambda>i r. r[i := True]) ck rd ! i = rd ! i)" for ck and rd :: "bool list"
    by (induction ck arbitrary: rd) (auto simp: nth_list_update_neq)
  obtain r' where r': "attach j later [j] = Some (j # r')" "set r' \<subseteq> \<Union> (set (map set later))"
    using attach_keeps_section [OF assms, of "[]"] by auto
  consider "rd ! j" | "\<not> rd ! j" "length later = 1" | "\<not> rd ! j" "length later \<noteq> 1" by blast
  then show ?thesis
  proof cases
    case 1
    then show ?thesis by (simp add: read_section_def exI [of _ "[]"])
  next
    case 2
    then show ?thesis
      by (intro exI [of _ "[]"] exI [of _ "rd[j := True]"]) (simp add: read_section_def nth_list_update_neq)
  next
    case 3
    with r' mark [of "j # r'" "rd[j := True]"] show ?thesis
      by (intro exI [of _ r'] exI [of _ "fold (\<lambda>i r. r[i := True]) (j # r') (rd[j := True])"])
        (auto simp: read_section_def nth_list_update_neq Let_def)
  qed
qed

text \<open>
  Below, \<open>body\<close> tells the sections of the first level.  Reading that level gives each of its unread sections
  a chunk of its own; reading another level adds none of them.
\<close>

lemma read_titles:
  assumes "\<And>j. j \<in> set arr \<Longrightarrow> \<not> body j \<and> levels_ok j later"
    and "\<And>i. i \<in> \<Union> (set (map set later)) \<Longrightarrow> \<not> body i"
  shows "\<exists>cks' rd'. opt_fold (read_section later) arr (cks, rd) = Some (cks', rd')
     \<and> filter body (concat (map rev cks')) = filter body (concat (map rev cks))"
  using assms(1)
proof (induction arr arbitrary: cks rd)
  case (Cons j arr)
  obtain r' rd' where step: "read_section later j (cks, rd) = Some (if rd ! j then cks else cks @ [j # r'], rd')"
    and r': "set r' \<subseteq> \<Union> (set (map set later))"
    using read_section_total [of j later cks rd] Cons.prems by auto
  have none: "filter body (rev r') = []" using r' assms(2) by (auto simp: filter_empty_conv)
  have same: "filter body (concat (map rev (if rd ! j then cks else cks @ [j # r']))) = filter body (concat (map rev cks))"
    using Cons.prems none by simp
  from Cons.IH [of "if rd ! j then cks else cks @ [j # r']" rd'] Cons.prems
  obtain cks' rd2 where "opt_fold (read_section later) arr (if rd ! j then cks else cks @ [j # r'], rd') = Some (cks', rd2)"
    "filter body (concat (map rev cks')) = filter body (concat (map rev (if rd ! j then cks else cks @ [j # r'])))"
    by (metis list.set_intros(2))
  with step same show ?case by simp
qed simp

lemma read_bodies:
  assumes "\<And>j. j \<in> set arr \<Longrightarrow> body j \<and> levels_ok j later \<and> \<not> rd ! j"
    and "\<And>i. i \<in> \<Union> (set (map set later)) \<Longrightarrow> \<not> body i" and "distinct arr"
  shows "\<exists>cks' rd'. opt_fold (read_section later) arr (cks, rd) = Some (cks', rd')
     \<and> filter body (concat (map rev cks')) = filter body (concat (map rev cks)) @ arr"
  using assms(1,3)
proof (induction arr arbitrary: cks rd)
  case (Cons j arr)
  obtain r' rd' where step: "read_section later j (cks, rd) = Some (cks @ [j # r'], rd')"
    and r': "set r' \<subseteq> \<Union> (set (map set later))"
    and rd': "\<And>i. i \<noteq> j \<Longrightarrow> i \<notin> \<Union> (set (map set later)) \<Longrightarrow> rd' ! i = rd ! i"
    using read_section_total [of j later cks rd] Cons.prems(1) [of j] by auto
  have none: "filter body (rev r') = []" using r' assms(2) by (auto simp: filter_empty_conv)
  have "\<not> rd' ! i" if "i \<in> set arr" for i
    using that Cons.prems assms(2) rd' [of i] by (metis distinct.simps(2) list.set_intros(2))
  with Cons.IH [of rd' "cks @ [j # r']"] Cons.prems none
  obtain cks' rd2 where "opt_fold (read_section later) arr (cks @ [j # r'], rd') = Some (cks', rd2)"
    "filter body (concat (map rev cks')) = filter body (concat (map rev cks)) @ [j] @ arr"
    by auto
  with step show ?case by simp
qed simp

lemma read_title_levels:
  assumes "\<And>level. level \<in> set levels \<Longrightarrow> sorted_wrt (<) level \<and> (\<forall>i\<in>set level. \<not> body i)"
    and "\<And>a b i. a < length levels \<Longrightarrow> b < length levels \<Longrightarrow> i \<in> set (levels ! a) \<Longrightarrow> i \<in> set (levels ! b) \<Longrightarrow> a = b"
  shows "\<exists>cks' rd'. read_levels depth levels (cks, rd) = Some (cks', rd')
     \<and> filter body (concat (map rev cks')) = filter body (concat (map rev cks))"
  using assms
proof (induction depth levels "(cks, rd)" arbitrary: cks rd rule: read_levels.induct)
  case (3 depth arr later)
  have ok: "levels_ok j later" if "j \<in> set arr" for j
  proof -
    have "j \<notin> set level" if "level \<in> set later" for level
    proof
      assume "j \<in> set level"
      from \<open>level \<in> set later\<close> obtain b where "b < length later" "level = later ! b" by (auto simp: in_set_conv_nth)
      with "3.prems"(2) [of 0 "Suc b" j] \<open>j \<in> set level\<close> \<open>j \<in> set arr\<close> show False by simp
    qed
    with "3.prems"(1) show ?thesis by (simp add: levels_ok_def)
  qed
  have "\<exists>cks' rd'. opt_fold (read_section later) arr (cks, rd) = Some (cks', rd')
     \<and> filter body (concat (map rev cks')) = filter body (concat (map rev cks))"
    using "3.prems"(1) ok by (intro read_titles) auto
  then obtain cks' rd' where 1: "opt_fold (read_section later) arr (cks, rd) = Some (cks', rd')"
    "filter body (concat (map rev cks')) = filter body (concat (map rev cks))" by blast
  have "a = b" if "a < length later" "b < length later" "i \<in> set (later ! a)" "i \<in> set (later ! b)" for a b i
    using "3.prems"(2) [of "Suc a" "Suc b" i] that by simp
  with "3.hyps" [OF 1(1)] "3.prems"(1) 1 show ?case by (metis list.set_intros(2) option.simps(5) read_levels.simps(3))
qed auto

lemma section_groups_total:
  assumes "0 < depth"
  shows "\<exists>groups. section_groups ps secs depth = Some groups
     \<and> filter (\<lambda>i. section_kind ps (secs ! i) = length ps + 1) (concat (map rev groups))
       = filter (\<lambda>i. section_kind ps (secs ! i) = length ps + 1) [0 ..< length secs]"
proof -
  define level where "level k = filter (\<lambda>i. section_kind ps (secs ! i) = k) [0 ..< length secs]" for k
  define n where "n = length ps"
  let ?body = "\<lambda>i. section_kind ps (secs ! i) = n + 1"
  define later where "later = rev (map level [0 ..< n + 1])"
  have all: "rev (kind_levels ps secs) = level (n + 1) # later"
    by (simp add: kind_levels_def level_def later_def n_def)
  obtain d where d: "depth = Suc d" using assms by (cases depth) auto
  have sorted: "sorted_wrt (<) (level k)" for k by (simp add: level_def sorted_wrt_filter)
  have mem: "section_kind ps (secs ! i) = k" if "i \<in> set (level k)" for i k using that by (simp add: level_def)
  have later_kinds: "\<exists>k\<le>n. l = level k" if "l \<in> set later" for l
  proof -
    from that obtain k where "k < n + 1" "l = level k" by (auto simp: later_def simp del: upt_Suc)
    then show ?thesis by (intro exI [of _ k]) simp
  qed
  have "\<exists>cks rd. opt_fold (read_section later) (level (n + 1)) ([], replicate (length secs) False) = Some (cks, rd)
     \<and> filter ?body (concat (map rev cks)) = filter ?body (concat (map rev [])) @ level (n + 1)"
  proof (rule read_bodies)
    fix j assume j: "j \<in> set (level (n + 1))"
    have "j \<notin> set l" if l: "l \<in> set later" for l
    proof
      assume "j \<in> set l"
      with later_kinds [OF l] obtain k where "k \<le> n" "j \<in> set (level k)" by auto
      with mem [of j k] mem [OF j] show False by simp
    qed
    with j mem [OF j] sorted later_kinds
    show "?body j \<and> levels_ok j later \<and> \<not> replicate (length secs) False ! j"
      by (auto simp: levels_ok_def level_def)
  next
    fix i assume "i \<in> \<Union> (set (map set later))"
    then show "\<not> ?body i" using later_kinds mem by fastforce
  qed (simp add: level_def)
  then obtain cks rd where 1: "opt_fold (read_section later) (level (n + 1)) ([], replicate (length secs) False) = Some (cks, rd)"
    "filter ?body (concat (map rev cks)) = level (n + 1)" by auto
  have "\<exists>cks' rd'. read_levels d later (cks, rd) = Some (cks', rd')
     \<and> filter ?body (concat (map rev cks')) = filter ?body (concat (map rev cks))"
  proof (rule read_title_levels)
    fix l assume "l \<in> set later"
    then obtain k where k: "k \<le> n" "l = level k" using later_kinds by blast
    then have "\<not> ?body i" if "i \<in> set l" for i using mem [of i k] that by simp
    with k sorted show "sorted_wrt (<) l \<and> (\<forall>i\<in>set l. \<not> ?body i)" by simp
  next
    have nth: "later ! a = level (n - a)" if "a \<le> n" for a
      using that by (simp add: later_def rev_nth del: upt_Suc)
    fix a b i assume "a < length later" "b < length later" and i: "i \<in> set (later ! a)" "i \<in> set (later ! b)"
    then have ab: "a \<le> n" "b \<le> n" by (simp_all add: later_def)
    with i have "i \<in> set (level (n - a))" "i \<in> set (level (n - b))" by (simp_all add: nth)
    from mem [OF this(1)] mem [OF this(2)] have "n - a = n - b" by simp
    with ab show "a = b" by simp
  qed
  then obtain cks' rd' where "read_levels d later (cks, rd) = Some (cks', rd')"
    "filter ?body (concat (map rev cks')) = level (n + 1)" using 1 by auto
  with 1 all d show ?thesis by (simp add: section_groups_def level_def n_def)
qed

lemma concat_regroup:
  "res \<noteq> [] \<Longrightarrow> concat (fst (regroup num_tokens cks (res, num))) = concat res @ concat cks"
proof (induction cks arbitrary: res num)
  case (Cons ck cks)
  have "concat (butlast res @ [last res @ [ck ! 0]]) = concat res @ ck" if "length ck = 1"
    using that Cons.prems append_butlast_last_id [of res]
    by (cases ck) (auto simp del: append_butlast_last_id, metis append.assoc concat.simps concat_append append_Nil2)
  with Cons show ?case by (auto simp: Let_def)
qed simp

text \<open>
  C29: the hierarchical merge never fails, and every body text is in exactly one of its chunks, in the
  order of the document; the other texts of a chunk are titles.
\<close>

theorem body_texts_once:
  assumes "bullet_group bull = Some ps" and "0 \<le> bull" and "laid_out secs \<noteq> []" and "0 < depth"
    and "ss = filter proper_section (laid_out secs)"
  shows "\<exists>res order. hierarchical_merge num_tokens bull secs depth = Inr res
    \<and> concat res = map (\<lambda>i. fst (ss ! i)) order
    \<and> filter (\<lambda>i. section_kind ps (ss ! i) = length ps + 1) order
      = filter (\<lambda>i. section_kind ps (ss ! i) = length ps + 1) [0 ..< length ss]"
proof -
  obtain groups where groups: "section_groups ps ss depth = Some groups"
    "filter (\<lambda>i. section_kind ps (ss ! i) = length ps + 1) (concat (map rev groups))
     = filter (\<lambda>i. section_kind ps (ss ! i) = length ps + 1) [0 ..< length ss]"
    using section_groups_total [OF assms(4)] by blast
  define texts where "texts = map (\<lambda>ck. map (\<lambda>j. fst (ss ! j)) (rev ck)) groups"
  have texts: "concat texts = map (\<lambda>i. fst (ss ! i)) (concat (map rev groups))"
    by (simp add: texts_def map_concat comp_def)
  have "\<exists>res. hierarchical_merge num_tokens bull secs depth = Inr res \<and> concat res = concat texts"
    using assms groups(1) concat_regroup [of "[[]]" num_tokens texts "[0]"]
    by (cases groups) (simp_all add: hierarchical_merge_def texts_def Let_def)
  with texts groups(2) show ?thesis by (metis (no_types, lifting))
qed

theorem body_texts_once_witness:
  "\<exists>res order. hierarchical_merge length 3 (Texts [asc ''Section 1'', asc ''some text'']) 5 = Inr res
    \<and> concat res = map (\<lambda>i. fst (filter proper_section [(asc ''Section 1'', []), (asc ''some text'', [])] ! i)) order"
proof -
  have "bullet_group 3 = Some (bullet_pattern ! 3)" by (simp add: bullet_group_def bullet_pattern_def)
  from body_texts_once [OF this, of "Texts [asc ''Section 1'', asc ''some text'']" 5 _ length, OF _ _ _ refl]
  show ?thesis by auto
qed

definition tokens_of :: "(ustr \<Rightarrow> nat) \<Rightarrow> ustr list \<Rightarrow> nat" where
  "tokens_of num_tokens g = sum_list (map (\<lambda>t. num_tokens (cut_positions t)) g)"

lemma regroup_bounds:
  assumes "res \<noteq> []" and "num \<noteq> []"
    and "tokens_of num_tokens (last res) \<le> last num \<or> 218 \<le> last num"
    and "\<And>g. g \<in> set res \<Longrightarrow> g \<in> G \<or> tokens_of num_tokens g < 218"
    and "set cks \<subseteq> G" and "g \<in> set (fst (regroup num_tokens cks (res, num)))"
  shows "g \<in> G \<or> tokens_of num_tokens g < 218"
  using assms
proof (induction cks arbitrary: res num)
  case (Cons ck cks)
  show ?case
  proof (cases "length ck = 1 \<and> num_tokens (cut_positions (ck ! 0)) + last num < 218")
    case True
    then have "tokens_of num_tokens (last res @ [ck ! 0]) \<le> last num + num_tokens (cut_positions (ck ! 0))"
      using Cons.prems(3) by (auto simp: tokens_of_def)
    with True Cons.prems(4-6) show ?thesis
      by (intro Cons.IH [of "butlast res @ [last res @ [ck ! 0]]" "butlast num @ [last num + num_tokens (cut_positions (ck ! 0))]"])
        (auto simp: Let_def dest: in_set_butlastD)
  next
    case False
    show ?thesis
    proof (rule Cons.IH [of "res @ [ck]" "num @ [if length ck = 1 then num_tokens (cut_positions (ck ! 0)) else 218]"])
      show "tokens_of num_tokens (last (res @ [ck])) \<le> last (num @ [if length ck = 1 then num_tokens (cut_positions (ck ! 0)) else 218])
          \<or> 218 \<le> last (num @ [if length ck = 1 then num_tokens (cut_positions (ck ! 0)) else 218])"
        by (cases ck) (auto simp: tokens_of_def)
    qed (use False Cons.prems in \<open>auto simp: Let_def split: if_splits\<close>)
  qed
qed auto

text \<open>
  Every chunk of the hierarchical merge is either one text with its titles, or a run of texts without
  titles that have less than 218 tokens together.
\<close>

lemma hierarchical_chunks_bounded:
  assumes "hierarchical_merge num_tokens bull secs depth = Inr res" and "chunk \<in> set res"
    and "ss = filter proper_section (laid_out secs)" and "bullet_group bull = Some ps"
  shows "(\<exists>groups ck. section_groups ps ss depth = Some groups \<and> ck \<in> set groups \<and> chunk = map (\<lambda>j. fst (ss ! j)) (rev ck))
    \<or> tokens_of num_tokens chunk < 218"
proof -
  obtain groups where groups: "section_groups ps ss depth = Some groups"
    and res: "res = fst (regroup num_tokens (map (\<lambda>ck. map (\<lambda>j. fst (ss ! j)) (rev ck)) groups) ([[]], [0]))"
    using assms by (auto simp: hierarchical_merge_def Let_def split: if_splits option.splits list.splits)
  let ?G = "set (map (\<lambda>ck. map (\<lambda>j. fst (ss ! j)) (rev ck)) groups)"
  have "chunk \<in> ?G \<or> tokens_of num_tokens chunk < 218"
    by (rule regroup_bounds [where res = "[[]]" and num = "[0]" and cks = "map (\<lambda>ck. map (\<lambda>j. fst (ss ! j)) (rev ck)) groups"])
      (use assms(2) res in \<open>auto simp: tokens_of_def\<close>)
  with groups show ?thesis by auto
qed

subsection \<open>Levels that cannot be told apart\<close>

lemma first_match_None: "first_match rs s = None \<longleftrightarrow> (\<forall>r\<in>set rs. \<not> re_match r s)"
  by (induction rs) auto

lemma first_match_le:
  "i < length rs \<Longrightarrow> re_match (rs ! i) s \<Longrightarrow> \<exists>j\<le>i. first_match rs s = Some j"
proof (induction rs arbitrary: i)
  case (Cons r rs)
  show ?case
  proof (cases "re_match r s")
    case False
    with Cons.prems obtain k where k: "i = Suc k" "k < length rs" "re_match (rs ! k) s" by (cases i) auto
    with Cons.IH obtain j where "j \<le> k" "first_match rs s = Some j" by blast
    with k False show ?thesis by auto
  qed simp
qed simp

lemma first_match_Some: "first_match rs s = Some i \<Longrightarrow> i < length rs \<and> re_match (rs ! i) s"
proof (induction rs arbitrary: i)
  case (Cons r rs)
  then show ?case by (cases i) (auto split: if_splits)
qed simp

text \<open>A sequence that matches matches its first parts, and more of the same repetition.\<close>

lemma numbered_prefix:
  assumes "re_match (RSeq digits2 (RSeq dot r)) s"
  shows "re_match (RSeq digits2 (one_of [46, 32, 0x3001])) s"
  using assms by (auto simp: re_match_seq one_of_def)

lemma heading_prefix:
  assumes "re_match (RSeq (chars (35 # 35 # 35 # w)) line_rest) s"
  shows "re_match (RSeq (chars [35, 35, 35]) line_rest) s"
proof -
  have any: "re_match line_rest t" for t by (simp add: re_match_def greedy_def)
  from assms have "re_match (chars [35, 35, 35]) s"
    by (auto simp: re_match_def chars_def split: if_splits)
  then show ?thesis using any by (auto simp: re_match_seq re_match_def)
qed

text \<open>
  Headings of more than one number (\<open>1.1\<close>, \<open>1.1.1\<close>), and Markdown headings of more than three
  hashes, never get a level of their own: the pattern for fewer numbers or hashes, which comes first, matches them.
\<close>

lemma deep_headings_collapse:
  "first_match (bullet_pattern ! 1) s \<notin> {Some 3, Some 4, Some 5}
   \<and> first_match (bullet_pattern ! 4) s \<notin> {Some 3, Some 4, Some 5}"
proof -
  let ?P = "bullet_pattern ! 1" and ?H = "bullet_pattern ! 4"
  have len: "length ?P = 6" "length ?H = 6" by (simp_all add: bullet_pattern_def)
  have P2: "?P ! 2 = RSeq digits2 (one_of [46, 32, 0x3001])" by (simp add: bullet_pattern_def)
  have H2: "?H ! 2 = RSeq (chars [35, 35, 35]) line_rest" by (simp add: bullet_pattern_def)
  have P: "re_match (?P ! 2) s" if "re_match (?P ! i) s" "i \<in> {3, 4, 5}" for i
    using that numbered_prefix by (auto simp: P2) (auto simp: bullet_pattern_def)
  have H: "re_match (?H ! 2) s" if "re_match (?H ! i) s" "i \<in> {3, 4, 5}" for i
    using that heading_prefix by (auto simp: H2) (auto simp: bullet_pattern_def)
  have no: "first_match rs s \<noteq> Some i"
    if "2 < i" "length rs = 6" "re_match (rs ! i) s \<Longrightarrow> re_match (rs ! 2) s" for rs i
  proof
    assume i: "first_match rs s = Some i"
    from first_match_Some [OF i] that obtain j where "j \<le> 2" "first_match rs s = Some j"
      using first_match_le [of 2 rs s] by auto
    with i that show False by simp
  qed
  have "first_match ?P s \<noteq> Some i" "first_match ?H s \<noteq> Some i" if "i \<in> {3, 4, 5}" for i
    using no [of i ?P] no [of i ?H] P [of i] H [of i] that len by auto
  then show ?thesis by auto
qed

text \<open>
  No text is ever made a title because it ends with a colon: the length that is compared with 32 is that of
  the mark at which the text is split, which is at most 2.
\<close>

lemma mark_short: "mark_at s = Some n \<Longrightarrow> n \<le> 2"
  by (auto simp: mark_at_def split: if_splits)

lemma split_marks_short:
  "2 \<le> length (re_split mark_at s) \<Longrightarrow> length (re_split mark_at s ! 1) \<le> 2"
proof (induction s)
  case (Cons c cs)
  then show ?case
    by (cases "mark_at (c # cs)"; cases "re_split mark_at cs")
      (auto simp: onto_first_def dest: mark_short)
qed simp

lemma colon_titles_never_made: "make_colon_as_title secs = secs"
proof (induction secs rule: make_colon_as_title.induct)
  case (2 t layout rest)
  have "length (re_split mark_at s) < 2 \<or> length (re_split mark_at s ! 1) < 32" for s
    using split_marks_short [of s] by linarith
  with 2 show ?case by (simp add: Let_def)
qed simp

text \<open>
  The tree merge fails, with an index into an empty list, exactly if nothing but page numbers, single characters and blank
  texts is left.
\<close>

lemma target_level_None: "target_level n depth (map fst lines) = None \<longleftrightarrow> lines = []"
proof -
  have "set (sort (remdups (map fst lines))) = fst ` set lines" by simp
  then have "sort (remdups (map fst lines)) = [] \<longleftrightarrow> lines = []" by (metis image_is_empty set_empty)
  then show ?thesis by (auto simp: target_level_def Let_def)
qed

lemma tree_merge_fails_iff:
  assumes "bullet_group bull = Some ps" and "0 \<le> bull" and "laid_out secs \<noteq> []"
  shows "isl (tree_merge bull secs depth) \<longleftrightarrow> tree_lines ps (filter proper_section (laid_out secs)) = []"
  using assms target_level_None [of "length ps" depth "tree_lines ps (filter proper_section (laid_out secs))"]
  by (cases "target_level (length ps) depth (map fst (tree_lines ps (filter proper_section (laid_out secs))))")
    (simp_all add: tree_merge_def Let_def)

text \<open>So a document whose only line is a full stop, which counts as a numbered heading, is not parsed.\<close>

end
