(* ===== verification/RagTree.thy ===== *)
theory RagTree
  imports RagOutline
begin

text \<open>
  What the tree of titles does with the lines of a document: every line ends up in a chunk, under all the
  titles that enclose it.
\<close>

subsection \<open>The chunks of a tree as lists of lines\<close>

fun dfs_parts :: "int \<Rightarrow> ustr list \<Rightarrow> title_node \<Rightarrow> ustr list list" where
  "dfs_parts d titles (Node level texts child) =
     (let path = (if 1 \<le> level \<and> int level \<le> d then titles @ texts else titles) in
      (if level = 0 \<and> texts \<noteq> [] then [titles @ texts] else [])
      @ (if d < int level \<and> texts \<noteq> [] then [path @ texts]
         else if child = [] \<and> 1 \<le> level \<and> int level \<le> d then [path] else [])
      @ concat (map (dfs_parts d path) child))"

lemma dfs_parts: "dfs d titles n = map (u_join [10]) (dfs_parts d titles n)"
proof (induction d titles n rule: dfs_parts.induct)
  case (1 d titles level texts child)
  then have "concat (map (dfs d path) child) = map (u_join [10]) (concat (map (dfs_parts d path) child))"
    if "path = (if 1 \<le> level \<and> int level \<le> d then titles @ texts else titles)" for path
    using that by (induction child) auto
  then show ?case by (simp add: Let_def)
qed

text \<open>A node within the depth passes its path on: every such node yields a chunk that contains it.\<close>

definition inner :: "int \<Rightarrow> title_node \<Rightarrow> bool" where
  "inner d n \<longleftrightarrow> 1 \<le> n_level n \<and> int (n_level n) \<le> d"

lemma dfs_parts_nonempty:
  assumes "inner d n" and "\<And>c. c \<in> set (n_children n) \<Longrightarrow> \<exists>ps\<in>set (dfs_parts d (titles @ n_texts n) c). prefix (titles @ n_texts n) ps"
  shows "\<exists>ps\<in>set (dfs_parts d titles n). prefix (titles @ n_texts n) ps"
proof (cases n)
  case (Node level texts child)
  show ?thesis
  proof (cases child)
    case Nil
    with assms(1) Node show ?thesis by (auto simp: inner_def)
  next
    case (Cons c cs)
    with assms(2) Node obtain ps where "ps \<in> set (dfs_parts d (titles @ texts) c)" "prefix (titles @ texts) ps" by auto
    with assms(1) Node Cons show ?thesis by (auto simp: inner_def Let_def)
  qed
qed

fun all_inner :: "int \<Rightarrow> title_node \<Rightarrow> bool" where
  "all_inner d (Node level texts child) \<longleftrightarrow> 1 \<le> level \<and> int level \<le> d \<and> list_all (all_inner d) child"

lemma dfs_parts_under:
  "all_inner d n \<Longrightarrow> \<exists>ps\<in>set (dfs_parts d titles n). prefix (titles @ n_texts n) ps"
proof (induction n arbitrary: titles)
  case (Node level texts child)
  show ?case
  proof (rule dfs_parts_nonempty)
    show "inner d (Node level texts child)" using Node.prems by (simp add: inner_def)
    fix c assume "c \<in> set (n_children (Node level texts child))"
    then have c: "c \<in> set child" by simp
    moreover have "all_inner d c" using Node.prems c by (auto simp: list_all_iff)
    ultimately obtain ps where "ps \<in> set (dfs_parts d (titles @ texts) c)" "prefix ((titles @ texts) @ n_texts c) ps"
      using Node.IH by blast
    moreover from this(2) have "prefix (titles @ texts) ps" by (rule append_prefixD)
    ultimately show "\<exists>ps\<in>set (dfs_parts d (titles @ n_texts (Node level texts child)) c).
        prefix (titles @ n_texts (Node level texts child)) ps" by auto
  qed
qed

subsection \<open>What a later line leaves of the chunks before it\<close>

text \<open>\<open>n'\<close> covers \<open>n\<close>: under any titles each chunk of \<open>n\<close> is contained in one of \<open>n'\<close>.\<close>

definition covers :: "int \<Rightarrow> title_node \<Rightarrow> title_node \<Rightarrow> bool" where
  "covers d n n' \<longleftrightarrow> (\<forall>t t'. subseq t t' \<longrightarrow>
     (\<forall>ps\<in>set (dfs_parts d t n). \<exists>ps'\<in>set (dfs_parts d t' n'). subseq ps ps'))"

lemma coversD:
  "covers d n n' \<Longrightarrow> subseq t t' \<Longrightarrow> ps \<in> set (dfs_parts d t n) \<Longrightarrow> \<exists>ps'\<in>set (dfs_parts d t' n'). subseq ps ps'"
  by (auto simp: covers_def)

lemma covers_trans: "covers d a b \<Longrightarrow> covers d b c \<Longrightarrow> covers d a c"
  unfolding covers_def by (meson subseq_order.refl subseq_order.trans)

text \<open>Appended texts and children.\<close>

lemma covers_node:
  assumes "subseq texts texts'" and "list_all2 (covers d) child (take (length child) child')"
    and "child = [] \<Longrightarrow> list_all (all_inner d) child'" and "level = 0 \<or> (1 \<le> level \<and> int level \<le> d)" and "0 \<le> d"
  shows "covers d (Node level texts child) (Node level texts' child')"
  unfolding covers_def
proof (intro allI impI ballI)
  fix t t' ps
  assume t: "subseq t t'" and ps: "ps \<in> set (dfs_parts d t (Node level texts child))"
  define path where "path = (if 1 \<le> level then t @ texts else t)"
  define path' where "path' = (if 1 \<le> level then t' @ texts' else t')"
  have path: "subseq path path'" using t assms(1) by (auto simp: path_def path'_def intro: list_emb_append_mono)
  have eq: "set (dfs_parts d t (Node level texts child)) =
      (if level = 0 \<and> texts \<noteq> [] then {t @ texts} else {}) \<union> (if child = [] \<and> 1 \<le> level then {path} else {})
      \<union> (\<Union>c\<in>set child. set (dfs_parts d path c))"
    using assms(4,5) by (auto simp: path_def)
  have eq': "set (dfs_parts d t' (Node level texts' child')) =
      (if level = 0 \<and> texts' \<noteq> [] then {t' @ texts'} else {}) \<union> (if child' = [] \<and> 1 \<le> level then {path'} else {})
      \<union> (\<Union>c\<in>set child'. set (dfs_parts d path' c))"
    using assms(4,5) by (auto simp: path'_def)
  from ps eq consider (root) "level = 0" "texts \<noteq> []" "ps = t @ texts" | (leaf) "child = []" "1 \<le> level" "ps = path"
    | (child) c where "c \<in> set child" "ps \<in> set (dfs_parts d path c)"
    by (auto split: if_splits)
  then show "\<exists>ps'\<in>set (dfs_parts d t' (Node level texts' child')). subseq ps ps'"
  proof cases
    case root
    then have "t' @ texts' \<in> set (dfs_parts d t' (Node level texts' child'))" "subseq ps (t' @ texts')"
      using eq' assms(1) t by (auto intro: list_emb_append_mono)
    then show ?thesis by blast
  next
    case leaf
    show ?thesis
    proof (cases child')
      case Nil
      with leaf eq' path show ?thesis by auto
    next
      case (Cons c cs)
      with assms(3) leaf have "all_inner d c" by simp
      from dfs_parts_under [OF this, of path'] obtain q where "q \<in> set (dfs_parts d path' c)" "prefix path' q"
        using append_prefixD by blast
      then have "q \<in> set (dfs_parts d t' (Node level texts' child'))" using eq' Cons by auto
      moreover have "subseq ps q"
        using leaf path prefix_imp_subseq [OF \<open>prefix path' q\<close>] by (auto intro: subseq_order.trans)
      ultimately show ?thesis by blast
    qed
  next
    case child
    then obtain i where i: "i < length child" "c = child ! i" by (auto simp: in_set_conv_nth)
    with assms(2) have "covers d c (take (length child) child' ! i)" and len: "length child \<le> length child'"
      by (auto simp: list_all2_conv_all_nth)
    with i have "covers d c (child' ! i)" "child' ! i \<in> set child'" by simp_all
    with coversD [OF this(1) path child(2)] eq' show ?thesis by blast
  qed
qed

lemma covers_refl: "all_inner d n \<Longrightarrow> covers d n n"
proof (induction n)
  case (Node level texts child)
  have "list_all2 (covers d) child child"
    using Node by (auto simp: list_all_iff intro: list.rel_refl_strong)
  with Node.prems show ?case by (intro covers_node) auto
qed

subsection \<open>The stack of open nodes\<close>

text \<open>The levels ascend from the root, which has level 0.\<close>

fun stack_ok :: "int \<Rightarrow> title_node list \<Rightarrow> bool" where
  "stack_ok d [] \<longleftrightarrow> False"
| "stack_ok d [root] \<longleftrightarrow> n_level root = 0 \<and> list_all (all_inner d) (n_children root)"
| "stack_ok d (n # p # st) \<longleftrightarrow> all_inner d n \<and> n_level p < n_level n \<and> stack_ok d (p # st)"

lemma all_inner_iff: "all_inner d n \<longleftrightarrow> inner d n \<and> list_all (all_inner d) (n_children n)"
  by (cases n) (auto simp: inner_def)

lemma stack_ok_add:
  assumes "stack_ok d (p # st)" and "all_inner d n"
  shows "stack_ok d (add_child n p # st)"
  using assms by (cases st) (auto simp: add_child_def all_inner_iff inner_def)

lemma stack_children: "stack_ok d (p # st) \<Longrightarrow> list_all (all_inner d) (n_children p)"
  by (cases st) (auto simp: all_inner_iff)

lemma stack_level:
  "stack_ok d (p # st) \<Longrightarrow> n_level p = 0 \<or> 1 \<le> n_level p \<and> int (n_level p) \<le> d"
  by (cases st) (auto simp: all_inner_iff inner_def)

lemma covers_add_child:
  assumes "stack_ok d (p # st)" and "0 \<le> d" and "covers d n n'" and "all_inner d n'"
  shows "covers d (add_child n p) (add_child n' p)"
proof -
  have "list_all2 (covers d) (n_children p) (n_children p)"
    using stack_children [OF assms(1)] by (auto simp: list_all_iff intro: list.rel_refl_strong covers_refl)
  with assms stack_level [OF assms(1)] show ?thesis
    unfolding add_child_def by (intro covers_node) (auto simp: list_all2_appendI)
qed

lemma covers_new_child:
  assumes "stack_ok d (p # st)" and "0 \<le> d" and "all_inner d n"
  shows "covers d p (add_child n p)"
proof -
  have "list_all2 (covers d) (n_children p) (n_children p)"
    using stack_children [OF assms(1)] by (auto simp: list_all_iff intro: list.rel_refl_strong covers_refl)
  with assms stack_level [OF assms(1)]
  have "covers d (Node (n_level p) (n_texts p) (n_children p)) (add_child n p)"
    unfolding add_child_def by (intro covers_node) auto
  then show ?thesis by simp
qed

lemma covers_new_text:
  assumes "stack_ok d (p # st)" and "0 \<le> d"
  shows "covers d p (add_text t p)"
proof -
  have "list_all2 (covers d) (n_children p) (n_children p)"
    using stack_children [OF assms(1)] by (auto simp: list_all_iff intro: list.rel_refl_strong covers_refl)
  with assms stack_level [OF assms(1)]
  have "covers d (Node (n_level p) (n_texts p) (n_children p)) (add_text t p)"
    unfolding add_text_def by (intro covers_node) auto
  then show ?thesis by simp
qed

text \<open>Closing the stack keeps what its top covers.\<close>

lemma covers_close_all:
  assumes "stack_ok d (n # st)" and "stack_ok d (n' # st)" and "covers d n n'" and "0 \<le> d"
  shows "covers d (close_all (n # st)) (close_all (n' # st))"
  using assms(1-3)
proof (induction st arbitrary: n n')
  case (Cons p st)
  have "covers d (add_child n p) (add_child n' p)"
    using Cons.prems assms(4) by (intro covers_add_child) auto
  with Cons.IH [of "add_child n p" "add_child n' p"] Cons.prems show ?case
    by (auto intro: stack_ok_add)
qed simp

text \<open>The texts on the way from the root to the top, the root's own not among them.\<close>

definition open_texts :: "title_node list \<Rightarrow> ustr list" where
  "open_texts st = concat (map n_texts (rev (butlast st)))"

lemma open_path_chunk:
  assumes "stack_ok d (n # st)" and "st \<noteq> []" and "0 \<le> d"
    and "\<And>titles. \<exists>ps\<in>set (dfs_parts d titles n). subseq (titles @ X) ps"
  shows "\<exists>ps\<in>set (dfs_parts d [] (close_all (n # st))). subseq (open_texts st @ X) ps"
  using assms
proof (induction st arbitrary: n X)
  case (Cons p st)
  show ?case
  proof (cases st)
    case Nil
    with Cons.prems(1) have "n_level p = 0" by simp
    with Cons.prems(4) [of "[]"] Nil show ?thesis
      by (cases p) (auto simp: add_child_def open_texts_def)
  next
    case (Cons q r)
    have ok: "stack_ok d (add_child n p # st)" using Cons.prems(1) by (auto intro: stack_ok_add)
    have "\<exists>ps\<in>set (dfs_parts d titles (add_child n p)). subseq (titles @ (n_texts p @ X)) ps" for titles
    proof -
      obtain ps where "ps \<in> set (dfs_parts d (titles @ n_texts p) n)" "subseq ((titles @ n_texts p) @ X) ps"
        using Cons.prems(4) by blast
      moreover have "1 \<le> n_level p" "int (n_level p) \<le> d"
        using Cons.prems(1) Cons by (auto simp: all_inner_iff inner_def)
      ultimately show ?thesis by (cases p) (auto simp: add_child_def Let_def)
    qed
    from Cons.IH [OF ok _ assms(3) this] Cons show ?thesis by (simp add: open_texts_def)
  qed
qed simp

lemma top_path_chunk:
  assumes "stack_ok d (n # st)" and "0 \<le> d"
  shows "st \<noteq> [] \<Longrightarrow> \<exists>ps\<in>set (dfs_parts d [] (close_all (n # st))). subseq (open_texts (n # st)) ps"
    and "st = [] \<Longrightarrow> n_texts n \<noteq> [] \<Longrightarrow> \<exists>ps\<in>set (dfs_parts d [] (close_all (n # st))). subseq (n_texts n) ps"
proof -
  assume "st \<noteq> []"
  with assms(1) have "all_inner d n" by (cases st) auto
  then have "\<exists>ps\<in>set (dfs_parts d titles n). subseq (titles @ n_texts n) ps" for titles
    using dfs_parts_under [of d n titles] prefix_imp_subseq by blast
  from open_path_chunk [OF assms(1) \<open>st \<noteq> []\<close> assms(2) this] \<open>st \<noteq> []\<close>
  show "\<exists>ps\<in>set (dfs_parts d [] (close_all (n # st))). subseq (open_texts (n # st)) ps"
    by (simp add: open_texts_def)
next
  assume "st = []" and "n_texts n \<noteq> []"
  with assms(1) show "\<exists>ps\<in>set (dfs_parts d [] (close_all (n # st))). subseq (n_texts n) ps"
    by (cases n) auto
qed

text \<open>Popping closes the nodes that are not above the new level, and changes no text.\<close>

definition sig :: "title_node list \<Rightarrow> (nat \<times> ustr list) list" where
  "sig st = map (\<lambda>n. (n_level n, n_texts n)) st"

lemma stack_levels: "stack_ok d (n # st) \<Longrightarrow> m \<in> set st \<Longrightarrow> n_level m < n_level n"
proof (induction st arbitrary: n)
  case (Cons p st)
  then have "n_level p < n_level n" "stack_ok d (p # st)" by auto
  with Cons show ?case by (metis less_trans set_ConsD)
qed simp

lemma filter_sig: "filter (\<lambda>(l, t). P l) (sig st) = sig (filter (\<lambda>n. P (n_level n)) st)"
  by (induction st) (auto simp: sig_def)

lemma pop_to_stack:
  assumes "stack_ok d st" and "1 \<le> level"
  shows "stack_ok d (pop_to level st) \<and> close_all (pop_to level st) = close_all st
    \<and> sig (pop_to level st) = filter (\<lambda>(l, t). l < level) (sig st)"
  using assms
proof (induction level st rule: pop_to.induct)
  case (1 level n p st)
  show ?case
  proof (cases "level \<le> n_level n")
    case True
    have "stack_ok d (add_child n p # st)" using "1.prems"(1) by (auto intro: stack_ok_add)
    from "1.IH" [OF True this "1.prems"(2)] True show ?thesis by (simp add: sig_def add_child_def)
  next
    case False
    then have "filter (\<lambda>m. n_level m < level) (n # p # st) = n # p # st"
      using stack_levels [OF "1.prems"(1)] by (intro filter_True) fastforce
    with False "1.prems" show ?thesis unfolding filter_sig by simp
  qed
qed (simp_all add: sig_def)

text \<open>The texts of the open titles above a level, outermost first.\<close>

definition titles_above :: "nat \<Rightarrow> (nat \<times> ustr list) list \<Rightarrow> ustr list" where
  "titles_above level sg = concat (map snd (rev (filter (\<lambda>(l, t). 0 < l \<and> l < level) sg)))"

lemma stack_inner_nodes:
  "stack_ok d st \<Longrightarrow> filter (\<lambda>n. 0 < n_level n) st = butlast st"
proof (induction d st rule: stack_ok.induct)
  case (3 d n p st)
  then have "0 < n_level n" by (auto simp: all_inner_iff inner_def)
  with 3 show ?case by simp
qed auto

lemma open_texts_above:
  assumes "stack_ok d (n # st)" and "n_level n < level"
  shows "titles_above level (sig (n # st)) = open_texts (n # st)"
proof -
  have "filter (\<lambda>m. 0 < n_level m \<and> n_level m < level) (n # st) = filter (\<lambda>m. 0 < n_level m) (n # st)"
  proof (rule filter_cong [OF refl])
    fix m assume "m \<in> set (n # st)"
    then have "n_level m < level" using stack_levels [OF assms(1), of m] assms(2) by auto
    then show "(0 < n_level m \<and> n_level m < level) = (0 < n_level m)" by simp
  qed
  then have "filter (\<lambda>(l, t). 0 < l \<and> l < level) (sig (n # st)) = sig (butlast (n # st))"
    using filter_sig [of "\<lambda>l. 0 < l \<and> l < level" "n # st"] stack_inner_nodes [OF assms(1)] by simp
  then show ?thesis by (simp add: titles_above_def open_texts_def sig_def rev_map comp_def del: butlast.simps)
qed

subsection \<open>Every line under its titles\<close>

text \<open>
  The titles that enclose a line of a level, among the lines before it, of which the latest is the first:
  the last title of a lower level, the last before that of a still lower one, and so on.
\<close>

fun enclosing :: "int \<Rightarrow> nat \<Rightarrow> (nat \<times> ustr) list \<Rightarrow> ustr list" where
  "enclosing d level [] = []"
| "enclosing d level ((l, t) # before) =
     (if int l \<le> d \<and> l < level then enclosing d l before @ [t] else enclosing d level before)"

definition tracks :: "int \<Rightarrow> (nat \<times> ustr) list \<Rightarrow> title_node list \<Rightarrow> bool" where
  "tracks d before st \<longleftrightarrow> (\<forall>level. subseq (enclosing d level before) (titles_above level (sig st)))"

lemma step_stack:
  assumes "stack_ok d st" and "0 \<le> d" and "1 \<le> l"
  shows "stack_ok d (build_step d (l, t) st)"
proof (cases "d < int l")
  case True
  with assms show ?thesis
    by (cases st; cases "tl st") (auto simp: build_step_def add_text_def all_inner_iff inner_def)
next
  case False
  with pop_to_stack [OF assms(1,3)] have "stack_ok d (pop_to l st)"
    and sg: "sig (pop_to l st) = filter (\<lambda>(k, t). k < l) (sig st)" by auto
  then obtain p rest where "pop_to l st = p # rest" by (cases "pop_to l st") auto
  moreover from this sg have "n_level p < l"
    by (metis (mono_tags, lifting) case_prodD filter_eq_ConsD list.simps(9) sig_def)
  ultimately show ?thesis
    using False assms \<open>stack_ok d (pop_to l st)\<close> by (auto simp: build_step_def all_inner_iff inner_def)
qed

lemma step_covers:
  assumes "stack_ok d st" and "0 \<le> d" and "1 \<le> l"
  shows "covers d (close_all st) (close_all (build_step d (l, t) st))"
proof (cases "d < int l")
  case True
  obtain n rest where st: "st = n # rest" using assms(1) by (cases st) auto
  with True assms step_stack [OF assms, of t] covers_new_text [of d n rest t]
  show ?thesis by (auto simp: build_step_def intro!: covers_close_all)
next
  case False
  from pop_to_stack [OF assms(1,3)] have ok: "stack_ok d (pop_to l st)" and cl: "close_all (pop_to l st) = close_all st"
    by auto
  then obtain p rest where pr: "pop_to l st = p # rest" by (cases "pop_to l st") auto
  have new: "all_inner d (Node l [t] [])" using False assms(3) by simp
  have "covers d (close_all (p # rest)) (close_all (add_child (Node l [t] []) p # rest))"
    using ok pr new assms(2) by (intro covers_close_all covers_new_child stack_ok_add) auto
  with cl pr False assms(2) show ?thesis by (simp add: build_step_def)
qed

lemma step_tracks:
  assumes "stack_ok d st" and "0 \<le> d" and "1 \<le> l" and "tracks d before st"
  shows "tracks d ((l, t) # before) (build_step d (l, t) st)"
  unfolding tracks_def
proof
  fix level
  show "subseq (enclosing d level ((l, t) # before)) (titles_above level (sig (build_step d (l, t) st)))"
  proof (cases "d < int l")
    case True
    obtain n rest where st: "st = n # rest" using assms(1) by (cases st) auto
    with True assms(2) have "sig (build_step d (l, t) st) = (n_level n, n_texts n @ [t]) # sig rest"
      by (simp add: build_step_def sig_def add_text_def)
    then have "subseq (titles_above level (sig st)) (titles_above level (sig (build_step d (l, t) st)))"
      by (auto simp: st titles_above_def sig_def intro: list_emb_append_mono)
    with True assms(4) show ?thesis by (auto simp: tracks_def intro: subseq_order.trans)
  next
    case False
    then have sg: "sig (build_step d (l, t) st) = (l, [t]) # filter (\<lambda>(k, u). k < l) (sig st)"
      using pop_to_stack [OF assms(1,3)] assms(2) by (auto simp: build_step_def sig_def)
    show ?thesis
    proof (cases "l < level")
      case True
      have "titles_above level (sig (build_step d (l, t) st)) = titles_above l (sig st) @ [t]"
        using True assms(3) by (simp add: sg titles_above_def) (rule arg_cong [of _ _ "\<lambda>f. concat (map snd (rev (filter f (sig st))))"], auto)
      with True False assms(4) show ?thesis by (auto simp: tracks_def intro: list_emb_append_mono)
    next
      case l: False
      have "titles_above level (sig (build_step d (l, t) st)) = titles_above level (sig st)"
        using l by (simp add: sg titles_above_def) (rule arg_cong [of _ _ "\<lambda>f. concat (map snd (rev (filter f (sig st))))"], auto)
      with l assms(4) show ?thesis by (auto simp: tracks_def)
    qed
  qed
qed

lemma step_line:
  assumes "stack_ok d st" and "0 \<le> d" and "1 \<le> l" and "tracks d before st"
  shows "\<exists>ps\<in>set (dfs_parts d [] (close_all (build_step d (l, t) st))). subseq (enclosing d l before @ [t]) ps"
proof (cases "d < int l")
  case True
  obtain n rest where st: "st = n # rest" using assms(1) by (cases st) auto
  have step: "build_step d (l, t) st = add_text t n # rest" using True assms(2) by (simp add: st build_step_def)
  have ok: "stack_ok d (add_text t n # rest)" using step_stack [OF assms(1-3), of t] step by simp
  have "n_level n < l" using True stack_level [of d n rest] assms(1,3) st by auto
  then have "subseq (enclosing d l before) (open_texts st)"
    using assms(4) open_texts_above [of d n rest l] assms(1) st unfolding tracks_def by metis
  show ?thesis
  proof (cases "rest = []")
    case True
    with \<open>subseq (enclosing d l before) (open_texts st)\<close> st have "enclosing d l before = []"
      by (simp add: open_texts_def)
    moreover have "subseq [t] (n_texts (add_text t n))" by (simp add: add_text_def list_emb_append2)
    ultimately show ?thesis
      using top_path_chunk(2) [OF ok assms(2) True] step by (auto simp: add_text_def intro: subseq_order.trans)
  next
    case False
    have "open_texts (add_text t n # rest) = open_texts st @ [t]"
      using False st by (simp add: open_texts_def add_text_def)
    with \<open>subseq (enclosing d l before) (open_texts st)\<close>
    have "subseq (enclosing d l before @ [t]) (open_texts (add_text t n # rest))" by (simp add: list_emb_append_mono)
    with top_path_chunk(1) [OF ok assms(2) False] step show ?thesis by (auto intro: subseq_order.trans)
  qed
next
  case False
  have step: "build_step d (l, t) st = Node l [t] [] # pop_to l st" using False assms(2) by (simp add: build_step_def)
  from pop_to_stack [OF assms(1,3)] have "pop_to l st \<noteq> []" by auto
  have ok: "stack_ok d (Node l [t] [] # pop_to l st)" using step_stack [OF assms(1-3), of t] step by simp
  have "subseq (enclosing d (Suc l) ((l, t) # before)) (titles_above (Suc l) (sig (build_step d (l, t) st)))"
    using step_tracks [OF assms, of t] by (simp add: tracks_def del: enclosing.simps)
  then have "subseq (enclosing d l before @ [t]) (open_texts (Node l [t] [] # pop_to l st))"
    using False open_texts_above [OF ok, of "Suc l"] step by simp
  with top_path_chunk(1) [OF ok assms(2) \<open>pop_to l st \<noteq> []\<close>] step show ?thesis by (auto intro: subseq_order.trans)
qed

lemma fold_stack:
  assumes "\<And>l t. (l, t) \<in> set lines \<Longrightarrow> 1 \<le> l" and "0 \<le> d" and "stack_ok d st"
  shows "stack_ok d (fold (build_step d) lines st)
    \<and> covers d (close_all st) (close_all (fold (build_step d) lines st))
    \<and> (tracks d before st \<longrightarrow> tracks d (rev lines @ before) (fold (build_step d) lines st))"
  using assms(1,3)
proof (induction lines arbitrary: st before)
  case Nil
  then obtain n rest where "st = n # rest" by (cases st) auto
  have "covers d (close_all st) (close_all st)"
  proof -
    have "covers d (close_all (n # rest)) (close_all (n # rest))" if "stack_ok d (n # rest)" for n rest
      using that
    proof (induction rest arbitrary: n)
      case Nil
      then have "list_all2 (covers d) (n_children n) (n_children n)"
        by (auto simp: list_all_iff intro: list.rel_refl_strong covers_refl)
      with Nil assms(2) have "covers d (Node (n_level n) (n_texts n) (n_children n)) (Node (n_level n) (n_texts n) (n_children n))"
        by (intro covers_node) auto
      then show ?case by simp
    next
      case (Cons p rest)
      then show ?case by (auto intro: stack_ok_add)
    qed
    with Nil.prems(2) \<open>st = n # rest\<close> show ?thesis by simp
  qed
  with Nil show ?case by simp
next
  case (Cons line lines)
  obtain l t where line: "line = (l, t)" by (cases line)
  have l: "1 \<le> l" by (rule Cons.prems(1) [of l t]) (simp add: line)
  have ok: "stack_ok d (build_step d line st)" using step_stack [OF Cons.prems(2) assms(2) l] line by simp
  from Cons.IH [OF _ ok, of "line # before"] Cons.prems(1) line
    step_covers [OF Cons.prems(2) assms(2) l, of t] step_tracks [OF Cons.prems(2) assms(2) l, of before t]
  show ?case by (auto intro: covers_trans)
qed

text \<open>
  C28: every line of a document is in some chunk of its tree of titles, behind all the titles that enclose it,
  in their order.
\<close>

theorem every_line_under_its_titles:
  assumes "i < length lines" and "\<forall>(l, t)\<in>set lines. 1 \<le> l" and "0 \<le> depth"
  shows "\<exists>parts. u_join [10] parts \<in> set (get_tree depth (build_tree depth (Node 0 [] []) lines))
    \<and> subseq (enclosing depth (fst (lines ! i)) (rev (take i lines)) @ [snd (lines ! i)]) parts"
proof -
  obtain l t where lt: "lines ! i = (l, t)" by (cases "lines ! i")
  define st where "st = fold (build_step depth) (take i lines) [Node 0 [] []]"
  have split: "lines = take i lines @ (l, t) # drop (Suc i) lines"
    using assms(1) lt by (metis id_take_nth_drop)
  have levels: "1 \<le> l'" if "(l', t') \<in> set lines" for l' t' using assms(2) that by auto
  have "tracks depth [] [Node 0 [] []]" "stack_ok depth [Node 0 [] []]" by (simp_all add: tracks_def)
  with fold_stack [of "take i lines" depth "[Node 0 [] []]" "[]"] levels assms(3)
  have st: "stack_ok depth st" "tracks depth (rev (take i lines)) st" by (auto simp: st_def dest: in_set_takeD)
  have l: "1 \<le> l" using levels [of l t] assms(1) lt by (metis nth_mem)
  define st' where "st' = build_step depth (l, t) st"
  from step_line [OF st(1) assms(3) l st(2)] obtain ps where
    ps: "ps \<in> set (dfs_parts depth [] (close_all st'))" "subseq (enclosing depth l (rev (take i lines)) @ [t]) ps"
    unfolding st'_def by blast
  have "stack_ok depth st'" unfolding st'_def by (rule step_stack [OF st(1) assms(3) l])
  with fold_stack [of "drop (Suc i) lines" depth st'] levels assms(3)
  have "covers depth (close_all st') (close_all (fold (build_step depth) (drop (Suc i) lines) st'))"
    by (auto dest: in_set_dropD)
  moreover have "build_tree depth (Node 0 [] []) lines = close_all (fold (build_step depth) (drop (Suc i) lines) st')"
    unfolding build_tree_def st'_def st_def by (subst split) simp
  ultimately have "covers depth (close_all st') (build_tree depth (Node 0 [] []) lines)" by simp
  from coversD [OF this _ ps(1), of "[]"] obtain parts where
    "parts \<in> set (dfs_parts depth [] (build_tree depth (Node 0 [] []) lines))" "subseq ps parts" by auto
  with ps(2) lt show ?thesis
    by (intro exI [of _ parts]) (auto simp: get_tree_def dfs_parts intro: subseq_order.trans)
qed

theorem every_line_under_its_titles_witness:
  "\<exists>parts. u_join [10] parts \<in> set (get_tree 2 (build_tree 2 (Node 0 [] []) [(1, [65]), (2, [66]), (5, [97]), (2, [67]), (5, [98])]))
    \<and> subseq [[65], [67], [98]] parts"
proof -
  let ?lines = "[(1, [65]), (2, [66]), (5, [97]), (2, [67]), (5, [98])] :: (nat \<times> ustr) list"
  have "enclosing 2 (fst (?lines ! 4)) (rev (take 4 ?lines)) @ [snd (?lines ! 4)] = [[65], [67], [98]]" by simp
  with every_line_under_its_titles [of 4 ?lines 2] show ?thesis by simp
qed

end
