(* ===== verification/RagChunks.thy ===== *)
theory RagChunks
  imports Complex_Main RagText
begin

text \<open>
  The chunks of a document (\<open>rag/nlp/__init__.py\<close>): \<open>naive_merge\<close>, the same with an image for each
  section, and \<open>naive_merge_docx\<close> for documents with tables and images in between.  The number of tokens of a
  text (\<open>tiktoken\<close>) and the pasting of one image under another (\<open>PIL\<close>) are parameters.
\<close>

subsection \<open>Merging by size\<close>

text \<open>\<open>normalize_overlapped_percent\<close> (\<open>common/float_utils.py\<close>), of a number.\<close>

definition normalize_overlapped_percent :: "rat \<Rightarrow> int" where
  "normalize_overlapped_percent value =
     (let v = (if 0 < value \<and> value < 1 then value * 100 else value);
          n = (if 0 \<le> v then \<lfloor>v\<rfloor> else \<lceil>v\<rceil>)
      in max 0 (min n 90))"

text \<open>\<open>s[int(len(s) * (100 - p) / 100.):]\<close>.\<close>

definition overlap :: "int \<Rightarrow> ustr \<Rightarrow> ustr" where
  "overlap p s = drop (nat (int (length s) * (100 - p) div 100)) s"

text \<open>\<open>tk_nums[-1] > chunk_token_num * (100 - overlapped_percent) / 100.\<close>\<close>

definition full :: "int \<Rightarrow> int \<Rightarrow> nat \<Rightarrow> bool" where
  "full chunk_token_num p tk \<longleftrightarrow> chunk_token_num * (100 - p) < 100 * int tk"

definition with_pos :: "ustr \<Rightarrow> ustr \<Rightarrow> ustr \<Rightarrow> ustr" where   \<comment> \<open>\<open>if s.find(pos) < 0: t += pos\<close>\<close>
  "with_pos s pos t = (if u_in pos s then t else t @ pos)"

text \<open>\<open>add_chunk\<close>, on the chunks and their numbers of tokens.\<close>

definition add_chunk ::
  "(ustr \<Rightarrow> nat) \<Rightarrow> int \<Rightarrow> int \<Rightarrow> ustr \<Rightarrow> ustr \<Rightarrow> ustr list \<times> nat list \<Rightarrow> ustr list \<times> nat list" where
  "add_chunk num_tokens chunk_token_num p t pos0 C =
     (let (cks, tk_nums) = C; tnum = num_tokens t; pos = (if tnum < 8 then [] else pos0) in
      if last cks = [] \<or> full chunk_token_num p (last tk_nums)
      then let t' = overlap p (remove_tag (last cks)) @ t in (cks @ [with_pos t' pos t'], tk_nums @ [tnum])
      else (butlast cks @ [last cks @ with_pos (last cks) pos t], butlast tk_nums @ [last tk_nums + tnum]))"

text \<open>With delimiters of the user's own every piece between them is a chunk, whatever its size.\<close>

definition custom_pieces :: "(ustr \<Rightarrow> nat) \<Rightarrow> ustr list \<Rightarrow> ustr \<times> ustr \<Rightarrow> ustr list" where
  "custom_pieces num_tokens ds section =
     (let (sec, pos) = section;
          pieces = filter (\<lambda>s. s \<notin> set ds) (re_split (delim_at ds) sec)
      in map (\<lambda>sub_sec.
           let text = 10 # sub_sec; local_pos = (if num_tokens text < 8 then [] else pos) in
           if local_pos \<noteq> [] \<and> \<not> u_in local_pos text then text @ local_pos else text) pieces)"

definition naive_merge ::
  "(ustr \<Rightarrow> nat) \<Rightarrow> (ustr \<times> ustr) list \<Rightarrow> int \<Rightarrow> ustr \<Rightarrow> int \<Rightarrow> ustr list" where
  "naive_merge num_tokens secs chunk_token_num delimiter p =
     (if secs = [] then []
      else let ds = longest_first (custom_delimiters delimiter) in
        if ds \<noteq> [] then concat (map (custom_pieces num_tokens ds) secs)
        else fst (fold (\<lambda>(sec, pos). add_chunk num_tokens chunk_token_num p (10 # sec) pos) secs ([[]], [0])))"

subsection \<open>With images\<close>

text \<open>\<open>concat_img\<close>; \<open>paste\<close> is what it makes of two images: the second under the first, or one of them if they are the same.\<close>

fun concat_img :: "('i \<Rightarrow> 'i \<Rightarrow> 'i) \<Rightarrow> 'i option \<Rightarrow> 'i option \<Rightarrow> 'i option" where
  "concat_img paste None None = None"
| "concat_img paste (Some a) None = Some a"
| "concat_img paste None (Some b) = Some b"
| "concat_img paste (Some a) (Some b) = Some (paste a b)"

definition add_chunk_image ::
  "(ustr \<Rightarrow> nat) \<Rightarrow> ('i \<Rightarrow> 'i \<Rightarrow> 'i) \<Rightarrow> int \<Rightarrow> int \<Rightarrow> ustr \<Rightarrow> 'i option \<Rightarrow> ustr
    \<Rightarrow> (ustr list \<times> nat list) \<times> 'i option list \<Rightarrow> (ustr list \<times> nat list) \<times> 'i option list" where
  "add_chunk_image num_tokens paste chunk_token_num p t img pos0 S =
     (let ((cks, tk_nums), images) = S; tnum = num_tokens t; pos = (if tnum < 8 then [] else pos0) in
      if last cks = [] \<or> full chunk_token_num p (last tk_nums)
      then let t' = overlap p (remove_tag (last cks)) @ t
           in ((cks @ [with_pos t' pos t'], tk_nums @ [tnum]), images @ [img])
      else ((butlast cks @ [last cks @ with_pos (last cks) pos t], butlast tk_nums @ [last tk_nums + tnum]),
            butlast images @ [case last images of None \<Rightarrow> img | Some i \<Rightarrow> concat_img paste (Some i) img]))"

definition naive_merge_with_images ::
  "(ustr \<Rightarrow> nat) \<Rightarrow> ('i \<Rightarrow> 'i \<Rightarrow> 'i) \<Rightarrow> (ustr \<times> ustr) list \<Rightarrow> 'i option list \<Rightarrow> int \<Rightarrow> ustr \<Rightarrow> int
    \<Rightarrow> ustr list \<times> 'i option list" where
  "naive_merge_with_images num_tokens paste texts images chunk_token_num delimiter p =
     (if texts = [] \<or> length texts \<noteq> length images then ([], [])
      else let ds = longest_first (custom_delimiters delimiter) in
        if ds \<noteq> [] then
          let chunks = concat (map (\<lambda>(sec, img). map (\<lambda>c. (c, img)) (custom_pieces num_tokens ds sec)) (zip texts images))
          in (map fst chunks, map snd chunks)
        else
          let S = fold (\<lambda>((text, pos), img). add_chunk_image num_tokens paste chunk_token_num p (10 # text) img pos)
                    (zip texts images) (([[]], [0]), [None])
          in (fst (fst S), snd S))"

subsection \<open>Documents with tables and images\<close>

datatype ck_type = TextCk | ImageCk | TableCk

record 'i ck =
  ck_text :: ustr
  ck_image :: "'i option"
  ck_kind :: ck_type
  ck_tokens :: nat
  ck_above :: "ustr option"    \<comment> \<open>\<open>context_above\<close>, where it is set\<close>
  ck_below :: "ustr option"

definition new_ck :: "(ustr \<Rightarrow> nat) \<Rightarrow> ustr \<Rightarrow> 'i option \<Rightarrow> ck_type \<Rightarrow> 'i ck" where
  "new_ck num_tokens t img kind =
     \<lparr>ck_text = t, ck_image = img, ck_kind = kind, ck_tokens = num_tokens t, ck_above = None, ck_below = None\<rparr>"

text \<open>The buffer \<open>seg\<close> becomes a chunk, if there is more than white space in it.\<close>

definition flush :: "(ustr \<Rightarrow> nat) \<Rightarrow> ustr \<Rightarrow> 'i ck list" where
  "flush num_tokens seg = (if u_strip seg = [] then [] else [new_ck num_tokens (u_strip seg) None TextCk])"

text \<open>\<open>re.split\<close> on a text with the user's delimiters: what is no delimiter is buffered until the next one.\<close>

fun buffer_pieces :: "(ustr \<Rightarrow> nat) \<Rightarrow> ustr list \<Rightarrow> ustr list \<Rightarrow> 'i ck list \<times> ustr \<Rightarrow> 'i ck list \<times> ustr" where
  "buffer_pieces num_tokens ds [] (cks, seg) = (cks, seg)"
| "buffer_pieces num_tokens ds (sub_sec # subs) (cks, seg) =
     buffer_pieces num_tokens ds subs
       (if u_strip sub_sec = [] \<or> u_strip sub_sec \<in> set ds then (cks @ flush num_tokens seg, [])
        else (cks, seg @ sub_sec))"

text \<open>A section: text, image and table, each of which may be missing.\<close>

type_synonym 'i docx_section = "ustr \<times> 'i option \<times> ustr"

definition build_section :: "(ustr \<Rightarrow> nat) \<Rightarrow> ustr list \<Rightarrow> 'i docx_section \<Rightarrow> 'i ck list \<times> ustr \<Rightarrow> 'i ck list \<times> ustr" where
  "build_section num_tokens ds section S =
     (let (text0, img, table) = section; (cks, seg) = S; text = (if text0 = [] then [] else 10 # text0) in
      if table \<noteq> [] then (cks @ [new_ck num_tokens (text @ table) img TableCk], seg)
      else if img \<noteq> None then (cks @ [new_ck num_tokens text img ImageCk], seg)
      else if ds \<noteq> [] then buffer_pieces num_tokens ds (re_split (delim_at ds) text) (cks, seg)
      else (cks @ flush num_tokens text, seg))"

definition build_cks :: "(ustr \<Rightarrow> nat) \<Rightarrow> 'i docx_section list \<Rightarrow> ustr \<Rightarrow> 'i ck list \<times> bool" where
  "build_cks num_tokens secs delimiter =
     (let ds = longest_first (custom_delimiters delimiter);
          (cks, seg) = fold (build_section num_tokens ds) secs ([], [])
      in (cks @ (if ds \<noteq> [] then flush num_tokens seg else []), ds \<noteq> []))"

definition indices_of :: "ck_type \<Rightarrow> 'i ck list \<Rightarrow> nat list" where
  "indices_of kind cks = filter (\<lambda>i. ck_kind (cks ! i) = kind) [0 ..< length cks]"

text \<open>Sentences from one end of a text until they have the tokens that are needed.\<close>

fun take_until :: "(ustr \<Rightarrow> nat) \<Rightarrow> (ustr \<Rightarrow> ustr \<Rightarrow> ustr) \<Rightarrow> int \<Rightarrow> ustr \<Rightarrow> ustr list \<Rightarrow> ustr" where
  "take_until num_tokens join need acc [] = acc"
| "take_until num_tokens join need acc (s # ss) =
     (let acc' = join s acc in
      if need \<le> int (num_tokens acc') then acc' else take_until num_tokens join need acc' ss)"

definition take_sentences_from_end :: "(ustr \<Rightarrow> nat) \<Rightarrow> ustr \<Rightarrow> int \<Rightarrow> ustr" where
  "take_sentences_from_end num_tokens cnt need = take_until num_tokens (\<lambda>s acc. s @ acc) need [] (rev (sentences cnt))"

definition take_sentences_from_start :: "(ustr \<Rightarrow> nat) \<Rightarrow> ustr \<Rightarrow> int \<Rightarrow> ustr" where
  "take_sentences_from_start num_tokens cnt need = take_until num_tokens (\<lambda>s acc. acc @ s) need [] (sentences cnt)"

text \<open>
  The texts around a chunk, from the nearest on, until the budget of tokens is spent; \<open>part\<close> cuts the last one.
\<close>

fun context_parts :: "(ustr \<Rightarrow> int \<Rightarrow> ustr) \<Rightarrow> int \<Rightarrow> ('i, 'z) ck_scheme list \<Rightarrow> ustr list" where
  "context_parts part remain [] = []"
| "context_parts part remain (c # cs) =
     (if remain \<le> 0 then []
      else if ck_kind c \<noteq> TextCk then context_parts part remain cs
      else if remain \<le> int (ck_tokens c) then [part (ck_text c) remain]
      else ck_text c # context_parts part (remain - int (ck_tokens c)) cs)"

definition add_context :: "(ustr \<Rightarrow> nat) \<Rightarrow> int \<Rightarrow> nat \<Rightarrow> 'i ck list \<Rightarrow> 'i ck list" where
  "add_context num_tokens context_size idx cks =
     (if ck_kind (cks ! idx) = TextCk then cks
      else cks[idx := (cks ! idx)
        \<lparr>ck_above := Some (concat (rev (context_parts (take_sentences_from_end num_tokens) context_size (rev (take idx cks))))),
         ck_below := Some (concat (context_parts (take_sentences_from_start num_tokens) context_size (drop (Suc idx) cks)))\<rparr>])"

text \<open>\<open>_merge_cks\<close>: texts are put to the last text chunk before them while that is small, over tables and images.\<close>

fun merge_cks :: "int \<Rightarrow> bool \<Rightarrow> 'i ck list \<Rightarrow> 'i ck list \<times> nat list \<times> nat option \<Rightarrow> 'i ck list \<times> nat list \<times> nat option" where
  "merge_cks chunk_token_num has_custom [] S = S"
| "merge_cks chunk_token_num has_custom (c # cks) (merged, image_idxs, prev) =
     merge_cks chunk_token_num has_custom cks
      (if ck_kind c \<noteq> TextCk then
         (merged @ [c], if ck_kind c = ImageCk then image_idxs @ [length merged] else image_idxs, prev)
       else case prev of
         None \<Rightarrow> (merged @ [c], image_idxs, Some (length merged))
       | Some k \<Rightarrow>
           if chunk_token_num \<le> int (ck_tokens (merged ! k)) \<or> has_custom
           then (merged @ [c], image_idxs, Some (length merged))
           else (merged[k := (merged ! k)\<lparr>ck_text := ck_text (merged ! k) @ ck_text c,
                                          ck_tokens := ck_tokens (merged ! k) + ck_tokens c\<rparr>], image_idxs, prev))"

definition naive_merge_docx ::
  "(ustr \<Rightarrow> nat) \<Rightarrow> 'i docx_section list \<Rightarrow> int \<Rightarrow> ustr \<Rightarrow> int \<Rightarrow> int \<Rightarrow> 'i ck list \<times> nat list" where
  "naive_merge_docx num_tokens secs chunk_token_num delimiter table_context_size image_context_size =
     (if secs = [] then ([], [])
      else
        let (cks, has_custom) = build_cks num_tokens secs delimiter;
            cks = (if 0 < table_context_size then fold (add_context num_tokens table_context_size) (indices_of TableCk cks) cks else cks);
            cks = (if 0 < image_context_size then fold (add_context num_tokens image_context_size) (indices_of ImageCk cks) cks else cks);
            (merged, image_idxs, _) = merge_cks chunk_token_num has_custom cks ([], [], None)
        in (merged, image_idxs))"

end
