(* ===== verification/RagChunking.thy ===== *)
theory RagChunking
  imports RagChunks "HOL-Library.Sublist"
begin

text \<open>
  What the chunks of a document are: which sections a chunk joins and how many tokens that may be, that no
  text is lost on the way, and which text the tables and images of a document get as their context.
\<close>

subsection \<open>Merging by size\<close>

definition tokens :: "(ustr \<Rightarrow> nat) \<Rightarrow> ustr list \<Rightarrow> nat" where
  "tokens num_tokens g = sum_list (map num_tokens g)"

text \<open>
  How groups of lines explain the chunks behind a chunk \<open>c\<close>: each chunk is the overlap with the one before it
  and a group; a group is closed by the first line with which it is full.
\<close>

fun explains :: "(ustr \<Rightarrow> nat) \<Rightarrow> int \<Rightarrow> int \<Rightarrow> ustr \<Rightarrow> ustr list list \<Rightarrow> ustr list \<Rightarrow> bool" where
  "explains num_tokens n p c [] cks \<longleftrightarrow> cks = []"
| "explains num_tokens n p c (g # gs) [] \<longleftrightarrow> False"
| "explains num_tokens n p c (g # gs) (ck # cks) \<longleftrightarrow>
     ck = overlap p (remove_tag c) @ concat g \<and> g \<noteq> []
     \<and> (length g = 1 \<or> \<not> full n p (tokens num_tokens (butlast g)))
     \<and> (gs = [] \<or> full n p (tokens num_tokens g))
     \<and> explains num_tokens n p ck gs cks"

lemma explains_new:
  assumes "explains num_tokens n p c gs cks" and "gs \<noteq> [] \<Longrightarrow> full n p (tokens num_tokens (last gs))"
  shows "explains num_tokens n p c (gs @ [[t]]) (cks @ [overlap p (remove_tag (last (c # cks))) @ t])"
  using assms
proof (induction num_tokens n p c gs cks rule: explains.induct)
  case (3 num_tokens n p c g gs ck cks)
  then show ?case by (cases gs) (auto split: if_splits)
qed auto

lemma explains_more:
  assumes "explains num_tokens n p c (gs @ [g]) (cks @ [ck])" and "\<not> full n p (tokens num_tokens g)"
  shows "explains num_tokens n p c (gs @ [g @ [t]]) (cks @ [ck @ t])"
  using assms
proof (induction gs arbitrary: c cks)
  case Nil
  then show ?case by (cases cks) auto
next
  case (Cons h gs)
  then obtain c' cks' where cks: "cks = c' # cks'"
    by (cases cks; cases gs) auto
  with Cons show ?case by auto
qed

lemma explains_length: "explains num_tokens n p c gs cks \<Longrightarrow> length cks = length gs"
  by (induction num_tokens n p c gs cks rule: explains.induct) auto

lemma merge_explained:
  assumes "\<And>t. t \<in> set ts \<Longrightarrow> t \<noteq> []"
    and "explains num_tokens n p [] gs cks" and "length tks = length cks"
    and "gs \<noteq> [] \<Longrightarrow> last cks \<noteq> [] \<and> last tks = tokens num_tokens (last gs)"
  shows "\<exists>gs' cks'. fst (fold (\<lambda>t. add_chunk num_tokens n p t []) ts ([] # cks, 0 # tks)) = [] # cks'
    \<and> explains num_tokens n p [] gs' cks' \<and> concat gs' = concat gs @ ts"
  using assms
proof (induction ts arbitrary: gs cks tks)
  case (Cons t ts)
  have len: "length cks = length gs" by (rule explains_length [OF Cons.prems(2)])
  show ?case
  proof (cases "last ([] # cks) = [] \<or> full n p (last (0 # tks))")
    case True
    define c where "c = overlap p (remove_tag (last ([] # cks))) @ t"
    have step: "add_chunk num_tokens n p t [] ([] # cks, 0 # tks) = ([] # cks @ [c], 0 # tks @ [num_tokens t])"
      using True by (simp add: add_chunk_def c_def with_pos_def Let_def)
    have "full n p (tokens num_tokens (last gs))" if "gs \<noteq> []"
    proof -
      from that len Cons.prems(3) have "cks \<noteq> []" "tks \<noteq> []" by auto
      with Cons.prems(4) True that show ?thesis by auto
    qed
    with Cons.prems(2) have "explains num_tokens n p [] (gs @ [[t]]) (cks @ [c])"
      unfolding c_def by (intro explains_new) auto
    from Cons.IH [OF _ this, of "tks @ [num_tokens t]"] Cons.prems(1,3) step show ?thesis
      by (auto simp: tokens_def c_def)
  next
    case False
    with len have ne: "gs \<noteq> []" "cks \<noteq> []" "tks \<noteq> []" using Cons.prems(3) by auto
    define g where "g = last gs"
    have split: "gs = butlast gs @ [g]" "cks = butlast cks @ [last cks]" using ne by (simp_all add: g_def)
    have step: "add_chunk num_tokens n p t [] ([] # cks, 0 # tks)
        = ([] # butlast cks @ [last cks @ t], 0 # butlast tks @ [last tks + num_tokens t])"
      using False ne by (simp add: add_chunk_def with_pos_def Let_def)
    have "explains num_tokens n p [] (butlast gs @ [g @ [t]]) (butlast cks @ [last cks @ t])"
      using Cons.prems(2,4) ne False split by (intro explains_more) (auto simp: g_def)
    from Cons.IH [OF _ this, of "butlast tks @ [last tks + num_tokens t]"] Cons.prems ne False step
    obtain gs' cks' where "fst (fold (\<lambda>t. add_chunk num_tokens n p t []) (t # ts) ([] # cks, 0 # tks)) = [] # cks'"
      "explains num_tokens n p [] gs' cks'" "concat gs' = concat (butlast gs @ [g @ [t]]) @ ts"
      by (auto simp: tokens_def g_def)
    moreover have "concat (butlast gs @ [g @ [t]]) = concat gs @ [t]" by (subst split(1)) simp
    ultimately show ?thesis by auto
  qed
qed auto

lemma merge_of_lines:
  assumes "secs \<noteq> []" and "96 \<notin> set delimiter"
  shows "\<exists>groups cks. naive_merge num_tokens (map (\<lambda>s. (s, [])) secs) n delimiter p = [] # cks
    \<and> explains num_tokens n p [] groups cks \<and> concat groups = map (Cons 10) secs"
proof -
  let ?lines = "map (Cons 10) secs"
  have "fold (\<lambda>(sec, pos). add_chunk num_tokens n p (10 # sec) pos) (map (\<lambda>s. (s, [])) secs) S
      = fold (\<lambda>t. add_chunk num_tokens n p t []) ?lines S" for S
    by (induction secs arbitrary: S) auto
  then have "naive_merge num_tokens (map (\<lambda>s. (s, [])) secs) n delimiter p
      = fst (fold (\<lambda>t. add_chunk num_tokens n p t []) ?lines ([[]], [0]))"
    using assms by (simp add: naive_merge_def custom_delimiters_plain longest_first_def)
  moreover from merge_explained [of ?lines num_tokens n p "[]" "[]" "[]"]
  have "\<exists>gs cks. fst (fold (\<lambda>t. add_chunk num_tokens n p t []) ?lines ([[]], [0])) = [] # cks
      \<and> explains num_tokens n p [] gs cks \<and> concat gs = ?lines" by auto
  ultimately show ?thesis by auto
qed

text \<open>
  C30: sections without positions are merged, in their order and without loss, into groups that are closed by
  the first section with which their tokens exceed the limit (less the overlap); every chunk begins with the
  end of the chunk before it, and the first one is empty.
\<close>

theorem naive_merge_groups:
  assumes "secs \<noteq> []" and "96 \<notin> set delimiter"
  shows "\<exists>groups cks. naive_merge num_tokens (map (\<lambda>s. (s, [])) secs) n delimiter p = [] # cks
    \<and> explains num_tokens n p [] groups cks \<and> concat groups = map (Cons 10) secs"
  by (rule merge_of_lines [OF assms])

theorem naive_merge_groups_witness:
  "naive_merge length (map (\<lambda>s. (s, [])) [[97, 98], [99], [100, 101]]) 4 [10] 0 = [[], [10, 97, 98, 10, 99], [10, 100, 101]]
   \<and> (\<exists>groups cks. naive_merge length (map (\<lambda>s. (s, [])) [[97, 98], [99], [100, 101]]) 4 [10] 0 = [] # cks
    \<and> explains length 4 0 [] groups cks \<and> concat groups = map (Cons 10) [[97, 98], [99], [100, 101]])"
proof
  show "naive_merge length (map (\<lambda>s. (s, [])) [[97, 98], [99], [100, 101]]) 4 [10] 0 = [[], [10, 97, 98, 10, 99], [10, 100, 101]]"
    by code_simp
qed (rule naive_merge_groups, simp_all)

text \<open>So without an overlap the chunks put together are the lines, and only a single section can make a chunk long.\<close>

lemma explains_plain: "explains num_tokens n 0 c gs cks \<Longrightarrow> cks = map concat gs"
proof (induction num_tokens n "0 :: int" c gs cks rule: explains.induct)
  case (3 num_tokens n c g gs ck cks)
  then have "ck = concat g" by (simp add: overlap_def)
  with 3 show ?case by simp
qed auto

lemma explains_bound:
  assumes "explains num_tokens n 0 c gs cks" and "0 \<le> n" and "\<And>t. t \<in> set (concat gs) \<Longrightarrow> num_tokens t \<le> M"
    and "g \<in> set gs"
  shows "int (tokens num_tokens g) \<le> n + int M"
  using assms(1,3,4)
proof (induction gs arbitrary: c cks)
  case (Cons g' gs)
  then obtain ck cks' where cks: "cks = ck # cks'" by (cases cks) auto
  note exp = Cons.prems(1)[unfolded cks explains.simps]
  show ?case
  proof (cases "g = g'")
    case True
    from exp have "g' \<noteq> []" by simp
    then have "tokens num_tokens (butlast g' @ [last g']) = tokens num_tokens g'" by simp
    then have "tokens num_tokens g' = tokens num_tokens (butlast g') + num_tokens (last g')" by (simp add: tokens_def)
    moreover have "num_tokens (last g') \<le> M" using \<open>g' \<noteq> []\<close> by (intro Cons.prems(2)) simp
    moreover have "int (tokens num_tokens (butlast g')) \<le> n"
    proof (cases "length g' = 1")
      case True
      then have "butlast g' = []" by (cases g') auto
      with assms(2) show ?thesis by (simp add: tokens_def)
    next
      case False
      with exp show ?thesis by (simp add: full_def)
    qed
    ultimately show ?thesis using True by simp
  next
    case False
    with Cons.IH [of ck cks'] Cons.prems(2,3) exp show ?thesis by auto
  qed
qed auto



subsection \<open>Images\<close>

lemma add_chunk_image_chunks:
  "fst (add_chunk_image num_tokens paste n p t img pos S) = add_chunk num_tokens n p t pos (fst S)"
  by (auto simp: add_chunk_image_def add_chunk_def Let_def split: prod.splits)

lemma add_chunk_image_length:
  "length (snd S) = length (fst (fst S)) \<Longrightarrow> fst (fst S) \<noteq> [] \<Longrightarrow>
   let S' = add_chunk_image num_tokens paste n p t img pos S in length (snd S') = length (fst (fst S')) \<and> fst (fst S') \<noteq> []"
  by (auto simp: add_chunk_image_def Let_def split: prod.splits)

text \<open>
  The images that belong to the sections change nothing in the chunks: they are those of \<open>naive_merge\<close>, with or
  without delimiters of the user's own, and each of them has one place for an image.
\<close>

lemma images_do_not_change_chunks:
  assumes "length images = length texts"
  shows "fst (naive_merge_with_images num_tokens paste texts images n delimiter p) = naive_merge num_tokens texts n delimiter p
    \<and> length (snd (naive_merge_with_images num_tokens paste texts images n delimiter p)) = length (naive_merge num_tokens texts n delimiter p)"
proof -
  let ?step = "\<lambda>((text, pos), img). add_chunk_image num_tokens paste n p (10 # text) img pos"
  have fold: "fst (fold ?step (zip texts images) S) = fold (\<lambda>(sec, pos). add_chunk num_tokens n p (10 # sec) pos) texts (fst S)
      \<and> (length (snd S) = length (fst (fst S)) \<longrightarrow> fst (fst S) \<noteq> [] \<longrightarrow>
         length (snd (fold ?step (zip texts images) S)) = length (fst (fst (fold ?step (zip texts images) S))))" for S
    using assms[symmetric]
  proof (induction texts images arbitrary: S rule: list_induct2)
    case (Cons sec texts img images)
    obtain t pos where sec: "sec = (t, pos)" by (cases sec)
    from Cons.IH [of "add_chunk_image num_tokens paste n p (10 # t) img pos S"]
      add_chunk_image_length [of S num_tokens paste n p "10 # t" img pos]
    show ?case by (simp add: sec add_chunk_image_chunks Let_def)
  qed simp
  have pieces: "map fst (concat (map (\<lambda>(sec, img). map (\<lambda>c. (c, img)) (f sec)) (zip texts images))) = concat (map f texts)"
    for f :: "ustr \<times> ustr \<Rightarrow> ustr list"
    using assms[symmetric] by (induction texts images rule: list_induct2) (auto simp: comp_def)
  show ?thesis
    using assms fold [of "(([[]], [0]), [None])"] pieces [of "custom_pieces num_tokens (longest_first (custom_delimiters delimiter))"]
    by (auto simp: naive_merge_with_images_def naive_merge_def Let_def) (metis length_map)+
qed

subsection \<open>Documents with tables and images\<close>

definition text_of :: "('i, 'z) ck_scheme list \<Rightarrow> ustr" where
  "text_of cks = concat (map ck_text (filter (\<lambda>c. ck_kind c = TextCk) cks))"

lemma text_of_simps [simp]:
  "text_of [] = []" "text_of (c # cks) = (if ck_kind c = TextCk then ck_text c else []) @ text_of cks"
  "text_of (cks @ cks') = text_of cks @ text_of cks'"
  by (simp_all add: text_of_def)

text \<open>What \<open>merge_cks\<close> keeps: the last text chunk is known, and behind it there are only tables and images.\<close>

definition merging_ok :: "'i ck list \<times> nat list \<times> nat option \<Rightarrow> bool" where
  "merging_ok S \<longleftrightarrow> (case S of (merged, image_idxs, prev) \<Rightarrow>
     image_idxs = indices_of ImageCk merged \<and>
     (case prev of
        None \<Rightarrow> \<forall>c\<in>set merged. ck_kind c \<noteq> TextCk
      | Some k \<Rightarrow> k < length merged \<and> ck_kind (merged ! k) = TextCk \<and> (\<forall>c\<in>set (drop (Suc k) merged). ck_kind c \<noteq> TextCk)))"

lemma indices_of_append:
  "indices_of kind (cks @ [c]) = indices_of kind cks @ (if ck_kind c = kind then [length cks] else [])"
  by (auto simp: indices_of_def nth_append intro: filter_cong)

lemma indices_of_update:
  "k < length cks \<Longrightarrow> ck_kind c = ck_kind (cks ! k) \<Longrightarrow> indices_of kind (cks[k := c]) = indices_of kind cks"
  by (auto simp: indices_of_def nth_list_update intro!: filter_cong)

lemma text_of_no_text: "\<forall>c\<in>set cks. ck_kind c \<noteq> TextCk \<Longrightarrow> text_of cks = []"
  by (auto simp: text_of_def filter_empty_conv)

lemma merge_cks_keeps:
  assumes "merging_ok S"
  shows "case merge_cks n has_custom cks S of (merged, image_idxs, prev) \<Rightarrow>
     merging_ok (merged, image_idxs, prev)
     \<and> text_of merged = text_of (fst S) @ text_of cks
     \<and> filter (\<lambda>c. ck_kind c \<noteq> TextCk) merged = filter (\<lambda>c. ck_kind c \<noteq> TextCk) (fst S @ cks)"
  using assms
proof (induction n has_custom cks S rule: merge_cks.induct)
  case (2 n has_custom c cks merged image_idxs prev)
  define S' where "S' = (if ck_kind c \<noteq> TextCk then
         (merged @ [c], if ck_kind c = ImageCk then image_idxs @ [length merged] else image_idxs, prev)
       else case prev of
         None \<Rightarrow> (merged @ [c], image_idxs, Some (length merged))
       | Some k \<Rightarrow>
           if n \<le> int (ck_tokens (merged ! k)) \<or> has_custom
           then (merged @ [c], image_idxs, Some (length merged))
           else (merged[k := (merged ! k)\<lparr>ck_text := ck_text (merged ! k) @ ck_text c,
                                          ck_tokens := ck_tokens (merged ! k) + ck_tokens c\<rparr>], image_idxs, prev))"
  have step: "merge_cks n has_custom (c # cks) (merged, image_idxs, prev) = merge_cks n has_custom cks S'"
    by (simp add: S'_def)
  have S': "merging_ok S' \<and> text_of (fst S') = text_of merged @ text_of [c]
      \<and> filter (\<lambda>c. ck_kind c \<noteq> TextCk) (fst S') = filter (\<lambda>c. ck_kind c \<noteq> TextCk) (merged @ [c])"
  proof (cases "ck_kind c = TextCk \<and> prev \<noteq> None \<and> n > int (ck_tokens (merged ! the prev)) \<and> \<not> has_custom")
    case True
    then obtain k where k: "prev = Some k" by auto
    define m where "m = merged ! k"
    define m' where "m' = m\<lparr>ck_text := ck_text m @ ck_text c, ck_tokens := ck_tokens m + ck_tokens c\<rparr>"
    from "2.prems" k have ok: "k < length merged" "ck_kind m = TextCk" "\<forall>c\<in>set (drop (Suc k) merged). ck_kind c \<noteq> TextCk"
      "image_idxs = indices_of ImageCk merged" by (auto simp: merging_ok_def m_def)
    have split: "merged = take k merged @ m # drop (Suc k) merged" "merged[k := m'] = take k merged @ m' # drop (Suc k) merged"
      using ok(1) by (simp_all add: m_def id_take_nth_drop upd_conv_take_nth_drop)
    have S'_eq: "S' = (merged[k := m'], image_idxs, Some k)" using True k by (simp add: S'_def m_def m'_def)
    have kind: "ck_kind m' = TextCk" using ok(2) by (simp add: m'_def)
    have "text_of (merged[k := m']) = text_of merged @ ck_text c"
      using kind ok(2,3) by (subst split(2), subst (3) split(1)) (simp add: text_of_no_text m'_def)
    moreover have "filter (\<lambda>c. ck_kind c \<noteq> TextCk) (merged[k := m']) = filter (\<lambda>c. ck_kind c \<noteq> TextCk) merged"
      using kind ok(2) by (subst split(2), subst (3) split(1)) simp
    moreover have "merging_ok S'"
      using ok kind by (simp add: merging_ok_def S'_eq indices_of_update m_def)
    ultimately show ?thesis using True by (simp add: S'_eq)
  next
    case False
    with "2.prems" show ?thesis
      by (auto simp: S'_def merging_ok_def indices_of_append nth_append split: option.splits)
  qed
  with "2.IH" step show ?case unfolding S'_def by (auto split: prod.splits)
qed auto

text \<open>
  Merging the chunks of a document loses no text and keeps the order of the texts, leaves the tables
  and images as they are, and reports the places of the images in the merged list.
\<close>

lemma docx_merge_keeps:
  fixes cks :: "'i ck list"
  shows "case merge_cks n has_custom cks ([], [], None) of (merged, image_idxs, prev) \<Rightarrow>
     text_of merged = text_of cks
     \<and> filter (\<lambda>c. ck_kind c \<noteq> TextCk) merged = filter (\<lambda>c. ck_kind c \<noteq> TextCk) cks
     \<and> image_idxs = indices_of ImageCk merged"
proof -
  have "merging_ok ([] :: 'i ck list, [], None)" by (simp add: merging_ok_def indices_of_def)
  from merge_cks_keeps [OF this, where n = n and has_custom = has_custom and cks = cks] show ?thesis
    by (auto simp: merging_ok_def split: prod.splits)
qed

subsection \<open>The context of tables and images\<close>

lemma take_until_end: "\<exists>k. take_until num_tokens (\<lambda>s acc. s @ acc) need acc ss = concat (rev (take k ss)) @ acc"
proof (induction ss arbitrary: acc)
  case (Cons s ss)
  show ?case
  proof (cases "need \<le> int (num_tokens (s @ acc))")
    case True
    then show ?thesis by (intro exI [of _ 1]) (simp add: Let_def)
  next
    case False
    from Cons.IH [of "s @ acc"] obtain k where
      "take_until num_tokens (\<lambda>s acc. s @ acc) need (s @ acc) ss = concat (rev (take k ss)) @ s @ acc" by blast
    with False show ?thesis by (intro exI [of _ "Suc k"]) (simp add: Let_def)
  qed
qed simp

lemma take_until_start: "\<exists>k. take_until num_tokens (\<lambda>s acc. acc @ s) need acc ss = acc @ concat (take k ss)"
proof (induction ss arbitrary: acc)
  case (Cons s ss)
  show ?case
  proof (cases "need \<le> int (num_tokens (acc @ s))")
    case True
    then show ?thesis by (intro exI [of _ 1]) (simp add: Let_def)
  next
    case False
    from Cons.IH [of "acc @ s"] obtain k where
      "take_until num_tokens (\<lambda>s acc. acc @ s) need (acc @ s) ss = (acc @ s) @ concat (take k ss)" by blast
    with False show ?thesis by (intro exI [of _ "Suc k"]) (simp add: Let_def)
  qed
qed simp

lemma suffix_concat_drop: "suffix (concat (drop k xs)) (concat xs)"
  by (metis append_take_drop_id concat_append suffix_def)

lemma prefix_concat_take: "prefix (concat (take k xs)) (concat xs)"
  by (metis append_take_drop_id concat_append prefix_def)

lemma sentences_from_end: "suffix (take_sentences_from_end num_tokens s need) s"
proof -
  obtain k where "take_sentences_from_end num_tokens s need = concat (rev (take k (rev (sentences s)))) @ []"
    using take_until_end unfolding take_sentences_from_end_def by blast
  also have "\<dots> = concat (drop (length (sentences s) - k) (sentences s))" by (simp add: take_rev)
  finally show ?thesis using suffix_concat_drop [of _ "sentences s"] by simp
qed

lemma sentences_from_start: "prefix (take_sentences_from_start num_tokens s need) s"
proof -
  obtain k where "take_sentences_from_start num_tokens s need = [] @ concat (take k (sentences s))"
    using take_until_start unfolding take_sentences_from_start_def by blast
  then show ?thesis using prefix_concat_take [of _ "sentences s"] by simp
qed

lemma context_above_suffix:
  assumes "\<And>s need. suffix (part s need) s"
  shows "suffix (concat (rev (context_parts part remain cs))) (text_of (rev cs))"
proof (induction cs arbitrary: remain)
  case (Cons c cs)
  have "suffix (part (ck_text c) remain) (text_of (rev cs) @ ck_text c)" using assms by (rule suffix_appendI)
  with Cons show ?case by auto
qed simp

lemma context_below_prefix:
  assumes "\<And>s need. prefix (part s need) s"
  shows "prefix (concat (context_parts part remain cs)) (text_of cs)"
proof (induction cs arbitrary: remain)
  case (Cons c cs)
  then show ?case using assms by (auto intro: prefix_prefix)
qed simp

text \<open>
  The context of a table or image is the end of the texts before it and the beginning of the texts
  behind it, other tables and images left out; nothing else changes.
\<close>

lemma context_is_adjacent_text:
  assumes "ck_kind (cks ! idx) \<noteq> TextCk"
  shows "\<exists>above below. add_context num_tokens need idx cks = cks[idx := (cks ! idx)\<lparr>ck_above := Some above, ck_below := Some below\<rparr>]
    \<and> suffix above (text_of (take idx cks)) \<and> prefix below (text_of (drop (Suc idx) cks))"
proof -
  have "suffix (concat (rev (context_parts (take_sentences_from_end num_tokens) need (rev (take idx cks))))) (text_of (take idx cks))"
    using context_above_suffix [of "take_sentences_from_end num_tokens" need "rev (take idx cks)"] sentences_from_end by simp
  moreover have "prefix (concat (context_parts (take_sentences_from_start num_tokens) need (drop (Suc idx) cks))) (text_of (drop (Suc idx) cks))"
    by (rule context_below_prefix) (rule sentences_from_start)
  ultimately show ?thesis using assms by (auto simp: add_context_def)
qed

end
