(* ===== verification/RagFlow.thy ===== *)
theory RagFlow
  imports RagChunking
begin

text \<open>
  The token chunker of the ingestion pipeline (\<open>rag/flow/chunker/token_chunker.py\<close>): splitting at delimiters
  that stay in the chunks, the context of tables and images, merging by size, and a second splitting into
  children that remember their mother chunk.  The positions of a chunk in a PDF are opaque; \<open>preview\<close> stands for the
  picture that \<open>restore_pdf_text_previews\<close> stores for them.
\<close>

subsection \<open>Parameters and input\<close>

record chunker_param =
  chunk_token_size :: int
  tc_delimiters :: "ustr list"
  overlapped_percent :: rat
  children_delimiters :: "ustr list"
  table_context_size :: int
  image_context_size :: int

text \<open>\<open>check\<close>: empty delimiters are dropped, and the numbers are in range.\<close>

definition check_param :: "chunker_param \<Rightarrow> chunker_param option" where
  "check_param P =
     (if 0 < chunk_token_size P \<and> 0 \<le> overlapped_percent P \<and> overlapped_percent P \<le> 1
         \<and> 0 \<le> table_context_size P \<and> 0 \<le> image_context_size P
      then Some (P\<lparr>tc_delimiters := filter (\<lambda>d. d \<noteq> []) (tc_delimiters P),
                   children_delimiters := filter (\<lambda>d. d \<noteq> []) (children_delimiters P)\<rparr>)
      else None)"

text \<open>An item of the parser: its \<open>doc_type_kwd\<close>, \<open>text\<close> and \<open>content_with_weight\<close> where they are texts.\<close>

record ('i, 'p) item =
  it_type :: ustr
  it_text :: "ustr option"
  it_content :: "ustr option"
  it_img :: "'i option"
  it_positions :: "'p list"

datatype ('i, 'p) upstream = PlainText ustr | JsonItems "('i, 'p) item list"

text \<open>A working chunk, and a chunk of the output.\<close>

record ('i, 'p) work = "'i ck" +
  wk_positions :: "'p list"
  wk_mom :: "ustr option"

record ('i, 'p) output_chunk =
  d_text :: ustr
  d_kind :: ck_type
  d_positions :: "'p list"
  d_mom :: "ustr option"
  d_img :: "'i option"

subsection \<open>Splitting\<close>

definition compile_delimiters :: "ustr list \<Rightarrow> ustr list" where   \<comment> \<open>\<open>_compile_delimiter_pattern\<close>\<close>
  "compile_delimiters ds = longest_first (custom_delimiters (concat ds))"

fun keep_delimiters :: "ustr list \<Rightarrow> ustr list" where
  "keep_delimiters [] = []"
| "keep_delimiters [t] = (if u_strip t = [] then [] else [t])"
| "keep_delimiters (t # d # ps) = (if t = [] \<or> u_strip (t @ d) = [] then [] else [t @ d]) @ keep_delimiters ps"

definition split_text_by_pattern :: "ustr list \<Rightarrow> ustr \<Rightarrow> ustr list" where
  "split_text_by_pattern ds s = (if ds = [] then [s] else keep_delimiters (re_split (delim_at ds) s))"

subsection \<open>From items to chunks\<close>

definition item_kind :: "ustr \<Rightarrow> ck_type" where
  "item_kind s =
     (let k = u_lower (u_strip s) in
      if k = asc ''table'' then TableCk else if k = asc ''image'' then ImageCk else TextCk)"

definition item_text :: "('i, 'p) item \<Rightarrow> ustr" where
  "item_text it = (case it_text it of Some t \<Rightarrow> t | None \<Rightarrow> (case it_content it of Some t \<Rightarrow> t | None \<Rightarrow> []))"

definition build_json_chunks :: "(ustr \<Rightarrow> nat) \<Rightarrow> ustr list \<Rightarrow> ('i, 'p) item list \<Rightarrow> ('i, 'p) work list" where
  "build_json_chunks num_tokens ds items = concat (map (\<lambda>it.
     let t = item_text it in
     if item_kind (it_type it) = TextCk then
       map (\<lambda>segment. \<lparr>ck_text = segment, ck_image = None, ck_kind = TextCk, ck_tokens = num_tokens segment,
                        ck_above = None, ck_below = None, wk_positions = it_positions it, wk_mom = None\<rparr>)
         (filter (\<lambda>segment. u_strip segment \<noteq> []) (if ds \<noteq> [] then split_text_by_pattern ds t else [t]))
     else [\<lparr>ck_text = t, ck_image = it_img it, ck_kind = item_kind (it_type it), ck_tokens = num_tokens t,
            ck_above = Some [], ck_below = Some [], wk_positions = it_positions it, wk_mom = None\<rparr>]) items)"

text \<open>\<open>_attach_context_to_media_chunks\<close>; the texts of the chunks do not change, so each one is treated alone.\<close>

definition attach_context ::
  "(ustr \<Rightarrow> nat) \<Rightarrow> int \<Rightarrow> int \<Rightarrow> ('i, 'p) work list \<Rightarrow> ('i, 'p) work list" where
  "attach_context num_tokens table_size image_size chunks =
     map (\<lambda>i. let c = chunks ! i; need = (if ck_kind c = ImageCk then image_size else table_size) in
            if ck_kind c = TextCk \<or> need \<le> 0 then c
            else c\<lparr>ck_above := Some (concat (rev (context_parts (take_sentences_from_end num_tokens) need (rev (take i chunks))))),
                   ck_below := Some (concat (context_parts (take_sentences_from_start num_tokens) need (drop (Suc i) chunks)))\<rparr>)
       [0 ..< length chunks]"

text \<open>\<open>_merge_text_chunks_by_token_size\<close>: \<open>prev\<close> says that the last merged chunk is a text.\<close>

definition join_texts :: "ustr \<Rightarrow> ustr \<Rightarrow> ustr" where
  "join_texts s t = (if s \<noteq> [] \<and> t \<noteq> [] then s @ [10] @ t else s @ t)"

fun merge_by_size ::
  "(ustr \<Rightarrow> nat) \<Rightarrow> int \<Rightarrow> int \<Rightarrow> ('i, 'p) work list \<Rightarrow> ('i, 'p) work list \<times> bool \<Rightarrow> ('i, 'p) work list" where
  "merge_by_size num_tokens n p [] (merged, prev) = merged"
| "merge_by_size num_tokens n p (c # cs) (merged, prev) =
     (let m = last merged in
      merge_by_size num_tokens n p cs
       (if ck_kind c \<noteq> TextCk then (merged @ [c], False)
        else if \<not> prev then (merged @ [c], True)
        else if full n p (ck_tokens m) then
          (let t = overlap p (ck_text m) @ ck_text c in
           (merged @ [if 0 < p \<and> ck_text m \<noteq> [] then c\<lparr>ck_text := t, ck_tokens := num_tokens t\<rparr> else c], True))
        else (butlast merged @ [m\<lparr>ck_text := join_texts (ck_text m) (ck_text c),
                wk_positions := wk_positions m @ wk_positions c, ck_tokens := ck_tokens m + ck_tokens c\<rparr>], True)))"

definition split_by_children :: "ustr list \<Rightarrow> ('i, 'p) work list \<Rightarrow> ('i, 'p) work list" where
  "split_by_children ds chunks =
     (if ds = [] then chunks
      else concat (map (\<lambda>c.
        if ck_kind c \<noteq> TextCk then [c]
        else map (\<lambda>t. c\<lparr>wk_mom := Some (ck_text c), ck_text := t\<rparr>)
               (filter (\<lambda>t. u_strip t \<noteq> []) (split_text_by_pattern ds (ck_text c)))) chunks))"

text \<open>
  \<open>restore_pdf_text_previews\<close> (\<open>pdf_chunk_metadata.py\<close>): \<open>preview\<close> gives the id of the stored picture for the positions of a
  text, \<^term>\<open>None\<close> where none can be cut, as for a source that is no PDF.
\<close>

definition restore_previews :: "('p list \<Rightarrow> 'i option) \<Rightarrow> ('i, 'p) work list \<Rightarrow> ('i, 'p) work list" where
  "restore_previews preview chunks =
     map (\<lambda>c. if ck_kind c = TextCk \<and> wk_positions c \<noteq> [] then
                (case preview (wk_positions c) of Some i \<Rightarrow> c\<lparr>ck_image := Some i\<rparr> | None \<Rightarrow> c)
              else c) chunks"

definition text_or_empty :: "ustr option \<Rightarrow> ustr" where
  "text_or_empty x = (case x of None \<Rightarrow> [] | Some t \<Rightarrow> t)"

definition chunk_text :: "('i, 'p) work \<Rightarrow> ustr" where
  "chunk_text c = text_or_empty (ck_above c) @ ck_text c @ text_or_empty (ck_below c)"

definition finalize_json_chunks :: "('i, 'p) work list \<Rightarrow> ('i, 'p) output_chunk list" where
  "finalize_json_chunks chunks =
     map (\<lambda>c. \<lparr>d_text = chunk_text c, d_kind = ck_kind c, d_positions = wk_positions c,
                d_mom = (if wk_mom c = Some [] then None else wk_mom c), d_img = ck_image c\<rparr>)
       (filter (\<lambda>c. u_strip (chunk_text c) \<noteq> []) chunks)"

subsection \<open>The component\<close>

definition plain_doc :: "ustr \<Rightarrow> ustr option \<Rightarrow> ('i, 'p) output_chunk" where
  "plain_doc t mom = \<lparr>d_text = t, d_kind = TextCk, d_positions = [], d_mom = mom, d_img = None\<rparr>"

definition invoke_plain :: "(ustr \<Rightarrow> nat) \<Rightarrow> chunker_param \<Rightarrow> ustr \<Rightarrow> ('i, 'p) output_chunk list" where
  "invoke_plain num_tokens P payload =
     (let ds = compile_delimiters (tc_delimiters P);
          children = longest_first (children_delimiters P);
          p = normalize_overlapped_percent (overlapped_percent P);
          cks = (if ds \<noteq> [] then split_text_by_pattern ds payload
                 else if payload = [] then []
                 else naive_merge num_tokens [(payload, [])] (chunk_token_size P) [] p);
          cks = filter (\<lambda>c. u_strip c \<noteq> []) cks
      in if children \<noteq> [] then
           concat (map (\<lambda>c. map (\<lambda>t. plain_doc t (Some c))
             (filter (\<lambda>t. u_strip t \<noteq> []) (split_text_by_pattern children c))) cks)
         else map (\<lambda>c. plain_doc (u_strip c) None) cks)"

definition invoke_json ::
  "(ustr \<Rightarrow> nat) \<Rightarrow> ('p list \<Rightarrow> 'i option) \<Rightarrow> chunker_param \<Rightarrow> ('i, 'p) item list \<Rightarrow> ('i, 'p) output_chunk list" where
  "invoke_json num_tokens preview P items =
     (let ds = compile_delimiters (tc_delimiters P);
          p = normalize_overlapped_percent (overlapped_percent P);
          chunks = attach_context num_tokens (table_context_size P) (image_context_size P) (build_json_chunks num_tokens ds items);
          chunks = (if ds = [] then merge_by_size num_tokens (chunk_token_size P) p chunks ([], False) else chunks)
      in finalize_json_chunks (restore_previews preview
           (split_by_children (longest_first (children_delimiters P)) chunks)))"

definition invoke_chunker ::
  "(ustr \<Rightarrow> nat) \<Rightarrow> ('p list \<Rightarrow> 'i option) \<Rightarrow> chunker_param \<Rightarrow> ('i, 'p) upstream \<Rightarrow> ('i, 'p) output_chunk list" where
  "invoke_chunker num_tokens preview P input =
     (case input of PlainText t \<Rightarrow> invoke_plain num_tokens P t | JsonItems items \<Rightarrow> invoke_json num_tokens preview P items)"

subsection \<open>Properties\<close>

lemma single_section: "naive_merge num_tokens [(t, [])] n [] p = [[], 10 # t]"
  by (simp add: naive_merge_def custom_delimiters_def longest_first_def add_chunk_def with_pos_def Let_def overlap_def)

text \<open>
  A plain text without delimiters between backticks is one chunk, however large it is and
  whatever the chunk size: there is nothing to merge, and nothing splits it.
\<close>

lemma plain_text_is_one_chunk:
  assumes "\<forall>d\<in>set (tc_delimiters P). 96 \<notin> set d" and "children_delimiters P = []" and "u_strip t \<noteq> []"
  shows "invoke_chunker num_tokens preview P (PlainText t) = [plain_doc (u_strip (10 # t)) None]"
proof -
  have "compile_delimiters (tc_delimiters P) = []"
    using assms(1) by (simp add: compile_delimiters_def custom_delimiters_plain longest_first_def)
  moreover have "t \<noteq> []" using assms(3) by (auto simp: u_strip_def)
  moreover note single_section
  moreover have "u_strip (10 # t) = u_strip t" by (simp add: u_strip_def u_space_def)
  moreover have "u_strip [] = []" by (simp add: u_strip_def)
  ultimately show ?thesis
    using assms(2,3) by (simp add: invoke_chunker_def invoke_plain_def longest_first_def Let_def)
qed

text \<open>A delimiter stays with the text before it; without such a text it is lost.\<close>

lemma leading_delimiter_lost: "split_text_by_pattern [[35]] [35, 97, 35, 35, 98] = [[97, 35], [98]]"
  by (simp add: split_text_by_pattern_def delim_at_def u_starts_def onto_first_def u_strip_def u_space_def)

lemma keep_delimiters_part: "t \<in> set (keep_delimiters ps) \<Longrightarrow> \<exists>u v. concat ps = u @ t @ v"
proof (induction ps rule: keep_delimiters.induct)
  case (2 t')
  then show ?case by (auto split: if_splits intro: exI [of _ "[]"])
next
  case (3 t' d ps)
  then consider "t = t' @ d" | "t \<in> set (keep_delimiters ps)" by (auto split: if_splits)
  then show ?case
  proof cases
    case 1
    then show ?thesis by (intro exI [of _ "[]"] exI [of _ "concat ps"]) simp
  next
    case 2
    with 3 obtain u v where "concat ps = u @ t @ v" by blast
    then show ?thesis by (intro exI [of _ "t' @ d @ u"] exI [of _ v]) simp
  qed
qed simp

lemma split_text_part: "t \<in> set (split_text_by_pattern ds s) \<Longrightarrow> \<exists>u v. s = u @ t @ v"
  using keep_delimiters_part [of t "re_split (delim_at ds) s"]
  by (auto simp: split_text_by_pattern_def split: if_splits intro: exI [of _ "[]"])

text \<open>A text has no context of its own, and up to the splitting no chunk has a mother.\<close>

definition bare :: "('i, 'p) work \<Rightarrow> bool" where
  "bare c \<longleftrightarrow> wk_mom c = None \<and> (ck_kind c = TextCk \<longrightarrow> ck_above c = None \<and> ck_below c = None)"

lemma bare_build: "c \<in> set (build_json_chunks num_tokens ds items) \<Longrightarrow> bare c"
  by (auto simp: build_json_chunks_def bare_def Let_def split: if_splits)

lemma bare_attach:
  assumes "\<And>c. c \<in> set chunks \<Longrightarrow> bare c" and "c \<in> set (attach_context num_tokens table_size image_size chunks)"
  shows "bare c"
proof -
  from assms(2) obtain i where "i < length chunks" and c: "c = (let c = chunks ! i; need = (if ck_kind c = ImageCk then image_size else table_size) in
            if ck_kind c = TextCk \<or> need \<le> 0 then c
            else c\<lparr>ck_above := Some (concat (rev (context_parts (take_sentences_from_end num_tokens) need (rev (take i chunks))))),
                   ck_below := Some (concat (context_parts (take_sentences_from_start num_tokens) need (drop (Suc i) chunks)))\<rparr>)"
    by (auto simp: attach_context_def)
  then have "bare (chunks ! i)" using assms(1) by simp
  with c show ?thesis by (auto simp: bare_def Let_def split: if_splits)
qed

lemma bare_merge:
  assumes "\<And>c. c \<in> set cs \<union> set merged \<Longrightarrow> bare c" and "prev \<Longrightarrow> merged \<noteq> [] \<and> ck_kind (last merged) = TextCk"
    and "c \<in> set (merge_by_size num_tokens n p cs (merged, prev))"
  shows "bare c"
  using assms
proof (induction cs arbitrary: merged prev)
  case (Cons d cs)
  define m where "m = last merged"
  define S' where "S' = (if ck_kind d \<noteq> TextCk then (merged @ [d], False)
        else if \<not> prev then (merged @ [d], True)
        else if full n p (ck_tokens m) then
          (let t = overlap p (ck_text m) @ ck_text d in
           (merged @ [if 0 < p \<and> ck_text m \<noteq> [] then d\<lparr>ck_text := t, ck_tokens := num_tokens t\<rparr> else d], True))
        else (butlast merged @ [m\<lparr>ck_text := join_texts (ck_text m) (ck_text d),
                wk_positions := wk_positions m @ wk_positions d, ck_tokens := ck_tokens m + ck_tokens d\<rparr>], True))"
  obtain merged' prev' where S'_eq: "S' = (merged', prev')" by (cases S')
  have bare: "bare x" if "x \<in> set merged" for x using that Cons.prems(1) by simp
  have d: "bare d" using Cons.prems(1) by simp
  have m: "m \<in> set merged \<and> ck_kind m = TextCk" if prev using Cons.prems(2) [OF that] by (simp add: m_def)
  have ok: "bare x" if "x \<in> set (fst S')" for x
    using that bare d m bare [of m] by (auto simp: S'_def bare_def Let_def dest: in_set_butlastD split: if_splits)
  have prev: "fst S' \<noteq> [] \<and> ck_kind (last (fst S')) = TextCk" if "snd S'"
    using that m by (auto simp: S'_def Let_def split: if_splits)
  have "merge_by_size num_tokens n p (d # cs) (merged, prev) = merge_by_size num_tokens n p cs (merged', prev')"
    by (simp add: S'_eq [symmetric] S'_def m_def Let_def)
  with Cons.prems(3) have c: "c \<in> set (merge_by_size num_tokens n p cs (merged', prev'))" by simp
  show ?case by (rule Cons.IH [OF _ _ c]) (use ok prev S'_eq Cons.prems(1) in auto)
qed simp

text \<open>
  A child is a part of the text of the chunk it names as its mother.
\<close>

lemma children_lie_in_mother:
  assumes "d \<in> set (invoke_chunker num_tokens preview P input)" and "d_mom d = Some m"
  shows "\<exists>u v. m = u @ d_text d @ v"
proof (cases input)
  case (PlainText t)
  with assms show ?thesis
    by (auto simp: invoke_chunker_def invoke_plain_def plain_doc_def Let_def split: if_splits dest: split_text_part)
next
  case (JsonItems items)
  define chunks where "chunks = attach_context num_tokens (table_context_size P) (image_context_size P)
    (build_json_chunks num_tokens (compile_delimiters (tc_delimiters P)) items)"
  define merged where "merged = (if compile_delimiters (tc_delimiters P) = []
    then merge_by_size num_tokens (chunk_token_size P) (normalize_overlapped_percent (overlapped_percent P)) chunks ([], False) else chunks)"
  have "bare c" if "c \<in> set chunks" for c
    by (rule bare_attach [OF bare_build that[unfolded chunks_def]])
  then have bare: "bare c" if "c \<in> set merged" for c
    using that bare_merge [of chunks "[]" False c] by (auto simp: merged_def split: if_splits)
  have "invoke_chunker num_tokens preview P input = finalize_json_chunks (restore_previews preview
      (split_by_children (longest_first (children_delimiters P)) merged))"
    by (simp add: JsonItems invoke_chunker_def invoke_json_def merged_def chunks_def Let_def)
  with assms(1) obtain c where c: "c \<in> set (restore_previews preview
      (split_by_children (longest_first (children_delimiters P)) merged))"
    "d_text d = chunk_text c" "d_mom d = (if wk_mom c = Some [] then None else wk_mom c)"
    by (auto simp: finalize_json_chunks_def)
  from c(1) obtain c' where "c' \<in> set (split_by_children (longest_first (children_delimiters P)) merged)"
    and c': "chunk_text c' = chunk_text c" "wk_mom c' = wk_mom c"
    by (auto simp: restore_previews_def chunk_text_def split: if_splits option.splits)
  then obtain e where e: "e \<in> set merged" "c' = e \<or> ck_kind e = TextCk \<and>
     (\<exists>t. c' = e\<lparr>wk_mom := Some (ck_text e), ck_text := t\<rparr> \<and> t \<in> set (split_text_by_pattern (longest_first (children_delimiters P)) (ck_text e)))"
    by (auto simp: split_by_children_def split: if_splits)
  with bare [OF e(1)] assms(2) c(3) c' obtain t where "ck_kind e = TextCk" "c' = e\<lparr>wk_mom := Some (ck_text e), ck_text := t\<rparr>"
    "t \<in> set (split_text_by_pattern (longest_first (children_delimiters P)) (ck_text e))"
    by (auto simp: bare_def split: if_splits)
  with bare [OF e(1)] have "chunk_text c' = t" "wk_mom c' = Some (ck_text e)"
    by (simp_all add: bare_def chunk_text_def text_or_empty_def)
  with assms(2) c(2,3) c' have "d_text d = t" "m = ck_text e" by (simp_all split: if_splits)
  with split_text_part [OF \<open>t \<in> set _\<close>] show ?thesis by simp
qed

end
