(* ===== verification/RagSearch.thy ===== *)
theory RagSearch
  imports Complex_Main RagText
begin

text \<open>
  Retrieval (\<open>rag/nlp/search.py\<close>, \<open>rag/nlp/query.py\<close>): the pages of \<open>Dealer.retrieval\<close> over windows of ranked
  hits, the similarity of token sets, the chunks of a document in batches, and mother chunks in the place of
  their children.  The document store, the embedding, the tokenizer and \<open>numpy.argsort\<close> are parameters.
  Scores are rational numbers.
\<close>

subsection \<open>Similarity\<close>

text \<open>\<open>FulltextQueryer.similarity\<close> of weighted tokens: the share of the query's weight that the document has.\<close>

definition token_similarity :: "(ustr \<times> rat) list \<Rightarrow> ustr list \<Rightarrow> rat" where
  "token_similarity qtwt dtwt =
     (let eps = 1 / 10 ^ 9;
          s = fold (\<lambda>(k, v) s. if k \<in> set dtwt then s + v else s) qtwt eps;
          q = fold (\<lambda>(k, v) q. q + v) qtwt eps
      in s / q)"

text \<open>\<open>to_dict\<close>: tokens and pairs of neighbours with their weights, in the order of their first occurrence.\<close>

fun add_weight :: "ustr \<Rightarrow> rat \<Rightarrow> (ustr \<times> rat) list \<Rightarrow> (ustr \<times> rat) list" where
  "add_weight k w [] = [(k, w)]"
| "add_weight k w ((k', w') # d) = (if k' = k then (k, w' + w) # d else (k', w') # add_weight k w d)"

fun token_weights :: "(ustr \<times> rat) list \<Rightarrow> (ustr \<times> rat) list \<Rightarrow> (ustr \<times> rat) list" where
  "token_weights [] d = d"
| "token_weights [(t, c)] d = add_weight t (c * (4 / 10)) d"
| "token_weights ((t, c) # (t', c') # wts) d =
     token_weights ((t', c') # wts) (add_weight (t @ t') (max c c' * (6 / 10)) (add_weight t (c * (4 / 10)) d))"

definition token_similarities :: "(ustr \<times> rat) list \<Rightarrow> (ustr \<times> rat) list list \<Rightarrow> rat list" where
  "token_similarities atks btkss =
     map (\<lambda>btks. token_similarity (token_weights atks []) (map fst (token_weights btks []))) btkss"

text \<open>\<open>hybrid_similarity\<close>: without any vector similarity the tokens decide alone.\<close>

definition hybrid_similarity :: "rat \<Rightarrow> rat \<Rightarrow> rat list \<Rightarrow> rat list \<Rightarrow> rat list" where
  "hybrid_similarity tkweight vtweight sims tksim =
     (if sum_list sims = 0 then tksim else map2 (\<lambda>v t. v * vtweight + t * tkweight) sims tksim)"

subsection \<open>Retrieval\<close>

text \<open>The fields of a hit that retrieval looks at; the others are copied into the answer.\<close>

record hit =
  hit_id :: string
  hit_doc_name :: string
  hit_doc_id :: string
  hit_kb_id :: string
  hit_mom_id :: "string option"
  hit_content :: ustr

text \<open>
  The surroundings: one search with its page and size of page, giving the total and the hits; the
  scores of the hits (\<open>rerank\<close>, \<open>rerank_by_model\<close> or the store's own: together, of tokens, of vectors); and
  \<open>argsort\<close>.
\<close>

record searcher =
  on_search :: "ustr \<Rightarrow> int \<Rightarrow> int \<Rightarrow> int \<times> hit list"
  on_scores :: "ustr \<Rightarrow> hit list \<Rightarrow> rat list \<times> rat list \<times> rat list"
  on_argsort :: "rat list \<Rightarrow> nat list"

record ranked =
  rk_hit :: hit
  rk_similarity :: rat
  rk_term :: rat
  rk_vector :: rat

record doc_agg =
  agg_name :: string
  agg_doc :: string
  agg_count :: nat

record ranks =
  r_total :: nat
  r_chunks :: "ranked list"
  r_aggs :: "doc_agg list"

text \<open>\<open>math.ceil(a / b)\<close> for a positive \<open>b\<close>.\<close>

definition ceil_div :: "int \<Rightarrow> int \<Rightarrow> int" where
  "ceil_div a b = - ((- a) div b)"

definition rerank_limit :: "int \<Rightarrow> int" where
  "rerank_limit page_size = max 30 (if 1 < page_size then ceil_div 64 page_size * page_size else 1)"

definition window_page :: "int \<Rightarrow> int \<Rightarrow> int" where
  "window_page page_size page = ceil_div (page_size * page) (rerank_limit page_size)"

text \<open>The place of the first hit that \<open>search\<close> asks the store for, and of the first on the page among the ranked ones.\<close>

definition search_offset :: "int \<Rightarrow> int \<Rightarrow> int" where
  "search_offset pg ps = (pg - 1) * ps"

definition page_begin :: "int \<Rightarrow> int \<Rightarrow> int" where
  "page_begin page_size page =
     (let max_pages = max (rerank_limit page_size div max page_size 1) 1 in ((page - 1) mod max_pages) * page_size)"

text \<open>\<open>xs[b:e]\<close> for non-negative bounds.\<close>

definition slice :: "int \<Rightarrow> int \<Rightarrow> 'a list \<Rightarrow> 'a list" where
  "slice b e xs = drop (nat b) (take (nat e) xs)"

definition valid_indices :: "(rat list \<Rightarrow> nat list) \<Rightarrow> rat \<Rightarrow> rat list \<Rightarrow> nat list" where
  "valid_indices argsort threshold sim = filter (\<lambda>i. threshold \<le> sim ! i) (argsort (map uminus sim))"

text \<open>The documents of the valid hits, each with the number of its hits, those with the most first.\<close>

fun count_hit :: "hit \<Rightarrow> doc_agg list \<Rightarrow> doc_agg list" where
  "count_hit h [] = [\<lparr>agg_name = hit_doc_name h, agg_doc = hit_doc_id h, agg_count = 1\<rparr>]"
| "count_hit h (a # as) =
     (if agg_name a = hit_doc_name h then a\<lparr>agg_count := agg_count a + 1\<rparr> # as else a # count_hit h as)"

definition doc_aggs :: "hit list \<Rightarrow> doc_agg list" where
  "doc_aggs hits = sort_key (\<lambda>a. - int (agg_count a)) (fold count_hit hits [])"

definition post_threshold :: "rat \<Rightarrow> rat \<Rightarrow> string list \<Rightarrow> rat" where
  "post_threshold threshold vector_weight doc_ids =
     (if doc_ids \<noteq> [] then 0 else if vector_weight \<le> 0 then 0 else threshold)"

definition no_ranks :: ranks where
  "no_ranks = \<lparr>r_total = 0, r_chunks = [], r_aggs = []\<rparr>"

definition retrieval ::
  "searcher \<Rightarrow> ustr \<Rightarrow> int \<Rightarrow> int \<Rightarrow> rat \<Rightarrow> rat \<Rightarrow> string list \<Rightarrow> bool \<Rightarrow> ranks" where
  "retrieval S question page page_size threshold vector_weight doc_ids aggs =
     (if question = [] then no_ranks
      else
        let (total, hits) = on_search S question (window_page page_size page) (rerank_limit page_size);
            (sim, tsim, vsim) = on_scores S question hits
        in if sim = [] then no_ranks
        else
          let valid = valid_indices (on_argsort S) (post_threshold threshold vector_weight doc_ids) sim in
          if valid = [] then no_ranks
          else
            let begin = page_begin page_size page in
            \<lparr>r_total = length valid,
             r_chunks = map (\<lambda>i. \<lparr>rk_hit = hits ! i, rk_similarity = sim ! i, rk_term = tsim ! i, rk_vector = vsim ! i\<rparr>)
                          (slice begin (begin + page_size) valid),
             r_aggs = (if aggs then doc_aggs (map (\<lambda>i. hits ! i) valid) else [])\<rparr>)"

subsection \<open>The chunks of a document\<close>

text \<open>
  \<open>chunk_list\<close>: batches of 128 from \<open>offset\<close> to \<open>max_count\<close>, until one is short.  \<open>store p n\<close> is the search for at
  most \<open>n\<close> chunks from place \<open>p\<close> on.
\<close>

function chunk_list :: "(int \<Rightarrow> int \<Rightarrow> 'c list) \<Rightarrow> int \<Rightarrow> int \<Rightarrow> 'c list" where
  "chunk_list store max_count p =
     (if max_count \<le> p then []
      else
        let limit = min 128 (max_count - p); chunks = store p limit in
        chunks @ (if chunks = [] \<or> int (length chunks) < limit then [] else chunk_list store max_count (p + 128)))"
  by pat_completeness auto
termination
  by (relation "measure (\<lambda>(store, max_count, p). nat (max_count - p))") auto

declare chunk_list.simps [simp del]

subsection \<open>Mother chunks\<close>

text \<open>
  \<open>retrieval_by_children\<close>: the chunks with a mother give way to it, with the mean of their scores; \<open>get\<close> fetches a
  mother from the store, \<^term>\<open>None\<close> is a \<open>TypeError\<close>.
\<close>

definition has_mother :: "ranked \<Rightarrow> bool" where
  "has_mother r \<longleftrightarrow> (case hit_mom_id (rk_hit r) of None \<Rightarrow> False | Some m \<Rightarrow> str_strip m \<noteq> [])"

definition mother_of :: "ranked \<Rightarrow> string" where
  "mother_of r = (case hit_mom_id (rk_hit r) of None \<Rightarrow> [] | Some m \<Rightarrow> m)"

definition mean :: "rat list \<Rightarrow> rat" where
  "mean xs = sum_list xs / of_nat (length xs)"

definition mother_chunk :: "(string \<Rightarrow> hit option) \<Rightarrow> ranked list \<Rightarrow> string \<Rightarrow> ranked option" where
  "mother_chunk get chunks m =
     (case get m of
        None \<Rightarrow> None
      | Some h \<Rightarrow>
          let s = mean (map rk_similarity (filter (\<lambda>r. has_mother r \<and> mother_of r = m) chunks)) in
          Some \<lparr>rk_hit = h\<lparr>hit_id := m, hit_mom_id := None\<rparr>, rk_similarity = s, rk_term = s, rk_vector = s\<rparr>)"

fun fetch_all :: "('a \<Rightarrow> 'b option) \<Rightarrow> 'a list \<Rightarrow> 'b list option" where
  "fetch_all f [] = Some []"
| "fetch_all f (x # xs) =
     (case f x of None \<Rightarrow> None | Some y \<Rightarrow> map_option (Cons y) (fetch_all f xs))"

definition retrieval_by_children :: "(string \<Rightarrow> hit option) \<Rightarrow> ranked list \<Rightarrow> ranked list option" where
  "retrieval_by_children get chunks =
     (let moms = dedup (map mother_of (filter has_mother chunks)) in
      if moms = [] then Some chunks
      else map_option (\<lambda>ms. sort_key (\<lambda>r. - rk_similarity r) (filter (\<lambda>r. \<not> has_mother r) chunks @ ms))
             (fetch_all (mother_chunk get chunks) moms))"

subsection \<open>Tables of contents\<close>

text \<open>
  \<open>retrieval_by_toc\<close> after the table of contents was asked: \<open>ids\<close> are the chunks it names, with a similarity
  each; those already found gain it, the others are fetched, and the best \<open>topn\<close> remain.
\<close>

fun toc_step ::
  "(string \<Rightarrow> hit option) \<Rightarrow> string \<Rightarrow> (string \<Rightarrow> nat option) \<Rightarrow> (string \<times> rat) list \<Rightarrow> ranked list \<Rightarrow> ranked list" where
  "toc_step get doc_id id2idx [] chunks = chunks"
| "toc_step get doc_id id2idx ((cid, sim) # ids) chunks =
     toc_step get doc_id id2idx ids
      (case id2idx cid of
         Some i \<Rightarrow> chunks[i := (chunks ! i)\<lparr>rk_similarity := rk_similarity (chunks ! i) + sim\<rparr>]
       | None \<Rightarrow>
           (case get cid of
              None \<Rightarrow> chunks
            | Some h \<Rightarrow> chunks @ [\<lparr>rk_hit = h\<lparr>hit_id := cid, hit_doc_id := doc_id, hit_mom_id := None\<rparr>,
                                    rk_similarity = sim, rk_term = sim, rk_vector = sim\<rparr>]))"

definition best_doc :: "ranked list \<Rightarrow> string" where
  "best_doc chunks =
     (let docs = dedup (map (\<lambda>r. hit_doc_id (rk_hit r)) chunks);
          rank = (\<lambda>d. sum_list (map rk_similarity (filter (\<lambda>r. hit_doc_id (rk_hit r) = d) chunks)))
      in hd (sort_key (\<lambda>d. - rank d) docs))"

definition toc_chunks ::
  "(string \<Rightarrow> hit option) \<Rightarrow> (string \<Rightarrow> (string \<times> rat) list) \<Rightarrow> ranked list \<Rightarrow> int \<Rightarrow> ranked list" where
  "toc_chunks get toc_ids chunks topn =
     (if chunks = [] then []
      else let ids = toc_ids (best_doc chunks) in
        if ids = [] then chunks
        else
          let id2idx = map_of (rev (map (\<lambda>i. (hit_id (rk_hit (chunks ! i)), i)) [0 ..< length chunks])) in
          take (nat topn) (sort_key (\<lambda>r. - rk_similarity r) (toc_step get (best_doc chunks) id2idx ids chunks)))"

end
