(* ===== verification/RagRetrieval.thy ===== *)
theory RagRetrieval
  imports RagSearch "HOL-Library.Multiset"
begin

text \<open>
  Properties of retrieval: the pages cover the ranking without gap or overlap, what a page shows, the
  counts of the documents, the batches of a document's chunks, and the bounds of the similarity.
\<close>

subsection \<open>Pages\<close>

lemma ceil_div_bounds: "0 < b \<Longrightarrow> a \<le> b * ceil_div a b \<and> b * ceil_div a b < a + b"
proof -
  assume b: "0 < b"
  define q where "q = (- a) div b"
  have "- a = b * q + (- a) mod b" by (simp add: q_def)
  moreover have "0 \<le> (- a) mod b" "(- a) mod b < b" using b by simp_all
  moreover have "b * ceil_div a b = - (b * q)" by (simp add: ceil_div_def q_def)
  ultimately show ?thesis by linarith
qed

lemma limit_mult:
  assumes "1 \<le> s"
  shows "s dvd rerank_limit s" "30 \<le> rerank_limit s"
proof -
  show "30 \<le> rerank_limit s" by (simp add: rerank_limit_def)
  show "s dvd rerank_limit s"
  proof (cases "1 < s")
    case True
    have "64 \<le> s * ceil_div 64 s" using ceil_div_bounds [of s 64] True by simp
    then show ?thesis using True by (simp add: rerank_limit_def max_def mult.commute)
  qed (use assms in \<open>simp add: rerank_limit_def\<close>)
qed

lemma ceil_div_mult: "0 < s \<Longrightarrow> ceil_div (s * a) (s * k) = ceil_div a k"
proof -
  assume "0 < s"
  then have "(s * (- a)) div (s * k) = (- a) div k" by (intro div_mult_mult1) simp
  then show ?thesis by (simp add: ceil_div_def)
qed

lemma ceil_div_pred: "0 < k \<Longrightarrow> ceil_div a k - 1 = (a - 1) div k"
proof -
  assume k: "0 < k"
  define c where "c = ceil_div a k"
  have "a \<le> k * c" "k * c < a + k" using ceil_div_bounds [OF k, of a] by (simp_all add: c_def)
  then have "0 \<le> a - 1 - k * c + k" "a - 1 - k * c + k < k" by linarith+
  moreover have "a - 1 = k * (c - 1) + (a - 1 - k * c + k)" by (simp add: algebra_simps)
  ultimately have "(a - 1) div k = c - 1" by (metis int_div_pos_eq)
  then show ?thesis by (simp add: c_def)
qed

lemma rerank_pages:
  assumes "1 \<le> page_size"
  obtains k where "rerank_limit page_size = page_size * k" and "0 < k"
proof -
  obtain k where k: "rerank_limit page_size = page_size * k" using limit_mult(1) [OF assms] by (auto simp: dvd_def)
  have "0 < k"
  proof (rule ccontr)
    assume "\<not> 0 < k"
    then have "page_size * k \<le> 0" using assms by (simp add: mult_nonneg_nonpos)
    with limit_mult(2) [OF assms] k show False by simp
  qed
  with k show thesis by (rule that)
qed

lemma page_begin_mod:
  assumes "1 \<le> page_size" and "rerank_limit page_size = page_size * k" and "0 < k"
  shows "page_begin page_size page = ((page - 1) mod k) * page_size"
proof -
  have "max k 1 = k" using assms(3) by simp
  with assms show ?thesis by (simp add: page_begin_def Let_def)
qed

lemma window_page_div:
  assumes "1 \<le> page_size" and "rerank_limit page_size = page_size * k" and "0 < k"
  shows "window_page page_size page = (page - 1) div k + 1"
  using assms ceil_div_mult [of page_size page k] ceil_div_pred [of k page] by (simp add: window_page_def)

text \<open>
  C32: the hits that a page shows begin at place \<open>(page - 1) * page_size\<close> of the store's ranking, and the page lies
  within the window that was searched.
\<close>

theorem pages_tile:
  assumes "1 \<le> page_size" and "1 \<le> page"
  shows "search_offset (window_page page_size page) (rerank_limit page_size) + page_begin page_size page = (page - 1) * page_size
    \<and> 0 \<le> page_begin page_size page \<and> page_begin page_size page + page_size \<le> rerank_limit page_size"
proof -
  obtain k where k: "rerank_limit page_size = page_size * k" and "0 < k" using rerank_pages [OF assms(1)] .
  have "page_begin page_size page = ((page - 1) mod k) * page_size" by (rule page_begin_mod [OF assms(1) k \<open>0 < k\<close>])
  moreover have "search_offset (window_page page_size page) (rerank_limit page_size) = ((page - 1) div k) * k * page_size"
    using window_page_div [OF assms(1) k \<open>0 < k\<close>, of page] by (simp add: search_offset_def k)
  moreover have "((page - 1) div k) * k * page_size + ((page - 1) mod k) * page_size = (page - 1) * page_size"
    by (metis distrib_right div_mult_mod_eq)
  moreover have "0 \<le> (page - 1) mod k" using \<open>0 < k\<close> by simp
  moreover have "(page - 1) mod k < k" using \<open>0 < k\<close> by simp
  moreover from this have "((page - 1) mod k + 1) * page_size \<le> k * page_size"
    using assms(1) by (intro mult_right_mono) linarith+
  ultimately show ?thesis using assms(1) by (simp add: k algebra_simps)
qed

theorem pages_tile_witness:
  "search_offset (window_page 7 25) (rerank_limit 7) + page_begin 7 25 = 168 \<and> page_begin 7 25 + 7 \<le> rerank_limit 7"
  using pages_tile [of 7 25] by simp

text \<open>Slices of equal length put together.\<close>

lemma slices:
  "0 \<le> n \<Longrightarrow> concat (map (\<lambda>j. slice (int j * n) (int j * n + n) xs) [0 ..< k]) = take (k * nat n) xs"
proof (induction k)
  case (Suc k)
  have "nat (int k * n) = k * nat n" "nat (int k * n + n) = k * nat n + nat n"
    using Suc.prems by (simp_all add: nat_mult_distrib nat_add_distrib)
  moreover have "take (k * nat n) xs @ drop (k * nat n) (take (k * nat n + nat n) xs) = take (k * nat n + nat n) xs"
    by (metis append_take_drop_id le_add1 min.absorb1 take_take)
  ultimately show ?case using Suc by (simp add: slice_def add.commute)
qed simp

definition ranked_at :: "hit list \<Rightarrow> rat list \<Rightarrow> rat list \<Rightarrow> rat list \<Rightarrow> nat \<Rightarrow> ranked" where
  "ranked_at hits sim tsim vsim i = \<lparr>rk_hit = hits ! i, rk_similarity = sim ! i, rk_term = tsim ! i, rk_vector = vsim ! i\<rparr>"

lemma retrieval_page:
  assumes "question \<noteq> []" and "on_search S question (window_page page_size page) (rerank_limit page_size) = (found, hits)"
    and "on_scores S question hits = (sim, tsim, vsim)"
    and "valid = valid_indices (on_argsort S) (post_threshold threshold vw docs) sim"
    and "sim = [] \<Longrightarrow> valid = []"
  shows "r_chunks (retrieval S question page page_size threshold vw docs aggs)
      = map (ranked_at hits sim tsim vsim) (slice (page_begin page_size page) (page_begin page_size page + page_size) valid)"
    and "r_total (retrieval S question page page_size threshold vw docs aggs) = length valid"
  using assms by (auto simp: retrieval_def no_ranks_def ranked_at_def slice_def Let_def)

text \<open>\<open>numpy.argsort\<close>: the indices, in an order that makes the values ascend.\<close>

definition sorts :: "(rat list \<Rightarrow> nat list) \<Rightarrow> bool" where
  "sorts argsort \<longleftrightarrow> (\<forall>xs. mset (argsort xs) = mset [0 ..< length xs] \<and> sorted (map ((!) xs) (argsort xs)))"

lemma valid_indices_props:
  assumes "sorts argsort"
  shows "sorted_wrt (\<lambda>i j. sim ! j \<le> sim ! i) (valid_indices argsort t sim)"
    and "mset (valid_indices argsort t sim) = mset (filter (\<lambda>i. t \<le> sim ! i) [0 ..< length sim])"
proof -
  have m: "mset (argsort (map uminus sim)) = mset [0 ..< length sim]"
    and s: "sorted (map ((!) (map uminus sim)) (argsort (map uminus sim)))"
    using assms by (auto simp: sorts_def)
  have set: "set (argsort (map uminus sim)) = {0 ..< length sim}" by (metis m mset_eq_setD set_upt)
  from s have "sorted_wrt (\<lambda>i j. map uminus sim ! i \<le> map uminus sim ! j) (argsort (map uminus sim))"
    by (simp add: sorted_map)
  then have "sorted_wrt (\<lambda>i j. sim ! j \<le> sim ! i) (argsort (map uminus sim))"
    using set by (auto intro: sorted_wrt_mono_rel [rotated])
  then show "sorted_wrt (\<lambda>i j. sim ! j \<le> sim ! i) (valid_indices argsort t sim)"
    by (simp add: valid_indices_def sorted_wrt_filter)
  show "mset (valid_indices argsort t sim) = mset (filter (\<lambda>i. t \<le> sim ! i) [0 ..< length sim])"
    by (simp add: valid_indices_def m)
qed

text \<open>
  C33: the pages of one window show every hit that reaches the threshold exactly once, in the order of the
  ranking.
\<close>

theorem pages_partition:
  assumes "question \<noteq> []" and "1 \<le> page_size" and "rerank_limit page_size = page_size * k"
    and "on_search S question w (rerank_limit page_size) = (found, hits)"
    and "on_scores S question hits = (sim, tsim, vsim)"
    and "sorts (on_argsort S)" and "int (length sim) \<le> rerank_limit page_size"
  shows "concat (map (\<lambda>j. r_chunks (retrieval S question ((w - 1) * k + 1 + int j) page_size threshold vw docs aggs)) [0 ..< nat k])
    = map (ranked_at hits sim tsim vsim) (valid_indices (on_argsort S) (post_threshold threshold vw docs) sim)"
proof -
  let ?valid = "valid_indices (on_argsort S) (post_threshold threshold vw docs) sim"
  have "0 < k"
    using assms(2,3) limit_mult(2) [OF assms(2)] by (smt (verit) mult_nonneg_nonpos)
  have len: "mset ?valid = mset (filter (\<lambda>i. post_threshold threshold vw docs \<le> sim ! i) [0 ..< length sim])"
    by (rule valid_indices_props(2) [OF assms(6)])
  then have "length ?valid \<le> length sim"
    by (metis diff_zero length_filter_le length_upt mset_eq_length)
  with assms(3,7) have "int (length ?valid) \<le> page_size * k" by simp
  have page: "r_chunks (retrieval S question ((w - 1) * k + 1 + int j) page_size threshold vw docs aggs)
      = map (ranked_at hits sim tsim vsim) (slice (int j * page_size) (int j * page_size + page_size) ?valid)" if "j < nat k" for j
  proof -
    have j: "((w - 1) * k + 1 + int j - 1) mod k = int j" "((w - 1) * k + 1 + int j - 1) div k = w - 1"
      using that by (simp_all add: mod_pos_pos_trivial div_pos_pos_trivial)
    have "window_page page_size ((w - 1) * k + 1 + int j) = w"
      using window_page_div [OF assms(2,3) \<open>0 < k\<close>] j(2) by simp
    moreover have "page_begin page_size ((w - 1) * k + 1 + int j) = int j * page_size"
      using page_begin_mod [OF assms(2,3) \<open>0 < k\<close>] j(1) by simp
    moreover have "?valid = []" if "sim = []" using len that by simp
    ultimately show ?thesis using assms(1,4,5) by (intro retrieval_page(1) [THEN trans]) auto
  qed
  have "concat (map (\<lambda>j. r_chunks (retrieval S question ((w - 1) * k + 1 + int j) page_size threshold vw docs aggs)) [0 ..< nat k])
      = concat (map (\<lambda>j. map (ranked_at hits sim tsim vsim) (slice (int j * page_size) (int j * page_size + page_size) ?valid)) [0 ..< nat k])"
    using page by (intro arg_cong [of _ _ concat] map_cong) auto
  also have "\<dots> = map (ranked_at hits sim tsim vsim) (concat (map (\<lambda>j. slice (int j * page_size) (int j * page_size + page_size) ?valid) [0 ..< nat k]))"
    by (simp add: map_concat comp_def)
  also have "\<dots> = map (ranked_at hits sim tsim vsim) (take (nat k * nat page_size) ?valid)"
    using assms(2) by (simp add: slices)
  also have "take (nat k * nat page_size) ?valid = ?valid"
    using \<open>int (length ?valid) \<le> page_size * k\<close> \<open>0 < k\<close> assms(2)
    by (simp add: nat_mult_distrib [symmetric] mult.commute nat_le_iff take_all_iff le_nat_iff)
  finally show ?thesis .
qed

definition sample_searcher :: searcher where
  "sample_searcher = \<lparr>on_search = \<lambda>q page size. (1, [\<lparr>hit_id = ''c'', hit_doc_name = ''d'', hit_doc_id = ''1'', hit_kb_id = ''k'',
       hit_mom_id = None, hit_content = [97]\<rparr>]),
     on_scores = \<lambda>q hits. (map (\<lambda>_. 1 / 2) hits, map (\<lambda>_. 0) hits, map (\<lambda>_. 1) hits),
     on_argsort = \<lambda>xs. sort_key ((!) xs) [0 ..< length xs]\<rparr>"

lemma sample_sorts: "sorts (on_argsort sample_searcher)"
  by (simp add: sorts_def sample_searcher_def)

theorem pages_partition_witness:
  "concat (map (\<lambda>j. r_chunks (retrieval sample_searcher [97] (0 * 2 + 1 + int j) 32 (1 / 5) (3 / 10) [] True)) [0 ..< nat 2])
   = map (ranked_at (snd (on_search sample_searcher [97] 1 64)) [1 / 2] [0] [1])
       (valid_indices (on_argsort sample_searcher) (post_threshold (1 / 5) (3 / 10) []) [1 / 2])"
proof -
  have "rerank_limit 32 = 32 * 2" by (simp add: rerank_limit_def ceil_div_def)
  from pages_partition [OF _ _ this, of "[97]" sample_searcher 1 _ _ _ _ _ "1 / 5" "3 / 10" "[]" True, OF _ _ _ _ sample_sorts]
  show ?thesis by (simp add: sample_searcher_def rerank_limit_def ceil_div_def)
qed

text \<open>
  A page holds at most \<open>page_size\<close> hits, all of them at or above the threshold and in descending order of their
  similarity, and the total is the number of all hits of the window that reach the threshold.
\<close>

lemma page_is_ranked:
  assumes "question \<noteq> []" and "1 \<le> page_size" and "1 \<le> page" and "sorts (on_argsort S)"
    and "on_search S question (window_page page_size page) (rerank_limit page_size) = (found, hits)"
    and "on_scores S question hits = (sim, tsim, vsim)"
  shows "let r = retrieval S question page page_size threshold vw docs aggs; t = post_threshold threshold vw docs in
    int (length (r_chunks r)) \<le> page_size
    \<and> (\<forall>c\<in>set (r_chunks r). t \<le> rk_similarity c)
    \<and> sorted_wrt (\<lambda>a b. rk_similarity b \<le> rk_similarity a) (r_chunks r)
    \<and> r_total r = length (filter (\<lambda>s. t \<le> s) sim)"
proof -
  define t where "t = post_threshold threshold vw docs"
  define valid where "valid = valid_indices (on_argsort S) t sim"
  have m: "mset valid = mset (filter (\<lambda>i. t \<le> sim ! i) [0 ..< length sim])"
    unfolding valid_def by (rule valid_indices_props(2) [OF assms(4)])
  have "sim = [] \<Longrightarrow> valid = []" using m by simp
  note page = retrieval_page [OF assms(1,5,6) valid_def[unfolded t_def] this, of aggs]
  define b where "b = page_begin page_size page"
  have "0 \<le> b" using pages_tile [OF assms(2,3)] by (simp add: b_def)
  have len: "length (slice b (b + page_size) valid) \<le> nat page_size"
    using \<open>0 \<le> b\<close> assms(2) by (simp add: slice_def nat_add_distrib)
  have sub: "set (slice b (b + page_size) valid) \<subseteq> set valid"
    by (auto simp: slice_def dest: in_set_takeD in_set_dropD)
  have above: "t \<le> sim ! i" if "i \<in> set valid" for i using that by (simp add: valid_def valid_indices_def)
  have "sorted_wrt (\<lambda>i j. sim ! j \<le> sim ! i) (slice b (b + page_size) valid)"
    using valid_indices_props(1) [OF assms(4), of sim t] by (simp add: slice_def valid_def sorted_wrt_drop sorted_wrt_take)
  moreover have "length valid = length (filter (\<lambda>s. t \<le> s) sim)"
  proof -
    have "length valid = length (filter (\<lambda>i. t \<le> sim ! i) [0 ..< length sim])" using m by (metis size_mset)
    also have "\<dots> = length (filter (\<lambda>s. t \<le> s) (map ((!) sim) [0 ..< length sim]))" by (simp add: filter_map comp_def)
    finally show ?thesis by (simp add: map_nth)
  qed
  ultimately show ?thesis
    using len sub above assms(2)
    by (auto simp: Let_def page b_def [symmetric] t_def [symmetric] ranked_at_def sorted_wrt_map nat_le_iff)
qed

subsection \<open>The chunks of a document\<close>

text \<open>
  If the store serves its chunks from the place and up to the number that it is asked for, the batches of
  \<open>chunk_list\<close> give exactly the chunks from \<open>offset\<close> on up to \<open>max_count\<close>.
\<close>

lemma chunk_list_complete:
  assumes "\<And>p n. store p n = take (nat n) (drop (nat p) chunks)" and "0 \<le> offset"
  shows "chunk_list store max_count offset = take (nat (max_count - offset)) (drop (nat offset) chunks)"
  using assms(2)
proof (induction "nat (max_count - offset)" arbitrary: offset rule: less_induct)
  case less
  show ?case
  proof (cases "max_count \<le> offset")
    case True
    then show ?thesis by (simp add: chunk_list.simps)
  next
    case False
    define limit where "limit = min 128 (max_count - offset)"
    define batch where "batch = take (nat limit) (drop (nat offset) chunks)"
    have unfold: "chunk_list store max_count offset =
        batch @ (if batch = [] \<or> int (length batch) < limit then [] else chunk_list store max_count (offset + 128))"
      using False by (subst chunk_list.simps) (simp add: assms(1) limit_def batch_def Let_def)
    show ?thesis
    proof (cases "batch = [] \<or> int (length batch) < limit")
      case True
      then have "length (drop (nat offset) chunks) \<le> nat limit"
        using False by (auto simp: batch_def limit_def min_def split: if_splits)
      then have "batch = drop (nat offset) chunks" "length (drop (nat offset) chunks) \<le> nat (max_count - offset)"
        by (auto simp: batch_def limit_def)
      with unfold True show ?thesis by simp
    next
      case full: False
      have IH: "chunk_list store max_count (offset + 128) = take (nat (max_count - (offset + 128))) (drop (nat (offset + 128)) chunks)"
        using False less.prems by (intro less.hyps) auto
      show ?thesis
      proof (cases "max_count - offset \<le> 128")
        case True
        then have "chunk_list store max_count (offset + 128) = []" by (simp add: chunk_list.simps)
        with unfold full True show ?thesis by (simp add: batch_def limit_def)
      next
        case more: False
        then have "limit = 128" by (simp add: limit_def)
        have "nat (max_count - offset) = 128 + nat (max_count - (offset + 128))" "nat (offset + 128) = 128 + nat offset"
          using more less.prems by simp_all
        then have "take (nat (max_count - offset)) (drop (nat offset) chunks)
            = take 128 (drop (nat offset) chunks) @ take (nat (max_count - (offset + 128))) (drop (nat (offset + 128)) chunks)"
          by (simp add: take_add drop_drop)
        with unfold full IH \<open>limit = 128\<close> show ?thesis by (simp add: batch_def)
      qed
    qed
  qed
qed

subsection \<open>Similarity of tokens\<close>

lemma fold_weights:
  "fold (\<lambda>(k, v) q. q + v) ws a = a + sum_list (map snd ws)"
  "fold (\<lambda>(k, v) s. if P k then s + v else s) ws a = a + sum_list (map snd (filter (\<lambda>(k, v). P k) ws))" for a :: rat
  by (induction ws arbitrary: a) (auto simp: algebra_simps)

lemma sum_filter_le:
  "(\<And>k v. (k, v) \<in> set ws \<Longrightarrow> 0 \<le> v) \<Longrightarrow> 0 \<le> sum_list (map snd (filter (\<lambda>(k, v). P k) ws))
    \<and> sum_list (map snd (filter (\<lambda>(k, v). P k) ws)) \<le> sum_list (map snd ws)" for ws :: "('k \<times> rat) list"
proof (induction ws)
  case (Cons w ws)
  obtain k v where w: "w = (k, v)" by (cases w)
  have "0 \<le> v" by (rule Cons.prems [of k v]) (simp add: w)
  moreover have "0 \<le> sum_list (map snd (filter (\<lambda>(k, v). P k) ws))
    \<and> sum_list (map snd (filter (\<lambda>(k, v). P k) ws)) \<le> sum_list (map snd ws)"
    using Cons.prems by (intro Cons.IH) (meson list.set_intros(2))
  ultimately show ?case by (auto simp: w)
qed simp

lemma token_similarity_range:
  assumes "\<And>k v. (k, v) \<in> set qtwt \<Longrightarrow> 0 \<le> v"
  shows "0 < token_similarity qtwt dtwt \<and> token_similarity qtwt dtwt \<le> 1"
    and "fst ` set qtwt \<subseteq> set dtwt \<Longrightarrow> token_similarity qtwt dtwt = 1"
proof -
  define s where "s = sum_list (map snd (filter (\<lambda>(k, v). k \<in> set dtwt) qtwt))"
  define q where "q = sum_list (map snd qtwt)"
  have sq: "0 \<le> s" "s \<le> q" using sum_filter_le [of qtwt "\<lambda>k. k \<in> set dtwt"] assms by (auto simp: s_def q_def)
  have eq: "token_similarity qtwt dtwt = (1 / 10 ^ 9 + s) / (1 / 10 ^ 9 + q)"
    by (simp add: token_similarity_def fold_weights s_def q_def Let_def)
  show "0 < token_similarity qtwt dtwt \<and> token_similarity qtwt dtwt \<le> 1"
    unfolding eq using sq by (simp add: add_pos_nonneg divide_le_eq_1)
  assume "fst ` set qtwt \<subseteq> set dtwt"
  then have "filter (\<lambda>(k, v). k \<in> set dtwt) qtwt = qtwt" by (intro filter_True) auto
  then have "s = q" by (simp add: s_def q_def)
  with eq sq show "token_similarity qtwt dtwt = 1" by simp
qed

subsection \<open>Documents and mother chunks\<close>

text \<open>The number of hits counted for a document.\<close>

definition counted :: "string \<Rightarrow> doc_agg list \<Rightarrow> nat" where
  "counted n as = sum_list (map agg_count (filter (\<lambda>a. agg_name a = n) as))"

lemma count_doc_props:
  "counted n (count_hit h as) = counted n as + (if hit_doc_name h = n then 1 else 0)"
  "agg_name ` set (count_hit h as) = insert (hit_doc_name h) (agg_name ` set as)"
  "distinct (map agg_name as) \<Longrightarrow> distinct (map agg_name (count_hit h as))"
proof -
  show names: "agg_name ` set (count_hit h as) = insert (hit_doc_name h) (agg_name ` set as)" for as
    by (induction as) auto
  show "counted n (count_hit h as) = counted n as + (if hit_doc_name h = n then 1 else 0)"
    by (induction as) (auto simp: counted_def)
  show "distinct (map agg_name as) \<Longrightarrow> distinct (map agg_name (count_hit h as))"
    using names by (induction as) (auto simp: image_iff)
qed

lemma count_docs_props:
  "distinct (map agg_name as) \<Longrightarrow> distinct (map agg_name (fold count_hit hits as))
    \<and> counted n (fold count_hit hits as) = counted n as + count_list (map hit_doc_name hits) n
    \<and> agg_name ` set (fold count_hit hits as) = hit_doc_name ` set hits \<union> agg_name ` set as"
  by (induction hits arbitrary: as) (auto simp: count_doc_props)

lemma counted_distinct: "distinct (map agg_name as) \<Longrightarrow> a \<in> set as \<Longrightarrow> counted (agg_name a) as = agg_count a"
proof (induction as)
  case (Cons b as)
  show ?case
  proof (cases "a = b")
    case True
    with Cons.prems have "agg_name a \<notin> agg_name ` set as" by simp
    then have "filter (\<lambda>c. agg_name c = agg_name a) as = []" by (metis (mono_tags, lifting) filter_False imageI)
    with True show ?thesis by (simp add: counted_def)
  next
    case False
    with Cons.prems have "agg_name b \<noteq> agg_name a" "a \<in> set as" by (auto simp: image_iff)
    with Cons show ?thesis by (simp add: counted_def)
  qed
qed simp

text \<open>The documents of a result: each once, with the number of its hits, in descending order of these.\<close>

lemma doc_aggs_count:
  "a \<in> set (doc_aggs hits) \<Longrightarrow> agg_count a = count_list (map hit_doc_name hits) (agg_name a)"
  "distinct (map agg_name (doc_aggs hits))"
  "agg_name ` set (doc_aggs hits) = hit_doc_name ` set hits"
  "sorted_wrt (\<lambda>a b. agg_count b \<le> agg_count a) (doc_aggs hits)"
proof -
  have d: "distinct (map agg_name (fold count_hit hits []))" using count_docs_props [of "[]" hits] by simp
  show "a \<in> set (doc_aggs hits) \<Longrightarrow> agg_count a = count_list (map hit_doc_name hits) (agg_name a)"
    using counted_distinct [OF d, of a] count_docs_props [of "[]" hits "agg_name a"]
    by (simp add: doc_aggs_def counted_def)
  show "distinct (map agg_name (doc_aggs hits))"
    using d by (simp add: doc_aggs_def distinct_map)
  show "agg_name ` set (doc_aggs hits) = hit_doc_name ` set hits"
    using count_docs_props [of "[]" hits] by (simp add: doc_aggs_def)
  have "sorted (map (\<lambda>a. - int (agg_count a)) (doc_aggs hits))" by (simp add: doc_aggs_def)
  then show "sorted_wrt (\<lambda>a b. agg_count b \<le> agg_count a) (doc_aggs hits)"
    by (simp add: sorted_map)
qed

lemma fetch_all_Some: "fetch_all f xs = Some ys \<longleftrightarrow> list_all2 (\<lambda>x y. f x = Some y) xs ys"
  by (induction xs arbitrary: ys) (auto simp: list_all2_Cons1 split: option.splits)

text \<open>
  In the place of the chunks that have a mother the result has each mother once, with the mean of
  their similarities; the other chunks stay, and all are in descending order of similarity.
\<close>

lemma children_give_way_to_mothers:
  assumes "retrieval_by_children get chunks = Some out" and "\<exists>r\<in>set chunks. has_mother r"
  shows "\<exists>ms. mset out = mset (filter (\<lambda>r. \<not> has_mother r) chunks) + mset ms
    \<and> map (\<lambda>r. hit_id (rk_hit r)) ms = dedup (map mother_of (filter has_mother chunks))
    \<and> (\<forall>m\<in>set ms. rk_similarity m = mean (map rk_similarity (filter (\<lambda>r. has_mother r \<and> mother_of r = hit_id (rk_hit m)) chunks)))
    \<and> sorted_wrt (\<lambda>a b. rk_similarity b \<le> rk_similarity a) out"
proof -
  let ?moms = "dedup (map mother_of (filter has_mother chunks))"
  have "set ?moms \<noteq> {}" using assms(2) by auto
  then have "?moms \<noteq> []" by (metis set_empty)
  with assms(1) obtain ms where ms: "fetch_all (mother_chunk get chunks) ?moms = Some ms"
    and out: "out = sort_key (\<lambda>r. - rk_similarity r) (filter (\<lambda>r. \<not> has_mother r) chunks @ ms)"
    by (auto simp: retrieval_by_children_def Let_def)
  from ms have all2: "list_all2 (\<lambda>x y. mother_chunk get chunks x = Some y) ?moms ms" by (simp add: fetch_all_Some)
  have mother: "hit_id (rk_hit y) = x
      \<and> rk_similarity y = mean (map rk_similarity (filter (\<lambda>r. has_mother r \<and> mother_of r = x) chunks))"
    if "mother_chunk get chunks x = Some y" for x y
    using that by (auto simp: mother_chunk_def Let_def split: option.splits)
  have "map (\<lambda>r. hit_id (rk_hit r)) ms = ?moms"
    using all2 by (induction rule: list_all2_induct) (auto dest: mother)
  moreover have "\<forall>m\<in>set ms. rk_similarity m = mean (map rk_similarity (filter (\<lambda>r. has_mother r \<and> mother_of r = hit_id (rk_hit m)) chunks))"
  proof
    fix m assume "m \<in> set ms"
    with all2 obtain x where "mother_chunk get chunks x = Some m" by (auto simp: list_all2_conv_all_nth in_set_conv_nth)
    from mother [OF this] show "rk_similarity m = mean (map rk_similarity (filter (\<lambda>r. has_mother r \<and> mother_of r = hit_id (rk_hit m)) chunks))"
      by simp
  qed
  moreover have "sorted_wrt (\<lambda>a b. rk_similarity b \<le> rk_similarity a) out"
  proof -
    have "sorted (map (\<lambda>r. - rk_similarity r) out)" by (simp add: out)
    then show ?thesis by (simp add: sorted_map)
  qed
  moreover have "mset out = mset (filter (\<lambda>r. \<not> has_mother r) chunks) + mset ms" by (simp add: out)
  ultimately show ?thesis by blast
qed

end
