(* ===== verification/RagMeta.thy ===== *)
theory RagMeta
  imports AgentValues
begin

text \<open>
  Metadata of documents (\<open>common/metadata_utils.py\<close>): conditions on metadata, the documents that meet them,
  merging of metadata, and the JSON schema of a list of metadata fields.  Values and text are those of
  \<open>AgentValues\<close>; a text is its UTF-8 bytes.  \<open>ast.literal_eval\<close> is a parameter (\<^term>\<open>None\<close>: it raises).
\<close>

subsection \<open>Conditions\<close>

definition op_ne :: string where "op_ne = [CHR 0xE2, CHR 0x89, CHR 0xA0]"
definition op_ge :: string where "op_ge = [CHR 0xE2, CHR 0x89, CHR 0xA5]"
definition op_le :: string where "op_le = [CHR 0xE2, CHR 0x89, CHR 0xA4]"

record condition =
  c_op :: string
  c_key :: string
  c_value :: val

definition convert_operator :: "string \<Rightarrow> string" where
  "convert_operator op =
     (if op = ''is'' then ''='' else if op = ''not is'' then op_ne else if op = ''>='' then op_ge
      else if op = ''<='' then op_le else if op = ''!='' then op_ne else op)"

text \<open>Each condition given as (name, operator, value).\<close>

definition convert_conditions :: "(string \<times> string \<times> val) list \<Rightarrow> condition list" where
  "convert_conditions conds = map (\<lambda>(name, op, v). \<lparr>c_op = convert_operator op, c_key = name, c_value = v\<rparr>) conds"

text \<open>\<open>YYYY-MM-DD\<close>.\<close>

definition digit_char :: "char \<Rightarrow> bool" where
  "digit_char c = (let n = (of_char c :: nat) in 48 \<le> n \<and> n \<le> 57)"

definition is_date :: "string \<Rightarrow> bool" where
  "is_date s \<longleftrightarrow> length s = 10 \<and> s ! 4 = CHR ''-'' \<and> s ! 7 = CHR ''-''
     \<and> list_all digit_char (take 4 s) \<and> list_all digit_char (take 2 (drop 5 s)) \<and> list_all digit_char (take 2 (drop 8 s))"

definition lower_value :: "pyenv \<Rightarrow> val \<Rightarrow> val" where
  "lower_value P v = (case v of VStr s \<Rightarrow> VStr (py_lower P s) | _ \<Rightarrow> v)"

text \<open>
  Both sides before a comparison.  Neither side changes beyond what was evaluated before an exception, and
  what becomes of \<open>value\<close> stays for the inputs that follow.  \<^term>\<open>None\<close>: the input is skipped.
\<close>

definition literal :: "(string \<Rightarrow> val option) \<Rightarrow> val \<Rightarrow> val option" where
  "literal lit v = (case v of VStr s \<Rightarrow> lit s | _ \<Rightarrow> None)"

definition evaluate_sides :: "(string \<Rightarrow> val option) \<Rightarrow> val \<Rightarrow> val \<Rightarrow> val \<times> val" where
  "evaluate_sides lit input v =
     (case (case input of VList [] \<Rightarrow> None | VList (x # xs) \<Rightarrow> Some x | _ \<Rightarrow> Some input) of
        None \<Rightarrow> (input, v)
      | Some x \<Rightarrow>
          (case literal lit x of
             None \<Rightarrow> (x, v)
           | Some x' \<Rightarrow> (case literal lit v of None \<Rightarrow> (x', v) | Some v' \<Rightarrow> (x', v'))))"

definition comparison :: "string \<Rightarrow> bool" where
  "comparison op \<longleftrightarrow> op \<in> {''='', op_ne, ''>'', ''<'', op_ge, op_le}"

definition prepare :: "pyenv \<Rightarrow> (string \<Rightarrow> val option) \<Rightarrow> string \<Rightarrow> val \<Rightarrow> val \<Rightarrow> (val \<times> val) option" where
  "prepare P lit op input v =
     (if comparison op then
        let input_str = str_strip (py_str P input); value_str = str_strip (py_str P v) in
        if is_date value_str then (if is_date input_str then Some (VStr input_str, VStr value_str) else None)
        else let (x, w) = evaluate_sides lit input v in Some (lower_value P x, lower_value P w)
      else Some (lower_value P input, lower_value P v))"

text \<open>The tests; \<^term>\<open>None\<close> is an exception, which counts as no match.\<close>

definition find_in :: "pyenv \<Rightarrow> val \<Rightarrow> val \<Rightarrow> bool option" where   \<comment> \<open>\<open>str(i).find(value) >= 0\<close>\<close>
  "find_in P i v = (case v of VStr s \<Rightarrow> Some (str_in s (py_str P i)) | _ \<Rightarrow> None)"

definition member_of :: "val \<Rightarrow> val \<Rightarrow> bool option" where   \<comment> \<open>\<open>i in value\<close>\<close>
  "member_of i v =
     (case v of
        VStr s \<Rightarrow> (case i of VStr t \<Rightarrow> Some (str_in t s) | _ \<Rightarrow> None)
      | VList xs \<Rightarrow> Some (list_ex (veq i) xs)
      | VDict d \<Rightarrow> (case i of VStr k \<Rightarrow> Some (map_of d k \<noteq> None) | VList _ \<Rightarrow> None | VDict _ \<Rightarrow> None | _ \<Rightarrow> Some False)
      | _ \<Rightarrow> None)"

definition less_val :: "val \<Rightarrow> val \<Rightarrow> bool option" where
  "less_val v w = key_less (encode False v) (encode False w)"

text \<open>\<open>any\<close> and \<open>all\<close> over tests that may raise: up to the first that decides.\<close>

fun any_test :: "('a \<Rightarrow> bool option) \<Rightarrow> 'a list \<Rightarrow> bool option" where
  "any_test f [] = Some False"
| "any_test f (x # xs) = (case f x of None \<Rightarrow> None | Some True \<Rightarrow> Some True | Some False \<Rightarrow> any_test f xs)"

definition all_test :: "('a \<Rightarrow> bool option) \<Rightarrow> 'a list \<Rightarrow> bool option" where
  "all_test f xs = map_option Not (any_test (\<lambda>x. map_option Not (f x)) xs)"

definition elements_of :: "val \<Rightarrow> val list option" where
  "elements_of v = (case v of VList xs \<Rightarrow> Some xs | _ \<Rightarrow> None)"

definition lower_text :: "pyenv \<Rightarrow> val \<Rightarrow> string" where   \<comment> \<open>\<open>str(i).lower()\<close>, of the items of a list put together\<close>
  "lower_text P v = (case v of VList xs \<Rightarrow> concat (map (\<lambda>x. py_lower P (py_str P x)) xs) | _ \<Rightarrow> py_lower P (py_str P v))"

definition test :: "pyenv \<Rightarrow> string \<Rightarrow> val \<Rightarrow> val \<Rightarrow> bool option" where
  "test P op input v =
     (if op = ''contains'' then
        (case elements_of input of None \<Rightarrow> find_in P input v | Some xs \<Rightarrow> any_test (\<lambda>i. find_in P i v) xs)
      else if op = ''not contains'' then
        (case elements_of input of None \<Rightarrow> map_option Not (find_in P input v)
         | Some xs \<Rightarrow> all_test (\<lambda>i. map_option Not (find_in P i v)) xs)
      else if op = ''in'' then
        (case elements_of input of None \<Rightarrow> member_of input v | Some xs \<Rightarrow> all_test (\<lambda>i. member_of i v) xs)
      else if op = ''not in'' then
        (case elements_of input of None \<Rightarrow> map_option Not (member_of input v)
         | Some xs \<Rightarrow> all_test (\<lambda>i. map_option Not (member_of i v)) xs)
      else if op = ''start with'' then Some (starts_with (py_lower P (py_str P v)) (lower_text P input))
      else if op = ''end with'' then Some (starts_with (rev (py_lower P (py_str P v))) (rev (lower_text P input)))
      else if op = ''empty'' then Some (\<not> truthy input)
      else if op = ''not empty'' then Some (truthy input)
      else if op = ''='' then Some (veq input v)
      else if op = op_ne then Some (\<not> veq input v)
      else if op = ''>'' then less_val v input
      else if op = ''<'' then less_val input v
      else if op = op_ge then map_option (\<lambda>b. b \<or> veq input v) (less_val v input)
      else if op = op_le then map_option (\<lambda>b. b \<or> veq input v) (less_val input v)
      else Some False)"

text \<open>The documents whose value of the key meets a condition; \<open>v\<close> is carried from input to input.\<close>

fun filter_out :: "pyenv \<Rightarrow> (string \<Rightarrow> val option) \<Rightarrow> (val \<times> string list) list \<Rightarrow> string \<Rightarrow> val \<Rightarrow> string list" where
  "filter_out P lit [] op v = []"
| "filter_out P lit ((input, docids) # v2docs) op v =
     (case prepare P lit op input v of
        None \<Rightarrow> filter_out P lit v2docs op v
      | Some (x, w) \<Rightarrow> (if test P op x w = Some True then docids else []) @ filter_out P lit v2docs op w)"

text \<open>For each key the values that occur, with the documents that have them.\<close>

type_synonym metas = "(string \<times> (val \<times> string list) list) list"

definition filter_ids :: "pyenv \<Rightarrow> (string \<Rightarrow> val option) \<Rightarrow> metas \<Rightarrow> condition \<Rightarrow> string list" where
  "filter_ids P lit metas f =
     (case map_of metas (c_key f) of None \<Rightarrow> [] | Some v2docs \<Rightarrow> filter_out P lit v2docs (c_op f) (c_value f))"

text \<open>\<open>meta_filter\<close>; the order of the resulting documents is left open, as that of a Python set.\<close>

fun combine_filters :: "string \<Rightarrow> string list list \<Rightarrow> string set \<Rightarrow> string set" where
  "combine_filters logic [] doc_ids = doc_ids"
| "combine_filters logic (ids # rest) doc_ids =
     (if doc_ids = {} then combine_filters logic rest (set ids)
      else if logic = ''and'' then
        (if doc_ids \<inter> set ids = {} then {} else combine_filters logic rest (doc_ids \<inter> set ids))
      else combine_filters logic rest (doc_ids \<union> set ids))"

definition meta_filter :: "pyenv \<Rightarrow> (string \<Rightarrow> val option) \<Rightarrow> metas \<Rightarrow> condition list \<Rightarrow> string \<Rightarrow> string set" where
  "meta_filter P lit metas filters logic = combine_filters logic (map (filter_ids P lit metas) filters) {}"

subsection \<open>Applying a filter\<close>

text \<open>
  \<open>apply_meta_data_filter\<close>: the conditions come from the language model (\<open>gen\<close>: metadata and constraints to conditions
  and logic), for selected keys only, or from the configuration.  \<^term>\<open>None\<close> is Python's \<open>None\<close>.
\<close>

datatype meta_method =
    NoFilter
  | Auto
  | SemiAuto "(string \<times> string option) list"
  | Manual "condition list" string
  | OtherMethod

definition apply_meta_data_filter ::
  "pyenv \<Rightarrow> (string \<Rightarrow> val option) \<Rightarrow> (metas \<Rightarrow> (string \<times> string) list \<Rightarrow> condition list \<times> string)
    \<Rightarrow> meta_method \<Rightarrow> metas \<Rightarrow> string list \<Rightarrow> (condition \<Rightarrow> condition) \<Rightarrow> string set option" where
  "apply_meta_data_filter P lit gen m metas base resolve =
     (case m of
        NoFilter \<Rightarrow> Some (set base)
      | OtherMethod \<Rightarrow> Some (set base)
      | Auto \<Rightarrow>
          let (conds, logic) = gen metas []; ids = set base \<union> meta_filter P lit metas conds logic
          in if ids = {} then None else Some ids
      | SemiAuto keys \<Rightarrow>
          let selected = concat (map (\<lambda>k. case map_of metas k of None \<Rightarrow> [] | Some d \<Rightarrow> [(k, d)]) (dedup (map fst keys)))
          in if selected = [] then Some (set base)
             else
               let constraints = fold (\<lambda>(k, op) d. case op of None \<Rightarrow> d | Some c \<Rightarrow> if c = [] then d else dict_put k c d) keys [];
                   (conds, logic) = gen selected constraints;
                   ids = set base \<union> meta_filter P lit metas conds logic
               in if ids = {} then None else Some ids
      | Manual filters logic \<Rightarrow>
          let filters = map resolve filters; ids = set base \<union> meta_filter P lit metas filters logic
          in Some (if filters \<noteq> [] \<and> ids = {} then {''-999''} else ids))"

subsection \<open>Merging metadata\<close>

fun dedupe_from :: "pyenv \<Rightarrow> string list \<Rightarrow> val list \<Rightarrow> val list" where
  "dedupe_from P seen [] = []"
| "dedupe_from P seen (x # xs) =
     (if py_str P x \<in> set seen then dedupe_from P seen xs else x # dedupe_from P (py_str P x # seen) xs)"

definition dedupe_list :: "pyenv \<Rightarrow> val list \<Rightarrow> val list" where
  "dedupe_list P xs = dedupe_from P [] xs"

definition is_str :: "val \<Rightarrow> bool" where
  "is_str v = (case v of VStr _ \<Rightarrow> True | _ \<Rightarrow> False)"

text \<open>What of a new value is taken: a text, or the texts of a list.\<close>

definition taken_value :: "pyenv \<Rightarrow> val \<Rightarrow> val option" where
  "taken_value P v =
     (case v of
        VStr s \<Rightarrow> Some v
      | VList xs \<Rightarrow> (let ys = filter is_str xs in if ys = [] then None else Some (VList (dedupe_list P ys)))
      | _ \<Rightarrow> None)"

definition merged_value :: "pyenv \<Rightarrow> val option \<Rightarrow> val \<Rightarrow> val" where
  "merged_value P old v =
     (case old of
        Some (VList xs) \<Rightarrow> VList (dedupe_list P (xs @ (case v of VList ys \<Rightarrow> ys | _ \<Rightarrow> [v])))
      | _ \<Rightarrow> v)"

definition update_entry :: "pyenv \<Rightarrow> string \<times> val \<Rightarrow> (string \<times> val) list \<Rightarrow> (string \<times> val) list" where
  "update_entry P e metadata =
     (let (k, v) = e in
      case taken_value P v of
        None \<Rightarrow> metadata
      | Some v' \<Rightarrow> dict_put k (merged_value P (map_of metadata k) v') metadata)"

text \<open>\<open>json_repair.loads\<close> reads a text; what is no dictionary changes nothing.\<close>

definition update_metadata_to :: "pyenv \<Rightarrow> (string \<Rightarrow> val option) \<Rightarrow> (string \<times> val) list \<Rightarrow> val \<Rightarrow> (string \<times> val) list" where
  "update_metadata_to P repair metadata meta =
     (if \<not> truthy meta then metadata
      else case (case meta of VStr s \<Rightarrow> repair s | _ \<Rightarrow> Some meta) of
        Some (VDict d) \<Rightarrow> fold (update_entry P) d metadata
      | _ \<Rightarrow> metadata)"

subsection \<open>Schemas\<close>

definition field_schema :: "(string \<times> val) list \<Rightarrow> (string \<times> val) list" where
  "field_schema item =
     (let desc = (case map_of item ''description'' of None \<Rightarrow> VStr [] | Some d \<Rightarrow> d) in
      [(''description'', desc)]
      @ (case map_of item ''enum'' of
           Some e \<Rightarrow> if truthy e then [(''enum'', e), (''type'', VStr ''string'')] else []
         | None \<Rightarrow> []))"

definition add_field :: "(string \<times> val) list \<Rightarrow> (string \<times> val) list \<Rightarrow> (string \<times> val) list" where
  "add_field item properties =
     (case map_of item ''key'' of Some (VStr k) \<Rightarrow> if k = [] then properties else dict_put k (VDict (field_schema item)) properties
      | _ \<Rightarrow> properties)"

definition metadata_schema :: "(string \<times> val) list list \<Rightarrow> (string \<times> val) list" where
  "metadata_schema metadata =
     (if metadata = [] then []
      else [(''type'', VStr ''object''), (''properties'', VDict (fold add_field metadata [])), (''additionalProperties'', VBool False)])"

definition is_json_schema :: "(string \<times> val) list \<Rightarrow> bool" where
  "is_json_schema d \<longleftrightarrow> map_of d ''$schema'' \<noteq> None
     \<or> (map_of d ''type'' = Some (VStr ''object'') \<and> (case map_of d ''properties'' of Some (VDict p) \<Rightarrow> True | _ \<Rightarrow> False))"

definition str_field :: "(string \<times> val) list \<Rightarrow> string \<Rightarrow> bool" where
  "str_field d k = (case map_of d k of None \<Rightarrow> True | Some v \<Rightarrow> is_str v)"

definition is_metadata_item :: "val \<Rightarrow> bool" where
  "is_metadata_item v =
     (case v of
        VDict d \<Rightarrow>
          (case map_of d ''key'' of Some (VStr k) \<Rightarrow> k \<noteq> [] | _ \<Rightarrow> False)
          \<and> (case map_of d ''enum'' of None \<Rightarrow> True | Some (VList _) \<Rightarrow> True | _ \<Rightarrow> False)
          \<and> str_field d ''description'' \<and> str_field d ''descriptions''
      | _ \<Rightarrow> False)"

definition normalize_item :: "val \<Rightarrow> (string \<times> val) list" where
  "normalize_item v =
     (case v of
        VDict d \<Rightarrow>
          [(''key'', dict_value d ''key''),
           (''description'', case map_of d ''description'' of Some t \<Rightarrow> t
              | None \<Rightarrow> (case map_of d ''descriptions'' of Some t \<Rightarrow> t | None \<Rightarrow> VStr []))]
          @ (case map_of d ''enum'' of None \<Rightarrow> [] | Some e \<Rightarrow> [(''enum'', e)])
      | _ \<Rightarrow> [])"

definition turn2jsonschema :: "val \<Rightarrow> val" where
  "turn2jsonschema obj =
     (case obj of
        VDict d \<Rightarrow> if is_json_schema d then obj else VDict []
      | VList xs \<Rightarrow> if xs \<noteq> [] \<and> list_all is_metadata_item xs then VDict (metadata_schema (map normalize_item xs)) else VDict []
      | _ \<Rightarrow> VDict [])"

subsection \<open>Properties\<close>

lemma combine_and:
  "doc_ids \<noteq> {} \<Longrightarrow> combine_filters ''and'' idss doc_ids = doc_ids \<inter> \<Inter> (set (map set idss))"
  by (induction idss arbitrary: doc_ids) auto

lemma combine_or:
  "logic \<noteq> ''and'' \<Longrightarrow> combine_filters logic idss doc_ids = doc_ids \<union> \<Union> (set (map set idss))"
  by (induction idss arbitrary: doc_ids) auto

text \<open>
  C34: conditions joined by \<open>or\<close> give the documents that meet one of them; conditions joined by \<open>and\<close>
  give those that meet all from the first condition on that some document meets: the conditions before it, which
  nothing meets, are ignored.
\<close>

theorem filters_combined:
  "meta_filter P lit metas filters logic =
     (let sets = map (\<lambda>f. set (filter_ids P lit metas f)) filters; rest = dropWhile (\<lambda>S. S = {}) sets in
      if logic \<noteq> ''and'' then \<Union> (set sets) else if rest = [] then {} else \<Inter> (set rest))"
proof (cases "logic = ''and''")
  case False
  then show ?thesis by (simp add: meta_filter_def combine_or Let_def comp_def)
next
  case True
  have "combine_filters ''and'' idss {} = (let rest = dropWhile (\<lambda>S. S = {}) (map set idss) in if rest = [] then {} else \<Inter> (set rest))"
    for idss :: "string list list"
  proof (induction idss)
    case (Cons ids idss)
    show ?case
    proof (cases "set ids = {}")
      case False
      then show ?thesis using combine_and [of "set ids" idss] by (simp add: Let_def)
    qed (use Cons in \<open>simp add: Let_def\<close>)
  qed simp
  from this [of "map (filter_ids P lit metas) filters"] show ?thesis
    by (simp add: True meta_filter_def Let_def comp_def)
qed

text \<open>So \<open>and\<close> depends on the order: a condition that nothing meets is fatal in the second place only.\<close>

lemma and_depends_on_order:
  fixes P lit
  defines "metas \<equiv> [(''lang'', [(VStr ''en'', [''d1''])])]"
  defines "met \<equiv> \<lparr>c_op = ''not empty'', c_key = ''lang'', c_value = VStr []\<rparr>"
  defines "unmet \<equiv> \<lparr>c_op = ''not empty'', c_key = ''year'', c_value = VStr []\<rparr>"
  shows "meta_filter P lit metas [unmet, met] ''and'' = (if py_lower P ''en'' = [] then {} else {''d1''})"
    and "meta_filter P lit metas [met, unmet] ''and'' = {}"
  by (simp_all add: filters_combined filter_ids_def metas_def met_def unmet_def prepare_def comparison_def lower_value_def
      test_def op_ne_def op_ge_def op_le_def)

lemma dict_put_known: "map_of d k = Some v \<Longrightarrow> dict_put k v d = d"
  by (induction d) auto

lemma dedupe_from_strs:
  "py_str P ` set (dedupe_from P seen xs) = py_str P ` set xs - set seen"
  by (induction P seen xs rule: dedupe_from.induct) auto

lemma dedupe_from_append:
  "dedupe_from P seen (xs @ ys) = dedupe_from P seen xs @ dedupe_from P (rev (map (py_str P) (dedupe_from P seen xs)) @ seen) ys"
  by (induction P seen xs rule: dedupe_from.induct) auto

lemma dedupe_from_none: "py_str P ` set xs \<subseteq> set seen \<Longrightarrow> dedupe_from P seen xs = []"
  by (induction P seen xs rule: dedupe_from.induct) auto

lemma dedupe_from_again:
  "set seen' \<subseteq> set seen \<Longrightarrow> dedupe_from P seen' (dedupe_from P seen xs) = dedupe_from P seen xs"
proof (induction P seen xs arbitrary: seen' rule: dedupe_from.induct)
  case (2 P seen x xs)
  then show ?case by (auto simp: subset_iff)
qed simp

lemma dedupe_absorb:
  assumes "py_str P ` set ys \<subseteq> py_str P ` set xs"
  shows "dedupe_list P (dedupe_list P xs @ ys) = dedupe_list P xs"
  unfolding dedupe_list_def
  using assms by (simp add: dedupe_from_append dedupe_from_again dedupe_from_none dedupe_from_strs)

lemma merged_value_again:
  assumes "taken_value P v = Some v'"
  shows "merged_value P (Some (merged_value P old v')) v' = merged_value P old v'"
proof -
  define ys where "ys = (case v' of VList ys \<Rightarrow> ys | _ \<Rightarrow> [v'])"
  consider (list) xs where "old = Some (VList xs)" | (new) "merged_value P old v' = v'"
  proof (cases "\<exists>xs. old = Some (VList xs)")
    case False
    then have "merged_value P old v' = v'" by (cases old; cases "the old") (auto simp: merged_value_def)
    then show thesis by (rule that(2))
  qed (use that(1) in blast)
  then show ?thesis
  proof cases
    case list
    then have "merged_value P old v' = VList (dedupe_list P (xs @ ys))" by (simp add: merged_value_def ys_def)
    moreover have "dedupe_list P (dedupe_list P (xs @ ys) @ ys) = dedupe_list P (xs @ ys)"
      by (rule dedupe_absorb) auto
    ultimately show ?thesis by (simp add: merged_value_def ys_def)
  next
    case new
    show ?thesis
    proof (cases v')
      case (VList zs)
      with assms obtain us where "zs = dedupe_list P us"
        by (auto simp: taken_value_def Let_def split: val.splits if_splits)
      then have "dedupe_list P (zs @ zs) = zs"
        using dedupe_absorb [of P zs us] by (auto simp: dedupe_list_def dedupe_from_strs)
      with new VList show ?thesis by (simp add: merged_value_def)
    qed (use new in \<open>simp_all add: merged_value_def\<close>)
  qed
qed

lemma update_other: "k \<notin> fst ` set d \<Longrightarrow> map_of (fold (update_entry P) d m) k = map_of m k"
  by (induction d arbitrary: m) (auto simp: update_entry_def Let_def split: option.splits)

lemma update_value:
  assumes "distinct (map fst d)" and "(k, v) \<in> set d" and "taken_value P v = Some v'"
  shows "map_of (fold (update_entry P) d m) k = Some (merged_value P (map_of m k) v')"
  using assms
proof (induction d arbitrary: m)
  case (Cons e d)
  obtain k0 v0 where e: "e = (k0, v0)" by (cases e)
  show ?case
  proof (cases "k = k0")
    case True
    with Cons.prems e have "v0 = v" "k \<notin> fst ` set d" by force+
    then have "map_of (fold (update_entry P) d (update_entry P e m)) k = map_of (update_entry P e m) k"
      by (intro update_other) simp
    moreover have "map_of (update_entry P e m) k = Some (merged_value P (map_of m k) v')"
      using True e Cons.prems(3) \<open>v0 = v\<close> by (simp add: update_entry_def)
    ultimately show ?thesis by simp
  next
    case False
    with Cons.prems e have "map_of (fold (update_entry P) d (update_entry P e m)) k = Some (merged_value P (map_of (update_entry P e m) k) v')"
      by (intro Cons.IH) auto
    moreover have "map_of (update_entry P e m) k = map_of m k"
      using False e by (auto simp: update_entry_def split: option.splits)
    ultimately show ?thesis by simp
  qed
qed simp

text \<open>
  Merging the same metadata into a document's metadata twice is merging it once.
\<close>

lemma update_metadata_idempotent:
  assumes "distinct (map fst d)"
  shows "update_metadata_to P repair (update_metadata_to P repair metadata (VDict d)) (VDict d)
       = update_metadata_to P repair metadata (VDict d)"
proof -
  define m where "m = fold (update_entry P) d metadata"
  have "update_entry P (k, v) m = m" if "(k, v) \<in> set d" for k v
  proof (cases "taken_value P v")
    case (Some v')
    from update_value [OF assms that Some, of metadata] have w: "map_of m k = Some (merged_value P (map_of metadata k) v')"
      by (simp add: m_def)
    with merged_value_again [OF Some, of "map_of metadata k"] Some show ?thesis
      by (simp add: update_entry_def dict_put_known)
  qed (simp add: update_entry_def)
  then have "fold (update_entry P) es m = m" if "set es \<subseteq> set d" for es
    using that by (induction es) auto
  then show ?thesis by (simp add: update_metadata_to_def m_def)
qed

text \<open>
  A schema made from a list of fields is a schema: making one of it changes nothing.
\<close>

lemma turn2jsonschema_idempotent: "turn2jsonschema (turn2jsonschema obj) = turn2jsonschema obj"
  by (cases obj) (auto simp: turn2jsonschema_def metadata_schema_def is_json_schema_def)

end
