(* ===== verification/IngestTasks.thy ===== *)
theory IngestTasks
  imports Complex_Main PortalJson
begin

text \<open>
  The tasks of document ingestion (\<open>api/db/services/task_service.py\<close>, \<open>document_service.py\<close>, with the requests of
  \<open>api/apps/document_app.py\<close> and \<open>api/apps/sdk/doc.py\<close> that start and stop them, and the reports of
  \<open>rag/svr/task_executor.py\<close>).  The database tables are lists of rows; Redis is the list of messages that were queued and the
  tasks marked as cancelled; the index holds which chunk belongs to which document.  Identifiers from \<open>get_uuid\<close> do not
  collide; dates and durations are not modelled.
\<close>

subsection \<open>Tables\<close>

text \<open>\<open>chunk_ids\<close> is a text of ids with spaces between them, here the list of the ids.\<close>

record task_row =
  t_id :: string
  t_doc :: string
  t_from :: int
  t_to :: int
  t_type :: string
  t_priority :: int
  t_create :: int
  t_progress :: rat
  t_msg :: string
  t_retry :: nat
  t_digest :: string
  t_chunks :: "string list"

text \<open>A document, with the entries of \<open>parser_config\<close> that the tasks depend on.\<close>

record doc_row =
  dr_id :: string
  dr_kb :: string
  dr_name :: string
  dr_type :: string
  dr_parser :: string
  dr_pipeline :: string
  dr_layout :: string              \<comment> \<open>\<open>layout_recognize\<close>\<close>
  dr_page_size :: "int option"     \<comment> \<open>\<open>task_page_size\<close>\<close>
  dr_pages :: "(int \<times> int) list"
  dr_toc :: bool                   \<comment> \<open>\<open>toc_extraction\<close>\<close>
  dr_tokens :: int
  dr_chunks :: int
  dr_progress :: rat
  dr_msg :: string
  dr_run :: "string option"
  dr_valid :: bool

record kbase =
  kb_rid :: string
  kb_tenant :: string
  kb_tokens :: int
  kb_chunks :: int
  kb_docs :: int

record ing =
  i_tasks :: "task_row list"
  i_docs :: "doc_row list"
  i_kbs :: "kbase list"
  i_tenants :: "string list"
  i_queue :: "(int \<times> task_row) list"
  i_cancels :: "string list"
  i_index :: "(string \<times> string) list"    \<comment> \<open>chunk, document\<close>
  i_ticks :: nat

text \<open>
  The surroundings, read at the number of ticks so far: fresh ids, clock, random numbers, the hash of a digest, the text of a
  document's chunking configuration (without \<open>raptor\<close> and \<open>graphrag\<close>), the pages and rows of its file, and Redis.
\<close>

record ienv =
  ie_uuid :: "nat \<Rightarrow> string"
  ie_clock :: "nat \<Rightarrow> int"
  ie_stamp :: "nat \<Rightarrow> string"
  ie_random :: "nat \<Rightarrow> rat"
  ie_hash :: "string \<Rightarrow> string"
  ie_config :: "doc_row \<Rightarrow> string"
  ie_pages :: "string \<Rightarrow> int option"
  ie_rows :: "string \<Rightarrow> int"
  ie_push :: "nat \<Rightarrow> bool"
  ie_lag :: "nat \<Rightarrow> int"

datatype ing_error = NoDocument | NoConfig | EmptyInsert | QueueRefused

definition RUNNING :: string where "RUNNING = ''1''"
definition CANCEL :: string where "CANCEL = ''2''"
definition DONE :: string where "DONE = ''3''"
definition FAIL :: string where "FAIL = ''4''"

definition by_id :: "string \<Rightarrow> doc_row list \<Rightarrow> doc_row option" where
  "by_id did rows = fetchone (\<lambda>d. dr_id d = did) rows"

definition upd_doc :: "string \<Rightarrow> (doc_row \<Rightarrow> doc_row) \<Rightarrow> ing \<Rightarrow> ing" where
  "upd_doc did f s = s\<lparr>i_docs := update_where (\<lambda>d. dr_id d = did) f (i_docs s)\<rparr>"

definition upd_kb :: "string \<Rightarrow> (kbase \<Rightarrow> kbase) \<Rightarrow> ing \<Rightarrow> ing" where
  "upd_kb kb f s = s\<lparr>i_kbs := update_where (\<lambda>k. kb_rid k = kb) f (i_kbs s)\<rparr>"

definition upd_task :: "string \<Rightarrow> (task_row \<Rightarrow> task_row) \<Rightarrow> ing \<Rightarrow> ing" where
  "upd_task tid f s = s\<lparr>i_tasks := update_where (\<lambda>t. t_id t = tid) f (i_tasks s)\<rparr>"

subsection \<open>Progress of a task\<close>

text \<open>The rest of the text behind the first line end that leaves less than \<open>n\<close> characters.\<close>

fun trim_scan :: "string \<Rightarrow> nat \<Rightarrow> string option" where
  "trim_scan [] n = None"
| "trim_scan (c # cs) n = (if c = CHR 0x0A \<and> length (c # cs) \<le> n then Some cs else trim_scan cs n)"

definition trim_header_by_lines :: "string \<Rightarrow> nat \<Rightarrow> string" where
  "trim_header_by_lines txt n =
     (if length txt \<le> n then txt else case trim_scan txt n of Some s \<Rightarrow> s | None \<Rightarrow> txt)"

text \<open>Which report replaces the progress: completion always, failure and growth unless the task has failed.\<close>

definition accepts_progress :: "rat \<Rightarrow> rat \<Rightarrow> bool" where
  "accepts_progress cur prog \<longleftrightarrow> 1 \<le> prog \<or> (cur \<noteq> - 1 \<and> (prog = - 1 \<or> cur < prog))"

text \<open>\<^term>\<open>None\<close>: \<open>DoesNotExist\<close>.\<close>

definition task_update_progress :: "string \<Rightarrow> string \<Rightarrow> rat option \<Rightarrow> ing \<Rightarrow> ing option" where
  "task_update_progress tid msg prog s =
     (case fetchone (\<lambda>t. t_id t = tid) (i_tasks s) of
        None \<Rightarrow> None
      | Some t \<Rightarrow>
          let s1 = (if msg = [] then s
                    else upd_task tid (\<lambda>r. r\<lparr>t_msg := trim_header_by_lines (t_msg t @ CHR 0x0A # msg) 3000\<rparr>) s)
          in Some (case prog of
               None \<Rightarrow> s1
             | Some p \<Rightarrow> upd_task tid (\<lambda>r. if accepts_progress (t_progress r) p then r\<lparr>t_progress := p\<rparr> else r) s1))"

definition has_canceled :: "string \<Rightarrow> ing \<Rightarrow> bool" where
  "has_canceled tid s \<longleftrightarrow> tid \<in> set (i_cancels s)"

definition cancel_all_task_of :: "string \<Rightarrow> ing \<Rightarrow> ing" where
  "cancel_all_task_of did s =
     s\<lparr>i_cancels := i_cancels s @ map t_id (filter (\<lambda>t. t_doc t = did) (i_tasks s))\<rparr>"

text \<open>\<open>set_progress\<close> of the executor; the flag says that it raises \<open>TaskCanceledException\<close>.\<close>

definition set_progress ::
  "ienv \<Rightarrow> string \<Rightarrow> int \<Rightarrow> int \<Rightarrow> rat option \<Rightarrow> string \<Rightarrow> ing \<Rightarrow> ing \<times> bool" where
  "set_progress E tid from_page to_page prog msg s =
     (let msg = (case prog of Some p \<Rightarrow> if p < 0 then ''[ERROR]'' @ msg else msg | None \<Rightarrow> msg);
          cancel = has_canceled tid s;
          msg = (if cancel then msg @ '' [Canceled]'' else msg);
          prog = (if cancel then Some (- 1) else prog);
          msg = (if 0 < to_page \<and> msg \<noteq> [] \<and> from_page < to_page
                 then ''Page('' @ print_int (from_page + 1) @ ''~'' @ print_int (to_page + 1) @ ''): '' @ msg else msg);
          msg = (if msg = [] then [] else ie_stamp E (i_ticks s) @ '' '' @ msg)
      in case task_update_progress tid msg prog s of
           None \<Rightarrow> (s, False)
         | Some s' \<Rightarrow> (s'\<lparr>i_ticks := i_ticks s + 1\<rparr>, cancel))"

subsection \<open>Handing out a task\<close>

text \<open>
  \<open>get_task\<close>.  The document it is joined with is the first of \<open>doc_ids\<close>, where there are any: the comparison with
  \<open>CANVAS_DEBUG_DOC_ID\<close> compares a column, which is an expression and always true.  The fourth delivery abandons it.
\<close>

definition join_doc :: "string list \<Rightarrow> task_row \<Rightarrow> ing \<Rightarrow> doc_row option" where
  "join_doc doc_ids t s =
     (case by_id (if doc_ids \<noteq> [] then hd doc_ids else t_doc t) (i_docs s) of
        None \<Rightarrow> None
      | Some d \<Rightarrow>
          (case fetchone (\<lambda>k. kb_rid k = dr_kb d) (i_kbs s) of
             None \<Rightarrow> None
           | Some k \<Rightarrow> if kb_tenant k \<in> set (i_tenants s) then Some d else None))"

definition get_task :: "ienv \<Rightarrow> string \<Rightarrow> string list \<Rightarrow> ing \<Rightarrow> ing \<times> (task_row \<times> doc_row) option" where
  "get_task E tid doc_ids s =
     (case fetchone (\<lambda>t. t_id t = tid) (i_tasks s) of
        None \<Rightarrow> (s, None)
      | Some t \<Rightarrow>
          (case join_doc doc_ids t s of
             None \<Rightarrow> (s, None)
           | Some d \<Rightarrow>
               let abandoned = 3 \<le> t_retry t;
                   msg = (if abandoned then CHR 0x0A # ''ERROR: Task is abandoned after 3 times attempts.''
                          else CHR 0x0A # ie_stamp E (i_ticks s) @ '' Task has been received.'');
                   prog = (if abandoned then - 1 else ie_random E (i_ticks s) / 10);
                   s' = upd_task tid (\<lambda>r. r\<lparr>t_msg := t_msg r @ msg, t_progress := prog, t_retry := t_retry t + 1\<rparr>) s
               in (s'\<lparr>i_ticks := i_ticks s + 1\<rparr>, if abandoned then None else Some (t, d))))"

definition get_tasks :: "string \<Rightarrow> ing \<Rightarrow> task_row list" where
  "get_tasks did s = sort_key t_from (sort_key (\<lambda>t. - t_create t) (filter (\<lambda>t. t_doc t = did) (i_tasks s)))"

definition update_chunk_ids :: "string \<Rightarrow> string list \<Rightarrow> ing \<Rightarrow> ing" where
  "update_chunk_ids tid ids s = upd_task tid (\<lambda>r. r\<lparr>t_chunks := ids\<rparr>) s"

text \<open>\<^term>\<open>None\<close>: the task or its document does not exist, which raises.\<close>

definition task_do_cancel :: "string \<Rightarrow> ing \<Rightarrow> bool option" where
  "task_do_cancel tid s =
     (case fetchone (\<lambda>t. t_id t = tid) (i_tasks s) of
        None \<Rightarrow> None
      | Some t \<Rightarrow> map_option (\<lambda>d. dr_run d = Some CANCEL \<or> dr_progress d < 0) (by_id (t_doc t) (i_docs s)))"

definition doc_do_cancel :: "string \<Rightarrow> ing \<Rightarrow> bool" where
  "doc_do_cancel did s =
     (case by_id did (i_docs s) of None \<Rightarrow> False | Some d \<Rightarrow> dr_run d = Some CANCEL \<or> dr_progress d < 0)"

definition delete_by_doc_ids :: "string list \<Rightarrow> ing \<Rightarrow> ing" where
  "delete_by_doc_ids dids s = s\<lparr>i_tasks := delete_where (\<lambda>t. t_doc t \<in> set dids) (i_tasks s)\<rparr>"

subsection \<open>Dividing a document into tasks\<close>

text \<open>Python's \<open>range(s, e, k)\<close>, for \<open>k\<close> other than 0.\<close>

function py_range :: "int \<Rightarrow> int \<Rightarrow> int \<Rightarrow> int list" where
  "py_range s e k =
     (if 0 < k \<and> s < e then s # py_range (s + k) e k
      else if k < 0 \<and> e < s then s # py_range (s + k) e k else [])"
  by pat_completeness auto
termination
  by (relation "measure (\<lambda>(s, e, k). nat (if 0 < k then e - s else s - e))") auto

declare py_range.simps [simp del]

definition or_default :: "int option \<Rightarrow> int \<Rightarrow> int" where   \<comment> \<open>\<open>x or d\<close>\<close>
  "or_default x d = (case x of None \<Rightarrow> d | Some n \<Rightarrow> if n = 0 then d else n)"

definition page_size_of :: "doc_row \<Rightarrow> int" where
  "page_size_of d =
     (if dr_parser d \<in> {''one'', ''knowledge_graph''} \<or> dr_layout d \<noteq> ''DeepDOC'' \<or> dr_toc d then 10 ^ 9
      else or_default (dr_page_size d) (if dr_parser d = ''paper'' then 22 else 12))"

definition page_tasks :: "int \<Rightarrow> int \<Rightarrow> int \<times> int \<Rightarrow> (int \<times> int) list" where
  "page_tasks k pages r =
     (let s = max 0 (fst r - 1); e = min (snd r - 1) pages in map (\<lambda>p. (p, min (p + k) e)) (py_range s e k))"

definition task_ranges :: "ienv \<Rightarrow> doc_row \<Rightarrow> (int \<times> int) list" where
  "task_ranges E d =
     (if dr_type d = ''pdf'' then
        let pages = (case ie_pages E (dr_name d) of None \<Rightarrow> 0 | Some n \<Rightarrow> n) in
        concat (map (page_tasks (page_size_of d) pages) (if dr_pages d = [] then [(1, 10 ^ 5)] else dr_pages d))
      else if dr_parser d = ''table'' then
        let rn = ie_rows E (dr_name d) in map (\<lambda>i. (i, min (i + 3000) rn)) (py_range 0 rn 3000)
      else [(0, 100000000)])"

text \<open>The digest: the configuration, the document and the range, put together without separators.\<close>

definition task_digest :: "ienv \<Rightarrow> doc_row \<Rightarrow> int \<times> int \<Rightarrow> string" where
  "task_digest E d r = ie_hash E (ie_config E d @ dr_id d @ print_int (fst r) @ print_int (snd r))"

definition make_task :: "ienv \<Rightarrow> doc_row \<Rightarrow> int \<Rightarrow> nat \<Rightarrow> nat \<times> (int \<times> int) \<Rightarrow> task_row" where
  "make_task E d priority tk nr =
     \<lparr>t_id = ie_uuid E (tk + fst nr), t_doc = dr_id d, t_from = fst (snd nr), t_to = snd (snd nr), t_type = [],
      t_priority = priority, t_create = ie_clock E tk + int (fst nr), t_progress = 0, t_msg = [], t_retry = 0,
      t_digest = task_digest E d (snd nr), t_chunks = []\<rparr>"

definition make_tasks :: "ienv \<Rightarrow> doc_row \<Rightarrow> int \<Rightarrow> nat \<Rightarrow> task_row list" where
  "make_tasks E d priority tk =
     (let rs = task_ranges E d in map (make_task E d priority tk) (zip [0 ..< length rs] rs))"

subsection \<open>Reusing chunks\<close>

text \<open>The first earlier task with the same first page and digest gives its chunks away, if it is done.\<close>

fun take_prev :: "task_row \<Rightarrow> task_row list \<Rightarrow> string list \<times> task_row list" where
  "take_prev t [] = ([], [])"
| "take_prev t (p # ps) =
     (if t_from p = t_from t \<and> t_digest p = t_digest t then
        (if t_progress p < 1 then ([], p # ps) else (t_chunks p, p\<lparr>t_chunks := []\<rparr> # ps))
      else (fst (take_prev t ps), p # snd (take_prev t ps)))"

definition reused_note :: "string \<Rightarrow> task_row \<Rightarrow> string" where
  "reused_note stamp t =
     stamp @ '' ''
     @ (if 10 ^ 6 \<le> t_to t - t_from t then ''Page('' @ print_int (t_from t) @ ''~'' @ print_int (t_to t) @ ''): '' else [])
     @ '' '' @ ''Reused previous task's chunks.''"

definition reuse_prev_task_chunks :: "string \<Rightarrow> task_row \<Rightarrow> task_row list \<Rightarrow> task_row \<times> task_row list \<times> nat" where
  "reuse_prev_task_chunks stamp t prevs =
     (let (ids, prevs') = take_prev t prevs in
      (if ids = [] then t else t\<lparr>t_chunks := ids, t_progress := 1, t_msg := reused_note stamp t\<rparr>, prevs', length ids))"

fun reuse_all :: "string \<Rightarrow> task_row list \<Rightarrow> task_row list \<Rightarrow> task_row list \<times> task_row list \<times> nat" where
  "reuse_all stamp [] prevs = ([], prevs, 0)"
| "reuse_all stamp (t # ts) prevs =
     (let (t', prevs1, n) = reuse_prev_task_chunks stamp t prevs; (ts', prevs2, m) = reuse_all stamp ts prevs1
      in (t' # ts', prevs2, n + m))"

subsection \<open>Queueing\<close>

definition begin2parse :: "ienv \<Rightarrow> string \<Rightarrow> bool \<Rightarrow> ing \<Rightarrow> ing" where
  "begin2parse E did keep_progress s =
     (upd_doc did (\<lambda>d. let d = d\<lparr>dr_msg := ''Task is queued...''\<rparr> in
        if keep_progress then d else d\<lparr>dr_progress := ie_random E (i_ticks s) / 100, dr_run := Some RUNNING\<rparr>) s)
     \<lparr>i_ticks := i_ticks s + 1\<rparr>"

fun push_all :: "ienv \<Rightarrow> int \<Rightarrow> task_row list \<Rightarrow> ing \<Rightarrow> ing \<times> (ing_error + unit)" where
  "push_all E priority [] s = (s, Inr ())"
| "push_all E priority (t # ts) s =
     (if ie_push E (i_ticks s)
      then push_all E priority ts (s\<lparr>i_queue := i_queue s @ [(priority, t)], i_ticks := i_ticks s + 1\<rparr>)
      else (s, Inl QueueRefused))"

definition has_config :: "doc_row \<Rightarrow> ing \<Rightarrow> bool" where   \<comment> \<open>\<open>get_chunking_config\<close> finds a row\<close>
  "has_config d s \<longleftrightarrow> (case by_id (dr_id d) (i_docs s) of
       None \<Rightarrow> False
     | Some r \<Rightarrow> (case fetchone (\<lambda>k. kb_rid k = dr_kb r) (i_kbs s) of
         None \<Rightarrow> False | Some k \<Rightarrow> kb_tenant k \<in> set (i_tenants s)))"

text \<open>
  \<open>queue_tasks\<close> of a document: chunks of unchanged tasks are kept, those of the others are deleted from the index.
  Inserting no row at all raises \<open>IndexError\<close> (\<open>bulk_insert_into_db\<close> reads the first one).
\<close>

definition drop_chunks :: "string list \<Rightarrow> ing \<Rightarrow> ing" where
  "drop_chunks ids s = s\<lparr>i_index := filter (\<lambda>(c, d). c \<notin> set ids) (i_index s)\<rparr>"

definition queue_tasks :: "ienv \<Rightarrow> doc_row \<Rightarrow> int \<Rightarrow> ing \<Rightarrow> ing \<times> (ing_error + unit)" where
  "queue_tasks E d priority s0 =
     (let fresh = make_tasks E d priority (i_ticks s0); s = s0\<lparr>i_ticks := i_ticks s0 + length fresh\<rparr> in
      if fresh \<noteq> [] \<and> \<not> has_config d s then (s, Inl NoConfig)
      else
        let prevs = get_tasks (dr_id d) s;
            (ts, prevs', n) = (if prevs = [] then (fresh, [], 0) else reuse_all (ie_stamp E (i_ticks s)) fresh prevs);
            s1 = (if prevs = [] then s else delete_by_doc_ids [dr_id d] s);
            stale = concat (map t_chunks prevs')
        in if stale \<noteq> [] \<and> \<not> has_config d s then (s1, Inl NoConfig)
        else
          let s2 = upd_doc (dr_id d) (\<lambda>r. r\<lparr>dr_chunks := int n\<rparr>) (drop_chunks stale s1) in
          if ts = [] then (s2, Inl EmptyInsert)
          else push_all E priority (filter (\<lambda>t. t_progress t < 1) ts)
                 (begin2parse E (dr_id d) False (s2\<lparr>i_tasks := i_tasks s2 @ ts\<rparr>)))"

text \<open>\<open>queue_dataflow\<close> with a fresh task id; the answer says whether Redis took the message.\<close>

definition queue_dataflow :: "ienv \<Rightarrow> string \<Rightarrow> string \<Rightarrow> int \<Rightarrow> bool \<Rightarrow> ing \<Rightarrow> ing \<times> bool" where
  "queue_dataflow E tid did priority rerun s =
     (let t = \<lparr>t_id = tid, t_doc = did, t_from = 0, t_to = 100000000,
               t_type = (if rerun then ''dataflow_rerun'' else ''dataflow''), t_priority = priority,
               t_create = ie_clock E (i_ticks s), t_progress = 0, t_msg = [], t_retry = 0, t_digest = [], t_chunks = []\<rparr>;
          s1 = (if did \<in> {''dataflow_x'', ''graph_raptor_x''} then s
                else begin2parse E did False (delete_by_doc_ids [did] s));
          s2 = s1\<lparr>i_tasks := i_tasks s1 @ [t]\<rparr>
      in if ie_push E (i_ticks s2)
         then (s2\<lparr>i_queue := i_queue s2 @ [(priority, t)], i_ticks := i_ticks s2 + 1\<rparr>, True) else (s2, False))"

definition run_document :: "ienv \<Rightarrow> doc_row \<Rightarrow> ing \<Rightarrow> ing \<times> (ing_error + unit)" where   \<comment> \<open>\<open>DocumentService.run\<close>\<close>
  "run_document E d s =
     (if dr_parser d = ''table'' \<and> dr_kb d = [] then (s, Inr ())
      else if dr_pipeline d \<noteq> [] then
        (fst (queue_dataflow E (ie_uuid E (i_ticks s)) (dr_id d) 0 False (s\<lparr>i_ticks := i_ticks s + 1\<rparr>)), Inr ())
      else queue_tasks E d 0 s)"

subsection \<open>Counters\<close>

definition increment_chunk_num :: "string \<Rightarrow> string \<Rightarrow> int \<Rightarrow> int \<Rightarrow> ing \<Rightarrow> ing" where
  "increment_chunk_num did kb tokens chunks s =
     upd_kb kb (\<lambda>k. k\<lparr>kb_tokens := kb_tokens k + tokens, kb_chunks := kb_chunks k + chunks\<rparr>)
       (upd_doc did (\<lambda>d. d\<lparr>dr_tokens := dr_tokens d + tokens, dr_chunks := dr_chunks d + chunks\<rparr>) s)"

definition decrement_chunk_num :: "string \<Rightarrow> string \<Rightarrow> int \<Rightarrow> int \<Rightarrow> ing \<Rightarrow> ing option" where
  "decrement_chunk_num did kb tokens chunks s =
     (if by_id did (i_docs s) = None then None else Some (increment_chunk_num did kb (- tokens) (- chunks) s))"

definition clear_chunk_num_when_rerun :: "string \<Rightarrow> ing \<Rightarrow> ing option" where
  "clear_chunk_num_when_rerun did s =
     (case by_id did (i_docs s) of
        None \<Rightarrow> None
      | Some d \<Rightarrow>
          Some (upd_kb (dr_kb d) (\<lambda>k. k\<lparr>kb_tokens := kb_tokens k - dr_tokens d, kb_chunks := kb_chunks k - dr_chunks d\<rparr>) s))"

definition delete_document_and_update_kb_counts :: "string \<Rightarrow> ing \<Rightarrow> ing \<times> bool" where
  "delete_document_and_update_kb_counts did s =
     (case by_id did (i_docs s) of
        None \<Rightarrow> (s, False)
      | Some d \<Rightarrow>
          (upd_kb (dr_kb d) (\<lambda>k. k\<lparr>kb_tokens := kb_tokens k - dr_tokens d, kb_chunks := kb_chunks k - dr_chunks d,
                                   kb_docs := kb_docs k - 1\<rparr>)
             (s\<lparr>i_docs := delete_where (\<lambda>r. dr_id r = did) (i_docs s)\<rparr>), True))"

definition insert_document :: "doc_row \<Rightarrow> ing \<Rightarrow> ing" where   \<comment> \<open>\<open>DocumentService.insert\<close>, of a new id\<close>
  "insert_document d s = upd_kb (dr_kb d) (\<lambda>k. k\<lparr>kb_docs := kb_docs k + 1\<rparr>) (s\<lparr>i_docs := i_docs s @ [d]\<rparr>)"

text \<open>\<open>remove_document\<close>, of rows, tasks and chunks; pictures, metadata and the knowledge graph are left out.\<close>

definition remove_document :: "string \<Rightarrow> ing \<Rightarrow> ing" where
  "remove_document did s =
     (let (s1, deleted) = delete_document_and_update_kb_counts did s in
      if \<not> deleted then s1
      else
        let s2 = delete_by_doc_ids [did] (cancel_all_task_of did s1)
        in s2\<lparr>i_index := filter (\<lambda>(c, d). d \<noteq> did) (i_index s2)\<rparr>)"

subsection \<open>The progress of a document\<close>

definition special_types :: "string set" where
  "special_types = {''raptor'', ''graphrag'', ''mindmap''}"

definition is_open :: "task_row \<Rightarrow> bool" where
  "is_open t \<longleftrightarrow> 0 \<le> t_progress t \<and> t_progress t < 1"

definition mean_progress :: "task_row list \<Rightarrow> rat" where
  "mean_progress ts = sum_list (map (\<lambda>t. if 0 \<le> t_progress t then t_progress t else 0) ts) / of_nat (length ts)"

text \<open>Progress and status of a document from its tasks.\<close>

definition verdict :: "task_row list \<Rightarrow> rat \<times> string" where
  "verdict ts =
     (if list_ex is_open ts then (mean_progress ts, RUNNING)
      else if list_ex (\<lambda>t. t_progress t = - 1) ts then (- 1, FAIL) else (1, DONE))"

definition lines_of :: "string list \<Rightarrow> string" where   \<comment> \<open>\<^verbatim>\<open>"\n".join(..)\<close>\<close>
  "lines_of ls = (case ls of [] \<Rightarrow> [] | l # rest \<Rightarrow> l @ concat (map (\<lambda>x. CHR 0x0A # x) rest))"

definition ends_in :: "string \<Rightarrow> string \<Rightarrow> bool" where
  "ends_in s t \<longleftrightarrow> starts_with (rev t) (rev s)"

definition sync_message :: "ienv \<Rightarrow> nat \<Rightarrow> task_row list \<Rightarrow> string" where
  "sync_message E tk ts =
     (let ahead = print_int (ie_lag E tk) @ '' tasks are ahead in the queue...'';
          msg = lines_of (sort (filter (\<lambda>m. str_strip m \<noteq> []) (map t_msg ts)))
      in if msg = [] then ahead
         else if ends_in msg ''created task graphrag'' \<or> ends_in msg ''created task raptor'' \<or> ends_in msg ''created task mindmap''
         then msg @ CHR 0x0A # ahead else msg)"

definition sync_doc :: "ienv \<Rightarrow> string \<Rightarrow> ing \<Rightarrow> ing" where
  "sync_doc E did s =
     (let ts = filter (\<lambda>t. t_doc t = did) (i_tasks s) in
      if ts = [] then s
      else case by_id did (i_docs s) of
        None \<Rightarrow> s
      | Some d \<Rightarrow>
          if dr_run d = Some CANCEL then s
          else
            let (prg, status) = verdict ts;
                freeze = (list_ex (\<lambda>t. str_lower (t_type t) \<in> special_types) ts \<and> 1 \<le> dr_progress d \<and> list_ex is_open ts)
            in upd_doc did (\<lambda>r. r\<lparr>dr_run := Some status, dr_msg := sync_message E (i_ticks s) ts,
                                  dr_progress := (if prg \<noteq> 0 \<and> \<not> freeze then prg else dr_progress r)\<rparr>) s)"

text \<open>\<open>get_unfinished_docs\<close>: the documents that \<open>update_progress\<close> looks at.\<close>

definition unfinished :: "ing \<Rightarrow> doc_row \<Rightarrow> bool" where
  "unfinished s d \<longleftrightarrow>
     dr_valid d \<and> dr_type d \<noteq> ''virtual'' \<and> dr_run d \<noteq> Some CANCEL
     \<and> ((dr_progress d < 1 \<and> 0 < dr_progress d)
        \<or> list_ex (\<lambda>t. t_doc t = dr_id d \<and> is_open t) (i_tasks s)
        \<or> (dr_progress d = - 1 \<and> dr_run d = Some FAIL \<and> list_ex (\<lambda>t. t_doc t = dr_id d \<and> 0 \<le> t_progress t) (i_tasks s)))"

definition update_progress :: "ienv \<Rightarrow> ing \<Rightarrow> ing" where
  "update_progress E s = fold (sync_doc E) (map dr_id (filter (unfinished s) (i_docs s))) s"

subsection \<open>Requests\<close>

text \<open>
  Running or cancelling one document (\<open>run\<close> of \<open>document_app.py\<close>).  \<open>delete\<close> is the optional entry of the request;
  \<^term>\<open>Inr False\<close> is the refusal of a cancellation.
\<close>

definition run_request :: "ienv \<Rightarrow> string \<Rightarrow> string \<Rightarrow> bool option \<Rightarrow> ing \<Rightarrow> ing \<times> (ing_error + bool)" where
  "run_request E did run delete s =
     (case by_id did (i_docs s) of
        None \<Rightarrow> (s, Inl NoDocument)
      | Some d \<Rightarrow>
          if \<not> list_ex (\<lambda>k. kb_rid k = dr_kb d) (i_kbs s) then (s, Inl NoConfig)
          else
          let open_task = list_ex (\<lambda>t. t_doc t = did \<and> t_progress t < 1) (i_tasks s) in
          if run = CANCEL \<and> \<not> (dr_run d = Some RUNNING \<or> dr_run d = Some CANCEL \<or> open_task) then (s, Inr False)
          else
            let s1 = (if run = CANCEL then cancel_all_task_of did s else s);
                s2 = (if delete \<noteq> Some False \<and> run = RUNNING \<and> dr_run d = Some DONE
                      then (case clear_chunk_num_when_rerun did s1 of Some s' \<Rightarrow> s' | None \<Rightarrow> s1) else s1);
                s3 = upd_doc did (\<lambda>r. let r = r\<lparr>dr_run := Some run, dr_progress := 0\<rparr> in
                       if run = RUNNING \<and> delete = Some True then r\<lparr>dr_msg := [], dr_chunks := 0, dr_tokens := 0\<rparr> else r) s2;
                s4 = (if delete = Some True
                      then let s' = delete_by_doc_ids [did] s3 in s'\<lparr>i_index := filter (\<lambda>(c, x). x \<noteq> did) (i_index s')\<rparr>
                      else s3)
            in if run = RUNNING then map_prod id (map_sum id (\<lambda>_. True)) (run_document E d s4) else (s4, Inr True))"

text \<open>One document of the requests \<open>parse\<close> and \<open>stop_parsing\<close> of the HTTP API; \<^term>\<open>Inr False\<close> is their refusal.\<close>

definition parse_document :: "ienv \<Rightarrow> string \<Rightarrow> ing \<Rightarrow> ing \<times> (ing_error + bool)" where
  "parse_document E did s =
     (case by_id did (i_docs s) of
        None \<Rightarrow> (s, Inl NoDocument)
      | Some d \<Rightarrow>
          if dr_run d = Some RUNNING then (s, Inr False)
          else
            let s1 = upd_doc did (\<lambda>r. r\<lparr>dr_run := Some RUNNING, dr_progress := 0, dr_msg := [], dr_chunks := 0, dr_tokens := 0\<rparr>) s;
                s2 = delete_by_doc_ids [did] (s1\<lparr>i_index := filter (\<lambda>(c, x). x \<noteq> did) (i_index s1)\<rparr>)
            in (case by_id did (i_docs s2) of
                  None \<Rightarrow> (s2, Inl NoDocument)
                | Some d' \<Rightarrow> map_prod id (map_sum id (\<lambda>_. True)) (queue_tasks E d' 0 s2)))"

definition stop_parsing :: "string \<Rightarrow> ing \<Rightarrow> ing \<times> (ing_error + bool)" where
  "stop_parsing did s =
     (case by_id did (i_docs s) of
        None \<Rightarrow> (s, Inl NoDocument)
      | Some d \<Rightarrow>
          if dr_run d \<noteq> Some RUNNING then (s, Inr False)
          else
            let s1 = upd_doc did (\<lambda>r. r\<lparr>dr_run := Some CANCEL, dr_progress := 0, dr_chunks := 0\<rparr>) (cancel_all_task_of did s)
            in (s1\<lparr>i_index := filter (\<lambda>(c, x). x \<noteq> did) (i_index s1)\<rparr>, Inr True))"

end
