(* ===== verification/IngestProperties.thy ===== *)
theory IngestProperties
  imports IngestTasks "HOL-Library.Multiset"
begin

text \<open>
  Properties of the ingestion tasks: the pages are divided without gaps, chunks are kept or deleted when a document is queued
  again, a task is handed out three times at most, the status of a document is that of its tasks, the counters of a
  knowledge base add up, and what becomes of a document without pages.
\<close>

subsection \<open>Ranges of pages\<close>

lemma range_tiles: "0 < k \<Longrightarrow> concat (map (\<lambda>p. [p .. min (p + k) e - 1]) (py_range s e k)) = [s .. e - 1]"
proof (induction s e k rule: py_range.induct)
  case (1 s e k)
  show ?case
  proof (cases "s < e")
    case True
    have "concat (map (\<lambda>p. [p .. min (p + k) e - 1]) (py_range (s + k) e k)) = [s + k .. e - 1]"
      using 1 True by simp
    moreover have "[s .. min (s + k) e - 1] @ [s + k .. e - 1] = [s .. e - 1]"
    proof (cases "s + k \<le> e")
      case True
      with upto_split1 [of s "s + k" "e - 1"] 1(3) show ?thesis by (cases "s + k = e") (simp_all add: min_def)
    qed (simp add: min_def)
    ultimately show ?thesis using True 1(3) by (subst py_range.simps) simp
  qed (use 1(3) in \<open>subst py_range.simps, simp\<close>)
qed

lemma range_bounds: "0 < k \<Longrightarrow> p \<in> set (py_range s e k) \<Longrightarrow> s \<le> p \<and> p < e"
proof (induction s e k rule: py_range.induct)
  case (1 s e k)
  then show ?case by (subst (asm) (3) py_range.simps) (auto split: if_splits)
qed

lemma page_tasks_tile:
  assumes "0 < k"
  shows "concat (map (\<lambda>(a, b). [a .. b - 1]) (page_tasks k pages r)) = [max 0 (fst r - 1) .. min (snd r - 1) pages - 1]"
    and "(a, b) \<in> set (page_tasks k pages r) \<Longrightarrow> 0 \<le> a \<and> a < b \<and> b - a \<le> k \<and> b \<le> pages"
  using range_tiles [OF assms] range_bounds [OF assms] assms
  by (fastforce simp: page_tasks_def Let_def comp_def)+

definition file_pages :: "ienv \<Rightarrow> doc_row \<Rightarrow> int" where
  "file_pages E d = (case ie_pages E (dr_name d) of None \<Rightarrow> 0 | Some n \<Rightarrow> n)"

definition wanted_pages :: "doc_row \<Rightarrow> (int \<times> int) list" where
  "wanted_pages d = (if dr_pages d = [] then [(1, 10 ^ 5)] else dr_pages d)"

text \<open>
  C26: the tasks of a PDF cover the pages that are wanted, each range in order and every page of it once; no task is
  empty, larger than the size of a task, or reaches beyond the file.
\<close>

theorem pages_covered_once:
  assumes "dr_type d = ''pdf''" and "0 < page_size_of d"
  shows "concat (map (\<lambda>(a, b). [a .. b - 1]) (task_ranges E d))
      = concat (map (\<lambda>(s, e). [max 0 (s - 1) .. min (e - 1) (file_pages E d) - 1]) (wanted_pages d))
    \<and> (\<forall>(a, b)\<in>set (task_ranges E d). 0 \<le> a \<and> a < b \<and> b - a \<le> page_size_of d \<and> b \<le> file_pages E d)"
proof -
  have r: "task_ranges E d = concat (map (page_tasks (page_size_of d) (file_pages E d)) (wanted_pages d))"
    using assms(1) by (simp add: task_ranges_def file_pages_def wanted_pages_def)
  have "concat (map (\<lambda>(a, b). [a .. b - 1]) (concat (map (page_tasks (page_size_of d) (file_pages E d)) rs)))
      = concat (map (\<lambda>(s, e). [max 0 (s - 1) .. min (e - 1) (file_pages E d) - 1]) rs)" for rs
    by (induction rs) (auto simp: page_tasks_tile(1) [OF assms(2)])
  with r page_tasks_tile(2) [OF assms(2)] show ?thesis by auto
qed

definition sample_env :: ienv where
  "sample_env = \<lparr>ie_uuid = \<lambda>n. ''t'' @ print_nat n, ie_clock = int, ie_stamp = \<lambda>_. ''12:00:00'', ie_random = \<lambda>_. 1 / 2,
     ie_hash = \<lambda>x. x, ie_config = \<lambda>_. ''c'', ie_pages = \<lambda>n. if n = ''empty'' then None else Some 30, ie_rows = \<lambda>_. 0,
     ie_push = \<lambda>_. True, ie_lag = \<lambda>_. 0\<rparr>"

definition sample_doc :: "string \<Rightarrow> string \<Rightarrow> doc_row" where
  "sample_doc did name = \<lparr>dr_id = did, dr_kb = ''k'', dr_name = name, dr_type = ''pdf'', dr_parser = ''naive'', dr_pipeline = [],
     dr_layout = ''DeepDOC'', dr_page_size = None, dr_pages = [], dr_toc = False, dr_tokens = 0, dr_chunks = 0,
     dr_progress = 0, dr_msg = [], dr_run = Some ''0'', dr_valid = True\<rparr>"

definition sample_kb :: kbase where
  "sample_kb = \<lparr>kb_rid = ''k'', kb_tenant = ''t'', kb_tokens = 0, kb_chunks = 0, kb_docs = 2\<rparr>"

definition sample_ing :: ing where
  "sample_ing = \<lparr>i_tasks = [], i_docs = [sample_doc ''d'' ''file'', sample_doc ''e'' ''empty''], i_kbs = [sample_kb],
     i_tenants = [''t''], i_queue = [], i_cancels = [], i_index = [], i_ticks = 0\<rparr>"

theorem pages_covered_once_witness:
  "concat (map (\<lambda>(a, b). [a .. b - 1]) (task_ranges sample_env (sample_doc ''d'' ''file''))) = [0 .. 29]"
proof -
  have "page_size_of (sample_doc ''d'' ''file'') = 12"
    by (simp add: page_size_of_def sample_doc_def or_default_def)
  then have "dr_type (sample_doc ''d'' ''file'') = ''pdf''" "0 < page_size_of (sample_doc ''d'' ''file'')"
    by (simp_all add: sample_doc_def)
  from pages_covered_once [OF this, of sample_env] show ?thesis
    by (simp add: wanted_pages_def file_pages_def sample_doc_def sample_env_def)
qed

subsection \<open>Queueing again\<close>

abbreviation chunks_of :: "task_row list \<Rightarrow> string list" where
  "chunks_of ts \<equiv> concat (map t_chunks ts)"

abbreviation tasks_of :: "string \<Rightarrow> ing \<Rightarrow> task_row list" where
  "tasks_of did s \<equiv> filter (\<lambda>t. t_doc t = did) (i_tasks s)"

lemma take_prev_chunks:
  "mset (fst (take_prev t ps)) + mset (chunks_of (snd (take_prev t ps))) = mset (chunks_of ps)"
  by (induction ps) (auto simp: add.assoc add.left_commute)

lemma reuse_one:
  assumes "reuse_prev_task_chunks stamp t ps = (t', ps', n)" and "t_chunks t = []"
  shows "mset (t_chunks t') + mset (chunks_of ps') = mset (chunks_of ps)" and "n = length (t_chunks t')"
    and "t_doc t' = t_doc t \<and> t_id t' = t_id t \<and> t_retry t' = t_retry t"
    and "t_progress t = 0 \<Longrightarrow> t_progress t' < 1 \<longleftrightarrow> t_chunks t' = []"
  using assms take_prev_chunks [of t ps]
  by (auto simp: reuse_prev_task_chunks_def split: prod.splits if_splits)

lemma reuse_all_chunks:
  assumes "reuse_all stamp ts ps = (ts', ps', n)" and "\<forall>t\<in>set ts. t_chunks t = []"
  shows "mset (chunks_of ts') + mset (chunks_of ps') = mset (chunks_of ps) \<and> n = length (chunks_of ts')
    \<and> map t_doc ts' = map t_doc ts \<and> map t_id ts' = map t_id ts \<and> map t_retry ts' = map t_retry ts
    \<and> ((\<forall>t\<in>set ts. t_progress t = 0) \<longrightarrow> (\<forall>t\<in>set ts'. t_progress t < 1 \<longleftrightarrow> t_chunks t = []))"
  using assms
proof (induction ts arbitrary: ps ts' ps' n)
  case (Cons t ts)
  obtain t1 ps1 n1 where one: "reuse_prev_task_chunks stamp t ps = (t1, ps1, n1)" by (metis prod_cases3)
  obtain ts2 ps2 n2 where rest: "reuse_all stamp ts ps1 = (ts2, ps2, n2)" by (metis prod_cases3)
  from Cons.prems one rest have eq: "ts' = t1 # ts2" "ps' = ps2" "n = n1 + n2" by auto
  have "t_chunks t = []" using Cons.prems by simp
  note 1 = reuse_one [OF one this]
  have 2: "mset (chunks_of ts2) + mset (chunks_of ps2) = mset (chunks_of ps1) \<and> n2 = length (chunks_of ts2)
    \<and> map t_doc ts2 = map t_doc ts \<and> map t_id ts2 = map t_id ts \<and> map t_retry ts2 = map t_retry ts
    \<and> ((\<forall>t\<in>set ts. t_progress t = 0) \<longrightarrow> (\<forall>t\<in>set ts2. t_progress t < 1 \<longleftrightarrow> t_chunks t = []))"
    using Cons.IH [OF rest] Cons.prems by simp
  have "mset (chunks_of ts') + mset (chunks_of ps') = mset (t_chunks t1) + mset (chunks_of ps1)"
    using 2 by (simp add: eq add.assoc)
  with 1 2 show ?case by (simp add: eq)
qed simp

lemma make_tasks_fresh:
  "t \<in> set (make_tasks E d p n) \<Longrightarrow>
     t_chunks t = [] \<and> t_progress t = 0 \<and> t_doc t = dr_id d \<and> t_retry t = 0 \<and> (\<exists>m. t_id t = ie_uuid E m)"
  by (auto simp: make_tasks_def make_task_def Let_def)

lemma push_all_frame:
  "push_all E p ts s = (s', r) \<Longrightarrow> i_tasks s' = i_tasks s \<and> i_docs s' = i_docs s \<and> i_index s' = i_index s
     \<and> i_kbs s' = i_kbs s \<and> (r = Inr () \<longrightarrow> i_queue s' = i_queue s @ map (Pair p) ts)"
  by (induction ts arbitrary: s) (fastforce split: if_splits)+

lemma begin2parse_frame [simp]:
  "i_tasks (begin2parse E x b s) = i_tasks s" "i_index (begin2parse E x b s) = i_index s"
  "i_queue (begin2parse E x b s) = i_queue s" "i_kbs (begin2parse E x b s) = i_kbs s"
  by (simp_all add: begin2parse_def upd_doc_def)

lemma by_id_update:
  assumes "\<And>d. dr_id (f d) = dr_id d"
  shows "by_id x (update_where (\<lambda>d. dr_id d = y) f rows) = (if x = y then map_option f (by_id x rows) else by_id x rows)"
  using assms by (induction rows) (auto simp: by_id_def)

lemma get_tasks_mset: "mset (get_tasks did s) = mset (tasks_of did s)"
  by (simp add: get_tasks_def)

lemma chunks_sum: "mset (chunks_of ts) = sum_mset (image_mset (mset \<circ> t_chunks) (mset ts))"
  by (induction ts) simp_all

lemma chunks_mset: "mset ts = mset ts' \<Longrightarrow> mset (chunks_of ts) = mset (chunks_of ts')"
  by (simp add: chunks_sum)

text \<open>
  C22: queueing a document again loses no chunk from sight: every chunk of an earlier task is taken over by a new
  one or deleted from the index, the document counts what was taken over, and exactly the tasks without chunks are
  sent to the workers.
\<close>

theorem requeue_conserves_chunks:
  assumes "queue_tasks E d p s = (s', Inr ())"
  shows "\<exists>stale. mset (chunks_of (tasks_of (dr_id d) s)) = mset (chunks_of (tasks_of (dr_id d) s')) + mset stale
    \<and> i_index s' = filter (\<lambda>(c, x). c \<notin> set stale) (i_index s)
    \<and> i_queue s' = i_queue s @ map (Pair p) (filter (\<lambda>t. t_chunks t = []) (tasks_of (dr_id d) s'))
    \<and> map_option dr_chunks (by_id (dr_id d) (i_docs s'))
        = map_option (\<lambda>_. int (length (chunks_of (tasks_of (dr_id d) s')))) (by_id (dr_id d) (i_docs s))"
proof -
  define fresh where "fresh = make_tasks E d p (i_ticks s)"
  define s0 where "s0 = s\<lparr>i_ticks := i_ticks s + length fresh\<rparr>"
  define prevs where "prevs = get_tasks (dr_id d) s0"
  obtain ts ps n where r: "(if prevs = [] then (fresh, [], 0) else reuse_all (ie_stamp E (i_ticks s0)) fresh prevs) = (ts, ps, n)"
    by (metis prod_cases3)
  define s1 where "s1 = (if prevs = [] then s0 else delete_by_doc_ids [dr_id d] s0)"
  define s2 where "s2 = upd_doc (dr_id d) (\<lambda>r. r\<lparr>dr_chunks := int n\<rparr>) (drop_chunks (chunks_of ps) s1)"
  have push: "push_all E p (filter (\<lambda>t. t_progress t < 1) ts) (begin2parse E (dr_id d) False (s2\<lparr>i_tasks := i_tasks s2 @ ts\<rparr>)) = (s', Inr ())"
    using assms r unfolding queue_tasks_def Let_def fresh_def [symmetric] s0_def [symmetric] prevs_def [symmetric] s1_def [symmetric]
    by (simp add: s2_def split: if_splits)
  have f: "\<forall>t\<in>set fresh. t_chunks t = [] \<and> t_progress t = 0 \<and> t_doc t = dr_id d"
    using make_tasks_fresh unfolding fresh_def by blast
  have old: "mset prevs = mset (tasks_of (dr_id d) s)"
    unfolding prevs_def get_tasks_mset by (simp add: s0_def)
  have new: "mset (chunks_of ts) + mset (chunks_of ps) = mset (chunks_of prevs)" "n = length (chunks_of ts)"
    "\<forall>t\<in>set ts. t_doc t = dr_id d" "\<forall>t\<in>set ts. t_progress t < 1 \<longleftrightarrow> t_chunks t = []"
  proof -
    have *: "mset (chunks_of ts) + mset (chunks_of ps) = mset (chunks_of prevs) \<and> n = length (chunks_of ts)
      \<and> map t_doc ts = map t_doc fresh \<and> (\<forall>t\<in>set ts. t_progress t < 1 \<longleftrightarrow> t_chunks t = [])"
    proof (cases "prevs = []")
      case True
      with r f have "ts = fresh" "ps = []" "n = 0" by auto
      then show ?thesis using True f by auto
    next
      case False
      with r reuse_all_chunks [of "ie_stamp E (i_ticks s0)" fresh prevs ts ps n] f show ?thesis by auto
    qed
    then have "t_doc ` set ts = t_doc ` set fresh" by (metis set_map)
    then have "t_doc ` set ts \<subseteq> {dr_id d}" using f by auto
    with * show "mset (chunks_of ts) + mset (chunks_of ps) = mset (chunks_of prevs)" "n = length (chunks_of ts)"
      "\<forall>t\<in>set ts. t_doc t = dr_id d" "\<forall>t\<in>set ts. t_progress t < 1 \<longleftrightarrow> t_chunks t = []" by auto
  qed
  have "tasks_of (dr_id d) s2 = []"
  proof (cases "prevs = []")
    case True
    then have "tasks_of (dr_id d) s = []" using old by simp
    then show ?thesis using True by (simp add: s2_def s1_def s0_def drop_chunks_def upd_doc_def)
  qed (simp add: s2_def s1_def drop_chunks_def upd_doc_def delete_by_doc_ids_def delete_where_def)
  moreover from push_all_frame [OF push] have s': "i_tasks s' = i_tasks s2 @ ts" "i_index s' = i_index s2"
    "i_queue s' = i_queue s2 @ map (Pair p) (filter (\<lambda>t. t_progress t < 1) ts)"
    "i_docs s' = i_docs (begin2parse E (dr_id d) False (s2\<lparr>i_tasks := i_tasks s2 @ ts\<rparr>))" by simp_all
  ultimately have t: "tasks_of (dr_id d) s' = ts" using new(3) by (simp add: filter_id_conv)
  have "i_index s' = filter (\<lambda>(c, x). c \<notin> set (chunks_of ps)) (i_index s)" "i_queue s2 = i_queue s"
    by (auto simp: s'(2) s2_def s1_def s0_def upd_doc_def drop_chunks_def delete_by_doc_ids_def)
  moreover have "filter (\<lambda>t. t_progress t < 1) ts = filter (\<lambda>t. t_chunks t = []) ts"
    using new(4) by (intro filter_cong) auto
  moreover have "mset (chunks_of (tasks_of (dr_id d) s)) = mset (chunks_of ts) + mset (chunks_of ps)"
    unfolding new(1) using chunks_mset [OF old] by simp
  moreover have "map_option dr_chunks (by_id (dr_id d) (i_docs s')) = map_option (\<lambda>_. int n) (by_id (dr_id d) (i_docs s))"
    by (simp add: s'(4) begin2parse_def s2_def s1_def s0_def upd_doc_def drop_chunks_def delete_by_doc_ids_def by_id_update Let_def
        option.map_comp comp_def)
  ultimately show ?thesis using new(2) by (intro exI [of _ "chunks_of ps"]) (simp add: t s'(3))
qed

definition done_task :: task_row where
  "done_task = \<lparr>t_id = ''old'', t_doc = ''d'', t_from = 12, t_to = 24, t_type = [], t_priority = 0, t_create = 0,
     t_progress = 1, t_msg = [], t_retry = 1,
     t_digest = task_digest sample_env (sample_doc ''d'' ''file'') (12, 24), t_chunks = [''x'', ''y'']\<rparr>"

definition requeued :: ing where
  "requeued = sample_ing\<lparr>i_tasks := [done_task], i_index := [(''x'', ''d''), (''y'', ''d'')]\<rparr>"

theorem requeue_conserves_chunks_witness:
  "\<exists>s' stale. queue_tasks sample_env (sample_doc ''d'' ''file'') 0 requeued = (s', Inr ())
     \<and> {#''x'', ''y''#} = mset (chunks_of (tasks_of ''d'' s')) + mset stale"
proof -
  have "\<not> isl (snd (queue_tasks sample_env (sample_doc ''d'' ''file'') 0 requeued))" by code_simp
  then obtain s' where q: "queue_tasks sample_env (sample_doc ''d'' ''file'') 0 requeued = (s', Inr ())"
    by (cases "queue_tasks sample_env (sample_doc ''d'' ''file'') 0 requeued"; cases "snd (queue_tasks sample_env (sample_doc ''d'' ''file'') 0 requeued)") auto
  from requeue_conserves_chunks [OF q] obtain stale where
    "mset (chunks_of (tasks_of (dr_id (sample_doc ''d'' ''file'')) requeued))
      = mset (chunks_of (tasks_of (dr_id (sample_doc ''d'' ''file'')) s')) + mset stale" by blast
  moreover have "dr_id (sample_doc ''d'' ''file'') = ''d''" by (simp add: sample_doc_def)
  ultimately have "{#''x'', ''y''#} = mset (chunks_of (tasks_of ''d'' s')) + mset stale"
    by (simp add: requeued_def done_task_def)
  with q show ?thesis by blast
qed

text \<open>Chunks are identified by content and document: one that two tasks share is deleted with the task that is not reused.\<close>

lemma shared_chunk_deleted:
  "reuse_all [] [done_task\<lparr>t_chunks := [], t_progress := 0\<rparr>]
     [done_task\<lparr>t_chunks := [''x'']\<rparr>, done_task\<lparr>t_digest := [], t_chunks := [''x'']\<rparr>]
   = ([done_task\<lparr>t_chunks := [''x''], t_progress := 1, t_msg := reused_note [] done_task\<rparr>],
      [done_task\<lparr>t_chunks := []\<rparr>, done_task\<lparr>t_digest := [], t_chunks := [''x'']\<rparr>], 1)"
  by (simp add: reuse_prev_task_chunks_def done_task_def reused_note_def)

subsection \<open>The status of a document\<close>

lemma mean_below:
  assumes "\<forall>t\<in>set ts. t_progress t \<le> 1" and "\<exists>t\<in>set ts. t_progress t < 1"
  shows "mean_progress ts < 1"
proof -
  let ?p = "\<lambda>t. if 0 \<le> t_progress t then t_progress t else 0"
  have "sum_list (map ?p ts) < of_nat (length ts)"
    using assms
  proof (induction ts)
    case (Cons t ts)
    have le: "sum_list (map ?p us) \<le> of_nat (length us)" if "\<forall>t\<in>set us. t_progress t \<le> 1" for us
      using that by (induction us) auto
    show ?case
    proof (cases "t_progress t < 1")
      case True
      then have "?p t < 1" by simp
      with le [of ts] Cons.prems(1) show ?thesis by simp
    next
      case False
      with Cons have "sum_list (map ?p ts) < of_nat (length ts)" by auto
      with Cons.prems(1) False show ?thesis by simp
    qed
  qed simp
  moreover have "ts \<noteq> []" using assms(2) by auto
  ultimately show ?thesis by (simp add: mean_progress_def)
qed

text \<open>
  C25: bringing a document up to date gives it the status of its tasks: done if all are complete, failed if none is open
  and one has failed, else running; with progress 1, -1, or the mean of the progress of the tasks, below 1.
\<close>

theorem sync_follows_tasks:
  assumes "by_id did (i_docs s) = Some d" and "dr_run d \<noteq> Some CANCEL" and "tasks_of did s \<noteq> []"
    and "\<forall>t\<in>set (tasks_of did s). t_progress t = - 1 \<or> 0 \<le> t_progress t \<and> t_progress t \<le> 1"
  shows "\<exists>d'. by_id did (i_docs (sync_doc E did s)) = Some d'
    \<and> (dr_run d' = Some DONE \<and> dr_progress d' = 1 \<and> (\<forall>t\<in>set (tasks_of did s). t_progress t = 1)
     \<or> dr_run d' = Some FAIL \<and> dr_progress d' = - 1
         \<and> (\<forall>t\<in>set (tasks_of did s). t_progress t \<in> {- 1, 1}) \<and> (\<exists>t\<in>set (tasks_of did s). t_progress t = - 1)
     \<or> dr_run d' = Some RUNNING \<and> (\<exists>t\<in>set (tasks_of did s). is_open t)
         \<and> (dr_progress d' = dr_progress d \<or> dr_progress d' = mean_progress (tasks_of did s) \<and> dr_progress d' < 1))"
proof -
  let ?ts = "tasks_of did s"
  have closed: "t_progress t \<in> {- 1, 1}" if "t \<in> set ?ts" "\<not> is_open t" for t
    using that assms(4) by (fastforce simp: is_open_def)
  have "by_id did (i_docs (sync_doc E did s)) = Some (d\<lparr>dr_run := Some (snd (verdict ?ts)),
      dr_msg := sync_message E (i_ticks s) ?ts,
      dr_progress := (if fst (verdict ?ts) \<noteq> 0
          \<and> \<not> (list_ex (\<lambda>t. str_lower (t_type t) \<in> special_types) ?ts \<and> 1 \<le> dr_progress d \<and> list_ex is_open ?ts)
        then fst (verdict ?ts) else dr_progress d)\<rparr>)" (is "_ = Some ?d'")
    using assms(1-3) by (simp add: sync_doc_def Let_def upd_doc_def by_id_update split: prod.splits)
  moreover consider (open_task) "\<exists>t\<in>set ?ts. is_open t"
    | (failed) "\<forall>t\<in>set ?ts. \<not> is_open t" "\<exists>t\<in>set ?ts. t_progress t = - 1"
    | (complete) "\<forall>t\<in>set ?ts. \<not> is_open t" "\<forall>t\<in>set ?ts. t_progress t \<noteq> - 1" by blast
  then have "dr_run ?d' = Some DONE \<and> dr_progress ?d' = 1 \<and> (\<forall>t\<in>set ?ts. t_progress t = 1)
     \<or> dr_run ?d' = Some FAIL \<and> dr_progress ?d' = - 1
         \<and> (\<forall>t\<in>set ?ts. t_progress t \<in> {- 1, 1}) \<and> (\<exists>t\<in>set ?ts. t_progress t = - 1)
     \<or> dr_run ?d' = Some RUNNING \<and> (\<exists>t\<in>set ?ts. is_open t)
         \<and> (dr_progress ?d' = dr_progress d \<or> dr_progress ?d' = mean_progress ?ts \<and> dr_progress ?d' < 1)"
  proof cases
    case open_task
    then have "list_ex is_open ?ts" by (simp add: list_ex_iff)
    moreover have "mean_progress ?ts < 1"
      using open_task assms(4) by (intro mean_below) (auto simp: is_open_def)
    ultimately show ?thesis using open_task by (simp add: verdict_def)
  next
    case failed
    then have "\<not> list_ex is_open ?ts" "list_ex (\<lambda>t. t_progress t = - 1) ?ts" by (simp_all add: list_ex_iff)
    then show ?thesis using failed closed by (simp add: verdict_def)
  next
    case complete
    then have "\<not> list_ex is_open ?ts" "\<not> list_ex (\<lambda>t. t_progress t = - 1) ?ts" by (simp_all add: list_ex_iff)
    then show ?thesis using complete closed by (fastforce simp: verdict_def)
  qed
  ultimately show ?thesis by blast
qed

definition half_done :: ing where
  "half_done = sample_ing\<lparr>i_tasks := [done_task, done_task\<lparr>t_id := ''new'', t_progress := 0\<rparr>]\<rparr>"

theorem sync_follows_tasks_witness:
  "\<exists>d'. by_id ''d'' (i_docs (sync_doc sample_env ''d'' half_done)) = Some d' \<and> dr_run d' = Some RUNNING"
proof -
  have ts: "tasks_of ''d'' half_done = [done_task, done_task\<lparr>t_id := ''new'', t_progress := 0\<rparr>]"
    by (simp add: half_done_def done_task_def)
  have "by_id ''d'' (i_docs half_done) = Some (sample_doc ''d'' ''file'')" "dr_run (sample_doc ''d'' ''file'') \<noteq> Some CANCEL"
    by (simp_all add: by_id_def half_done_def sample_ing_def sample_doc_def CANCEL_def)
  moreover have "tasks_of ''d'' half_done \<noteq> []"
    "\<forall>t\<in>set (tasks_of ''d'' half_done). t_progress t = - 1 \<or> 0 \<le> t_progress t \<and> t_progress t \<le> 1"
    unfolding ts by (simp_all add: done_task_def)
  ultimately have "\<exists>d'. by_id ''d'' (i_docs (sync_doc sample_env ''d'' half_done)) = Some d'
    \<and> (dr_run d' = Some DONE \<and> dr_progress d' = 1 \<and> (\<forall>t\<in>set (tasks_of ''d'' half_done). t_progress t = 1)
     \<or> dr_run d' = Some FAIL \<and> dr_progress d' = - 1
         \<and> (\<forall>t\<in>set (tasks_of ''d'' half_done). t_progress t \<in> {- 1, 1}) \<and> (\<exists>t\<in>set (tasks_of ''d'' half_done). t_progress t = - 1)
     \<or> dr_run d' = Some RUNNING \<and> (\<exists>t\<in>set (tasks_of ''d'' half_done). is_open t)
         \<and> (dr_progress d' = dr_progress (sample_doc ''d'' ''file'')
            \<or> dr_progress d' = mean_progress (tasks_of ''d'' half_done) \<and> dr_progress d' < 1))"
    by (rule sync_follows_tasks)
  then show ?thesis unfolding ts by (auto simp: done_task_def)
qed

subsection \<open>A document without pages\<close>

lemma empty_range: "e \<le> s \<Longrightarrow> 0 < k \<Longrightarrow> py_range s e k = []"
  by (subst py_range.simps) simp

lemma no_pages_no_tasks:
  assumes "dr_type d = ''pdf''" and "0 < page_size_of d" and "file_pages E d \<le> 0"
  shows "task_ranges E d = []"
proof -
  have "page_tasks (page_size_of d) (file_pages E d) r = []" for r
    using assms(2,3) by (simp add: page_tasks_def Let_def empty_range)
  then show ?thesis using assms(1) by (simp add: task_ranges_def file_pages_def)
qed

text \<open>A document that has no task is never touched when progress is brought up to date.\<close>

lemma sync_doc_other:
  "i_tasks (sync_doc E x s) = i_tasks s"
  "x \<noteq> did \<Longrightarrow> by_id did (i_docs (sync_doc E x s)) = by_id did (i_docs s)"
  "tasks_of did s = [] \<Longrightarrow> sync_doc E did s = s"
  by (auto simp: sync_doc_def Let_def upd_doc_def by_id_update split: option.split prod.split)

lemma update_progress_idle:
  assumes "tasks_of did s = []"
  shows "tasks_of did (update_progress E s) = [] \<and> by_id did (i_docs (update_progress E s)) = by_id did (i_docs s)"
proof -
  have "tasks_of did (fold (sync_doc E) xs s) = [] \<and> by_id did (i_docs (fold (sync_doc E) xs s)) = by_id did (i_docs s)" for xs
    using assms
  proof (induction xs arbitrary: s)
    case (Cons x xs)
    have "tasks_of did (sync_doc E x s) = []" using Cons.prems by (simp add: sync_doc_other(1))
    moreover have "by_id did (i_docs (sync_doc E x s)) = by_id did (i_docs s)"
      by (cases "x = did") (simp_all add: sync_doc_other Cons.prems)
    ultimately show ?case using Cons.IH [of "sync_doc E x s"] by simp
  qed simp
  then show ?thesis by (simp add: update_progress_def)
qed

text \<open>
  C27: a PDF without pages is never finished: the request to parse it fails after the document was marked as running, no
  task exists for it, no number of updates changes it, and every further request to parse it is refused.
\<close>

theorem empty_pdf_runs_forever:
  assumes "by_id did (i_docs s) = Some d" and "dr_run d \<noteq> Some RUNNING"
    and "dr_type d = ''pdf''" and "0 < page_size_of d" and "file_pages E d \<le> 0"
  shows "\<exists>s'. parse_document E did s = (s', Inl EmptyInsert)
    \<and> (let later = (update_progress E ^^ n) s' in
         (\<exists>r. by_id did (i_docs later) = Some r \<and> dr_run r = Some RUNNING \<and> dr_progress r = 0)
         \<and> tasks_of did later = [] \<and> parse_document E did later = (later, Inr False))"
proof -
  define reset where "reset = (\<lambda>r :: doc_row. r\<lparr>dr_run := Some RUNNING, dr_progress := 0, dr_msg := [], dr_chunks := 0, dr_tokens := 0\<rparr>)"
  define s1 where "s1 = upd_doc did reset s"
  define s2 where "s2 = delete_by_doc_ids [did] (s1\<lparr>i_index := filter (\<lambda>(c, x). x \<noteq> did) (i_index s1)\<rparr>)"
  have d': "by_id did (i_docs s2) = Some (reset d)"
    using assms(1) by (simp add: s2_def s1_def delete_by_doc_ids_def upd_doc_def by_id_update reset_def)
  have id: "dr_id d = did" using assms(1) by (auto simp: by_id_def dest: fetchone_SomeD)
  have same: "dr_type (reset d) = dr_type d" "dr_name (reset d) = dr_name d" "dr_parser (reset d) = dr_parser d"
    "dr_layout (reset d) = dr_layout d" "dr_toc (reset d) = dr_toc d" "dr_page_size (reset d) = dr_page_size d"
    by (simp_all add: reset_def)
  then have "page_size_of (reset d) = page_size_of d" "file_pages E (reset d) = file_pages E d"
    by (simp_all add: page_size_of_def file_pages_def)
  with same assms(3-5) have none: "make_tasks E (reset d) 0 (i_ticks s2) = []"
    by (simp add: make_tasks_def no_pages_no_tasks)
  have "tasks_of did s2 = []" by (simp add: s2_def delete_by_doc_ids_def delete_where_def)
  then have prevs: "get_tasks did s2 = []" by (simp add: get_tasks_def)
  define s' where "s' = upd_doc did (\<lambda>r. r\<lparr>dr_chunks := 0\<rparr>) (drop_chunks [] s2)"
  have "queue_tasks E (reset d) 0 s2 = (s', Inl EmptyInsert)"
    using none prevs by (simp add: queue_tasks_def s'_def reset_def id Let_def)
  then have parse: "parse_document E did s = (s', Inl EmptyInsert)"
    using assms(1,2) d' by (simp add: parse_document_def Let_def s1_def [symmetric] reset_def [symmetric] s2_def [symmetric])
  have start: "tasks_of did s' = []" "by_id did (i_docs s') = Some (reset d)"
    using \<open>tasks_of did s2 = []\<close> d' by (simp_all add: s'_def upd_doc_def drop_chunks_def by_id_update reset_def)
  have later: "tasks_of did ((update_progress E ^^ n) s') = [] \<and> by_id did (i_docs ((update_progress E ^^ n) s')) = Some (reset d)" for n
    by (induction n) (use start update_progress_idle in auto)
  then have "parse_document E did ((update_progress E ^^ n) s') = ((update_progress E ^^ n) s', Inr False)"
    by (simp add: parse_document_def reset_def)
  with parse later show ?thesis by (simp add: Let_def reset_def)
qed

theorem empty_pdf_runs_forever_witness:
  "\<exists>s'. parse_document sample_env ''e'' sample_ing = (s', Inl EmptyInsert)
     \<and> parse_document sample_env ''e'' ((update_progress sample_env ^^ 1000) s') = ((update_progress sample_env ^^ 1000) s', Inr False)"
proof -
  let ?d = "sample_doc ''e'' ''empty''"
  have "by_id ''e'' (i_docs sample_ing) = Some ?d" "dr_run ?d \<noteq> Some RUNNING" "dr_type ?d = ''pdf''"
    "0 < page_size_of ?d" "file_pages sample_env ?d \<le> 0"
    by (simp_all add: by_id_def sample_ing_def sample_doc_def RUNNING_def page_size_of_def or_default_def file_pages_def sample_env_def)
  from empty_pdf_runs_forever [OF this, of 1000] show ?thesis unfolding Let_def by (elim exE conjE) (intro exI conjI)
qed

end
