(* ===== verification/IngestRuns.thy ===== *)
theory IngestRuns
  imports IngestProperties
begin

text \<open>
  Runs of the ingestion: workers receive tasks, report and store, requests start and stop documents, and progress is
  brought up to date, in any order.
\<close>

subsection \<open>What an operation does to the deliveries of a task\<close>

text \<open>The rows of a task keep their number of deliveries, unless its id is issued again.\<close>

definition retry_kept :: "ienv \<Rightarrow> string \<Rightarrow> ing \<Rightarrow> ing \<Rightarrow> bool" where
  "retry_kept E tid s s' \<longleftrightarrow> i_ticks s \<le> i_ticks s' \<and> (\<forall>t'\<in>set (i_tasks s'). t_id t' = tid \<longrightarrow>
     (\<exists>t\<in>set (i_tasks s). t_id t = tid \<and> t_retry t = t_retry t') \<or> (\<exists>m\<ge>i_ticks s. ie_uuid E m = tid))"

lemma retry_kept_refl [simp, intro]: "retry_kept E tid s s"
  by (auto simp: retry_kept_def)

lemma retry_kept_trans [trans]: "retry_kept E tid s s1 \<Longrightarrow> retry_kept E tid s1 s2 \<Longrightarrow> retry_kept E tid s s2"
  unfolding retry_kept_def by (metis order_trans)

lemma retry_kept_frame:
  "set (i_tasks s') \<subseteq> set (i_tasks s) \<Longrightarrow> i_ticks s \<le> i_ticks s' \<Longrightarrow> retry_kept E tid s s'"
  by (auto simp: retry_kept_def)

lemma retry_kept_upd_task:
  assumes "\<And>r. t_id (f r) = t_id r \<and> t_retry (f r) = t_retry r"
  shows "retry_kept E tid s (upd_task x f s)"
  unfolding retry_kept_def upd_task_def using assms by (fastforce simp: set_update_where split: if_splits)

lemma retry_kept_append:
  assumes "set (i_tasks s1) \<subseteq> set (i_tasks s)" and "i_ticks s \<le> i_ticks s'" and "i_tasks s' = i_tasks s1 @ ts"
    and "\<And>t. t \<in> set ts \<Longrightarrow> \<exists>m\<ge>i_ticks s. ie_uuid E m = t_id t"
  shows "retry_kept E tid s s'"
  unfolding retry_kept_def
proof (intro conjI ballI impI)
  fix t' assume t': "t' \<in> set (i_tasks s')" "t_id t' = tid"
  then consider "t' \<in> set (i_tasks s1)" | "t' \<in> set ts" using assms(3) by auto
  then show "(\<exists>t\<in>set (i_tasks s). t_id t = tid \<and> t_retry t = t_retry t') \<or> (\<exists>m\<ge>i_ticks s. ie_uuid E m = tid)"
  proof cases
    case 1
    then show ?thesis using assms(1) t'(2) by auto
  next
    case 2
    then show ?thesis using assms(4) [of t'] t'(2) by auto
  qed
qed (rule assms(2))

lemma ticks_simps [simp]:
  "i_ticks (upd_doc x f s) = i_ticks s" "i_ticks (upd_kb x g s) = i_ticks s" "i_ticks (upd_task x h s) = i_ticks s"
  "i_ticks (delete_by_doc_ids xs s) = i_ticks s" "i_ticks (drop_chunks ys s) = i_ticks s"
  "i_ticks (cancel_all_task_of x s) = i_ticks s" "i_ticks (begin2parse E x b s) = i_ticks s + 1"
  by (simp_all add: upd_doc_def upd_kb_def upd_task_def delete_by_doc_ids_def drop_chunks_def cancel_all_task_of_def begin2parse_def)

lemma tasks_simps [simp]:
  "i_tasks (upd_doc x f s) = i_tasks s" "i_tasks (upd_kb x g s) = i_tasks s" "i_tasks (drop_chunks ys s) = i_tasks s"
  "i_tasks (cancel_all_task_of x s) = i_tasks s"
  "set (i_tasks (delete_by_doc_ids xs s)) \<subseteq> set (i_tasks s)"
  by (auto simp: upd_doc_def upd_kb_def drop_chunks_def cancel_all_task_of_def delete_by_doc_ids_def)

lemma push_all_ticks: "push_all E p ts s = (s', r) \<Longrightarrow> i_ticks s \<le> i_ticks s'"
  by (induction ts arbitrary: s) (fastforce split: if_splits)+

lemma make_tasks_ids: "t \<in> set (make_tasks E d p n) \<Longrightarrow> \<exists>m\<ge>n. ie_uuid E m = t_id t"
  by (auto simp: make_tasks_def make_task_def Let_def intro: le_add1)

lemma retry_kept_queue: "queue_tasks E d p s = (s', r) \<Longrightarrow> retry_kept E tid s s'"
proof -
  assume q: "queue_tasks E d p s = (s', r)"
  define fresh where "fresh = make_tasks E d p (i_ticks s)"
  define s0 where "s0 = s\<lparr>i_ticks := i_ticks s + length fresh\<rparr>"
  define prevs where "prevs = get_tasks (dr_id d) s0"
  obtain ts ps n where re: "(if prevs = [] then (fresh, [], 0) else reuse_all (ie_stamp E (i_ticks s0)) fresh prevs) = (ts, ps, n)"
    by (metis prod_cases3)
  define s1 where "s1 = (if prevs = [] then s0 else delete_by_doc_ids [dr_id d] s0)"
  define s2 where "s2 = upd_doc (dr_id d) (\<lambda>r. r\<lparr>dr_chunks := int n\<rparr>) (drop_chunks (chunks_of ps) s1)"
  have "map t_id ts = map t_id fresh"
  proof (cases "prevs = []")
    case False
    have "\<forall>t\<in>set fresh. t_chunks t = []" using make_tasks_fresh unfolding fresh_def by blast
    with False re reuse_all_chunks [of "ie_stamp E (i_ticks s0)" fresh prevs ts ps n] show ?thesis by simp
  qed (use re in simp)
  then have ids: "\<exists>m\<ge>i_ticks s. ie_uuid E m = t_id t" if "t \<in> set ts" for t
    using that make_tasks_ids [of _ E d p "i_ticks s"] unfolding fresh_def [symmetric] by (metis imageE imageI set_map)
  have sub: "set (i_tasks s0) \<subseteq> set (i_tasks s)" "set (i_tasks s1) \<subseteq> set (i_tasks s)" "set (i_tasks s2) \<subseteq> set (i_tasks s)"
    "i_ticks s \<le> i_ticks s0" "i_ticks s \<le> i_ticks s1" "i_ticks s \<le> i_ticks s2"
    using tasks_simps(5) [of "[dr_id d]" s0] by (auto simp: s0_def s1_def s2_def)
  show ?thesis
  proof (cases "s' = s0 \<or> s' = s1 \<or> s' = s2")
    case True
    then show ?thesis using sub by (auto intro: retry_kept_frame)
  next
    case False
    then have "push_all E p (filter (\<lambda>t. t_progress t < 1) ts) (begin2parse E (dr_id d) False (s2\<lparr>i_tasks := i_tasks s2 @ ts\<rparr>)) = (s', r)"
      using q re unfolding queue_tasks_def Let_def fresh_def [symmetric] s0_def [symmetric] prevs_def [symmetric] s1_def [symmetric]
      by (simp add: s2_def split: if_splits)
    from push_all_frame [OF this] push_all_ticks [OF this] sub(6) show ?thesis
      by (intro retry_kept_append [OF sub(3)] ids) simp_all
  qed
qed

lemma dataflow_tasks:
  assumes "queue_dataflow E x did p b s = (s', r)"
  shows "\<exists>(s1 :: ing) t. set (i_tasks s1) \<subseteq> set (i_tasks s) \<and> i_tasks s' = i_tasks s1 @ [t] \<and> t_id t = x \<and> i_ticks s \<le> i_ticks s'"
proof -
  define s1 where "s1 = (if did \<in> {''dataflow_x'', ''graph_raptor_x''} then s else begin2parse E did False (delete_by_doc_ids [did] s))"
  have sub: "set (i_tasks s1) \<subseteq> set (i_tasks s)" "i_ticks s \<le> i_ticks s1"
    using tasks_simps(5) [of "[did]" s] by (auto simp: s1_def)
  from assms have "\<exists>t. i_tasks s' = i_tasks s1 @ [t] \<and> t_id t = x" "i_ticks s1 \<le> i_ticks s'"
    unfolding queue_dataflow_def Let_def s1_def [symmetric] by (auto split: if_splits)
  with sub show ?thesis by - (rule exI [of _ s1], auto)
qed

lemma retry_kept_run_document: "run_document E d s = (s', r) \<Longrightarrow> retry_kept E tid s s'"
proof -
  assume r: "run_document E d s = (s', r)"
  show ?thesis
  proof (cases "dr_parser d = ''table'' \<and> dr_kb d = [] \<or> dr_pipeline d = []")
    case True
    then show ?thesis using r by (auto simp: run_document_def intro: retry_kept_queue split: if_splits)
  next
    case False
    let ?s1 = "s\<lparr>i_ticks := i_ticks s + 1\<rparr>" and ?x = "ie_uuid E (i_ticks s)"
    obtain b where "queue_dataflow E ?x (dr_id d) 0 False ?s1 = (s', b)"
      using r False by (cases "queue_dataflow E ?x (dr_id d) 0 False ?s1") (auto simp: run_document_def split: if_splits)
    from dataflow_tasks [OF this] obtain s1 :: ing and t where
      "set (i_tasks s1) \<subseteq> set (i_tasks s)" "i_tasks s' = i_tasks s1 @ [t]" "t_id t = ?x" "i_ticks s \<le> i_ticks s'"
      by auto
    then show ?thesis by (intro retry_kept_append [of s1 s s' "[t]"]) auto
  qed
qed

lemma retry_kept_request:
  assumes "run_request E did run delete s = (s', r)"
  shows "retry_kept E tid s s'"
proof (cases "by_id did (i_docs s)")
  case (Some d)
  define s1 where "s1 = (if run = CANCEL then cancel_all_task_of did s else s)"
  define s2 where "s2 = (if delete \<noteq> Some False \<and> run = RUNNING \<and> dr_run d = Some DONE
    then (case clear_chunk_num_when_rerun did s1 of Some s' \<Rightarrow> s' | None \<Rightarrow> s1) else s1)"
  define s3 where "s3 = upd_doc did (\<lambda>r. let r = r\<lparr>dr_run := Some run, dr_progress := 0\<rparr> in
    if run = RUNNING \<and> delete = Some True then r\<lparr>dr_msg := [], dr_chunks := 0, dr_tokens := 0\<rparr> else r) s2"
  define s4 where "s4 = (if delete = Some True
    then let s' = delete_by_doc_ids [did] s3 in s'\<lparr>i_index := filter (\<lambda>(c, x). x \<noteq> did) (i_index s')\<rparr> else s3)"
  have 2: "i_tasks s2 = i_tasks s \<and> i_ticks s2 = i_ticks s"
    by (auto simp: s2_def s1_def clear_chunk_num_when_rerun_def split: option.split)
  have "set (i_tasks s4) \<subseteq> set (i_tasks s) \<and> i_ticks s4 = i_ticks s"
    using tasks_simps(5) [of "[did]" s3] 2 by (auto simp: s4_def s3_def Let_def)
  then have kept: "retry_kept E tid s s4" by (intro retry_kept_frame) simp_all
  have "s' = s \<or> (if run = RUNNING then map_prod id (map_sum id (\<lambda>_. True)) (run_document E d s4) else (s4, Inr True)) = (s', r)"
    using assms Some unfolding run_request_def s1_def s2_def s3_def s4_def by (auto simp: Let_def split: if_splits)
  then show ?thesis
  proof
    assume *: "(if run = RUNNING then map_prod id (map_sum id (\<lambda>_. True)) (run_document E d s4) else (s4, Inr True)) = (s', r)"
    show ?thesis
    proof (cases "run = RUNNING")
      case True
      then obtain r' where "run_document E d s4 = (s', r')" using * by (cases "run_document E d s4") auto
      from kept retry_kept_run_document [OF this] show ?thesis by (rule retry_kept_trans)
    qed (use * kept in simp)
  qed simp
qed (use assms in \<open>simp add: run_request_def\<close>)

lemma retry_kept_parse:
  assumes "parse_document E did s = (s', r)"
  shows "retry_kept E tid s s'"
proof (cases "by_id did (i_docs s)")
  case (Some d)
  define s1 where "s1 = upd_doc did (\<lambda>r. r\<lparr>dr_run := Some RUNNING, dr_progress := 0, dr_msg := [], dr_chunks := 0, dr_tokens := 0\<rparr>) s"
  define s2 where "s2 = delete_by_doc_ids [did] (s1\<lparr>i_index := filter (\<lambda>(c, x). x \<noteq> did) (i_index s1)\<rparr>)"
  have "set (i_tasks s2) \<subseteq> set (i_tasks s) \<and> i_ticks s2 = i_ticks s"
    using tasks_simps(5) [of "[did]" "s1\<lparr>i_index := filter (\<lambda>(c, x). x \<noteq> did) (i_index s1)\<rparr>"] by (auto simp: s2_def s1_def)
  then have kept: "retry_kept E tid s s2" by (intro retry_kept_frame) simp_all
  have "s' = s \<or> s' = s2 \<or> (\<exists>d' r'. queue_tasks E d' 0 s2 = (s', r'))"
    using assms Some unfolding parse_document_def s1_def [symmetric]
    by (auto simp: Let_def s1_def [symmetric] s2_def [symmetric] map_prod_def split: if_splits option.splits prod.splits)
  then show ?thesis using kept retry_kept_queue retry_kept_trans by blast
qed (use assms in \<open>simp add: parse_document_def\<close>)

lemma retry_kept_report:
  assumes "set_progress E x a b prog msg s = (s', c)"
  shows "retry_kept E tid s s'"
proof -
  obtain m p where "s' = s \<or> (\<exists>s1. task_update_progress x m p s = Some s1 \<and> s' = s1\<lparr>i_ticks := i_ticks s + 1\<rparr>)"
    using assms unfolding set_progress_def Let_def by (auto split: option.splits)
  moreover have "retry_kept E tid s (s1\<lparr>i_ticks := i_ticks s + 1\<rparr>)" if u: "task_update_progress x m p s = Some s1" for s1
  proof -
    obtain t where "fetchone (\<lambda>t. t_id t = x) (i_tasks s) = Some t"
      using u by (auto simp: task_update_progress_def split: option.splits)
    define s2 where "s2 = (if m = [] then s
      else upd_task x (\<lambda>r. r\<lparr>t_msg := trim_header_by_lines (t_msg t @ CHR 0x0A # m) 3000\<rparr>) s)"
    have 2: "retry_kept E tid s s2" by (simp add: s2_def retry_kept_upd_task)
    have "s1 = (case p of None \<Rightarrow> s2
        | Some q \<Rightarrow> upd_task x (\<lambda>r. if accepts_progress (t_progress r) q then r\<lparr>t_progress := q\<rparr> else r) s2)"
      using u \<open>fetchone (\<lambda>t. t_id t = x) (i_tasks s) = Some t\<close>
      by (auto simp: task_update_progress_def s2_def Let_def split: option.splits)
    then have "retry_kept E tid s2 s1" by (cases p) (auto intro!: retry_kept_upd_task)
    with 2 have "retry_kept E tid s s1" by (rule retry_kept_trans)
    moreover have "i_ticks s1 = i_ticks s"
      using \<open>s1 = _\<close> by (simp add: s2_def split: option.splits)
    ultimately show ?thesis by (simp add: retry_kept_def)
  qed
  ultimately show ?thesis by auto
qed

lemma retry_kept_sync: "retry_kept E tid s (update_progress E s)"
proof -
  have "i_tasks (fold (sync_doc E) xs s) = i_tasks s \<and> i_ticks (fold (sync_doc E) xs s) = i_ticks s" for xs
    by (induction xs arbitrary: s)
      (auto simp: sync_doc_other(1), auto simp: sync_doc_def Let_def split: option.split prod.split)
  then show ?thesis by (intro retry_kept_frame) (auto simp: update_progress_def)
qed

lemma retry_kept_counters:
  "retry_kept E tid s (increment_chunk_num x kb a b s)" "retry_kept E tid s (remove_document x s)"
  "stop_parsing x s = (s', r) \<Longrightarrow> retry_kept E tid s s'"
proof -
  show "retry_kept E tid s (increment_chunk_num x kb a b s)"
    by (intro retry_kept_frame) (simp_all add: increment_chunk_num_def)
  obtain s1 b where d: "delete_document_and_update_kb_counts x s = (s1, b)" by fastforce
  then have 1: "i_tasks s1 = i_tasks s \<and> i_ticks s1 = i_ticks s"
    by (auto simp: delete_document_and_update_kb_counts_def split: option.splits)
  show "retry_kept E tid s (remove_document x s)"
    using 1 tasks_simps(5) [of "[x]" "cancel_all_task_of x s1"]
    by (intro retry_kept_frame) (auto simp: remove_document_def d Let_def)
  show "stop_parsing x s = (s', r) \<Longrightarrow> retry_kept E tid s s'"
    by (intro retry_kept_frame) (auto simp: stop_parsing_def Let_def split: option.splits if_splits)
qed

subsection \<open>Deliveries\<close>

text \<open>Runs, with the ids of the tasks that were handed to a worker.\<close>

inductive ingest_run :: "ienv \<Rightarrow> ing \<Rightarrow> string list \<Rightarrow> ing \<Rightarrow> bool" for E where
  start: "ingest_run E s [] s"
| receive: "ingest_run E s ids s1 \<Longrightarrow> get_task E x doc_ids s1 = (s2, r) \<Longrightarrow>
    ingest_run E s (ids @ (if r = None then [] else [x])) s2"
| report: "ingest_run E s ids s1 \<Longrightarrow> set_progress E x a b prog msg s1 = (s2, c) \<Longrightarrow> ingest_run E s ids s2"
| chunks: "ingest_run E s ids s1 \<Longrightarrow> ingest_run E s ids (update_chunk_ids x cs (s1\<lparr>i_index := i_index s1 @ new\<rparr>))"
| counted: "ingest_run E s ids s1 \<Longrightarrow> ingest_run E s ids (increment_chunk_num did kb tokens n s1)"
| sync: "ingest_run E s ids s1 \<Longrightarrow> ingest_run E s ids (update_progress E s1)"
| request: "ingest_run E s ids s1 \<Longrightarrow> run_request E did run delete s1 = (s2, q) \<Longrightarrow> ingest_run E s ids s2"
| parse: "ingest_run E s ids s1 \<Longrightarrow> parse_document E did s1 = (s2, q) \<Longrightarrow> ingest_run E s ids s2"
| stop: "ingest_run E s ids s1 \<Longrightarrow> stop_parsing did s1 = (s2, q) \<Longrightarrow> ingest_run E s ids s2"
| remove: "ingest_run E s ids s1 \<Longrightarrow> ingest_run E s ids (remove_document did s1)"

text \<open>The deliveries so far are at most three and at most what every row of the task says.\<close>

definition deliveries_ok :: "ienv \<Rightarrow> string \<Rightarrow> ing \<Rightarrow> string list \<Rightarrow> ing \<Rightarrow> bool" where
  "deliveries_ok E tid s ids s' \<longleftrightarrow> i_ticks s \<le> i_ticks s' \<and> count_list ids tid \<le> 3
     \<and> (\<forall>t\<in>set (i_tasks s'). t_id t = tid \<longrightarrow> count_list ids tid \<le> t_retry t)"

lemma deliveries_kept:
  assumes "deliveries_ok E tid s ids s1" and "retry_kept E tid s1 s2" and "\<forall>m\<ge>i_ticks s. ie_uuid E m \<noteq> tid"
  shows "deliveries_ok E tid s ids s2"
proof -
  have ticks: "i_ticks s \<le> i_ticks s1" "i_ticks s1 \<le> i_ticks s2"
    using assms by (auto simp: deliveries_ok_def retry_kept_def)
  then have "\<not> (\<exists>m\<ge>i_ticks s1. ie_uuid E m = tid)" using assms(3) le_trans [OF ticks(1)] by blast
  then have "count_list ids tid \<le> t_retry t'" if t': "t' \<in> set (i_tasks s2)" "t_id t' = tid" for t'
  proof -
    from assms(2) t' \<open>\<not> _\<close> obtain t where "t \<in> set (i_tasks s1)" "t_id t = tid" "t_retry t = t_retry t'"
      unfolding retry_kept_def by blast
    with assms(1) show ?thesis by (auto simp: deliveries_ok_def)
  qed
  with assms(1) ticks show ?thesis by (auto simp: deliveries_ok_def)
qed

lemma deliveries_receive:
  assumes "deliveries_ok E tid s ids s1" and "get_task E x doc_ids s1 = (s2, r)"
  shows "deliveries_ok E tid s (ids @ (if r = None then [] else [x])) s2"
proof (cases "s2 = s1 \<and> r = None")
  case True
  then show ?thesis using assms(1) by simp
next
  case False
  then obtain t d where f: "fetchone (\<lambda>t. t_id t = x) (i_tasks s1) = Some t" "join_doc doc_ids t s1 = Some d"
    using assms(2) by (auto simp: get_task_def split: option.splits)
  obtain msg prog where s2: "s2 = (upd_task x (\<lambda>r. r\<lparr>t_msg := t_msg r @ msg, t_progress := prog, t_retry := t_retry t + 1\<rparr>) s1)
      \<lparr>i_ticks := i_ticks s1 + 1\<rparr>" and r: "r = None \<longleftrightarrow> 3 \<le> t_retry t"
    using assms(2) f by (auto simp: get_task_def Let_def split: if_splits)
  have t: "t \<in> set (i_tasks s1)" "t_id t = x" using f(1) fetchone_SomeD by fastforce+
  show ?thesis
  proof (cases "x = tid")
    case True
    then have "count_list ids tid \<le> t_retry t" using assms(1) t by (auto simp: deliveries_ok_def)
    moreover have "t_retry t' = t_retry t + 1" if t': "t' \<in> set (i_tasks s2)" "t_id t' = tid" for t'
    proof -
      from t'(1) have "t' \<in> (\<lambda>u. if t_id u = x then u\<lparr>t_msg := t_msg u @ msg, t_progress := prog,
          t_retry := t_retry t + 1\<rparr> else u) ` set (i_tasks s1)"
        unfolding s2 by (simp add: upd_task_def set_update_where)
      then obtain u where u: "t' = (if t_id u = x then u\<lparr>t_msg := t_msg u @ msg, t_progress := prog,
          t_retry := t_retry t + 1\<rparr> else u)" by (rule imageE)
      with t'(2) True show ?thesis by (cases "t_id u = x") simp_all
    qed
    moreover have "count_list (ids @ (if r = None then [] else [x])) tid
        = count_list ids tid + (if 3 \<le> t_retry t then 0 else 1)" using r True by simp
    moreover have "i_ticks s1 \<le> i_ticks s2" by (simp add: s2)
    moreover have "i_ticks s \<le> i_ticks s1" "count_list ids tid \<le> 3" using assms(1) by (auto simp: deliveries_ok_def)
    ultimately show ?thesis unfolding deliveries_ok_def by auto
  next
    case False
    have "t' \<in> set (i_tasks s1)" if "t' \<in> set (i_tasks s2)" "t_id t' = tid" for t'
      using that False by (auto simp: s2 upd_task_def set_update_where split: if_splits)
    moreover have "count_list (ids @ (if r = None then [] else [x])) tid = count_list ids tid" using False by simp
    moreover have "i_ticks s1 \<le> i_ticks s2" by (simp add: s2)
    ultimately show ?thesis using assms(1) unfolding deliveries_ok_def by auto
  qed
qed

text \<open>
  C24: however messages are delivered again, reports arrive, documents are started, stopped and removed: a task is handed
  out three times at most, if its id is not issued a second time.
\<close>

theorem handed_out_three_times:
  assumes "ingest_run E s ids s'" and "\<forall>m\<ge>i_ticks s. ie_uuid E m \<noteq> tid"
  shows "count_list ids tid \<le> 3"
proof -
  from assms have "deliveries_ok E tid s ids s'"
  proof (induction rule: ingest_run.induct)
    case (start s)
    then show ?case by (simp add: deliveries_ok_def)
  next
    case (receive s ids s1 x doc_ids s2 r)
    then show ?case using deliveries_receive by blast
  next
    case (chunks s ids s1 x cs new)
    have "retry_kept E tid s1 (s1\<lparr>i_index := i_index s1 @ new\<rparr>)" by (intro retry_kept_frame) simp_all
    moreover have "retry_kept E tid (s1\<lparr>i_index := i_index s1 @ new\<rparr>) (update_chunk_ids x cs (s1\<lparr>i_index := i_index s1 @ new\<rparr>))"
      by (simp add: update_chunk_ids_def retry_kept_upd_task)
    ultimately show ?case using chunks deliveries_kept retry_kept_trans by blast
  qed (blast intro: deliveries_kept retry_kept_report retry_kept_counters retry_kept_sync retry_kept_request retry_kept_parse)+
  then show ?thesis by (simp add: deliveries_ok_def)
qed

theorem handed_out_three_times_witness:
  "\<exists>s'. ingest_run sample_env half_done [''old''] s' \<and> count_list [''old''] ''old'' \<le> 3"
proof -
  obtain s1 r where g: "get_task sample_env ''old'' [] half_done = (s1, r)" by fastforce
  have "snd (get_task sample_env ''old'' [] half_done) \<noteq> None"
    by (simp add: get_task_def half_done_def sample_ing_def done_task_def join_doc_def by_id_def sample_doc_def sample_kb_def Let_def)
  with g have "r \<noteq> None" by simp
  with ingest_run.receive [OF ingest_run.start g] have run: "ingest_run sample_env half_done [''old''] s1" by auto
  have "\<forall>m\<ge>i_ticks half_done. ie_uuid sample_env m \<noteq> ''old''" by (simp add: sample_env_def)
  from handed_out_three_times [OF run this] run show ?thesis by blast
qed

subsection \<open>Counters\<close>

definition total_of :: "(doc_row \<Rightarrow> int) \<Rightarrow> string \<Rightarrow> doc_row list \<Rightarrow> int" where
  "total_of g kb rows = sum_list (map g (filter (\<lambda>d. dr_kb d = kb) rows))"

lemma total_simps [simp]:
  "total_of g kb [] = 0" "total_of g kb (d # rows) = (if dr_kb d = kb then g d else 0) + total_of g kb rows"
  "total_of g kb (rows @ rows') = total_of g kb rows + total_of g kb rows'"
  by (simp_all add: total_of_def)

lemma by_id_simps [simp]:
  "by_id x [] = None" "by_id x (d # rows) = (if dr_id d = x then Some d else by_id x rows)"
  by (simp_all add: by_id_def)

lemma by_id_None: "by_id x rows = None \<longleftrightarrow> x \<notin> dr_id ` set rows"
  by (induction rows) auto

lemma total_update_absent:
  "x \<notin> dr_id ` set rows \<Longrightarrow> update_where (\<lambda>d. dr_id d = x) f rows = rows \<and> delete_where (\<lambda>d. dr_id d = x) rows = rows"
  by (induction rows) auto

lemma total_update:
  assumes "distinct (map dr_id rows)" and "by_id x rows = Some d" and "dr_kb (f d) = dr_kb d"
  shows "total_of g kb (update_where (\<lambda>d. dr_id d = x) f rows) = total_of g kb rows + (if dr_kb d = kb then g (f d) - g d else 0)"
  using assms by (induction rows) (auto simp: total_update_absent split: if_splits)

lemma total_delete:
  assumes "distinct (map dr_id rows)" and "by_id x rows = Some d"
  shows "total_of g kb (delete_where (\<lambda>d. dr_id d = x) rows) = total_of g kb rows - (if dr_kb d = kb then g d else 0)"
  using assms by (induction rows) (auto simp: total_update_absent split: if_splits)

lemma total_kept:
  assumes "\<And>d. dr_kb (f d) = dr_kb d \<and> g (f d) = g d"
  shows "total_of g kb (update_where (\<lambda>d. dr_id d = x) f rows) = total_of g kb rows"
  using assms by (induction rows) auto

text \<open>The counters of a knowledge base are the sums over its documents.\<close>

definition counts_ok :: "ing \<Rightarrow> bool" where
  "counts_ok s \<longleftrightarrow> distinct (map dr_id (i_docs s)) \<and> (\<forall>k\<in>set (i_kbs s).
     kb_tokens k = total_of dr_tokens (kb_rid k) (i_docs s) \<and> kb_chunks k = total_of dr_chunks (kb_rid k) (i_docs s)
     \<and> kb_docs k = total_of (\<lambda>_. 1) (kb_rid k) (i_docs s))"

text \<open>What workers and the requests that insert and remove documents and chunks do to the tables.\<close>

inductive count_step :: "ienv \<Rightarrow> ing \<Rightarrow> ing \<Rightarrow> bool" for E where
  insert: "dr_id d \<notin> dr_id ` set (i_docs s) \<Longrightarrow> dr_tokens d = 0 \<Longrightarrow> dr_chunks d = 0 \<Longrightarrow> count_step E s (insert_document d s)"
| counted: "by_id did (i_docs s) = Some d \<Longrightarrow> count_step E s (increment_chunk_num did (dr_kb d) tokens n s)"
| uncounted: "by_id did (i_docs s) = Some d \<Longrightarrow> decrement_chunk_num did (dr_kb d) tokens n s = Some s' \<Longrightarrow> count_step E s s'"
| removed: "count_step E s (remove_document did s)"
| synced: "count_step E s (update_progress E s)"
| begun: "count_step E s (begin2parse E did keep s)"
| received: "get_task E x dids s = (s', r) \<Longrightarrow> count_step E s s'"
| reported: "set_progress E x a b prog msg s = (s', c) \<Longrightarrow> count_step E s s'"

lemma counts_ok_frame:
  assumes "counts_ok s" and "i_kbs s' = i_kbs s" and "map dr_id (i_docs s') = map dr_id (i_docs s)"
    and "\<And>kb. total_of dr_tokens kb (i_docs s') = total_of dr_tokens kb (i_docs s)"
    and "\<And>kb. total_of dr_chunks kb (i_docs s') = total_of dr_chunks kb (i_docs s)"
    and "\<And>kb. total_of (\<lambda>_. 1) kb (i_docs s') = total_of (\<lambda>_. 1) kb (i_docs s)"
  shows "counts_ok s'"
  using assms by (simp add: counts_ok_def)

lemma ids_update: "(\<And>d. dr_id (f d) = dr_id d) \<Longrightarrow> map dr_id (update_where (\<lambda>d. dr_id d = x) f rows) = map dr_id rows"
  by (induction rows) auto

lemma counts_ok_upd_doc:
  assumes "counts_ok s"
    and "\<And>d. dr_id (f d) = dr_id d \<and> dr_kb (f d) = dr_kb d \<and> dr_tokens (f d) = dr_tokens d \<and> dr_chunks (f d) = dr_chunks d"
  shows "counts_ok (upd_doc x f s)"
  using assms by (intro counts_ok_frame [OF assms(1)]) (simp_all add: upd_doc_def total_kept ids_update)

lemma counts_ok_increment:
  assumes "counts_ok s" and "by_id did (i_docs s) = Some d"
  shows "counts_ok (increment_chunk_num did (dr_kb d) tokens n s)"
  using assms unfolding counts_ok_def increment_chunk_num_def upd_kb_def upd_doc_def
  by (auto simp: total_update ids_update set_update_where)

lemma counts_ok_insert:
  assumes "counts_ok s" and "dr_id d \<notin> dr_id ` set (i_docs s)" and "dr_tokens d = 0" and "dr_chunks d = 0"
  shows "counts_ok (insert_document d s)"
  using assms unfolding counts_ok_def insert_document_def upd_kb_def by (auto simp: set_update_where)

lemma distinct_ids_delete: "distinct (map dr_id rows) \<Longrightarrow> distinct (map dr_id (delete_where P rows))"
  by (induction rows) (auto simp: delete_where_def)

lemma counts_ok_delete:
  assumes "counts_ok s"
  shows "counts_ok (fst (delete_document_and_update_kb_counts did s))"
proof (cases "by_id did (i_docs s)")
  case (Some d)
  with assms show ?thesis
    unfolding counts_ok_def delete_document_and_update_kb_counts_def upd_kb_def
    by (auto simp: total_delete set_update_where distinct_ids_delete)
qed (use assms in \<open>simp add: delete_document_and_update_kb_counts_def\<close>)

lemma counts_ok_remove:
  assumes "counts_ok s"
  shows "counts_ok (remove_document did s)"
proof -
  have "i_kbs (remove_document did s) = i_kbs (fst (delete_document_and_update_kb_counts did s))"
    "i_docs (remove_document did s) = i_docs (fst (delete_document_and_update_kb_counts did s))"
    by (auto simp: remove_document_def cancel_all_task_of_def delete_by_doc_ids_def Let_def split: prod.splits)
  with counts_ok_delete [OF assms, of did] show ?thesis by (simp add: counts_ok_def)
qed

lemma counts_ok_sync: "counts_ok s \<Longrightarrow> counts_ok (sync_doc E x s)"
  by (auto simp: sync_doc_def Let_def intro: counts_ok_upd_doc split: option.split prod.split)

lemma counts_ok_task: "counts_ok s \<Longrightarrow> counts_ok (upd_task x f s)"
  by (simp add: counts_ok_def upd_task_def)

lemma counts_ok_ticks: "counts_ok (s\<lparr>i_ticks := n\<rparr>) = counts_ok s"
  by (simp add: counts_ok_def)

lemma count_step_ok:
  assumes "counts_ok s" and "count_step E s t"
  shows "counts_ok t"
  using assms(2,1)
proof cases
  case (uncounted did d tokens n)
  then show ?thesis using assms(1) by (auto simp: decrement_chunk_num_def intro: counts_ok_increment split: if_splits)
next
  case synced
  have "counts_ok (fold (sync_doc E) xs s)" for xs
    using assms(1) by (induction xs arbitrary: s) (simp_all add: counts_ok_sync)
  then show ?thesis using synced by (simp add: update_progress_def)
next
  case (begun did keep)
  then show ?thesis using assms(1) by (auto simp: begin2parse_def counts_ok_ticks Let_def intro!: counts_ok_upd_doc)
next
  case (received x dids r)
  then show ?thesis using assms(1)
    by (auto simp: get_task_def Let_def counts_ok_ticks counts_ok_task split: option.splits if_splits)
next
  case (reported x a b prog msg c)
  have "counts_ok s'" if "task_update_progress x m p s = Some s'" for m p s'
    using that assms(1) by (auto simp: task_update_progress_def Let_def counts_ok_task split: option.splits if_splits)
  then show ?thesis using reported assms(1)
    by (auto simp: set_progress_def Let_def counts_ok_ticks split: option.splits)
qed (auto intro: assms counts_ok_insert counts_ok_increment counts_ok_remove)

interpretation counters: invariant_system counts_ok "count_step E" counts_ok
  by unfold_locales (auto intro: count_step_ok)



text \<open>The requests that parse a document again reset its counters, but not those of its knowledge base.\<close>

lemma queue_tasks_tokens:
  "i_kbs (fst (queue_tasks E d p s)) = i_kbs s
   \<and> total_of dr_tokens kb (i_docs (fst (queue_tasks E d p s))) = total_of dr_tokens kb (i_docs s)"
proof -
  define fresh where "fresh = make_tasks E d p (i_ticks s)"
  define s0 where "s0 = s\<lparr>i_ticks := i_ticks s + length fresh\<rparr>"
  define prevs where "prevs = get_tasks (dr_id d) s0"
  obtain ts ps n where re: "(if prevs = [] then (fresh, [], 0) else reuse_all (ie_stamp E (i_ticks s0)) fresh prevs) = (ts, ps, n)"
    by (metis prod_cases3)
  define s1 where "s1 = (if prevs = [] then s0 else delete_by_doc_ids [dr_id d] s0)"
  define s2 where "s2 = upd_doc (dr_id d) (\<lambda>r. r\<lparr>dr_chunks := int n\<rparr>) (drop_chunks (chunks_of ps) s1)"
  define s3 where "s3 = begin2parse E (dr_id d) False (s2\<lparr>i_tasks := i_tasks s2 @ ts\<rparr>)"
  have 1: "i_kbs s1 = i_kbs s \<and> i_docs s1 = i_docs s" by (simp add: s1_def s0_def delete_by_doc_ids_def)
  then have 2: "i_kbs s2 = i_kbs s \<and> total_of dr_tokens kb (i_docs s2) = total_of dr_tokens kb (i_docs s)"
    by (simp add: s2_def upd_doc_def drop_chunks_def total_kept)
  then have 3: "i_kbs s3 = i_kbs s \<and> total_of dr_tokens kb (i_docs s3) = total_of dr_tokens kb (i_docs s)"
    by (simp add: s3_def) (simp add: begin2parse_def upd_doc_def total_kept Let_def)
  have "fst (queue_tasks E d p s) \<in> {s0, s1, s2, fst (push_all E p (filter (\<lambda>t. t_progress t < 1) ts) s3)}"
    using re unfolding queue_tasks_def Let_def fresh_def [symmetric] s0_def [symmetric] prevs_def [symmetric] s1_def [symmetric]
    by (simp add: s2_def s3_def)
  moreover have "i_kbs (fst (push_all E p us s3)) = i_kbs s3 \<and> i_docs (fst (push_all E p us s3)) = i_docs s3" for us
    using push_all_frame [of E p us s3] by (metis prod.collapse)
  ultimately show ?thesis using 1 2 3 by (auto simp: s0_def)
qed

lemma reparse_breaks_counts:
  assumes "counts_ok s" and "by_id did (i_docs s) = Some d" and "dr_run d \<noteq> Some RUNNING" and "dr_tokens d \<noteq> 0"
    and "k \<in> set (i_kbs s)" and "kb_rid k = dr_kb d"
  shows "\<not> counts_ok (fst (parse_document E did s))"
proof -
  define reset where "reset = (\<lambda>r :: doc_row. r\<lparr>dr_run := Some RUNNING, dr_progress := 0, dr_msg := [], dr_chunks := 0, dr_tokens := 0\<rparr>)"
  define s1 where "s1 = upd_doc did reset s"
  define s2 where "s2 = delete_by_doc_ids [did] (s1\<lparr>i_index := filter (\<lambda>(c, x). x \<noteq> did) (i_index s1)\<rparr>)"
  have "by_id did (i_docs s2) = Some (reset d)"
    using assms(2) by (simp add: s2_def s1_def delete_by_doc_ids_def upd_doc_def by_id_update reset_def)
  then have s': "fst (parse_document E did s) = fst (queue_tasks E (reset d) 0 s2)"
    using assms(2,3) by (simp add: parse_document_def Let_def s1_def [symmetric] reset_def [symmetric] s2_def [symmetric])
  have "i_kbs s2 = i_kbs s" by (simp add: s2_def s1_def delete_by_doc_ids_def upd_doc_def)
  moreover have "total_of dr_tokens (dr_kb d) (i_docs s2) = total_of dr_tokens (dr_kb d) (i_docs s) - dr_tokens d"
    using assms(1,2) by (simp add: s2_def s1_def delete_by_doc_ids_def upd_doc_def counts_ok_def total_update reset_def)
  moreover have "kb_tokens k = total_of dr_tokens (dr_kb d) (i_docs s)"
    using assms(1,5,6) by (simp add: counts_ok_def)
  ultimately show ?thesis
    using queue_tasks_tokens [of E "reset d" 0 s2 "dr_kb d"] assms(4-6) by (auto simp: counts_ok_def s' intro!: bexI [of _ k])
qed

end
