(* ===== verification/Spec2Isabelle.thy ===== *)
theory Spec2Isabelle
  imports StoreProperties GatewayProperties QmsProperties AgentScheduling AgentTextProperties AgentDslProperties
    RagTree RagFlow RagRetrieval RagMeta IngestRuns
begin

text \<open>
  The extension of this RAGFlow fork, \<open>src/extensions/qms_agent_backend\<close>: the QMS agent portal, a
  Flask service with its own accounts, departments, sharing of knowledge bases and chat sessions in front
  of RAGFlow; and the QMS agent service, a smaller HTTP server with a long-term memory per user.  And
  RAGFlow's agent engine, \<open>src/agent\<close>: the scheduler, the components that compute and steer, and the
  migration of old agents.  And of the pipeline of documents: the tasks of their
  ingestion (\<open>src/api/db/services/task_service.py\<close>, \<open>document_service.py\<close>), cutting them into chunks
  (\<open>src/rag/nlp/__init__.py\<close>, \<open>src/rag/flow/chunker/token_chunker.py\<close>), finding the chunks again
  (\<open>src/rag/nlp/search.py\<close>, \<open>query.py\<close>), and filtering by metadata (\<open>src/common/metadata_utils.py\<close>).
  This theory is the root of the development and holds the properties that span its components.

  \<^bold>\<open>The program.\<close>  \<open>PortalStore\<close> (\<open>portal_store.py\<close>) keeps users, departments, policies of
  resources, shares, share requests, sessions, messages and the audit log in SQLite; every method opens
  a connection and commits on its own.  \<open>PortalGateway\<close> (\<open>portal_server.py\<close>) keeps the configuration
  and an in-memory registry of chat sessions, calls the store and RAGFlow, and decides who may do what.
  \<open>create_app\<close> wraps its methods into HTTP views, which check the token, validate the body, write the
  audit log and turn exceptions into status codes.  Beside the portal runs \<open>QMSAgentService\<close>
  (\<open>qms_agent_service.py\<close>, \<open>memory_store.py\<close>, \<open>server.py\<close>), which shares no state with it: it puts what it
  remembers of a user into the prompt, asks RAGFlow, and learns from questions, answers and corrections.
  An agent of RAGFlow is a graph of components (\<open>agent/component/*.py\<close>) on a canvas (\<open>agent/canvas.py\<close>), each
  with named outputs; a component reads the outputs of others by references such as \<open>{id@name.path}\<close>.
  \<open>Canvas.run\<close> calls the components in rounds along a path, to which each component appends its successors.
  To ingest a document, \<open>queue_tasks\<close> divides it into tasks, which workers receive through Redis and report on
  (\<open>src/rag/svr/task_executor.py\<close>); \<open>DocumentService\<close> keeps its status and the counters of its knowledge base.
  A document is a list of sections, texts with a layout or a position.  They become chunks in one of two ways: by
  size (\<open>naive_merge\<close> and its variants with images and tables, and the component \<open>TokenChunker\<close>), or by the
  titles among them (\<open>tree_merge\<close> and \<open>hierarchical_merge\<close>, which know five groups of title patterns).
  \<open>Dealer.retrieval\<close> asks the search engine for a window of hits, scores them, and cuts the page from them; mother
  chunks may take the place of their children, and a filter over metadata restricts the documents.

  \<^bold>\<open>The model.\<close>
  \<^item> \<open>Prelude\<close>: text functions of Python on byte strings, outcomes (state and error or result), tables
    as lists of rows with the SQL operations the store uses, and the locales of the interfaces
    (\<open>keyed_map\<close>, \<open>guarded_op\<close>, \<open>invariant_system\<close>, \<open>codec\<close>).
  \<^item> \<open>PortalSchema\<close>: the tables of \<open>_init_db\<close> as records, the database \<open>db\<close>, the surroundings \<open>env\<close>
    (clock, fresh identifiers, PBKDF2 and HMAC as parameters, read at the number of ticks so far), the
    errors, and the invariant \<open>db_ok\<close> of keys and sequences.
  \<^item> \<open>PortalPerm\<close>, \<open>PortalUsers\<close>, \<open>PortalShares\<close>, \<open>PortalPolicies\<close>, \<open>PortalSessions\<close>, \<open>PortalRequests\<close>:
    the methods of \<open>PortalStore\<close>, in this order, one definition each, with their frame conditions, the
    preservation of \<open>db_ok\<close> and what they do to the tables.  \<open>StoreInvariant\<close> adds \<open>store_ok\<close> (rows whose
    masks the gateway may grant) and the locale \<open>store_ops\<close>: an invariant kept by every store method.
  \<^item> \<open>PortalJson\<close>, \<open>PortalDsl\<close>, \<open>PortalToken\<close>: JSON as the code writes and reads it, the search for
    knowledge bases in an agent's DSL (depth bounded by 10 and 8 as in the code), and access tokens with
    their base64url.
  \<^item> \<open>GatewayShare\<close>, \<open>GatewayTypes\<close>, \<open>GatewaySession\<close>, \<open>GatewayChat\<close>, \<open>GatewayKb\<close>: the methods of
    \<open>PortalGateway\<close>, on the state \<open>gw\<close> (database, session registry, and the log of the calls made to
    other services).  RAGFlow and the chat service are the functions of the record \<open>rag\<close>, which answer
    each call by its number and arguments, or raise.
  \<^item> \<open>PortalRoutes\<close>, \<open>PortalRoutesKb\<close>: the view functions with their validation, audit rows and answers.
    \<open>GatewayInvariant\<close>: every gateway method and every view keeps an invariant that the store keeps
    (locale \<open>gateway_ops\<close>).
  \<^item> \<open>Portal\<close>: configuration, start-up, the dispatch \<open>handle\<close> of a request, and the step relation
    \<open>portal_step\<close> of the server.  \<open>PortalInvariant\<close> interprets the locales: \<open>store_ok\<close>, the append-only
    audit log, unique logins, and interleaved store transactions.
  \<^item> \<open>Samples\<close>: a concrete portal on which the properties are instantiated.  \<open>StoreProperties\<close>,
    \<open>GatewayProperties\<close> and this theory: the properties.

  \<^item> \<open>QmsText\<close>: Python text as code points and the service's regular expressions.  \<open>QmsMemory\<close>: the tables
    and methods of \<open>MemoryStore\<close>.  \<open>QmsService\<close>: the methods of \<open>QMSAgentService\<close>, RAGFlow being the record
    \<open>qms_api\<close>.  \<open>QmsServer\<close>: the HTTP handlers and the step relation.  \<open>QmsInvariant\<close>: what all of this
    keeps (locales \<open>user_write\<close> and \<open>request_kept\<close>).  \<open>QmsProperties\<close>: its properties.
  \<^item> \<open>AgentValues\<close>: the values of an agent's variables with their equality and order, references, reading
    and writing through paths, and the templates of \<open>get_value_with_variable\<close>.  \<open>AgentOps\<close>: \<open>ListOperations\<close>,
    \<open>DataOperations\<close>, \<open>VariableAssigner\<close>, \<open>VariableAggregator\<close>.  \<open>AgentFlow\<close>: \<open>Switch\<close>, \<open>Iteration\<close> and
    \<open>Loop\<close> with their items.  \<open>AgentText\<close>: splitting, streamed messages, categories.  \<open>AgentDsl\<close>:
    \<open>dsl_migration.py\<close>.  \<open>AgentCanvas\<close>: the graph, the state \<open>canvas\<close> of a conversation and one call of a
    component with its error handling (\<open>base.py\<close>); components that are not modelled are a function of the
    record \<open>engine\<close>, like the language model and the clock.  \<open>AgentRun\<close>: \<open>Canvas.run\<close>, the step relation
    \<open>round_step\<close> of its rounds, in which the calls happen in any order.  \<open>AgentSchedule\<close>: what calls and
    rounds keep (locale \<open>run_kept\<close>).  \<open>AgentProperties\<close>, \<open>AgentLoops\<close>, \<open>AgentTextProperties\<close>,
    \<open>AgentDslProperties\<close>, \<open>AgentScheduling\<close>: the properties.
  \<^item> \<open>RagText\<close>: regular expressions (their matching as a list of remainders, with its specification), splitting at
    delimiters, sentences, tags of positions.  \<open>RagSections\<close>: titles, the tree of titles, tree merge and hierarchical merge;
    \<open>RagOutline\<close> and \<open>RagTree\<close>: their properties.  \<open>RagChunks\<close>: merging by size; \<open>RagChunking\<close>: its
    properties.  \<open>RagFlow\<close>: \<open>TokenChunker\<close>.  \<open>RagSearch\<close>: similarity, retrieval with its pages, mother
    chunks, tables of contents; \<open>RagRetrieval\<close>: its properties.  \<open>RagMeta\<close>: conditions on metadata, merging
    of metadata, schemas.  The number of tokens of a text, the pasting of images and the search engine with its scores
    (record \<open>searcher\<close>) are parameters, of which nothing is assumed but what a theorem states.
  \<^item> \<open>IngestTasks\<close>: the tables of tasks, documents and knowledge bases, the operations of \<open>TaskService\<close> and
    \<open>DocumentService\<close> on them, \<open>queue_tasks\<close>, and the requests \<open>run\<close>, \<open>parse\<close> and \<open>stop_parsing\<close>, on the state \<open>ing\<close>;
    clock, ids, hash, Redis and the sizes of files are the record \<open>ienv\<close>.  \<open>IngestProperties\<close>: one operation at a time;
    \<open>IngestRuns\<close>: runs of workers and requests in any order (the locale \<open>invariant_system\<close> for the counters).

  \<^bold>\<open>What is shown.\<close>  Safety of the whole server (reachable states, tokens, audit log, logins,
  interleaving); the sharing workflow: what a request, its review, a direct share, a share to departments
  and a recall do to the grants, as updates of a map from (knowledge base, user) to masks, and that none
  exceeds the rights of the one who asked; the permission check against its specification; sessions and
  questions; deletion and clean-up; termination of the loops where they terminate.  For the agent service:
  bounds and consistency of the memory in all reachable states, isolation of its users, what a question,
  a decay and a failure leave behind, and the number of calls at start-up.  For the agent engine: an
  iteration is a map over its list, a loop ends, a switch takes the first condition that holds, sorting is
  stable, a category is the most mentioned one, a streamed message is its filled template, migration is
  idempotent; the scheduler runs a chain in order, calls no component before those it refers to stand
  in the path, and stops at unhandled errors; and what writing a variable and combining objects do.  For ingestion: the
  tasks of a PDF cover its pages once, queueing again keeps or deletes every chunk, a task is handed out three times at
  most, status and progress of a document are those of its tasks, and the counters add up.  For documents:
  merging loses no text and keeps the order, a chunk exceeds the size by less than its last section, images do not
  change the texts, a line stands in its chunk behind all titles that enclose it, every body text is in exactly one
  chunk; the pages of a window show every hit once and in order and lie where the ranking has them; what conditions
  joined by \<open>and\<close> and \<open>or\<close> select.  Some
  properties and lemmas state behaviour that is hardly intended: an approval that fails but stays recorded, a recall that
  reaches other knowledge bases, an upload that takes ownership, a claim that drops lists, share chains
  without end, a restart that revives a deleted administrator, errors of components that never go away,
  forms that are never continued, a PDF without pages that is never finished, counters that are not
  given back, a plain text that is never split, headings that collapse into one level,
  conditions that are ignored.

  \<^bold>\<open>Bounds.\<close>  Text is a list of bytes (UTF-8); case mapping is that of ASCII.  Loops over lists are
  structural; the two loops without a bound in the code (\<open>get_share_chain\<close> and the pages of agents)
  are \<open>partial_function (option)\<close>, so that not returning is \<^term>\<open>None\<close>, and the theorems on them say
  when they return.  The rounds of a run need not end and take fuel, one unit for each and one for the
  end.  The rounds of an iteration and a loop take fuel; one unit more than the items, or
  than the maximum of the loop, is shown to be enough.  Integers are Python's, unbounded, except that SQLite
  refuses share identifiers beyond 64 bits.  The weights of memories are rationals; every operation on them is followed by a rounding
  function, of which the theorems ask what the rounding of doubles satisfies (\<open>double_rounding\<close>).  Texts of documents are lists of code points; scores and the percentage of overlap
  are rationals, so their rounding is not modelled; the loops over sections, batches and the binary search are
  functions with a proof of termination.

  \<^bold>\<open>Not modelled.\<close>  SQL migration of old database files, the static pages and CORS headers, the HTTP
  client and its retries inside RAGFlow's SDK, logging.  \<open>get_runtime_session\<close> and the gateway's
  \<open>is_admin\<close> are never called.  Of the agent
  engine: cancellation, values that are streams (and with them the order of events of streamed messages,
  and speech), references to retrieved chunks, sharing of one mutable value by two variables (but in
  \<open>combine\<close>), NaN and infinite floats, and the components that call services or document libraries.  Of ingestion: the worker's own
  work between two reports, tasks of a whole knowledge base, dates and durations.  Of the
  documents: \<open>remove_contents_table\<close>, the random samples of \<open>is_english\<close>, \<open>attach_media_context\<close>, the positions
  in a PDF, citations, tags, and rank features.  The rest of the repository (parsers and their models, the API
  server, connectors, the web front end) is RAGFlow itself, which this code only calls.
\<close>

lemma started: "initial env0 cfg0 rag0 (fst (start_portal env0 cfg0 rag0 blank_gw))"
proof -
  have "\<not> isl (seed_defaults env0 (empty_db :: reference db))" by code_simp
  then obtain s where "seed_defaults env0 (empty_db :: reference db) = Inr s"
    by (cases "seed_defaults env0 (empty_db :: reference db)") simp_all
  then have "snd (start_portal env0 cfg0 rag0 blank_gw) = Inr ()"
    by (simp add: start_portal_def blank_gw_def split: sum.split)
  then show ?thesis by (simp add: initial_def prod_eq_iff)
qed

text \<open>
  C1: every state the portal can reach from an empty database file satisfies the schema and the row
  conditions: start-up, any sequence of requests with any headers and bodies, restarts, and whatever
  RAGFlow and the chat service answer.  Keys are unique, sequence numbers grow, and every stored mask is
  one the gateway may grant.
\<close>

theorem reachable_store_ok:
  assumes "initial E C R g0" and "(portal_step E C R wc)\<^sup>*\<^sup>* g0 g"
  shows "store_ok (store g)"
  by (rule server.reachable_inv [OF assms])

theorem reachable_store_ok_witness:
  "store_ok (store (upd_store tick (fst (start_portal env0 cfg0 rag0 blank_gw))))"
  by (rule reachable_store_ok [OF started r_into_rtranclp]) (rule portal_step.clock [where wc = "\<lambda>_. False"])



lemma strip_plain:
  assumes "\<And>c. c \<in> set s \<Longrightarrow> \<not> is_space c"
  shows "str_strip s = s"
proof -
  have "dropWhile is_space xs = xs" if "\<And>c. c \<in> set xs \<Longrightarrow> \<not> is_space c" for xs
    using that by (cases xs) auto
  from this [of s] this [of "rev s"] assms show ?thesis by (simp add: str_strip_def)
qed

lemma b64_char_no_space: "c \<in> set (b64url_encode xs) \<Longrightarrow> \<not> is_space c"
proof -
  have "\<not> is_space (b64_char n)" if "n < 64" for n
    using that by (auto simp: is_space_def b64_char_def Let_def)
  then show "c \<in> set (b64url_encode xs) \<Longrightarrow> \<not> is_space c"
    using b64url_encode_chars [of xs] by blast
qed

lemma token_no_space: "c \<in> set (create_token E key t) \<Longrightarrow> \<not> is_space c"
  by (auto simp: create_token_def Let_def dest: b64_char_no_space) (simp add: is_space_def)

text \<open>
  C3: the token a login returns authenticates later requests, in any later state, as the account
  that logged in and with the departments it had at login, until the clock passes its lifetime; after that
  it is refused.
\<close>

theorem login_token_authenticates:
  assumes "login E C name pw g = (g', Some r)"
  shows "\<exists>u t. authenticate_user E name pw (store g) = Some u \<and> lr_user_id r = pu_user_id u \<and>
    token_user t = pu_user_id u \<and>
    token_depts t = normalize_dept_id ` dv_dept_id ` set (get_user_departments (pu_user_id u) (store g)) \<and>
    auth_payload E C (''Bearer '' @ lr_access_token r) h =
      (if epoch_now E (ticks (store g)) + token_ttl_seconds C < epoch_now E (ticks (store h)) then None else Some t)"
proof -
  obtain u where u: "authenticate_user E name pw (store g) = Some u"
    using assms by (auto simp: login_def split: option.splits)
  define ds where "ds = map (\<lambda>d. d\<lparr>dv_dept_id := normalize_dept_id (dv_dept_id d)\<rparr>)
    (get_user_departments (pu_user_id u) (store g))"
  define t where "t = \<lparr>t_sub = Some (pu_user_id u), t_login_id = Some (pu_login_id u),
    t_display_name = Some (pu_display_name u), t_dept_ids = map dv_dept_id ds,
    t_default_dept_id = Some (dv_dept_id (case find dv_is_default ds of Some d \<Rightarrow> d | None \<Rightarrow> hd ds)),
    t_iat = Some (epoch_now E (ticks (store g))),
    t_exp = Some (epoch_now E (ticks (store g)) + token_ttl_seconds C)\<rparr>"
  define d where "d = (case find dv_is_default ds of Some d \<Rightarrow> d | None \<Rightarrow> hd ds)"
  have "login E C name pw g = (if ds = [] then (g, None) else (upd_store tick g,
      Some \<lparr>lr_access_token = create_token E (auth_secret C) t, lr_expires_in = token_ttl_seconds C,
        lr_user_id = pu_user_id u, lr_login_id = pu_login_id u, lr_display_name = pu_display_name u,
        lr_dept = dept_code (dv_dept_id d), lr_departments = ds, lr_default_dept_id = dv_dept_id d\<rparr>))"
    unfolding login_def u by (simp only: option.case Let_def ds_def t_def d_def)
  with assms have r: "lr_user_id r = pu_user_id u" "lr_access_token r = create_token E (auth_secret C) t"
    by (auto split: if_splits)
  have "token_depts t = normalize_dept_id ` dv_dept_id ` set (get_user_departments (pu_user_id u) (store g))"
    by (auto simp: token_depts_def t_def ds_def image_image)
  moreover have "auth_payload E C (''Bearer '' @ lr_access_token r) h =
      (if epoch_now E (ticks (store g)) + token_ttl_seconds C < epoch_now E (ticks (store h)) then None else Some t)"
    using parse_create_token [of E "auth_secret C" "ticks (store h)" t]
    by (simp add: auth_payload_def r(2) strip_plain token_no_space) (simp add: t_def)
  moreover have "token_user t = pu_user_id u" by (simp add: token_user_def t_def)
  ultimately show ?thesis using u r by blast
qed

theorem login_token_authenticates_witness:
  "\<exists>g' r t. login env0 cfg0 ''alice'' ''secret'' gw0 = (g', Some r) \<and>
     auth_payload env0 cfg0 (''Bearer '' @ lr_access_token r) g' = Some t \<and> token_user t = ''alice''"
proof -
  have "case snd (login env0 cfg0 ''alice'' ''secret'' gw0) of None \<Rightarrow> False | Some r \<Rightarrow> lr_user_id r = ''alice''"
    and ticks: "ticks (store (fst (login env0 cfg0 ''alice'' ''secret'' gw0))) = 1"
    by code_simp+
  then obtain g' r where *: "login env0 cfg0 ''alice'' ''secret'' gw0 = (g', Some r)" and r: "lr_user_id r = ''alice''"
    by (cases "login env0 cfg0 ''alice'' ''secret'' gw0") (auto split: option.splits)
  from login_token_authenticates [OF *, of g'] ticks * r show ?thesis
    by (auto simp: gw0_def cfg0_def)
qed

text \<open>
  C37: an accepted \<open>Authorization\<close> header carries a body, in base64, with the HMAC of that
  body under the server's secret, and the body's expiry has not passed.
\<close>

theorem accepted_tokens_are_signed:
  assumes "auth_payload E C h g = Some t"
  shows "starts_with ''Bearer '' h \<and>
    (\<exists>a b body kvs e. split_dot (str_strip (drop 7 h)) = Some (a, b) \<and> b64url_decode a = Some body \<and>
       b64url_decode b = Some (hmac_sha256 E (auth_secret C) body) \<and> loads body = Some (JObj kvs) \<and>
       t = json_token kvs \<and> exp_of kvs = Some e \<and> epoch_now E (ticks (store g)) \<le> e)"
  using assms parse_token_signed [of E "auth_secret C" "ticks (store g)" "str_strip (drop 7 h)" t]
  by (simp add: auth_payload_def split: if_splits)

theorem accepted_tokens_are_signed_witness:
  "\<exists>a b body. split_dot (create_token env0 ''k'' (token0 ''alice'' ''dept_mp_q'')) = Some (a, b) \<and>
     b64url_decode a = Some body \<and> b64url_decode b = Some (hmac_sha256 env0 ''k'' body)"
proof -
  let ?h = "''Bearer '' @ create_token env0 ''k'' (token0 ''alice'' ''dept_mp_q'')"
  have strip: "str_strip (create_token env0 ''k'' t) = create_token env0 ''k'' t" for t
    by (rule strip_plain) (rule token_no_space)
  have "auth_payload env0 cfg0 ?h gw0 = Some (token0 ''alice'' ''dept_mp_q'')"
    by (simp add: auth_payload_def strip cfg0_def parse_create_token) (simp add: token0_def gw0_def)
  from accepted_tokens_are_signed [OF this] show ?thesis
    by (auto simp: strip cfg0_def)
qed

text \<open>
  C12: no request, restart or answer of a service removes or rewrites an audit row: along any
  run the old log is a prefix of the new one.
\<close>

theorem audit_log_only_grows:
  assumes "(portal_step E C R wc)\<^sup>*\<^sup>* g g'" and "store_ok (store g)"
  shows "\<exists>rows. audit_logs (store g') = audit_logs (store g) @ rows"
  using audit_kept.J_steps [OF assms(1), of "audit_logs (store g)"] assms(2)
  by (simp add: audit_extends_def)

theorem audit_log_only_grows_witness:
  "\<exists>g'. portal_step env0 cfg0 rag0 (\<lambda>_. False) gw0 g' \<and> (\<exists>rows. audit_logs (store g') = audit_logs db0 @ rows)"
proof -
  have ok: "store_ok (store gw0)" by (simp add: gw0_def store_ok_db0)
  have step: "portal_step env0 cfg0 rag0 (\<lambda>_. False) gw0 (upd_store tick gw0)" by (rule portal_step.clock)
  have "(portal_step env0 cfg0 rag0 (\<lambda>_. False))\<^sup>*\<^sup>* gw0 (upd_store tick gw0)"
    using step by (rule r_into_rtranclp)
  from audit_log_only_grows [OF this ok] step show ?thesis by (auto simp: gw0_def)
qed

text \<open>
  Requests are served in threads, each store call being one transaction; whatever
  way the store calls of several requests alternate, the schema and the row conditions hold.
\<close>

lemma interleaved_calls_keep_store_ok:
  assumes "(store_step E)\<^sup>*\<^sup>* empty_db s"
  shows "store_ok s"
  by (rule transactions.reachable_inv [OF refl assms])

text \<open>
  No request makes two accounts have the same login up to case.
\<close>

lemma logins_stay_unique:
  assumes "handle E C R wc h rid req g = Some (g', r)" and "store_ok (store g)" and "logins_unique (store g)"
  shows "logins_unique (store g')"
  using logins.J_handle [OF assms(1)] assms(2,3) by simp

text \<open>
  C36: every request is answered, provided the service sends only short pages of agents from
  some page on (the loop over the pages of agents has no other bound).
\<close>

theorem every_request_is_answered:
  assumes "\<And>n key p. P \<le> p \<Longrightarrow>
    case on_list_agents R n key p 200 None of None \<Rightarrow> True | Some b \<Rightarrow> length b < 200"
  shows "\<exists>g' r. handle E C R wc h rid req g = Some (g', r)"
proof -
  have "list_resources E C R tok d t g \<noteq> None" for tok d t
    using list_resources_returns [of P R E C tok d t g, OF assms] by auto
  then have "route_resources E C R h rid d t g \<noteq> None" for d t
    by (simp add: route_resources_def Let_def del: not_None_eq split: option.split)
  then have "\<exists>out. route_resources E C R h rid d t g = Some out" for d t by blast
  then show ?thesis by (cases req) (auto simp: answer_def split: option.split)
qed

theorem every_request_is_answered_witness:
  "\<exists>g' r. handle env0 cfg0 rag0 (\<lambda>_. False) [] ''r'' (Resources [] ''all'') gw0 = Some (g', r)"
  by (rule every_request_is_answered [where P = 0]) (simp add: rag0_def)

end
